(* ===== verification/Prelude.thy ===== *)
theory Prelude
  imports Main "HOL-Library.Word" "HOL-Library.State_Monad" "HOL-Library.Sublist"
begin

text \<open>
  Shared vocabulary of the development: bytes and Go strings, Go's fixed-width integers,
  the big-endian layout of \<^verbatim>\<open>encoding/binary\<close>, running a stateful
  computation for its final state, and the fact collections the component proofs use.

  A Go \<^verbatim>\<open>byte\<close> is a \<^typ>\<open>char\<close> (256 values), so a Go string and a byte
  slice have the same contents type and a conversion between them is the identity on
  contents. A byte slice that may be \<^verbatim>\<open>nil\<close> is \<^typ>\<open>char list option\<close>,
  because several operations distinguish nil from empty. The target is 64-bit: Go's
  \<^verbatim>\<open>int\<close>, \<^verbatim>\<open>int64\<close> and \<^verbatim>\<open>uint64\<close> that travel on the wire
  are \<^typ>\<open>64 word\<close>, read as signed by \<^const>\<open>sint\<close>.
\<close>

type_synonym bytes = "char list"
type_synonym gostring = "char list"
type_synonym slice = "char list option"
type_synonym uint32 = "32 word"
type_synonym uint64 = "64 word"
type_synonym int64 = "64 word"
type_synonym goint = "64 word"

named_theorems codec_steps \<open>round-trip rules that consume the first or the last field of a sequence\<close>
named_theorems grow_intros \<open>lower bounds on the metadata an encoder writes\<close>
named_theorems keeps_intros \<open>operations that keep an encoder invariant\<close>
named_theorems wire_simps \<open>execution rules of the wire reader and writer\<close>

definition maxInt :: int where "maxInt = 2 ^ 63 - 1"
definition minInt :: int where "minInt = - (2 ^ 63)"
definition maxUint64 :: nat where "maxUint64 = 2 ^ 64 - 1"

abbreviation exec :: "('s, 'a) state \<Rightarrow> 's \<Rightarrow> 's" where
  "exec m s \<equiv> snd (run_state m s)"

abbreviation ret :: "'a \<Rightarrow> ('s, 'a) state" where
  "ret \<equiv> State_Monad.return"

lemma run_state_update [simp]: "run_state (State_Monad.update f) s = ((), f s)"
  by (simp add: State_Monad.update_def)

lemma bind_run: "run_state (State_Monad.bind m f) s = run_state (f (fst (run_state m s))) (exec m s)"
  by (simp add: case_prod_unfold)

declare State_Monad.run_state_bind [simp del] bind_run [simp]

section \<open>Nil-able slices\<close>

definition slice_len :: "slice \<Rightarrow> nat" where
  "slice_len s = (case s of None \<Rightarrow> 0 | Some b \<Rightarrow> length b)"

text \<open>Go's conversion \<^verbatim>\<open>string(b)\<close>: nil and empty both give the empty string.\<close>

definition str_of :: "slice \<Rightarrow> gostring" where
  "str_of s = (case s of None \<Rightarrow> [] | Some b \<Rightarrow> b)"

lemma slice_simps [simp]:
  "slice_len None = 0" "slice_len (Some b) = length b"
  "str_of None = []" "str_of (Some b) = b"
  by (simp_all add: slice_len_def str_of_def)

section \<open>Big-endian integers\<close>

fun be_bytes :: "nat \<Rightarrow> nat \<Rightarrow> bytes" where
  "be_bytes 0 k = []"
| "be_bytes (Suc n) k = be_bytes n (k div 256) @ [char_of (k mod 256)]"

definition be_nat :: "bytes \<Rightarrow> nat" where
  "be_nat bs = foldl (\<lambda>acc b. acc * 256 + of_char b) 0 bs"

lemma length_be_bytes [simp]: "length (be_bytes n k) = n"
  by (induction n arbitrary: k) auto

lemma be_nat_snoc [simp]: "be_nat (bs @ [b]) = be_nat bs * 256 + of_char b"
  by (simp add: be_nat_def)

lemma be_nat_Nil [simp]: "be_nat [] = 0"
  by (simp add: be_nat_def)

lemma be_nat_be_bytes: "be_nat (be_bytes n k) = k mod 256 ^ n"
proof (induction n arbitrary: k)
  case 0
  then show ?case by simp
next
  case (Suc n)
  have "k mod 256 ^ Suc n = 256 * (k div 256 mod 256 ^ n) + k mod 256"
    by (simp add: mod_mult2_eq)
  with Suc show ?case by simp
qed

lemma be_nat_less: "be_nat bs < 256 ^ length bs"
proof (induction bs rule: rev_induct)
  case Nil
  then show ?case by simp
next
  case (snoc b bs)
  have "be_nat (bs @ [b]) < Suc (be_nat bs) * 256" by simp
  also from snoc have "\<dots> \<le> 256 ^ length bs * 256" by (intro mult_le_mono1) simp
  finally show ?case by simp
qed

lemma be32_roundtrip [simp]: "word_of_nat (be_nat (be_bytes 4 (unat (w :: uint32)))) = w"
proof -
  have "unat w < 256 ^ 4" using unsigned_less [of w] by simp
  then show ?thesis by (simp add: be_nat_be_bytes)
qed

lemma be64_roundtrip [simp]: "word_of_nat (be_nat (be_bytes 8 (unat (w :: uint64)))) = w"
proof -
  have "unat w < 256 ^ 8" using unsigned_less [of w] by simp
  then show ?thesis by (simp add: be_nat_be_bytes)
qed

lemma unat32_of_nat: "n < 2 ^ 32 \<Longrightarrow> unat (word_of_nat n :: uint32) = n"
  by (simp add: unsigned_of_nat take_bit_nat_eq_self)

lemma unat64_of_nat: "n < 2 ^ 64 \<Longrightarrow> unat (word_of_nat n :: uint64) = n"
  by (simp add: unsigned_of_nat take_bit_nat_eq_self)

lemma unat_less64: "unat (w :: uint64) < 18446744073709551616"
  using unsigned_less [of w, where ?'a = nat] by simp

section \<open>Prefixes\<close>

lemma prefix_drop_append:
  "prefix (xs @ ys) zs \<Longrightarrow> drop (length xs) zs = ys @ drop (length xs + length ys) zs"
  by (auto simp: prefix_def)

lemma prefix_nth: "prefix xs zs \<Longrightarrow> i < length xs \<Longrightarrow> zs ! i = xs ! i"
  by (auto simp: prefix_def nth_append)

lemma prefix_len: "prefix xs zs \<Longrightarrow> length xs \<le> length zs"
  by (rule prefix_length_le)

section \<open>Loops over lists\<close>

text \<open>\<^verbatim>\<open>for _, v := range vs { f(v) }\<close> and a counted read into a fresh slice.\<close>

fun each :: "('a \<Rightarrow> ('s, unit) state) \<Rightarrow> 'a list \<Rightarrow> ('s, unit) state" where
  "each f [] = ret ()"
| "each f (x # xs) = do { f x; each f xs }"

fun counted :: "nat \<Rightarrow> ('s, 'a) state \<Rightarrow> ('s, 'a list) state" where
  "counted 0 m = ret []"
| "counted (Suc n) m = do { x \<leftarrow> m; xs \<leftarrow> counted n m; ret (x # xs) }"

end
