(* ===== verification/Error_Codes.thy ===== *)
theory Error_Codes
  imports Prelude
begin

text \<open>
  The native status codes of \<^verbatim>\<open>ckalkan/error_codes.go\<close>, their labels in English and
  Russian (\<^verbatim>\<open>ckalkan/error_labels.go\<close>), the hexadecimal rendering and the text of a
  \<^verbatim>\<open>KalkanError\<close> (\<^verbatim>\<open>ckalkan/errors.go\<close>). The Russian labels are the UTF-8
  bytes of the source literals.
\<close>

type_synonym ErrorCode = uint64

text \<open>Every named code, in the order of the source.\<close>

definition errorCodes :: "(string \<times> ErrorCode) list" where
  "errorCodes = [
     (''ErrorOK'', 0x00000000),
     (''ErrorInit'', 0x08f00001),
     (''ErrorReadPKCS12'', 0x08f00002),
     (''ErrorOpenPKCS12'', 0x08f00003),
     (''ErrorInvalidPropID'', 0x08f00004),
     (''ErrorBufferTooSmall'', 0x08f00005),
     (''ErrorCertParse'', 0x08f00006),
     (''ErrorInvalidFlag'', 0x08f00007),
     (''ErrorOpenFile'', 0x08f00008),
     (''ErrorInvalidPassword'', 0x08f00009),
     (''ErrorCertWrongDate'', 0x08f0000a),
     (''ErrorCertExpired'', 0x08f0000b),
     (''ErrorIsNotCACert'', 0x08f0000c),
     (''ErrorMemory'', 0x08f0000d),
     (''ErrorCheckChain'', 0x08f0000e),
     (''ErrorCACertKeyUsage'', 0x08f0000f),
     (''ErrorValidType'', 0x08f00010),
     (''ErrorBadCRLFormat'', 0x08f00011),
     (''ErrorLoadCRL'', 0x08f00012),
     (''ErrorLoadCRLs'', 0x08f00013),
     (''ErrorUnknownAlg'', 0x08f00015),
     (''ErrorKeyNotFound'', 0x08f00016),
     (''ErrorSignInit'', 0x08f00017),
     (''ErrorSign'', 0x08f00018),
     (''ErrorEncode'', 0x08f00019),
     (''ErrorInvalidFlags'', 0x08f0001a),
     (''ErrorCertNotFound'', 0x08f0001b),
     (''ErrorVerifySign'', 0x08f0001c),
     (''ErrorBase64Decode'', 0x08f0001d),
     (''ErrorUnknownCMSFormat'', 0x08f0001e),
     (''ErrorGetHash'', 0x08f0001f),
     (''ErrorCACertNotFound'', 0x08f00020),
     (''ErrorXMLSecInit'', 0x08f00021),
     (''ErrorLoadTrustedCerts'', 0x08f00022),
     (''ErrorSignInvalid'', 0x08f00023),
     (''ErrorNoSignFound'', 0x08f00024),
     (''ErrorDecode'', 0x08f00025),
     (''ErrorXMLParse'', 0x08f00026),
     (''ErrorXMLAddID'', 0x08f00027),
     (''ErrorXMLInternal'', 0x08f00028),
     (''ErrorXMLSetSign'', 0x08f00029),
     (''ErrorOpenSSL'', 0x08f0002a),
     (''ErrorEngineInit'', 0x08f0002b),
     (''ErrorNoTokenFound'', 0x08f0002c),
     (''ErrorOCSPAddCert'', 0x08f0002d),
     (''ErrorOCSPParseURL'', 0x08f0002e),
     (''ErrorOCSPAddHost'', 0x08f0002f),
     (''ErrorOCSPReq'', 0x08f00030),
     (''ErrorOCSPConnection'', 0x08f00031),
     (''ErrorVerifyNoData'', 0x08f00032),
     (''ErrorIDAttrNotFound'', 0x08f00033),
     (''ErrorIDRange'', 0x08f00034),
     (''ErrorXMLKeyDup'', 0x08f00035),
     (''ErrorXMLKeyCreate'', 0x08f00036),
     (''ErrorReaderNotFound'', 0x08f00037),
     (''ErrorGetCertProp'', 0x08f00038),
     (''ErrorSignFormat'', 0x08f00039),
     (''ErrorInDataFormat'', 0x08f0003a),
     (''ErrorOutDataFormat'', 0x08f0003b),
     (''ErrorVerifyInit'', 0x08f0003c),
     (''ErrorVerify'', 0x08f0003d),
     (''ErrorHash'', 0x08f0003e),
     (''ErrorSignHash'', 0x08f0003f),
     (''ErrorCACertsNotFound'', 0x08f00040),
     (''ErrorCertTimeInvalid'', 0x08f00042),
     (''ErrorConvert'', 0x08f00043),
     (''ErrorTSACreateQuery'', 0x08f00044),
     (''ErrorCreateObj'', 0x08f00045),
     (''ErrorCreateNonce'', 0x08f00046),
     (''ErrorHTTP'', 0x08f00047),
     (''ErrorCADESBESFailed'', 0x08f00048),
     (''ErrorCADESTFailed'', 0x08f00049),
     (''ErrorNoTSAToken'', 0x08f0004a),
     (''ErrorInvalidDigestLen'', 0x08f0004b),
     (''ErrorGenRand'', 0x08f0004c),
     (''ErrorSoapNS'', 0x08f0004d),
     (''ErrorGetPubKey'', 0x08f0004e),
     (''ErrorGetCertInfo'', 0x08f0004f),
     (''ErrorFileRead'', 0x08f00050),
     (''ErrorCheck'', 0x08f00051),
     (''ErrorZipExtract'', 0x08f00052),
     (''ErrorNoManifestFile'', 0x08f00053),
     (''ErrorVerifyTSHash'', 0x08f00054),
     (''ErrorXADESTFailed'', 0x08f00055),
     (''ErrorOCSPRespStatMalformedRequest'', 0x08f00056),
     (''ErrorOCSPRespStatInternalError'', 0x08f00057),
     (''ErrorOCSPRespStatTryLater'', 0x08f00058),
     (''ErrorOCSPRespStatSigRequired'', 0x08f00059),
     (''ErrorOCSPRespStatUnauthorized'', 0x08f0005a),
     (''ErrorVerifyIssuerSerialV2'', 0x08f0005b),
     (''ErrorOCSPCheckCertFromResp'', 0x08f0005c),
     (''ErrorCRLExpired'', 0x08f0005d),
     (''ErrorLibraryNotInitialized'', 0x08f00101),
     (''ErrorEngineLoad'', 0x08f00200),
     (''ErrorParam'', 0x08f00300),
     (''ErrorCertStatusOK'', 0x08f00400),
     (''ErrorCertStatusRevoked'', 0x08f00401),
     (''ErrorCertStatusUnknown'', 0x08f00402)]"

definition ErrorOK :: ErrorCode where "ErrorOK = 0x00000000"
definition ErrorBufferTooSmall :: ErrorCode where "ErrorBufferTooSmall = 0x08f00005"
definition ErrorMemory :: ErrorCode where "ErrorMemory = 0x08f0000d"
definition ErrorLibraryNotInitialized :: ErrorCode where "ErrorLibraryNotInitialized = 0x08f00101"
definition ErrorCertStatusRevoked :: ErrorCode where "ErrorCertStatusRevoked = 0x08f00401"

record localizedErrorLabel =
  english :: gostring
  russian :: gostring

text \<open>The label table, each row keyed by the value of the constant its comment names.\<close>

definition localizedErrorLabels :: "(ErrorCode \<times> localizedErrorLabel) list" where
  "localizedErrorLabels = [
     (0x00000000, \<lparr>english = ''no error'',
       russian = map char_of [208 :: nat, 189, 208, 181, 209, 130, 32, 208, 190, 209, 136, 208,
       184, 208, 177, 208, 186, 208, 184]\<rparr>),
     (0x08f00001, \<lparr>english = ''initialization error'',
       russian = map char_of [208 :: nat, 190, 209, 136, 208, 184, 208, 177, 208, 186, 208,
       176, 32, 208, 184, 208, 189, 208, 184, 209, 134, 208, 184, 208, 176, 208, 187, 208, 184,
       208, 183, 208, 176, 209, 134, 208, 184, 208, 184]\<rparr>),
     (0x08f00002, \<lparr>english = ''cannot read PKCS#12 file'',
       russian = map char_of [208 :: nat, 189, 208, 181, 208, 178, 208, 190, 208, 183, 208,
       188, 208, 190, 208, 182, 208, 189, 208, 190, 32, 208, 191, 209, 128, 208, 190, 209, 135,
       208, 184, 209, 130, 208, 176, 209, 130, 209, 140, 32, 209, 132, 208, 176, 208, 185, 208,
       187, 32, 80, 75, 67, 83, 35, 49, 50]\<rparr>),
     (0x08f00003, \<lparr>english = ''cannot open PKCS#12 file'',
       russian = map char_of [208 :: nat, 189, 208, 181, 208, 178, 208, 190, 208, 183, 208,
       188, 208, 190, 208, 182, 208, 189, 208, 190, 32, 208, 190, 209, 130, 208, 186, 209, 128,
       209, 139, 209, 130, 209, 140, 32, 209, 132, 208, 176, 208, 185, 208, 187, 32, 80, 75,
       67, 83, 35, 49, 50]\<rparr>),
     (0x08f00004, \<lparr>english = ''invalid certificate property identifier'',
       russian = map char_of [208 :: nat, 189, 208, 181, 208, 180, 208, 190, 208, 191, 209,
       131, 209, 129, 209, 130, 208, 184, 208, 188, 209, 139, 208, 185, 32, 208, 184, 208, 180,
       208, 181, 208, 189, 209, 130, 208, 184, 209, 132, 208, 184, 208, 186, 208, 176, 209,
       130, 208, 190, 209, 128, 32, 209, 129, 208, 178, 208, 190, 208, 185, 209, 129, 209, 130,
       208, 178, 208, 176, 32, 209, 129, 208, 181, 209, 128, 209, 130, 208, 184, 209, 132, 208,
       184, 208, 186, 208, 176, 209, 130, 208, 176]\<rparr>),
     (0x08f00005, \<lparr>english = ''buffer is too small'',
       russian = map char_of [208 :: nat, 177, 209, 131, 209, 132, 208, 181, 209, 128, 32, 209,
       129, 208, 187, 208, 184, 209, 136, 208, 186, 208, 190, 208, 188, 32, 208, 188, 208, 176,
       208, 187]\<rparr>),
     (0x08f00006, \<lparr>english = ''certificate parse error'',
       russian = map char_of [208 :: nat, 190, 209, 136, 208, 184, 208, 177, 208, 186, 208,
       176, 32, 209, 128, 208, 176, 208, 183, 208, 177, 208, 190, 209, 128, 208, 176, 32, 209,
       129, 208, 181, 209, 128, 209, 130, 208, 184, 209, 132, 208, 184, 208, 186, 208, 176,
       209, 130, 208, 176]\<rparr>),
     (0x08f00007, \<lparr>english = ''invalid flag'',
       russian = map char_of [208 :: nat, 189, 208, 181, 208, 180, 208, 190, 208, 191, 209,
       131, 209, 129, 209, 130, 208, 184, 208, 188, 209, 139, 208, 185, 32, 209, 132, 208, 187,
       208, 176, 208, 179]\<rparr>),
     (0x08f00008, \<lparr>english = ''cannot open file'',
       russian = map char_of [208 :: nat, 189, 208, 181, 208, 178, 208, 190, 208, 183, 208,
       188, 208, 190, 208, 182, 208, 189, 208, 190, 32, 208, 190, 209, 130, 208, 186, 209, 128,
       209, 139, 209, 130, 209, 140, 32, 209, 132, 208, 176, 208, 185, 208, 187]\<rparr>),
     (0x08f00009, \<lparr>english = ''invalid password'',
       russian = map char_of [208 :: nat, 189, 208, 181, 208, 191, 209, 128, 208, 176, 208,
       178, 208, 184, 208, 187, 209, 140, 208, 189, 209, 139, 208, 185, 32, 208, 191, 208, 176,
       209, 128, 208, 190, 208, 187, 209, 140]\<rparr>),
     (0x08f0000a, \<lparr>english = ''invalid certificate date'',
       russian = map char_of [208 :: nat, 189, 208, 181, 208, 186, 208, 190, 209, 128, 209,
       128, 208, 181, 208, 186, 209, 130, 208, 189, 208, 176, 209, 143, 32, 208, 180, 208, 176,
       209, 130, 208, 176, 32, 209, 129, 208, 181, 209, 128, 209, 130, 208, 184, 209, 132, 208,
       184, 208, 186, 208, 176, 209, 130, 208, 176]\<rparr>),
     (0x08f0000b, \<lparr>english = ''certificate expired'',
       russian = map char_of [209 :: nat, 129, 208, 181, 209, 128, 209, 130, 208, 184, 209,
       132, 208, 184, 208, 186, 208, 176, 209, 130, 32, 208, 184, 209, 129, 209, 130, 208, 181,
       208, 186]\<rparr>),
     (0x08f0000c, \<lparr>english = ''certificate is not a CA certificate'',
       russian = map char_of [209 :: nat, 129, 208, 181, 209, 128, 209, 130, 208, 184, 209,
       132, 208, 184, 208, 186, 208, 176, 209, 130, 32, 208, 189, 208, 181, 32, 209, 143, 208,
       178, 208, 187, 209, 143, 208, 181, 209, 130, 209, 129, 209, 143, 32, 209, 129, 208, 181,
       209, 128, 209, 130, 208, 184, 209, 132, 208, 184, 208, 186, 208, 176, 209, 130, 208,
       190, 208, 188, 32, 208, 163, 208, 166]\<rparr>),
     (0x08f0000d, \<lparr>english = ''memory allocation error'',
       russian = map char_of [208 :: nat, 190, 209, 136, 208, 184, 208, 177, 208, 186, 208,
       176, 32, 208, 178, 209, 139, 208, 180, 208, 181, 208, 187, 208, 181, 208, 189, 208, 184,
       209, 143, 32, 208, 191, 208, 176, 208, 188, 209, 143, 209, 130, 208, 184]\<rparr>),
     (0x08f0000e, \<lparr>english = ''certificate chain validation error'',
       russian = map char_of [208 :: nat, 190, 209, 136, 208, 184, 208, 177, 208, 186, 208,
       176, 32, 208, 191, 208, 190, 209, 129, 209, 130, 209, 128, 208, 190, 208, 181, 208, 189,
       208, 184, 209, 143, 47, 208, 191, 209, 128, 208, 190, 208, 178, 208, 181, 209, 128, 208,
       186, 208, 184, 32, 209, 134, 208, 181, 208, 191, 208, 190, 209, 135, 208, 186, 208, 184,
       32, 209, 129, 208, 181, 209, 128, 209, 130, 208, 184, 209, 132, 208, 184, 208, 186, 208,
       176, 209, 130, 208, 190, 208, 178]\<rparr>),
     (0x08f0000f, \<lparr>english = ''invalid CA certificate key usage'',
       russian = map char_of [208 :: nat, 189, 208, 181, 208, 186, 208, 190, 209, 128, 209,
       128, 208, 181, 208, 186, 209, 130, 208, 189, 208, 190, 208, 181, 32, 208, 184, 209, 129,
       208, 191, 208, 190, 208, 187, 209, 140, 208, 183, 208, 190, 208, 178, 208, 176, 208,
       189, 208, 184, 208, 181, 32, 208, 186, 208, 187, 209, 142, 209, 135, 208, 176, 32, 209,
       129, 208, 181, 209, 128, 209, 130, 208, 184, 209, 132, 208, 184, 208, 186, 208, 176,
       209, 130, 208, 176, 32, 208, 163, 208, 166]\<rparr>),
     (0x08f00010, \<lparr>english = ''invalid validation type'',
       russian = map char_of [208 :: nat, 189, 208, 181, 208, 180, 208, 190, 208, 191, 209,
       131, 209, 129, 209, 130, 208, 184, 208, 188, 209, 139, 208, 185, 32, 209, 130, 208, 184,
       208, 191, 32, 208, 178, 208, 176, 208, 187, 208, 184, 208, 180, 208, 176, 209, 134, 208,
       184, 208, 184]\<rparr>),
     (0x08f00011, \<lparr>english = ''invalid CRL format'',
       russian = map char_of [208 :: nat, 189, 208, 181, 208, 186, 208, 190, 209, 128, 209,
       128, 208, 181, 208, 186, 209, 130, 208, 189, 209, 139, 208, 185, 32, 209, 132, 208, 190,
       209, 128, 208, 188, 208, 176, 209, 130, 32, 67, 82, 76]\<rparr>),
     (0x08f00012, \<lparr>english = ''cannot load CRL'',
       russian = map char_of [208 :: nat, 189, 208, 181, 208, 178, 208, 190, 208, 183, 208,
       188, 208, 190, 208, 182, 208, 189, 208, 190, 32, 208, 183, 208, 176, 208, 179, 209, 128,
       209, 131, 208, 183, 208, 184, 209, 130, 209, 140, 32, 67, 82, 76]\<rparr>),
     (0x08f00013, \<lparr>english = ''cannot load CRLs'',
       russian = map char_of [208 :: nat, 189, 208, 181, 208, 178, 208, 190, 208, 183, 208,
       188, 208, 190, 208, 182, 208, 189, 208, 190, 32, 208, 183, 208, 176, 208, 179, 209, 128,
       209, 131, 208, 183, 208, 184, 209, 130, 209, 140, 32, 67, 82, 76, 45, 209, 139]\<rparr>),
     (0x08f00015, \<lparr>english = ''unknown algorithm'',
       russian = map char_of [208 :: nat, 189, 208, 181, 208, 184, 208, 183, 208, 178, 208,
       181, 209, 129, 209, 130, 208, 189, 209, 139, 208, 185, 32, 208, 176, 208, 187, 208, 179,
       208, 190, 209, 128, 208, 184, 209, 130, 208, 188]\<rparr>),
     (0x08f00016, \<lparr>english = ''private key not found'',
       russian = map char_of [208 :: nat, 191, 209, 128, 208, 184, 208, 178, 208, 176, 209,
       130, 208, 189, 209, 139, 208, 185, 32, 208, 186, 208, 187, 209, 142, 209, 135, 32, 208,
       189, 208, 181, 32, 208, 189, 208, 176, 208, 185, 208, 180, 208, 181, 208, 189]\<rparr>),
     (0x08f00017, \<lparr>english = ''signature initialization error'',
       russian = map char_of [208 :: nat, 190, 209, 136, 208, 184, 208, 177, 208, 186, 208,
       176, 32, 208, 184, 208, 189, 208, 184, 209, 134, 208, 184, 208, 176, 208, 187, 208, 184,
       208, 183, 208, 176, 209, 134, 208, 184, 208, 184, 32, 208, 191, 208, 190, 208, 180, 208,
       191, 208, 184, 209, 129, 208, 184]\<rparr>),
     (0x08f00018, \<lparr>english = ''signature error'',
       russian = map char_of [208 :: nat, 190, 209, 136, 208, 184, 208, 177, 208, 186, 208,
       176, 32, 208, 191, 208, 190, 208, 180, 208, 191, 208, 184, 209, 129, 208, 184]\<rparr>),
     (0x08f00019, \<lparr>english = ''encoding error'',
       russian = map char_of [208 :: nat, 190, 209, 136, 208, 184, 208, 177, 208, 186, 208,
       176, 32, 208, 186, 208, 190, 208, 180, 208, 184, 209, 128, 208, 190, 208, 178, 208, 176,
       208, 189, 208, 184, 209, 143]\<rparr>),
     (0x08f0001a, \<lparr>english = ''invalid flags'',
       russian = map char_of [208 :: nat, 189, 208, 181, 208, 180, 208, 190, 208, 191, 209,
       131, 209, 129, 209, 130, 208, 184, 208, 188, 209, 139, 208, 181, 32, 209, 132, 208, 187,
       208, 176, 208, 179, 208, 184]\<rparr>),
     (0x08f0001b, \<lparr>english = ''certificate not found'',
       russian = map char_of [209 :: nat, 129, 208, 181, 209, 128, 209, 130, 208, 184, 209,
       132, 208, 184, 208, 186, 208, 176, 209, 130, 32, 208, 189, 208, 181, 32, 208, 189, 208,
       176, 208, 185, 208, 180, 208, 181, 208, 189]\<rparr>),
     (0x08f0001c, \<lparr>english = ''signature verification error'',
       russian = map char_of [208 :: nat, 190, 209, 136, 208, 184, 208, 177, 208, 186, 208,
       176, 32, 208, 191, 209, 128, 208, 190, 208, 178, 208, 181, 209, 128, 208, 186, 208, 184,
       32, 208, 191, 208, 190, 208, 180, 208, 191, 208, 184, 209, 129, 208, 184]\<rparr>),
     (0x08f0001d, \<lparr>english = ''Base64 decode error'',
       russian = map char_of [208 :: nat, 190, 209, 136, 208, 184, 208, 177, 208, 186, 208,
       176, 32, 208, 180, 208, 181, 208, 186, 208, 190, 208, 180, 208, 184, 209, 128, 208, 190,
       208, 178, 208, 176, 208, 189, 208, 184, 209, 143, 32, 66, 97, 115, 101, 54, 52]\<rparr>),
     (0x08f0001e, \<lparr>english = ''unknown CMS format'',
       russian = map char_of [208 :: nat, 189, 208, 181, 208, 184, 208, 183, 208, 178, 208,
       181, 209, 129, 209, 130, 208, 189, 209, 139, 208, 185, 32, 209, 132, 208, 190, 209, 128,
       208, 188, 208, 176, 209, 130, 32, 67, 77, 83]\<rparr>),
     (0x08f0001f, \<lparr>english = ''hash retrieval error'',
       russian = map char_of [208 :: nat, 190, 209, 136, 208, 184, 208, 177, 208, 186, 208,
       176, 32, 208, 191, 208, 190, 208, 187, 209, 131, 209, 135, 208, 181, 208, 189, 208, 184,
       209, 143, 32, 209, 133, 209, 141, 209, 136, 208, 176]\<rparr>),
     (0x08f00020, \<lparr>english = ''CA certificate not found'',
       russian = map char_of [209 :: nat, 129, 208, 181, 209, 128, 209, 130, 208, 184, 209,
       132, 208, 184, 208, 186, 208, 176, 209, 130, 32, 208, 163, 208, 166, 32, 208, 189, 208,
       181, 32, 208, 189, 208, 176, 208, 185, 208, 180, 208, 181, 208, 189]\<rparr>),
     (0x08f00021, \<lparr>english = ''xmlsec initialization error'',
       russian = map char_of [208 :: nat, 190, 209, 136, 208, 184, 208, 177, 208, 186, 208,
       176, 32, 208, 184, 208, 189, 208, 184, 209, 134, 208, 184, 208, 176, 208, 187, 208, 184,
       208, 183, 208, 176, 209, 134, 208, 184, 208, 184, 32, 120, 109, 108, 115, 101,
       99]\<rparr>),
     (0x08f00022, \<lparr>english = ''trusted certificates loading error'',
       russian = map char_of [208 :: nat, 190, 209, 136, 208, 184, 208, 177, 208, 186, 208,
       176, 32, 208, 183, 208, 176, 208, 179, 209, 128, 209, 131, 208, 183, 208, 186, 208, 184,
       32, 208, 180, 208, 190, 208, 178, 208, 181, 209, 128, 208, 181, 208, 189, 208, 189, 209,
       139, 209, 133, 32, 209, 129, 208, 181, 209, 128, 209, 130, 208, 184, 209, 132, 208, 184,
       208, 186, 208, 176, 209, 130, 208, 190, 208, 178]\<rparr>),
     (0x08f00023, \<lparr>english = ''invalid signature'',
       russian = map char_of [208 :: nat, 189, 208, 181, 208, 180, 208, 190, 208, 191, 209,
       131, 209, 129, 209, 130, 208, 184, 208, 188, 208, 176, 209, 143, 32, 208, 191, 208, 190,
       208, 180, 208, 191, 208, 184, 209, 129, 209, 140]\<rparr>),
     (0x08f00024, \<lparr>english = ''signature not found'',
       russian = map char_of [208 :: nat, 191, 208, 190, 208, 180, 208, 191, 208, 184, 209,
       129, 209, 140, 32, 208, 189, 208, 181, 32, 208, 189, 208, 176, 208, 185, 208, 180, 208,
       181, 208, 189, 208, 176]\<rparr>),
     (0x08f00025, \<lparr>english = ''decode error'',
       russian = map char_of [208 :: nat, 190, 209, 136, 208, 184, 208, 177, 208, 186, 208,
       176, 32, 208, 180, 208, 181, 208, 186, 208, 190, 208, 180, 208, 184, 209, 128, 208, 190,
       208, 178, 208, 176, 208, 189, 208, 184, 209, 143]\<rparr>),
     (0x08f00026, \<lparr>english = ''XML parse error'',
       russian = map char_of [208 :: nat, 190, 209, 136, 208, 184, 208, 177, 208, 186, 208,
       176, 32, 209, 128, 208, 176, 208, 183, 208, 177, 208, 190, 209, 128, 208, 176, 32, 88,
       77, 76]\<rparr>),
     (0x08f00027, \<lparr>english = ''XML ID add error'',
       russian = map char_of [208 :: nat, 190, 209, 136, 208, 184, 208, 177, 208, 186, 208,
       176, 32, 208, 180, 208, 190, 208, 177, 208, 176, 208, 178, 208, 187, 208, 181, 208, 189,
       208, 184, 209, 143, 32, 88, 77, 76, 32, 73, 68]\<rparr>),
     (0x08f00028, \<lparr>english = ''internal XML error'',
       russian = map char_of [208 :: nat, 178, 208, 189, 209, 131, 209, 130, 209, 128, 208,
       181, 208, 189, 208, 189, 209, 143, 209, 143, 32, 208, 190, 209, 136, 208, 184, 208, 177,
       208, 186, 208, 176, 32, 88, 77, 76]\<rparr>),
     (0x08f00029, \<lparr>english = ''XML signature setup error'',
       russian = map char_of [208 :: nat, 190, 209, 136, 208, 184, 208, 177, 208, 186, 208,
       176, 32, 209, 131, 209, 129, 209, 130, 208, 176, 208, 189, 208, 190, 208, 178, 208, 186,
       208, 184, 32, 88, 77, 76, 45, 208, 191, 208, 190, 208, 180, 208, 191, 208, 184, 209,
       129, 208, 184]\<rparr>),
     (0x08f0002a, \<lparr>english = ''OpenSSL error'',
       russian = map char_of [208 :: nat, 190, 209, 136, 208, 184, 208, 177, 208, 186, 208,
       176, 32, 79, 112, 101, 110, 83, 83, 76]\<rparr>),
     (0x08f0002b, \<lparr>english = ''engine initialization error'',
       russian = map char_of [208 :: nat, 190, 209, 136, 208, 184, 208, 177, 208, 186, 208,
       176, 32, 208, 184, 208, 189, 208, 184, 209, 134, 208, 184, 208, 176, 208, 187, 208, 184,
       208, 183, 208, 176, 209, 134, 208, 184, 208, 184, 32, 101, 110, 103, 105, 110,
       101]\<rparr>),
     (0x08f0002c, \<lparr>english = ''token not found'',
       russian = map char_of [209 :: nat, 130, 208, 190, 208, 186, 208, 181, 208, 189, 32, 208,
       189, 208, 181, 32, 208, 189, 208, 176, 208, 185, 208, 180, 208, 181, 208, 189]\<rparr>),
     (0x08f0002d, \<lparr>english = ''OCSP request certificate add error'',
       russian = map char_of [208 :: nat, 190, 209, 136, 208, 184, 208, 177, 208, 186, 208,
       176, 32, 208, 180, 208, 190, 208, 177, 208, 176, 208, 178, 208, 187, 208, 181, 208, 189,
       208, 184, 209, 143, 32, 209, 129, 208, 181, 209, 128, 209, 130, 208, 184, 209, 132, 208,
       184, 208, 186, 208, 176, 209, 130, 208, 176, 32, 208, 178, 32, 79, 67, 83, 80, 45, 208,
       183, 208, 176, 208, 191, 209, 128, 208, 190, 209, 129]\<rparr>),
     (0x08f0002e, \<lparr>english = ''OCSP URL parse error'',
       russian = map char_of [208 :: nat, 190, 209, 136, 208, 184, 208, 177, 208, 186, 208,
       176, 32, 209, 128, 208, 176, 208, 183, 208, 177, 208, 190, 209, 128, 208, 176, 32, 79,
       67, 83, 80, 32, 85, 82, 76]\<rparr>),
     (0x08f0002f, \<lparr>english = ''OCSP host add error'',
       russian = map char_of [208 :: nat, 190, 209, 136, 208, 184, 208, 177, 208, 186, 208,
       176, 32, 208, 180, 208, 190, 208, 177, 208, 176, 208, 178, 208, 187, 208, 181, 208, 189,
       208, 184, 209, 143, 32, 79, 67, 83, 80, 32, 104, 111, 115, 116]\<rparr>),
     (0x08f00030, \<lparr>english = ''OCSP request creation error'',
       russian = map char_of [208 :: nat, 190, 209, 136, 208, 184, 208, 177, 208, 186, 208,
       176, 32, 209, 132, 208, 190, 209, 128, 208, 188, 208, 184, 209, 128, 208, 190, 208, 178,
       208, 176, 208, 189, 208, 184, 209, 143, 32, 79, 67, 83, 80, 45, 208, 183, 208, 176, 208,
       191, 209, 128, 208, 190, 209, 129, 208, 176]\<rparr>),
     (0x08f00031, \<lparr>english = ''OCSP connection error'',
       russian = map char_of [208 :: nat, 190, 209, 136, 208, 184, 208, 177, 208, 186, 208,
       176, 32, 209, 129, 208, 190, 208, 181, 208, 180, 208, 184, 208, 189, 208, 181, 208, 189,
       208, 184, 209, 143, 32, 209, 129, 32, 79, 67, 83, 80]\<rparr>),
     (0x08f00032, \<lparr>english = ''no data to verify'',
       russian = map char_of [208 :: nat, 189, 208, 181, 209, 130, 32, 208, 180, 208, 176, 208,
       189, 208, 189, 209, 139, 209, 133, 32, 208, 180, 208, 187, 209, 143, 32, 208, 191, 209,
       128, 208, 190, 208, 178, 208, 181, 209, 128, 208, 186, 208, 184]\<rparr>),
     (0x08f00033, \<lparr>english = ''ID attribute not found'',
       russian = map char_of [208 :: nat, 176, 209, 130, 209, 128, 208, 184, 208, 177, 209,
       131, 209, 130, 32, 73, 68, 32, 208, 189, 208, 181, 32, 208, 189, 208, 176, 208, 185,
       208, 180, 208, 181, 208, 189]\<rparr>),
     (0x08f00034, \<lparr>english = ''invalid ID range or index'',
       russian = map char_of [208 :: nat, 189, 208, 181, 208, 186, 208, 190, 209, 128, 209,
       128, 208, 181, 208, 186, 209, 130, 208, 189, 209, 139, 208, 185, 32, 208, 180, 208, 184,
       208, 176, 208, 191, 208, 176, 208, 183, 208, 190, 208, 189, 47, 208, 189, 208, 190, 208,
       188, 208, 181, 209, 128, 32, 73, 68]\<rparr>),
     (0x08f00035, \<lparr>english = ''duplicate XML key'',
       russian = map char_of [208 :: nat, 180, 209, 131, 208, 177, 208, 187, 208, 184, 209,
       128, 208, 190, 208, 178, 208, 176, 208, 189, 208, 184, 208, 181, 32, 88, 77, 76, 45,
       208, 186, 208, 187, 209, 142, 209, 135, 208, 176]\<rparr>),
     (0x08f00036, \<lparr>english = ''XML key creation error'',
       russian = map char_of [208 :: nat, 190, 209, 136, 208, 184, 208, 177, 208, 186, 208,
       176, 32, 209, 129, 208, 190, 208, 183, 208, 180, 208, 176, 208, 189, 208, 184, 209, 143,
       32, 88, 77, 76, 45, 208, 186, 208, 187, 209, 142, 209, 135, 208, 176]\<rparr>),
     (0x08f00037, \<lparr>english = ''reader not found'',
       russian = map char_of [209 :: nat, 128, 208, 184, 208, 180, 208, 181, 209, 128, 32, 208,
       189, 208, 181, 32, 208, 189, 208, 176, 208, 185, 208, 180, 208, 181, 208, 189]\<rparr>),
     (0x08f00038, \<lparr>english = ''certificate property retrieval error'',
       russian = map char_of [208 :: nat, 190, 209, 136, 208, 184, 208, 177, 208, 186, 208,
       176, 32, 208, 191, 208, 190, 208, 187, 209, 131, 209, 135, 208, 181, 208, 189, 208, 184,
       209, 143, 32, 209, 129, 208, 178, 208, 190, 208, 185, 209, 129, 209, 130, 208, 178, 208,
       176, 32, 209, 129, 208, 181, 209, 128, 209, 130, 208, 184, 209, 132, 208, 184, 208, 186,
       208, 176, 209, 130, 208, 176]\<rparr>),
     (0x08f00039, \<lparr>english = ''unknown signature format'',
       russian = map char_of [208 :: nat, 189, 208, 181, 208, 184, 208, 183, 208, 178, 208,
       181, 209, 129, 209, 130, 208, 189, 209, 139, 208, 185, 32, 209, 132, 208, 190, 209, 128,
       208, 188, 208, 176, 209, 130, 32, 208, 191, 208, 190, 208, 180, 208, 191, 208, 184, 209,
       129, 208, 184]\<rparr>),
     (0x08f0003a, \<lparr>english = ''unknown input data format'',
       russian = map char_of [208 :: nat, 189, 208, 181, 208, 184, 208, 183, 208, 178, 208,
       181, 209, 129, 209, 130, 208, 189, 209, 139, 208, 185, 32, 209, 132, 208, 190, 209, 128,
       208, 188, 208, 176, 209, 130, 32, 208, 178, 209, 133, 208, 190, 208, 180, 208, 189, 209,
       139, 209, 133, 32, 208, 180, 208, 176, 208, 189, 208, 189, 209, 139, 209, 133]\<rparr>),
     (0x08f0003b, \<lparr>english = ''unknown output data format'',
       russian = map char_of [208 :: nat, 189, 208, 181, 208, 184, 208, 183, 208, 178, 208,
       181, 209, 129, 209, 130, 208, 189, 209, 139, 208, 185, 32, 209, 132, 208, 190, 209, 128,
       208, 188, 208, 176, 209, 130, 32, 208, 178, 209, 139, 209, 133, 208, 190, 208, 180, 208,
       189, 209, 139, 209, 133, 32, 208, 180, 208, 176, 208, 189, 208, 189, 209, 139, 209,
       133]\<rparr>),
     (0x08f0003c, \<lparr>english = ''verification initialization error'',
       russian = map char_of [208 :: nat, 190, 209, 136, 208, 184, 208, 177, 208, 186, 208,
       176, 32, 208, 184, 208, 189, 208, 184, 209, 134, 208, 184, 208, 176, 208, 187, 208, 184,
       208, 183, 208, 176, 209, 134, 208, 184, 208, 184, 32, 208, 191, 209, 128, 208, 190, 208,
       178, 208, 181, 209, 128, 208, 186, 208, 184]\<rparr>),
     (0x08f0003d, \<lparr>english = ''verification error'',
       russian = map char_of [208 :: nat, 190, 209, 136, 208, 184, 208, 177, 208, 186, 208,
       176, 32, 208, 191, 209, 128, 208, 190, 208, 178, 208, 181, 209, 128, 208, 186, 208,
       184]\<rparr>),
     (0x08f0003e, \<lparr>english = ''hashing error'',
       russian = map char_of [208 :: nat, 190, 209, 136, 208, 184, 208, 177, 208, 186, 208,
       176, 32, 209, 133, 209, 141, 209, 136, 208, 184, 209, 128, 208, 190, 208, 178, 208, 176,
       208, 189, 208, 184, 209, 143]\<rparr>),
     (0x08f0003f, \<lparr>english = ''hash signing error'',
       russian = map char_of [208 :: nat, 190, 209, 136, 208, 184, 208, 177, 208, 186, 208,
       176, 32, 208, 191, 208, 190, 208, 180, 208, 191, 208, 184, 209, 129, 208, 184, 32, 209,
       133, 209, 141, 209, 136, 208, 176]\<rparr>),
     (0x08f00040, \<lparr>english = ''CA certificates not found'',
       russian = map char_of [209 :: nat, 129, 208, 181, 209, 128, 209, 130, 208, 184, 209,
       132, 208, 184, 208, 186, 208, 176, 209, 130, 209, 139, 32, 208, 163, 208, 166, 32, 208,
       189, 208, 181, 32, 208, 189, 208, 176, 208, 185, 208, 180, 208, 181, 208, 189, 209,
       139]\<rparr>),
     (0x08f00042, \<lparr>english = ''certificate validity time is invalid'',
       russian = map char_of [209 :: nat, 129, 209, 128, 208, 190, 208, 186, 32, 208, 180, 208,
       181, 208, 185, 209, 129, 209, 130, 208, 178, 208, 184, 209, 143, 32, 209, 129, 208, 181,
       209, 128, 209, 130, 208, 184, 209, 132, 208, 184, 208, 186, 208, 176, 209, 130, 208,
       176, 32, 208, 189, 208, 181, 208, 180, 208, 181, 208, 185, 209, 129, 209, 130, 208, 178,
       208, 184, 209, 130, 208, 181, 208, 187, 208, 181, 208, 189]\<rparr>),
     (0x08f00043, \<lparr>english = ''conversion error'',
       russian = map char_of [208 :: nat, 190, 209, 136, 208, 184, 208, 177, 208, 186, 208,
       176, 32, 208, 191, 209, 128, 208, 181, 208, 190, 208, 177, 209, 128, 208, 176, 208, 183,
       208, 190, 208, 178, 208, 176, 208, 189, 208, 184, 209, 143]\<rparr>),
     (0x08f00044, \<lparr>english = ''TSA query creation error'',
       russian = map char_of [208 :: nat, 190, 209, 136, 208, 184, 208, 177, 208, 186, 208,
       176, 32, 209, 129, 208, 190, 208, 183, 208, 180, 208, 176, 208, 189, 208, 184, 209, 143,
       32, 84, 83, 65, 45, 208, 183, 208, 176, 208, 191, 209, 128, 208, 190, 209, 129, 208,
       176]\<rparr>),
     (0x08f00045, \<lparr>english = ''ASN.1 object creation error'',
       russian = map char_of [208 :: nat, 190, 209, 136, 208, 184, 208, 177, 208, 186, 208,
       176, 32, 209, 129, 208, 190, 208, 183, 208, 180, 208, 176, 208, 189, 208, 184, 209, 143,
       32, 208, 190, 208, 177, 209, 138, 208, 181, 208, 186, 209, 130, 208, 176, 32, 65, 83,
       78, 46, 49]\<rparr>),
     (0x08f00046, \<lparr>english = ''nonce creation error'',
       russian = map char_of [208 :: nat, 190, 209, 136, 208, 184, 208, 177, 208, 186, 208,
       176, 32, 209, 129, 208, 190, 208, 183, 208, 180, 208, 176, 208, 189, 208, 184, 209, 143,
       32, 110, 111, 110, 99, 101]\<rparr>),
     (0x08f00047, \<lparr>english = ''HTTP error'',
       russian = map char_of [208 :: nat, 190, 209, 136, 208, 184, 208, 177, 208, 186, 208,
       176, 32, 72, 84, 84, 80]\<rparr>),
     (0x08f00048, \<lparr>english = ''CAdES-BES processing error'',
       russian = map char_of [208 :: nat, 190, 209, 136, 208, 184, 208, 177, 208, 186, 208,
       176, 32, 67, 65, 100, 69, 83, 45, 66, 69, 83]\<rparr>),
     (0x08f00049, \<lparr>english = ''CAdES-T processing error'',
       russian = map char_of [208 :: nat, 190, 209, 136, 208, 184, 208, 177, 208, 186, 208,
       176, 32, 67, 65, 100, 69, 83, 45, 84]\<rparr>),
     (0x08f0004a, \<lparr>english = ''TSA token is absent'',
       russian = map char_of [84 :: nat, 83, 65, 45, 209, 130, 208, 190, 208, 186, 208, 181,
       208, 189, 32, 208, 190, 209, 130, 209, 129, 209, 131, 209, 130, 209, 129, 209, 130, 208,
       178, 209, 131, 208, 181, 209, 130]\<rparr>),
     (0x08f0004b, \<lparr>english = ''invalid digest length'',
       russian = map char_of [208 :: nat, 189, 208, 181, 208, 186, 208, 190, 209, 128, 209,
       128, 208, 181, 208, 186, 209, 130, 208, 189, 208, 176, 209, 143, 32, 208, 180, 208, 187,
       208, 184, 208, 189, 208, 176, 32, 208, 180, 208, 176, 208, 185, 208, 180, 208, 182, 208,
       181, 209, 129, 209, 130, 208, 176]\<rparr>),
     (0x08f0004c, \<lparr>english = ''random data generation error'',
       russian = map char_of [208 :: nat, 190, 209, 136, 208, 184, 208, 177, 208, 186, 208,
       176, 32, 208, 179, 208, 181, 208, 189, 208, 181, 209, 128, 208, 176, 209, 134, 208, 184,
       208, 184, 32, 209, 129, 208, 187, 209, 131, 209, 135, 208, 176, 208, 185, 208, 189, 209,
       139, 209, 133, 32, 208, 180, 208, 176, 208, 189, 208, 189, 209, 139, 209, 133]\<rparr>),
     (0x08f0004d, \<lparr>english = ''SOAP namespace error'',
       russian = map char_of [208 :: nat, 190, 209, 136, 208, 184, 208, 177, 208, 186, 208,
       176, 32, 83, 79, 65, 80, 32, 110, 97, 109, 101, 115, 112, 97, 99, 101]\<rparr>),
     (0x08f0004e, \<lparr>english = ''public key retrieval error'',
       russian = map char_of [208 :: nat, 190, 209, 136, 208, 184, 208, 177, 208, 186, 208,
       176, 32, 208, 191, 208, 190, 208, 187, 209, 131, 209, 135, 208, 181, 208, 189, 208, 184,
       209, 143, 32, 208, 191, 209, 131, 208, 177, 208, 187, 208, 184, 209, 135, 208, 189, 208,
       190, 208, 179, 208, 190, 32, 208, 186, 208, 187, 209, 142, 209, 135, 208, 176]\<rparr>),
     (0x08f0004f, \<lparr>english = ''certificate information retrieval error'',
       russian = map char_of [208 :: nat, 190, 209, 136, 208, 184, 208, 177, 208, 186, 208,
       176, 32, 208, 191, 208, 190, 208, 187, 209, 131, 209, 135, 208, 181, 208, 189, 208, 184,
       209, 143, 32, 208, 184, 208, 189, 209, 132, 208, 190, 209, 128, 208, 188, 208, 176, 209,
       134, 208, 184, 208, 184, 32, 208, 190, 32, 209, 129, 208, 181, 209, 128, 209, 130, 208,
       184, 209, 132, 208, 184, 208, 186, 208, 176, 209, 130, 208, 181]\<rparr>),
     (0x08f00050, \<lparr>english = ''file read error'',
       russian = map char_of [208 :: nat, 190, 209, 136, 208, 184, 208, 177, 208, 186, 208,
       176, 32, 209, 135, 209, 130, 208, 181, 208, 189, 208, 184, 209, 143, 32, 209, 132, 208,
       176, 208, 185, 208, 187, 208, 176]\<rparr>),
     (0x08f00051, \<lparr>english = ''check failed or hash mismatch'',
       russian = map char_of [208 :: nat, 190, 209, 136, 208, 184, 208, 177, 208, 186, 208,
       176, 32, 208, 191, 209, 128, 208, 190, 208, 178, 208, 181, 209, 128, 208, 186, 208, 184,
       47, 208, 189, 208, 181, 209, 129, 208, 190, 208, 178, 208, 191, 208, 176, 208, 180, 208,
       181, 208, 189, 208, 184, 208, 181, 32, 209, 133, 209, 141, 209, 136, 208, 176]\<rparr>),
     (0x08f00052, \<lparr>english = ''ZIP extraction error'',
       russian = map char_of [208 :: nat, 190, 209, 136, 208, 184, 208, 177, 208, 186, 208,
       176, 32, 208, 184, 208, 183, 208, 178, 208, 187, 208, 181, 209, 135, 208, 181, 208, 189,
       208, 184, 209, 143, 32, 90, 73, 80]\<rparr>),
     (0x08f00053, \<lparr>english = ''MANIFEST file not found'',
       russian = map char_of [209 :: nat, 132, 208, 176, 208, 185, 208, 187, 32, 77, 65, 78,
       73, 70, 69, 83, 84, 32, 208, 189, 208, 181, 32, 208, 189, 208, 176, 208, 185, 208, 180,
       208, 181, 208, 189]\<rparr>),
     (0x08f00054, \<lparr>english = ''TSA token hash verification error'',
       russian = map char_of [208 :: nat, 190, 209, 136, 208, 184, 208, 177, 208, 186, 208,
       176, 32, 208, 191, 209, 128, 208, 190, 208, 178, 208, 181, 209, 128, 208, 186, 208, 184,
       32, 209, 133, 209, 141, 209, 136, 208, 176, 32, 84, 83, 65, 45, 209, 130, 208, 190, 208,
       186, 208, 181, 208, 189, 208, 176]\<rparr>),
     (0x08f00055, \<lparr>english = ''XAdES-T verification error'',
       russian = map char_of [208 :: nat, 190, 209, 136, 208, 184, 208, 177, 208, 186, 208,
       176, 32, 208, 191, 209, 128, 208, 190, 208, 178, 208, 181, 209, 128, 208, 186, 208, 184,
       32, 88, 65, 100, 69, 83, 45, 84]\<rparr>),
     (0x08f00056, \<lparr>english = ''OCSP: malformed request'',
       russian = map char_of [79 :: nat, 67, 83, 80, 58, 32, 208, 189, 208, 181, 208, 191, 209,
       128, 208, 176, 208, 178, 208, 184, 208, 187, 209, 140, 208, 189, 209, 139, 208, 185, 32,
       208, 183, 208, 176, 208, 191, 209, 128, 208, 190, 209, 129]\<rparr>),
     (0x08f00057, \<lparr>english = ''OCSP: internal error'',
       russian = map char_of [79 :: nat, 67, 83, 80, 58, 32, 208, 178, 208, 189, 209, 131, 209,
       130, 209, 128, 208, 181, 208, 189, 208, 189, 209, 143, 209, 143, 32, 208, 190, 209, 136,
       208, 184, 208, 177, 208, 186, 208, 176]\<rparr>),
     (0x08f00058, \<lparr>english = ''OCSP: try later'',
       russian = map char_of [79 :: nat, 67, 83, 80, 58, 32, 208, 191, 208, 190, 208, 191, 209,
       128, 208, 190, 208, 177, 209, 131, 208, 185, 209, 130, 208, 181, 32, 208, 191, 208, 190,
       208, 183, 208, 182, 208, 181]\<rparr>),
     (0x08f00059, \<lparr>english = ''OCSP: signature required'',
       russian = map char_of [79 :: nat, 67, 83, 80, 58, 32, 209, 130, 209, 128, 208, 181, 208,
       177, 209, 131, 208, 181, 209, 130, 209, 129, 209, 143, 32, 208, 191, 208, 190, 208, 180,
       208, 191, 208, 184, 209, 129, 209, 140, 32, 208, 183, 208, 176, 208, 191, 209, 128, 208,
       190, 209, 129, 208, 176]\<rparr>),
     (0x08f0005a, \<lparr>english = ''OCSP: unauthorized request'',
       russian = map char_of [79 :: nat, 67, 83, 80, 58, 32, 208, 183, 208, 176, 208, 191, 209,
       128, 208, 190, 209, 129, 32, 208, 189, 208, 181, 32, 208, 176, 208, 178, 209, 130, 208,
       190, 209, 128, 208, 184, 208, 183, 208, 190, 208, 178, 208, 176, 208, 189]\<rparr>),
     (0x08f0005b, \<lparr>english = ''IssuerSerialV2 verification error'',
       russian = map char_of [208 :: nat, 190, 209, 136, 208, 184, 208, 177, 208, 186, 208,
       176, 32, 208, 191, 209, 128, 208, 190, 208, 178, 208, 181, 209, 128, 208, 186, 208, 184,
       32, 73, 115, 115, 117, 101, 114, 83, 101, 114, 105, 97, 108, 86, 50]\<rparr>),
     (0x08f0005c, \<lparr>english = ''certificate check from OCSP response failed'',
       russian = map char_of [208 :: nat, 190, 209, 136, 208, 184, 208, 177, 208, 186, 208,
       176, 32, 208, 191, 209, 128, 208, 190, 208, 178, 208, 181, 209, 128, 208, 186, 208, 184,
       32, 209, 129, 208, 181, 209, 128, 209, 130, 208, 184, 209, 132, 208, 184, 208, 186, 208,
       176, 209, 130, 208, 176, 32, 208, 184, 208, 183, 32, 79, 67, 83, 80, 45, 208, 190, 209,
       130, 208, 178, 208, 181, 209, 130, 208, 176]\<rparr>),
     (0x08f0005d, \<lparr>english = ''CRL expired'',
       russian = map char_of [67 :: nat, 82, 76, 32, 208, 184, 209, 129, 209, 130, 208, 181,
       208, 186]\<rparr>),
     (0x08f00101, \<lparr>english = ''library is not initialized'',
       russian = map char_of [208 :: nat, 177, 208, 184, 208, 177, 208, 187, 208, 184, 208,
       190, 209, 130, 208, 181, 208, 186, 208, 176, 32, 208, 189, 208, 181, 32, 208, 184, 208,
       189, 208, 184, 209, 134, 208, 184, 208, 176, 208, 187, 208, 184, 208, 183, 208, 184,
       209, 128, 208, 190, 208, 178, 208, 176, 208, 189, 208, 176]\<rparr>),
     (0x08f00200, \<lparr>english = ''engine loading error'',
       russian = map char_of [208 :: nat, 190, 209, 136, 208, 184, 208, 177, 208, 186, 208,
       176, 32, 208, 183, 208, 176, 208, 179, 209, 128, 209, 131, 208, 183, 208, 186, 208, 184,
       32, 101, 110, 103, 105, 110, 101]\<rparr>),
     (0x08f00300, \<lparr>english = ''invalid parameters'',
       russian = map char_of [208 :: nat, 189, 208, 181, 208, 186, 208, 190, 209, 128, 209,
       128, 208, 181, 208, 186, 209, 130, 208, 189, 209, 139, 208, 181, 32, 208, 191, 208, 176,
       209, 128, 208, 176, 208, 188, 208, 181, 209, 130, 209, 128, 209, 139]\<rparr>),
     (0x08f00400, \<lparr>english = ''certificate status: valid'',
       russian = map char_of [209 :: nat, 129, 209, 130, 208, 176, 209, 130, 209, 131, 209,
       129, 32, 209, 129, 208, 181, 209, 128, 209, 130, 208, 184, 209, 132, 208, 184, 208, 186,
       208, 176, 209, 130, 208, 176, 58, 32, 208, 180, 208, 181, 208, 185, 209, 129, 209, 130,
       208, 178, 208, 184, 209, 130, 208, 181, 208, 187, 208, 181, 208, 189]\<rparr>),
     (0x08f00401, \<lparr>english = ''certificate status: revoked'',
       russian = map char_of [209 :: nat, 129, 209, 130, 208, 176, 209, 130, 209, 131, 209,
       129, 32, 209, 129, 208, 181, 209, 128, 209, 130, 208, 184, 209, 132, 208, 184, 208, 186,
       208, 176, 209, 130, 208, 176, 58, 32, 208, 190, 209, 130, 208, 190, 208, 183, 208, 178,
       208, 176, 208, 189]\<rparr>),
     (0x08f00402, \<lparr>english = ''certificate status: unknown'',
       russian = map char_of [209 :: nat, 129, 209, 130, 208, 176, 209, 130, 209, 131, 209,
       129, 32, 209, 129, 208, 181, 209, 128, 209, 130, 208, 184, 209, 132, 208, 184, 208, 186,
       208, 176, 209, 130, 208, 176, 58, 32, 208, 189, 208, 181, 208, 184, 208, 183, 208, 178,
       208, 181, 209, 129, 209, 130, 208, 181, 208, 189]\<rparr>)]"

definition unknownEnglishErrorLabel :: gostring where
  "unknownEnglishErrorLabel = ''unknown error code''"

definition unknownRussianErrorLabel :: gostring where
  "unknownRussianErrorLabel =
     map char_of [208 :: nat, 189, 208, 181, 208, 184, 208, 183, 208, 178, 208, 181, 209, 129,
     209, 130, 208, 189, 209, 139, 208, 185, 32, 208, 186, 208, 190, 208, 180, 32, 208, 190,
     209, 136, 208, 184, 208, 177, 208, 186, 208, 184]"
text \<open>\<^verbatim>\<open>type ErrorLanguage string\<close>: any string, of which two have labels of their own.\<close>

type_synonym ErrorLanguage = gostring

definition ErrorLanguageEnglish :: ErrorLanguage where "ErrorLanguageEnglish = ''en''"
definition ErrorLanguageRussian :: ErrorLanguage where "ErrorLanguageRussian = ''ru''"

definition errorLabelForLanguage :: "ErrorCode \<Rightarrow> ErrorLanguage \<Rightarrow> gostring" where
  "errorLabelForLanguage code language =
     (case map_of localizedErrorLabels code of
        None \<Rightarrow> if language = ErrorLanguageRussian then unknownRussianErrorLabel
                else unknownEnglishErrorLabel
      | Some label \<Rightarrow> if language = ErrorLanguageRussian then russian label else english label)"

text \<open>\<^verbatim>\<open>strconv.FormatUint(v, 16)\<close>, \<^verbatim>\<open>strconv.FormatUint(v, 10)\<close> and
  \<^verbatim>\<open>strings.ToUpper\<close> on ASCII text.\<close>

definition digit_char :: "nat \<Rightarrow> char" where
  "digit_char d = (if d < 10 then char_of (48 + d) else char_of (87 + d))"

fun format_nat :: "nat \<Rightarrow> nat \<Rightarrow> gostring" where
  "format_nat base n =
     (if base < 2 \<or> n < base then [digit_char n]
      else format_nat base (n div base) @ [digit_char (n mod base)])"

declare format_nat.simps [simp del]

definition FormatUint :: "uint64 \<Rightarrow> nat \<Rightarrow> gostring" where
  "FormatUint v base = format_nat base (unat v)"

definition upper_char :: "char \<Rightarrow> char" where
  "upper_char c = (let n = of_char c :: nat in if 97 \<le> n \<and> n \<le> 122 then char_of (n - 32) else c)"

definition Hex :: "ErrorCode \<Rightarrow> gostring" where
  "Hex c =
     (let width = 8; hex = map upper_char (FormatUint c 16)
      in if length hex < width
         then ''0x'' @ replicate (width - length hex) (CHR ''0'') @ hex
         else ''0x'' @ hex)"

text \<open>\<^verbatim>\<open>(*KalkanError).Format\<close> on a non-nil receiver.\<close>

definition kalkanErrorFormat :: "ErrorCode \<Rightarrow> gostring \<Rightarrow> ErrorLanguage \<Rightarrow> gostring" where
  "kalkanErrorFormat code message language =
     ''kalkancrypt: '' @ errorLabelForLanguage code language @ '' ('' @ Hex code @ '')'' @
     (if message = [] then [] else '': '' @ message)"

section \<open>Correctness of the rendering\<close>

text \<open>The reading of a digit string, for the round trip of \<^const>\<open>Hex\<close>.\<close>

definition digit_val :: "char \<Rightarrow> nat" where
  "digit_val c = (let n = of_char c in if n < 58 then n - 48 else if n < 97 then n - 55 else n - 87)"

definition read_nat :: "nat \<Rightarrow> gostring \<Rightarrow> nat" where
  "read_nat base s = foldl (\<lambda>acc c. acc * base + digit_val c) 0 s"

lemma read_nat_snoc [simp]: "read_nat base (s @ [c]) = read_nat base s * base + digit_val c"
  by (simp add: read_nat_def)

lemma digit_val_digit_char: "d < 16 \<Longrightarrow> digit_val (digit_char d) = d"
  by (simp add: digit_val_def digit_char_def Let_def)

lemma digit_val_upper: "d < 16 \<Longrightarrow> digit_val (upper_char (digit_char d)) = d"
  by (simp add: digit_val_def digit_char_def upper_char_def Let_def)

lemma read_upper_format:
  "2 \<le> base \<Longrightarrow> base \<le> 16 \<Longrightarrow> read_nat base (map upper_char (format_nat base n)) = n"
proof (induction base n rule: format_nat.induct)
  case (1 base n)
  show ?case
  proof (cases "n < base")
    case True
    with 1 show ?thesis
      by (simp add: format_nat.simps [of base n] read_nat_def digit_val_upper)
  next
    case False
    from 1 have "n mod base < 16" by (simp add: less_le_trans [OF mod_less_divisor])
    with False 1 show ?thesis
      by (simp add: format_nat.simps [of base n] digit_val_upper)
  qed
qed

lemma read_zeros: "read_nat base (replicate k (CHR ''0'') @ s) = read_nat base s"
proof -
  have "foldl (\<lambda>acc c. acc * base + digit_val c) 0 (replicate k (CHR ''0'')) = 0"
    by (induction k) (simp_all add: digit_val_def)
  then show ?thesis by (simp add: read_nat_def)
qed

lemma Hex_read: "read_nat 16 (drop 2 (Hex c)) = unat c"
  by (simp add: Hex_def Let_def FormatUint_def read_upper_format read_zeros)

lemma Hex_shape: "take 2 (Hex c) = ''0x'' \<and> 10 \<le> length (Hex c)"
  by (auto simp: Hex_def Let_def)

lemma labels_keys: "map fst localizedErrorLabels = map snd errorCodes"
  by (simp add: localizedErrorLabels_def errorCodes_def)

lemma errorCodes_increasing: "successively (<) (map (\<lambda>p. unat (snd p)) errorCodes)"
  by (simp add: errorCodes_def)

lemma errorCodes_distinct: "distinct (map snd errorCodes)"
proof -
  have "sorted_wrt (<) (map (\<lambda>p. unat (snd p)) errorCodes)"
    using errorCodes_increasing by (simp add: successively_conv_sorted_wrt)
  then have "distinct (map unat (map snd errorCodes))"
    by (simp add: strict_sorted_iff comp_def)
  then show ?thesis by (rule distinct_map [THEN iffD1, THEN conjunct1])
qed

lemma labels_nonempty:
  "list_all (\<lambda>(c, l). english l \<noteq> [] \<and> russian l \<noteq> []) localizedErrorLabels"
  by (simp add: localizedErrorLabels_def)

end
