(* ===== verification/Go_Errors.thy ===== *)
theory Go_Errors
  imports Error_Codes
begin

text \<open>
  Go values that cross component boundaries: instants with their zone
  (\<^verbatim>\<open>time.Time\<close>) and error values. An error is a tree: a sentinel variable of one
  of the packages, one of the concrete error structs of the repository, or an error built
  by \<^verbatim>\<open>fmt.Errorf\<close>, \<^verbatim>\<open>errors.Join\<close> or another package. \<open>errors_is\<close>
  is the standard library's \<^verbatim>\<open>errors.Is\<close> for a sentinel target, \<open>ErrorCodeOf\<close> is
  \<^verbatim>\<open>ckalkan.ErrorCodeOf\<close>.
\<close>

section \<open>Instants\<close>

text \<open>
  An instant with the zone it is shown in: Unix seconds (an \<^verbatim>\<open>int64\<close>), nanoseconds
  within the second, the zone's abbreviation and offset at that instant, and whether the
  location is \<^verbatim>\<open>time.UTC\<close>.
\<close>

record gotime =
  tsec :: int64
  tnsec :: goint
  tzone :: gostring
  toffset :: goint
  tutc :: bool

definition zero_time :: gotime where
  "zero_time = \<lparr>tsec = - 62135596800, tnsec = 0, tzone = ''UTC'', toffset = 0, tutc = True\<rparr>"

definition IsZero :: "gotime \<Rightarrow> bool" where
  "IsZero t \<longleftrightarrow> tsec t = - 62135596800 \<and> tnsec t = 0"

text \<open>What every \<^verbatim>\<open>time.Time\<close> satisfies.\<close>

definition wf_time :: "gotime \<Rightarrow> bool" where
  "wf_time t \<longleftrightarrow> 0 \<le> sint (tnsec t) \<and> sint (tnsec t) < 1000000000 \<and>
     (tutc t \<longrightarrow> tzone t = ''UTC'' \<and> toffset t = 0)"

lemma IsZero_zero_time [simp]: "IsZero zero_time"
  by (simp add: IsZero_def zero_time_def)

text \<open>\<^verbatim>\<open>t.Format(time.RFC3339)\<close>: the civil date of the shifted instant.\<close>

definition pad_nat :: "nat \<Rightarrow> nat \<Rightarrow> gostring" where
  "pad_nat width n = (let s = format_nat 10 n in replicate (width - length s) (CHR ''0'') @ s)"

definition appendInt :: "int \<Rightarrow> nat \<Rightarrow> gostring" where
  "appendInt x width = (if x < 0 then ''-'' else []) @ pad_nat width (nat \<bar>x\<bar>)"

definition civil_from_days :: "int \<Rightarrow> int \<times> int \<times> int" where
  "civil_from_days days =
     (let z = days + 719468; era = z div 146097; doe = z mod 146097;
          yoe = (doe - doe div 1460 + doe div 36524 - doe div 146096) div 365;
          doy = doe - (365 * yoe + yoe div 4 - yoe div 100);
          mp = (5 * doy + 2) div 153;
          m = (if mp < 10 then mp + 3 else mp - 9)
      in (yoe + era * 400 + (if m \<le> 2 then 1 else 0), m, doy - (153 * mp + 2) div 5 + 1))"

definition formatRFC3339 :: "gotime \<Rightarrow> gostring" where
  "formatRFC3339 t =
     (let s = sint (tsec t) + sint (toffset t); sod = s mod 86400;
          (y, m, d) = civil_from_days (s div 86400); zone = sint (toffset t)
      in appendInt y 4 @ ''-'' @ appendInt m 2 @ ''-'' @ appendInt d 2 @ ''T'' @
         appendInt (sod div 3600) 2 @ '':'' @ appendInt (sod div 60 mod 60) 2 @ '':'' @
         appendInt (sod mod 60) 2 @
         (if zone = 0 then ''Z''
          else (if zone \<le> - 60 then ''-'' else ''+'') @
               appendInt (\<bar>zone\<bar> div 60 div 60) 2 @ '':'' @ appendInt (\<bar>zone\<bar> div 60 mod 60) 2))"

section \<open>Error values\<close>

text \<open>The sentinel variables the repository compares errors with.\<close>

datatype sentinel =
    ErrProtocol | ErrMetadataTooLarge | ErrWorkerFailed
  | KalkanErrInvalidInput | KalkanErrClosed | KalkanErrUnavailable
  | CkErrAlreadyOpen | CkErrClosed | CkErrNoLibrary | CkErrUnavailable
  | CkErrInvalidOutputBufferSize | CkErrPoisoned
  | CtxCanceled | CtxDeadlineExceeded
  | FsErrInvalid | FsErrPermission | FsErrExist | FsErrNotExist | FsErrClosed
  | IoEOF | IoErrUnexpectedEOF | IoErrShortWrite

fun sentinel_text :: "sentinel \<Rightarrow> gostring" where
  "sentinel_text ErrProtocol = ''kalkan isolated: invalid protocol message''"
| "sentinel_text ErrMetadataTooLarge = ''kalkan isolated: metadata exceeds protocol bounds''"
| "sentinel_text ErrWorkerFailed = ''kalkan isolated: worker failed''"
| "sentinel_text KalkanErrInvalidInput = ''kalkan: invalid input''"
| "sentinel_text KalkanErrClosed = ''kalkan: client is closed''"
| "sentinel_text KalkanErrUnavailable = ''kalkan: native KalkanCrypt loader is unavailable''"
| "sentinel_text CkErrAlreadyOpen = ''ckalkan: KalkanCrypt client is already open''"
| "sentinel_text CkErrClosed = ''ckalkan: client is closed''"
| "sentinel_text CkErrNoLibrary = ''ckalkan: no KalkanCrypt library path''"
| "sentinel_text CkErrUnavailable =
     ''ckalkan: native KalkanCrypt loader is unavailable for this build''"
| "sentinel_text CkErrInvalidOutputBufferSize =
     ''ckalkan: maximum output buffer size must be non-negative''"
| "sentinel_text CkErrPoisoned =
     ''ckalkan: KalkanCrypt process state is poisoned after failed close''"
| "sentinel_text CtxCanceled = ''context canceled''"
| "sentinel_text CtxDeadlineExceeded = ''context deadline exceeded''"
| "sentinel_text FsErrInvalid = ''invalid argument''"
| "sentinel_text FsErrPermission = ''permission denied''"
| "sentinel_text FsErrExist = ''file already exists''"
| "sentinel_text FsErrNotExist = ''file does not exist''"
| "sentinel_text FsErrClosed = ''file already closed''"
| "sentinel_text IoEOF = ''EOF''"
| "sentinel_text IoErrUnexpectedEOF = ''unexpected EOF''"
| "sentinel_text IoErrShortWrite = ''short write''"

text \<open>
  \<open>WrapError\<close> has the method \<^verbatim>\<open>Unwrap() error\<close> (\<^verbatim>\<open>fmt.Errorf\<close> with one
  \<^verbatim>\<open>%w\<close>), \<open>MultiError\<close> has \<^verbatim>\<open>Unwrap() []error\<close> (\<^verbatim>\<open>errors.Join\<close>,
  \<^verbatim>\<open>fmt.Errorf\<close> with several \<^verbatim>\<open>%w\<close> and the \<^verbatim>\<open>remoteError\<close> of the
  isolated client). \<open>ForeignError\<close> is an error of another package without causes; its
  list holds the sentinels its own \<^verbatim>\<open>Is\<close> method accepts.
\<close>

datatype gerror =
    Sentinel sentinel
  | KalkanError ErrorCode gostring
  | OutputBufferLimitError gostring uint64 uint64
  | OCSPRevokedError gostring gotime
  | WorkerError "gerror option"
  | WrapError gostring "gerror option"
  | MultiError gostring "gerror option list"
  | ForeignError gostring "sentinel list"

definition errorf :: "sentinel \<Rightarrow> gostring \<Rightarrow> gerror" where
  "errorf s message = WrapError (sentinel_text s @ '': '' @ message) (Some (Sentinel s))"

text \<open>The methods \<^verbatim>\<open>Error()\<close>, \<^verbatim>\<open>Unwrap()\<close> and the comparison step of
  \<^verbatim>\<open>errors.Is\<close> at one node (identity, or the node's own \<^verbatim>\<open>Is\<close> method).\<close>

definition outputBufferLimitText :: "gostring \<Rightarrow> uint64 \<Rightarrow> uint64 \<Rightarrow> gostring" where
  "outputBufferLimitText operation requested limit =
     kalkanErrorFormat ErrorBufferTooSmall
       ((if operation = [] then ''output'' else operation) @
        '' requires an output buffer of at least '' @ FormatUint requested 10 @
        '' bytes, exceeding hard limit '' @ FormatUint limit 10 @ '' bytes'')
       ErrorLanguageEnglish"

fun error_text :: "gerror \<Rightarrow> gostring" where
  "error_text (Sentinel s) = sentinel_text s"
| "error_text (KalkanError c m) = kalkanErrorFormat c m ErrorLanguageEnglish"
| "error_text (OutputBufferLimitError p r l) = outputBufferLimitText p r l"
| "error_text (OCSPRevokedError p t) = ''kalkan: OCSP certificate revoked at '' @ formatRFC3339 t"
| "error_text (WorkerError None) = sentinel_text ErrWorkerFailed"
| "error_text (WorkerError (Some e)) = sentinel_text ErrWorkerFailed @ '': '' @ error_text e"
| "error_text (WrapError m e) = m"
| "error_text (MultiError m es) = m"
| "error_text (ForeignError m is) = m"

fun unwrap :: "gerror \<Rightarrow> gerror option list option" where
  "unwrap (OutputBufferLimitError p r l) = Some [Some (KalkanError ErrorBufferTooSmall [])]"
| "unwrap (OCSPRevokedError p t) = Some [Some (KalkanError ErrorCertStatusRevoked [])]"
| "unwrap (WorkerError e) = Some [e]"
| "unwrap (WrapError m e) = Some [e]"
| "unwrap (MultiError m es) = Some es"
| "unwrap _ = None"

fun is_self :: "gerror \<Rightarrow> sentinel \<Rightarrow> bool" where
  "is_self (Sentinel s') s \<longleftrightarrow> s' = s"
| "is_self (WorkerError e) s \<longleftrightarrow> s = ErrWorkerFailed"
| "is_self (ForeignError m is) s \<longleftrightarrow> s \<in> set is"
| "is_self _ s \<longleftrightarrow> False"

fun errors_is :: "gerror \<Rightarrow> sentinel \<Rightarrow> bool" where
  "errors_is (WorkerError (Some e)) s \<longleftrightarrow> s = ErrWorkerFailed \<or> errors_is e s"
| "errors_is (WrapError m (Some e)) s \<longleftrightarrow> errors_is e s"
| "errors_is (MultiError m es) s \<longleftrightarrow>
     (\<exists>x \<in> set es. case x of None \<Rightarrow> False | Some e \<Rightarrow> errors_is e s)"
| "errors_is e s \<longleftrightarrow> is_self e s"

text \<open>The first \<^verbatim>\<open>KalkanError\<close> in depth-first order, as \<^verbatim>\<open>errors.AsType\<close> finds it.\<close>

fun ErrorCodeOf :: "gerror \<Rightarrow> ErrorCode option"
  and first_code :: "gerror option list \<Rightarrow> ErrorCode option" where
  "ErrorCodeOf (KalkanError c m) = Some c"
| "ErrorCodeOf (OutputBufferLimitError p r l) = Some ErrorBufferTooSmall"
| "ErrorCodeOf (OCSPRevokedError p t) = Some ErrorCertStatusRevoked"
| "ErrorCodeOf (WorkerError (Some e)) = ErrorCodeOf e"
| "ErrorCodeOf (WrapError m (Some e)) = ErrorCodeOf e"
| "ErrorCodeOf (MultiError m es) = first_code es"
| "ErrorCodeOf _ = None"
| "first_code [] = None"
| "first_code (None # es) = first_code es"
| "first_code (Some e # es) = (case ErrorCodeOf e of None \<Rightarrow> first_code es | Some c \<Rightarrow> Some c)"

lemma errors_is_errorf [simp]: "errors_is (errorf s m) s' \<longleftrightarrow> s' = s"
  by (auto simp: errorf_def)

text \<open>One equation for the search over a node and its causes.\<close>

lemma errors_is_unfold:
  "errors_is e s \<longleftrightarrow> is_self e s \<or>
     (\<exists>cs. unwrap e = Some cs \<and> (\<exists>x \<in> set cs. \<exists>c. x = Some c \<and> errors_is c s))"
  by (cases "(e, s)" rule: errors_is.cases) (auto split: option.splits)

lemma ErrorCodeOf_unfold:
  "ErrorCodeOf e = (case e of KalkanError c m \<Rightarrow> Some c
     | _ \<Rightarrow> (case unwrap e of None \<Rightarrow> None | Some cs \<Rightarrow> first_code cs))"
  by (cases "e" rule: ErrorCodeOf.cases) (auto split: option.splits)

lemma first_code_append: "first_code (xs @ ys) = (case first_code xs of None \<Rightarrow> first_code ys | r \<Rightarrow> r)"
proof (induction xs)
  case Nil
  then show ?case by simp
next
  case (Cons x xs)
  then show ?case by (cases x) (auto split: option.splits)
qed

end
