(* ===== verification/Wire_Metadata.thy ===== *)
theory Wire_Metadata
  imports Go_Errors
begin

text \<open>
  The metadata layer of \<^verbatim>\<open>isolated/protocol.go\<close>: the bounded writer
  \<^verbatim>\<open>metadataWriter\<close>, the reader \<^verbatim>\<open>metadataReader\<close>, and the
  \<^verbatim>\<open>payloadEncoder\<close> and \<^verbatim>\<open>payloadDecoder\<close> that add raw blocks. Writers and
  readers are state computations; an error is sticky and is kept in the state, as in the
  source. The last part states what it means for an encoder and a decoder to agree
  (\<open>codec_at\<close>), and the rules that compose such facts along a sequence of fields.
\<close>

definition maxMetadataSize :: int where "maxMetadataSize = 65536"
definition maxBlocks :: nat where "maxBlocks = 1024"

definition errMetadataTooLarge :: gerror where
  "errMetadataTooLarge = Sentinel ErrMetadataTooLarge"

record binaryBlock =
  bdata :: slice
  btext :: gostring

definition block_size :: "binaryBlock \<Rightarrow> nat" where
  "block_size b = slice_len (bdata b) + length (btext b)"

record wirePayload =
  metadata :: bytes
  pblocks :: "binaryBlock list"

definition nullPayload :: wirePayload where
  "nullPayload = \<lparr>metadata = [], pblocks = []\<rparr>"

definition isNull :: "wirePayload \<Rightarrow> bool" where
  "isNull p \<longleftrightarrow> length (metadata p) = 0 \<and> length (pblocks p) = 0"

section \<open>metadataWriter\<close>

record metadataWriter =
  wdata :: bytes
  werr :: "gerror option"

definition w_reserve :: "int \<Rightarrow> ('a metadataWriter_scheme, bool) state" where
  "w_reserve n = do {
     e \<leftarrow> State_Monad.get;
     if werr e \<noteq> None then ret False
     else if n < 0 \<or> n > maxMetadataSize - int (length (wdata e))
     then do { State_Monad.set (e\<lparr>werr := Some errMetadataTooLarge\<rparr>); ret False }
     else ret True }"

definition w_append :: "bytes \<Rightarrow> ('a metadataWriter_scheme, unit) state" where
  "w_append bs = State_Monad.update (\<lambda>e. e\<lparr>wdata := wdata e @ bs\<rparr>)"

definition w_fail :: "gerror \<Rightarrow> ('a metadataWriter_scheme, unit) state" where
  "w_fail err = State_Monad.update (\<lambda>e. e\<lparr>werr := Some err\<rparr>)"

definition w_uint32 :: "uint32 \<Rightarrow> ('a metadataWriter_scheme, unit) state" where
  "w_uint32 value = do {
     ok \<leftarrow> w_reserve 4;
     if ok then w_append (be_bytes 4 (unat value)) else ret () }"

definition w_uint64 :: "uint64 \<Rightarrow> ('a metadataWriter_scheme, unit) state" where
  "w_uint64 value = do {
     ok \<leftarrow> w_reserve 8;
     if ok then w_append (be_bytes 8 (unat value)) else ret () }"

text \<open>The conversion \<^verbatim>\<open>uint64(value)\<close> keeps the bit pattern of a signed value.\<close>

definition w_int64 :: "int64 \<Rightarrow> ('a metadataWriter_scheme, unit) state" where
  "w_int64 value = w_uint64 value"

definition w_integer :: "goint \<Rightarrow> ('a metadataWriter_scheme, unit) state" where
  "w_integer value = w_int64 value"

definition w_boolean :: "bool \<Rightarrow> ('a metadataWriter_scheme, unit) state" where
  "w_boolean value = do {
     ok \<leftarrow> w_reserve 1;
     if ok then w_append [char_of (if value then 1 else 0 :: nat)] else ret () }"

definition w_rawLength :: "nat \<Rightarrow> ('a metadataWriter_scheme, bool) state" where
  "w_rawLength n =
     (if int n > maxMetadataSize
      then do { w_fail errMetadataTooLarge; ret False }
      else do {
        ok \<leftarrow> w_reserve (int n + 4);
        if \<not> ok then ret False
        else do { w_uint32 (word_of_nat n); ret True } })"

definition w_raw :: "bytes \<Rightarrow> ('a metadataWriter_scheme, unit) state" where
  "w_raw value = do {
     ok \<leftarrow> w_rawLength (length value);
     if ok then w_append value else ret () }"

definition w_text :: "gostring \<Rightarrow> ('a metadataWriter_scheme, unit) state" where
  "w_text value = do {
     ok \<leftarrow> w_rawLength (length value);
     if ok then w_append value else ret () }"

definition w_length :: "nat \<Rightarrow> bool \<Rightarrow> ('a metadataWriter_scheme, bool) state" where
  "w_length len present =
     (if \<not> present then do { w_uint32 0; ret False }
      else if int len > maxMetadataSize then do { w_fail errMetadataTooLarge; ret False }
      else do {
        w_uint32 (word_of_nat (len + 1));
        e \<leftarrow> State_Monad.get;
        ret (werr e = None) })"

section \<open>metadataReader\<close>

record metadataReader =
  rdata :: bytes
  rerr :: "gerror option"

definition r_fail :: "gerror \<Rightarrow> ('a metadataReader_scheme, unit) state" where
  "r_fail err = State_Monad.update (\<lambda>d. d\<lparr>rerr := Some err\<rparr>)"

text \<open>The result is nil (\<^const>\<open>None\<close>) exactly on an error.\<close>

definition r_take :: "nat \<Rightarrow> ('a metadataReader_scheme, slice) state" where
  "r_take n = do {
     d \<leftarrow> State_Monad.get;
     if rerr d \<noteq> None then ret None
     else if n > length (rdata d)
     then do { r_fail (errorf ErrProtocol ''truncated metadata''); ret None }
     else do {
       State_Monad.set (d\<lparr>rdata := drop n (rdata d)\<rparr>);
       ret (Some (take n (rdata d))) } }"

definition r_uint32 :: "('a metadataReader_scheme, uint32) state" where
  "r_uint32 = do {
     value \<leftarrow> r_take 4;
     ret (case value of None \<Rightarrow> 0 | Some b \<Rightarrow> word_of_nat (be_nat b)) }"

definition r_uint64 :: "('a metadataReader_scheme, uint64) state" where
  "r_uint64 = do {
     value \<leftarrow> r_take 8;
     ret (case value of None \<Rightarrow> 0 | Some b \<Rightarrow> word_of_nat (be_nat b)) }"

definition r_int64 :: "('a metadataReader_scheme, int64) state" where
  "r_int64 = r_uint64"

definition r_integer :: "('a metadataReader_scheme, goint) state" where
  "r_integer = do {
     value \<leftarrow> r_int64;
     if sint value < minInt \<or> sint value > maxInt
     then do { r_fail (errorf ErrProtocol ''integer overflow''); ret 0 }
     else ret value }"

definition r_boolean :: "('a metadataReader_scheme, bool) state" where
  "r_boolean = do {
     value \<leftarrow> r_take 1;
     case value of
       None \<Rightarrow> ret False
     | Some b \<Rightarrow>
         do { (if of_char (b ! 0) > (1 :: nat)
               then r_fail (errorf ErrProtocol ''invalid boolean'') else ret ());
              ret (of_char (b ! 0) = (1 :: nat)) } }"

definition r_raw :: "('a metadataReader_scheme, slice) state" where
  "r_raw = do {
     n \<leftarrow> r_uint32;
     d \<leftarrow> State_Monad.get;
     if unat n > length (rdata d)
     then do { r_fail (errorf ErrProtocol ''invalid metadata length''); ret None }
     else if n = 0 then ret None
     else r_take (unat n) }"

definition r_text :: "('a metadataReader_scheme, gostring) state" where
  "r_text = do { b \<leftarrow> r_raw; ret (str_of b) }"

text \<open>The Go result \<^verbatim>\<open>-1\<close> (nil collection or error) is \<^const>\<open>None\<close>.\<close>

definition r_length :: "nat \<Rightarrow> ('a metadataReader_scheme, nat option) state" where
  "r_length minSize = do {
     encoded \<leftarrow> r_uint32;
     d \<leftarrow> State_Monad.get;
     if rerr d \<noteq> None \<or> encoded = 0 then ret None
     else let n = unat (encoded - 1)
          in if minSize = 0 \<or> int n > maxMetadataSize \<or> n > length (rdata d) div minSize
             then do { r_fail (errorf ErrProtocol ''invalid collection length''); ret None }
             else ret (Some n) }"

definition r_finish :: "'a metadataReader_scheme \<Rightarrow> gerror option" where
  "r_finish d =
     (if rerr d \<noteq> None then rerr d
      else if length (rdata d) \<noteq> 0 then Some (errorf ErrProtocol ''trailing metadata'')
      else None)"

section \<open>payloadEncoder and payloadDecoder\<close>

record payloadEncoder = metadataWriter +
  eblocks :: "binaryBlock list"
  inputLimit :: int64
  esize :: uint64

type_synonym 'a encode = "(payloadEncoder, 'a) state"

definition newEncoder :: "int64 \<Rightarrow> payloadEncoder" where
  "newEncoder limit =
     \<lparr>wdata = [], werr = None, eblocks = [], inputLimit = limit, esize = 0\<rparr>"

definition e_add :: "binaryBlock \<Rightarrow> uint32 encode" where
  "e_add block = do {
     e \<leftarrow> State_Monad.get;
     if werr e \<noteq> None then ret 0
     else if length (eblocks e) \<ge> maxBlocks then do { w_fail errMetadataTooLarge; ret 0 }
     else if block_size block > maxUint64 - unat (esize e)
     then do { w_fail (errorf ErrProtocol ''frame size overflow''); ret 0 }
     else do {
       State_Monad.set (e\<lparr>esize := esize e + word_of_nat (block_size block),
                          eblocks := eblocks e @ [block]\<rparr>);
       ret (word_of_nat (length (eblocks e) + 1)) } }"

definition inputLimitError :: "int64 \<Rightarrow> gerror" where
  "inputLimitError limit = errorf KalkanErrInvalidInput
     (''binary input exceeds maximum input size of '' @ FormatUint limit 10 @ '' bytes'')"

definition e_bytes :: "slice \<Rightarrow> unit encode" where
  "e_bytes data = (case data of
     None \<Rightarrow> w_uint32 0
   | Some b \<Rightarrow> do {
       e \<leftarrow> State_Monad.get;
       if sint (inputLimit e) > 0 \<and> int (length b) > sint (inputLimit e)
       then w_fail (inputLimitError (inputLimit e))
       else do { ref \<leftarrow> e_add \<lparr>bdata = Some b, btext = []\<rparr>; w_uint32 ref } })"

definition e_text :: "gostring \<Rightarrow> unit encode" where
  "e_text value =
     (if value \<noteq> [] then do { ref \<leftarrow> e_add \<lparr>bdata = None, btext = value\<rparr>; w_uint32 ref }
      else w_uint32 0)"

definition e_finish :: "payloadEncoder \<Rightarrow> gerror + wirePayload" where
  "e_finish e = (case werr e of
     Some err \<Rightarrow> Inl err
   | None \<Rightarrow> Inr \<lparr>metadata = wdata e, pblocks = eblocks e\<rparr>)"

record payloadDecoder = metadataReader +
  dblocks :: "binaryBlock list"

type_synonym 'a decode = "(payloadDecoder, 'a) state"

definition decodePayload :: "wirePayload \<Rightarrow> payloadDecoder" where
  "decodePayload p = \<lparr>rdata = metadata p, rerr = None, dblocks = pblocks p\<rparr>"

text \<open>The contents a block delivers: its text when there is one, else its data.\<close>

definition block_bytes :: "binaryBlock \<Rightarrow> slice" where
  "block_bytes b = (if btext b \<noteq> [] then Some (btext b) else bdata b)"

definition d_bytes :: "slice decode" where
  "d_bytes = do {
     ref \<leftarrow> r_uint32;
     d \<leftarrow> State_Monad.get;
     if ref = 0 then ret None
     else if unat ref > length (dblocks d)
     then do { r_fail (errorf ErrProtocol ''invalid binary block reference''); ret None }
     else ret (block_bytes (dblocks d ! unat (ref - 1))) }"

definition d_text :: "gostring decode" where
  "d_text = do { b \<leftarrow> d_bytes; ret (str_of b) }"

section \<open>Agreement of an encoder and a decoder\<close>

text \<open>
  \<open>enc_le e E\<close>: the error-free encoder \<open>E\<close> extends the error-free encoder \<open>e\<close>.
  \<open>at_pos e E\<close> is the decoder of the payload \<open>E\<close> finishes with, placed where \<open>e\<close>
  ended; its blocks are those a receiver holds (contents in \<^const>\<open>bdata\<close>).
\<close>

definition enc_le :: "payloadEncoder \<Rightarrow> payloadEncoder \<Rightarrow> bool" where
  "enc_le e E \<longleftrightarrow> werr e = None \<and> werr E = None \<and> prefix (wdata e) (wdata E) \<and>
     prefix (eblocks e) (eblocks E)"

definition received :: "binaryBlock \<Rightarrow> binaryBlock" where
  "received b = \<lparr>bdata = Some (str_of (block_bytes b)), btext = []\<rparr>"

definition at_pos :: "payloadEncoder \<Rightarrow> payloadEncoder \<Rightarrow> payloadDecoder" where
  "at_pos e E = \<lparr>rdata = drop (length (wdata e)) (wdata E), rerr = None,
     dblocks = map received (eblocks E)\<rparr>"

definition codec_at :: "unit encode \<Rightarrow> 'b decode \<Rightarrow> 'b \<Rightarrow> bool" where
  "codec_at enc dec x \<longleftrightarrow> (\<forall>e E. enc_le (exec enc e) E \<longrightarrow>
     enc_le e E \<and> run_state dec (at_pos e E) = (x, at_pos (exec enc e) E))"

lemma codec_atI:
  assumes "\<And>e E. enc_le (exec enc e) E \<Longrightarrow>
    enc_le e E \<and> run_state dec (at_pos e E) = (x, at_pos (exec enc e) E)"
  shows "codec_at enc dec x"
  using assms by (simp add: codec_at_def)

lemma codec_atD:
  assumes "codec_at enc dec x" "enc_le (exec enc e) E"
  shows "enc_le e E" "run_state dec (at_pos e E) = (x, at_pos (exec enc e) E)"
  using assms by (auto simp: codec_at_def)

lemma codec_ret: "codec_at (ret ()) (ret x) x"
  by (rule codec_atI) simp

lemma codec_bind:
  assumes "codec_at enc1 dec1 x" and "codec_at enc2 (k x) y"
  shows "codec_at (State_Monad.bind enc1 (\<lambda>_. enc2)) (State_Monad.bind dec1 k) y"
proof (rule codec_atI)
  fix e E
  assume le: "enc_le (exec (State_Monad.bind enc1 (\<lambda>_. enc2)) e) E"
  then have le2: "enc_le (exec enc2 (exec enc1 e)) E" by (simp add: bind_run)
  note 2 = codec_atD [OF assms(2) le2]
  note 1 = codec_atD [OF assms(1) 2(1)]
  show "enc_le e E \<and> run_state (State_Monad.bind dec1 k) (at_pos e E) =
      (y, at_pos (exec (State_Monad.bind enc1 (\<lambda>_. enc2)) e) E)"
    using 1 2 by (simp add: bind_run)
qed

text \<open>The last field of a decoder: the value is rebuilt and returned.\<close>

lemma codec_last:
  assumes "codec_at enc dec x" and "f x = y"
  shows "codec_at enc (State_Monad.bind dec (\<lambda>a. ret (f a))) y"
  using assms by (auto simp: codec_at_def bind_run)

end
