(* ===== verification/Wire_Codec.thy ===== *)
theory Wire_Codec
  imports Wire_Metadata
begin

text \<open>
  Round trips of the primitive fields of the wire protocol, the invariant of the encoder
  (size bounds of the metadata and the blocks), the counted collections, and the interface
  \<open>wire_codec\<close> that the operation requests, results and the configuration implement.
\<close>

section \<open>Inline fields\<close>

lemmas writer_defs =
  w_reserve_def w_append_def w_fail_def w_uint32_def w_uint64_def w_int64_def w_integer_def
  w_boolean_def w_rawLength_def w_raw_def w_text_def w_length_def

lemmas reader_defs =
  r_fail_def r_take_def r_uint32_def r_uint64_def r_int64_def r_integer_def r_boolean_def
  r_raw_def r_text_def r_length_def

text \<open>An encoder that only appends fixed metadata, and a decoder that reads it back.\<close>

lemma codec_append:
  assumes enc: "\<And>e. werr (exec enc e) = None \<Longrightarrow>
      werr e = None \<and> exec enc e = e\<lparr>wdata := wdata e @ bs\<rparr>"
    and dec: "\<And>d rest. rerr d = None \<Longrightarrow> rdata d = bs @ rest \<Longrightarrow>
      run_state dec d = (x, d\<lparr>rdata := rest\<rparr>)"
  shows "codec_at enc dec x"
proof (rule codec_atI)
  fix e E
  assume le: "enc_le (exec enc e) E"
  then have "werr (exec enc e) = None" by (simp add: enc_le_def)
  note ok = enc [OF this]
  let ?rest = "drop (length (wdata e) + length bs) (wdata E)"
  from le ok have pre: "prefix (wdata e @ bs) (wdata E)" by (simp add: enc_le_def)
  from dec [of "at_pos e E" ?rest] prefix_drop_append [OF pre]
  have "run_state dec (at_pos e E) = (x, (at_pos e E)\<lparr>rdata := ?rest\<rparr>)"
    by (simp add: at_pos_def)
  with ok le append_prefixD [OF pre]
  show "enc_le e E \<and> run_state dec (at_pos e E) = (x, at_pos (exec enc e) E)"
    by (simp add: at_pos_def enc_le_def)
qed

lemma r_take_append [wire_simps]:
  "rerr d = None \<Longrightarrow> rdata d = bs @ rest \<Longrightarrow> length bs = n \<Longrightarrow>
     run_state (r_take n) d = (Some bs, d\<lparr>rdata := rest\<rparr>)"
  by (simp add: r_take_def)

lemma w_uint32_ok [wire_simps]:
  "werr (exec (w_uint32 v) e) = None \<Longrightarrow>
     werr e = None \<and> exec (w_uint32 v) e = e\<lparr>wdata := wdata e @ be_bytes 4 (unat v)\<rparr>"
  by (auto simp: w_uint32_def w_reserve_def w_append_def split: if_splits)

lemma w_uint64_ok:
  "werr (exec (w_uint64 v) e) = None \<Longrightarrow>
     werr e = None \<and> exec (w_uint64 v) e = e\<lparr>wdata := wdata e @ be_bytes 8 (unat v)\<rparr>"
  by (auto simp: w_uint64_def w_reserve_def w_append_def split: if_splits)

lemma r_uint32_append [wire_simps]:
  "rerr d = None \<Longrightarrow> rdata d = be_bytes 4 (unat v) @ rest \<Longrightarrow>
     run_state r_uint32 d = (v, d\<lparr>rdata := rest\<rparr>)"
  by (simp add: r_uint32_def r_take_append)

lemma r_uint64_append:
  "rerr d = None \<Longrightarrow> rdata d = be_bytes 8 (unat v) @ rest \<Longrightarrow>
     run_state r_uint64 d = (v, d\<lparr>rdata := rest\<rparr>)"
  by (simp add: r_uint64_def r_take_append)

lemma codec_uint32: "codec_at (w_uint32 v) r_uint32 v"
  by (rule codec_append [OF w_uint32_ok r_uint32_append])

lemma codec_uint64: "codec_at (w_uint64 v) r_uint64 v"
  by (rule codec_append [OF w_uint64_ok r_uint64_append])

lemma codec_int64: "codec_at (w_int64 v) r_int64 v"
  by (simp add: w_int64_def r_int64_def codec_uint64)

text \<open>On a 64-bit target the range check of \<^const>\<open>r_integer\<close> never fires.\<close>

lemma sint_int64_range: "\<not> sint (v :: int64) < minInt" "\<not> maxInt < sint (v :: int64)"
  using sint_ge [of v] sint_lt [of v] by (simp_all add: minInt_def maxInt_def)

lemma r_integer_eq: "r_integer = r_int64"
  by (rule state_ext) (simp add: r_integer_def sint_int64_range)

lemma codec_integer: "codec_at (w_integer v) r_integer v"
  by (simp add: w_integer_def r_integer_eq codec_int64)

lemma codec_boolean: "codec_at (w_boolean v) r_boolean v"
proof (rule codec_append)
  let ?bs = "[char_of (if v then 1 else 0 :: nat)]"
  show "werr e = None \<and> exec (w_boolean v) e = e\<lparr>wdata := wdata e @ ?bs\<rparr>"
    if "werr (exec (w_boolean v) e) = None" for e :: payloadEncoder
    using that by (auto simp: w_boolean_def w_reserve_def w_append_def split: if_splits)
  show "run_state r_boolean d = (v, d\<lparr>rdata := rest\<rparr>)"
    if "rerr d = None" "rdata d = ?bs @ rest" for d :: payloadDecoder and rest
    using that by (simp add: r_boolean_def r_take_append [of d ?bs])
qed

section \<open>Length-prefixed text of the metadata\<close>

lemma w_raw_ok:
  "werr (exec (w_raw b) e) = None \<Longrightarrow>
     werr e = None \<and> length b \<le> 65536 \<and>
     exec (w_raw b) e = e\<lparr>wdata := wdata e @ be_bytes 4 (length b) @ b\<rparr>"
  by (auto simp: w_raw_def w_rawLength_def w_uint32_def w_reserve_def w_append_def w_fail_def
      maxMetadataSize_def unat32_of_nat split: if_splits)

lemma w_text_raw: "w_text b = w_raw b"
  by (simp add: w_text_def w_raw_def)

lemma r_raw_append:
  assumes "rerr d = None" "rdata d = be_bytes 4 (length b) @ b @ rest" "length b \<le> 65536"
  shows "run_state r_raw d = (if b = [] then None else Some b, d\<lparr>rdata := rest\<rparr>)"
proof -
  let ?n = "word_of_nat (length b) :: uint32"
  from assms(3) have n: "unat ?n = length b" by (simp add: unat32_of_nat)
  with assms have "run_state r_uint32 d = (?n, d\<lparr>rdata := b @ rest\<rparr>)"
    using r_uint32_append [of d ?n "b @ rest"] by simp
  moreover have "?n = 0 \<longleftrightarrow> b = []" using n by (metis length_0_conv unat_0 unat_eq_zero)
  ultimately show ?thesis
    using n assms(1) by (simp add: r_raw_def r_take_append [of _ b rest])
qed

lemma codec_raw:
  "codec_at (w_raw b) r_raw (if b = [] then None else Some b)"
proof (rule codec_atI)
  fix e E
  assume le: "enc_le (exec (w_raw b) e) E"
  then have "werr (exec (w_raw b) e) = None" by (simp add: enc_le_def)
  note ok = w_raw_ok [OF this]
  let ?bs = "be_bytes 4 (length b) @ b"
  let ?rest = "drop (length (wdata e) + length ?bs) (wdata E)"
  from le ok have pre: "prefix (wdata e @ ?bs) (wdata E)" by (simp add: enc_le_def)
  have "run_state r_raw (at_pos e E) =
      (if b = [] then None else Some b, (at_pos e E)\<lparr>rdata := ?rest\<rparr>)"
    using prefix_drop_append [OF pre] ok by (intro r_raw_append) (simp_all add: at_pos_def)
  with ok le append_prefixD [OF pre]
  show "enc_le e E \<and> run_state r_raw (at_pos e E) =
      (if b = [] then None else Some b, at_pos (exec (w_raw b) e) E)"
    by (simp add: at_pos_def enc_le_def)
qed

lemma codec_mtext: "codec_at (w_text b) r_text b"
  unfolding w_text_raw r_text_def by (rule codec_last [OF codec_raw]) simp

section \<open>Block fields\<close>

lemma e_add_ok:
  assumes "werr (exec (e_add b) e) = None"
  shows "werr e = None" "length (eblocks e) < maxBlocks"
    "run_state (e_add b) e = (word_of_nat (length (eblocks e) + 1),
       e\<lparr>esize := esize e + word_of_nat (block_size b), eblocks := eblocks e @ [b]\<rparr>)"
  using assms by (auto simp: e_add_def w_fail_def split: if_splits)

lemma codec_block:
  assumes enc: "\<And>e. werr (exec enc e) = None \<Longrightarrow>
      exec enc e = exec (State_Monad.bind (e_add b) w_uint32) e"
    and ok: "\<And>e. werr (exec enc e) = None \<Longrightarrow> werr e = None"
    and b: "str_of (block_bytes b) = x"
  shows "codec_at enc d_bytes (Some x)"
proof (rule codec_atI)
  fix e E
  assume le: "enc_le (exec enc e) E"
  then have w: "werr (exec enc e) = None" by (simp add: enc_le_def)
  let ?e1 = "exec (e_add b) e" and ?ref = "fst (run_state (e_add b) e)"
  have ex: "exec enc e = exec (w_uint32 ?ref) ?e1" using enc [OF w] by simp
  with w have w2: "werr (exec (w_uint32 ?ref) ?e1) = None" by simp
  note u = w_uint32_ok [OF w2]
  then have w1: "werr (exec (e_add b) e) = None" by simp
  note a = e_add_ok [OF w1]
  let ?k = "length (eblocks e)"
  have ref: "unat ?ref = ?k + 1" "?ref \<noteq> 0" "unat (?ref - 1) = ?k"
  proof -
    have k: "?k + 1 < 2 ^ 32" using a(2) by (simp add: maxBlocks_def)
    then show 1: "unat ?ref = ?k + 1" by (simp add: a(3) unat32_of_nat del: of_nat_Suc of_nat_add)
    then show "?ref \<noteq> 0" by auto
    have "?ref - 1 = word_of_nat ?k" by (simp add: a(3))
    with k show "unat (?ref - 1) = ?k" by (simp add: unat32_of_nat)
  qed
  have fin: "exec enc e = e\<lparr>esize := esize ?e1, eblocks := eblocks e @ [b],
      wdata := wdata e @ be_bytes 4 (unat ?ref)\<rparr>"
    using ex u a(3) by simp
  from le fin have pre: "prefix (wdata e @ be_bytes 4 (unat ?ref)) (wdata E)"
    and pb: "prefix (eblocks e @ [b]) (eblocks E)" by (simp_all add: enc_le_def)
  let ?rest = "drop (length (wdata e) + 4) (wdata E)"
  have rd: "run_state r_uint32 (at_pos e E) = (?ref, (at_pos e E)\<lparr>rdata := ?rest\<rparr>)"
    using prefix_drop_append [OF pre] by (intro r_uint32_append) (simp_all add: at_pos_def)
  have nb: "eblocks E ! ?k = b" "?k < length (eblocks E)"
    using prefix_nth [OF pb, of ?k] prefix_len [OF pb] by simp_all
  have "run_state d_bytes (at_pos e E) = (Some x, (at_pos e E)\<lparr>rdata := ?rest\<rparr>)"
    using rd ref nb b by (simp add: d_bytes_def at_pos_def received_def block_bytes_def)
  with fin le a(1) append_prefixD [OF pre] append_prefixD [OF pb]
  show "enc_le e E \<and> run_state d_bytes (at_pos e E) = (Some x, at_pos (exec enc e) E)"
    by (simp add: at_pos_def enc_le_def)
qed

lemma codec_nil: "codec_at (w_uint32 0) d_bytes None"
proof -
  have "codec_at (State_Monad.bind (w_uint32 0) (\<lambda>_. ret ())) d_bytes None"
    unfolding d_bytes_def
    by (rule codec_bind [OF codec_uint32]) (rule codec_atI, simp)
  then show ?thesis by (simp add: codec_at_def)
qed

lemma codec_bytes: "codec_at (e_bytes v) d_bytes v"
proof (cases v)
  case None
  then show ?thesis by (simp add: e_bytes_def codec_nil)
next
  case (Some b)
  show ?thesis unfolding Some
  proof (rule codec_block)
    fix e :: payloadEncoder
    assume w: "werr (exec (e_bytes (Some b)) e) = None"
    then have 1: "exec (e_bytes (Some b)) e =
        exec (State_Monad.bind (e_add \<lparr>bdata = Some b, btext = []\<rparr>) w_uint32) e"
      by (auto simp: e_bytes_def w_fail_def split: if_splits)
    show "exec (e_bytes (Some b)) e =
        exec (State_Monad.bind (e_add \<lparr>bdata = Some b, btext = []\<rparr>) w_uint32) e" by (rule 1)
    from w 1 show "werr e = None" using w_uint32_ok e_add_ok(1) by auto
  qed (simp add: block_bytes_def)
qed

lemma codec_text: "codec_at (e_text v) d_text v"
proof -
  have "codec_at (e_text v) d_bytes (if v = [] then None else Some v)"
  proof (cases "v = []")
    case True
    then show ?thesis by (simp add: e_text_def codec_nil)
  next
    case False
    have "codec_at (e_text v) d_bytes (Some v)"
    proof (rule codec_block)
      fix e :: payloadEncoder
      assume w: "werr (exec (e_text v) e) = None"
      from False show 1: "exec (e_text v) e =
          exec (State_Monad.bind (e_add \<lparr>bdata = None, btext = v\<rparr>) w_uint32) e"
        by (simp add: e_text_def)
      with w show "werr e = None" using w_uint32_ok e_add_ok(1) by auto
    qed (use False in \<open>simp add: block_bytes_def\<close>)
    with False show ?thesis by simp
  qed
  then show ?thesis
    unfolding d_text_def by (rule codec_last) simp
qed

lemmas codec_first_fields [codec_steps] =
  codec_uint32 [THEN codec_bind] codec_uint64 [THEN codec_bind] codec_int64 [THEN codec_bind]
  codec_integer [THEN codec_bind] codec_boolean [THEN codec_bind] codec_mtext [THEN codec_bind]
  codec_bytes [THEN codec_bind] codec_text [THEN codec_bind]

lemmas codec_last_fields [codec_steps] =
  codec_uint32 [THEN codec_last] codec_uint64 [THEN codec_last] codec_int64 [THEN codec_last]
  codec_integer [THEN codec_last] codec_boolean [THEN codec_last] codec_mtext [THEN codec_last]
  codec_bytes [THEN codec_last] codec_text [THEN codec_last]

section \<open>Counted collections\<close>

text \<open>
  The pattern of \<^verbatim>\<open>encodeStrings\<close> and of the other collections: a count that
  distinguishes nil, then the items. \<open>grows m enc\<close> bounds the metadata of one item from
  below; the reader relies on it when it checks a count against the remaining metadata.
\<close>

definition e_list :: "('a \<Rightarrow> unit encode) \<Rightarrow> 'a list option \<Rightarrow> unit encode" where
  "e_list item values = do {
     ok \<leftarrow> w_length (case values of None \<Rightarrow> 0 | Some xs \<Rightarrow> length xs) (values \<noteq> None);
     if ok then each item (case values of None \<Rightarrow> [] | Some xs \<Rightarrow> xs) else ret () }"

definition d_list :: "nat \<Rightarrow> 'a decode \<Rightarrow> 'a list option decode" where
  "d_list minSize item = do {
     count \<leftarrow> r_length minSize;
     case count of None \<Rightarrow> ret None
     | Some n \<Rightarrow> do { xs \<leftarrow> counted n item; ret (Some xs) } }"

definition grows :: "nat \<Rightarrow> unit encode \<Rightarrow> bool" where
  "grows m enc \<longleftrightarrow> (\<forall>e. werr (exec enc e) = None \<longrightarrow>
     werr e = None \<and> length (wdata e) + m \<le> length (wdata (exec enc e)))"

lemma growsD: "grows m enc \<Longrightarrow> werr (exec enc e) = None \<Longrightarrow>
    werr e = None \<and> length (wdata e) + m \<le> length (wdata (exec enc e))"
  by (simp add: grows_def)

lemma grows_bind [grow_intros]:
  assumes "grows a m1" "grows b m2"
  shows "grows (a + b) (State_Monad.bind m1 (\<lambda>_. m2))"
  unfolding grows_def
proof (intro allI impI)
  fix e
  assume w: "werr (exec (State_Monad.bind m1 (\<lambda>_. m2)) e) = None"
  then have "werr (exec m2 (exec m1 e)) = None" by simp
  from growsD [OF assms(2) this] growsD [OF assms(1), of e]
  show "werr e = None \<and> length (wdata e) + (a + b) \<le>
      length (wdata (exec (State_Monad.bind m1 (\<lambda>_. m2)) e))" by simp
qed

lemma grows_mono: "grows a m \<Longrightarrow> b \<le> a \<Longrightarrow> grows b m"
  unfolding grows_def by (meson add_left_mono order_trans)

lemma grows_uint32 [grow_intros]: "grows 4 (w_uint32 v)"
  by (auto simp: grows_def dest: w_uint32_ok)

lemma grows_uint64 [grow_intros]: "grows 8 (w_uint64 v)"
  by (auto simp: grows_def dest: w_uint64_ok)

lemma grows_int64 [grow_intros]: "grows 8 (w_int64 v)"
  by (simp add: w_int64_def grows_uint64)

lemma grows_integer [grow_intros]: "grows 8 (w_integer v)"
  by (simp add: w_integer_def grows_int64)

lemma grows_boolean [grow_intros]: "grows 1 (w_boolean v)"
  by (auto simp: grows_def w_boolean_def w_reserve_def w_append_def split: if_splits)

lemma grows_mtext [grow_intros]: "grows 4 (w_text v)"
  by (auto simp: grows_def w_text_raw dest: w_raw_ok)

lemma grows_block: "grows 4 (State_Monad.bind (e_add b) w_uint32)"
  unfolding grows_def
proof (intro allI impI)
  fix e
  assume "werr (exec (State_Monad.bind (e_add b) w_uint32) e) = None"
  from w_uint32_ok [OF this [simplified]]
  have u: "werr (exec (e_add b) e) = None"
    "length (wdata (exec (State_Monad.bind (e_add b) w_uint32) e)) =
       length (wdata (exec (e_add b) e)) + 4" by simp_all
  from e_add_ok [OF u(1)] u(2)
  show "werr e = None \<and>
      length (wdata e) + 4 \<le> length (wdata (exec (State_Monad.bind (e_add b) w_uint32) e))"
    by simp
qed

lemma grows_bytes [grow_intros]: "grows 4 (e_bytes v)"
proof (cases v)
  case None
  then show ?thesis by (simp add: e_bytes_def grows_uint32)
next
  case (Some b)
  have "werr (exec (e_bytes (Some b)) e) = None \<Longrightarrow> exec (e_bytes (Some b)) e =
      exec (State_Monad.bind (e_add \<lparr>bdata = Some b, btext = []\<rparr>) w_uint32) e" for e
    by (auto simp: e_bytes_def w_fail_def split: if_splits)
  with grows_block [of "\<lparr>bdata = Some b, btext = []\<rparr>"] show ?thesis
    unfolding Some grows_def by metis
qed

lemma grows_text [grow_intros]: "grows 4 (e_text v)"
  by (simp add: e_text_def grows_uint32 grows_block)

lemma codec_each:
  assumes "\<And>x. x \<in> set xs \<Longrightarrow> codec_at (item x) ditem (view x)"
  shows "codec_at (each item xs) (counted (length xs) ditem) (map view xs)"
  using assms
proof (induction xs)
  case Nil
  show ?case by (simp add: codec_ret)
next
  case (Cons x xs)
  then have "codec_at (each item xs) (counted (length xs) ditem) (map view xs)" by simp
  then have "codec_at (each item xs)
      (State_Monad.bind (counted (length xs) ditem) (\<lambda>ys. ret (view x # ys))) (map view (x # xs))"
    by (rule codec_last) simp
  with Cons.prems show ?case by (auto intro: codec_bind)
qed

lemma grows_each:
  assumes "\<And>x. x \<in> set xs \<Longrightarrow> grows m (item x)"
  shows "grows (m * length xs) (each item xs)"
  using assms
proof (induction xs)
  case Nil
  show ?case by (simp add: grows_def)
next
  case (Cons x xs)
  then have "grows (m + m * length xs) (each item (x # xs))"
    by (simp only: each.simps) (rule grows_bind, simp_all)
  then show ?case by simp
qed

text \<open>The count of a non-nil collection is read back when the items fill what follows.\<close>

lemma r_length_append:
  assumes "rerr d = None" "rdata d = be_bytes 4 (n + 1) @ rest" "0 < m" "n \<le> 65536"
    "m * n \<le> length rest"
  shows "run_state (r_length m) d = (Some n, d\<lparr>rdata := rest\<rparr>)"
proof -
  let ?w = "word_of_nat (n + 1) :: uint32"
  from assms(4) have w: "unat ?w = n + 1" by (simp add: unat32_of_nat del: of_nat_Suc of_nat_add)
  then have "?w \<noteq> 0" by auto
  moreover from assms(4) have "unat (?w - 1) = n" by (simp add: unat32_of_nat)
  moreover from assms have "n \<le> length rest div m"
    by (simp add: less_eq_div_iff_mult_less_eq mult.commute)
  moreover have "run_state r_uint32 d = (?w, d\<lparr>rdata := rest\<rparr>)"
    using assms w by (intro r_uint32_append) simp_all
  ultimately show ?thesis
    using assms by (simp add: r_length_def Let_def maxMetadataSize_def del: of_nat_add)
qed

lemma codec_list_Some:
  assumes items: "\<And>x. x \<in> set xs \<Longrightarrow> codec_at (item x) ditem (view x)"
    and gr: "\<And>x. x \<in> set xs \<Longrightarrow> grows m (item x)" and m: "0 < m"
  shows "codec_at (e_list item (Some xs)) (d_list m ditem) (Some (map view xs))"
proof (rule codec_atI)
  fix e E
  assume le: "enc_le (exec (e_list item (Some xs)) e) E"
  then have w: "werr (exec (e_list item (Some xs)) e) = None" by (simp add: enc_le_def)
  let ?n = "length xs" and ?w = "word_of_nat (length xs + 1) :: uint32"
  let ?e1 = "exec (w_uint32 ?w) e"
  from w have n: "?n \<le> 65536" and ok: "werr ?e1 = None"
    by (auto simp: e_list_def w_length_def w_fail_def maxMetadataSize_def split: if_splits)
  have ex: "exec (e_list item (Some xs)) e = exec (each item xs) ?e1"
    using n ok by (simp add: e_list_def w_length_def maxMetadataSize_def)
  note u = w_uint32_ok [OF ok]
  have uw: "unat ?w = ?n + 1" using n by (simp add: unat32_of_nat del: of_nat_Suc of_nat_add)
  note it = codec_atD [OF codec_each, of xs item ditem view, OF items le [unfolded ex]]
  from growsD [OF grows_each [of xs m item, OF gr]] w ex
  have g: "length (wdata ?e1) + m * ?n \<le> length (wdata (exec (each item xs) ?e1))" by simp
  have lE: "length (wdata (exec (each item xs) ?e1)) \<le> length (wdata E)"
    using le ex prefix_len by (auto simp: enc_le_def)
  have pre: "prefix (wdata e @ be_bytes 4 (?n + 1)) (wdata E)"
    using it(1) u uw by (simp add: enc_le_def)
  let ?rest = "drop (length (wdata e) + 4) (wdata E)"
  have rl: "run_state (r_length m) (at_pos e E) = (Some ?n, (at_pos e E)\<lparr>rdata := ?rest\<rparr>)"
    using prefix_drop_append [OF pre] n m g lE u
    by (intro r_length_append) (simp_all add: at_pos_def)
  have p1: "(at_pos e E)\<lparr>rdata := ?rest\<rparr> = at_pos ?e1 E" using u by (simp add: at_pos_def)
  have "run_state (d_list m ditem) (at_pos e E) =
      (Some (map view xs), at_pos (exec (e_list item (Some xs)) e) E)"
    using rl p1 it(2) ex by (simp add: d_list_def)
  moreover have "enc_le e E" using it(1) u by (auto simp: enc_le_def dest: append_prefixD)
  ultimately show "enc_le e E \<and> run_state (d_list m ditem) (at_pos e E) =
      (Some (map view xs), at_pos (exec (e_list item (Some xs)) e) E)" by blast
qed

lemma codec_list:
  assumes "\<And>xs x. vs = Some xs \<Longrightarrow> x \<in> set xs \<Longrightarrow> codec_at (item x) ditem (view x)"
    and "\<And>x. grows m (item x)" and "0 < m"
  shows "codec_at (e_list item vs) (d_list m ditem) (map_option (map view) vs)"
proof (cases vs)
  case None
  have "codec_at (State_Monad.bind (w_uint32 0) (\<lambda>_. ret ())) (d_list m ditem) None"
    unfolding d_list_def r_length_def
    by (simp only: State_Monad.bind_assoc, rule codec_bind [OF codec_uint32]) (rule codec_atI, simp)
  then show ?thesis
    using None by (simp add: e_list_def w_length_def codec_at_def)
next
  case (Some xs)
  with assms show ?thesis by (simp add: codec_list_Some)
qed

section \<open>The invariant of the encoder\<close>

text \<open>
  Every operation keeps the bounds of the protocol, on success and on error: at most 64 KiB
  of metadata, at most 1024 blocks, a size that is the sum of the blocks' sizes without
  wrap-around, and blocks that hold either data or a nonempty text.
\<close>

definition block_ok :: "binaryBlock \<Rightarrow> bool" where
  "block_ok b \<longleftrightarrow> (bdata b = None \<and> btext b \<noteq> []) \<or> (bdata b \<noteq> None \<and> btext b = [])"

definition enc_inv :: "payloadEncoder \<Rightarrow> bool" where
  "enc_inv e \<longleftrightarrow> int (length (wdata e)) \<le> maxMetadataSize \<and> length (eblocks e) \<le> maxBlocks \<and>
     unat (esize e) = sum_list (map block_size (eblocks e)) \<and> list_all block_ok (eblocks e)"

definition keeps :: "'a encode \<Rightarrow> bool" where
  "keeps enc \<longleftrightarrow> (\<forall>e. enc_inv e \<longrightarrow> enc_inv (exec enc e))"

lemma keepsD: "keeps m \<Longrightarrow> enc_inv e \<Longrightarrow> enc_inv (exec m e)"
  by (simp add: keeps_def)

lemma keeps_ret [keeps_intros]: "keeps (ret x)"
  by (simp add: keeps_def)

lemma keeps_bind [keeps_intros]: "keeps m \<Longrightarrow> (\<And>x. keeps (k x)) \<Longrightarrow> keeps (State_Monad.bind m k)"
  by (simp add: keeps_def)

lemma keeps_if [keeps_intros]: "keeps a \<Longrightarrow> keeps b \<Longrightarrow> keeps (if c then a else b)"
  by simp

lemma keeps_uint32 [keeps_intros]: "keeps (w_uint32 v)"
  by (auto simp: keeps_def enc_inv_def w_uint32_def w_reserve_def w_append_def)

lemma keeps_uint64 [keeps_intros]: "keeps (w_uint64 v)"
  by (auto simp: keeps_def enc_inv_def w_uint64_def w_reserve_def w_append_def)

lemma keeps_int64 [keeps_intros]: "keeps (w_int64 v)"
  by (simp add: w_int64_def keeps_uint64)

lemma keeps_integer [keeps_intros]: "keeps (w_integer v)"
  by (simp add: w_integer_def keeps_int64)

lemma keeps_boolean [keeps_intros]: "keeps (w_boolean v)"
  by (auto simp: keeps_def enc_inv_def w_boolean_def w_reserve_def w_append_def)

lemma keeps_raw [keeps_intros]: "keeps (w_raw v)"
  by (auto simp: keeps_def enc_inv_def writer_defs)

lemma keeps_mtext [keeps_intros]: "keeps (w_text v)"
  by (simp add: w_text_raw keeps_raw)

lemma keeps_fail [keeps_intros]: "keeps (w_fail v)"
  by (auto simp: keeps_def enc_inv_def w_fail_def)

lemma keeps_length [keeps_intros]: "keeps (w_length n p)"
  unfolding w_length_def
  by (auto intro!: keeps_intros simp: keeps_def [of "State_Monad.get"])

lemma keeps_add: "block_ok b \<Longrightarrow> keeps (e_add b)"
  unfolding keeps_def
proof (intro allI impI)
  fix e :: payloadEncoder
  assume b: "block_ok b" and inv: "enc_inv e"
  show "enc_inv (exec (e_add b) e)"
  proof (cases "werr (exec (e_add b) e) = None \<and> block_size b \<le> maxUint64 - unat (esize e)")
    case True
    note ok = e_add_ok [OF True [THEN conjunct1]]
    from True have "unat (esize e) + block_size b < 2 ^ 64"
      using unat_less64 [of "esize e"] by (auto simp: maxUint64_def)
    then have "unat (esize e + word_of_nat (block_size b)) = unat (esize e) + block_size b"
      by (simp add: unat_word_ariths unat64_of_nat)
    with ok inv b show ?thesis by (simp add: enc_inv_def)
  next
    case False
    with inv show ?thesis by (auto simp: e_add_def w_fail_def enc_inv_def split: if_splits)
  qed
qed

lemma keeps_bytes [keeps_intros]: "keeps (e_bytes v)"
  unfolding e_bytes_def
  by (auto intro!: keeps_intros keeps_add simp: block_ok_def keeps_def [of "State_Monad.get"]
      split: option.split)

lemma keeps_text [keeps_intros]: "keeps (e_text v)"
  unfolding e_text_def by (auto intro!: keeps_intros keeps_add simp: block_ok_def)

lemma keeps_each [keeps_intros]: "(\<And>x. keeps (f x)) \<Longrightarrow> keeps (each f xs)"
  by (induction xs) (auto intro: keeps_intros)

lemma keeps_list [keeps_intros]: "(\<And>x. keeps (f x)) \<Longrightarrow> keeps (e_list f vs)"
  unfolding e_list_def by (auto intro!: keeps_intros)

lemma enc_inv_new [simp]: "enc_inv (newEncoder limit)"
  by (simp add: enc_inv_def newEncoder_def maxMetadataSize_def)

section \<open>The codec interface\<close>

text \<open>
  What a request, a result or the configuration promises to the transport: its decoder
  rebuilds the value its encoder wrote (up to \<open>view\<close>, on the values of \<open>dom\<close>), and its
  encoder keeps the bounds. A payload that went through the pipe has its block contents in
  \<^const>\<open>bdata\<close>.
\<close>

definition transported :: "wirePayload \<Rightarrow> wirePayload" where
  "transported p = p\<lparr>pblocks := map received (pblocks p)\<rparr>"

definition payload_ok :: "wirePayload \<Rightarrow> bool" where
  "payload_ok p \<longleftrightarrow> int (length (metadata p)) \<le> maxMetadataSize \<and>
     length (pblocks p) \<le> maxBlocks \<and> sum_list (map block_size (pblocks p)) < 2 ^ 64 \<and>
     list_all block_ok (pblocks p)"

locale wire_codec =
  fixes enc :: "'a \<Rightarrow> unit encode"
    and dec :: "'b decode"
    and view :: "'a \<Rightarrow> 'b"
    and dom :: "'a \<Rightarrow> bool"
  assumes roundtrip: "dom v \<Longrightarrow> codec_at (enc v) dec (view v)"
    and bounded: "keeps (enc v)"
begin

lemma payload_roundtrip:
  assumes "dom v" and "e_finish (exec (enc v) (newEncoder limit)) = Inr p"
  shows "fst (run_state dec (decodePayload (transported p))) = view v"
    and "r_finish (exec dec (decodePayload (transported p))) = None"
proof -
  let ?E = "exec (enc v) (newEncoder limit)"
  from assms(2) have w: "werr ?E = None" and p: "p = \<lparr>metadata = wdata ?E, pblocks = eblocks ?E\<rparr>"
    by (auto simp: e_finish_def split: option.splits)
  then have "enc_le ?E ?E" by (simp add: enc_le_def)
  from codec_atD(2) [OF roundtrip [OF assms(1)] this]
  have "run_state dec (decodePayload (transported p)) = (view v, at_pos ?E ?E)"
    by (simp add: p at_pos_def decodePayload_def transported_def newEncoder_def)
  then show "fst (run_state dec (decodePayload (transported p))) = view v"
    and "r_finish (exec dec (decodePayload (transported p))) = None"
    by (simp_all add: at_pos_def r_finish_def)
qed

lemma payload_bounds:
  assumes "e_finish (exec (enc v) (newEncoder limit)) = Inr p"
  shows "payload_ok p"
proof -
  let ?E = "exec (enc v) (newEncoder limit)"
  from assms have p: "p = \<lparr>metadata = wdata ?E, pblocks = eblocks ?E\<rparr>"
    by (auto simp: e_finish_def split: option.splits)
  from keepsD [OF bounded enc_inv_new] have "enc_inv ?E" .
  then show ?thesis
    using unat_less64 [of "esize ?E"] by (simp add: enc_inv_def payload_ok_def p)
qed

end

section \<open>Evaluation\<close>

text \<open>Execution of the writer within its bounds, for evaluation on concrete values.\<close>

lemma run_uint32:
  "werr e = None \<Longrightarrow> length (wdata e) + 4 \<le> 65536 \<Longrightarrow>
     run_state (w_uint32 v) e = ((), e\<lparr>wdata := wdata e @ be_bytes 4 (unat v)\<rparr>)"
  by (simp add: w_uint32_def w_reserve_def w_append_def maxMetadataSize_def)

lemma run_uint64:
  "werr e = None \<Longrightarrow> length (wdata e) + 8 \<le> 65536 \<Longrightarrow>
     run_state (w_uint64 v) e = ((), e\<lparr>wdata := wdata e @ be_bytes 8 (unat v)\<rparr>)"
  by (simp add: w_uint64_def w_reserve_def w_append_def maxMetadataSize_def)

lemma run_boolean:
  "werr e = None \<Longrightarrow> length (wdata e) + 1 \<le> 65536 \<Longrightarrow>
     run_state (w_boolean v) e =
       ((), e\<lparr>wdata := wdata e @ [char_of (if v then 1 else 0 :: nat)]\<rparr>)"
  by (simp add: w_boolean_def w_reserve_def w_append_def maxMetadataSize_def)

lemma run_text_empty:
  "werr e = None \<Longrightarrow> length (wdata e) + 4 \<le> 65536 \<Longrightarrow>
     run_state (e_text []) e = ((), e\<lparr>wdata := wdata e @ be_bytes 4 0\<rparr>)"
  by (simp add: e_text_def run_uint32)

lemma run_add:
  "werr e = None \<Longrightarrow> length (eblocks e) < 1024 \<Longrightarrow>
     block_size b + unat (esize e) \<le> 18446744073709551615 \<Longrightarrow>
     run_state (e_add b) e = (word_of_nat (length (eblocks e) + 1),
       e\<lparr>esize := esize e + word_of_nat (block_size b), eblocks := eblocks e @ [b]\<rparr>)"
  by (auto simp: e_add_def maxBlocks_def maxUint64_def)

lemma run_bytes_Some:
  "werr e = None \<Longrightarrow> length (eblocks e) < 1024 \<Longrightarrow> length (wdata e) + 4 \<le> 65536 \<Longrightarrow>
     length b + unat (esize e) \<le> 18446744073709551615 \<Longrightarrow>
     sint (inputLimit e) \<le> 0 \<or> int (length b) \<le> sint (inputLimit e) \<Longrightarrow>
     run_state (e_bytes (Some b)) e = ((), e\<lparr>esize := esize e + word_of_nat (length b),
       eblocks := eblocks e @ [\<lparr>bdata = Some b, btext = []\<rparr>],
       wdata := wdata e @ be_bytes 4 (Suc (length (eblocks e)))\<rparr>)"
  by (auto simp: e_bytes_def run_add run_uint32 block_size_def unat32_of_nat simp del: of_nat_Suc)

lemma run_text_Some:
  "b \<noteq> [] \<Longrightarrow> werr e = None \<Longrightarrow> length (eblocks e) < 1024 \<Longrightarrow> length (wdata e) + 4 \<le> 65536 \<Longrightarrow>
     length b + unat (esize e) \<le> 18446744073709551615 \<Longrightarrow>
     run_state (e_text b) e = ((), e\<lparr>esize := esize e + word_of_nat (length b),
       eblocks := eblocks e @ [\<lparr>bdata = None, btext = b\<rparr>],
       wdata := wdata e @ be_bytes 4 (Suc (length (eblocks e)))\<rparr>)"
  by (auto simp: e_text_def run_add run_uint32 block_size_def unat32_of_nat simp del: of_nat_Suc)

lemma flag_chars: "char_of (0 :: nat) = CHR 0x00" "char_of (Suc 0) = CHR 0x01"
  by (simp_all add: char_of_def bit_0)

lemmas wire_run = flag_chars run_uint32 run_uint64 run_boolean run_text_empty run_bytes_Some run_text_Some
  w_int64_def w_integer_def newEncoder_def e_finish_def

end
