(* ===== verification/Kalkan_Types.thy ===== *)
theory Kalkan_Types
  imports Wire_Codec
begin

text \<open>
  The request and result structs of the root package (\<^verbatim>\<open>hash.go\<close>, \<^verbatim>\<open>cms.go\<close>,
  \<^verbatim>\<open>xml.go\<close>, \<^verbatim>\<open>zip.go\<close>, \<^verbatim>\<open>validate.go\<close>, \<^verbatim>\<open>certificate.go\<close>,
  \<^verbatim>\<open>certificate_info.go\<close>), the \<^verbatim>\<open>Source\<close> of \<^verbatim>\<open>source.go\<close> with its
  constructors, and the endpoint policy. Field names carry the struct's initials.
  Enumerations are Go ints, since any int value of the type can reach the wire.
\<close>

section \<open>Sources\<close>

definition EncodingAuto :: goint where "EncodingAuto = 0"
definition EncodingRaw :: goint where "EncodingRaw = 1"
definition EncodingBase64 :: goint where "EncodingBase64 = 2"
definition EncodingPEM :: goint where "EncodingPEM = 3"
definition EncodingDER :: goint where "EncodingDER = 4"

record Source =
  s_path :: gostring
  s_data :: slice
  s_encoding :: goint
  s_file :: bool
  s_set :: bool

definition zeroSource :: Source where
  "zeroSource = \<lparr>s_path = [], s_data = None, s_encoding = 0, s_file = False, s_set = False\<rparr>"

definition Bytes :: "slice \<Rightarrow> Source" where
  "Bytes data = zeroSource\<lparr>s_data := data, s_encoding := EncodingRaw, s_set := True\<rparr>"

definition Base64 :: "slice \<Rightarrow> Source" where
  "Base64 data = zeroSource\<lparr>s_data := data, s_encoding := EncodingBase64, s_set := True\<rparr>"

definition PEM :: "slice \<Rightarrow> Source" where
  "PEM data = zeroSource\<lparr>s_data := data, s_encoding := EncodingPEM, s_set := True\<rparr>"

definition DER :: "slice \<Rightarrow> Source" where
  "DER data = zeroSource\<lparr>s_data := data, s_encoding := EncodingDER, s_set := True\<rparr>"

definition File :: "gostring \<Rightarrow> Source" where
  "File path = zeroSource\<lparr>s_path := path, s_file := True, s_encoding := EncodingAuto, s_set := True\<rparr>"

definition WithEncoding :: "Source \<Rightarrow> goint \<Rightarrow> Source" where
  "WithEncoding s encoding = s\<lparr>s_encoding := encoding\<rparr>"

definition source_isZero :: "Source \<Rightarrow> bool" where
  "source_isZero s \<longleftrightarrow> \<not> s_set s"

definition effectiveEncoding :: "Source \<Rightarrow> goint \<Rightarrow> goint" where
  "effectiveEncoding source fallback =
     (if s_encoding source \<noteq> EncodingAuto then s_encoding source
      else if fallback \<noteq> EncodingAuto then fallback
      else EncodingRaw)"

definition validateEncoding :: "goint \<Rightarrow> gerror option" where
  "validateEncoding encoding =
     (if encoding \<in> {EncodingAuto, EncodingRaw, EncodingBase64, EncodingPEM, EncodingDER} then None
      else Some (errorf KalkanErrInvalidInput
        (''unknown encoding '' @ appendInt (sint encoding) 0)))"

text \<open>
  The fields are unexported, so a source is the zero value or comes from a constructor,
  possibly re-encoded: a file source has no data, a byte source no path, an absent source
  neither.
\<close>

inductive built_source :: "Source \<Rightarrow> bool" where
  "built_source zeroSource"
| "built_source (Bytes d)"
| "built_source (Base64 d)"
| "built_source (PEM d)"
| "built_source (DER d)"
| "built_source (File p)"
| "built_source s \<Longrightarrow> built_source (WithEncoding s c)"

definition wf_source :: "Source \<Rightarrow> bool" where
  "wf_source s \<longleftrightarrow> (s_file s \<longrightarrow> s_set s \<and> s_data s = None) \<and> (\<not> s_file s \<longrightarrow> s_path s = []) \<and>
     (\<not> s_set s \<longrightarrow> s_data s = None)"

lemma built_source_wf: "built_source s \<Longrightarrow> wf_source s"
  by (induction rule: built_source.induct)
    (auto simp: wf_source_def zeroSource_def Bytes_def Base64_def PEM_def DER_def File_def
      WithEncoding_def)

section \<open>Certificates, requests and results\<close>

text \<open>The isolated protocol consumes the \<^verbatim>\<open>Raw\<close> field of a parsed certificate only.\<close>

record x509Certificate =
  Raw :: slice

record HashRequest =
  hr_Algorithm :: goint
  hr_Data :: Source

record SignHashRequest =
  shr_Alias :: gostring
  shr_Digest :: slice
  shr_DigestAlgorithm :: goint
  shr_Timestamp :: bool
  shr_IncludeCertificate :: bool
  shr_OutputFormat :: goint
  shr_CertificateTimeCheck :: goint

record SignCMSRequest =
  scr_Alias :: gostring
  scr_Data :: Source
  scr_Detached :: bool
  scr_Timestamp :: bool
  scr_IncludeCertificate :: bool
  scr_OutputFormat :: goint
  scr_CertificateTimeCheck :: goint

record VerifyCMSRequest =
  vcr_Alias :: gostring
  vcr_Signature :: Source
  vcr_Data :: Source
  vcr_Detached :: bool
  vcr_Encoding :: goint
  vcr_SignerID :: goint
  vcr_CertificateTimeCheck :: goint

record SignXMLRequest =
  sxr_Alias :: gostring
  sxr_XML :: Source
  sxr_SignNodeID :: gostring
  sxr_ParentSignNode :: gostring
  sxr_ParentNamespace :: gostring
  sxr_Canonicalization :: goint
  sxr_CertificateTimeCheck :: goint

record VerifyXMLRequest =
  vxr_Alias :: gostring
  vxr_XML :: Source
  vxr_ExpectedBodyID :: gostring
  vxr_Canonicalization :: goint
  vxr_CertificateTimeCheck :: goint

record SignWSSERequest =
  swr_Alias :: gostring
  swr_XML :: Source
  swr_BodyID :: gostring
  swr_WrapSOAP :: bool
  swr_Canonicalization :: goint
  swr_CertificateTimeCheck :: goint

record ValidateCertificateRequest =
  vr_Certificate :: Source
  vr_Issuer :: Source
  vr_Mode :: goint
  vr_RevocationSource :: gostring
  vr_CheckTime :: gotime
  vr_ReturnOCSPResponse :: bool
  vr_CertificateTimeCheck :: goint

record KeyStore =
  ks_Type :: goint
  ks_Path :: gostring
  ks_Password :: gostring
  ks_Alias :: gostring

record TrustedCertificate =
  tc_Data :: slice
  tc_Path :: gostring
  tc_Type :: goint
  tc_Format :: goint

record Proxy =
  px_Enabled :: bool
  px_Address :: gostring
  px_Port :: gostring
  px_User :: gostring
  px_Password :: gostring

record SignZIPRequest =
  szr_Alias :: gostring
  szr_InputPath :: gostring
  szr_OutputPath :: gostring
  szr_CertificateTimeCheck :: goint

record VerifyZIPRequest =
  vzr_Path :: gostring
  vzr_CertificateTimeCheck :: goint

record ExtractZIPSignerCertificateRequest =
  ezr_Path :: gostring
  ezr_SignerID :: goint
  ezr_CertificateTimeCheck :: goint

record certificateInfoFieldsRequest =
  cfr_Certificate :: "x509Certificate option"
  cfr_Fields :: uint64

record Digest =
  dg_Algorithm :: goint
  dg_Data :: slice

record CMS =
  cms_Data :: slice

record SignedXML =
  sx_XML :: slice

record Verification =
  vf_Info :: gostring
  vf_Data :: slice
  vf_SignerCert :: slice

record CertificateValidation =
  cv_Info :: gostring
  cv_OCSPResponse :: slice

record SignedZIP =
  sz_Path :: gostring

record CertificateInfo =
  ci_Subject :: gostring
  ci_SerialNumber :: gostring
  ci_ValidFrom :: gotime
  ci_ValidUntil :: gotime
  ci_Issuer :: gostring
  ci_Policy :: gostring
  ci_KeyUsage :: gostring
  ci_ExtKeyUsage :: gostring
  ci_AuthKeyID :: gostring
  ci_SubjKeyID :: gostring
  ci_AlgorithmSignCert :: gostring
  ci_PublicKey :: gostring
  ci_OCSPURL :: gostring
  ci_CRLURL :: gostring
  ci_DeltaCRLURL :: gostring
  ci_SubjectCountry :: gostring
  ci_SubjectSerialNumber :: gostring
  ci_SubjectOrganization :: gostring
  ci_SubjectOrganizationalUnit :: gostring
  ci_Policies :: "gostring list option"
  ci_KeyUsages :: "gostring list option"
  ci_ExtKeyUsages :: "gostring list option"
  ci_IIN :: gostring
  ci_BIN :: gostring
  ci_SubjectType :: gostring
  ci_Roles :: "gostring list option"

record EndpointPolicy =
  ep_AllowedHosts :: "gostring list option"
  ep_AllowedPorts :: "gostring list option"
  ep_RequireHTTPS :: bool
  ep_AllowIPAddresses :: bool

end
