(* ===== verification/Protocol_Fields.thy ===== *)
theory Protocol_Fields
  imports Kalkan_Types
begin

text \<open>
  Field groups shared by the requests, the results and the configuration: optional values,
  string lists, sources, certificates and timestamps
  (\<^verbatim>\<open>isolated/protocol_operations.go\<close>, \<^verbatim>\<open>protocol_results.go\<close>,
  \<^verbatim>\<open>protocol_config.go\<close>).
\<close>

section \<open>Optional values and string lists\<close>

definition encodeOptional :: "('a \<Rightarrow> unit encode) \<Rightarrow> 'a option \<Rightarrow> unit encode" where
  "encodeOptional encode value = do {
     w_boolean (value \<noteq> None);
     (case value of None \<Rightarrow> ret () | Some v \<Rightarrow> encode v) }"

definition decodeOptional :: "'a decode \<Rightarrow> 'a option decode" where
  "decodeOptional decode = do {
     present \<leftarrow> r_boolean;
     if \<not> present then ret None
     else do { value \<leftarrow> decode; ret (Some value) } }"

definition encodeStrings :: "gostring list option \<Rightarrow> unit encode" where
  "encodeStrings values = e_list e_text values"

definition decodeStrings :: "gostring list option decode" where
  "decodeStrings = d_list 4 d_text"

lemma codec_optional:
  assumes "\<And>v. x = Some v \<Longrightarrow> codec_at (enc v) dec (view v)"
  shows "codec_at (encodeOptional enc x) (decodeOptional dec) (map_option view x)"
  unfolding encodeOptional_def decodeOptional_def
proof (rule codec_bind [OF codec_boolean])
  show "codec_at (case x of None \<Rightarrow> ret () | Some v \<Rightarrow> enc v)
      (if \<not> x \<noteq> None then ret None else State_Monad.bind dec (\<lambda>value. ret (Some value)))
      (map_option view x)"
  proof (cases x)
    case None
    then show ?thesis by (simp add: codec_ret)
  next
    case (Some v)
    with assms codec_last [of "enc v" dec "view v" Some] show ?thesis by simp
  qed
qed

lemma codec_optional_id:
  "(\<And>v. x = Some v \<Longrightarrow> codec_at (enc v) dec v) \<Longrightarrow> codec_at (encodeOptional enc x) (decodeOptional dec) x"
  using codec_optional [of x enc dec "\<lambda>v. v"] by (simp add: option.map_ident)

lemma keeps_optional [keeps_intros]: "(\<And>v. keeps (enc v)) \<Longrightarrow> keeps (encodeOptional enc x)"
  unfolding encodeOptional_def by (auto intro!: keeps_intros split: option.split)

lemma codec_strings: "codec_at (encodeStrings v) decodeStrings v"
  unfolding encodeStrings_def decodeStrings_def
  using codec_list [of v e_text d_text "\<lambda>x. x" 4, OF codec_text grows_text]
  by (simp add: list.map_ident option.map_ident)

lemma keeps_strings [keeps_intros]: "keeps (encodeStrings v)"
  unfolding encodeStrings_def by (intro keeps_intros)

section \<open>Sources and certificates\<close>

definition e_source :: "Source \<Rightarrow> unit encode" where
  "e_source v = do {
     e_bytes (s_data v);
     e_text (s_path v);
     w_integer (s_encoding v);
     w_boolean (s_file v);
     w_boolean (s_set v) }"

definition d_source :: "Source decode" where
  "d_source = do {
     data \<leftarrow> d_bytes;
     path \<leftarrow> d_text;
     encoding \<leftarrow> r_integer;
     file \<leftarrow> r_boolean;
     present \<leftarrow> r_boolean;
     ret (WithEncoding (if present then (if file then File path else Bytes data) else zeroSource)
            encoding) }"

lemma codec_source: "wf_source v \<Longrightarrow> codec_at (e_source v) d_source v"
  unfolding e_source_def d_source_def
  by (intro codec_steps)
    (cases v, auto simp: wf_source_def WithEncoding_def File_def Bytes_def zeroSource_def)

lemma keeps_source [keeps_intros]: "keeps (e_source v)"
  unfolding e_source_def by (intro keeps_intros)

definition e_certificate :: "x509Certificate option \<Rightarrow> unit encode" where
  "e_certificate value = do {
     w_boolean (value \<noteq> None);
     (case value of None \<Rightarrow> ret () | Some v \<Rightarrow> e_bytes (Raw v)) }"

definition d_certificate :: "x509Certificate option decode" where
  "d_certificate = do {
     present \<leftarrow> r_boolean;
     if \<not> present then ret None
     else do { b \<leftarrow> d_bytes; ret (Some \<lparr>Raw = b\<rparr>) } }"

lemma codec_certificate: "codec_at (e_certificate v) d_certificate v"
  unfolding e_certificate_def d_certificate_def
proof (rule codec_bind [OF codec_boolean])
  show "codec_at (case v of None \<Rightarrow> ret () | Some v \<Rightarrow> e_bytes (Raw v))
      (if \<not> v \<noteq> None then ret None else State_Monad.bind d_bytes (\<lambda>b. ret (Some \<lparr>Raw = b\<rparr>))) v"
    by (cases v) (auto intro: codec_ret codec_last [OF codec_bytes])
qed

lemma keeps_certificate [keeps_intros]: "keeps (e_certificate v)"
  unfolding e_certificate_def by (auto intro!: keeps_intros split: option.split)

section \<open>Timestamps\<close>

definition malformedResult :: gerror where
  "malformedResult = errorf ErrProtocol ''malformed isolated operation result''"

definition e_timestamp :: "gotime \<Rightarrow> unit encode" where
  "e_timestamp value = do {
     w_boolean (\<not> IsZero value);
     (if IsZero value then ret ()
      else do {
        w_int64 (tsec value);
        w_integer (tnsec value);
        e_text (tzone value);
        w_integer (toffset value);
        w_boolean (tutc value) }) }"

definition d_timestamp :: "gotime decode" where
  "d_timestamp = do {
     present \<leftarrow> r_boolean;
     if \<not> present then ret zero_time
     else do {
       seconds \<leftarrow> r_int64;
       nanos \<leftarrow> r_integer;
       name \<leftarrow> d_text;
       offset \<leftarrow> r_integer;
       utc \<leftarrow> r_boolean;
       if sint nanos < 0 \<or> sint nanos \<ge> 1000000000
       then do { r_fail malformedResult; ret zero_time }
       else ret (if utc
                 then \<lparr>tsec = seconds, tnsec = nanos, tzone = ''UTC'', toffset = 0, tutc = True\<rparr>
                 else \<lparr>tsec = seconds, tnsec = nanos, tzone = name, toffset = offset, tutc = False\<rparr>) } }"

text \<open>The zero instant loses its location: it arrives as \<^verbatim>\<open>time.Time{}\<close>.\<close>

definition time_view :: "gotime \<Rightarrow> gotime" where
  "time_view t = (if IsZero t then zero_time else t)"

lemma codec_timestamp:
  assumes "wf_time v"
  shows "codec_at (e_timestamp v) d_timestamp (time_view v)"
  unfolding e_timestamp_def d_timestamp_def
proof (rule codec_bind [OF codec_boolean])
  let ?rest = "do {
       seconds \<leftarrow> r_int64;
       nanos \<leftarrow> r_integer;
       name \<leftarrow> d_text;
       offset \<leftarrow> r_integer;
       utc \<leftarrow> r_boolean;
       if sint nanos < 0 \<or> sint nanos \<ge> 1000000000
       then do { r_fail malformedResult; ret zero_time }
       else ret (if utc
                 then \<lparr>tsec = seconds, tnsec = nanos, tzone = ''UTC'', toffset = 0, tutc = True\<rparr>
                 else \<lparr>tsec = seconds, tnsec = nanos, tzone = name, toffset = offset, tutc = False\<rparr>) }"
  have fields: "codec_at
      (do { w_int64 (tsec v); w_integer (tnsec v); e_text (tzone v); w_integer (toffset v);
            w_boolean (tutc v) }) ?rest v"
    using assms by (intro codec_steps) (cases v, auto simp: wf_time_def intro!: codec_steps)
  show "codec_at (if IsZero v then ret ()
      else do { w_int64 (tsec v); w_integer (tnsec v); e_text (tzone v); w_integer (toffset v);
                w_boolean (tutc v) })
      (if \<not> (\<not> IsZero v) then ret zero_time else ?rest) (time_view v)"
    using fields by (auto simp: time_view_def codec_ret)
qed

lemmas codec_group_fields [codec_steps] =
  codec_strings [THEN codec_bind] codec_source [THEN codec_bind] codec_certificate [THEN codec_bind]
  codec_timestamp [THEN codec_bind] codec_strings [THEN codec_last] codec_source [THEN codec_last]
  codec_certificate [THEN codec_last] codec_timestamp [THEN codec_last]

lemma keeps_timestamp [keeps_intros]: "keeps (e_timestamp v)"
  unfolding e_timestamp_def by (intro keeps_intros)

lemma wf_time_view: "wf_time t \<Longrightarrow> wf_time (time_view t)"
  by (auto simp: wf_time_def time_view_def zero_time_def)

end
