(* ===== verification/Protocol_Results.thy ===== *)
theory Protocol_Results
  imports Protocol_Fields
begin

text \<open>
  Operation results on the wire (\<^verbatim>\<open>isolated/protocol_results.go\<close>): the encoders of the
  result structs, \<^verbatim>\<open>encodeResult\<close> over the dynamic type of a result and
  \<^verbatim>\<open>decodeResult\<close> for the operation and the caller's target.
\<close>

section \<open>Operation names\<close>

definition opOpen :: gostring where "opOpen = ''Open''"
definition opClose :: gostring where "opClose = ''Close''"
definition opHash :: gostring where "opHash = ''Hash''"
definition opSignHash :: gostring where "opSignHash = ''SignHash''"
definition opSignCMS :: gostring where "opSignCMS = ''SignCMS''"
definition opVerifyCMS :: gostring where "opVerifyCMS = ''VerifyCMS''"
definition opSignXML :: gostring where "opSignXML = ''SignXML''"
definition opVerifyXML :: gostring where "opVerifyXML = ''VerifyXML''"
definition opSignWSSE :: gostring where "opSignWSSE = ''SignWSSE''"
definition opValidateCertificate :: gostring where "opValidateCertificate = ''ValidateCertificate''"
definition opLoadKeyStore :: gostring where "opLoadKeyStore = ''LoadKeyStore''"
definition opLoadTrustedCertificate :: gostring where "opLoadTrustedCertificate = ''LoadTrustedCertificate''"
definition opSetProxy :: gostring where "opSetProxy = ''SetProxy''"
definition opSignZIP :: gostring where "opSignZIP = ''SignZIP''"
definition opVerifyZIP :: gostring where "opVerifyZIP = ''VerifyZIP''"
definition opExtractZIPSignerCertificate :: gostring where "opExtractZIPSignerCertificate = ''ExtractZIPSignerCertificate''"
definition opX509ExportCertificateFromStore :: gostring where "opX509ExportCertificateFromStore = ''X509ExportCertificateFromStore''"
definition opX509CertificateGetInfo :: gostring where "opX509CertificateGetInfo = ''X509CertificateGetInfo''"
definition opX509CertificateGetInfoFields :: gostring where "opX509CertificateGetInfoFields = ''X509CertificateGetInfoFields''"
definition opGetCertFromCMS :: gostring where "opGetCertFromCMS = ''GetCertFromCMS''"
definition opGetCertFromXML :: gostring where "opGetCertFromXML = ''GetCertFromXML''"
definition opGetTimeFromSig :: gostring where "opGetTimeFromSig = ''GetTimeFromSig''"
definition opGetSigAlgFromXML :: gostring where "opGetSigAlgFromXML = ''GetSigAlgFromXML''"

lemmas op_defs =
  opOpen_def opClose_def opHash_def
  opSignHash_def opSignCMS_def opVerifyCMS_def
  opSignXML_def opVerifyXML_def opSignWSSE_def
  opValidateCertificate_def opLoadKeyStore_def opLoadTrustedCertificate_def
  opSetProxy_def opSignZIP_def opVerifyZIP_def
  opExtractZIPSignerCertificate_def opX509ExportCertificateFromStore_def opX509CertificateGetInfo_def
  opX509CertificateGetInfoFields_def opGetCertFromCMS_def opGetCertFromXML_def
  opGetTimeFromSig_def opGetSigAlgFromXML_def

section \<open>Result structs\<close>

definition e_digest :: "Digest \<Rightarrow> unit encode" where
  "e_digest v = do {
     w_integer (dg_Algorithm v);
     e_bytes (dg_Data v) }"

definition d_digest :: "Digest decode" where
  "d_digest = do {
     x1 \<leftarrow> r_integer;
     x2 \<leftarrow> d_bytes;
     ret \<lparr>dg_Algorithm = x1, dg_Data = x2\<rparr> }"

interpretation digest_codec: wire_codec e_digest d_digest
  "\<lambda>v. v"
  "\<lambda>v. True"
  by unfold_locales (unfold e_digest_def d_digest_def, auto intro!: codec_steps keeps_intros)

definition e_cms :: "CMS \<Rightarrow> unit encode" where
  "e_cms v = e_bytes (cms_Data v)"

definition d_cms :: "CMS decode" where
  "d_cms = do {
     x1 \<leftarrow> d_bytes;
     ret \<lparr>cms_Data = x1\<rparr> }"

interpretation cms_codec: wire_codec e_cms d_cms
  "\<lambda>v. v"
  "\<lambda>v. True"
  by unfold_locales (unfold e_cms_def d_cms_def, auto intro!: codec_steps keeps_intros)

definition e_signedXML :: "SignedXML \<Rightarrow> unit encode" where
  "e_signedXML v = e_bytes (sx_XML v)"

definition d_signedXML :: "SignedXML decode" where
  "d_signedXML = do {
     x1 \<leftarrow> d_bytes;
     ret \<lparr>sx_XML = x1\<rparr> }"

interpretation signedXML_codec: wire_codec e_signedXML d_signedXML
  "\<lambda>v. v"
  "\<lambda>v. True"
  by unfold_locales (unfold e_signedXML_def d_signedXML_def, auto intro!: codec_steps keeps_intros)

definition e_verification :: "Verification \<Rightarrow> unit encode" where
  "e_verification v = do {
     e_text (vf_Info v);
     e_bytes (vf_Data v);
     e_bytes (vf_SignerCert v) }"

definition d_verification :: "Verification decode" where
  "d_verification = do {
     x1 \<leftarrow> d_text;
     x2 \<leftarrow> d_bytes;
     x3 \<leftarrow> d_bytes;
     ret \<lparr>vf_Info = x1, vf_Data = x2, vf_SignerCert = x3\<rparr> }"

interpretation verification_codec: wire_codec e_verification d_verification
  "\<lambda>v. v"
  "\<lambda>v. True"
  by unfold_locales (unfold e_verification_def d_verification_def, auto intro!: codec_steps keeps_intros)

definition e_validation :: "CertificateValidation \<Rightarrow> unit encode" where
  "e_validation v = do {
     e_text (cv_Info v);
     e_bytes (cv_OCSPResponse v) }"

definition d_validation :: "CertificateValidation decode" where
  "d_validation = do {
     x1 \<leftarrow> d_text;
     x2 \<leftarrow> d_bytes;
     ret \<lparr>cv_Info = x1, cv_OCSPResponse = x2\<rparr> }"

interpretation validation_codec: wire_codec e_validation d_validation
  "\<lambda>v. v"
  "\<lambda>v. True"
  by unfold_locales (unfold e_validation_def d_validation_def, auto intro!: codec_steps keeps_intros)

definition e_signedZIP :: "SignedZIP \<Rightarrow> unit encode" where
  "e_signedZIP v = e_text (sz_Path v)"

definition d_signedZIP :: "SignedZIP decode" where
  "d_signedZIP = do {
     x1 \<leftarrow> d_text;
     ret \<lparr>sz_Path = x1\<rparr> }"

interpretation signedZIP_codec: wire_codec e_signedZIP d_signedZIP
  "\<lambda>v. v"
  "\<lambda>v. True"
  by unfold_locales (unfold e_signedZIP_def d_signedZIP_def, auto intro!: codec_steps keeps_intros)

definition e_certificateInfo :: "CertificateInfo \<Rightarrow> unit encode" where
  "e_certificateInfo v = do {
     e_text (ci_Subject v);
     e_text (ci_SerialNumber v);
     e_timestamp (ci_ValidFrom v);
     e_timestamp (ci_ValidUntil v);
     e_text (ci_Issuer v);
     e_text (ci_Policy v);
     e_text (ci_KeyUsage v);
     e_text (ci_ExtKeyUsage v);
     e_text (ci_AuthKeyID v);
     e_text (ci_SubjKeyID v);
     e_text (ci_AlgorithmSignCert v);
     e_text (ci_PublicKey v);
     e_text (ci_OCSPURL v);
     e_text (ci_CRLURL v);
     e_text (ci_DeltaCRLURL v);
     e_text (ci_SubjectCountry v);
     e_text (ci_SubjectSerialNumber v);
     e_text (ci_SubjectOrganization v);
     e_text (ci_SubjectOrganizationalUnit v);
     encodeStrings (ci_Policies v);
     encodeStrings (ci_KeyUsages v);
     encodeStrings (ci_ExtKeyUsages v);
     e_text (ci_IIN v);
     e_text (ci_BIN v);
     e_text (ci_SubjectType v);
     encodeStrings (ci_Roles v) }"

definition d_certificateInfo :: "CertificateInfo decode" where
  "d_certificateInfo = do {
     x1 \<leftarrow> d_text;
     x2 \<leftarrow> d_text;
     x3 \<leftarrow> d_timestamp;
     x4 \<leftarrow> d_timestamp;
     x5 \<leftarrow> d_text;
     x6 \<leftarrow> d_text;
     x7 \<leftarrow> d_text;
     x8 \<leftarrow> d_text;
     x9 \<leftarrow> d_text;
     x10 \<leftarrow> d_text;
     x11 \<leftarrow> d_text;
     x12 \<leftarrow> d_text;
     x13 \<leftarrow> d_text;
     x14 \<leftarrow> d_text;
     x15 \<leftarrow> d_text;
     x16 \<leftarrow> d_text;
     x17 \<leftarrow> d_text;
     x18 \<leftarrow> d_text;
     x19 \<leftarrow> d_text;
     x20 \<leftarrow> decodeStrings;
     x21 \<leftarrow> decodeStrings;
     x22 \<leftarrow> decodeStrings;
     x23 \<leftarrow> d_text;
     x24 \<leftarrow> d_text;
     x25 \<leftarrow> d_text;
     x26 \<leftarrow> decodeStrings;
     ret \<lparr>ci_Subject = x1, ci_SerialNumber = x2, ci_ValidFrom = x3, ci_ValidUntil = x4,
          ci_Issuer = x5, ci_Policy = x6, ci_KeyUsage = x7, ci_ExtKeyUsage = x8,
          ci_AuthKeyID = x9, ci_SubjKeyID = x10, ci_AlgorithmSignCert = x11,
          ci_PublicKey = x12, ci_OCSPURL = x13, ci_CRLURL = x14, ci_DeltaCRLURL = x15,
          ci_SubjectCountry = x16, ci_SubjectSerialNumber = x17,
          ci_SubjectOrganization = x18, ci_SubjectOrganizationalUnit = x19,
          ci_Policies = x20, ci_KeyUsages = x21, ci_ExtKeyUsages = x22, ci_IIN = x23,
          ci_BIN = x24, ci_SubjectType = x25, ci_Roles = x26\<rparr> }"

interpretation certificateInfo_codec: wire_codec e_certificateInfo d_certificateInfo
  "\<lambda>v. v\<lparr>ci_ValidFrom := time_view (ci_ValidFrom v), ci_ValidUntil := time_view (ci_ValidUntil v)\<rparr>"
  "\<lambda>v. wf_time (ci_ValidFrom v) \<and> wf_time (ci_ValidUntil v)"
  by unfold_locales (unfold e_certificateInfo_def d_certificateInfo_def, auto intro!: codec_steps keeps_intros)


section \<open>encodeResult\<close>

text \<open>The dynamic types \<^verbatim>\<open>encodeResult\<close> switches over; \<open>ResOther\<close> is any other type.\<close>

datatype result =
    ResNil
  | ResBytes slice
  | ResCert "x509Certificate option"
  | ResCerts "x509Certificate option list option"
  | ResByteses "slice list option"
  | ResString gostring
  | ResTime gotime
  | ResDigest "Digest option"
  | ResCMS "CMS option"
  | ResSignedXML "SignedXML option"
  | ResVerification "Verification option"
  | ResValidation "CertificateValidation option"
  | ResSignedZIP "SignedZIP option"
  | ResInfo "CertificateInfo option"
  | ResOther

definition e_certRaw :: "x509Certificate option \<Rightarrow> unit encode" where
  "e_certRaw certificate = (case certificate of None \<Rightarrow> e_bytes None | Some c \<Rightarrow> e_bytes (Raw c))"

fun e_result :: "result \<Rightarrow> unit encode" where
  "e_result ResNil = ret ()"
| "e_result (ResBytes value) = e_bytes value"
| "e_result (ResCert value) = e_certRaw value"
| "e_result (ResCerts value) = e_list e_certRaw value"
| "e_result (ResByteses value) = e_list e_bytes value"
| "e_result (ResString value) = e_text value"
| "e_result (ResTime value) = e_timestamp value"
| "e_result (ResDigest value) = encodeOptional e_digest value"
| "e_result (ResCMS value) = encodeOptional e_cms value"
| "e_result (ResSignedXML value) = encodeOptional e_signedXML value"
| "e_result (ResVerification value) = encodeOptional e_verification value"
| "e_result (ResValidation value) = encodeOptional e_validation value"
| "e_result (ResSignedZIP value) = encodeOptional e_signedZIP value"
| "e_result (ResInfo value) = encodeOptional e_certificateInfo value"
| "e_result ResOther = w_fail (errorf ErrProtocol ''unsupported operation result'')"

definition encodeResult :: "result \<Rightarrow> gerror + wirePayload" where
  "encodeResult result = e_finish (exec (e_result result) (newEncoder 0))"

section \<open>decodeResult\<close>

text \<open>The pointer types a caller passes as \<^verbatim>\<open>out\<close>.\<close>

datatype target =
    OutDigest | OutCMS | OutSignedXML | OutVerification | OutValidation | OutSignedZIP | OutInfo
  | OutString | OutTime | OutBytes | OutByteses | OutAny

definition decodeValueResult ::
  "wirePayload \<Rightarrow> bool \<Rightarrow> 'a decode \<Rightarrow> ('a \<Rightarrow> result) \<Rightarrow> gerror + result" where
  "decodeValueResult payload ok decode wrap =
     (if \<not> ok then Inl malformedResult
      else let (value, d) = run_state decode (decodePayload payload)
           in (case r_finish d of Some err \<Rightarrow> Inl err | None \<Rightarrow> Inr (wrap value)))"

definition decodePointerResult ::
  "wirePayload \<Rightarrow> bool \<Rightarrow> 'a decode \<Rightarrow> ('a option \<Rightarrow> result) \<Rightarrow> gerror + result" where
  "decodePointerResult payload ok decode wrap =
     decodeValueResult payload ok (decodeOptional decode) wrap"

definition d_certificates :: "slice list option decode" where
  "d_certificates = d_list 4 d_bytes"

text \<open>The verb \<^verbatim>\<open>%q\<close> on a printable ASCII name: the name in double quotes.\<close>

definition unknownOperation :: "gostring \<Rightarrow> gerror" where
  "unknownOperation operation = errorf ErrProtocol
     (''unknown isolated operation '' @ [CHR 0x22] @ operation @ [CHR 0x22])"

definition decodeResult :: "gostring \<Rightarrow> wirePayload \<Rightarrow> target \<Rightarrow> gerror + result" where
  "decodeResult operation payload out =
    (if operation = opHash then decodePointerResult payload (out = OutDigest) d_digest ResDigest
     else if operation \<in> {opSignHash, opSignCMS}
     then decodePointerResult payload (out = OutCMS) d_cms ResCMS
     else if operation \<in> {opSignXML, opSignWSSE}
     then decodePointerResult payload (out = OutSignedXML) d_signedXML ResSignedXML
     else if operation \<in> {opVerifyCMS, opVerifyXML, opVerifyZIP}
     then decodePointerResult payload (out = OutVerification) d_verification ResVerification
     else if operation = opValidateCertificate
     then decodePointerResult payload (out = OutValidation) d_validation ResValidation
     else if operation = opSignZIP
     then decodePointerResult payload (out = OutSignedZIP) d_signedZIP ResSignedZIP
     else if operation \<in> {opX509CertificateGetInfo, opX509CertificateGetInfoFields}
     then decodePointerResult payload (out = OutInfo) d_certificateInfo ResInfo
     else if operation = opGetSigAlgFromXML
     then decodeValueResult payload (out = OutString) d_text ResString
     else if operation = opGetTimeFromSig
     then decodeValueResult payload (out = OutTime) d_timestamp ResTime
     else if operation \<in> {opExtractZIPSignerCertificate, opX509ExportCertificateFromStore}
     then decodeValueResult payload (out = OutBytes) d_bytes ResBytes
     else if operation \<in> {opGetCertFromCMS, opGetCertFromXML}
     then decodeValueResult payload (out = OutByteses) d_certificates ResByteses
     else if operation \<in> {opLoadKeyStore, opLoadTrustedCertificate, opSetProxy}
     then (if \<not> isNull payload then Inl malformedResult else Inr ResNil)
     else Inl (unknownOperation operation))"

section \<open>Round trip of results\<close>

text \<open>What the parent holds after decoding: certificates arrive as their raw bytes.\<close>

definition cert_raw :: "x509Certificate option \<Rightarrow> slice" where
  "cert_raw c = Option.bind c Raw"

definition info_view :: "CertificateInfo \<Rightarrow> CertificateInfo" where
  "info_view v = v\<lparr>ci_ValidFrom := time_view (ci_ValidFrom v), ci_ValidUntil := time_view (ci_ValidUntil v)\<rparr>"

fun result_view :: "result \<Rightarrow> result" where
  "result_view (ResCert c) = ResBytes (cert_raw c)"
| "result_view (ResCerts cs) = ResByteses (map_option (map cert_raw) cs)"
| "result_view (ResTime t) = ResTime (time_view t)"
| "result_view (ResInfo i) = ResInfo (map_option info_view i)"
| "result_view r = r"

fun wf_result :: "result \<Rightarrow> bool" where
  "wf_result (ResTime t) \<longleftrightarrow> wf_time t"
| "wf_result (ResInfo (Some i)) \<longleftrightarrow> wf_time (ci_ValidFrom i) \<and> wf_time (ci_ValidUntil i)"
| "wf_result _ \<longleftrightarrow> True"

text \<open>The result type of each method of \<^verbatim>\<open>sdkClient\<close> and the target its caller passes.\<close>

inductive result_type :: "gostring \<Rightarrow> result \<Rightarrow> target \<Rightarrow> bool" where
  "result_type opHash (ResDigest d) OutDigest"
| "result_type opSignHash (ResCMS c) OutCMS"
| "result_type opSignCMS (ResCMS c) OutCMS"
| "result_type opVerifyCMS (ResVerification v) OutVerification"
| "result_type opSignXML (ResSignedXML x) OutSignedXML"
| "result_type opVerifyXML (ResVerification v) OutVerification"
| "result_type opSignWSSE (ResSignedXML x) OutSignedXML"
| "result_type opValidateCertificate (ResValidation w) OutValidation"
| "result_type opLoadKeyStore ResNil OutAny"
| "result_type opLoadTrustedCertificate ResNil OutAny"
| "result_type opSetProxy ResNil OutAny"
| "result_type opSignZIP (ResSignedZIP z) OutSignedZIP"
| "result_type opVerifyZIP (ResVerification v) OutVerification"
| "result_type opExtractZIPSignerCertificate (ResBytes b) OutBytes"
| "result_type opX509ExportCertificateFromStore (ResCert k) OutBytes"
| "result_type opX509CertificateGetInfo (ResInfo i) OutInfo"
| "result_type opX509CertificateGetInfoFields (ResInfo i) OutInfo"
| "result_type opGetCertFromCMS (ResCerts ks) OutByteses"
| "result_type opGetCertFromXML (ResCerts ks) OutByteses"
| "result_type opGetTimeFromSig (ResTime t) OutTime"
| "result_type opGetSigAlgFromXML (ResString s) OutString"

lemma codec_certRaw: "codec_at (e_certRaw c) d_bytes (cert_raw c)"
  by (cases c) (simp_all add: e_certRaw_def cert_raw_def codec_bytes)

lemma grows_certRaw: "grows 4 (e_certRaw c)"
  by (cases c) (simp_all add: e_certRaw_def grows_bytes)

lemma keeps_certRaw [keeps_intros]: "keeps (e_certRaw c)"
  by (cases c) (simp_all add: e_certRaw_def keeps_bytes)

lemma codec_certificates: "codec_at (e_list e_certRaw cs) d_certificates (map_option (map cert_raw) cs)"
  unfolding d_certificates_def by (rule codec_list [OF codec_certRaw grows_certRaw]) simp

lemma keeps_result: "keeps (e_result r)"
  by (cases r)
    (auto intro!: keeps_intros digest_codec.bounded cms_codec.bounded signedXML_codec.bounded
      verification_codec.bounded validation_codec.bounded signedZIP_codec.bounded
      certificateInfo_codec.bounded)

text \<open>A value decoder that agrees with the encoder of a result reads the payload completely.\<close>

lemma decodeValue_roundtrip:
  assumes "codec_at (e_result r) dec x" and "encodeResult r = Inr p"
  shows "decodeValueResult (transported p) True dec wrap = Inr (wrap x)"
proof -
  have c: "wire_codec (\<lambda>u :: unit. e_result r) dec (\<lambda>u. x) (\<lambda>u. True)"
    using assms(1) keeps_result by unfold_locales
  from wire_codec.payload_roundtrip [OF c] assms(2)
  show ?thesis by (simp add: decodeValueResult_def encodeResult_def case_prod_unfold)
qed

lemma decodePointer_roundtrip:
  assumes "\<And>v. x = Some v \<Longrightarrow> codec_at (enc v) dec (view v)"
    and "e_result r = encodeOptional enc x" and "encodeResult r = Inr p"
  shows "decodePointerResult (transported p) True dec wrap = Inr (wrap (map_option view x))"
  unfolding decodePointerResult_def
  by (rule decodeValue_roundtrip [OF _ assms(3)]) (simp add: assms(2) codec_optional assms(1))

lemma isNull_transported_nil: "encodeResult ResNil = Inr p \<Longrightarrow> isNull (transported p)"
  by (auto simp: encodeResult_def e_finish_def newEncoder_def isNull_def transported_def)

lemma encodeResult_bounds: "encodeResult r = Inr p \<Longrightarrow> payload_ok p"
proof -
  assume e: "encodeResult r = Inr p"
  have c: "wire_codec (\<lambda>u :: unit. e_result r) (ret ()) (\<lambda>u. ()) (\<lambda>u. False)"
    using keeps_result by unfold_locales auto
  from e show ?thesis
    using wire_codec.payload_bounds [OF c] by (simp add: encodeResult_def)
qed

lemmas pointer_roundtrips =
  decodePointer_roundtrip [OF digest_codec.roundtrip e_result.simps(8), simplified option.map_ident]
  decodePointer_roundtrip [OF cms_codec.roundtrip e_result.simps(9), simplified option.map_ident]
  decodePointer_roundtrip [OF signedXML_codec.roundtrip e_result.simps(10), simplified option.map_ident]
  decodePointer_roundtrip [OF verification_codec.roundtrip e_result.simps(11), simplified option.map_ident]
  decodePointer_roundtrip [OF validation_codec.roundtrip e_result.simps(12), simplified option.map_ident]
  decodePointer_roundtrip [OF signedZIP_codec.roundtrip e_result.simps(13), simplified option.map_ident]

lemma info_roundtrip:
  assumes "wf_result (ResInfo i)" "encodeResult (ResInfo i) = Inr p"
  shows "decodePointerResult (transported p) True d_certificateInfo ResInfo =
    Inr (ResInfo (map_option info_view i))"
  unfolding info_view_def using assms
  by (intro decodePointer_roundtrip [OF certificateInfo_codec.roundtrip e_result.simps(14)]) auto

lemmas value_roundtrips =
  decodeValue_roundtrip [of "ResBytes b" d_bytes b for b, simplified, OF codec_bytes]
  decodeValue_roundtrip [of "ResCert c" d_bytes "cert_raw c" for c, simplified, OF codec_certRaw]
  decodeValue_roundtrip [of "ResString t" d_text t for t, simplified, OF codec_text]
  decodeValue_roundtrip [of "ResCerts cs" for cs, simplified, OF codec_certificates]
  decodeValue_roundtrip [of "ResTime t" for t, simplified, OF codec_timestamp]

lemma result_roundtrip_aux:
  "result_type op r out \<Longrightarrow> wf_result r \<Longrightarrow> encodeResult r = Inr p \<Longrightarrow>
     decodeResult op (transported p) out = Inr (result_view r)"
  by (induction rule: result_type.induct)
    (simp_all add: decodeResult_def op_defs pointer_roundtrips info_roundtrip value_roundtrips
      isNull_transported_nil)

text \<open>
  C5: A result an operation returned in the worker arrives in the parent: whenever the
  worker could encode it, the parent decodes, for the same operation and the target type of
  its caller, exactly that value (certificates as their raw bytes, instants up to the
  location of the zero time), without a protocol error.
\<close>

theorem result_roundtrip:
  assumes "result_type op r out" and "wf_result r" and "encodeResult r = Inr p"
  shows "decodeResult op (transported p) out = Inr (result_view r)"
  using assms by (rule result_roundtrip_aux)

theorem result_roundtrip_witness:
  "decodeResult opHash (transported
     \<lparr>metadata = [CHR 0x01] @ be_bytes 8 3 @ be_bytes 4 (Suc 0),
      pblocks = [\<lparr>bdata = Some ''x'', btext = []\<rparr>]\<rparr>) OutDigest =
   Inr (ResDigest (Some \<lparr>dg_Algorithm = 3, dg_Data = Some ''x''\<rparr>))"
proof -
  let ?r = "ResDigest (Some \<lparr>dg_Algorithm = 3, dg_Data = Some ''x''\<rparr>)"
  have t: "result_type opHash ?r OutDigest" by (rule result_type.intros)
  have e: "encodeResult ?r = Inr \<lparr>metadata = [CHR 0x01] @ be_bytes 8 3 @ be_bytes 4 (Suc 0),
      pblocks = [\<lparr>bdata = Some ''x'', btext = []\<rparr>]\<rparr>"
    by (simp add: encodeResult_def encodeOptional_def e_digest_def wire_run)
  show ?thesis using result_roundtrip [OF t _ e] by simp
qed

end
