(* ===== verification/Protocol_Operations.thy ===== *)
theory Protocol_Operations
  imports Protocol_Results
begin

text \<open>
  Operation requests on the wire (\<^verbatim>\<open>isolated/protocol_operations.go\<close>): the encoder and
  decoder of every request struct, \<^verbatim>\<open>encodeRequest\<close> in the parent and
  \<^verbatim>\<open>dispatch\<close> in the worker. Each struct interprets the codec interface; the dynamic
  type of the request is a datatype. The SDK client a worker dispatches to is a parameter:
  a function from the method's name, the request and the session's state.
\<close>

section \<open>Request structs\<close>

definition e_hashRequest :: "HashRequest \<Rightarrow> unit encode" where
  "e_hashRequest v = do {
     w_integer (hr_Algorithm v);
     e_source (hr_Data v) }"

definition d_hashRequest :: "HashRequest decode" where
  "d_hashRequest = do {
     x1 \<leftarrow> r_integer;
     x2 \<leftarrow> d_source;
     ret \<lparr>hr_Algorithm = x1, hr_Data = x2\<rparr> }"

interpretation hashRequest_codec: wire_codec e_hashRequest d_hashRequest
  "\<lambda>v. v"
  "\<lambda>v. wf_source (hr_Data v)"
  by unfold_locales (unfold e_hashRequest_def d_hashRequest_def, auto intro!: codec_steps keeps_intros)

definition e_signHashRequest :: "SignHashRequest \<Rightarrow> unit encode" where
  "e_signHashRequest v = do {
     e_text (shr_Alias v);
     e_bytes (shr_Digest v);
     w_integer (shr_DigestAlgorithm v);
     w_boolean (shr_Timestamp v);
     w_boolean (shr_IncludeCertificate v);
     w_integer (shr_OutputFormat v);
     w_integer (shr_CertificateTimeCheck v) }"

definition d_signHashRequest :: "SignHashRequest decode" where
  "d_signHashRequest = do {
     x1 \<leftarrow> d_text;
     x2 \<leftarrow> d_bytes;
     x3 \<leftarrow> r_integer;
     x4 \<leftarrow> r_boolean;
     x5 \<leftarrow> r_boolean;
     x6 \<leftarrow> r_integer;
     x7 \<leftarrow> r_integer;
     ret \<lparr>shr_Alias = x1, shr_Digest = x2, shr_DigestAlgorithm = x3, shr_Timestamp = x4,
          shr_IncludeCertificate = x5, shr_OutputFormat = x6,
          shr_CertificateTimeCheck = x7\<rparr> }"

interpretation signHashRequest_codec: wire_codec e_signHashRequest d_signHashRequest
  "\<lambda>v. v"
  "\<lambda>v. True"
  by unfold_locales (unfold e_signHashRequest_def d_signHashRequest_def, auto intro!: codec_steps keeps_intros)

definition e_signCMSRequest :: "SignCMSRequest \<Rightarrow> unit encode" where
  "e_signCMSRequest v = do {
     e_text (scr_Alias v);
     e_source (scr_Data v);
     w_boolean (scr_Detached v);
     w_boolean (scr_Timestamp v);
     w_boolean (scr_IncludeCertificate v);
     w_integer (scr_OutputFormat v);
     w_integer (scr_CertificateTimeCheck v) }"

definition d_signCMSRequest :: "SignCMSRequest decode" where
  "d_signCMSRequest = do {
     x1 \<leftarrow> d_text;
     x2 \<leftarrow> d_source;
     x3 \<leftarrow> r_boolean;
     x4 \<leftarrow> r_boolean;
     x5 \<leftarrow> r_boolean;
     x6 \<leftarrow> r_integer;
     x7 \<leftarrow> r_integer;
     ret \<lparr>scr_Alias = x1, scr_Data = x2, scr_Detached = x3, scr_Timestamp = x4,
          scr_IncludeCertificate = x5, scr_OutputFormat = x6,
          scr_CertificateTimeCheck = x7\<rparr> }"

interpretation signCMSRequest_codec: wire_codec e_signCMSRequest d_signCMSRequest
  "\<lambda>v. v"
  "\<lambda>v. wf_source (scr_Data v)"
  by unfold_locales (unfold e_signCMSRequest_def d_signCMSRequest_def, auto intro!: codec_steps keeps_intros)

definition e_verifyCMSRequest :: "VerifyCMSRequest \<Rightarrow> unit encode" where
  "e_verifyCMSRequest v = do {
     e_text (vcr_Alias v);
     e_source (vcr_Signature v);
     e_source (vcr_Data v);
     w_boolean (vcr_Detached v);
     w_integer (vcr_Encoding v);
     w_integer (vcr_SignerID v);
     w_integer (vcr_CertificateTimeCheck v) }"

definition d_verifyCMSRequest :: "VerifyCMSRequest decode" where
  "d_verifyCMSRequest = do {
     x1 \<leftarrow> d_text;
     x2 \<leftarrow> d_source;
     x3 \<leftarrow> d_source;
     x4 \<leftarrow> r_boolean;
     x5 \<leftarrow> r_integer;
     x6 \<leftarrow> r_integer;
     x7 \<leftarrow> r_integer;
     ret \<lparr>vcr_Alias = x1, vcr_Signature = x2, vcr_Data = x3, vcr_Detached = x4,
          vcr_Encoding = x5, vcr_SignerID = x6, vcr_CertificateTimeCheck = x7\<rparr> }"

interpretation verifyCMSRequest_codec: wire_codec e_verifyCMSRequest d_verifyCMSRequest
  "\<lambda>v. v"
  "\<lambda>v. wf_source (vcr_Signature v) \<and> wf_source (vcr_Data v)"
  by unfold_locales (unfold e_verifyCMSRequest_def d_verifyCMSRequest_def, auto intro!: codec_steps keeps_intros)

definition e_signXMLRequest :: "SignXMLRequest \<Rightarrow> unit encode" where
  "e_signXMLRequest v = do {
     e_text (sxr_Alias v);
     e_source (sxr_XML v);
     e_text (sxr_SignNodeID v);
     e_text (sxr_ParentSignNode v);
     e_text (sxr_ParentNamespace v);
     w_integer (sxr_Canonicalization v);
     w_integer (sxr_CertificateTimeCheck v) }"

definition d_signXMLRequest :: "SignXMLRequest decode" where
  "d_signXMLRequest = do {
     x1 \<leftarrow> d_text;
     x2 \<leftarrow> d_source;
     x3 \<leftarrow> d_text;
     x4 \<leftarrow> d_text;
     x5 \<leftarrow> d_text;
     x6 \<leftarrow> r_integer;
     x7 \<leftarrow> r_integer;
     ret \<lparr>sxr_Alias = x1, sxr_XML = x2, sxr_SignNodeID = x3, sxr_ParentSignNode = x4,
          sxr_ParentNamespace = x5, sxr_Canonicalization = x6,
          sxr_CertificateTimeCheck = x7\<rparr> }"

interpretation signXMLRequest_codec: wire_codec e_signXMLRequest d_signXMLRequest
  "\<lambda>v. v"
  "\<lambda>v. wf_source (sxr_XML v)"
  by unfold_locales (unfold e_signXMLRequest_def d_signXMLRequest_def, auto intro!: codec_steps keeps_intros)

definition e_verifyXMLRequest :: "VerifyXMLRequest \<Rightarrow> unit encode" where
  "e_verifyXMLRequest v = do {
     e_text (vxr_Alias v);
     e_source (vxr_XML v);
     e_text (vxr_ExpectedBodyID v);
     w_integer (vxr_Canonicalization v);
     w_integer (vxr_CertificateTimeCheck v) }"

definition d_verifyXMLRequest :: "VerifyXMLRequest decode" where
  "d_verifyXMLRequest = do {
     x1 \<leftarrow> d_text;
     x2 \<leftarrow> d_source;
     x3 \<leftarrow> d_text;
     x4 \<leftarrow> r_integer;
     x5 \<leftarrow> r_integer;
     ret \<lparr>vxr_Alias = x1, vxr_XML = x2, vxr_ExpectedBodyID = x3,
          vxr_Canonicalization = x4, vxr_CertificateTimeCheck = x5\<rparr> }"

interpretation verifyXMLRequest_codec: wire_codec e_verifyXMLRequest d_verifyXMLRequest
  "\<lambda>v. v"
  "\<lambda>v. wf_source (vxr_XML v)"
  by unfold_locales (unfold e_verifyXMLRequest_def d_verifyXMLRequest_def, auto intro!: codec_steps keeps_intros)

definition e_signWSSERequest :: "SignWSSERequest \<Rightarrow> unit encode" where
  "e_signWSSERequest v = do {
     e_text (swr_Alias v);
     e_source (swr_XML v);
     e_text (swr_BodyID v);
     w_boolean (swr_WrapSOAP v);
     w_integer (swr_Canonicalization v);
     w_integer (swr_CertificateTimeCheck v) }"

definition d_signWSSERequest :: "SignWSSERequest decode" where
  "d_signWSSERequest = do {
     x1 \<leftarrow> d_text;
     x2 \<leftarrow> d_source;
     x3 \<leftarrow> d_text;
     x4 \<leftarrow> r_boolean;
     x5 \<leftarrow> r_integer;
     x6 \<leftarrow> r_integer;
     ret \<lparr>swr_Alias = x1, swr_XML = x2, swr_BodyID = x3, swr_WrapSOAP = x4,
          swr_Canonicalization = x5, swr_CertificateTimeCheck = x6\<rparr> }"

interpretation signWSSERequest_codec: wire_codec e_signWSSERequest d_signWSSERequest
  "\<lambda>v. v"
  "\<lambda>v. wf_source (swr_XML v)"
  by unfold_locales (unfold e_signWSSERequest_def d_signWSSERequest_def, auto intro!: codec_steps keeps_intros)

definition e_validateCertificateRequest :: "ValidateCertificateRequest \<Rightarrow> unit encode" where
  "e_validateCertificateRequest v = do {
     e_source (vr_Certificate v);
     e_source (vr_Issuer v);
     w_integer (vr_Mode v);
     e_text (vr_RevocationSource v);
     e_timestamp (vr_CheckTime v);
     w_boolean (vr_ReturnOCSPResponse v);
     w_integer (vr_CertificateTimeCheck v) }"

definition d_validateCertificateRequest :: "ValidateCertificateRequest decode" where
  "d_validateCertificateRequest = do {
     x1 \<leftarrow> d_source;
     x2 \<leftarrow> d_source;
     x3 \<leftarrow> r_integer;
     x4 \<leftarrow> d_text;
     x5 \<leftarrow> d_timestamp;
     x6 \<leftarrow> r_boolean;
     x7 \<leftarrow> r_integer;
     ret \<lparr>vr_Certificate = x1, vr_Issuer = x2, vr_Mode = x3, vr_RevocationSource = x4,
          vr_CheckTime = x5, vr_ReturnOCSPResponse = x6, vr_CertificateTimeCheck = x7\<rparr> }"

interpretation validateCertificateRequest_codec: wire_codec e_validateCertificateRequest d_validateCertificateRequest
  "\<lambda>v. v\<lparr>vr_CheckTime := time_view (vr_CheckTime v)\<rparr>"
  "\<lambda>v. wf_source (vr_Certificate v) \<and> wf_source (vr_Issuer v) \<and> wf_time (vr_CheckTime v)"
  by unfold_locales (unfold e_validateCertificateRequest_def d_validateCertificateRequest_def, auto intro!: codec_steps keeps_intros)

definition e_keyStore :: "KeyStore \<Rightarrow> unit encode" where
  "e_keyStore v = do {
     w_integer (ks_Type v);
     e_text (ks_Path v);
     e_text (ks_Password v);
     e_text (ks_Alias v) }"

definition d_keyStore :: "KeyStore decode" where
  "d_keyStore = do {
     x1 \<leftarrow> r_integer;
     x2 \<leftarrow> d_text;
     x3 \<leftarrow> d_text;
     x4 \<leftarrow> d_text;
     ret \<lparr>ks_Type = x1, ks_Path = x2, ks_Password = x3, ks_Alias = x4\<rparr> }"

interpretation keyStore_codec: wire_codec e_keyStore d_keyStore
  "\<lambda>v. v"
  "\<lambda>v. True"
  by unfold_locales (unfold e_keyStore_def d_keyStore_def, auto intro!: codec_steps keeps_intros)

definition e_trustedCertificate :: "TrustedCertificate \<Rightarrow> unit encode" where
  "e_trustedCertificate v = do {
     e_bytes (tc_Data v);
     e_text (tc_Path v);
     w_integer (tc_Type v);
     w_integer (tc_Format v) }"

definition d_trustedCertificate :: "TrustedCertificate decode" where
  "d_trustedCertificate = do {
     x1 \<leftarrow> d_bytes;
     x2 \<leftarrow> d_text;
     x3 \<leftarrow> r_integer;
     x4 \<leftarrow> r_integer;
     ret \<lparr>tc_Data = x1, tc_Path = x2, tc_Type = x3, tc_Format = x4\<rparr> }"

interpretation trustedCertificate_codec: wire_codec e_trustedCertificate d_trustedCertificate
  "\<lambda>v. v"
  "\<lambda>v. True"
  by unfold_locales (unfold e_trustedCertificate_def d_trustedCertificate_def, auto intro!: codec_steps keeps_intros)

definition e_proxy :: "Proxy \<Rightarrow> unit encode" where
  "e_proxy v = do {
     w_boolean (px_Enabled v);
     e_text (px_Address v);
     e_text (px_Port v);
     e_text (px_User v);
     e_text (px_Password v) }"

definition d_proxy :: "Proxy decode" where
  "d_proxy = do {
     x1 \<leftarrow> r_boolean;
     x2 \<leftarrow> d_text;
     x3 \<leftarrow> d_text;
     x4 \<leftarrow> d_text;
     x5 \<leftarrow> d_text;
     ret \<lparr>px_Enabled = x1, px_Address = x2, px_Port = x3, px_User = x4,
          px_Password = x5\<rparr> }"

interpretation proxy_codec: wire_codec e_proxy d_proxy
  "\<lambda>v. v"
  "\<lambda>v. True"
  by unfold_locales (unfold e_proxy_def d_proxy_def, auto intro!: codec_steps keeps_intros)

definition e_signZIPRequest :: "SignZIPRequest \<Rightarrow> unit encode" where
  "e_signZIPRequest v = do {
     e_text (szr_Alias v);
     e_text (szr_InputPath v);
     e_text (szr_OutputPath v);
     w_integer (szr_CertificateTimeCheck v) }"

definition d_signZIPRequest :: "SignZIPRequest decode" where
  "d_signZIPRequest = do {
     x1 \<leftarrow> d_text;
     x2 \<leftarrow> d_text;
     x3 \<leftarrow> d_text;
     x4 \<leftarrow> r_integer;
     ret \<lparr>szr_Alias = x1, szr_InputPath = x2, szr_OutputPath = x3,
          szr_CertificateTimeCheck = x4\<rparr> }"

interpretation signZIPRequest_codec: wire_codec e_signZIPRequest d_signZIPRequest
  "\<lambda>v. v"
  "\<lambda>v. True"
  by unfold_locales (unfold e_signZIPRequest_def d_signZIPRequest_def, auto intro!: codec_steps keeps_intros)

definition e_verifyZIPRequest :: "VerifyZIPRequest \<Rightarrow> unit encode" where
  "e_verifyZIPRequest v = do {
     e_text (vzr_Path v);
     w_integer (vzr_CertificateTimeCheck v) }"

definition d_verifyZIPRequest :: "VerifyZIPRequest decode" where
  "d_verifyZIPRequest = do {
     x1 \<leftarrow> d_text;
     x2 \<leftarrow> r_integer;
     ret \<lparr>vzr_Path = x1, vzr_CertificateTimeCheck = x2\<rparr> }"

interpretation verifyZIPRequest_codec: wire_codec e_verifyZIPRequest d_verifyZIPRequest
  "\<lambda>v. v"
  "\<lambda>v. True"
  by unfold_locales (unfold e_verifyZIPRequest_def d_verifyZIPRequest_def, auto intro!: codec_steps keeps_intros)

definition e_extractZIPSignerCertificateRequest :: "ExtractZIPSignerCertificateRequest \<Rightarrow> unit encode" where
  "e_extractZIPSignerCertificateRequest v = do {
     e_text (ezr_Path v);
     w_integer (ezr_SignerID v);
     w_integer (ezr_CertificateTimeCheck v) }"

definition d_extractZIPSignerCertificateRequest :: "ExtractZIPSignerCertificateRequest decode" where
  "d_extractZIPSignerCertificateRequest = do {
     x1 \<leftarrow> d_text;
     x2 \<leftarrow> r_integer;
     x3 \<leftarrow> r_integer;
     ret \<lparr>ezr_Path = x1, ezr_SignerID = x2, ezr_CertificateTimeCheck = x3\<rparr> }"

interpretation extractZIPSignerCertificateRequest_codec: wire_codec e_extractZIPSignerCertificateRequest d_extractZIPSignerCertificateRequest
  "\<lambda>v. v"
  "\<lambda>v. True"
  by unfold_locales (unfold e_extractZIPSignerCertificateRequest_def d_extractZIPSignerCertificateRequest_def, auto intro!: codec_steps keeps_intros)

definition e_certificateInfoFields :: "certificateInfoFieldsRequest \<Rightarrow> unit encode" where
  "e_certificateInfoFields v = do {
     e_certificate (cfr_Certificate v);
     w_uint64 (cfr_Fields v) }"

definition d_certificateInfoFields :: "certificateInfoFieldsRequest decode" where
  "d_certificateInfoFields = do {
     x1 \<leftarrow> d_certificate;
     x2 \<leftarrow> r_uint64;
     ret \<lparr>cfr_Certificate = x1, cfr_Fields = x2\<rparr> }"

interpretation certificateInfoFields_codec: wire_codec e_certificateInfoFields d_certificateInfoFields
  "\<lambda>v. v"
  "\<lambda>v. True"
  by unfold_locales (unfold e_certificateInfoFields_def d_certificateInfoFields_def, auto intro!: codec_steps keeps_intros)

interpretation source_codec: wire_codec e_source d_source "\<lambda>v. v" wf_source
  by unfold_locales (auto intro!: codec_source keeps_intros)

interpretation certificate_codec: wire_codec e_certificate d_certificate "\<lambda>v. v" "\<lambda>v. True"
  by unfold_locales (auto intro!: codec_certificate keeps_intros)

section \<open>encodeRequest\<close>

datatype request =
    ReqHash HashRequest
  | ReqSignHash SignHashRequest
  | ReqSignCMS SignCMSRequest
  | ReqVerifyCMS VerifyCMSRequest
  | ReqSignXML SignXMLRequest
  | ReqVerifyXML VerifyXMLRequest
  | ReqSignWSSE SignWSSERequest
  | ReqValidateCertificate ValidateCertificateRequest
  | ReqKeyStore KeyStore
  | ReqTrustedCertificate TrustedCertificate
  | ReqProxy Proxy
  | ReqSignZIP SignZIPRequest
  | ReqVerifyZIP VerifyZIPRequest
  | ReqExtractZIP ExtractZIPSignerCertificateRequest
  | ReqSource Source
  | ReqCertificate "x509Certificate option"
  | ReqInfoFields certificateInfoFieldsRequest
  | ReqNil

definition requestTypeError :: "gostring \<Rightarrow> gerror" where
  "requestTypeError operation =
     errorf KalkanErrInvalidInput (''incorrect isolated request type for '' @ operation)"

text \<open>\<open>value\<close> is the outcome of the type assertion \<^verbatim>\<open>request.(Request)\<close>.\<close>

definition encodeRequestValue ::
  "payloadEncoder \<Rightarrow> gostring \<Rightarrow> 'r option \<Rightarrow> ('r \<Rightarrow> unit encode) \<Rightarrow> gerror + wirePayload" where
  "encodeRequestValue e operation value encode = (case value of
     None \<Rightarrow> Inl (requestTypeError operation)
   | Some v \<Rightarrow> e_finish (exec (encode v) e))"

definition encodeRequest :: "gostring \<Rightarrow> request \<Rightarrow> int64 \<Rightarrow> gerror + wirePayload" where
  "encodeRequest operation request limit =
    (let e = newEncoder limit in
     if operation = opHash
     then encodeRequestValue e operation (case request of ReqHash v \<Rightarrow> Some v | _ \<Rightarrow> None) e_hashRequest
     else if operation = opSignHash
     then encodeRequestValue e operation (case request of ReqSignHash v \<Rightarrow> Some v | _ \<Rightarrow> None) e_signHashRequest
     else if operation = opSignCMS
     then encodeRequestValue e operation (case request of ReqSignCMS v \<Rightarrow> Some v | _ \<Rightarrow> None) e_signCMSRequest
     else if operation = opVerifyCMS
     then encodeRequestValue e operation (case request of ReqVerifyCMS v \<Rightarrow> Some v | _ \<Rightarrow> None) e_verifyCMSRequest
     else if operation = opSignXML
     then encodeRequestValue e operation (case request of ReqSignXML v \<Rightarrow> Some v | _ \<Rightarrow> None) e_signXMLRequest
     else if operation = opVerifyXML
     then encodeRequestValue e operation (case request of ReqVerifyXML v \<Rightarrow> Some v | _ \<Rightarrow> None) e_verifyXMLRequest
     else if operation = opSignWSSE
     then encodeRequestValue e operation (case request of ReqSignWSSE v \<Rightarrow> Some v | _ \<Rightarrow> None) e_signWSSERequest
     else if operation = opValidateCertificate
     then encodeRequestValue e operation (case request of ReqValidateCertificate v \<Rightarrow> Some v | _ \<Rightarrow> None) e_validateCertificateRequest
     else if operation = opLoadKeyStore
     then encodeRequestValue e operation (case request of ReqKeyStore v \<Rightarrow> Some v | _ \<Rightarrow> None) e_keyStore
     else if operation = opLoadTrustedCertificate
     then encodeRequestValue e operation (case request of ReqTrustedCertificate v \<Rightarrow> Some v | _ \<Rightarrow> None) e_trustedCertificate
     else if operation = opSetProxy
     then encodeRequestValue e operation (case request of ReqProxy v \<Rightarrow> Some v | _ \<Rightarrow> None) e_proxy
     else if operation = opSignZIP
     then encodeRequestValue e operation (case request of ReqSignZIP v \<Rightarrow> Some v | _ \<Rightarrow> None) e_signZIPRequest
     else if operation = opVerifyZIP
     then encodeRequestValue e operation (case request of ReqVerifyZIP v \<Rightarrow> Some v | _ \<Rightarrow> None) e_verifyZIPRequest
     else if operation = opExtractZIPSignerCertificate
     then encodeRequestValue e operation (case request of ReqExtractZIP v \<Rightarrow> Some v | _ \<Rightarrow> None) e_extractZIPSignerCertificateRequest
     else if operation \<in> {opGetCertFromCMS, opGetCertFromXML, opGetTimeFromSig, opGetSigAlgFromXML}
     then encodeRequestValue e operation (case request of ReqSource v \<Rightarrow> Some v | _ \<Rightarrow> None) e_source
     else if operation = opX509CertificateGetInfo
     then encodeRequestValue e operation (case request of ReqCertificate v \<Rightarrow> Some v | _ \<Rightarrow> None) e_certificate
     else if operation = opX509CertificateGetInfoFields
     then encodeRequestValue e operation (case request of ReqInfoFields v \<Rightarrow> Some v | _ \<Rightarrow> None) e_certificateInfoFields
     else if operation = opX509ExportCertificateFromStore
     then (if request \<noteq> ReqNil then Inl (requestTypeError operation) else e_finish e)
     else Inl (unknownOperation operation))"

section \<open>dispatch\<close>

text \<open>
  The worker's SDK session: method name, request and session state to an error or a result
  and the next state. Methods without a result answer \<^const>\<open>ResNil\<close>.
\<close>

type_synonym 'w sdkClient = "gostring \<Rightarrow> request \<Rightarrow> 'w \<Rightarrow> (gerror + result) \<times> 'w"

definition dispatchRequest ::
  "wirePayload \<Rightarrow> 'r decode \<Rightarrow> ('r \<Rightarrow> 'w \<Rightarrow> (gerror + result) \<times> 'w) \<Rightarrow> 'w \<Rightarrow>
     (gerror + wirePayload) \<times> 'w" where
  "dispatchRequest payload decode call w =
     (let (request, d) = run_state decode (decodePayload payload) in
      case r_finish d of
        Some err \<Rightarrow> (Inl err, w)
      | None \<Rightarrow> (case call request w of
          (Inl err, w') \<Rightarrow> (Inl err, w')
        | (Inr result, w') \<Rightarrow> (encodeResult result, w')))"

definition dispatchVoid ::
  "wirePayload \<Rightarrow> 'r decode \<Rightarrow> ('r \<Rightarrow> 'w \<Rightarrow> (gerror + result) \<times> 'w) \<Rightarrow> 'w \<Rightarrow>
     (gerror + wirePayload) \<times> 'w" where
  "dispatchVoid payload decode call w =
     dispatchRequest payload decode
       (\<lambda>request w. case call request w of
          (Inl err, w') \<Rightarrow> (Inl err, w')
        | (Inr _, w') \<Rightarrow> (Inr ResNil, w')) w"

definition d_empty :: "unit decode" where
  "d_empty = do {
     d \<leftarrow> State_Monad.get;
     if length (dblocks d) \<noteq> 0
     then r_fail (errorf ErrProtocol ''unexpected data blocks'') else ret () }"

definition dispatch :: "'w sdkClient \<Rightarrow> gostring \<Rightarrow> wirePayload \<Rightarrow> 'w \<Rightarrow> (gerror + wirePayload) \<times> 'w" where
  "dispatch client operation payload w =
    (if operation = opHash
     then dispatchRequest payload d_hashRequest (\<lambda>r. client operation (ReqHash r)) w
     else if operation = opSignHash
     then dispatchRequest payload d_signHashRequest (\<lambda>r. client operation (ReqSignHash r)) w
     else if operation = opSignCMS
     then dispatchRequest payload d_signCMSRequest (\<lambda>r. client operation (ReqSignCMS r)) w
     else if operation = opVerifyCMS
     then dispatchRequest payload d_verifyCMSRequest (\<lambda>r. client operation (ReqVerifyCMS r)) w
     else if operation = opSignXML
     then dispatchRequest payload d_signXMLRequest (\<lambda>r. client operation (ReqSignXML r)) w
     else if operation = opVerifyXML
     then dispatchRequest payload d_verifyXMLRequest (\<lambda>r. client operation (ReqVerifyXML r)) w
     else if operation = opSignWSSE
     then dispatchRequest payload d_signWSSERequest (\<lambda>r. client operation (ReqSignWSSE r)) w
     else if operation = opValidateCertificate
     then dispatchRequest payload d_validateCertificateRequest (\<lambda>r. client operation (ReqValidateCertificate r)) w
     else if operation = opLoadKeyStore
     then dispatchVoid payload d_keyStore (\<lambda>r. client operation (ReqKeyStore r)) w
     else if operation = opLoadTrustedCertificate
     then dispatchVoid payload d_trustedCertificate (\<lambda>r. client operation (ReqTrustedCertificate r)) w
     else if operation = opSetProxy
     then dispatchVoid payload d_proxy (\<lambda>r. client operation (ReqProxy r)) w
     else if operation = opSignZIP
     then dispatchRequest payload d_signZIPRequest (\<lambda>r. client operation (ReqSignZIP r)) w
     else if operation = opVerifyZIP
     then dispatchRequest payload d_verifyZIPRequest (\<lambda>r. client operation (ReqVerifyZIP r)) w
     else if operation = opExtractZIPSignerCertificate
     then dispatchRequest payload d_extractZIPSignerCertificateRequest (\<lambda>r. client operation (ReqExtractZIP r)) w
     else if operation = opGetCertFromCMS
     then dispatchRequest payload d_source (\<lambda>r. client operation (ReqSource r)) w
     else if operation = opGetCertFromXML
     then dispatchRequest payload d_source (\<lambda>r. client operation (ReqSource r)) w
     else if operation = opGetTimeFromSig
     then dispatchRequest payload d_source (\<lambda>r. client operation (ReqSource r)) w
     else if operation = opGetSigAlgFromXML
     then dispatchRequest payload d_source (\<lambda>r. client operation (ReqSource r)) w
     else if operation = opX509CertificateGetInfo
     then dispatchRequest payload d_certificate (\<lambda>r. client operation (ReqCertificate r)) w
     else if operation = opX509CertificateGetInfoFields
     then dispatchRequest payload d_certificateInfoFields (\<lambda>r. client operation (ReqInfoFields r)) w
     else if operation = opX509ExportCertificateFromStore
     then dispatchRequest payload d_empty (\<lambda>r. client operation ReqNil) w
     else (Inl (unknownOperation operation), w))"

section \<open>Round trip of requests\<close>

fun wf_request :: "request \<Rightarrow> bool" where
  "wf_request (ReqHash v) \<longleftrightarrow> wf_source (hr_Data v)"
| "wf_request (ReqSignCMS v) \<longleftrightarrow> wf_source (scr_Data v)"
| "wf_request (ReqVerifyCMS v) \<longleftrightarrow> wf_source (vcr_Signature v) \<and> wf_source (vcr_Data v)"
| "wf_request (ReqSignXML v) \<longleftrightarrow> wf_source (sxr_XML v)"
| "wf_request (ReqVerifyXML v) \<longleftrightarrow> wf_source (vxr_XML v)"
| "wf_request (ReqSignWSSE v) \<longleftrightarrow> wf_source (swr_XML v)"
| "wf_request (ReqValidateCertificate v) \<longleftrightarrow> wf_source (vr_Certificate v) \<and> wf_source (vr_Issuer v) \<and> wf_time (vr_CheckTime v)"
| "wf_request (ReqSource v) \<longleftrightarrow> wf_source v"
| "wf_request _ \<longleftrightarrow> True"

text \<open>The request the worker sees: only the location of a zero check time is lost.\<close>

fun request_view :: "request \<Rightarrow> request" where
  "request_view (ReqValidateCertificate v) =
     ReqValidateCertificate (v\<lparr>vr_CheckTime := time_view (vr_CheckTime v)\<rparr>)"
| "request_view r = r"

text \<open>The request type of every method.\<close>

inductive request_type :: "gostring \<Rightarrow> request \<Rightarrow> bool" where
  "request_type opHash (ReqHash v)"
| "request_type opSignHash (ReqSignHash v)"
| "request_type opSignCMS (ReqSignCMS v)"
| "request_type opVerifyCMS (ReqVerifyCMS v)"
| "request_type opSignXML (ReqSignXML v)"
| "request_type opVerifyXML (ReqVerifyXML v)"
| "request_type opSignWSSE (ReqSignWSSE v)"
| "request_type opValidateCertificate (ReqValidateCertificate v)"
| "request_type opLoadKeyStore (ReqKeyStore v)"
| "request_type opLoadTrustedCertificate (ReqTrustedCertificate v)"
| "request_type opSetProxy (ReqProxy v)"
| "request_type opSignZIP (ReqSignZIP v)"
| "request_type opVerifyZIP (ReqVerifyZIP v)"
| "request_type opExtractZIPSignerCertificate (ReqExtractZIP v)"
| "request_type opGetCertFromCMS (ReqSource v)"
| "request_type opGetCertFromXML (ReqSource v)"
| "request_type opGetTimeFromSig (ReqSource v)"
| "request_type opGetSigAlgFromXML (ReqSource v)"
| "request_type opX509CertificateGetInfo (ReqCertificate v)"
| "request_type opX509CertificateGetInfoFields (ReqInfoFields v)"
| "request_type opX509ExportCertificateFromStore ReqNil"

text \<open>Methods without a result value.\<close>

definition void_operation :: "gostring \<Rightarrow> bool" where
  "void_operation op \<longleftrightarrow> op \<in> {opLoadKeyStore, opLoadTrustedCertificate, opSetProxy}"

text \<open>What a worker answers to a call: the encoded result of the method, or its error.\<close>

definition answer :: "gostring \<Rightarrow> (gerror + result) \<times> 'w \<Rightarrow> (gerror + wirePayload) \<times> 'w" where
  "answer op outcome = (case outcome of
     (Inl err, w') \<Rightarrow> (Inl err, w')
   | (Inr result, w') \<Rightarrow> (encodeResult (if void_operation op then ResNil else result), w'))"

lemma encodeRequestValue_Inr:
  "encodeRequestValue e op (Some v) encode = Inr p \<longleftrightarrow> e_finish (exec (encode v) e) = Inr p"
  by (simp add: encodeRequestValue_def)

text \<open>A codec's round trip, as seen by the two dispatch functions.\<close>

context wire_codec
begin

lemma dispatchRequest_roundtrip:
  assumes "dom v" "e_finish (exec (enc v) (newEncoder limit)) = Inr p"
  shows "dispatchRequest (transported p) dec call w =
    (case call (view v) w of (Inl err, w') \<Rightarrow> (Inl err, w')
     | (Inr result, w') \<Rightarrow> (encodeResult result, w'))"
  using payload_roundtrip [OF assms] by (simp add: dispatchRequest_def case_prod_unfold)

lemma dispatchVoid_roundtrip:
  assumes "dom v" "e_finish (exec (enc v) (newEncoder limit)) = Inr p"
  shows "dispatchVoid (transported p) dec call w =
    (case call (view v) w of (Inl err, w') \<Rightarrow> (Inl err, w')
     | (Inr result, w') \<Rightarrow> (encodeResult ResNil, w'))"
  unfolding dispatchVoid_def
  by (subst dispatchRequest_roundtrip [OF assms]) (auto split: prod.splits sum.splits)

end

lemma dispatchEmpty_roundtrip:
  assumes "e_finish (newEncoder limit) = Inr p"
  shows "dispatchRequest (transported p) d_empty call w =
    (case call () w of (Inl err, w') \<Rightarrow> (Inl err, w')
     | (Inr result, w') \<Rightarrow> (encodeResult result, w'))"
  using assms by (auto simp: dispatchRequest_def d_empty_def newEncoder_def e_finish_def
      transported_def decodePayload_def r_finish_def)

lemmas request_dispatch =
  hashRequest_codec.dispatchRequest_roundtrip
  signHashRequest_codec.dispatchRequest_roundtrip
  signCMSRequest_codec.dispatchRequest_roundtrip
  verifyCMSRequest_codec.dispatchRequest_roundtrip
  signXMLRequest_codec.dispatchRequest_roundtrip
  verifyXMLRequest_codec.dispatchRequest_roundtrip
  signWSSERequest_codec.dispatchRequest_roundtrip
  validateCertificateRequest_codec.dispatchRequest_roundtrip
  keyStore_codec.dispatchVoid_roundtrip
  trustedCertificate_codec.dispatchVoid_roundtrip
  proxy_codec.dispatchVoid_roundtrip
  signZIPRequest_codec.dispatchRequest_roundtrip
  verifyZIPRequest_codec.dispatchRequest_roundtrip
  extractZIPSignerCertificateRequest_codec.dispatchRequest_roundtrip
  certificateInfoFields_codec.dispatchRequest_roundtrip
  source_codec.dispatchRequest_roundtrip
  certificate_codec.dispatchRequest_roundtrip
  dispatchEmpty_roundtrip

lemma request_roundtrip_aux:
  "request_type op req \<Longrightarrow> wf_request req \<Longrightarrow> encodeRequest op req limit = Inr p \<Longrightarrow>
     dispatch client op (transported p) w = answer op (client op (request_view req) w)"
  by (induction rule: request_type.induct)
    (simp_all add: encodeRequest_def Let_def dispatch_def op_defs encodeRequestValue_Inr
      request_dispatch answer_def void_operation_def split: prod.split sum.split)

text \<open>
  C2: A request sent by the parent reaches the SDK session unchanged. For each of the 21
  methods, a request of the method's type, with sources and instants as the packages build
  them, that the parent could encode is decoded by the worker's dispatch into the same
  request (nil and empty byte inputs, absent and empty sources, encodings and opaque string
  bytes included), the method of that name is called exactly with it, and the answer is the
  encoded result of that call or its error.
\<close>

theorem request_roundtrip:
  assumes "request_type op req" and "wf_request req" and "encodeRequest op req limit = Inr p"
  shows "dispatch client op (transported p) w = answer op (client op (request_view req) w)"
  using assms by (rule request_roundtrip_aux)

definition sample_hash :: request where
  "sample_hash = ReqHash \<lparr>hr_Algorithm = 0, hr_Data = Bytes (Some ''ab'')\<rparr>"

lemma sample_hash_encoded:
  "encodeRequest opHash sample_hash 0 = Inr
     \<lparr>metadata = be_bytes 8 0 @ be_bytes 4 (Suc 0) @ be_bytes 4 0 @ be_bytes 8 (Suc 0) @ [CHR 0x00, CHR 0x01],
      pblocks = [\<lparr>bdata = Some ''ab'', btext = []\<rparr>]\<rparr>"
  by (simp add: encodeRequest_def sample_hash_def Bytes_def zeroSource_def EncodingRaw_def
      e_hashRequest_def e_source_def encodeRequestValue_def wire_run)

theorem request_roundtrip_witness:
  "dispatch (\<lambda>op r n. (Inr (ResCMS None), r # n)) opHash
     (transported \<lparr>metadata = be_bytes 8 0 @ be_bytes 4 (Suc 0) @ be_bytes 4 0 @ be_bytes 8 (Suc 0) @
        [CHR 0x00, CHR 0x01], pblocks = [\<lparr>bdata = Some ''ab'', btext = []\<rparr>]\<rparr>) [] =
   answer opHash (Inr (ResCMS None), [sample_hash])"
proof -
  have t: "request_type opHash sample_hash" unfolding sample_hash_def by (rule request_type.intros)
  have wf: "wf_request sample_hash"
    by (simp add: sample_hash_def wf_source_def Bytes_def zeroSource_def)
  show ?thesis
    using request_roundtrip [OF t wf sample_hash_encoded,
      of "\<lambda>op r n. (Inr (ResCMS None), r # n)" "[]"]
    by (simp add: sample_hash_def)
qed

end
