(* ===== verification/Protocol_Config.thy ===== *)
theory Protocol_Config
  imports Protocol_Operations
begin

text \<open>
  The worker's configuration on the wire (\<^verbatim>\<open>isolated/protocol_config.go\<close>): the struct
  \<^verbatim>\<open>libraryConfig\<close>, its encoder and decoder, and the options for
  \<^verbatim>\<open>kalkan.Open\<close> it stands for.
\<close>

record libraryConfig =
  lc_TSAURL :: "gostring option"
  lc_OCSPURL :: "gostring option"
  lc_Proxy :: "Proxy option"
  lc_EndpointPolicy :: "EndpointPolicy option"
  lc_LibraryPath :: gostring
  lc_TrustedCertificates :: "TrustedCertificate list option"
  lc_OCSPTimeout :: int64
  lc_MaxInputSize :: int64
  lc_MaxOutputBufferSize :: goint
  lc_CollectObservations :: bool
  lc_CustomOCSP :: bool
  lc_AtomicZIPOutput :: bool

definition e_endpointPolicy :: "EndpointPolicy \<Rightarrow> unit encode" where
  "e_endpointPolicy policy = do {
     encodeStrings (ep_AllowedHosts policy);
     encodeStrings (ep_AllowedPorts policy);
     w_boolean (ep_RequireHTTPS policy);
     w_boolean (ep_AllowIPAddresses policy) }"

definition d_endpointPolicy :: "EndpointPolicy decode" where
  "d_endpointPolicy = do {
     x1 \<leftarrow> decodeStrings;
     x2 \<leftarrow> decodeStrings;
     x3 \<leftarrow> r_boolean;
     x4 \<leftarrow> r_boolean;
     ret \<lparr>ep_AllowedHosts = x1, ep_AllowedPorts = x2, ep_RequireHTTPS = x3, ep_AllowIPAddresses = x4\<rparr> }"

interpretation endpointPolicy_codec: wire_codec e_endpointPolicy d_endpointPolicy "\<lambda>v. v" "\<lambda>v. True"
  by unfold_locales (unfold e_endpointPolicy_def d_endpointPolicy_def, auto intro!: codec_steps keeps_intros)

definition e_config :: "libraryConfig \<Rightarrow> unit encode" where
  "e_config config = do {
     w_boolean (lc_CollectObservations config);
     e_text (lc_LibraryPath config);
     encodeOptional e_text (lc_TSAURL config);
     encodeOptional e_text (lc_OCSPURL config);
     w_boolean (lc_CustomOCSP config);
     w_int64 (lc_OCSPTimeout config);
     encodeOptional e_proxy (lc_Proxy config);
     e_list e_trustedCertificate (lc_TrustedCertificates config);
     w_int64 (lc_MaxInputSize config);
     w_integer (lc_MaxOutputBufferSize config);
     w_boolean (lc_AtomicZIPOutput config);
     encodeOptional e_endpointPolicy (lc_EndpointPolicy config) }"

definition encodeConfig :: "libraryConfig \<Rightarrow> gerror + wirePayload" where
  "encodeConfig config = e_finish (exec (e_config config) (newEncoder (lc_MaxInputSize config)))"

definition d_config :: "libraryConfig decode" where
  "d_config = do {
     x1 \<leftarrow> r_boolean;
     x2 \<leftarrow> d_text;
     x3 \<leftarrow> decodeOptional d_text;
     x4 \<leftarrow> decodeOptional d_text;
     x5 \<leftarrow> r_boolean;
     x6 \<leftarrow> r_int64;
     x7 \<leftarrow> decodeOptional d_proxy;
     x8 \<leftarrow> d_list 24 d_trustedCertificate;
     x9 \<leftarrow> r_int64;
     x10 \<leftarrow> r_integer;
     x11 \<leftarrow> r_boolean;
     x12 \<leftarrow> decodeOptional d_endpointPolicy;
     ret \<lparr>lc_TSAURL = x3, lc_OCSPURL = x4, lc_Proxy = x7, lc_EndpointPolicy = x12,
          lc_LibraryPath = x2, lc_TrustedCertificates = x8, lc_OCSPTimeout = x6,
          lc_MaxInputSize = x9, lc_MaxOutputBufferSize = x10, lc_CollectObservations = x1,
          lc_CustomOCSP = x5, lc_AtomicZIPOutput = x11\<rparr> }"

definition decodeConfig :: "wirePayload \<Rightarrow> libraryConfig \<times> gerror option" where
  "decodeConfig payload =
     (let (config, d) = run_state d_config (decodePayload payload) in (config, r_finish d))"

text \<open>The options of \<^verbatim>\<open>kalkan.Open\<close> that a configuration selects, in order.\<close>

datatype openOption =
    WithLibraryPath gostring
  | WithMaxInputSize int64
  | WithMaxOutputBufferSize goint
  | WithOCSPTimeout int64
  | WithTSAURL gostring
  | WithOCSPURL gostring
  | WithCustomOCSP
  | WithProxy Proxy
  | WithTrustedCertificate TrustedCertificate
  | WithAtomicZIPOutput
  | WithEndpointPolicy EndpointPolicy

definition opt_list :: "('a \<Rightarrow> openOption) \<Rightarrow> 'a option \<Rightarrow> openOption list" where
  "opt_list f x = (case x of None \<Rightarrow> [] | Some v \<Rightarrow> [f v])"

definition Options :: "libraryConfig \<Rightarrow> openOption list" where
  "Options config =
     [WithLibraryPath (lc_LibraryPath config), WithMaxInputSize (lc_MaxInputSize config),
      WithMaxOutputBufferSize (lc_MaxOutputBufferSize config),
      WithOCSPTimeout (lc_OCSPTimeout config)] @
     opt_list WithTSAURL (lc_TSAURL config) @
     opt_list WithOCSPURL (lc_OCSPURL config) @
     (if lc_CustomOCSP config then [WithCustomOCSP] else []) @
     opt_list WithProxy (lc_Proxy config) @
     (case lc_TrustedCertificates config of None \<Rightarrow> []
      | Some certificates \<Rightarrow> map WithTrustedCertificate certificates) @
     (if lc_AtomicZIPOutput config then [WithAtomicZIPOutput] else []) @
     opt_list WithEndpointPolicy (lc_EndpointPolicy config)"

section \<open>Round trip\<close>

lemma grows_trustedCertificate: "grows 24 (e_trustedCertificate v)"
proof -
  have "grows (4 + (4 + (8 + 8))) (e_trustedCertificate v)"
    unfolding e_trustedCertificate_def by (intro grow_intros)
  then show ?thesis by simp
qed

lemma codec_trustedCertificates:
  "codec_at (e_list e_trustedCertificate vs) (d_list 24 d_trustedCertificate) vs"
  using codec_list [of vs e_trustedCertificate d_trustedCertificate "\<lambda>x. x" 24,
      OF trustedCertificate_codec.roundtrip grows_trustedCertificate]
  by (simp add: list.map_ident option.map_ident)

lemma codec_optional_text: "codec_at (encodeOptional e_text v) (decodeOptional d_text) v"
  by (rule codec_optional_id) (rule codec_text)

lemma codec_optional_proxy: "codec_at (encodeOptional e_proxy v) (decodeOptional d_proxy) v"
  by (rule codec_optional_id) (simp add: proxy_codec.roundtrip)

lemma codec_optional_policy:
  "codec_at (encodeOptional e_endpointPolicy v) (decodeOptional d_endpointPolicy) v"
  by (rule codec_optional_id) (simp add: endpointPolicy_codec.roundtrip)

lemmas codec_config_fields [codec_steps] =
  codec_trustedCertificates [THEN codec_bind] codec_optional_text [THEN codec_bind]
  codec_optional_proxy [THEN codec_bind] codec_optional_policy [THEN codec_last]

interpretation config_codec: wire_codec e_config d_config "\<lambda>v. v" "\<lambda>v. True"
  by unfold_locales
    (unfold e_config_def d_config_def, auto intro!: codec_steps keeps_intros proxy_codec.bounded
      trustedCertificate_codec.bounded endpointPolicy_codec.bounded)

text \<open>
  A worker opens the session the parent asked for: the configuration that the parent
  encodes for the Open message is decoded by the worker without error as the same
  configuration, so the options handed to the root package are the same, nil and empty
  URLs, policies and certificate lists included.
\<close>

theorem config_roundtrip:
  assumes "encodeConfig config = Inr p"
  shows "decodeConfig (transported p) = (config, None) \<and>
    Options (fst (decodeConfig (transported p))) = Options config"
  using config_codec.payload_roundtrip [OF TrueI assms [unfolded encodeConfig_def]]
  by (simp add: decodeConfig_def case_prod_unfold)

definition sample_config :: libraryConfig where
  "sample_config = \<lparr>lc_TSAURL = Some [], lc_OCSPURL = None, lc_Proxy = None,
     lc_EndpointPolicy = None, lc_LibraryPath = [], lc_TrustedCertificates = None,
     lc_OCSPTimeout = 5, lc_MaxInputSize = 0, lc_MaxOutputBufferSize = 0,
     lc_CollectObservations = True, lc_CustomOCSP = False, lc_AtomicZIPOutput = False\<rparr>"

lemma sample_config_encoded:
  "encodeConfig sample_config = Inr \<lparr>metadata = [CHR 0x01] @ be_bytes 4 0 @ [CHR 0x01] @ be_bytes 4 0 @
     [CHR 0x00] @ [CHR 0x00] @ be_bytes 8 5 @ [CHR 0x00] @ be_bytes 4 0 @ be_bytes 8 0 @ be_bytes 8 0 @
     [CHR 0x00] @ [CHR 0x00], pblocks = []\<rparr>"
  by (simp add: encodeConfig_def sample_config_def e_config_def encodeOptional_def e_list_def
      w_length_def wire_run)

theorem config_roundtrip_witness:
  "decodeConfig (transported \<lparr>metadata = [CHR 0x01] @ be_bytes 4 0 @ [CHR 0x01] @ be_bytes 4 0 @
     [CHR 0x00] @ [CHR 0x00] @ be_bytes 8 5 @ [CHR 0x00] @ be_bytes 4 0 @ be_bytes 8 0 @ be_bytes 8 0 @
     [CHR 0x00] @ [CHR 0x00], pblocks = []\<rparr>) = (sample_config, None)"
  using config_roundtrip [OF sample_config_encoded] by simp

end
