(* ===== verification/Protocol_Errors.thy ===== *)
theory Protocol_Errors
  imports Protocol_Config
begin

text \<open>
  Errors on the wire (\<^verbatim>\<open>isolated/protocol_errors.go\<close>). An error is sent as a tree: a
  concrete native error if the node is one, its direct causes, the sentinels it matches and
  its text. The receiver rebuilds a \<^verbatim>\<open>remoteError\<close>, a \<^const>\<open>MultiError\<close> here. The
  depth argument of the source counts up to 32; the model counts the remaining levels down,
  \<open>encodeError err depth\<close> being the level \<open>32 - depth\<close>.
\<close>

unbundle bit_operations_syntax

definition errorSentinels :: "sentinel list" where
  "errorSentinels =
     [ErrProtocol, ErrMetadataTooLarge,
      KalkanErrInvalidInput, KalkanErrClosed, KalkanErrUnavailable,
      CkErrAlreadyOpen, CkErrClosed, CkErrNoLibrary, CkErrUnavailable,
      CkErrInvalidOutputBufferSize, CkErrPoisoned,
      CtxCanceled, CtxDeadlineExceeded,
      FsErrInvalid, FsErrPermission, FsErrExist, FsErrNotExist, FsErrClosed]"

fun e_concrete :: "gerror \<Rightarrow> unit encode" where
  "e_concrete (KalkanError code message) = do {
     w_uint32 1; w_uint64 code; e_text message }"
| "e_concrete (OutputBufferLimitError operation requested limit) = do {
     w_uint32 2; e_text operation; w_uint64 requested; w_uint64 limit }"
| "e_concrete (OCSPRevokedError endpoint revokedAt) = do {
     w_uint32 3; e_text endpoint; e_timestamp revokedAt }"
| "e_concrete _ = w_uint32 0"

definition sentinel_bits :: "gerror \<Rightarrow> uint64" where
  "sentinel_bits err = foldl (\<lambda>bits (i, s). if errors_is err s then bits OR push_bit i 1 else bits) 0
     (enumerate 0 errorSentinels)"

definition err_causes :: "gerror \<Rightarrow> gerror option list" where
  "err_causes v = (case unwrap v of None \<Rightarrow> [] | Some cs \<Rightarrow> cs)"

primrec encodeError_level :: "nat \<Rightarrow> gerror option \<Rightarrow> unit encode" where
  "encodeError_level 0 err = do {
     w_boolean (err \<noteq> None);
     e \<leftarrow> State_Monad.get;
     if err = None \<or> werr e \<noteq> None then ret ()
     else w_fail errMetadataTooLarge }"
| "encodeError_level (Suc k) err = do {
     w_boolean (err \<noteq> None);
     e \<leftarrow> State_Monad.get;
     (case err of
        None \<Rightarrow> ret ()
      | Some v \<Rightarrow>
          if werr e \<noteq> None then ret ()
          else do {
            e_concrete v;
            ok \<leftarrow> w_length (length (err_causes v)) (err_causes v \<noteq> []);
            (if ok then each (encodeError_level k) (err_causes v) else ret ());
            e' \<leftarrow> State_Monad.get;
            if werr e' \<noteq> None then ret ()
            else do {
              w_uint64 (sentinel_bits v);
              e_text (error_text v) } }) }"

definition encodeError :: "gerror option \<Rightarrow> nat \<Rightarrow> unit encode" where
  "encodeError err depth = encodeError_level (32 - depth) err"

text \<open>The concrete error of a node; \<^const>\<open>None\<close> is an unknown kind (the early return).\<close>

definition d_concrete :: "gerror list option decode" where
  "d_concrete = do {
     kind \<leftarrow> r_uint32;
     if kind = 0 then ret (Some [])
     else if kind = 1
     then do { code \<leftarrow> r_uint64; message \<leftarrow> d_text; ret (Some [KalkanError code message]) }
     else if kind = 2
     then do { operation \<leftarrow> d_text; requested \<leftarrow> r_uint64; limit \<leftarrow> r_uint64;
               ret (Some [OutputBufferLimitError operation requested limit]) }
     else if kind = 3
     then do { endpoint \<leftarrow> d_text; revokedAt \<leftarrow> d_timestamp;
               ret (Some [OCSPRevokedError endpoint revokedAt]) }
     else do { r_fail malformedResult; ret None } }"

definition known_sentinels :: "uint64 \<Rightarrow> sentinel list" where
  "known_sentinels bits = map snd (filter (\<lambda>(i, s). bits AND push_bit i 1 \<noteq> 0) (enumerate 0 errorSentinels))"

definition remoteError :: "gostring \<Rightarrow> gerror list \<Rightarrow> gerror" where
  "remoteError message causes = MultiError message (map Some causes)"

primrec decodeError_level :: "nat \<Rightarrow> gerror option decode" where
  "decodeError_level 0 = do {
     present \<leftarrow> r_boolean;
     d \<leftarrow> State_Monad.get;
     if \<not> present \<or> rerr d \<noteq> None then ret None
     else do { r_fail malformedResult; ret None } }"
| "decodeError_level (Suc k) = do {
     present \<leftarrow> r_boolean;
     d \<leftarrow> State_Monad.get;
     if \<not> present \<or> rerr d \<noteq> None then ret None
     else do {
       concrete \<leftarrow> d_concrete;
       (case concrete of
          None \<Rightarrow> ret None
        | Some cs \<Rightarrow> do {
            count \<leftarrow> r_length 1;
            causes \<leftarrow> counted (case count of None \<Rightarrow> 0 | Some n \<Rightarrow> n) (decodeError_level k);
            d' \<leftarrow> State_Monad.get;
            if rerr d' \<noteq> None then ret None
            else do {
              bits \<leftarrow> r_uint64;
              if drop_bit (length errorSentinels) bits \<noteq> 0
              then do { r_fail malformedResult; ret None }
              else do {
                message \<leftarrow> d_text;
                d'' \<leftarrow> State_Monad.get;
                ret (if rerr d'' \<noteq> None then None
                     else Some (remoteError message
                       (cs @ List.map_filter (\<lambda>x. x) causes @
                        map Sentinel (known_sentinels bits)))) } } }) } }"

definition decodeError :: "nat \<Rightarrow> gerror option decode" where
  "decodeError depth = decodeError_level (32 - depth)"

section \<open>Agreement of the error codec\<close>

text \<open>A block of statements guarded by \<^verbatim>\<open>if e.err != nil { return }\<close>.\<close>

abbreviation unless_failed :: "unit encode \<Rightarrow> unit encode" where
  "unless_failed m \<equiv> State_Monad.bind State_Monad.get (\<lambda>e. if werr e \<noteq> None then ret () else m)"

lemma codec_unless_failed:
  assumes "codec_at m dec x"
  shows "codec_at (unless_failed m) dec x"
proof (rule codec_atI)
  fix e E
  assume le: "enc_le (exec (unless_failed m) e) E"
  then have "exec (unless_failed m) e = exec m e"
    by (auto simp: enc_le_def split: if_splits)
  with codec_atD [OF assms, of e E] le
  show "enc_le e E \<and> run_state dec (at_pos e E) = (x, at_pos (exec (unless_failed m) e) E)"
    by simp
qed

lemma codec_dget:
  assumes k: "\<And>e E. run_state (k (at_pos e E)) (at_pos e E) = run_state dm (at_pos e E)"
    and "codec_at enc dm x"
  shows "codec_at enc (State_Monad.bind State_Monad.get k) x"
proof (rule codec_atI)
  fix e E
  assume "enc_le (exec enc e) E"
  from codec_atD [OF assms(2) this] k [of e E]
  show "enc_le e E \<and>
      run_state (State_Monad.bind State_Monad.get k) (at_pos e E) = (x, at_pos (exec enc e) E)"
    by simp
qed

lemma grows_unless_failed:
  assumes "grows n m"
  shows "grows 0 (unless_failed m)"
  unfolding grows_def
proof (intro allI impI)
  fix e
  assume w: "werr (exec (unless_failed m) e) = None"
  then have "exec (unless_failed m) e = exec m e" by (auto split: if_splits)
  with growsD [OF assms, of e] w
  show "werr e = None \<and> length (wdata e) + 0 \<le> length (wdata (exec (unless_failed m) e))"
    by simp
qed

lemma grows_ret: "grows 0 (ret ())"
  by (simp add: grows_def)

definition cause_slice :: "gerror \<Rightarrow> gerror option list option" where
  "cause_slice v = (if err_causes v = [] then None else Some (err_causes v))"

lemma encode_Some:
  "encodeError_level (Suc k) (Some v) = do {
     w_boolean True;
     unless_failed (do {
       e_concrete v;
       e_list (encodeError_level k) (cause_slice v);
       unless_failed (do { w_uint64 (sentinel_bits v); e_text (error_text v) }) }) }"
  by (rule state_ext) (auto simp: e_list_def cause_slice_def w_length_def)

lemma encode_None: "encodeError_level k None = w_boolean False"
  by (cases k) (auto intro!: state_ext)

lemma decode_causes:
  "State_Monad.bind (r_length 1) (\<lambda>count. State_Monad.bind
     (counted (case count of None \<Rightarrow> 0 | Some n \<Rightarrow> n) dec) K) =
   State_Monad.bind (d_list 1 dec) (\<lambda>xs. K (case xs of None \<Rightarrow> [] | Some l \<Rightarrow> l))"
  by (rule state_ext) (simp add: d_list_def split: option.split)

lemma grows_concrete: "grows 4 (e_concrete v)"
proof -
  have g: "grows 0 (e_timestamp t)" for t
  proof -
    have "grows 1 (e_timestamp t)"
    proof -
      have "grows (1 + 0) (e_timestamp t)"
        unfolding e_timestamp_def
      proof (rule grows_bind [OF grows_boolean])
        have "grows (8 + (8 + (4 + (8 + 1)))) (do { w_int64 (tsec t); w_integer (tnsec t);
            e_text (tzone t); w_integer (toffset t); w_boolean (tutc t) })"
          by (intro grow_intros)
        then show "grows 0 (if IsZero t then ret () else do { w_int64 (tsec t);
            w_integer (tnsec t); e_text (tzone t); w_integer (toffset t); w_boolean (tutc t) })"
          by (auto intro: grows_mono grows_ret)
      qed
      then show ?thesis by simp
    qed
    then show ?thesis by (rule grows_mono) simp
  qed
  have 1: "grows (4 + (8 + 4)) (e_concrete (KalkanError c m))" for c m
    by (simp only: e_concrete.simps) (intro grow_intros)
  have 2: "grows (4 + (4 + (8 + 8))) (e_concrete (OutputBufferLimitError p r l))" for p r l
    by (simp only: e_concrete.simps) (intro grow_intros)
  have 3: "grows (4 + (4 + 0)) (e_concrete (OCSPRevokedError p t))" for p t
    by (simp only: e_concrete.simps) (intro grow_intros g)
  show ?thesis
    using grows_mono [OF 1] grows_mono [OF 2] grows_mono [OF 3] grows_uint32 [of 0]
    by (cases v) simp_all
qed

lemma grows_list_0:
  assumes "\<And>x. grows 0 (f x)"
  shows "grows 0 (e_list f vs)"
proof -
  have each: "grows 0 (each f xs)" for xs
    using grows_each [of xs 0 f] assms by simp
  show ?thesis
    unfolding grows_def
  proof (intro allI impI)
    fix e
    assume w: "werr (exec (e_list f vs) e) = None"
    show "werr e = None \<and> length (wdata e) + 0 \<le> length (wdata (exec (e_list f vs) e))"
    proof (cases vs)
      case None
      with w growsD [OF grows_uint32 [of 0], of e] show ?thesis
        by (simp add: e_list_def w_length_def)
    next
      case (Some xs)
      let ?u = "w_uint32 (word_of_nat (length xs + 1))"
      from w Some have ok: "\<not> int (length xs) > maxMetadataSize" "werr (exec ?u e) = None"
        by (auto simp: e_list_def w_length_def w_fail_def split: if_splits)
      then have "exec (e_list f vs) e = exec (each f xs) (exec ?u e)"
        using Some by (simp add: e_list_def w_length_def)
      with w ok(2) growsD [OF grows_uint32 ok(2)] growsD [OF each [of xs], of "exec ?u e"]
      show ?thesis by simp
    qed
  qed
qed

lemma grows_encodeError: "grows 1 (encodeError_level k err)"
proof (induction k arbitrary: err)
  case 0
  show ?case
    by (auto simp: grows_def w_fail_def dest: growsD [OF grows_boolean])
next
  case (Suc k)
  show ?case
  proof (cases err)
    case None
    then show ?thesis by (simp only: encode_None grows_boolean)
  next
    case (Some v)
    have "grows (1 + 0) (encodeError_level (Suc k) (Some v))"
      unfolding encode_Some
      by (intro grows_bind grows_boolean grows_unless_failed [where n = "4 + (0 + 0)"]
          grows_concrete grows_list_0 grows_mono [OF Suc] grows_unless_failed [where n = "8 + 4"]
          grow_intros) simp_all
    then show ?thesis by (simp add: Some)
  qed
qed


section \<open>What arrives\<close>

text \<open>The receiver's error: the concrete error of a node, what arrived of its causes and the
  sentinels it matches, under its text.\<close>

fun concrete_view :: "gerror \<Rightarrow> gerror list" where
  "concrete_view (KalkanError c m) = [KalkanError c m]"
| "concrete_view (OutputBufferLimitError p r l) = [OutputBufferLimitError p r l]"
| "concrete_view (OCSPRevokedError p t) = [OCSPRevokedError p (time_view t)]"
| "concrete_view _ = []"

primrec remote_view :: "nat \<Rightarrow> gerror option \<Rightarrow> gerror option" where
  "remote_view 0 err = None"
| "remote_view (Suc k) err = (case err of None \<Rightarrow> None
     | Some v \<Rightarrow> Some (remoteError (error_text v)
         (concrete_view v @ List.map_filter (remote_view k) (err_causes v) @
          map Sentinel (filter (errors_is v) errorSentinels))))"

text \<open>The instants inside the tree are values of \<^verbatim>\<open>time.Time\<close>; the tree fits the depth.\<close>

fun wf_node :: "gerror \<Rightarrow> bool" where
  "wf_node (OCSPRevokedError p t) \<longleftrightarrow> wf_time t"
| "wf_node _ \<longleftrightarrow> True"

primrec wf_error :: "nat \<Rightarrow> gerror option \<Rightarrow> bool" where
  "wf_error 0 err \<longleftrightarrow> True"
| "wf_error (Suc k) err \<longleftrightarrow> (case err of None \<Rightarrow> True
     | Some v \<Rightarrow> wf_node v \<and> (\<forall>c \<in> set (err_causes v). wf_error k c))"

primrec fits_depth :: "nat \<Rightarrow> gerror option \<Rightarrow> bool" where
  "fits_depth 0 err \<longleftrightarrow> err = None"
| "fits_depth (Suc k) err \<longleftrightarrow> (case err of None \<Rightarrow> True
     | Some v \<Rightarrow> (\<forall>c \<in> set (err_causes v). fits_depth k c))"

lemma remote_view_None [simp]: "remote_view k None = None"
  by (cases k) simp_all

lemma codec_concrete:
  assumes "wf_node v"
  shows "codec_at (e_concrete v) d_concrete (Some (concrete_view v))"
proof -
  have 0: "codec_at (State_Monad.bind (w_uint32 0) (\<lambda>_. ret ())) d_concrete (Some [])"
    unfolding d_concrete_def by (rule codec_bind [OF codec_uint32]) (simp add: codec_ret)
  then have 0: "codec_at (w_uint32 0) d_concrete (Some [])" by (simp add: codec_at_def)
  show ?thesis
  proof (cases v)
    case (KalkanError c m)
    then show ?thesis
      unfolding KalkanError e_concrete.simps d_concrete_def
      by (intro codec_bind [OF codec_uint32]) (simp, intro codec_steps, simp)
  next
    case (OutputBufferLimitError p r l)
    then show ?thesis
      unfolding OutputBufferLimitError e_concrete.simps d_concrete_def
      by (intro codec_bind [OF codec_uint32]) (simp, intro codec_steps, simp)
  next
    case (OCSPRevokedError p t)
    with assms show ?thesis
      unfolding OCSPRevokedError e_concrete.simps d_concrete_def
      by (intro codec_bind [OF codec_uint32]) (simp, intro codec_steps, simp_all)
  qed (use 0 in simp_all)
qed

lemma bit_sentinel_bits_aux:
  "bit (foldl (\<lambda>bits (i, s). if P s then bits OR push_bit i (1 :: uint64) else bits) b
      (enumerate n xs)) i \<longleftrightarrow>
   bit b i \<or> (n \<le> i \<and> i < n + length xs \<and> i < 64 \<and> P (xs ! (i - n)))"
proof (induction xs arbitrary: n b)
  case Nil
  then show ?case by auto
next
  case (Cons x xs)
  have "n \<le> i \<and> i < n + length (x # xs) \<and> i < 64 \<and> P ((x # xs) ! (i - n)) \<longleftrightarrow>
      (i = n \<and> i < 64 \<and> P x) \<or>
      (Suc n \<le> i \<and> i < Suc n + length xs \<and> i < 64 \<and> P (xs ! (i - Suc n)))"
    by (cases "i = n") (auto simp: nth_Cons' le_Suc_eq)
  moreover have "bit (if P x then b OR push_bit n 1 else b) i \<longleftrightarrow> bit b i \<or> (i = n \<and> i < 64 \<and> P x)"
    by (cases "P x") (auto simp only: if_True if_False bit_or_iff bit_push_bit_iff bit_1_iff, simp_all)
  ultimately show ?case
    by (simp only: enumerate_simps foldl_Cons prod.case Cons.IH) blast
qed

lemma length_errorSentinels: "length errorSentinels = 18"
  by (simp add: errorSentinels_def)

lemma bit_sentinel_bits:
  "bit (sentinel_bits v) i \<longleftrightarrow> i < 18 \<and> errors_is v (errorSentinels ! i)"
  unfolding sentinel_bits_def bit_sentinel_bits_aux by (auto simp: length_errorSentinels)

lemma drop_sentinel_bits: "drop_bit 18 (sentinel_bits v) = 0"
  by (rule bit_eqI) (simp add: bit_drop_bit_eq bit_sentinel_bits)

lemma filter_enumerate:
  "(\<And>i. i < length xs \<Longrightarrow> P (n + i) \<longleftrightarrow> Q (xs ! i)) \<Longrightarrow>
     map snd (filter (\<lambda>(i, s). P i) (enumerate n xs)) = filter Q xs"
proof (induction xs arbitrary: n)
  case Nil
  then show ?case by simp
next
  case (Cons x xs)
  from Cons.prems [of 0] have "P n \<longleftrightarrow> Q x" by simp
  moreover have "map snd (filter (\<lambda>(i, s). P i) (enumerate (Suc n) xs)) = filter Q xs"
  proof (rule Cons.IH)
    show "P (Suc n + i) \<longleftrightarrow> Q (xs ! i)" if "i < length xs" for i
      using Cons.prems [of "Suc i"] that by simp
  qed
  ultimately show ?case by simp
qed

lemma known_sentinel_bits: "known_sentinels (sentinel_bits v) = filter (errors_is v) errorSentinels"
  unfolding known_sentinels_def bit_iff_and_push_bit_not_eq_0 [symmetric]
  by (rule filter_enumerate) (simp add: bit_sentinel_bits length_errorSentinels)

lemma map_filter_map: "List.map_filter (\<lambda>x. x) (map f xs) = List.map_filter f xs"
  by (simp add: List.map_filter_def filter_map comp_def)

lemma codec_vacuous: "(\<And>e. werr (exec enc e) \<noteq> None) \<Longrightarrow> codec_at enc dec x"
  unfolding codec_at_def enc_le_def by blast

lemma codec_unless_read:
  "codec_at enc dm x \<Longrightarrow>
     codec_at enc (State_Monad.bind State_Monad.get (\<lambda>d. if rerr d \<noteq> None then ret None else dm)) x"
  by (rule codec_dget) (simp_all add: at_pos_def)

lemma codec_encodeError:
  "wf_error k err \<Longrightarrow> codec_at (encodeError_level k err) (decodeError_level k) (remote_view k err)"
proof (induction k arbitrary: err)
  case 0
  show ?case
  proof (cases err)
    case None
    have "codec_at (State_Monad.bind (w_boolean False) (\<lambda>_. ret ())) (decodeError_level 0) None"
      unfolding decodeError_level.simps
      by (rule codec_bind [OF codec_boolean]) (rule codec_dget [OF _ codec_ret], simp)
    with None show ?thesis by (simp add: codec_at_def encode_None)
  next
    case (Some v)
    then show ?thesis by (intro codec_vacuous) (simp add: w_fail_def)
  qed
next
  case (Suc k)
  show ?case
  proof (cases err)
    case None
    have "codec_at (State_Monad.bind (w_boolean False) (\<lambda>_. ret ())) (decodeError_level (Suc k)) None"
      unfolding decodeError_level.simps
      by (rule codec_bind [OF codec_boolean]) (rule codec_dget [OF _ codec_ret], simp)
    with None show ?thesis by (simp add: codec_at_def encode_None)
  next
    case (Some v)
    with Suc.prems have wf: "wf_node v" "\<And>c. c \<in> set (err_causes v) \<Longrightarrow> wf_error k c" by auto
    have causes: "codec_at (e_list (encodeError_level k) (cause_slice v))
        (d_list 1 (decodeError_level k)) (map_option (map (remote_view k)) (cause_slice v))"
      by (rule codec_list [OF _ grows_encodeError])
        (auto simp: cause_slice_def wf intro: Suc.IH split: if_splits)
    have cs: "(case map_option (map (remote_view k)) (cause_slice v) of None \<Rightarrow> [] | Some l \<Rightarrow> l) =
        map (remote_view k) (err_causes v)"
      by (simp add: cause_slice_def)
    have body: "codec_at (do { w_uint64 (sentinel_bits v); e_text (error_text v) })
        (do { bits \<leftarrow> r_uint64;
              if drop_bit (length errorSentinels) bits \<noteq> 0
              then do { r_fail malformedResult; ret None }
              else do {
                message \<leftarrow> d_text;
                d'' \<leftarrow> State_Monad.get;
                ret (if rerr d'' \<noteq> None then None
                     else Some (remoteError message
                       (cs @ List.map_filter (\<lambda>x. x) causes @
                        map Sentinel (known_sentinels bits)))) } })
        (Some (remoteError (error_text v) (cs @ List.map_filter (\<lambda>x. x) causes @
          map Sentinel (filter (errors_is v) errorSentinels))))" for cs causes
    proof (rule codec_bind [OF codec_uint64], simp only: length_errorSentinels drop_sentinel_bits
        not_True_eq_False simp_thms if_False known_sentinel_bits)
      let ?r = "\<lambda>message. Some (remoteError message (cs @ List.map_filter (\<lambda>x. x) causes @
          map Sentinel (filter (errors_is v) errorSentinels)))"
      have "codec_at (e_text (error_text v)) (do { message \<leftarrow> d_text; ret (?r message) })
          (?r (error_text v))"
        by (rule codec_last [OF codec_text]) simp
      then show "codec_at (e_text (error_text v)) (do { message \<leftarrow> d_text; d'' \<leftarrow> State_Monad.get;
          ret (if rerr d'' \<noteq> None then None else ?r message) }) (?r (error_text v))"
        unfolding codec_at_def by (fastforce simp: at_pos_def)
    qed
    show ?thesis
      unfolding Some encode_Some decodeError_level.simps
      apply (rule codec_bind [OF codec_boolean])
      apply (simp only: not_True_eq_False simp_thms)
      apply (rule codec_unless_failed)
      apply (rule codec_unless_read)
      apply (rule codec_bind [OF codec_concrete [OF wf(1)]])
      apply (simp only: option.case decode_causes)
      apply (rule codec_bind [OF causes])
      apply (rule codec_unless_failed)
      apply (rule codec_unless_read)
      using body [of "concrete_view v" "map (remote_view k) (err_causes v)"]
      by (simp only: cs map_filter_map remote_view.simps option.case)
  qed
qed

lemma keeps_concrete [keeps_intros]: "keeps (e_concrete v)"
  by (cases v) (simp_all only: e_concrete.simps, (intro keeps_intros)+)

lemma keeps_get [keeps_intros]: "keeps State_Monad.get"
  by (simp add: keeps_def)

lemma keeps_encodeError [keeps_intros]: "keeps (encodeError_level k err)"
proof (induction k arbitrary: err)
  case 0
  show ?case unfolding encodeError_level.simps by (intro keeps_intros)
next
  case (Suc k)
  show ?case
    by (cases err) (simp_all only: encode_None encode_Some, (intro keeps_intros Suc)+)
qed

lemma encode_fits:
  "werr (exec (encodeError_level k err) e) = None \<Longrightarrow> fits_depth k err"
proof (induction k arbitrary: err e)
  case 0
  then show ?case by (cases err) (auto simp: w_fail_def split: if_splits)
next
  case (Suc k)
  show ?case
  proof (cases err)
    case None
    then show ?thesis by simp
  next
    case (Some v)
    have "\<exists>e. werr (exec (e_list (encodeError_level k) (cause_slice v)) e) = None"
      using Suc.prems unfolding Some encode_Some by (auto split: if_splits)
    then obtain e' where "werr (exec (e_list (encodeError_level k) (cause_slice v)) e') = None" ..
    then have "\<exists>e. werr (exec (each (encodeError_level k) (err_causes v)) e) = None"
      by (auto simp: e_list_def cause_slice_def w_length_def w_fail_def split: if_splits)
    moreover have "\<forall>c \<in> set cs. fits_depth k c"
      if "werr (exec (each (encodeError_level k) cs) e) = None" for cs e
      using that
    proof (induction cs arbitrary: e)
      case (Cons c cs)
      from Cons.prems growsD [OF grows_each [of cs 1 "encodeError_level k", OF grows_encodeError]]
      have "werr (exec (encodeError_level k c) e) = None" by auto
      with Suc.IH Cons show ?case by auto
    qed simp
    ultimately show ?thesis using Some by auto
  qed
qed

section \<open>Identity of remote errors\<close>

lemma errors_is_concrete: "c \<in> set (concrete_view v) \<Longrightarrow> \<not> errors_is c s"
  by (cases v) auto

lemma errors_is_remoteError: "errors_is (remoteError m cs) s \<longleftrightarrow> (\<exists>c \<in> set cs. errors_is c s)"
  by (simp add: remoteError_def)

lemma set_map_filter: "set (List.map_filter f xs) = {y. \<exists>x \<in> set xs. f x = Some y}"
  by (force simp: List.map_filter_def)

lemma remote_is:
  "remote_view k (Some v) = Some r \<Longrightarrow> errors_is r s \<longleftrightarrow> s \<in> set errorSentinels \<and> errors_is v s"
proof (induction k arbitrary: v r)
  case 0
  then show ?case by simp
next
  case (Suc k)
  from Suc.prems have r: "r = remoteError (error_text v) (concrete_view v @
      List.map_filter (remote_view k) (err_causes v) @
      map Sentinel (filter (errors_is v) errorSentinels))" by simp
  have "s \<in> set errorSentinels \<and> errors_is v s"
    if "x \<in> set (err_causes v)" "remote_view k x = Some c" "errors_is c s" for x c
  proof -
    from that(2) obtain w where x: "x = Some w" by (cases x) auto
    with that Suc.IH have "s \<in> set errorSentinels \<and> errors_is w s" by blast
    with that(1) x show ?thesis
      by (cases "unwrap v") (auto simp: errors_is_unfold [of v] err_causes_def)
  qed
  moreover have "errors_is r s \<longleftrightarrow>
      (\<exists>x \<in> set (err_causes v). \<exists>c. remote_view k x = Some c \<and> errors_is c s) \<or>
      (s \<in> set errorSentinels \<and> errors_is v s)"
    unfolding r errors_is_remoteError set_append set_map_filter
    by (auto dest: errors_is_concrete intro: bexI [of _ "Sentinel s"])
  ultimately show ?case by blast
qed

lemma first_code_sentinels: "first_code (map Some (map Sentinel ss)) = None"
  by (induction ss) simp_all

lemma remote_code:
  "remote_view k (Some v) = Some r \<Longrightarrow> fits_depth k (Some v) \<Longrightarrow> ErrorCodeOf r = ErrorCodeOf v"
proof (induction k arbitrary: v r)
  case 0
  then show ?case by simp
next
  case (Suc k)
  have step: "first_code (map Some (List.map_filter (remote_view k) cs)) = first_code cs"
    if "\<forall>c \<in> set cs. fits_depth k c" for cs
    using that
  proof (induction cs)
    case (Cons c cs)
    show ?case
    proof (cases c)
      case None
      with Cons show ?thesis by (simp add: List.map_filter_def)
    next
      case (Some w)
      with Cons.prems have "fits_depth k (Some w)" by simp
      then obtain r' where "remote_view k (Some w) = Some r'" by (cases k) auto
      with Suc.IH \<open>fits_depth k (Some w)\<close> Some Cons show ?thesis
        by (simp add: List.map_filter_def split: option.split)
    qed
  qed (simp add: List.map_filter_def)
  from Suc.prems have fits: "\<forall>c \<in> set (err_causes v). fits_depth k c" by simp
  from Suc.prems(1) have "ErrorCodeOf r = (case first_code (map Some (concrete_view v)) of
      None \<Rightarrow> first_code (err_causes v) | Some c \<Rightarrow> Some c)"
    by (auto simp: remoteError_def first_code_append first_code_sentinels step [OF fits]
        simp del: map_map split: option.splits)
  also have "\<dots> = ErrorCodeOf v"
    by (cases v) (auto simp: err_causes_def ErrorCodeOf_unfold)
  finally show ?case .
qed

text \<open>
  C4: An error that a worker reports keeps its identity in the parent. When the encoder
  accepts the error (its chain of causes is at most 32 deep), the parent decodes an error
  with the same text, the same native error code, and that matches by
  \<^verbatim>\<open>errors.Is\<close> exactly those sentinels of the registry that the original matches;
  nil arrives as nil.
\<close>

theorem error_identity:
  assumes "wf_error 32 err" and "werr (exec (encodeError err 0) e) = None"
  shows "\<exists>err'. run_state (decodeError 0) (at_pos e (exec (encodeError err 0) e)) =
      (err', at_pos (exec (encodeError err 0) e) (exec (encodeError err 0) e)) \<and>
    (err = None \<longrightarrow> err' = None) \<and>
    (\<forall>v. err = Some v \<longrightarrow> (\<exists>r. err' = Some r \<and> error_text r = error_text v \<and>
      ErrorCodeOf r = ErrorCodeOf v \<and>
      (\<forall>s \<in> set errorSentinels. errors_is r s \<longleftrightarrow> errors_is v s)))"
proof -
  let ?E = "exec (encodeError err 0) e"
  from assms(2) have le: "enc_le (exec (encodeError_level 32 err) e) ?E"
    by (simp add: enc_le_def encodeError_def)
  have dec: "run_state (decodeError 0) (at_pos e ?E) = (remote_view 32 err, at_pos ?E ?E)"
    using codec_atD(2) [OF codec_encodeError [OF assms(1)] le]
    by (simp add: decodeError_def encodeError_def)
  have fits: "fits_depth 32 err" using assms(2) by (simp add: encodeError_def encode_fits)
  have "\<exists>r. remote_view 32 err = Some r \<and> error_text r = error_text v \<and> ErrorCodeOf r = ErrorCodeOf v \<and>
      (\<forall>s \<in> set errorSentinels. errors_is r s \<longleftrightarrow> errors_is v s)" if "err = Some v" for v
  proof -
    from that have "\<exists>r. remote_view 32 err = Some r \<and> error_text r = error_text v"
      by (simp add: numeral_eq_Suc remoteError_def)
    with that fits remote_is remote_code show ?thesis by blast
  qed
  with dec show ?thesis by (intro exI [of _ "remote_view 32 err"]) auto
qed

definition sample_error :: "gerror option" where
  "sample_error = Some (WrapError ''open'' (Some (Sentinel KalkanErrClosed)))"

lemma sample_error_encoded: "werr (exec (encodeError sample_error 0) (newEncoder 0)) = None"
proof -
  note expand = encode_Some [of 31, simplified] encode_Some [of 30, simplified]
  show ?thesis
    unfolding encodeError_def sample_error_def
    by (simp add: expand w_length_def wire_run e_list_def cause_slice_def err_causes_def
        maxMetadataSize_def)
qed

theorem error_identity_witness:
  "\<exists>r. fst (run_state (decodeError 0) (at_pos (newEncoder 0)
      (exec (encodeError sample_error 0) (newEncoder 0)))) = Some r \<and>
    error_text r = ''open'' \<and> errors_is r KalkanErrClosed \<and> \<not> errors_is r CkErrClosed"
proof -
  have "wf_error 32 sample_error"
    by (simp add: sample_error_def numeral_eq_Suc err_causes_def)
  from error_identity [OF this sample_error_encoded] show ?thesis
    by (fastforce simp: sample_error_def errorSentinels_def)
qed

end
