(* ===== verification/Frame.thy ===== *)
theory Frame
  imports Protocol_Errors
begin

text \<open>
  Frames of the pipe between the parent and the worker (\<^verbatim>\<open>isolated/protocol.go\<close>):
  a body size, a header size, the header and the raw blocks. The reader side runs on a
  stream that delivers its pending bytes and then its end error; the writer is any
  \<^verbatim>\<open>io.Writer\<close>, a function on a state of the caller's choice. A Go panic (a slice or
  index expression out of range) is the outcome \<open>Panic\<close>.
\<close>

record OperationObservation =
  ob_Operation :: gostring
  ob_QueueWait :: int64
  ob_NativeDuration :: int64
  ob_TotalDuration :: int64
  ob_ErrorClass :: gostring
  ob_NativeCode :: uint64
  ob_Expected :: bool

record message =
  ID :: uint64
  Operation :: gostring
  Payload :: wirePayload
  Error :: "gerror option"
  Observations :: "OperationObservation list option"

section \<open>Streams\<close>

text \<open>\<open>allocated\<close> counts the bytes the block reader requests from \<^verbatim>\<open>make\<close>.\<close>

record stream =
  pending :: bytes
  ended :: gerror
  allocated :: nat

datatype 'a outcome = Panic | Fail gerror | Done 'a

type_synonym 'a reading = "(stream, 'a) state"

text \<open>\<^verbatim>\<open>io.ReadFull\<close> for a buffer of n bytes.\<close>

definition ReadFull :: "nat \<Rightarrow> (gerror + bytes) reading" where
  "ReadFull n = do {
     s \<leftarrow> State_Monad.get;
     if n \<le> length (pending s)
     then do { State_Monad.set (s\<lparr>pending := drop n (pending s)\<rparr>); ret (Inr (take n (pending s))) }
     else do {
       State_Monad.set (s\<lparr>pending := []\<rparr>);
       ret (Inl (if pending s \<noteq> [] \<and> ended s = Sentinel IoEOF
                 then Sentinel IoErrUnexpectedEOF else ended s)) } }"

text \<open>\<^verbatim>\<open>make([]byte, n)\<close>\<close>

definition make_bytes :: "nat \<Rightarrow> unit reading" where
  "make_bytes n = State_Monad.update (\<lambda>s. s\<lparr>allocated := allocated s + n\<rparr>)"

text \<open>\<^verbatim>\<open>fmt.Errorf("%w: what: %w", ErrProtocol, err)\<close>\<close>

definition protocolError :: "gostring \<Rightarrow> gerror \<Rightarrow> gerror" where
  "protocolError what err = MultiError
     (sentinel_text ErrProtocol @ '': '' @ what @ '': '' @ error_text err)
     [Some (Sentinel ErrProtocol), Some err]"

section \<open>readBlock\<close>

definition maxChunkSize :: nat where "maxChunkSize = 1048576"

text \<open>The loop of \<^verbatim>\<open>readBlock\<close>: \<open>Inr (Inl chunk)\<close> is the early return of a single
  chunk. The chunk size starts at 32 KiB and only doubles, so its test for zero, which makes
  the recursion terminate, is never true.\<close>

function readChunks :: "nat \<Rightarrow> nat \<Rightarrow> bytes list \<Rightarrow> (gerror + bytes + bytes list) reading" where
  "readChunks remaining chunkSize chunks =
     (if remaining = 0 \<or> chunkSize = 0 then ret (Inr (Inr chunks))
      else do {
        make_bytes (min remaining chunkSize);
        r \<leftarrow> ReadFull (min remaining chunkSize);
        case r of
          Inl err \<Rightarrow> ret (Inl (if errors_is err IoEOF then Sentinel IoErrUnexpectedEOF else err))
        | Inr chunk \<Rightarrow>
            if remaining - min remaining chunkSize = 0 \<and> length chunks = 0
            then ret (Inr (Inl chunk))
            else readChunks (remaining - min remaining chunkSize)
                   (min (chunkSize * 2) maxChunkSize) (chunks @ [chunk]) })"
  by pat_completeness auto
termination
  by (relation "measure (\<lambda>(remaining, _). remaining)") (auto simp: min_def)

text \<open>\<^verbatim>\<open>offset += copy(data[offset:], chunk)\<close> over the chunks.\<close>

fun copyChunks :: "nat \<Rightarrow> bytes list \<Rightarrow> bytes \<Rightarrow> bytes" where
  "copyChunks offset [] data = data"
| "copyChunks offset (chunk # chunks) data =
     (let n = min (length data - offset) (length chunk)
      in copyChunks (offset + n) chunks
           (take offset data @ take n chunk @ drop (offset + n) data))"

definition readBlock :: "uint64 \<Rightarrow> (gerror + bytes) reading" where
  "readBlock len =
     (if int (unat len) > maxInt then ret (Inl (errorf ErrProtocol ''block length overflows int''))
      else do {
        r \<leftarrow> readChunks (unat len) 32768 [];
        case r of
          Inl err \<Rightarrow> ret (Inl err)
        | Inr (Inl chunk) \<Rightarrow> ret (Inr chunk)
        | Inr (Inr chunks) \<Rightarrow> do {
            make_bytes (unat len);
            ret (Inr (copyChunks 0 chunks (replicate (unat len) (CHR 0x00)))) } })"

section \<open>readMessage\<close>

definition d_observation :: "OperationObservation decode" where
  "d_observation = do {
     operation \<leftarrow> r_text;
     queueWait \<leftarrow> r_int64;
     nativeDuration \<leftarrow> r_int64;
     totalDuration \<leftarrow> r_int64;
     errorClass \<leftarrow> r_text;
     nativeCode \<leftarrow> r_uint64;
     expected \<leftarrow> r_boolean;
     ret \<lparr>ob_Operation = operation, ob_QueueWait = queueWait, ob_NativeDuration = nativeDuration,
          ob_TotalDuration = totalDuration, ob_ErrorClass = errorClass, ob_NativeCode = nativeCode,
          ob_Expected = expected\<rparr> }"

definition d_observations :: "OperationObservation list option decode" where
  "d_observations = d_list 41 d_observation"

text \<open>The header fields of a frame and the count check before the block lengths.\<close>

record frameHeader =
  h_ID :: uint64
  h_Operation :: gostring
  h_metadata :: slice
  h_tail :: slice
  h_count :: uint32
  h_lengths :: slice

definition readHeader :: "(metadataReader, gerror + frameHeader) state" where
  "readHeader = do {
     id \<leftarrow> r_uint64;
     operation \<leftarrow> r_text;
     payload \<leftarrow> r_raw;
     tail \<leftarrow> r_raw;
     count \<leftarrow> r_uint32;
     d \<leftarrow> State_Monad.get;
     if unat count > maxBlocks \<or> unat count * 8 > length (rdata d)
     then ret (Inl (errorf ErrProtocol ''invalid block count''))
     else do {
       lengths \<leftarrow> r_take (unat count * 8);
       d \<leftarrow> State_Monad.get;
       ret (case r_finish d of
              Some err \<Rightarrow> Inl err
            | None \<Rightarrow> Inr \<lparr>h_ID = id, h_Operation = operation, h_metadata = payload,
                           h_tail = tail, h_count = count, h_lengths = lengths\<rparr>) } }"

text \<open>\<^verbatim>\<open>binary.BigEndian.Uint64(lengths[i*8:])\<close>; \<^const>\<open>None\<close> is a panic.\<close>

definition lengthAt :: "slice \<Rightarrow> nat \<Rightarrow> uint64 option" where
  "lengthAt lengths i =
     (if i * 8 + 8 \<le> slice_len lengths
      then Some (word_of_nat (be_nat (take 8 (drop (i * 8) (str_of lengths))))) else None)"

fun checkLengths :: "slice \<Rightarrow> nat list \<Rightarrow> uint64 \<Rightarrow> uint64 outcome" where
  "checkLengths lengths [] remaining = Done remaining"
| "checkLengths lengths (i # is) remaining =
     (case lengthAt lengths i of
        None \<Rightarrow> Panic
      | Some len \<Rightarrow>
          if int (unat len) > maxInt \<or> len > remaining
          then Fail (errorf ErrProtocol ''invalid binary block length'')
          else checkLengths lengths is (remaining - len))"

fun readBlocks :: "slice \<Rightarrow> nat list \<Rightarrow> binaryBlock list outcome reading" where
  "readBlocks lengths [] = ret (Done [])"
| "readBlocks lengths (i # is) =
     (case lengthAt lengths i of
        None \<Rightarrow> ret Panic
      | Some len \<Rightarrow> do {
          r \<leftarrow> readBlock len;
          case r of
            Inl err \<Rightarrow> ret (Fail (protocolError ''truncated binary block'' err))
          | Inr data \<Rightarrow> do {
              blocks \<leftarrow> readBlocks lengths is;
              ret (case blocks of
                     Done bs \<Rightarrow> Done (\<lparr>bdata = Some data, btext = []\<rparr> # bs)
                   | other \<Rightarrow> other) } })"

text \<open>The error and the observations, decoded from the tail of the header.\<close>

definition readDetails :: "frameHeader \<Rightarrow> binaryBlock list \<Rightarrow> message outcome" where
  "readDetails h blocks =
     (let details = \<lparr>rdata = str_of (h_tail h), rerr = None, dblocks = blocks\<rparr>;
          (err, details) = run_state (decodeError 0) details;
          (obs, details) = run_state d_observations details
      in case r_finish details of
           Some e \<Rightarrow> Fail e
         | None \<Rightarrow> Done \<lparr>ID = h_ID h, Operation = h_Operation h,
             Payload = \<lparr>metadata = str_of (h_metadata h), pblocks = blocks\<rparr>,
             Error = err, Observations = obs\<rparr>)"

definition readBody :: "uint64 \<Rightarrow> uint64 \<Rightarrow> bytes \<Rightarrow> message outcome reading" where
  "readBody bodySize headerSize header =
     (case fst (run_state readHeader \<lparr>rdata = header, rerr = None\<rparr>) of
        Inl err \<Rightarrow> ret (Fail err)
      | Inr h \<Rightarrow>
          (case checkLengths (h_lengths h) [0..<unat (h_count h)] (bodySize - 4 - headerSize) of
             Panic \<Rightarrow> ret Panic
           | Fail err \<Rightarrow> ret (Fail err)
           | Done remaining \<Rightarrow>
               if remaining \<noteq> 0 then ret (Fail (errorf ErrProtocol ''inconsistent frame size''))
               else do {
                 r \<leftarrow> readBlocks (h_lengths h) [0..<unat (h_count h)];
                 ret (case r of
                        Panic \<Rightarrow> Panic
                      | Fail err \<Rightarrow> Fail err
                      | Done blocks \<Rightarrow> readDetails h blocks) }))"

definition readMessage :: "message outcome reading" where
  "readMessage = do {
     r \<leftarrow> ReadFull 8;
     case r of
       Inl err \<Rightarrow> ret (Fail (if err = Sentinel IoEOF then err
                             else protocolError ''truncated frame header'' err))
     | Inr prefix8 \<Rightarrow>
         let bodySize = word_of_nat (be_nat prefix8) :: uint64
         in if bodySize < 4 then ret (Fail (errorf ErrProtocol ''invalid frame size''))
         else do {
           r \<leftarrow> ReadFull 4;
           case r of
             Inl err \<Rightarrow> ret (Fail (protocolError ''missing metadata size'' err))
           | Inr prefix4 \<Rightarrow>
               let headerSize = ucast (word_of_nat (be_nat prefix4) :: uint32) :: uint64
               in if headerSize = 0 \<or> int (unat headerSize) > maxMetadataSize \<or>
                     headerSize > bodySize - 4
               then ret (Fail (errorf ErrProtocol ''invalid metadata size''))
               else do {
                 r \<leftarrow> ReadFull (unat headerSize);
                 case r of
                   Inl err \<Rightarrow> ret (Fail (protocolError ''truncated metadata'' err))
                 | Inr header \<Rightarrow> readBody bodySize headerSize header } } }"

section \<open>writeMessage\<close>

type_synonym 's writer = "bytes \<Rightarrow> 's \<Rightarrow> (int \<times> gerror option) \<times> 's"

function writeAll :: "'s writer \<Rightarrow> bytes \<Rightarrow> 's \<Rightarrow> gerror option \<times> 's" where
  "writeAll write data s =
     (if data = [] then (None, s)
      else let ((n, err), s') = write data s
           in if err \<noteq> None then (err, s')
              else if n \<le> 0 \<or> n > int (length data) then (Some (Sentinel IoErrShortWrite), s')
              else writeAll write (drop (nat n) data) s')"
  by pat_completeness auto
termination
  by (relation "measure (\<lambda>(_, data, _). length data)") auto

text \<open>The buffer of \<^verbatim>\<open>writeText\<close> is empty only when the text is.\<close>

function writeText :: "'s writer \<Rightarrow> nat \<Rightarrow> gostring \<Rightarrow> 's \<Rightarrow> gerror option \<times> 's" where
  "writeText write buffer value s =
     (if value = [] \<or> buffer = 0 then (None, s)
      else let n = min buffer (length value);
               (err, s') = writeAll write (take n value) s
           in if err \<noteq> None then (err, s') else writeText write buffer (drop n value) s')"
  by pat_completeness auto
termination
  by (relation "measure (\<lambda>(_, _, value, _). length value)") (auto simp: min_def)

declare readChunks.simps [simp del] writeAll.simps [simp del] writeText.simps [simp del]

fun writeBlocks :: "'s writer \<Rightarrow> binaryBlock list \<Rightarrow> 's \<Rightarrow> gerror option \<times> 's" where
  "writeBlocks write [] s = (None, s)"
| "writeBlocks write (block # blocks) s =
     (let (err, s') = (if btext block \<noteq> []
                       then writeText write (min (length (btext block)) 32768) (btext block) s
                       else writeAll write (str_of (bdata block)) s)
      in if err \<noteq> None then (err, s') else writeBlocks write blocks s')"

definition e_observation :: "OperationObservation \<Rightarrow> unit encode" where
  "e_observation value = do {
     w_text (ob_Operation value);
     w_int64 (ob_QueueWait value);
     w_int64 (ob_NativeDuration value);
     w_int64 (ob_TotalDuration value);
     w_text (ob_ErrorClass value);
     w_uint64 (ob_NativeCode value);
     w_boolean (ob_Expected value) }"

definition e_observations :: "OperationObservation list option \<Rightarrow> unit encode" where
  "e_observations values = e_list e_observation values"

text \<open>The encoder of the blocks, the error and the observations, and the frame header.\<close>

definition e_details :: "message \<Rightarrow> unit encode" where
  "e_details msg = do {
     each (\<lambda>block. do { _ \<leftarrow> e_add block; ret () }) (pblocks (Payload msg));
     encodeError (Error msg) 0;
     e_observations (Observations msg) }"

definition w_header :: "message \<Rightarrow> payloadEncoder \<Rightarrow> (metadataWriter, unit) state" where
  "w_header msg e = do {
     w_uint64 (ID msg);
     w_text (Operation msg);
     w_raw (metadata (Payload msg));
     w_raw (wdata e);
     w_uint32 (word_of_nat (length (eblocks e)));
     each (\<lambda>block. w_uint64 (word_of_nat (block_size block))) (eblocks e) }"

definition writeMessage :: "'s writer \<Rightarrow> message \<Rightarrow> 's \<Rightarrow> gerror option \<times> 's" where
  "writeMessage write msg s =
     (if int (length (metadata (Payload msg))) > maxMetadataSize \<or>
         length (pblocks (Payload msg)) > maxBlocks
      then (Some errMetadataTooLarge, s)
      else let e = exec (e_details msg) (newEncoder 0)
      in if werr e \<noteq> None then (werr e, s)
      else if length (eblocks e) > maxBlocks then (Some errMetadataTooLarge, s)
      else let header = exec (w_header msg e) \<lparr>wdata = [], werr = None\<rparr>
      in if werr header \<noteq> None then (werr header, s)
      else let headerSize = word_of_nat (length (wdata header)) :: uint64
      in if int (unat headerSize) > maxMetadataSize then (Some errMetadataTooLarge, s)
      else if esize e > word_of_nat maxUint64 - headerSize - 4
      then (Some (errorf ErrProtocol ''frame size overflow''), s)
      else let size = esize e + headerSize + 4;
               (err, s') = writeAll write
                 (be_bytes 8 (unat size) @ be_bytes 4 (unat (ucast headerSize :: uint32))) s
      in if err \<noteq> None then (err, s')
      else let (err, s') = writeAll write (wdata header) s'
      in if err \<noteq> None then (err, s')
      else writeBlocks write (eblocks e) s')"

end
