(* ===== verification/Frame_Transport.thy ===== *)
theory Frame_Transport
  imports Frame
begin

text \<open>
  What the frames of \<^verbatim>\<open>isolated/protocol.go\<close> guarantee: a block read in chunks is the
  block, a frame written to a faithful writer is read back, no input makes the reader panic,
  and a frame that cannot be encoded leaves no bytes on the pipe.
\<close>

section \<open>Reading blocks\<close>

lemma ReadFull_ok:
  "n \<le> length (pending s) \<Longrightarrow>
     run_state (ReadFull n) s = (Inr (take n (pending s)), s\<lparr>pending := drop n (pending s)\<rparr>)"
  by (simp add: ReadFull_def)

lemma ReadFull_short:
  "length (pending s) < n \<Longrightarrow> \<exists>err. run_state (ReadFull n) s = (Inl err, s\<lparr>pending := []\<rparr>)"
  by (simp add: ReadFull_def)

lemma make_bytes_run [simp]:
  "run_state (make_bytes n) s = ((), s\<lparr>allocated := allocated s + n\<rparr>)"
  by (simp add: make_bytes_def)

text \<open>Enough bytes: the chunks are the next bytes of the stream, in order.\<close>

lemma readChunks_ok:
  assumes "0 < chunkSize" "remaining \<le> length (pending s)"
  shows "\<exists>cs. run_state (readChunks remaining chunkSize chunks) s =
      (Inr (if chunks = [] \<and> 0 < remaining \<and> remaining \<le> chunkSize
            then Inl (take remaining (pending s)) else Inr cs),
       s\<lparr>pending := drop remaining (pending s), allocated := allocated s + remaining\<rparr>) \<and>
    concat cs = concat chunks @ take remaining (pending s)"
  using assms
proof (induction remaining arbitrary: chunkSize chunks s rule: less_induct)
  case (less remaining)
  show ?case
  proof (cases "remaining = 0")
    case True
    then show ?thesis by (simp add: readChunks.simps)
  next
    case False
    let ?n = "min remaining chunkSize" and ?c = "take (min remaining chunkSize) (pending s)"
    let ?s = "s\<lparr>allocated := allocated s + ?n, pending := drop ?n (pending s)\<rparr>"
    have n: "?n \<le> length (pending s)" "?n \<le> remaining" using less.prems by auto
    show ?thesis
    proof (cases "remaining - ?n = 0 \<and> length chunks = 0")
      case True
      then have "?n = remaining" by simp
      with True False less.prems n show ?thesis
        by (subst readChunks.simps) (auto simp: ReadFull_ok intro: exI [of _ "[take remaining (pending s)]"])
    next
      case go: False
      have step: "run_state (readChunks remaining chunkSize chunks) s =
          run_state (readChunks (remaining - ?n) (min (chunkSize * 2) maxChunkSize) (chunks @ [?c])) ?s"
        using go False less.prems n by (subst readChunks.simps) (auto simp: ReadFull_ok)
      have "\<exists>cs. run_state (readChunks (remaining - ?n) (min (chunkSize * 2) maxChunkSize)
            (chunks @ [?c])) ?s =
          (Inr (if chunks @ [?c] = [] \<and> 0 < remaining - ?n \<and>
                remaining - ?n \<le> min (chunkSize * 2) maxChunkSize
              then Inl (take (remaining - ?n) (pending ?s)) else Inr cs),
           ?s\<lparr>pending := drop (remaining - ?n) (pending ?s),
              allocated := allocated ?s + (remaining - ?n)\<rparr>) \<and>
        concat cs = concat (chunks @ [?c]) @ take (remaining - ?n) (pending ?s)"
        using go False less.prems n
        by (intro less.IH) (auto simp: maxChunkSize_def)
      then obtain cs where cs: "run_state (readChunks (remaining - ?n) (min (chunkSize * 2) maxChunkSize)
            (chunks @ [?c])) ?s = (Inr (Inr cs), s\<lparr>pending := drop remaining (pending s),
              allocated := allocated s + remaining\<rparr>)"
        "concat cs = concat chunks @ ?c @ take (remaining - ?n) (drop ?n (pending s))"
        using n by auto
      have "?c @ take (remaining - ?n) (drop ?n (pending s)) = take remaining (pending s)"
        using n(2) by (metis le_add_diff_inverse take_add)
      moreover have "\<not> (chunks = [] \<and> 0 < remaining \<and> remaining \<le> chunkSize)"
        using go False by (auto simp: min_def)
      ultimately show ?thesis using step cs by auto
    qed
  qed
qed

text \<open>A truncated block: the reader stops with an error after it has requested at most twice
  the bytes that arrived and 32 KiB, whatever length the frame declared.\<close>

lemma readChunks_short:
  assumes "0 < chunkSize" "length (pending s) < remaining" "chunkSize \<le> got + 32768"
  shows "\<exists>err a. run_state (readChunks remaining chunkSize chunks) s =
      (Inl err, s\<lparr>pending := [], allocated := a\<rparr>) \<and>
    a \<le> allocated s + 2 * length (pending s) + got + 32768 \<and>
    (ended s = Sentinel IoEOF \<longrightarrow> err = Sentinel IoErrUnexpectedEOF)"
  using assms
proof (induction remaining arbitrary: chunkSize chunks got s rule: less_induct)
  case (less remaining)
  let ?n = "min remaining chunkSize" and ?c = "take (min remaining chunkSize) (pending s)"
  let ?s = "s\<lparr>allocated := allocated s + ?n, pending := drop ?n (pending s)\<rparr>"
  have pos: "remaining \<noteq> 0" "chunkSize \<noteq> 0" using less.prems by auto
  show ?case
  proof (cases "?n \<le> length (pending s)")
    case True
    then have n: "?n = chunkSize" using less.prems by (auto simp: min_def split: if_splits)
    have step: "run_state (readChunks remaining chunkSize chunks) s =
        run_state (readChunks (remaining - ?n) (min (chunkSize * 2) maxChunkSize) (chunks @ [?c])) ?s"
      using True pos less.prems n by (subst readChunks.simps) (auto simp: ReadFull_ok)
    have "\<exists>err a. run_state (readChunks (remaining - ?n) (min (chunkSize * 2) maxChunkSize)
          (chunks @ [?c])) ?s = (Inl err, ?s\<lparr>pending := [], allocated := a\<rparr>) \<and>
        a \<le> allocated ?s + 2 * length (pending ?s) + (got + chunkSize) + 32768 \<and>
        (ended ?s = Sentinel IoEOF \<longrightarrow> err = Sentinel IoErrUnexpectedEOF)"
      using True pos less.prems n by (intro less.IH) (auto simp: maxChunkSize_def)
    then obtain err a where r: "run_state (readChunks remaining chunkSize chunks) s =
        (Inl err, s\<lparr>pending := [], allocated := a\<rparr>)"
      "a \<le> allocated s + chunkSize + 2 * (length (pending s) - chunkSize) + (got + chunkSize) + 32768"
      "ended s = Sentinel IoEOF \<longrightarrow> err = Sentinel IoErrUnexpectedEOF"
      using step n by auto
    show ?thesis
      by (intro exI [of _ err] exI [of _ a] conjI r) (use r(2) n True in simp)
  next
    case False
    define short where "short = (if pending s \<noteq> [] \<and> ended s = Sentinel IoEOF
      then Sentinel IoErrUnexpectedEOF else ended s)"
    let ?err = "if errors_is short IoEOF then Sentinel IoErrUnexpectedEOF else short"
    from False have "run_state (readChunks remaining chunkSize chunks) s =
        (Inl ?err, s\<lparr>pending := [], allocated := allocated s + ?n\<rparr>)"
      using pos by (subst readChunks.simps) (simp add: ReadFull_def short_def)
    moreover have "?n \<le> got + 32768" using less.prems by simp
    moreover have "ended s = Sentinel IoEOF \<longrightarrow> ?err = Sentinel IoErrUnexpectedEOF"
      by (auto simp: short_def)
    ultimately show ?thesis
      by (intro exI [of _ ?err] exI [of _ "allocated s + ?n"]) simp
  qed
qed

lemma copyChunks_concat:
  "length data = offset + length (concat chunks) \<Longrightarrow>
     copyChunks offset chunks data = take offset data @ concat chunks"
proof (induction chunks arbitrary: offset data)
  case Nil
  then show ?case by simp
next
  case (Cons c cs)
  let ?d = "take offset data @ c @ drop (offset + length c) data"
  from Cons.prems have l: "length ?d = offset + length c + length (concat cs)" by simp
  from Cons.prems have "min (length data - offset) (length c) = length c" by simp
  then have "copyChunks offset (c # cs) data = copyChunks (offset + length c) cs ?d" by (simp add: Let_def)
  also have "\<dots> = take (offset + length c) ?d @ concat cs" by (rule Cons.IH [OF l])
  finally show ?case using Cons.prems by simp
qed

lemma readBlock_ok:
  assumes "int (unat len) \<le> maxInt" "unat len \<le> length (pending s)"
  shows "\<exists>a. run_state (readBlock len) s = (Inr (take (unat len) (pending s)),
      s\<lparr>pending := drop (unat len) (pending s), allocated := a\<rparr>) \<and> a \<le> allocated s + 2 * unat len"
proof -
  obtain cs where cs: "run_state (readChunks (unat len) 32768 []) s =
      (Inr (if 0 < unat len \<and> unat len \<le> 32768 then Inl (take (unat len) (pending s)) else Inr cs),
       s\<lparr>pending := drop (unat len) (pending s), allocated := allocated s + unat len\<rparr>)"
    "concat cs = take (unat len) (pending s)"
    using readChunks_ok [of 32768 "unat len" s "[]"] assms by auto
  from cs(2) assms have "copyChunks 0 cs (replicate (unat len) (CHR 0x00)) = take (unat len) (pending s)"
    by (subst copyChunks_concat) simp_all
  with cs assms show ?thesis
    by (intro exI [of _ "if 0 < unat len \<and> unat len \<le> 32768 then allocated s + unat len
        else allocated s + unat len + unat len"]) (auto simp: readBlock_def)
qed

lemma readBlock_short:
  assumes "length (pending s) < unat len" "int (unat len) \<le> maxInt"
  shows "\<exists>err a. run_state (readBlock len) s = (Inl err, s\<lparr>pending := [], allocated := a\<rparr>) \<and>
    a \<le> allocated s + 2 * length (pending s) + 32768 \<and>
    (ended s = Sentinel IoEOF \<longrightarrow> err = Sentinel IoErrUnexpectedEOF)"
proof -
  from readChunks_short [of 32768 s "unat len" 0 "[]"] assms
  obtain err a where "run_state (readChunks (unat len) 32768 []) s =
      (Inl err, s\<lparr>pending := [], allocated := a\<rparr>)"
    "a \<le> allocated s + 2 * length (pending s) + 32768"
    "ended s = Sentinel IoEOF \<longrightarrow> err = Sentinel IoErrUnexpectedEOF" by auto
  with assms show ?thesis by (intro exI [of _ err] exI [of _ a]) (simp add: readBlock_def)
qed

section \<open>Writers\<close>

text \<open>The documented contract of an \<^verbatim>\<open>io.Writer\<close>, for what the peer has been sent: a
  write that reports n bytes and no error has sent the first n bytes of its argument.\<close>

definition faithful_writer :: "'s writer \<Rightarrow> ('s \<Rightarrow> bytes) \<Rightarrow> bool" where
  "faithful_writer write sent \<longleftrightarrow> (\<forall>data s n s'. write data s = ((n, None), s') \<longrightarrow>
     0 \<le> n \<and> n \<le> int (length data) \<longrightarrow> sent s' = sent s @ take (nat n) data)"

lemma writeAll_sent:
  assumes w: "faithful_writer write sent" and "writeAll write data s = (None, s')"
  shows "sent s' = sent s @ data"
  using assms(2)
proof (induction data arbitrary: s rule: length_induct)
  case (1 data)
  show ?case
  proof (cases "data = []")
    case True
    with 1 show ?thesis by (simp add: writeAll.simps)
  next
    case False
    obtain n err s1 where wr: "write data s = ((n, err), s1)" by (metis surj_pair)
    with False 1(2) have ok: "err = None" "0 < n" "n \<le> int (length data)"
      "writeAll write (drop (nat n) data) s1 = (None, s')"
      by (auto simp: writeAll.simps [of "write" data s] split: if_splits)
    with w wr have s1: "sent s1 = sent s @ take (nat n) data" by (auto simp: faithful_writer_def)
    from ok False have "length (drop (nat n) data) < length data" by simp
    with 1 ok have "sent s' = sent s1 @ drop (nat n) data" by blast
    with s1 show ?thesis by simp
  qed
qed

lemma writeText_sent:
  assumes w: "faithful_writer write sent" and "0 < buffer"
    and "writeText write buffer value s = (None, s')"
  shows "sent s' = sent s @ value"
  using assms(3)
proof (induction "value" arbitrary: s rule: length_induct)
  case (1 data)
  show ?case
  proof (cases "data = []")
    case True
    with 1 show ?thesis by (simp add: writeText.simps)
  next
    case False
    let ?n = "min buffer (length data)"
    obtain s1 where ok: "writeAll write (take ?n data) s = (None, s1)"
      "writeText write buffer (drop ?n data) s1 = (None, s')"
      using False 1(2) assms(2)
      by (auto simp: writeText.simps [of "write" buffer data s] Let_def split: prod.splits if_splits)
    from False assms(2) have "length (drop ?n data) < length data" by (simp add: min_def)
    with 1 ok have "sent s' = sent s1 @ drop ?n data" by blast
    with writeAll_sent [OF w ok(1)] show ?thesis by simp
  qed
qed

text \<open>The contents of a block as they are sent.\<close>

definition block_contents :: "binaryBlock \<Rightarrow> bytes" where
  "block_contents b = str_of (block_bytes b)"

lemma writeBlocks_sent:
  assumes w: "faithful_writer write sent"
  shows "writeBlocks write blocks s = (None, s') \<Longrightarrow>
    sent s' = sent s @ concat (map block_contents blocks)"
proof (induction blocks arbitrary: s)
  case (Cons b bs)
  let ?text = "writeText write (min (length (btext b)) 32768) (btext b) s"
  let ?data = "writeAll write (str_of (bdata b)) s"
  from Cons.prems obtain s1 where s1: "(if btext b \<noteq> [] then ?text else ?data) = (None, s1)"
    "writeBlocks write bs s1 = (None, s')"
    by (auto simp: Let_def split: prod.splits if_splits)
  have "sent s1 = sent s @ block_contents b"
    using s1(1) writeText_sent [OF w, of "min (length (btext b)) 32768" "btext b" s s1]
      writeAll_sent [OF w, of "str_of (bdata b)" s s1]
    by (auto simp: block_contents_def block_bytes_def split: if_splits)
  with Cons.IH [OF s1(2)] show ?case by simp
qed simp

text \<open>A failed write is the error of the writer or a short write.\<close>

lemma writeAll_error:
  "writeAll write data s = (Some e, s') \<Longrightarrow>
     e = Sentinel IoErrShortWrite \<or> (\<exists>d t n t'. write d t = ((n, Some e), t'))"
proof (induction data arbitrary: s rule: length_induct)
  case (1 data)
  obtain n err s1 where wr: "write data s = ((n, err), s1)" by (metis surj_pair)
  have ne: "data \<noteq> []" using 1(2) by (auto simp: writeAll.simps)
  show ?case
  proof (cases "err \<noteq> None \<or> n \<le> 0 \<or> n > int (length data)")
    case True
    with wr ne 1(2) show ?thesis
      by (auto simp: writeAll.simps [of "write" data s] split: if_splits)
  next
    case False
    with wr ne 1(2) have "writeAll write (drop (nat n) data) s1 = (Some e, s')"
      by (simp add: writeAll.simps [of "write" data s])
    moreover from False ne have "length (drop (nat n) data) < length data" by simp
    ultimately show ?thesis using 1(1) by blast
  qed
qed

section \<open>The frame header\<close>

definition size_bytes :: "binaryBlock list \<Rightarrow> bytes" where
  "size_bytes blocks = concat (map (\<lambda>b. be_bytes 8 (unat (word_of_nat (block_size b) :: uint64))) blocks)"

definition header_bytes :: "message \<Rightarrow> payloadEncoder \<Rightarrow> bytes" where
  "header_bytes msg e =
     be_bytes 8 (unat (ID msg)) @ be_bytes 4 (length (Operation msg)) @ Operation msg @
     be_bytes 4 (length (metadata (Payload msg))) @ metadata (Payload msg) @
     be_bytes 4 (length (wdata e)) @ wdata e @
     be_bytes 4 (unat (word_of_nat (length (eblocks e)) :: uint32)) @ size_bytes (eblocks e)"

lemma each_uint64_ok:
  "werr (exec (each (\<lambda>b. w_uint64 (f b)) bs) e) = None \<Longrightarrow> werr e = None \<and>
     exec (each (\<lambda>b. w_uint64 (f b)) bs) e = e\<lparr>wdata := wdata e @ concat (map (\<lambda>b. be_bytes 8 (unat (f b))) bs)\<rparr>"
proof (induction bs arbitrary: e)
  case (Cons b bs)
  then have "werr (exec (w_uint64 (f b)) e) = None" by simp
  with Cons.prems w_uint64_ok [of "f b" e] Cons.IH [of "exec (w_uint64 (f b)) e"] show ?case by simp
qed simp

lemma w_header_ok:
  assumes "werr (exec (w_header msg e) \<lparr>wdata = [], werr = None\<rparr>) = None"
  shows "wdata (exec (w_header msg e) \<lparr>wdata = [], werr = None\<rparr>) = header_bytes msg e \<and>
    length (Operation msg) \<le> 65536 \<and> length (metadata (Payload msg)) \<le> 65536 \<and>
    length (wdata e) \<le> 65536"
proof -
  let ?e0 = "\<lparr>wdata = [], werr = None\<rparr> :: metadataWriter"
  let ?e1 = "exec (w_uint64 (ID msg)) ?e0"
  let ?e2 = "exec (w_raw (Operation msg)) ?e1"
  let ?e3 = "exec (w_raw (metadata (Payload msg))) ?e2"
  let ?e4 = "exec (w_raw (wdata e)) ?e3"
  let ?e5 = "exec (w_uint32 (word_of_nat (length (eblocks e)))) ?e4"
  have ex: "exec (w_header msg e) ?e0 =
      exec (each (\<lambda>b. w_uint64 (word_of_nat (block_size b))) (eblocks e)) ?e5"
    by (simp add: w_header_def w_text_raw)
  note 6 = each_uint64_ok [OF assms [unfolded ex]]
  then have "werr ?e5 = None" by simp
  note 5 = w_uint32_ok [OF this]
  then have "werr ?e4 = None" by simp
  note 4 = w_raw_ok [OF this]
  then have "werr ?e3 = None" by simp
  note 3 = w_raw_ok [OF this]
  then have "werr ?e2 = None" by simp
  note 2 = w_raw_ok [OF this]
  then have "werr ?e1 = None" by simp
  note 1 = w_uint64_ok [OF this]
  have "wdata (exec (w_header msg e) ?e0) = wdata ?e5 @ size_bytes (eblocks e)"
    using ex 6 by (simp add: size_bytes_def)
  also have "wdata ?e5 = wdata ?e4 @ be_bytes 4 (unat (word_of_nat (length (eblocks e)) :: uint32))"
    using 5 by simp
  also have "wdata ?e4 = wdata ?e3 @ be_bytes 4 (length (wdata e)) @ wdata e" using 4 by simp
  also have "wdata ?e3 = wdata ?e2 @ be_bytes 4 (length (metadata (Payload msg))) @ metadata (Payload msg)"
    using 3 by simp
  also have "wdata ?e2 = wdata ?e1 @ be_bytes 4 (length (Operation msg)) @ Operation msg"
    using 2 by simp
  also have "wdata ?e1 = be_bytes 8 (unat (ID msg))" using 1 by simp
  finally show ?thesis using 2 3 4 by (simp add: header_bytes_def)
qed

lemma r_text_append:
  "rerr d = None \<Longrightarrow> rdata d = be_bytes 4 (length b) @ b @ rest \<Longrightarrow> length b \<le> 65536 \<Longrightarrow>
     run_state r_text d = (b, d\<lparr>rdata := rest\<rparr>)"
  by (simp add: r_text_def r_raw_append)

lemma length_size_bytes: "length (size_bytes blocks) = length blocks * 8"
  by (induction blocks) (simp_all add: size_bytes_def)

lemma readHeader_header:
  assumes "length (Operation msg) \<le> 65536" "length (metadata (Payload msg)) \<le> 65536"
    "length (wdata e) \<le> 65536" "length (eblocks e) \<le> maxBlocks"
  shows "fst (run_state readHeader \<lparr>rdata = header_bytes msg e, rerr = None\<rparr>) =
    Inr \<lparr>h_ID = ID msg, h_Operation = Operation msg,
      h_metadata = (if metadata (Payload msg) = [] then None else Some (metadata (Payload msg))),
      h_tail = (if wdata e = [] then None else Some (wdata e)),
      h_count = word_of_nat (length (eblocks e)), h_lengths = Some (size_bytes (eblocks e))\<rparr>"
proof -
  let ?c = "word_of_nat (length (eblocks e)) :: uint32"
  have c: "unat ?c = length (eblocks e)" using assms(4) by (simp add: maxBlocks_def unat32_of_nat)
  note steps = r_uint64_append [of _ "ID msg"] r_text_append [of _ "Operation msg"]
    r_raw_append [of _ "metadata (Payload msg)"] r_raw_append [of _ "wdata e"] r_uint32_append [of _ ?c]
  have "run_state r_uint32 \<lparr>rdata = be_bytes 4 (unat ?c) @ size_bytes (eblocks e), rerr = None\<rparr> =
      (?c, \<lparr>rdata = size_bytes (eblocks e), rerr = None\<rparr>)"
    by (simp add: r_uint32_append)
  with assms c show ?thesis
    by (simp add: readHeader_def header_bytes_def steps length_size_bytes r_take_def r_finish_def)
qed

lemma lengthAt_size_bytes:
  assumes "i < length blocks"
  shows "lengthAt (Some (size_bytes blocks)) i = Some (word_of_nat (block_size (blocks ! i)))"
  using assms
proof (induction blocks arbitrary: i)
  case (Cons b bs)
  show ?case
  proof (cases i)
    case 0
    then show ?thesis by (simp add: lengthAt_def size_bytes_def)
  next
    case (Suc j)
    with Cons.prems Cons.IH [of j] show ?thesis
      by (simp add: lengthAt_def size_bytes_def split: if_splits)
  qed
qed simp

lemma checkLengths_ok:
  assumes "\<And>i. i \<in> set is \<Longrightarrow> lengthAt L i = Some (word_of_nat (f i)) \<and> int (f i) \<le> maxInt"
    and "sum_list (map f is) \<le> unat remaining"
  shows "checkLengths L is remaining = Done (remaining - word_of_nat (sum_list (map f is)))"
  using assms
proof (induction "is" arbitrary: remaining)
  case (Cons i "is")
  let ?n = "word_of_nat (f i) :: uint64"
  have small: "unat ?n = f i"
    using Cons.prems(1) [of i] by (simp add: maxInt_def unat64_of_nat)
  have le: "?n \<le> remaining" using Cons.prems(2) small by (simp add: word_le_nat_alt)
  then have sub: "unat (remaining - ?n) = unat remaining - f i" by (simp add: unat_sub small)
  have "checkLengths L is (remaining - ?n) =
      Done (remaining - ?n - word_of_nat (sum_list (map f is)))"
    using Cons.prems sub by (intro Cons.IH) simp_all
  moreover have "int (unat ?n) \<le> maxInt" using Cons.prems(1) [of i] small by simp
  ultimately show ?case using Cons.prems(1) [of i] le by (simp add: not_less)
qed simp

lemma readBlocks_ok:
  assumes "\<And>i. i \<in> set is \<Longrightarrow> lengthAt L i = Some (word_of_nat (length (c i))) \<and> int (length (c i)) \<le> maxInt"
    and "pending s = concat (map c is) @ rest"
  shows "\<exists>a. run_state (readBlocks L is) s =
    (Done (map (\<lambda>i. \<lparr>bdata = Some (c i), btext = []\<rparr>) is), s\<lparr>pending := rest, allocated := a\<rparr>)"
  using assms
proof (induction "is" arbitrary: s)
  case Nil
  then show ?case by (auto intro: exI [of _ "allocated s"])
next
  case (Cons i "is")
  let ?n = "word_of_nat (length (c i)) :: uint64"
  have small: "unat ?n = length (c i)"
    using Cons.prems(1) [of i] by (simp add: maxInt_def unat64_of_nat)
  obtain a where a: "run_state (readBlock ?n) s =
      (Inr (c i), s\<lparr>pending := concat (map c is) @ rest, allocated := a\<rparr>)"
    using readBlock_ok [of ?n s] Cons.prems(1) [of i] Cons.prems(2) small by auto
  obtain a' where "run_state (readBlocks L is) (s\<lparr>pending := concat (map c is) @ rest, allocated := a\<rparr>) =
      (Done (map (\<lambda>i. \<lparr>bdata = Some (c i), btext = []\<rparr>) is), s\<lparr>pending := rest, allocated := a'\<rparr>)"
    using Cons.IH [of "s\<lparr>pending := concat (map c is) @ rest, allocated := a\<rparr>"] Cons.prems(1) by auto
  with a Cons.prems(1) [of i] show ?case by (auto intro: exI [of _ a'])
qed

section \<open>The error and the observations of a frame\<close>

lemma codec_observation: "codec_at (e_observation v) d_observation v"
  unfolding e_observation_def d_observation_def by (intro codec_steps) (cases v, simp)

lemma grows_raw [grow_intros]: "grows 4 (w_raw v)"
  by (auto simp: grows_def dest: w_raw_ok)

lemma grows_observation: "grows 41 (e_observation v)"
proof -
  have "grows (4 + (8 + (8 + (8 + (4 + (8 + 1)))))) (e_observation v)"
    unfolding e_observation_def w_text_raw by (intro grow_intros)
  then show ?thesis by simp
qed

lemma codec_observations: "codec_at (e_observations v) d_observations v"
  unfolding e_observations_def d_observations_def
  using codec_list [of v e_observation d_observation "\<lambda>x. x" 41, OF codec_observation grows_observation]
  by (simp add: list.map_ident option.map_ident)

lemma codec_error_observations:
  assumes "wf_error 32 err"
  shows "codec_at (do { encodeError err 0; e_observations obs })
    (do { err \<leftarrow> decodeError 0; obs \<leftarrow> d_observations; ret (err, obs) }) (remote_view 32 err, obs)"
proof (rule codec_bind)
  show "codec_at (encodeError err 0) (decodeError 0) (remote_view 32 err)"
    using codec_encodeError [OF assms] by (simp add: encodeError_def decodeError_def)
  show "codec_at (e_observations obs) (do { obs \<leftarrow> d_observations; ret (remote_view 32 err, obs) })
      (remote_view 32 err, obs)"
    by (rule codec_last [OF codec_observations]) simp
qed

lemma each_add_ok:
  "werr (exec (each (\<lambda>block. do { _ \<leftarrow> e_add block; ret () }) bs) e) = None \<Longrightarrow>
     werr e = None \<and> wdata (exec (each (\<lambda>block. do { _ \<leftarrow> e_add block; ret () }) bs) e) = wdata e \<and>
     eblocks (exec (each (\<lambda>block. do { _ \<leftarrow> e_add block; ret () }) bs) e) = eblocks e @ bs"
proof (induction bs arbitrary: e)
  case (Cons b bs)
  from Cons.prems Cons.IH [of "exec (e_add b) e"] have "werr (exec (e_add b) e) = None" by simp
  from e_add_ok [OF this] Cons.prems Cons.IH [of "exec (e_add b) e"] show ?case by simp
qed simp

lemma keeps_each_add:
  "list_all block_ok bs \<Longrightarrow> keeps (each (\<lambda>block. do { _ \<leftarrow> e_add block; ret () }) bs)"
  by (induction bs) (auto intro!: keeps_intros keeps_add)

lemma keeps_observations [keeps_intros]: "keeps (e_observations v)"
  unfolding e_observations_def e_observation_def by (intro keeps_intros)

lemma keeps_details: "list_all block_ok (pblocks (Payload msg)) \<Longrightarrow> keeps (e_details msg)"
  unfolding e_details_def encodeError_def by (intro keeps_intros keeps_each_add)

lemma details_decoded:
  assumes "wf_error 32 (Error msg)" and "werr E = None" and "E = exec (e_details msg) (newEncoder 0)"
  shows "run_state (do { err \<leftarrow> decodeError 0; obs \<leftarrow> d_observations; ret (err, obs) })
      \<lparr>rdata = wdata E, rerr = None, dblocks = map received (eblocks E)\<rparr> =
      ((remote_view 32 (Error msg), Observations msg),
       \<lparr>rdata = [], rerr = None, dblocks = map received (eblocks E)\<rparr>)"
    and "prefix (pblocks (Payload msg)) (eblocks E)"
proof -
  let ?e1 = "exec (each (\<lambda>block. do { _ \<leftarrow> e_add block; ret () }) (pblocks (Payload msg))) (newEncoder 0)"
  let ?enc = "do { encodeError (Error msg) 0; e_observations (Observations msg) }"
  have E: "E = exec ?enc ?e1" using assms(3) by (simp add: e_details_def)
  then have le: "enc_le (exec ?enc ?e1) E" using assms(2) by (simp add: enc_le_def)
  note dec = codec_atD [OF codec_error_observations [OF assms(1)] le]
  from dec(1) have "werr ?e1 = None" by (simp add: enc_le_def)
  from each_add_ok [OF this] have e1: "wdata ?e1 = []" "eblocks ?e1 = pblocks (Payload msg)"
    by (simp_all add: newEncoder_def)
  show "run_state (do { err \<leftarrow> decodeError 0; obs \<leftarrow> d_observations; ret (err, obs) })
      \<lparr>rdata = wdata E, rerr = None, dblocks = map received (eblocks E)\<rparr> =
      ((remote_view 32 (Error msg), Observations msg),
       \<lparr>rdata = [], rerr = None, dblocks = map received (eblocks E)\<rparr>)"
    using dec(2) E e1 by (simp add: at_pos_def)
  show "prefix (pblocks (Payload msg)) (eblocks E)" using dec(1) e1 by (simp add: enc_le_def)
qed

lemma wf_error_None: "wf_error k None"
  by (cases k) simp_all

lemma no_error_no_blocks:
  assumes "werr E = None" "E = exec (e_details msg) (newEncoder 0)" "Error msg = None"
  shows "eblocks E = pblocks (Payload msg)"
proof -
  let ?add = "\<lambda>block. do { _ \<leftarrow> e_add block; ret () }"
  let ?e1 = "exec (each ?add (pblocks (Payload msg))) (newEncoder 0)"
  have le: "enc_le E E" using assms(1) by (simp add: enc_le_def)
  have same: "eblocks (exec (e_observations obs) e) = eblocks e" for obs e
  proof -
    have u32: "eblocks (exec (w_uint32 v) e) = eblocks e"
      and u64: "eblocks (exec (w_uint64 w) e) = eblocks e"
      and b: "eblocks (exec (w_boolean c) e) = eblocks e"
      and r: "eblocks (exec (w_raw d) e) = eblocks e"
      and f: "eblocks (exec (w_fail g) e) = eblocks e" for v w c d g and e :: payloadEncoder
      by (simp_all add: writer_defs)
    have one: "eblocks (exec (e_observation x) e) = eblocks e" for x e
      by (simp add: e_observation_def w_text_raw w_int64_def u64 b r)
    have "eblocks (exec (each e_observation xs) e) = eblocks e" for xs e
      by (induction xs arbitrary: e) (simp_all add: one)
    then show ?thesis by (simp add: e_observations_def e_list_def w_length_def u32 f)
  qed
  have bool: "eblocks (exec (w_boolean c) e) = eblocks e" for c and e :: payloadEncoder
    by (simp add: w_boolean_def w_reserve_def w_append_def)
  have E: "E = exec (e_observations (Observations msg)) (exec (w_boolean False) ?e1)"
    using assms(2,3) by (simp add: e_details_def encodeError_def encode_None)
  then have "eblocks E = eblocks ?e1" by (simp add: same bool)
  moreover have "enc_le ?e1 E"
    by (rule codec_atD(1) [OF codec_error_observations [OF wf_error_None, of "Observations msg"]])
      (use le E in \<open>simp add: encodeError_def encode_None\<close>)
  then have "werr ?e1 = None" by (simp add: enc_le_def)
  ultimately show ?thesis using each_add_ok [of "pblocks (Payload msg)" "newEncoder 0"]
    by (simp add: newEncoder_def)
qed

section \<open>Frames\<close>

definition frame_bytes :: "message \<Rightarrow> payloadEncoder \<Rightarrow> bytes" where
  "frame_bytes msg E =
     (let headerSize = word_of_nat (length (header_bytes msg E)) :: uint64
      in be_bytes 8 (unat (esize E + headerSize + 4)) @ be_bytes 4 (unat (ucast headerSize :: uint32)) @
         header_bytes msg E @ concat (map block_contents (eblocks E)))"

lemma frame_room:
  assumes "(sz :: uint64) \<le> word_of_nat maxUint64 - hs - 4" "unat hs \<le> 65536"
  shows "unat sz + unat hs + 4 < 2 ^ 64"
proof -
  let ?m = "word_of_nat maxUint64 :: uint64"
  have m: "unat ?m = 2 ^ 64 - 1" by (simp add: maxUint64_def unat64_of_nat)
  have 1: "hs \<le> ?m" using m unat_less64 [of hs] by (simp add: word_le_nat_alt)
  then have s1: "unat (?m - hs) = 2 ^ 64 - 1 - unat hs" by (simp only: unat_sub m)
  then have "4 \<le> ?m - hs" using assms(2) by (simp add: word_le_nat_alt)
  then have "unat (?m - hs - 4) = 2 ^ 64 - 1 - unat hs - 4" by (simp add: unat_sub s1)
  with assms show ?thesis by (simp add: word_le_nat_alt)
qed

text \<open>What a successful \<^const>\<open>writeMessage\<close> has checked and sent.\<close>

lemma writeMessage_sent:
  assumes "faithful_writer write sent" and "writeMessage write msg s = (None, s')"
    and "E = exec (e_details msg) (newEncoder 0)"
  shows "werr E = None" "length (eblocks E) \<le> maxBlocks"
    "length (Operation msg) \<le> 65536" "length (metadata (Payload msg)) \<le> 65536"
    "length (wdata E) \<le> 65536" "length (header_bytes msg E) \<le> 65536"
    "unat (esize E) + length (header_bytes msg E) + 4 < 2 ^ 64"
    "sent s' = sent s @ frame_bytes msg E"
proof -
  let ?H = "exec (w_header msg E) \<lparr>wdata = [], werr = None\<rparr>"
  let ?hs = "word_of_nat (length (wdata ?H)) :: uint64"
  let ?prefix = "be_bytes 8 (unat (esize E + ?hs + 4)) @ be_bytes 4 (unat (ucast ?hs :: uint32))"
  note wm = assms(2) [unfolded writeMessage_def Let_def assms(3) [symmetric]]
  from wm show w: "werr E = None" and n: "length (eblocks E) \<le> maxBlocks"
    by (auto split: if_splits)
  from wm have H: "werr ?H = None" by (auto split: if_splits)
  note h = w_header_ok [OF H]
  from h show "length (Operation msg) \<le> 65536" "length (metadata (Payload msg)) \<le> 65536"
    "length (wdata E) \<le> 65536" by simp_all
  have "length (header_bytes msg E) < 2 ^ 64"
    using h n by (simp add: header_bytes_def length_size_bytes maxBlocks_def)
  then have u: "unat ?hs = length (header_bytes msg E)" using h by (simp add: unat64_of_nat)
  from wm have "\<not> int (unat ?hs) > maxMetadataSize" by (auto split: if_splits)
  then show hs: "length (header_bytes msg E) \<le> 65536"
    unfolding u by (simp add: maxMetadataSize_def)
  from wm have "esize E \<le> word_of_nat maxUint64 - ?hs - 4" by (auto split: if_splits)
  then show "unat (esize E) + length (header_bytes msg E) + 4 < 2 ^ 64"
    using frame_room [of "esize E" ?hs] u hs by simp
  from wm obtain s1 s2 where "writeAll write ?prefix s = (None, s1)"
    "writeAll write (wdata ?H) s1 = (None, s2)" "writeBlocks write (eblocks E) s2 = (None, s')"
    by (auto split: if_splits prod.splits)
  then show "sent s' = sent s @ frame_bytes msg E"
    using writeAll_sent [OF assms(1)] writeBlocks_sent [OF assms(1)] h
    by (auto simp: frame_bytes_def Let_def)
qed

text \<open>A frame that is followed by anything is read back, and the rest is left on the stream.\<close>

lemma map_nth_fun: "map (\<lambda>i. f (xs ! i)) [0..<length xs] = map f xs"
  by (rule nth_equalityI) simp_all

lemma readBody_frame:
  assumes "unat bodySize = unat (esize E) + length (header_bytes msg E) + 4"
    and "unat headerSize = length (header_bytes msg E)"
    and lens: "length (Operation msg) \<le> 65536" "length (metadata (Payload msg)) \<le> 65536"
      "length (wdata E) \<le> 65536" "length (eblocks E) \<le> maxBlocks"
    and E: "E = exec (e_details msg) (newEncoder 0)" "werr E = None" "enc_inv E"
    and wf: "wf_error 32 (Error msg)" "\<forall>b \<in> set (eblocks E). int (block_size b) \<le> maxInt"
    and s: "pending s = concat (map block_contents (eblocks E)) @ rest"
  shows "\<exists>a. run_state (readBody bodySize headerSize (header_bytes msg E)) s =
    (Done \<lparr>ID = ID msg, Operation = Operation msg,
       Payload = \<lparr>metadata = metadata (Payload msg), pblocks = map received (eblocks E)\<rparr>,
       Error = remote_view 32 (Error msg), Observations = Observations msg\<rparr>,
     s\<lparr>pending := rest, allocated := a\<rparr>)"
proof -
  let ?bs = "eblocks E" and ?L = "Some (size_bytes (eblocks E))"
  let ?h = "\<lparr>h_ID = ID msg, h_Operation = Operation msg,
      h_metadata = (if metadata (Payload msg) = [] then None else Some (metadata (Payload msg))),
      h_tail = (if wdata E = [] then None else Some (wdata E)),
      h_count = word_of_nat (length ?bs), h_lengths = ?L\<rparr>"
  have count: "unat (word_of_nat (length ?bs) :: uint32) = length ?bs"
    using lens(4) by (simp add: maxBlocks_def unat32_of_nat)
  have "unat (bodySize - 4 - headerSize) = unat (esize E)"
  proof -
    have "4 \<le> bodySize" using assms(1) by (simp add: word_le_nat_alt)
    then have "unat (bodySize - 4) = unat bodySize - 4" by (simp add: unat_sub)
    moreover from this have "headerSize \<le> bodySize - 4" using assms(1,2) by (simp add: word_le_nat_alt)
    ultimately show ?thesis using assms(1,2) by (simp add: unat_sub)
  qed
  then have rem: "bodySize - 4 - headerSize = esize E" by (simp add: word_unat_eq_iff)
  have sum: "sum_list (map (\<lambda>i. block_size (?bs ! i)) [0..<length ?bs]) = unat (esize E)"
    using E(3) by (simp add: enc_inv_def map_nth_fun)
  have lenAt: "lengthAt ?L i = Some (word_of_nat (block_size (?bs ! i))) \<and>
      int (block_size (?bs ! i)) \<le> maxInt" if "i \<in> set [0..<length ?bs]" for i
    using that wf(2) by (simp add: lengthAt_size_bytes)
  have check: "checkLengths ?L [0..<length ?bs] (esize E) = Done 0"
    using checkLengths_ok [of "[0..<length ?bs]" ?L "\<lambda>i. block_size (?bs ! i)" "esize E"] lenAt sum
    by simp
  have contents: "length (block_contents b) = block_size b" if "b \<in> set ?bs" for b
    using E(3) that by (auto simp: enc_inv_def list_all_iff block_ok_def block_contents_def
        block_bytes_def block_size_def split: option.splits)
  obtain a where blocks: "run_state (readBlocks ?L [0..<length ?bs]) s =
      (Done (map (\<lambda>i. \<lparr>bdata = Some (block_contents (?bs ! i)), btext = []\<rparr>) [0..<length ?bs]),
       s\<lparr>pending := rest, allocated := a\<rparr>)"
    using readBlocks_ok [of "[0..<length ?bs]" ?L "\<lambda>i. block_contents (?bs ! i)" s rest] lenAt s
      contents by (auto simp: map_nth_fun)
  have recv: "map (\<lambda>i. \<lparr>bdata = Some (block_contents (?bs ! i)), btext = []\<rparr>) [0..<length ?bs] =
      map received ?bs"
    unfolding received_def [abs_def] block_contents_def by (rule map_nth_fun)
  have details: "readDetails ?h (map received ?bs) = Done \<lparr>ID = ID msg, Operation = Operation msg,
       Payload = \<lparr>metadata = metadata (Payload msg), pblocks = map received ?bs\<rparr>,
       Error = remote_view 32 (Error msg), Observations = Observations msg\<rparr>"
    using details_decoded(1) [OF wf(1) E(2,1)]
    by (auto simp: readDetails_def r_finish_def case_prod_unfold Let_def prod_eq_iff)
  show ?thesis
    using readHeader_header [OF lens] count rem check blocks recv details
    by (auto simp: readBody_def intro!: exI [of _ a])
qed

lemma readMessage_frame:
  assumes "length (header_bytes msg E) \<le> 65536"
    and total: "unat (esize E) + length (header_bytes msg E) + 4 < 2 ^ 64"
    and lens: "length (Operation msg) \<le> 65536" "length (metadata (Payload msg)) \<le> 65536"
      "length (wdata E) \<le> 65536" "length (eblocks E) \<le> maxBlocks"
    and E: "E = exec (e_details msg) (newEncoder 0)" "werr E = None" "enc_inv E"
    and wf: "wf_error 32 (Error msg)" "\<forall>b \<in> set (eblocks E). int (block_size b) \<le> maxInt"
    and s: "pending s = frame_bytes msg E @ rest"
  shows "\<exists>a. run_state readMessage s =
    (Done \<lparr>ID = ID msg, Operation = Operation msg,
       Payload = \<lparr>metadata = metadata (Payload msg), pblocks = map received (eblocks E)\<rparr>,
       Error = remote_view 32 (Error msg), Observations = Observations msg\<rparr>,
     s\<lparr>pending := rest, allocated := a\<rparr>)"
proof -
  let ?hs = "word_of_nat (length (header_bytes msg E)) :: uint64"
  let ?size = "esize E + ?hs + 4"
  have hs: "unat ?hs = length (header_bytes msg E)" using assms(1) by (simp add: unat64_of_nat)
  then have sz: "unat ?size = unat (esize E) + length (header_bytes msg E) + 4"
    using total by (simp add: unat_word_ariths)
  have narrow: "ucast (ucast ?hs :: uint32) = ?hs"
    using assms(1) hs by (simp add: word_unat_eq_iff unsigned_ucast_eq unsigned_take_bit_eq take_bit_nat_eq_self)
  have pos: "0 < length (header_bytes msg E)" by (simp add: header_bytes_def)
  then have nz: "?hs \<noteq> 0" using hs by (metis less_irrefl unat_0)
  have ge: "\<not> ?size < 4" using sz by (simp add: word_less_nat_alt)
  have room: "\<not> ?hs > ?size - 4"
  proof -
    have "4 \<le> ?size" using sz by (simp add: word_le_nat_alt)
    then have "unat (?size - 4) = unat ?size - 4" by (simp only: unat_sub) simp
    then show ?thesis using sz hs by (simp add: word_less_nat_alt)
  qed
  let ?p8 = "be_bytes 8 (unat ?size)" and ?p4 = "be_bytes 4 (unat (ucast ?hs :: uint32))"
  let ?H = "header_bytes msg E" and ?C = "concat (map block_contents (eblocks E))"
  have s': "pending s = ?p8 @ ?p4 @ ?H @ ?C @ rest" using s by (simp add: frame_bytes_def Let_def)
  have step: "run_state readMessage s = run_state (readBody ?size ?hs ?H) (s\<lparr>pending := ?C @ rest\<rparr>)"
  proof -
    have r8: "run_state (ReadFull 8) s = (Inr ?p8, s\<lparr>pending := ?p4 @ ?H @ ?C @ rest\<rparr>)"
      using s' by (simp add: ReadFull_def)
    have r4: "run_state (ReadFull 4) (s\<lparr>pending := ?p4 @ ?H @ ?C @ rest\<rparr>) =
        (Inr ?p4, s\<lparr>pending := ?H @ ?C @ rest\<rparr>)"
      by (simp add: ReadFull_def)
    have rh: "run_state (ReadFull (unat ?hs)) (s\<lparr>pending := ?H @ ?C @ rest\<rparr>) =
        (Inr ?H, s\<lparr>pending := ?C @ rest\<rparr>)"
      unfolding hs by (simp add: ReadFull_def)
    have max: "\<not> int (unat ?hs) > maxMetadataSize"
      using assms(1) unfolding hs by (simp add: maxMetadataSize_def)
    show ?thesis
      unfolding readMessage_def bind_run r8 fst_conv snd_conv sum.case Let_def be64_roundtrip
        if_not_P [OF ge] r4 be32_roundtrip narrow
      using nz max room rh by simp
  qed
  show ?thesis
    unfolding step
    using readBody_frame [OF sz hs lens E wf, of "s\<lparr>pending := ?C @ rest\<rparr>" rest] by simp
qed

section \<open>Arbitrary input\<close>

text \<open>A reading consumes a prefix of the stream and requests at most twice what it consumed, and
  \<open>extra\<close> bytes more.\<close>

definition reads :: "nat \<Rightarrow> stream \<Rightarrow> stream \<Rightarrow> bool" where
  "reads extra s s' \<longleftrightarrow> suffix (pending s') (pending s) \<and>
     allocated s' + 2 * length (pending s') \<le> allocated s + 2 * length (pending s) + extra"

lemma reads_refl: "reads extra s s"
  by (simp add: reads_def)

lemma reads_trans: "reads 0 s1 s2 \<Longrightarrow> reads n s2 s3 \<Longrightarrow> reads n s1 s3"
  by (auto simp: reads_def intro: suffix_order.trans)

lemma reads_mono: "reads 0 s s' \<Longrightarrow> reads n s s'"
  by (auto simp: reads_def)

lemma reads_ReadFull: "reads 0 s (exec (ReadFull n) s)"
  by (auto simp: reads_def ReadFull_def suffix_drop)

lemma reads_readBlock:
  obtains data s' where "run_state (readBlock len) s = (Inr data, s')" "reads 0 s s'"
  | err s' where "run_state (readBlock len) s = (Inl err, s')" "reads 32768 s s'"
proof (cases "int (unat len) \<le> maxInt")
  case False
  then have "run_state (readBlock len) s = (Inl (errorf ErrProtocol ''block length overflows int''), s)"
    by (simp add: readBlock_def)
  then show ?thesis using that(2) reads_refl by blast
next
  case small: True
  show ?thesis
  proof (cases "unat len \<le> length (pending s)")
    case True
    from readBlock_ok [OF small True] obtain a where "a \<le> allocated s + 2 * unat len"
      "run_state (readBlock len) s = (Inr (take (unat len) (pending s)),
         s\<lparr>pending := drop (unat len) (pending s), allocated := a\<rparr>)" by auto
    with True show ?thesis by (intro that(1)) (auto simp: reads_def suffix_drop)
  next
    case False
    with readBlock_short [of s len] small obtain err a where
      "a \<le> allocated s + 2 * length (pending s) + 32768"
      "run_state (readBlock len) s = (Inl err, s\<lparr>pending := [], allocated := a\<rparr>)" by auto
    then show ?thesis by (intro that(2)) (auto simp: reads_def)
  qed
qed

lemma reads_readBlocks:
  assumes "\<And>i. i \<in> set is \<Longrightarrow> lengthAt L i \<noteq> None"
  shows "fst (run_state (readBlocks L is) s) \<noteq> Panic \<and> reads 32768 s (exec (readBlocks L is) s)"
  using assms
proof (induction "is" arbitrary: s)
  case Nil
  show ?case by (simp add: reads_refl)
next
  case (Cons i "is")
  from Cons.prems [of i] obtain len where len: "lengthAt L i = Some len" by auto
  show ?case
  proof (rule reads_readBlock [of len s])
    fix data s1
    assume r: "run_state (readBlock len) s = (Inr data, s1)" "reads 0 s s1"
    from Cons have "fst (run_state (readBlocks L is) s1) \<noteq> Panic"
      "reads 32768 s1 (exec (readBlocks L is) s1)" by auto
    with len r reads_trans [OF r(2)] show ?thesis by (auto split: outcome.split)
  next
    fix err s1
    assume "run_state (readBlock len) s = (Inl err, s1)" "reads 32768 s s1"
    with len show ?thesis by simp
  qed
qed

lemma readHeader_lengths:
  assumes "fst (run_state readHeader d) = Inr h"
  shows "slice_len (h_lengths h) = unat (h_count h) * 8"
  using assms
  by (auto simp: readHeader_def r_take_def r_finish_def r_fail_def min_def
      split: if_splits option.splits)

lemma checkLengths_no_panic:
  "(\<And>i. i \<in> set is \<Longrightarrow> lengthAt L i \<noteq> None) \<Longrightarrow> checkLengths L is remaining \<noteq> Panic"
  by (induction "is" arbitrary: remaining) (auto split: option.split)

lemma reads_readBody:
  "fst (run_state (readBody bodySize headerSize header) s) \<noteq> Panic \<and>
     reads 32768 s (exec (readBody bodySize headerSize header) s)"
proof (cases "fst (run_state readHeader \<lparr>rdata = header, rerr = None\<rparr>)")
  case (Inl err)
  then show ?thesis by (simp add: readBody_def reads_refl)
next
  case (Inr h)
  let ?is = "[0..<unat (h_count h)]"
  have at: "lengthAt (h_lengths h) i \<noteq> None" if "i \<in> set ?is" for i
    using readHeader_lengths [OF Inr] that by (simp add: lengthAt_def)
  have details: "readDetails h blocks \<noteq> Panic" for blocks
    by (auto simp: readDetails_def split: prod.split option.split)
  from checkLengths_no_panic [of ?is, OF at] reads_readBlocks [of ?is "h_lengths h" s, OF at] details Inr
  show ?thesis
    by (auto simp: readBody_def reads_refl split: outcome.split)
qed

lemma readMessage_reads:
  "fst (run_state readMessage s) \<noteq> Panic \<and>
   suffix (pending (exec readMessage s)) (pending s) \<and>
   allocated (exec readMessage s) \<le> allocated s + 2 * length (pending s) + 32768"
proof -
  let ?s1 = "exec (ReadFull 8) s" let ?s2 = "exec (ReadFull 4) ?s1"
  have 1: "reads 0 s ?s1" by (rule reads_ReadFull)
  have 2: "reads 0 s ?s2" by (rule reads_trans [OF 1 reads_ReadFull])
  have 3: "reads 0 s (exec (ReadFull n) ?s2)" for n by (rule reads_trans [OF 2 reads_ReadFull])
  have 4: "reads 32768 s (exec (readBody b h x) (exec (ReadFull n) ?s2))" for n b h x
    by (rule reads_trans [OF 3]) (rule reads_readBody [THEN conjunct2])
  have "fst (run_state readMessage s) \<noteq> Panic \<and> reads 32768 s (exec readMessage s)"
    using 1 [THEN reads_mono] 2 [THEN reads_mono] 3 [THEN reads_mono] 4 reads_readBody
    by (simp add: readMessage_def Let_def split: sum.split)
  then show ?thesis by (auto simp: reads_def)
qed


lemma frame_read_back:
  assumes "faithful_writer write sent" and "writeMessage write msg s = (None, s')"
    and "list_all block_ok (pblocks (Payload msg))" and "wf_error 32 (Error msg)"
    and "\<forall>b \<in> set (eblocks (exec (e_details msg) (newEncoder 0))). int (block_size b) \<le> maxInt"
  shows "\<exists>frame extra. sent s' = sent s @ frame \<and> (Error msg = None \<longrightarrow> extra = []) \<and>
    (\<forall>rest eof a. \<exists>a'. run_state readMessage \<lparr>pending = frame @ rest, ended = eof, allocated = a\<rparr> =
      (Done \<lparr>ID = ID msg, Operation = Operation msg,
         Payload = \<lparr>metadata = metadata (Payload msg),
                    pblocks = map received (pblocks (Payload msg)) @ extra\<rparr>,
         Error = remote_view 32 (Error msg), Observations = Observations msg\<rparr>,
       \<lparr>pending = rest, ended = eof, allocated = a'\<rparr>))"
proof -
  define E where "E = exec (e_details msg) (newEncoder 0)"
  note sent = writeMessage_sent [OF assms(1,2) E_def]
  have inv: "enc_inv E"
    unfolding E_def by (rule keepsD [OF keeps_details [OF assms(3)] enc_inv_new])
  from details_decoded(2) [OF assms(4) sent(1) E_def]
  obtain more where more: "eblocks E = pblocks (Payload msg) @ more" by (auto simp: prefix_def)
  have none: "Error msg = None \<longrightarrow> map received more = []"
    using no_error_no_blocks [OF sent(1) E_def] more by simp
  have c: "\<exists>a'. run_state readMessage \<lparr>pending = frame_bytes msg E @ rest, ended = eof, allocated = a\<rparr> =
      (Done \<lparr>ID = ID msg, Operation = Operation msg,
         Payload = \<lparr>metadata = metadata (Payload msg),
                    pblocks = map received (pblocks (Payload msg)) @ map received more\<rparr>,
         Error = remote_view 32 (Error msg), Observations = Observations msg\<rparr>,
       \<lparr>pending = rest, ended = eof, allocated = a'\<rparr>)" for rest eof a
    using readMessage_frame [OF sent(6,7,3,4,5,2) E_def sent(1) inv assms(4) assms(5) [folded E_def],
        of "\<lparr>pending = frame_bytes msg E @ rest, ended = eof, allocated = a\<rparr>" rest]
    unfolding more map_append by simp
  show ?thesis
    by (intro exI [of _ "frame_bytes msg E"] exI [of _ "map received more"] conjI allI sent(8) none c)
qed

text \<open>
  C3: A frame written on one side of the pipe is the message read on the other side. When
  \<^verbatim>\<open>writeMessage\<close> returns no error on a faithful writer, however it splits the
  writes, the bytes it has sent are one frame: the reader gets from them, whatever follows on
  the stream, the same identifier, operation, payload metadata and observations, the
  contents of every payload block, and the error as the remote view of the error sent; it
  leaves exactly the bytes that followed. Blocks after the payload's own occur only with an
  error, whose texts they carry.
\<close>

theorem frame_roundtrip:
  assumes "faithful_writer write sent" and "writeMessage write msg s = (None, s')"
    and "list_all block_ok (pblocks (Payload msg))" and "wf_error 32 (Error msg)"
    and "\<forall>b \<in> set (eblocks (exec (e_details msg) (newEncoder 0))). int (block_size b) \<le> maxInt"
  shows "\<exists>frame extra. sent s' = sent s @ frame \<and> (Error msg = None \<longrightarrow> extra = []) \<and>
    (\<forall>rest eof a. \<exists>a'. run_state readMessage \<lparr>pending = frame @ rest, ended = eof, allocated = a\<rparr> =
      (Done \<lparr>ID = ID msg, Operation = Operation msg,
         Payload = \<lparr>metadata = metadata (Payload msg),
                    pblocks = map received (pblocks (Payload msg)) @ extra\<rparr>,
         Error = remote_view 32 (Error msg), Observations = Observations msg\<rparr>,
       \<lparr>pending = rest, ended = eof, allocated = a'\<rparr>))"
  using assms by (rule frame_read_back)

text \<open>A pipe that accepts at most five bytes per write, and a Close request.\<close>

definition trickle :: "bytes writer" where
  "trickle data s = ((int (min 5 (length data)), None), s @ take 5 data)"

lemma faithful_trickle: "faithful_writer trickle (\<lambda>s. s)"
  by (auto simp: faithful_writer_def trickle_def min_def)

lemma writeAll_trickle: "writeAll trickle data s = (None, s @ data)"
proof (induction data arbitrary: s rule: length_induct)
  case (1 data)
  show ?case
  proof (cases "data = []")
    case True
    then show ?thesis by (simp add: writeAll.simps)
  next
    case False
    then have "writeAll trickle data s = writeAll trickle (drop (min 5 (length data)) data) (s @ take 5 data)"
      by (subst writeAll.simps) (auto simp: trickle_def min_def)
    also have "\<dots> = (None, s @ take 5 data @ drop (min 5 (length data)) data)"
      using False 1 by (simp add: min_def)
    finally show ?thesis by (simp add: min_def)
  qed
qed

definition close_message :: "uint64 \<Rightarrow> message" where
  "close_message i = \<lparr>ID = i, Operation = opClose, Payload = nullPayload, Error = None,
     Observations = None\<rparr>"

definition close_request :: message where
  "close_request = close_message 7"

lemma close_details: "exec (e_details (close_message i)) (newEncoder 0) =
    (newEncoder 0)\<lparr>wdata := [CHR 0x00] @ be_bytes 4 0\<rparr>"
  by (simp add: e_details_def close_message_def nullPayload_def encodeError_def encode_None
      e_observations_def e_list_def w_length_def wire_run)

lemma close_header: "exec (w_header (close_message i) ((newEncoder 0)\<lparr>wdata := [CHR 0x00] @ be_bytes 4 0\<rparr>))
    \<lparr>wdata = [], werr = None\<rparr> = \<lparr>wdata = be_bytes 8 (unat i) @ be_bytes 4 5 @ ''Close'' @ be_bytes 4 0 @
      be_bytes 4 5 @ [CHR 0x00] @ be_bytes 4 0 @ be_bytes 4 0, werr = None\<rparr>"
  by (simp add: w_header_def close_message_def opClose_def nullPayload_def w_text_raw writer_defs
      maxMetadataSize_def newEncoder_def)

lemma close_sent: "\<exists>s'. writeMessage trickle (close_message i) [] = (None, s')"
proof -
  have "\<not> 0 > word_of_nat maxUint64 - (34 :: uint64) - 4"
    by (simp add: maxUint64_def)
  then show ?thesis
    unfolding writeMessage_def close_details Let_def close_header writeAll_trickle
    by (simp add: close_message_def nullPayload_def newEncoder_def maxMetadataSize_def maxBlocks_def)
qed

text \<open>A Close request alone on a stream.\<close>

lemma close_read:
  "\<exists>frame. \<forall>eof a. \<exists>a'. run_state readMessage \<lparr>pending = frame, ended = eof, allocated = a\<rparr> =
     (Done (close_message i), \<lparr>pending = [], ended = eof, allocated = a'\<rparr>)"
proof -
  from close_sent obtain s' where s': "writeMessage trickle (close_message i) [] = (None, s')" ..
  have "\<forall>b \<in> set (eblocks (exec (e_details (close_message i)) (newEncoder 0))). int (block_size b) \<le> maxInt"
    unfolding close_details by (simp add: newEncoder_def)
  from frame_read_back [OF faithful_trickle s' _ _ this]
  obtain frame extra where f: "s' = frame" "extra = []"
    "\<forall>rest eof a. \<exists>a'. run_state readMessage \<lparr>pending = frame @ rest, ended = eof, allocated = a\<rparr> =
      (Done ((close_message i)\<lparr>Payload := \<lparr>metadata = [], pblocks = extra\<rparr>\<rparr>),
       \<lparr>pending = rest, ended = eof, allocated = a'\<rparr>)"
    by (auto simp: close_message_def nullPayload_def wf_error_None)
  show ?thesis
    using f(3) [THEN spec, of "[]"] f(2) by (auto simp: close_message_def nullPayload_def)
qed

theorem frame_roundtrip_witness:
  "\<exists>frame. writeMessage trickle close_request [] = (None, frame) \<and>
    (\<exists>a. run_state readMessage \<lparr>pending = frame, ended = Sentinel IoEOF, allocated = 0\<rparr> =
      (Done close_request, \<lparr>pending = [], ended = Sentinel IoEOF, allocated = a\<rparr>))"
proof -
  from close_sent [of 7] obtain s' where s': "writeMessage trickle close_request [] = (None, s')"
    unfolding close_request_def ..
  have "\<forall>b \<in> set (eblocks (exec (e_details close_request) (newEncoder 0))). int (block_size b) \<le> maxInt"
    unfolding close_request_def close_details by (simp add: newEncoder_def)
  from frame_roundtrip [OF faithful_trickle s' _ _ this]
  obtain frame extra where f: "s' = frame" "extra = []"
    "\<forall>rest eof a. \<exists>a'. run_state readMessage \<lparr>pending = frame @ rest, ended = eof, allocated = a\<rparr> =
      (Done (close_request\<lparr>Payload := \<lparr>metadata = [], pblocks = extra\<rparr>\<rparr>),
       \<lparr>pending = rest, ended = eof, allocated = a'\<rparr>)"
    by (auto simp: close_request_def close_message_def nullPayload_def wf_error_None)
  from f(3) [THEN spec, of "[]", THEN spec, of "Sentinel IoEOF", THEN spec, of 0] s' f(1,2)
  show ?thesis by (auto simp: close_request_def close_message_def nullPayload_def)
qed

lemma oversized_unsent:
  assumes "writeMessage write msg s = (Some err, s')" and "errors_is err ErrMetadataTooLarge"
    and "\<And>data t n t' e. write data t = ((n, Some e), t') \<Longrightarrow> \<not> errors_is e ErrMetadataTooLarge"
  shows "s' = s"
proof -
  have all: "\<not> errors_is e ErrMetadataTooLarge" if "writeAll write data t = (Some e, t')" for data t e t'
    using writeAll_error [OF that] assms(3) by auto
  have tx: "\<not> errors_is e ErrMetadataTooLarge" if "writeText write n data t = (Some e, t')" for data t e t' n
    using that
  proof (induction data arbitrary: t rule: length_induct)
    case (1 data)
    let ?n = "min n (length data)"
    obtain r t1 where wr: "writeAll write (take ?n data) t = (r, t1)" by (metis surj_pair)
    from 1(2) have "data \<noteq> [] \<and> n \<noteq> 0" by (auto simp: writeText.simps split: if_splits)
    moreover from this have "length (drop ?n data) < length data" by (simp add: min_def)
    ultimately show ?case
      using 1 wr all by (cases r) (auto simp: writeText.simps [of "write" n data t] Let_def)
  qed
  have blocks: "\<not> errors_is e ErrMetadataTooLarge" if "writeBlocks write bs t = (Some e, t')" for bs t e t'
    using that all tx
    by (induction bs arbitrary: t) (auto simp: Let_def split: prod.splits if_splits)
  show ?thesis
    using assms(1,2) all blocks
    unfolding writeMessage_def Let_def by (auto split: if_splits prod.splits)
qed

text \<open>
  A message that does not fit the protocol bounds leaves the pipe untouched. When
  \<^verbatim>\<open>writeMessage\<close> reports \<^verbatim>\<open>errMetadataTooLarge\<close> and the writer's own
  errors are not that sentinel, not a single write has happened: the worker may send a
  replacement response on the same pipe, and the parent may reuse the request identifier.
\<close>

theorem oversized_frame_unsent:
  assumes "writeMessage write msg s = (Some err, s')" and "errors_is err ErrMetadataTooLarge"
    and "\<And>data t n t' e. write data t = ((n, Some e), t') \<Longrightarrow> \<not> errors_is e ErrMetadataTooLarge"
  shows "s' = s"
  using assms by (rule oversized_unsent)

definition oversized :: message where
  "oversized = close_request\<lparr>Payload := \<lparr>metadata = replicate 65537 (CHR 0x00), pblocks = []\<rparr>\<rparr>"

theorem oversized_frame_unsent_witness:
  "\<exists>s'. writeMessage trickle oversized ''sent'' = (Some errMetadataTooLarge, s') \<and> s' = ''sent''"
proof -
  obtain s' where s': "writeMessage trickle oversized ''sent'' = (Some errMetadataTooLarge, s')"
    by (simp add: writeMessage_def oversized_def close_request_def close_message_def maxMetadataSize_def)
  have "s' = ''sent''"
    by (rule oversized_frame_unsent [OF s']) (simp_all add: errMetadataTooLarge_def trickle_def)
  with s' show ?thesis by blast
qed

end
