(* ===== verification/Frame_Errors.thy ===== *)
theory Frame_Errors
  imports Frame_Transport
begin

text \<open>
  The errors of the frame reader. Every decoder of the protocol rejects its input with an
  error built on \<^verbatim>\<open>ErrProtocol\<close> alone; only a stream that ends between two frames is
  reported as \<^verbatim>\<open>io.EOF\<close>. The worker and the parent tell an orderly end of the pipe
  from a broken peer by this difference.
\<close>

named_theorems strict_intros \<open>decoders that fail with protocol errors only\<close>

definition strict_error :: "gerror option \<Rightarrow> bool" where
  "strict_error err \<longleftrightarrow> (\<forall>e. err = Some e \<longrightarrow> (\<exists>m. e = errorf ErrProtocol m))"

definition strict :: "('a metadataReader_scheme, 'b) state \<Rightarrow> bool" where
  "strict m \<longleftrightarrow> (\<forall>d. strict_error (rerr d) \<longrightarrow> strict_error (rerr (exec m d)))"

lemma strict_ret [strict_intros]: "strict (ret x)"
  by (simp add: strict_def)

lemma strict_fail [strict_intros]: "strict (r_fail (errorf ErrProtocol m))"
  by (auto simp: strict_def strict_error_def r_fail_def)

lemma strict_bind [strict_intros]: "strict m \<Longrightarrow> (\<And>x. strict (f x)) \<Longrightarrow> strict (State_Monad.bind m f)"
  by (simp add: strict_def bind_run)

lemma strict_get [strict_intros]: "(\<And>d. strict (f d)) \<Longrightarrow> strict (State_Monad.bind State_Monad.get f)"
  by (simp add: strict_def)

lemma strict_if [strict_intros]: "strict a \<Longrightarrow> strict b \<Longrightarrow> strict (if c then a else b)"
  by simp

lemma strict_option [strict_intros]:
  "strict a \<Longrightarrow> (\<And>x. strict (f x)) \<Longrightarrow> strict (case v of None \<Rightarrow> a | Some x \<Rightarrow> f x)"
  by (cases v) simp_all

lemma strict_malformed [strict_intros]: "strict (r_fail malformedResult)"
  unfolding malformedResult_def by (rule strict_fail)

lemma strict_take [strict_intros]: "strict (r_take n)"
  by (auto simp: strict_def r_take_def r_fail_def strict_error_def)

lemma strict_readers [strict_intros]:
  "strict r_uint32" "strict r_uint64" "strict r_int64" "strict r_integer" "strict r_boolean"
  unfolding r_uint32_def r_uint64_def r_int64_def r_integer_def r_boolean_def
  by (intro strict_intros)+

lemma strict_blocks [strict_intros]: "strict r_raw" "strict r_text" "strict (r_length n)" "strict d_bytes" "strict d_text"
  unfolding r_raw_def r_text_def r_length_def d_bytes_def d_text_def Let_def
  by (intro strict_intros)+

lemma strict_counted [strict_intros]: "strict m \<Longrightarrow> strict (counted n m)"
  by (induction n) (simp_all, (intro strict_intros)+)

lemma strict_list [strict_intros]: "strict m \<Longrightarrow> strict (d_list n m)"
  unfolding d_list_def by (intro strict_intros)

lemma strict_timestamp [strict_intros]: "strict d_timestamp"
  unfolding d_timestamp_def by (intro strict_intros)

lemma strict_observations [strict_intros]: "strict d_observations"
  unfolding d_observations_def d_observation_def by (intro strict_intros)

lemma strict_concrete [strict_intros]: "strict d_concrete"
  unfolding d_concrete_def by (intro strict_intros)

lemma strict_decodeError [strict_intros]: "strict (decodeError_level k)"
proof (induction k)
  case 0
  show ?case unfolding decodeError_level.simps by (intro strict_intros)
next
  case (Suc k)
  show ?case unfolding decodeError_level.simps by (intro strict_intros Suc)
qed

section \<open>readMessage\<close>

text \<open>What an error of the reader can match: the protocol's sentinel, an end of the stream, or
  what the stream's own error matches.\<close>

definition reader_error :: "stream \<Rightarrow> gerror \<Rightarrow> bool" where
  "reader_error s e \<longleftrightarrow> errors_is e ErrProtocol \<and>
     (\<forall>k. errors_is e k \<longrightarrow> k \<in> {ErrProtocol, IoErrUnexpectedEOF} \<or> errors_is (ended s) k)"

lemma reader_error_errorf [simp]: "reader_error s (errorf ErrProtocol m)"
  by (simp add: reader_error_def)

lemma strict_reader_error: "strict_error (Some e) \<Longrightarrow> reader_error s e"
  by (auto simp: strict_error_def)

text \<open>Readings that leave the stream's end alone and fail with \<open>err\<close>.\<close>

definition stream_error :: "stream \<Rightarrow> gerror \<Rightarrow> bool" where
  "stream_error s e \<longleftrightarrow> e = Sentinel IoErrUnexpectedEOF \<or> e = ended s"

lemma reader_error_protocol: "stream_error s e \<Longrightarrow> reader_error s (protocolError what e)"
  by (auto simp: stream_error_def reader_error_def protocolError_def)

lemma ReadFull_error:
  "ended (exec (ReadFull n) s) = ended s"
  "fst (run_state (ReadFull n) s) = Inl e \<Longrightarrow> stream_error s e"
  "fst (run_state (ReadFull n) s) = Inl (Sentinel IoEOF) \<Longrightarrow> pending s = []"
  by (auto simp: ReadFull_def stream_error_def split: if_splits)

lemma stream_error_end: "ended s' = ended s \<Longrightarrow> stream_error s' = stream_error s"
  by (simp add: stream_error_def fun_eq_iff)

lemma reader_error_end: "ended s' = ended s \<Longrightarrow> reader_error s' = reader_error s"
  by (simp add: reader_error_def fun_eq_iff)

lemma readChunks_error:
  "ended (exec (readChunks r c cs) s) = ended s \<and>
   (\<forall>e. fst (run_state (readChunks r c cs) s) = Inl e \<longrightarrow> stream_error s e)"
proof (induction r c cs arbitrary: s rule: readChunks.induct)
  case (1 r c cs)
  let ?s = "s\<lparr>allocated := allocated s + min r c\<rparr>"
  obtain x s1 where x: "run_state (ReadFull (min r c)) ?s = (x, s1)" by fastforce
  then have s1: "ended s1 = ended s" using ReadFull_error(1) [of "min r c" ?s] by simp
  show ?case
  proof (cases "r = 0 \<or> c = 0")
    case True
    then show ?thesis by (simp add: readChunks.simps)
  next
    case False
    show ?thesis
    proof (cases x)
      case (Inl err)
      then have "stream_error s err"
        using ReadFull_error(2) [of "min r c" ?s err] x stream_error_end [of ?s s] by simp
      then show ?thesis
        using False x Inl s1 by (subst (1 2) readChunks.simps) (auto simp: stream_error_def)
    next
      case (Inr chunk)
      then show ?thesis
        using False x s1 1 [OF False, of chunk s1] stream_error_end [OF s1]
        by (subst (1 2) readChunks.simps) auto
    qed
  qed
qed

lemma readBlock_error:
  "ended (exec (readBlock n) s) = ended s \<and>
   (\<forall>e. fst (run_state (readBlock n) s) = Inl e \<longrightarrow> stream_error s e \<or> e = errorf ErrProtocol ''block length overflows int'')"
  using readChunks_error [of "unat n" 32768 "[]" s]
  by (auto simp: readBlock_def split: sum.splits)

lemma readBlocks_error:
  "ended (exec (readBlocks L is) s) = ended s \<and>
   (\<forall>e. fst (run_state (readBlocks L is) s) = Fail e \<longrightarrow> reader_error s e)"
proof (induction "is" arbitrary: s)
  case (Cons i "is")
  have p: "reader_error s (protocolError w (errorf ErrProtocol m))" for w m
    by (auto simp: reader_error_def protocolError_def)
  show ?case
  proof (cases "lengthAt L i")
    case (Some len)
    obtain x s1 where x: "run_state (readBlock len) s = (x, s1)" by fastforce
    with readBlock_error [of len s] have s1: "ended s1 = ended s"
      and e: "\<And>e. x = Inl e \<Longrightarrow> reader_error s (protocolError ''truncated binary block'' e)"
      by (auto simp: p reader_error_protocol)
    show ?thesis
      using Some x s1 e Cons.IH [of s1] reader_error_end [OF s1]
      by (cases x) (auto split: outcome.splits)
  qed simp
qed simp

lemma readHeader_error:
  "fst (run_state readHeader \<lparr>rdata = h, rerr = None\<rparr>) = Inl e \<Longrightarrow> strict_error (Some e)"
proof -
  assume f: "fst (run_state readHeader \<lparr>rdata = h, rerr = None\<rparr>) = Inl e"
  have keep: "strict_error (rerr d) \<Longrightarrow> strict m \<Longrightarrow> strict_error (rerr (exec m d))"
    for d :: metadataReader and m :: "(metadataReader, 'x) state" by (simp add: strict_def)
  let ?d = "\<lparr>rdata = h, rerr = None\<rparr> :: metadataReader"
  let ?d1 = "exec r_uint64 ?d" let ?d2 = "exec r_text ?d1" let ?d3 = "exec r_raw ?d2"
  let ?d4 = "exec r_raw ?d3" let ?d5 = "exec r_uint32 ?d4"
  have "strict_error (rerr ?d5)"
    by (intro keep strict_intros) (simp add: strict_error_def)
  then have "strict_error (rerr (exec (r_take n) ?d5))" for n by (rule keep) (rule strict_intros)
  then show ?thesis
    using f by (auto simp: readHeader_def r_finish_def strict_error_def split: if_splits)
qed

lemma readDetails_error: "readDetails h bs = Fail e \<Longrightarrow> strict_error (Some e)"
proof -
  assume f: "readDetails h bs = Fail e"
  let ?d = "\<lparr>rdata = str_of (h_tail h), rerr = None, dblocks = bs\<rparr>"
  have "strict (State_Monad.bind (decodeError 0) (\<lambda>_. d_observations))"
    unfolding decodeError_def by (intro strict_intros)
  then have "strict_error (rerr (exec (State_Monad.bind (decodeError 0) (\<lambda>_. d_observations)) ?d))"
    unfolding strict_def by (elim allE [of _ ?d]) (simp add: strict_error_def)
  then show ?thesis
    using f by (auto simp: readDetails_def r_finish_def Let_def prod.case_eq_if strict_error_def
        bind_run split: if_splits)
qed

lemma checkLengths_error: "checkLengths L is r = Fail e \<Longrightarrow> strict_error (Some e)"
  by (induction "is" arbitrary: r) (auto simp: strict_error_def split: option.splits if_splits)

lemma readBody_error:
  "ended (exec (readBody b h x) s) = ended s \<and>
   (\<forall>e. fst (run_state (readBody b h x) s) = Fail e \<longrightarrow> reader_error s e)"
  using readBlocks_error checkLengths_error readDetails_error readHeader_error
  by (auto simp: readBody_def strict_reader_error split: sum.split outcome.splits)

lemma readMessage_error:
  "ended (exec readMessage s) = ended s"
  "fst (run_state readMessage s) = Fail e \<Longrightarrow>
     (e = Sentinel IoEOF \<and> pending s = [] \<and> ended s = Sentinel IoEOF) \<or> reader_error s e"
proof -
  let ?s1 = "exec (ReadFull 8) s" let ?s2 = "exec (ReadFull 4) ?s1"
  have s1: "ended ?s1 = ended s" and s2: "ended ?s2 = ended s" by (simp_all add: ReadFull_error)
  have s3: "ended (exec (ReadFull n) ?s2) = ended s" for n by (simp add: ReadFull_error)
  have e8: "stream_error s e" if "fst (run_state (ReadFull 8) s) = Inl e" for e
    using that by (rule ReadFull_error)
  have eof: "pending s = [] \<and> ended s = Sentinel IoEOF" if "fst (run_state (ReadFull 8) s) = Inl (Sentinel IoEOF)"
    using that ReadFull_error(3) [OF that] by (simp add: ReadFull_def)
  have e4: "stream_error s e" if "fst (run_state (ReadFull 4) ?s1) = Inl e" for e
    using ReadFull_error(2) [OF that] stream_error_end [OF s1] by simp
  have eh: "stream_error s e" if "fst (run_state (ReadFull n) ?s2) = Inl e" for e n
    using ReadFull_error(2) [OF that] stream_error_end [OF s2] by simp
  have eb: "ended (exec (readBody b h x) (exec (ReadFull n) ?s2)) = ended s" for b h x n
    using readBody_error [of b h x] s3 by simp
  have eb': "reader_error s e" if "fst (run_state (readBody b h x) (exec (ReadFull n) ?s2)) = Fail e" for b h x n e
    using readBody_error [of b h x] that reader_error_end [OF s3] by metis
  show "ended (exec readMessage s) = ended s"
    by (simp add: readMessage_def Let_def s1 s2 s3 eb split: sum.split)
  show "fst (run_state readMessage s) = Fail e \<Longrightarrow>
     (e = Sentinel IoEOF \<and> pending s = [] \<and> ended s = Sentinel IoEOF) \<or> reader_error s e"
    by (auto simp: readMessage_def Let_def reader_error_protocol e8 e4 eh eof
        dest: eb' split: sum.splits if_splits)
qed



end
