(* ===== verification/Transition_System.thy ===== *)
theory Transition_System
  imports Main
begin

text \<open>
  State machines: the states a step relation reaches from its initial states, and the
  principle that a property which holds initially and is kept by every step holds in all of
  them. The components that keep state across calls interpret the locale with their own
  initial states, step relation and invariant.
\<close>

inductive reachable :: "('s \<Rightarrow> bool) \<Rightarrow> ('s \<Rightarrow> 's \<Rightarrow> bool) \<Rightarrow> 's \<Rightarrow> bool" for init step where
  start: "init s \<Longrightarrow> reachable init step s"
| step: "reachable init step s \<Longrightarrow> step s s' \<Longrightarrow> reachable init step s'"

inductive steps :: "('s \<Rightarrow> 's \<Rightarrow> bool) \<Rightarrow> 's \<Rightarrow> 's \<Rightarrow> bool" for step where
  none: "steps step s s"
| more: "steps step s s' \<Longrightarrow> step s' s'' \<Longrightarrow> steps step s s''"

lemma reachable_steps: "steps step s s' \<Longrightarrow> reachable init step s \<Longrightarrow> reachable init step s'"
  by (induction rule: steps.induct) (auto intro: reachable.step)

locale state_machine =
  fixes init :: "'s \<Rightarrow> bool" and step :: "'s \<Rightarrow> 's \<Rightarrow> bool" and inv :: "'s \<Rightarrow> bool"
  assumes initial: "init s \<Longrightarrow> inv s"
    and preserved: "inv s \<Longrightarrow> step s s' \<Longrightarrow> inv s'"
begin

theorem invariant: "reachable init step s \<Longrightarrow> inv s"
  by (induction rule: reachable.induct) (auto intro: initial preserved)

text \<open>A property that steps from invariant states keep is kept for ever.\<close>

theorem stable:
  assumes keep: "\<And>s s'. inv s \<Longrightarrow> P s \<Longrightarrow> step s s' \<Longrightarrow> P s'"
    and "reachable init step s" "P s" "steps step s s'"
  shows "P s'"
  using assms(4,2,3)
proof (induction rule: steps.induct)
  case (more s s' s'')
  have "inv s'" by (rule invariant) (rule reachable_steps [OF more.hyps(1) more.prems(1)])
  then show ?case by (rule keep) (use more in \<open>simp_all\<close>)
qed

end

end
