(* ===== verification/Isolated_Worker.thy ===== *)
theory Isolated_Worker
  imports Frame_Errors Transition_System
begin

text \<open>
  The worker process (\<^verbatim>\<open>isolated/worker.go\<close>): one request executed against the SDK
  session (\<open>execute\<close>), the response with its fallback (\<open>writeResponse\<close>) and the event loop
  of \<^verbatim>\<open>serve\<close> with its reader, executor and writer goroutines as a step relation. The
  session factory is a parameter, as in the source. The lemmas show that the loop executes
  the requests one at a time in the order of their identifiers, that it never executes while
  a response is being written, and that the session it drives is opened once, used, and
  closed at most once.
\<close>

section \<open>The session and the collector of observations\<close>

datatype sdkCall = Opened libraryConfig bool | Called gostring request | Closed

text \<open>
  What the worker process holds besides the loop's variables: the state of the SDK, the slice
  of the collector of observations, and the log of calls into the session.
\<close>

record 'w workerHost =
  sdk :: 'w
  collected :: "OperationObservation list option"
  calls :: "sdkCall list"

text \<open>
  \<^verbatim>\<open>workerFactory\<close> and \<^verbatim>\<open>workerSession\<close>: each operation returns its results, the
  observations it passed to its observer and the next state of the SDK. The second argument
  of the factory tells whether an observer is set.
\<close>

record ('c, 'w) workerLibrary =
  factory :: "libraryConfig \<Rightarrow> bool \<Rightarrow> 'w \<Rightarrow> ('c option \<times> gerror option) \<times> OperationObservation list \<times> 'w"
  call_method :: "'c \<Rightarrow> gostring \<Rightarrow> request \<Rightarrow> 'w \<Rightarrow> (gerror + result) \<times> OperationObservation list \<times> 'w"
  closeSession :: "'c \<Rightarrow> 'w \<Rightarrow> gerror option \<times> OperationObservation list \<times> 'w"

definition append_observation :: "OperationObservation \<Rightarrow> 'w workerHost \<Rightarrow> 'w workerHost" where
  "append_observation v h =
     h\<lparr>collected := Some ((case collected h of None \<Rightarrow> [] | Some vs \<Rightarrow> vs) @ [v])\<rparr>"

definition take_observations :: "'w workerHost \<Rightarrow> OperationObservation list option \<times> 'w workerHost" where
  "take_observations h = (collected h, h\<lparr>collected := None\<rparr>)"

text \<open>The three calls into the session, with their log entry and their observations.\<close>

definition after_call :: "sdkCall \<Rightarrow> OperationObservation list \<Rightarrow> 'w \<Rightarrow> 'w workerHost \<Rightarrow> 'w workerHost" where
  "after_call c obs w h = fold append_observation obs (h\<lparr>sdk := w, calls := calls h @ [c]\<rparr>)"

definition callFactory ::
  "('c, 'w) workerLibrary \<Rightarrow> libraryConfig \<Rightarrow> bool \<Rightarrow> 'w workerHost \<Rightarrow>
     ('c option \<times> gerror option) \<times> 'w workerHost" where
  "callFactory lib cfg observer h =
     (let (r, obs, w) = factory lib cfg observer (sdk h) in (r, after_call (Opened cfg observer) obs w h))"

definition callMethod :: "('c, 'w) workerLibrary \<Rightarrow> 'c \<Rightarrow> 'w workerHost sdkClient" where
  "callMethod lib c op req h =
     (let (r, obs, w) = call_method lib c op req (sdk h) in (r, after_call (Called op req) obs w h))"

definition callClose ::
  "('c, 'w) workerLibrary \<Rightarrow> 'c \<Rightarrow> 'w workerHost \<Rightarrow> gerror option \<times> 'w workerHost" where
  "callClose lib c h = (let (r, obs, w) = closeSession lib c (sdk h) in (r, after_call Closed obs w h))"

section \<open>execute\<close>

record 'c operationResult =
  or_message :: message
  or_client :: "'c option"
  or_quit :: bool

definition is_protocol :: "gerror option \<Rightarrow> bool" where
  "is_protocol err \<longleftrightarrow> (case err of None \<Rightarrow> False | Some e \<Rightarrow> errors_is e ErrProtocol)"

definition executeOpen ::
  "('c, 'w) workerLibrary \<Rightarrow> wirePayload \<Rightarrow> 'c option \<Rightarrow> 'w workerHost \<Rightarrow>
     ('c option \<times> gerror option \<times> bool) \<times> 'w workerHost" where
  "executeOpen lib payload client h =
     (if client \<noteq> None
      then ((client, Some (errorf ErrProtocol ''session already open''), False), h)
      else let (cfg, decodeErr) = decodeConfig payload
      in if decodeErr \<noteq> None
      then ((client, Some (errorf ErrProtocol ''invalid Open configuration''), False), h)
      else let ((client', err), h') = callFactory lib cfg (lc_CollectObservations cfg) h
      in ((client', err, err \<noteq> None), h'))"

definition executeClose ::
  "('c, 'w) workerLibrary \<Rightarrow> wirePayload \<Rightarrow> 'c option \<Rightarrow> 'w workerHost \<Rightarrow>
     (gerror option \<times> bool) \<times> 'w workerHost" where
  "executeClose lib payload client h =
     (if \<not> isNull payload
      then ((Some (errorf ErrProtocol ''invalid Close payload''), False), h)
      else case client of
        None \<Rightarrow> ((Some (errorf ErrProtocol ''no session''), False), h)
      | Some c \<Rightarrow> (let (err, h') = callClose lib c h in ((err, True), h')))"

definition executeDefault ::
  "('c, 'w) workerLibrary \<Rightarrow> gostring \<Rightarrow> wirePayload \<Rightarrow> 'c option \<Rightarrow> 'w workerHost \<Rightarrow>
     (wirePayload \<times> gerror option) \<times> 'w workerHost" where
  "executeDefault lib operation payload client h = (case client of
     None \<Rightarrow> ((nullPayload, Some (errorf ErrProtocol ''Open is required'')), h)
   | Some c \<Rightarrow> (case dispatch (callMethod lib c) operation payload h of
       (Inl err, h') \<Rightarrow> ((nullPayload, Some err), h')
     | (Inr p, h') \<Rightarrow> ((p, None), h')))"

definition execute ::
  "('c, 'w) workerLibrary \<Rightarrow> message \<Rightarrow> 'c option \<Rightarrow> 'w workerHost \<Rightarrow>
     'c operationResult \<times> 'w workerHost" where
  "execute lib request client h =
     (let ((payload, client', err, quit), h') =
        (if Operation request = opOpen
         then let ((client', err, quit), h') = executeOpen lib (Payload request) client h
              in ((nullPayload, client', err, quit), h')
         else if Operation request = opClose
         then let ((err, quit), h') = executeClose lib (Payload request) client h
              in ((nullPayload, client, err, quit), h')
         else let ((payload, err), h') =
                executeDefault lib (Operation request) (Payload request) client h
              in ((payload, client, err, False), h'));
          (obs, h') = take_observations h'
      in (\<lparr>or_message = \<lparr>ID = ID request, Operation = Operation request, Payload = payload,
             Error = err, Observations = obs\<rparr>,
           or_client = client', or_quit = quit \<or> is_protocol err\<rparr>, h'))"

definition writeResponse :: "'s writer \<Rightarrow> message \<Rightarrow> 's \<Rightarrow> gerror option \<times> 's" where
  "writeResponse write msg s =
     (let (err, s') = writeMessage write msg s
      in if \<not> (case err of None \<Rightarrow> False | Some e \<Rightarrow> errors_is e ErrMetadataTooLarge) then (err, s')
         else writeMessage write
           (msg\<lparr>Payload := \<lparr>metadata = [], pblocks = []\<rparr>, Observations := None,
                Error := Some errMetadataTooLarge\<rparr>) s')"

section \<open>serve\<close>

text \<open>
  A channel a goroutine will send one value on: the goroutine's job before it has run, its
  result afterwards.
\<close>

datatype 'c execution = Running message "'c option" | Finished "'c operationResult"
datatype writing = Writing message | Written "gerror option"

text \<open>
  The variables of \<^verbatim>\<open>serve\<close>: the input with the reader goroutine's offered result, the
  loop's variables, the output, and the value returned once the loop has ended. \<open>sv_accepted\<close>
  and \<open>sv_answered\<close> record the requests the loop took and the responses it handed to the
  writer.
\<close>

record ('c, 'w, 's) server =
  sv_input :: stream
  sv_incoming :: "message outcome option"
  sv_reader_done :: bool
  sv_host :: "'w workerHost"
  sv_client :: "'c option"
  sv_pending :: "'c execution option"
  sv_next :: "message option"
  sv_writing :: "writing option"
  sv_quit :: bool
  sv_expected :: uint64
  sv_output :: 's
  sv_returned :: "gerror option option"
  sv_accepted :: "message list"
  sv_answered :: "message list"

definition start_server :: "stream \<Rightarrow> 'w \<Rightarrow> 's \<Rightarrow> ('c, 'w, 's) server" where
  "start_server input w out =
     \<lparr>sv_input = input, sv_incoming = None, sv_reader_done = False,
      sv_host = \<lparr>sdk = w, collected = None, calls = []\<rparr>, sv_client = None, sv_pending = None,
      sv_next = None, sv_writing = None, sv_quit = False, sv_expected = 1, sv_output = out,
      sv_returned = None, sv_accepted = [], sv_answered = []\<rparr>"

text \<open>The goroutines: the reader offers its next result and ends after an error.\<close>

definition goRead :: "('c, 'w, 's) server \<Rightarrow> ('c, 'w, 's) server" where
  "goRead s = (let (r, input) = run_state readMessage (sv_input s)
     in s\<lparr>sv_incoming := Some r, sv_input := input,
          sv_reader_done := (case r of Done _ \<Rightarrow> False | _ \<Rightarrow> True)\<rparr>)"

definition goExecute :: "('c, 'w) workerLibrary \<Rightarrow> ('c, 'w, 's) server \<Rightarrow> ('c, 'w, 's) server" where
  "goExecute lib s = (case sv_pending s of
     Some (Running request client) \<Rightarrow>
       (let (r, h) = execute lib request client (sv_host s)
        in s\<lparr>sv_pending := Some (Finished r), sv_host := h\<rparr>)
   | _ \<Rightarrow> s)"

definition goWrite :: "'s writer \<Rightarrow> ('c, 'w, 's) server \<Rightarrow> ('c, 'w, 's) server" where
  "goWrite wr s = (case sv_writing s of
     Some (Writing msg) \<Rightarrow>
       (let (err, out) = writeResponse wr msg (sv_output s)
        in s\<lparr>sv_writing := Some (Written err), sv_output := out\<rparr>)
   | _ \<Rightarrow> s)"

text \<open>The cases of the loop's \<^verbatim>\<open>select\<close>.\<close>

definition onRead :: "message outcome \<Rightarrow> ('c, 'w, 's) server \<Rightarrow> ('c, 'w, 's) server" where
  "onRead r s = (let s = s\<lparr>sv_incoming := None\<rparr> in case r of
     Panic \<Rightarrow> s
   | Fail err \<Rightarrow> s\<lparr>sv_returned := Some (Some err)\<rparr>
   | Done m \<Rightarrow>
       if sv_pending s \<noteq> None \<or> sv_next s \<noteq> None \<or> ID m \<noteq> sv_expected s \<or> Error m \<noteq> None \<or>
          (case Observations m of None \<Rightarrow> False | Some obs \<Rightarrow> length obs \<noteq> 0)
       then s\<lparr>sv_returned := Some (Some (errorf ErrProtocol ''unexpected request sequence''))\<rparr>
       else let s = s\<lparr>sv_expected := sv_expected s + 1, sv_accepted := sv_accepted s @ [m]\<rparr>
       in if sv_writing s \<noteq> None then s\<lparr>sv_next := Some m\<rparr>
       else s\<lparr>sv_pending := Some (Running m (sv_client s))\<rparr>)"

definition onResult :: "'c operationResult \<Rightarrow> ('c, 'w, 's) server \<Rightarrow> ('c, 'w, 's) server" where
  "onResult r s = s\<lparr>sv_pending := None, sv_client := or_client r, sv_quit := or_quit r,
     sv_writing := Some (Writing (or_message r)), sv_answered := sv_answered s @ [or_message r]\<rparr>"

definition onWritten :: "gerror option \<Rightarrow> ('c, 'w, 's) server \<Rightarrow> ('c, 'w, 's) server" where
  "onWritten err s = (let s = s\<lparr>sv_writing := None\<rparr> in
     if err \<noteq> None then s\<lparr>sv_returned := Some err\<rparr>
     else if sv_quit s then s\<lparr>sv_returned := Some None\<rparr>
     else case sv_next s of
       None \<Rightarrow> s
     | Some m \<Rightarrow> s\<lparr>sv_pending := Some (Running m (sv_client s)), sv_next := None\<rparr>)"

text \<open>
  The interleavings: a goroutine may run at any time, also after the loop has returned, until
  the process exits; the loop takes any ready case while it has not returned. A panic of the
  reader would end the process; \<^const>\<open>readMessage\<close> has none.
\<close>

inductive serve_step ::
  "('c, 'w) workerLibrary \<Rightarrow> 's writer \<Rightarrow> ('c, 'w, 's) server \<Rightarrow> ('c, 'w, 's) server \<Rightarrow> bool"
  for lib :: "('c, 'w) workerLibrary" and wr :: "'s writer" where
  reader: "sv_incoming s = None \<Longrightarrow> \<not> sv_reader_done s \<Longrightarrow> serve_step lib wr s (goRead s)"
| executor: "sv_pending s = Some (Running m c) \<Longrightarrow> serve_step lib wr s (goExecute lib s)"
| writer: "sv_writing s = Some (Writing m) \<Longrightarrow> serve_step lib wr s (goWrite wr s)"
| cancelled: "sv_returned s = None \<Longrightarrow> serve_step lib wr s (s\<lparr>sv_returned := Some (Some err)\<rparr>)"
| incoming: "sv_returned s = None \<Longrightarrow> sv_incoming s = Some r \<Longrightarrow> serve_step lib wr s (onRead r s)"
| pending: "sv_returned s = None \<Longrightarrow> sv_pending s = Some (Finished r) \<Longrightarrow>
    serve_step lib wr s (onResult r s)"
| written: "sv_returned s = None \<Longrightarrow> sv_writing s = Some (Written err) \<Longrightarrow>
    serve_step lib wr s (onWritten err s)"

inductive_cases serve_stepE: "serve_step lib wr s s'"

section \<open>One SDK call per request\<close>

fun call_operation :: "sdkCall \<Rightarrow> gostring" where
  "call_operation (Opened cfg b) = opOpen"
| "call_operation (Called op req) = op"
| "call_operation Closed = opClose"

text \<open>The logs of a session that is in use, and of a session at any time of its life.\<close>

fun open_calls :: "sdkCall list \<Rightarrow> bool" where
  "open_calls (Opened cfg b # cs) \<longleftrightarrow> (\<forall>x \<in> set cs. \<exists>op req. x = Called op req)"
| "open_calls cs \<longleftrightarrow> False"

definition session_calls :: "sdkCall list \<Rightarrow> bool" where
  "session_calls cs \<longleftrightarrow> cs = [] \<or> open_calls cs \<or> (\<exists>ds. cs = ds @ [Closed] \<and> open_calls ds)"

lemma open_calls_snoc: "open_calls cs \<Longrightarrow> open_calls (cs @ [Called op req])"
  by (cases cs rule: open_calls.cases) auto

lemma calls_fold_append [simp]: "calls (fold append_observation obs h) = calls h"
  by (induction obs arbitrary: h) (simp_all add: append_observation_def)

lemma calls_after_call [simp]: "calls (after_call c obs w h) = calls h @ [c]"
  by (simp add: after_call_def)

lemma dispatchRequest_once:
  "snd (dispatchRequest p dec call w) = w \<or> (\<exists>r. snd (dispatchRequest p dec call w) = snd (call r w))"
proof -
  obtain r d where "run_state dec (decodePayload p) = (r, d)" by fastforce
  then show ?thesis
    by (cases "call r w") (auto simp: dispatchRequest_def intro: exI [of _ r]
        split: option.split sum.split)
qed

lemma dispatchVoid_once:
  "snd (dispatchVoid p dec call w) = w \<or> (\<exists>r. snd (dispatchVoid p dec call w) = snd (call r w))"
proof -
  let ?call = "\<lambda>request w. case call request w of (Inl err, w') \<Rightarrow> (Inl err, w') | (Inr _, w') \<Rightarrow> (Inr ResNil, w')"
  have "snd (?call r w) = snd (call r w)" for r
    by (simp split: prod.split sum.split)
  with dispatchRequest_once [of p dec ?call w] show ?thesis
    unfolding dispatchVoid_def by metis
qed

lemma dispatch_once:
  "snd (dispatch client op p w) = w \<or> (\<exists>req. snd (dispatch client op p w) = snd (client op req w))"
proof -
  have r: "snd (dispatchRequest p dec (\<lambda>r. client op (f r)) w) = w \<or>
      (\<exists>req. snd (dispatchRequest p dec (\<lambda>r. client op (f r)) w) = snd (client op req w))"
    for dec :: "'r decode" and f
    using dispatchRequest_once [of p dec "\<lambda>r. client op (f r)" w] by blast
  have v: "snd (dispatchVoid p dec (\<lambda>r. client op (f r)) w) = w \<or>
      (\<exists>req. snd (dispatchVoid p dec (\<lambda>r. client op (f r)) w) = snd (client op req w))"
    for dec :: "'r decode" and f
    using dispatchVoid_once [of p dec "\<lambda>r. client op (f r)" w] by blast
  show ?thesis
    unfolding dispatch_def by (simp only: r v snd_conv simp_thms split: if_split)
qed

lemma executeDefault_calls:
  "executeDefault lib op p client h = (r, h') \<Longrightarrow>
     calls h' = calls h \<or> (client \<noteq> None \<and> (\<exists>req. calls h' = calls h @ [Called op req]))"
proof -
  assume e: "executeDefault lib op p client h = (r, h')"
  show ?thesis
  proof (cases client)
    case None
    with e show ?thesis by (simp add: executeDefault_def)
  next
    case (Some c)
    with e have "h' = snd (dispatch (callMethod lib c) op p h)"
      by (auto simp: executeDefault_def split: prod.splits sum.splits)
    moreover have "calls (snd (callMethod lib c op req h)) = calls h @ [Called op req]" for req
      by (simp add: callMethod_def split: prod.split)
    ultimately show ?thesis using dispatch_once [of "callMethod lib c" op p h] Some by auto
  qed
qed

text \<open>
  What the log says about the session variable: no session before the first call, a session
  in use while the loop may go on. The factory's documented result is a session or an error.
\<close>

definition session_state :: "sdkCall list \<Rightarrow> 'c option \<Rightarrow> bool \<Rightarrow> bool" where
  "session_state cs client quit \<longleftrightarrow>
     session_calls cs \<and> (\<not> quit \<longrightarrow> (if client = None then cs = [] else open_calls cs))"

definition factory_ok :: "('c, 'w) workerLibrary \<Rightarrow> bool" where
  "factory_ok lib \<longleftrightarrow> (\<forall>cfg b w. fst (fst (factory lib cfg b w)) = None \<longrightarrow> snd (fst (factory lib cfg b w)) \<noteq> None)"

lemma execute_message:
  "execute lib req client h = (r, h') \<Longrightarrow>
     ID (or_message r) = ID req \<and> Operation (or_message r) = Operation req"
  by (auto simp: execute_def Let_def split: prod.splits if_splits)

lemma execute_calls:
  assumes "execute lib req client h = (r, h')"
  shows "calls h' = calls h \<or> (\<exists>c. calls h' = calls h @ [c] \<and> call_operation c = Operation req)"
proof -
  have f: "calls (snd (callFactory lib cfg b h)) = calls h @ [Opened cfg b]" for cfg b
    by (simp add: callFactory_def split: prod.split)
  have c: "calls (snd (callClose lib c h)) = calls h @ [Closed]" for c
    by (simp add: callClose_def split: prod.split)
  have o: "calls (snd (executeOpen lib p client h)) = calls h \<or>
      (\<exists>cfg b. calls (snd (executeOpen lib p client h)) = calls h @ [Opened cfg b])" for p
    using f by (simp add: executeOpen_def split: prod.split) (metis snd_conv)
  have l: "calls (snd (executeClose lib p client h)) = calls h \<or>
      calls (snd (executeClose lib p client h)) = calls h @ [Closed]" for p
    using c by (simp add: executeClose_def split: prod.split option.split) (metis snd_conv)
  have d: "calls (snd (executeDefault lib op p client h)) = calls h \<or>
      (\<exists>req. calls (snd (executeDefault lib op p client h)) = calls h @ [Called op req])" for op p
    using executeDefault_calls [of lib op p client h] by (metis prod.collapse)
  have "calls h' = calls (snd (if Operation req = opOpen then executeOpen lib (Payload req) client h
      else if Operation req = opClose then apfst (\<lambda>(err, quit). (client, err, quit)) (executeClose lib (Payload req) client h)
      else apfst (\<lambda>(p, err). (client, err, False)) (executeDefault lib (Operation req) (Payload req) client h)))"
    using assms by (auto simp: execute_def take_observations_def Let_def split: prod.splits if_splits)
  then show ?thesis
    using o [of "Payload req"] l [of "Payload req"] d [of "Operation req" "Payload req"]
    by (auto split: if_splits)
qed

lemma is_protocol_errorf [simp]: "is_protocol (Some (errorf ErrProtocol m))"
  by (simp add: is_protocol_def)

lemma executeOpen_session:
  assumes "executeOpen lib p client h = ((client', err, quit), h')" "factory_ok lib"
    and "session_state (calls h) client False"
  shows "session_state (calls h') client' (quit \<or> is_protocol err)"
proof (cases "client \<noteq> None \<or> snd (decodeConfig p) \<noteq> None")
  case True
  with assms have "calls h' = calls h" "is_protocol err"
    by (auto simp: executeOpen_def split: if_splits prod.splits)
  with assms(3) show ?thesis by (simp add: session_state_def)
next
  case False
  with assms obtain cfg where o: "callFactory lib cfg (lc_CollectObservations cfg) h = ((client', err), h')"
    "quit = (err \<noteq> None)" "client = None"
    by (auto simp: executeOpen_def split: if_splits prod.splits)
  then have "calls h' = [Opened cfg (lc_CollectObservations cfg)]"
    using assms(3) by (auto simp: callFactory_def session_state_def split: prod.splits)
  moreover have "client' = None \<Longrightarrow> err \<noteq> None"
    using o(1) assms(2) by (auto simp: callFactory_def factory_ok_def split: prod.splits) (metis fst_conv snd_conv)
  ultimately show ?thesis using o(2) by (auto simp: session_state_def session_calls_def)
qed

lemma executeClose_session:
  assumes "executeClose lib p client h = ((err, quit), h')" "session_state (calls h) client False"
  shows "session_state (calls h') client (quit \<or> is_protocol err)"
proof (cases "isNull p \<and> client \<noteq> None")
  case True
  then obtain c where c: "client = Some c" by blast
  with True assms have "calls h' = calls h @ [Closed]" "quit"
    by (auto simp: executeClose_def callClose_def split: prod.splits)
  with assms(2) c show ?thesis by (auto simp: session_state_def session_calls_def)
next
  case False
  with assms have "calls h' = calls h" "is_protocol err"
    by (auto simp: executeClose_def split: if_splits option.splits)
  with assms(2) show ?thesis by (simp add: session_state_def)
qed

lemma executeDefault_session:
  assumes "executeDefault lib op p client h = (r, h')" "session_state (calls h) client False"
  shows "session_state (calls h') client quit"
proof (cases client)
  case None
  with executeDefault_calls [OF assms(1)] assms(2) show ?thesis
    by (auto simp: session_state_def session_calls_def)
next
  case (Some c)
  with assms(2) have o: "open_calls (calls h)" by (simp add: session_state_def)
  then have "open_calls (calls h')"
    using executeDefault_calls [OF assms(1)] by (auto simp: open_calls_snoc)
  with Some show ?thesis by (simp add: session_state_def session_calls_def)
qed

lemma execute_session:
  assumes "execute lib req client h = (r, h')" "factory_ok lib" "session_state (calls h) client False"
  shows "session_state (calls h') (or_client r) (or_quit r)"
proof -
  have t: "calls (snd (take_observations h)) = calls h" for h :: "'b workerHost"
    by (simp add: take_observations_def)
  consider "Operation req = opOpen" | "Operation req \<noteq> opOpen" "Operation req = opClose"
    | "Operation req \<noteq> opOpen" "Operation req \<noteq> opClose" by blast
  then show ?thesis
  proof cases
    case 1
    obtain client' err quit h1 where o: "executeOpen lib (Payload req) client h = ((client', err, quit), h1)"
      by (metis surj_pair)
    with 1 assms(1) have "or_client r = client'" "or_quit r = (quit \<or> is_protocol err)" "calls h' = calls h1"
      using t [of h1] by (auto simp: execute_def Let_def split: prod.splits)
    with executeOpen_session [OF o assms(2,3)] show ?thesis by simp
  next
    case 2
    obtain err quit h1 where o: "executeClose lib (Payload req) client h = ((err, quit), h1)"
      by (metis surj_pair)
    with 2 assms(1) have "or_client r = client" "or_quit r = (quit \<or> is_protocol err)" "calls h' = calls h1"
      using t [of h1] by (auto simp: execute_def Let_def split: prod.splits)
    with executeClose_session [OF o assms(3)] show ?thesis by simp
  next
    case 3
    obtain p err h1 where o: "executeDefault lib (Operation req) (Payload req) client h = ((p, err), h1)"
      by (metis surj_pair)
    with 3 assms(1) have "or_client r = client" "calls h' = calls h1"
      using t [of h1] by (auto simp: execute_def Let_def split: prod.splits)
    with executeDefault_session [OF o assms(3)] show ?thesis by simp
  qed
qed

section \<open>The loop's invariant\<close>

definition request_key :: "message \<Rightarrow> uint64 \<times> gostring" where
  "request_key m = (ID m, Operation m)"

text \<open>
  Where the request stands that was accepted and is not answered: with the executor, with its
  result, or held back until the previous response is written.
\<close>

fun loop_state :: "('c, 'w, 's) server \<Rightarrow> bool" where
  "loop_state s \<longleftrightarrow>
     (case sv_pending s of
        Some (Running m c) \<Rightarrow> c = sv_client s \<and> \<not> sv_quit s \<and> sv_next s = None \<and> sv_writing s = None \<and>
          length (sv_accepted s) = Suc (length (sv_answered s)) \<and> m = last (sv_accepted s)
      | Some (Finished r) \<Rightarrow> sv_next s = None \<and> sv_writing s = None \<and>
          length (sv_accepted s) = Suc (length (sv_answered s)) \<and>
          request_key (or_message r) = request_key (last (sv_accepted s))
      | None \<Rightarrow> (case sv_next s of
          Some m \<Rightarrow> (sv_returned s = None \<longrightarrow> sv_writing s \<noteq> None) \<and>
            length (sv_accepted s) = Suc (length (sv_answered s)) \<and> m = last (sv_accepted s)
        | None \<Rightarrow> length (sv_accepted s) = length (sv_answered s)))"

declare loop_state.simps [simp del]

text \<open>The requests that have been executed.\<close>

definition executed :: "('c, 'w, 's) server \<Rightarrow> message list" where
  "executed s = (case sv_pending s of
     Some (Finished r) \<Rightarrow> sv_accepted s
   | _ \<Rightarrow> take (length (sv_answered s)) (sv_accepted s))"

definition session_now :: "('c, 'w, 's) server \<Rightarrow> 'c option \<times> bool" where
  "session_now s = (case sv_pending s of
     Some (Finished r) \<Rightarrow> (or_client r, or_quit r)
   | _ \<Rightarrow> (sv_client s, sv_quit s))"

text \<open>The identifiers 1, 2, and so on.\<close>

definition first_ids :: "nat \<Rightarrow> uint64 list" where
  "first_ids n = map of_nat [1..<Suc n]"

lemma first_ids_simps [simp]: "first_ids 0 = []" "first_ids (Suc n) = first_ids n @ [of_nat (Suc n)]"
  by (simp_all add: first_ids_def)

definition serve_inv :: "('c, 'w, 's) server \<Rightarrow> bool" where
  "serve_inv s \<longleftrightarrow> loop_state s \<and>
     (sv_quit s \<and> sv_writing s = None \<longrightarrow> sv_returned s \<noteq> None) \<and>
     sv_expected s = of_nat (Suc (length (sv_accepted s))) \<and>
     map ID (sv_accepted s) = first_ids (length (sv_accepted s)) \<and>
     map request_key (sv_answered s) =
       map request_key (take (length (sv_answered s)) (sv_accepted s)) \<and>
     subseq (map call_operation (calls (sv_host s))) (map Operation (executed s)) \<and>
     session_state (calls (sv_host s)) (fst (session_now s)) (snd (session_now s))"

lemmas serve_view = serve_inv_def loop_state.simps executed_def session_now_def

lemma serve_initial: "serve_inv (start_server input w out)"
  by (simp add: serve_view start_server_def session_state_def session_calls_def)

text \<open>The reader's variables do not matter.\<close>

lemma serve_inv_reader [simp]:
  "serve_inv (s\<lparr>sv_incoming := r\<rparr>) = serve_inv s" "serve_inv (s\<lparr>sv_input := i\<rparr>) = serve_inv s"
  "serve_inv (s\<lparr>sv_reader_done := b\<rparr>) = serve_inv s"
  by (simp_all add: serve_view cong: option.case_cong execution.case_cong)

lemma serve_reader: "serve_inv s \<Longrightarrow> serve_inv (goRead s)"
  by (simp add: goRead_def Let_def split: prod.split)

lemma serve_writer: "serve_inv s \<Longrightarrow> sv_writing s = Some (Writing m) \<Longrightarrow> serve_inv (goWrite wr s)"
  by (simp add: goWrite_def serve_view split: prod.split option.splits execution.splits)

lemma serve_cancelled: "serve_inv s \<Longrightarrow> serve_inv (s\<lparr>sv_returned := Some r\<rparr>)"
  by (auto simp: serve_view split: option.splits execution.splits)

lemma serve_executor:
  assumes "serve_inv s" "factory_ok lib" "sv_pending s = Some (Running m c)"
  shows "serve_inv (goExecute lib s)"
proof -
  obtain r h where e: "execute lib m c (sv_host s) = (r, h)" by fastforce
  let ?acc = "sv_accepted s" and ?n = "length (sv_answered s)"
  from assms have l: "length ?acc = Suc ?n" "m = last ?acc" "c = sv_client s" "\<not> sv_quit s"
    and q: "subseq (map call_operation (calls (sv_host s))) (map Operation (take ?n ?acc))"
    and st: "session_state (calls (sv_host s)) c False"
    by (auto simp: serve_view)
  have acc: "?acc = take ?n ?acc @ [m]"
    using l by (metis append_butlast_last_id butlast_conv_take diff_Suc_1 length_0_conv nat.distinct(1))
  have key: "request_key (or_message r) = request_key m"
    using execute_message [OF e] by (simp add: request_key_def)
  have "subseq (map call_operation (calls h)) (map Operation (take ?n ?acc) @ [Operation m])"
    using execute_calls [OF e] q by (auto intro: list_emb_append_mono subseq_rev_drop_many)
  then have sub: "subseq (map call_operation (calls h)) (map Operation ?acc)"
    by (subst acc) simp
  have "goExecute lib s = s\<lparr>sv_pending := Some (Finished r), sv_host := h\<rparr>"
    using assms(3) e by (simp add: goExecute_def)
  moreover have "serve_inv (s\<lparr>sv_pending := Some (Finished r), sv_host := h\<rparr>)"
    using assms(1,3) l key sub execute_session [OF e assms(2) st] by (simp add: serve_view)
  ultimately show ?thesis by simp
qed

lemma serve_incoming:
  assumes "serve_inv s" "sv_returned s = None"
  shows "serve_inv (onRead r s)"
proof -
  have skip: "serve_inv (s\<lparr>sv_incoming := None\<rparr>)"
    using assms(1) by simp
  show ?thesis
proof (cases "\<exists>m. r = Done m \<and> sv_pending s = None \<and> sv_next s = None \<and> ID m = sv_expected s")
  case True
  then obtain m where m: "r = Done m" "sv_pending s = None" "sv_next s = None" "ID m = sv_expected s" by blast
  from assms m have l: "length (sv_accepted s) = length (sv_answered s)"
    and q: "sv_writing s = None \<longrightarrow> \<not> sv_quit s" by (auto simp: serve_view)
  let ?s = "s\<lparr>sv_incoming := None, sv_expected := sv_expected s + 1, sv_accepted := sv_accepted s @ [m]\<rparr>"
  have n: "serve_inv (?s\<lparr>sv_next := Some m\<rparr>)" if "sv_writing s \<noteq> None"
    using assms m l q that by (simp add: serve_view)
  have e: "serve_inv (?s\<lparr>sv_pending := Some (Running m (sv_client s))\<rparr>)" if "sv_writing s = None"
    using assms m l q that by (simp add: serve_view)
  show ?thesis
    using n e serve_cancelled [OF skip] m by (simp add: onRead_def Let_def)
next
  case False
  with skip serve_cancelled [OF skip] show ?thesis
    by (cases r) (auto simp: onRead_def Let_def)
qed
qed

lemma serve_pending:
  assumes "serve_inv s" "sv_pending s = Some (Finished r)"
  shows "serve_inv (onResult r s)"
proof -
  from assms have l: "length (sv_accepted s) = Suc (length (sv_answered s))"
    "request_key (or_message r) = request_key (last (sv_accepted s))"
    and k: "map request_key (sv_answered s) =
       map request_key (take (length (sv_answered s)) (sv_accepted s))" by (auto simp: serve_view)
  have "sv_accepted s = take (length (sv_answered s)) (sv_accepted s) @ [last (sv_accepted s)]"
    using l by (metis append_butlast_last_id butlast_conv_take diff_Suc_1 length_0_conv nat.distinct(1))
  then have "map request_key (sv_accepted s) =
      map request_key (sv_answered s) @ [request_key (or_message r)]"
    unfolding k l(2) by (metis list.simps(8,9) map_append)
  with assms l show ?thesis by (simp add: onResult_def serve_view)
qed

lemma serve_written: "serve_inv s \<Longrightarrow> sv_writing s = Some (Written err) \<Longrightarrow> serve_inv (onWritten err s)"
  by (auto simp: onWritten_def serve_view Let_def split: option.splits execution.splits)

definition worker_start :: "('c, 'w, 's) server \<Rightarrow> bool" where
  "worker_start s \<longleftrightarrow> (\<exists>input w out. s = start_server input w out)"

definition worker_step ::
  "('c, 'w) workerLibrary \<Rightarrow> 's writer \<Rightarrow> ('c, 'w, 's) server \<Rightarrow> ('c, 'w, 's) server \<Rightarrow> bool" where
  "worker_step lib wr s s' \<longleftrightarrow> factory_ok lib \<and> serve_step lib wr s s'"

lemma worker_preserved: "serve_inv s \<Longrightarrow> worker_step lib wr s s' \<Longrightarrow> serve_inv s'"
  unfolding worker_step_def
  by (elim conjE serve_stepE)
    (simp_all add: serve_reader serve_executor serve_writer serve_cancelled serve_incoming
      serve_pending serve_written)

interpretation worker: state_machine worker_start "worker_step lib wr" serve_inv
  for lib :: "('c, 'w) workerLibrary" and wr :: "'s writer"
  by unfold_locales (auto simp: worker_start_def serve_initial intro: worker_preserved)

lemma reachable_worker:
  "reachable worker_start (serve_step lib wr) s \<Longrightarrow> factory_ok lib \<Longrightarrow>
     reachable worker_start (worker_step lib wr) s"
  by (induction rule: reachable.induct) (auto intro: reachable.intros simp: worker_step_def)

text \<open>
  The worker answers requests one at a time and in order. Whatever the parent sends and
  however the reader, the executor and the writer interleave, the requests accepted so far
  carry the identifiers 1, 2, and so on; the responses handed to the writer are those of the
  first accepted requests, with their identifiers and operations, and at most one request is
  unanswered; no request is executed while a response is being written.
\<close>

theorem worker_serial:
  assumes "reachable worker_start (serve_step lib wr) s" and "factory_ok lib"
  shows "map ID (sv_accepted s) = first_ids (length (sv_accepted s)) \<and>
    map request_key (sv_answered s) = map request_key (take (length (sv_answered s)) (sv_accepted s)) \<and>
    length (sv_accepted s) \<le> Suc (length (sv_answered s)) \<and>
    (sv_pending s = None \<or> sv_writing s = None)"
proof -
  have "serve_inv s" by (rule worker.invariant [OF reachable_worker [OF assms]])
  then show ?thesis by (auto simp: serve_view split: option.splits execution.splits)
qed

text \<open>
  C27: The worker drives one well-formed SDK session. In every reachable state the calls it
  made into the session are a prefix of: one factory call, then methods, then at most one
  Close and nothing after it; and they are caused, in order and at most once each, by the
  accepted requests. A request that is malformed, out of order or after a failed Open makes
  no call.
\<close>

theorem worker_session_once:
  assumes "reachable worker_start (serve_step lib wr) s" and "factory_ok lib"
  shows "session_calls (calls (sv_host s)) \<and>
    subseq (map call_operation (calls (sv_host s))) (map Operation (sv_accepted s))"
proof -
  have inv: "serve_inv s" by (rule worker.invariant [OF reachable_worker [OF assms]])
  have "subseq (map Operation (executed s)) (map Operation (sv_accepted s))"
    by (auto simp: executed_def take_is_prefix intro!: prefix_imp_subseq map_mono_prefix
        split: option.split execution.split)
  with inv show ?thesis
    by (auto simp: serve_inv_def session_state_def intro: subseq_order.trans)
qed

text \<open>A worker that is asked to close before a session is open.\<close>

definition idle_library :: "(unit, unit) workerLibrary" where
  "idle_library = \<lparr>factory = (\<lambda>cfg b w. ((Some (), None), [], w)),
     call_method = (\<lambda>c op req w. (Inr ResNil, [], w)), closeSession = (\<lambda>c w. (None, [], w))\<rparr>"

lemma factory_idle: "factory_ok idle_library"
  by (simp add: factory_ok_def idle_library_def)

lemma closing_worker:
  "\<exists>s. reachable worker_start (serve_step idle_library trickle) (s :: (unit, unit, bytes) server) \<and>
     sv_accepted s = [close_message 1] \<and> sv_quit s \<and> map request_key (sv_answered s) = [(1, opClose)]"
proof -
  obtain frame where f: "\<forall>eof a. \<exists>a'. run_state readMessage \<lparr>pending = frame, ended = eof, allocated = a\<rparr> =
      (Done (close_message 1), \<lparr>pending = [], ended = eof, allocated = a'\<rparr>)"
    using close_read [of 1] by blast
  let ?s0 = "start_server \<lparr>pending = frame, ended = Sentinel IoEOF, allocated = 0\<rparr> () []
    :: (unit, unit, bytes) server"
  obtain a where a: "run_state readMessage (sv_input ?s0) =
      (Done (close_message 1), \<lparr>pending = [], ended = Sentinel IoEOF, allocated = a\<rparr>)"
    using f by (force simp: start_server_def)
  let ?s1 = "goRead ?s0"
  let ?s2 = "onRead (Done (close_message 1)) ?s1"
  let ?s3 = "goExecute idle_library ?s2"
  obtain r h where e: "execute idle_library (close_message 1) (None :: unit option)
      \<lparr>sdk = (), collected = None, calls = []\<rparr> = (r, h)" by fastforce
  have s2: "sv_pending ?s2 = Some (Running (close_message 1) None)" "sv_returned ?s2 = None"
    "sv_host ?s2 = \<lparr>sdk = (), collected = None, calls = []\<rparr>"
    "sv_accepted ?s2 = [close_message 1]" "sv_answered ?s2 = []"
    using a by (simp_all add: goRead_def start_server_def onRead_def close_message_def)
  have s3: "?s3 = ?s2\<lparr>sv_pending := Some (Finished r), sv_host := h\<rparr>"
    unfolding goExecute_def s2 by (simp add: e)
  have q: "or_quit r"
    using e by (auto simp: execute_def executeClose_def close_message_def opOpen_def opClose_def
        isNull_def nullPayload_def take_observations_def)
  have "reachable worker_start (serve_step idle_library trickle) (onResult r ?s3)"
  proof (intro reachable.step [OF reachable.step [OF reachable.step [OF reachable.step
      [OF reachable.start]]]])
    show "worker_start ?s0" by (auto simp: worker_start_def)
    show "serve_step idle_library trickle ?s0 ?s1"
      by (rule serve_step.reader) (simp_all add: start_server_def)
    show "serve_step idle_library trickle ?s1 ?s2"
      using a by (intro serve_step.incoming) (simp_all add: goRead_def start_server_def)
    show "serve_step idle_library trickle ?s2 ?s3" by (rule serve_step.executor [OF s2(1)])
    show "serve_step idle_library trickle ?s3 (onResult r ?s3)"
      by (rule serve_step.pending) (simp_all add: s3 s2)
  qed
  moreover have "request_key (or_message r) = (1, opClose)"
    using execute_message [OF e] by (simp add: request_key_def close_message_def)
  ultimately show ?thesis
    using q s2 by (intro exI [of _ "onResult r ?s3"]) (simp add: s3 onResult_def)
qed

theorem worker_serial_witness:
  "\<exists>s :: (unit, unit, bytes) server. reachable worker_start (serve_step idle_library trickle) s \<and>
     map ID (sv_accepted s) = first_ids 1 \<and> sv_answered s \<noteq> [] \<and>
     (sv_pending s = None \<or> sv_writing s = None)"
proof -
  from closing_worker obtain s :: "(unit, unit, bytes) server" where
    s: "reachable worker_start (serve_step idle_library trickle) s" "sv_accepted s = [close_message 1]"
      "map request_key (sv_answered s) = [(1, opClose)]"
    by (elim exE conjE)
  from worker_serial [OF s(1) factory_idle] s show ?thesis by (intro exI [of _ s]) auto
qed

theorem worker_session_once_witness:
  "\<exists>s :: (unit, unit, bytes) server. reachable worker_start (serve_step idle_library trickle) s \<and>
     sv_quit s \<and> session_calls (calls (sv_host s)) \<and>
     subseq (map call_operation (calls (sv_host s))) [opClose]"
proof -
  from closing_worker obtain s :: "(unit, unit, bytes) server" where
    s: "reachable worker_start (serve_step idle_library trickle) s" "sv_accepted s = [close_message 1]"
      "sv_quit s" by (elim exE conjE)
  from worker_session_once [OF s(1) factory_idle] s show ?thesis
    by (intro exI [of _ s]) (simp add: close_message_def)
qed

end
