(* ===== verification/Isolated_Client.thy ===== *)
theory Isolated_Client
  imports Isolated_Worker
begin

text \<open>
  The parent's side of an isolated session (\<^verbatim>\<open>isolated/client.go\<close>,
  \<^verbatim>\<open>config.go\<close>, \<^verbatim>\<open>process.go\<close>, \<^verbatim>\<open>operations.go\<close>): the client's
  terminal state, one exchange of request and response, calls, startup and shutdown. What
  contexts, the scheduler and the operating system decide is an argument of the operations:
  which case of a \<^verbatim>\<open>select\<close> fires, the error a context reports at a check, and what
  other goroutines did to the client in the meantime.
\<close>

section \<open>The client\<close>

text \<open>
  \<open>ic_ready\<close> is false for a nil or zero client, which has no call gate; \<open>ic_exited\<close> is the closed channel \<^verbatim>\<open>exited\<close> with \<^verbatim>\<open>waitErr\<close>;
  \<open>ic_closing\<close> is \<^verbatim>\<open>closeState\<close>: its saved error once \<^verbatim>\<open>done\<close> is closed.
  \<open>ic_reported\<close> and \<open>ic_logged\<close> record what the observer and the logger received.
\<close>

record logEntry =
  le_error :: bool
  le_operation :: gostring
  le_class :: gostring

record 's isoClient =
  ic_ready :: bool
  ic_conn :: 's
  ic_conn_closed :: bool
  ic_killed :: bool
  ic_exited :: "gerror option option"
  ic_terminal :: "gerror option"
  ic_closing :: "gerror option option option"
  ic_nextID :: uint64
  ic_maxInputSize :: int64
  ic_logger :: bool
  ic_observer :: bool
  ic_reported :: "OperationObservation list"
  ic_logged :: "logEntry list"

text \<open>
  The connection: its writer, the bytes it delivers in state \<open>s\<close>, and the state after a read
  has left a stream.
\<close>

record 's transport =
  t_write :: "'s writer"
  t_inbound :: "'s \<Rightarrow> stream"
  t_consume :: "stream \<Rightarrow> 's \<Rightarrow> 's"

definition stateError :: "'s isoClient \<Rightarrow> gerror option" where
  "stateError c =
     (if ic_closing c \<noteq> None then Some (Sentinel KalkanErrClosed)
      else case ic_terminal c of
        Some e \<Rightarrow> Some e
      | None \<Rightarrow> (case ic_exited c of Some w \<Rightarrow> Some (WorkerError w) | None \<Rightarrow> None))"

definition stop :: "gerror \<Rightarrow> 's isoClient \<Rightarrow> gerror \<times> 's isoClient" where
  "stop cause c =
     (let err = (case ic_terminal c of None \<Rightarrow> WorkerError (Some cause) | Some e \<Rightarrow> e)
      in (err, c\<lparr>ic_terminal := Some err, ic_conn_closed := True, ic_killed := True\<rparr>))"

text \<open>\<^verbatim>\<open>fmt.Errorf("%w: %w", ErrProtocol, err)\<close>\<close>

definition failProtocol :: "gerror \<Rightarrow> 's isoClient \<Rightarrow> gerror \<times> 's isoClient" where
  "failProtocol err c =
     stop (MultiError (sentinel_text ErrProtocol @ '': '' @ error_text err)
       [Some (Sentinel ErrProtocol), Some err]) c"

text \<open>\<^verbatim>\<open>waitProcess\<close>: the child's exit is published first, the pipes are closed once the
  call gate is free.\<close>

definition publishExit :: "gerror option \<Rightarrow> 's isoClient \<Rightarrow> 's isoClient" where
  "publishExit err c = c\<lparr>ic_exited := Some err\<rparr>"

definition finishExit :: "gerror option \<Rightarrow> 's isoClient \<Rightarrow> 's isoClient" where
  "finishExit err c =
     (let c = (if ic_terminal c = None \<and> ic_closing c = None
               then c\<lparr>ic_terminal := Some (WorkerError err)\<rparr> else c)
      in c\<lparr>ic_conn_closed := True\<rparr>)"

section \<open>acquire and exchange\<close>

text \<open>
  The two halves of \<^verbatim>\<open>acquire\<close>, before the wait for the gate and with the gate held;
  \<open>ctxErr\<close> is \<^verbatim>\<open>ctx.Err()\<close> at that point. The middle \<^verbatim>\<open>select\<close> either takes the
  gate or reports \<open>fired\<close>, the error of the context.
\<close>

definition acquireCheck :: "gerror option \<Rightarrow> 's isoClient \<Rightarrow> gerror option" where
  "acquireCheck ctxErr c = (case ctxErr of Some e \<Rightarrow> Some e | None \<Rightarrow> stateError c)"

record 's schedule =
  before :: "gerror option"
  waiting :: "'s isoClient \<Rightarrow> 's isoClient"
  fired :: "gerror option"
  locked :: "gerror option"
  encoded :: "gerror option"
  interrupted :: "(gerror \<times> 's) option"
  during :: "'s isoClient \<Rightarrow> 's isoClient"

definition acquire :: "'s schedule \<Rightarrow> 's isoClient \<Rightarrow> gerror option \<times> 's isoClient" where
  "acquire sch c =
     (case acquireCheck (before sch) c of
        Some e \<Rightarrow> (Some e, c)
      | None \<Rightarrow>
          let c = waiting sch c in
          case fired sch of
            Some e \<Rightarrow> (Some e, c)
          | None \<Rightarrow> (acquireCheck (locked sch) c, c))"

text \<open>
  The sender goroutine of \<^verbatim>\<open>exchange\<close>: write the request, read one message.
\<close>

definition transfer :: "'s transport \<Rightarrow> message \<Rightarrow> 's \<Rightarrow> message outcome \<times> 's" where
  "transfer t request s =
     (let (err, s) = writeMessage (t_write t) request s
      in case err of
           Some e \<Rightarrow> (Fail e, s)
         | None \<Rightarrow> (let (r, rest) = run_state readMessage (t_inbound t s) in (r, t_consume t rest s)))"

definition zeroMessage :: message where
  "zeroMessage = \<lparr>ID = 0, Operation = [], Payload = \<lparr>metadata = [], pblocks = []\<rparr>, Error = None,
     Observations = None\<rparr>"

text \<open>
  \<open>interrupted\<close> is the case that the context ends before the sender is done, with its error
  and what the sender left of the connection; \<open>during\<close> is the effect of the other goroutines
  while the sender ran.
\<close>

definition exchange ::
  "'s transport \<Rightarrow> 's schedule \<Rightarrow> gostring \<Rightarrow> wirePayload \<Rightarrow> 's isoClient \<Rightarrow>
     (message \<times> gerror option) \<times> 's isoClient" where
  "exchange t sch operation payload c =
     (let c = c\<lparr>ic_nextID := ic_nextID c + 1\<rparr>;
          request = \<lparr>ID = ic_nextID c, Operation = operation, Payload = payload, Error = None,
                     Observations = None\<rparr>
      in case interrupted sch of
        Some (e, s) \<Rightarrow>
          let (_, c) = stop e (during sch (c\<lparr>ic_conn := s\<rparr>)) in ((zeroMessage, Some e), c)
      | None \<Rightarrow>
          let (r, s) = transfer t request (ic_conn c); c = during sch (c\<lparr>ic_conn := s\<rparr>)
          in case r of
            Panic \<Rightarrow> ((zeroMessage, None), c)
          | Fail e \<Rightarrow>
              if errors_is e ErrMetadataTooLarge
              then ((zeroMessage, Some e), c\<lparr>ic_nextID := ic_nextID c - 1\<rparr>)
              else let (err, c) = stop e c in ((zeroMessage, Some err), c)
          | Done response \<Rightarrow>
              if ID response \<noteq> ID request \<or> Operation response \<noteq> operation
              then let (err, c) = failProtocol (ForeignError ''response does not match request'' []) c
                   in ((zeroMessage, Some err), c)
              else case Error response of
                None \<Rightarrow> ((response, None), c)
              | Some e \<Rightarrow>
                  if errors_is e ErrProtocol
                  then let (err, c) = stop e c in ((response, Some err), c)
                  else ((response, Some e), c))"

section \<open>Calls\<close>

definition errorClass :: "gerror option \<Rightarrow> gostring" where
  "errorClass err = (case err of None \<Rightarrow> ''none''
     | Some e \<Rightarrow>
         if errors_is e ErrWorkerFailed then ''worker_failure''
         else if errors_is e CtxDeadlineExceeded then ''deadline_exceeded''
         else if errors_is e CtxCanceled then ''canceled''
         else ''operation_failure'')"

definition report ::
  "gostring \<Rightarrow> OperationObservation list option \<Rightarrow> gerror option \<Rightarrow> 's isoClient \<Rightarrow> 's isoClient" where
  "report operation observations err c =
     (let c = (if ic_observer c
               then c\<lparr>ic_reported := ic_reported c @ (case observations of None \<Rightarrow> [] | Some os \<Rightarrow> os)\<rparr>
               else c)
      in if ic_logger c
         then c\<lparr>ic_logged := ic_logged c @
                [\<lparr>le_error = (err \<noteq> None), le_operation = operation, le_class = errorClass err\<rparr>]\<rparr>
         else c)"

text \<open>The part of \<^verbatim>\<open>call\<close> that runs with the gate held.\<close>

definition callSection ::
  "'s transport \<Rightarrow> 's schedule \<Rightarrow> gostring \<Rightarrow> request \<Rightarrow> (wirePayload \<Rightarrow> gerror + 'r) \<Rightarrow> 's isoClient \<Rightarrow>
     (message \<times> (gerror + 'r)) \<times> 's isoClient" where
  "callSection t sch operation request decode c =
     (case encodeRequest operation request (ic_maxInputSize c) of
        Inl err \<Rightarrow> ((zeroMessage, Inl err), c)
      | Inr payload \<Rightarrow>
          (case encoded sch of
             Some e \<Rightarrow> ((zeroMessage, Inl e), c)
           | None \<Rightarrow>
               let ((response, err), c) = exchange t sch operation payload c
               in case err of
                 Some e \<Rightarrow> ((response, Inl e), c)
               | None \<Rightarrow>
                   (case decode (Payload response) of
                      Inl decodeErr \<Rightarrow> (let (e, c) = failProtocol decodeErr c in ((response, Inl e), c))
                    | Inr v \<Rightarrow> ((response, Inr v), c))))"

definition call ::
  "'s transport \<Rightarrow> 's schedule \<Rightarrow> gostring \<Rightarrow> request \<Rightarrow> (wirePayload \<Rightarrow> gerror + 'r) \<Rightarrow> 's isoClient \<Rightarrow>
     (gerror + 'r) \<times> 's isoClient" where
  "call t sch operation request decode c =
     (if \<not> ic_ready c then (Inl (Sentinel KalkanErrClosed), c)
      else let (err, c) = acquire sch c
      in case err of
        Some e \<Rightarrow> (Inl e, c)
      | None \<Rightarrow>
          let ((response, r), c) = callSection t sch operation request decode c
          in (r, report operation (Observations response)
                (case r of Inl e \<Rightarrow> Some e | Inr _ \<Rightarrow> None) c))"

text \<open>
  \<^verbatim>\<open>callResult\<close>, \<^verbatim>\<open>callVoid\<close> and \<^verbatim>\<open>callCertificates\<close>. Certificates are
  parsed again in the parent by \<^verbatim>\<open>x509.ParseCertificate\<close>, the argument \<open>parse\<close>.
\<close>

definition callResult ::
  "'s transport \<Rightarrow> 's schedule \<Rightarrow> target \<Rightarrow> gostring \<Rightarrow> request \<Rightarrow> 's isoClient \<Rightarrow>
     (gerror + result) \<times> 's isoClient" where
  "callResult t sch out operation request =
     call t sch operation request (\<lambda>payload. decodeResult operation payload out)"

definition callVoid ::
  "'s transport \<Rightarrow> 's schedule \<Rightarrow> gostring \<Rightarrow> request \<Rightarrow> 's isoClient \<Rightarrow> (gerror + result) \<times> 's isoClient" where
  "callVoid t sch operation request =
     call t sch operation request (\<lambda>payload. decodeResult operation payload OutAny)"

definition decodeCertificate :: "(bytes \<Rightarrow> gerror + x509Certificate) \<Rightarrow> bytes \<Rightarrow> gerror + x509Certificate" where
  "decodeCertificate parse der = (case parse der of
     Inl _ \<Rightarrow> Inl (errorf ErrProtocol ''malformed certificate in worker response'')
   | Inr c \<Rightarrow> Inr c)"

fun decodeCertificates ::
  "(bytes \<Rightarrow> gerror + x509Certificate) \<Rightarrow> slice list \<Rightarrow> gerror + x509Certificate option list" where
  "decodeCertificates parse [] = Inr []"
| "decodeCertificates parse (None # ders) =
     (case decodeCertificates parse ders of Inl e \<Rightarrow> Inl e | Inr cs \<Rightarrow> Inr (None # cs))"
| "decodeCertificates parse (Some der # ders) =
     (case decodeCertificate parse der of
        Inl e \<Rightarrow> Inl e
      | Inr c \<Rightarrow> (case decodeCertificates parse ders of Inl e \<Rightarrow> Inl e | Inr cs \<Rightarrow> Inr (Some c # cs)))"

definition callCertificates ::
  "(bytes \<Rightarrow> gerror + x509Certificate) \<Rightarrow> 's transport \<Rightarrow> 's schedule \<Rightarrow> gostring \<Rightarrow> request \<Rightarrow>
     's isoClient \<Rightarrow> (gerror + x509Certificate option list option) \<times> 's isoClient" where
  "callCertificates parse t sch operation request =
     call t sch operation request (\<lambda>payload.
       case decodeResult operation payload OutByteses of
         Inl e \<Rightarrow> Inl e
       | Inr (ResByteses (Some ders)) \<Rightarrow>
           (case decodeCertificates parse ders of Inl e \<Rightarrow> Inl e | Inr cs \<Rightarrow> Inr (Some cs))
       | Inr _ \<Rightarrow> Inr None)"

definition exportCertificate ::
  "(bytes \<Rightarrow> gerror + x509Certificate) \<Rightarrow> 's transport \<Rightarrow> 's schedule \<Rightarrow> 's isoClient \<Rightarrow>
     (gerror + x509Certificate option) \<times> 's isoClient" where
  "exportCertificate parse t sch =
     call t sch opX509ExportCertificateFromStore ReqNil (\<lambda>payload.
       case decodeResult opX509ExportCertificateFromStore payload OutBytes of
         Inl e \<Rightarrow> Inl e
       | Inr (ResBytes (Some der)) \<Rightarrow>
           (case decodeCertificate parse der of Inl e \<Rightarrow> Inl e | Inr c \<Rightarrow> Inr (Some c))
       | Inr _ \<Rightarrow> Inr None)"

section \<open>Shutdown\<close>

text \<open>
  The choices of one shutdown: whether the context ends before the gate is taken, at the
  check with the gate held, and in the wait for the child's exit (otherwise the child exits
  with the given status); the cause the context was cancelled with. The shutdown context is
  only ever cancelled, so its \<^verbatim>\<open>Err()\<close> is \<^verbatim>\<open>context.Canceled\<close>.
\<close>

record 's shutdownSchedule =
  sd_gate_lost :: bool
  sd_check_lost :: bool
  sd_exchange :: "'s schedule"
  sd_exit :: "gerror option option"
  sd_cause :: gerror

definition canceled :: "gerror option" where
  "canceled = Some (Sentinel CtxCanceled)"

text \<open>The \<^verbatim>\<open>select\<close> on the context and the channel \<^verbatim>\<open>exited\<close>.\<close>

definition awaitExit ::
  "'s shutdownSchedule \<Rightarrow> gerror option \<Rightarrow> 's isoClient \<Rightarrow> gerror option \<times> 's isoClient" where
  "awaitExit sch result c = (case sd_exit sch of
     None \<Rightarrow> (canceled, c)
   | Some w \<Rightarrow> (result, publishExit w c))"

definition gracefulShutdown ::
  "'s transport \<Rightarrow> 's shutdownSchedule \<Rightarrow> 's isoClient \<Rightarrow>
     (gerror option \<times> OperationObservation list option) \<times> 's isoClient" where
  "gracefulShutdown t sch c =
     (if sd_gate_lost sch \<or> sd_check_lost sch then ((canceled, None), c)
      else case ic_terminal c of
        Some terminal \<Rightarrow>
          let (_, c) = stop terminal c; (r, c) = awaitExit sch (Some terminal) c in ((r, None), c)
      | None \<Rightarrow>
          let ((response, err), c) = exchange t (sd_exchange sch) opClose nullPayload c;
              obs = Observations response
          in case err of
            Some e \<Rightarrow> (let (_, c) = stop e c; (r, c) = awaitExit sch (Some e) c in ((r, obs), c))
          | None \<Rightarrow>
              if \<not> isNull (Payload response)
              then let (e, c) = failProtocol (ForeignError ''invalid Close acknowledgement'' []) c
                   in ((Some e, obs), c)
              else case sd_exit sch of
                None \<Rightarrow> ((canceled, obs), c)
              | Some None \<Rightarrow> ((None, obs), publishExit None c)
              | Some (Some w) \<Rightarrow> (let (e, c) = stop w (publishExit (Some w) c) in ((Some e, obs), c)))"

definition shutdown ::
  "'s transport \<Rightarrow> 's shutdownSchedule \<Rightarrow> 's isoClient \<Rightarrow> 's isoClient" where
  "shutdown t sch c =
     (let ((err, obs), c) = gracefulShutdown t sch c;
          (err, c) = (if err = canceled
                      then (Some (sd_cause sch), snd (stop (sd_cause sch) c)) else (err, c));
          c = c\<lparr>ic_closing := Some (Some err)\<rparr>
      in report opClose obs err c)"

text \<open>
  \<^verbatim>\<open>CloseContext\<close>: it marks the client as closing unless a shutdown runs already,
  \<open>closeBegin\<close>; the caller then waits for the saved result, \<open>closeResult\<close>. Closing a nil
  client returns nil.
\<close>

definition closeBegin :: "'s isoClient \<Rightarrow> 's isoClient" where
  "closeBegin c = (if ic_ready c \<and> ic_closing c = None then c\<lparr>ic_closing := Some None\<rparr> else c)"

definition closeResult :: "'s isoClient \<Rightarrow> gerror option option" where
  "closeResult c = (if \<not> ic_ready c then Some None else case ic_closing c of None \<Rightarrow> None | Some r \<Rightarrow> r)"

section \<open>Startup\<close>

record Config =
  cf_TSAURL :: "gostring option"
  cf_OCSPURL :: "gostring option"
  cf_Proxy :: "Proxy option"
  cf_EndpointPolicy :: "EndpointPolicy option"
  cf_Logger :: bool
  cf_Observer :: bool
  cf_WorkerPath :: gostring
  cf_LibraryPath :: gostring
  cf_TrustedCertificates :: "TrustedCertificate list option"
  cf_OCSPTimeout :: int64
  cf_MaxInputSize :: int64
  cf_MaxOutputBufferSize :: goint
  cf_CustomOCSP :: bool
  cf_AtomicZIPOutput :: bool

text \<open>\<^verbatim>\<open>filepath.IsAbs\<close> on Unix.\<close>

definition IsAbs :: "gostring \<Rightarrow> bool" where
  "IsAbs path \<longleftrightarrow> prefix ''/'' path"

definition bad_path :: "gostring \<Rightarrow> bool" where
  "bad_path path \<longleftrightarrow> \<not> IsAbs path \<or> CHR 0x00 \<in> set path"

definition Config_validate :: "Config \<Rightarrow> gerror option" where
  "Config_validate cfg =
     (if list_ex bad_path [cf_WorkerPath cfg, cf_LibraryPath cfg]
      then Some (errorf KalkanErrInvalidInput ''absolute worker and library paths without NUL are required'')
      else if sint (cf_MaxOutputBufferSize cfg) < 0
      then Some (errorf KalkanErrInvalidInput ''isolated output buffer limit must be non-negative'')
      else if sint (cf_OCSPTimeout cfg) < 0
      then Some (errorf KalkanErrInvalidInput ''OCSP timeout must be non-negative'')
      else None)"

definition Config_libraryConfig :: "Config \<Rightarrow> libraryConfig" where
  "Config_libraryConfig cfg =
     \<lparr>lc_TSAURL = cf_TSAURL cfg, lc_OCSPURL = cf_OCSPURL cfg, lc_Proxy = cf_Proxy cfg,
      lc_EndpointPolicy = cf_EndpointPolicy cfg, lc_LibraryPath = cf_LibraryPath cfg,
      lc_TrustedCertificates = cf_TrustedCertificates cfg, lc_OCSPTimeout = cf_OCSPTimeout cfg,
      lc_MaxInputSize = cf_MaxInputSize cfg, lc_MaxOutputBufferSize = cf_MaxOutputBufferSize cfg,
      lc_CollectObservations = cf_Observer cfg, lc_CustomOCSP = cf_CustomOCSP cfg,
      lc_AtomicZIPOutput = cf_AtomicZIPOutput cfg\<rparr>"

text \<open>
  \<^verbatim>\<open>startProcess\<close>: \<open>os\<close> is what the operating system answers, the error of the first
  failing step (the request pipe, the response pipe, the start of the command) or the
  connection to the started child.
\<close>

datatype 's started = NoRequestPipe gerror | NoResponsePipe gerror | NoProcess gerror | Started 's

definition wrapf :: "gostring \<Rightarrow> gerror \<Rightarrow> gerror" where
  "wrapf what err = WrapError (what @ '': '' @ error_text err) (Some err)"

definition startProcess :: "Config \<Rightarrow> 's started \<Rightarrow> gerror + 's isoClient" where
  "startProcess cfg os = (case os of
     NoRequestPipe e \<Rightarrow> Inl (wrapf ''kalkan isolated: create request pipe'' e)
   | NoResponsePipe e \<Rightarrow> Inl (wrapf ''kalkan isolated: create response pipe'' e)
   | NoProcess e \<Rightarrow> Inl (wrapf ''kalkan isolated: start worker'' e)
   | Started s \<Rightarrow> Inr
       \<lparr>ic_ready = True, ic_conn = s, ic_conn_closed = False, ic_killed = False, ic_exited = None,
        ic_terminal = None, ic_closing = None, ic_nextID = 0, ic_maxInputSize = cf_MaxInputSize cfg,
        ic_logger = cf_Logger cfg, ic_observer = cf_Observer cfg, ic_reported = [], ic_logged = []\<rparr>)"

text \<open>
  \<^verbatim>\<open>Open\<close> with the schedule's context checks; the second component is the client that
  exists at the end, also after a failed setup.
\<close>

definition Open ::
  "'s transport \<Rightarrow> 's schedule \<Rightarrow> 's started \<Rightarrow> Config \<Rightarrow> (gerror + 's isoClient) \<times> 's isoClient option" where
  "Open t sch os cfg =
     (case before sch of Some e \<Rightarrow> (Inl e, None)
      | None \<Rightarrow> (case Config_validate cfg of Some e \<Rightarrow> (Inl e, None)
      | None \<Rightarrow> (case encodeConfig (Config_libraryConfig cfg) of Inl e \<Rightarrow> (Inl e, None)
      | Inr payload \<Rightarrow> (case encoded sch of Some e \<Rightarrow> (Inl e, None)
      | None \<Rightarrow> (case startProcess cfg os of Inl e \<Rightarrow> (Inl e, None)
      | Inr c \<Rightarrow>
          let ((response, err), c) = exchange t sch opOpen payload c;
              (err, c) = (case err of
                 Some e \<Rightarrow> (Some e, snd (stop e c))
               | None \<Rightarrow> if isNull (Payload response) then (None, c)
                         else let (e, c) = failProtocol (ForeignError ''invalid Open acknowledgement'' []) c
                              in (Some e, c));
              c = (if ic_logger c \<or> ic_observer c then report opOpen (Observations response) err c else c)
          in (case err of Some e \<Rightarrow> (Inl e, Some c) | None \<Rightarrow> (Inr c, Some c)))))))"

section \<open>Interleavings\<close>

text \<open>
  What can happen to a client while a call holds the gate: the child exits, a caller begins to
  close, a cancelled shutdown kills the worker without the gate. The effect of the other
  goroutines during an exchange is a sequence of these steps.
\<close>

inductive background :: "'s transport \<Rightarrow> 's isoClient \<Rightarrow> 's isoClient \<Rightarrow> bool" for t where
  exits: "ic_exited c = None \<Longrightarrow> background t c (publishExit w c)"
| closes: "background t c (closeBegin c)"
| cancels: "ic_closing c = Some None \<Longrightarrow> sd_gate_lost sch \<Longrightarrow> background t c (shutdown t sch c)"

definition interleaved :: "'s transport \<Rightarrow> 's schedule \<Rightarrow> bool" where
  "interleaved t sch \<longleftrightarrow> (\<forall>c. steps (background t) c (during sch c))"

text \<open>
  The steps of a client: a call's section with the gate, a shutdown, the end of
  \<^verbatim>\<open>waitProcess\<close>, and the steps that need no gate.
\<close>

inductive iso_step :: "'s transport \<Rightarrow> 's isoClient \<Rightarrow> 's isoClient \<Rightarrow> bool" for t where
  calls: "acquireCheck ctxErr c = None \<Longrightarrow> interleaved t sch \<Longrightarrow>
    callSection t sch op req decode c = ((m, r :: gerror + unit), c') \<Longrightarrow>
    iso_step t c (report op (Observations m) err c')"
| shuts: "ic_closing c = Some None \<Longrightarrow> interleaved t (sd_exchange sch) \<Longrightarrow> iso_step t c (shutdown t sch c)"
| waits: "ic_exited c = Some w \<Longrightarrow> iso_step t c (finishExit w c)"
| others: "background t c c' \<Longrightarrow> iso_step t c c'"

inductive_cases backgroundE: "background t c c'"
inductive_cases iso_stepE: "iso_step t c c'"

text \<open>The result type of a call does not matter to the client.\<close>

lemma callSection_unit:
  "snd (callSection t sch op req (\<lambda>p. map_sum id (\<lambda>v. ()) (decode p)) c) = snd (callSection t sch op req decode c)"
  by (auto simp: callSection_def split: sum.split option.split prod.split)

section \<open>A failed client stays failed\<close>

definition supervised :: "'s isoClient \<Rightarrow> bool" where
  "supervised c \<longleftrightarrow> (ic_terminal c \<noteq> None \<longrightarrow> ic_killed c \<or> ic_exited c \<noteq> None)"

definition gone :: "'s isoClient \<Rightarrow> bool" where
  "gone c \<longleftrightarrow> ic_killed c \<or> ic_exited c \<noteq> None"

definition client_start :: "'s isoClient \<Rightarrow> bool" where
  "client_start c \<longleftrightarrow> (\<exists>cfg os. startProcess cfg os = Inr c)"

lemma report_simps [simp]:
  "ic_terminal (report op obs err c) = ic_terminal c" "ic_killed (report op obs err c) = ic_killed c"
  "ic_exited (report op obs err c) = ic_exited c" "ic_conn (report op obs err c) = ic_conn c"
  "ic_nextID (report op obs err c) = ic_nextID c" "ic_closing (report op obs err c) = ic_closing c"
  "ic_ready (report op obs err c) = ic_ready c" "ic_maxInputSize (report op obs err c) = ic_maxInputSize c"
  by (simp_all add: report_def Let_def)

lemma stop_simps [simp]:
  "ic_killed (snd (stop e c))" "ic_conn (snd (stop e c)) = ic_conn c" "ic_nextID (snd (stop e c)) = ic_nextID c"
  "ic_terminal (snd (stop e c)) = Some (fst (stop e c))" "ic_exited (snd (stop e c)) = ic_exited c"
  "ic_closing (snd (stop e c)) = ic_closing c" "ic_ready (snd (stop e c)) = ic_ready c"
  "ic_maxInputSize (snd (stop e c)) = ic_maxInputSize c"
  by (simp_all add: stop_def Let_def)

lemma stop_terminal: "ic_terminal c = Some e \<Longrightarrow> fst (stop x c) = e"
  by (simp add: stop_def)

lemma shutdown_cancelled:
  assumes "sd_gate_lost sch"
  shows "shutdown t sch c = report opClose None (Some (sd_cause sch))
    ((snd (stop (sd_cause sch) c))\<lparr>ic_closing := Some (Some (Some (sd_cause sch)))\<rparr>)"
  using assms by (simp add: shutdown_def gracefulShutdown_def canceled_def)

text \<open>What steps without the gate keep.\<close>

definition keeps_gate :: "'s isoClient \<Rightarrow> 's isoClient \<Rightarrow> bool" where
  "keeps_gate c c' \<longleftrightarrow> ic_conn c' = ic_conn c \<and> ic_nextID c' = ic_nextID c \<and> ic_ready c' = ic_ready c \<and>
     ic_maxInputSize c' = ic_maxInputSize c \<and>
     (ic_terminal c \<noteq> None \<longrightarrow> ic_terminal c' = ic_terminal c) \<and> (gone c \<longrightarrow> gone c') \<and>
     (ic_killed c \<longrightarrow> ic_killed c') \<and>
     (supervised c \<longrightarrow> supervised c')"

lemma keeps_gate_refl: "keeps_gate c c"
  by (simp add: keeps_gate_def)

lemma keeps_gate_trans: "keeps_gate a b \<Longrightarrow> keeps_gate b c \<Longrightarrow> keeps_gate a c"
  by (auto simp: keeps_gate_def)

lemma background_keeps: "background t c c' \<Longrightarrow> keeps_gate c c'"
proof (erule backgroundE)
  fix sch
  assume "sd_gate_lost sch" "c' = shutdown t sch c"
  then show ?thesis
    using stop_terminal [of c] by (auto simp: shutdown_cancelled keeps_gate_def gone_def supervised_def)
qed (auto simp: keeps_gate_def publishExit_def closeBegin_def gone_def supervised_def)

lemma interleaved_keeps: "interleaved t sch \<Longrightarrow> keeps_gate c (during sch c)"
proof -
  have "steps (background t) c c' \<Longrightarrow> keeps_gate c c'" for c'
    by (induction rule: steps.induct) (auto intro: keeps_gate_refl keeps_gate_trans background_keeps)
  then show "interleaved t sch \<Longrightarrow> ?thesis" by (auto simp: interleaved_def)
qed

lemma stop_supervised [simp]: "supervised (snd (stop e c))" "gone (snd (stop e c))"
  by (simp_all add: supervised_def gone_def)

lemma exchange_supervised:
  assumes "interleaved t sch" "supervised c"
  shows "supervised (snd (exchange t sch op p c))"
proof -
  have d: "supervised (during sch (c\<lparr>ic_nextID := i, ic_conn := s\<rparr>))" for i s
    using interleaved_keeps [OF assms(1), of "c\<lparr>ic_nextID := i, ic_conn := s\<rparr>"] assms(2)
    by (simp add: keeps_gate_def supervised_def)
  then have "supervised ((during sch (c\<lparr>ic_nextID := i, ic_conn := s\<rparr>))\<lparr>ic_nextID := j\<rparr>)" for i s j
    by (simp add: supervised_def)
  with d show ?thesis
    using stop_supervised by (auto simp: exchange_def failProtocol_def Let_def prod.case_eq_if
        split: option.split outcome.split)
qed

lemma callSection_supervised:
  assumes "interleaved t sch" "supervised c"
  shows "supervised (snd (callSection t sch op req decode c))"
  using assms exchange_supervised [OF assms]
  by (simp add: callSection_def failProtocol_def prod.case_eq_if split: sum.split option.split)

lemma gone_publishExit [simp]: "gone (publishExit w c)" "supervised (publishExit w c)"
  by (simp_all add: gone_def supervised_def publishExit_def)

lemma awaitExit_cases:
  "gone c \<Longrightarrow> gone (snd (awaitExit sch r c))" "supervised c \<Longrightarrow> supervised (snd (awaitExit sch r c))"
  by (simp_all add: awaitExit_def split: option.split)

lemma gracefulShutdown_cases:
  assumes "interleaved t (sd_exchange sch)" "supervised c"
  shows "supervised (snd (gracefulShutdown t sch c))"
    and "fst (fst (gracefulShutdown t sch c)) = canceled \<or> gone (snd (gracefulShutdown t sch c))"
  using assms exchange_supervised [OF assms(1,2)]
  by (simp_all add: gracefulShutdown_def failProtocol_def Let_def prod.case_eq_if awaitExit_cases
      split: option.split)

lemma shutdown_gone:
  assumes "interleaved t (sd_exchange sch)" "supervised c"
  shows "supervised (shutdown t sch c) \<and> gone (shutdown t sch c)"
  using gracefulShutdown_cases [OF assms]
  by (auto simp: shutdown_def Let_def prod.case_eq_if supervised_def gone_def)

lemma client_preserved: "supervised c \<Longrightarrow> iso_step t c c' \<Longrightarrow> supervised c'"
proof (erule iso_stepE)
  fix ctxErr sch op req decode m and r :: "gerror + unit" and c1 err
  assume "supervised c" "interleaved t sch" "callSection t sch op req decode c = ((m, r), c1)"
    "c' = report op (Observations m) err c1"
  then show ?thesis using callSection_supervised [of t sch c op req decode] by (simp add: supervised_def)
next
  fix w
  assume "supervised c" "ic_exited c = Some w" "c' = finishExit w c"
  then show ?thesis by (simp add: supervised_def finishExit_def Let_def)
qed (auto simp: shutdown_gone dest: background_keeps [unfolded keeps_gate_def])

lemma client_initial: "client_start c \<Longrightarrow> supervised c"
proof -
  assume "client_start c"
  then obtain cfg os where "startProcess cfg os = Inr c" by (auto simp: client_start_def)
  then show ?thesis by (cases os) (auto simp: startProcess_def supervised_def)
qed

interpretation iso: state_machine client_start "iso_step t" supervised for t :: "'s transport"
  by unfold_locales (rule client_initial, assumption, rule client_preserved)

definition frozen :: "gerror \<Rightarrow> 's \<Rightarrow> uint64 \<Rightarrow> 's isoClient \<Rightarrow> bool" where
  "frozen e s n c \<longleftrightarrow> ic_terminal c = Some e \<and> ic_conn c = s \<and> ic_nextID c = n"

lemma shutdown_frozen: "frozen e s n c \<Longrightarrow> frozen e s n (shutdown t sch c)"
  using stop_terminal [of c e]
  by (auto simp: frozen_def shutdown_def gracefulShutdown_def prod.case_eq_if awaitExit_def
      publishExit_def stop_def Let_def split: option.split)

lemma frozen_step: "supervised c \<Longrightarrow> frozen e s n c \<Longrightarrow> iso_step t c c' \<Longrightarrow> frozen e s n c'"
  by (erule iso_stepE)
    (auto simp: frozen_def acquireCheck_def stateError_def finishExit_def Let_def keeps_gate_def
      shutdown_frozen [unfolded frozen_def] dest: background_keeps split: option.splits if_splits)


section \<open>One exchange\<close>

lemma transfer_oversized:
  assumes "transfer t request s = (Fail e, s')" and "errors_is e ErrMetadataTooLarge"
    and w: "\<And>data s n s' e. t_write t data s = ((n, Some e), s') \<Longrightarrow> \<not> errors_is e ErrMetadataTooLarge"
    and r: "\<And>s. \<not> errors_is (ended (t_inbound t s)) ErrMetadataTooLarge"
  shows "s' = s"
proof -
  obtain err s1 where wr: "writeMessage (t_write t) request s = (err, s1)" by fastforce
  show ?thesis
  proof (cases err)
    case None
    with wr assms(1) have "fst (run_state readMessage (t_inbound t s1)) = Fail e"
      by (auto simp: transfer_def split: prod.splits)
    from readMessage_error(2) [OF this] assms(2) r [of s1] show ?thesis by (auto simp: reader_error_def)
  next
    case (Some e')
    with wr assms(1) have "writeMessage (t_write t) request s = (Some e, s')" by (simp add: transfer_def)
    then show ?thesis using assms(2) w by (rule oversized_unsent)
  qed
qed

lemma transfer_no_panic: "fst (transfer t request s) \<noteq> Panic"
  using readMessage_reads by (auto simp: transfer_def split: prod.split option.split) (metis fst_conv)

text \<open>The state in which the result of the sender is handled.\<close>

definition sent_state :: "'s schedule \<Rightarrow> 's isoClient \<Rightarrow> 's \<Rightarrow> 's isoClient" where
  "sent_state sch c s = during sch (c\<lparr>ic_nextID := ic_nextID c + 1, ic_conn := s\<rparr>)"

lemma sent_state_keeps:
  "interleaved t sch \<Longrightarrow> keeps_gate (c\<lparr>ic_nextID := ic_nextID c + 1, ic_conn := s\<rparr>) (sent_state sch c s)"
  unfolding sent_state_def by (rule interleaved_keeps)

lemma exchange_run:
  assumes "interrupted sch = None"
    and "transfer t \<lparr>ID = ic_nextID c + 1, Operation = op, Payload = p, Error = None, Observations = None\<rparr>
      (ic_conn c) = (r, s)"
  shows "exchange t sch op p c = (let c' = sent_state sch c s in case r of
      Panic \<Rightarrow> ((zeroMessage, None), c')
    | Fail e \<Rightarrow> if errors_is e ErrMetadataTooLarge
        then ((zeroMessage, Some e), c'\<lparr>ic_nextID := ic_nextID c' - 1\<rparr>)
        else ((zeroMessage, Some (fst (stop e c'))), snd (stop e c'))
    | Done m \<Rightarrow>
        if ID m \<noteq> ic_nextID c + 1 \<or> Operation m \<noteq> op
        then let (e, c') = failProtocol (ForeignError ''response does not match request'' []) c'
             in ((zeroMessage, Some e), c')
        else case Error m of None \<Rightarrow> ((m, None), c')
          | Some e \<Rightarrow> if errors_is e ErrProtocol then ((m, Some (fst (stop e c'))), snd (stop e c'))
                      else ((m, Some e), c'))"
  using assms
  by (simp add: exchange_def sent_state_def Let_def prod.case_eq_if split: outcome.split option.split)

lemma exchange_success:
  assumes "interleaved t sch" and "exchange t sch op p c = ((m, None), c')"
  shows "ic_nextID c' = ic_nextID c + 1" "ID m = ic_nextID c + 1" "Operation m = op"
proof -
  let ?req = "\<lparr>ID = ic_nextID c + 1, Operation = op, Payload = p, Error = None, Observations = None\<rparr>"
  obtain r s where r: "transfer t ?req (ic_conn c) = (r, s)" by fastforce
  have none: "interrupted sch = None"
    using assms(2) by (auto simp: exchange_def Let_def prod.case_eq_if split: option.splits)
  have "r \<noteq> Panic" using transfer_no_panic [of t ?req "ic_conn c"] r by auto
  with exchange_run [OF none r] assms(2) sent_state_keeps [OF assms(1), where c = c and s = s]
  show "ic_nextID c' = ic_nextID c + 1" "ID m = ic_nextID c + 1" "Operation m = op"
    by (auto simp: Let_def keeps_gate_def failProtocol_def prod.case_eq_if
        split: outcome.splits if_splits option.splits)
qed

text \<open>
  Every exchange ends in one of three ways. The response matches the request's
  identifier and operation, the error is the one it carries, none or an operation error, and
  the client is as the other goroutines left it; or the request exceeds the protocol bounds,
  nothing was sent and the identifier is free again; or the client is terminal, its worker
  killed, and the caller gets the context's error or the terminal error. A transport failure
  or a mismatched response never looks like a result.
\<close>

theorem exchange_outcomes:
  assumes "interleaved t sch" and "exchange t sch op p c = ((m, err), c')"
    and "\<And>data s n s' e. t_write t data s = ((n, Some e), s') \<Longrightarrow> \<not> errors_is e ErrMetadataTooLarge"
    and "\<And>s. \<not> errors_is (ended (t_inbound t s)) ErrMetadataTooLarge"
  shows "(ID m = ic_nextID c + 1 \<and> Operation m = op \<and> Error m = err \<and> \<not> is_protocol err \<and>
      ic_nextID c' = ic_nextID c + 1 \<and> (\<exists>s. c' = sent_state sch c s)) \<or>
    (\<exists>e. err = Some e \<and> errors_is e ErrMetadataTooLarge \<and> m = zeroMessage \<and>
      ic_conn c' = ic_conn c \<and> ic_nextID c' = ic_nextID c) \<or>
    (\<exists>e. err = Some e \<and> ic_killed c' \<and> ic_terminal c' \<noteq> None \<and>
      (ic_terminal c' = Some e \<or> (\<exists>s. interrupted sch = Some (e, s))))"
proof (cases "interrupted sch")
  case (Some es)
  then obtain e s where es: "interrupted sch = Some (e, s)" by (cases es) simp
  then have "err = Some e \<and> c' = snd (stop e (sent_state sch c s))"
    using assms(2) by (auto simp: exchange_def sent_state_def Let_def prod.case_eq_if)
  then show ?thesis using es by auto
next
  case None
  let ?req = "\<lparr>ID = ic_nextID c + 1, Operation = op, Payload = p, Error = None, Observations = None\<rparr>"
  obtain r s where r: "transfer t ?req (ic_conn c) = (r, s)" by fastforce
  note run = exchange_run [OF None r] assms(2)
  note keep = sent_state_keeps [OF assms(1), where c = c and s = s, unfolded keeps_gate_def]
  show ?thesis
  proof (cases r)
    case Panic
    with transfer_no_panic [of t ?req "ic_conn c"] r show ?thesis by simp
  next
    case (Fail e)
    with r have "errors_is e ErrMetadataTooLarge \<Longrightarrow> s = ic_conn c"
      using transfer_oversized [of t ?req "ic_conn c" e s] assms(3,4) by blast
    with run Fail keep show ?thesis by (auto simp: Let_def split: if_splits)
  next
    case (Done resp)
    show ?thesis
    proof (cases "ID resp \<noteq> ic_nextID c + 1 \<or> Operation resp \<noteq> op")
      case True
      with run Done show ?thesis by (auto simp: Let_def failProtocol_def prod.case_eq_if)
    next
      case False
      with run Done keep show ?thesis
        by (cases "Error resp") (auto simp: Let_def is_protocol_def split: if_splits)
    qed
  qed
qed

section \<open>Shutdown and startup\<close>

text \<open>
  C29: A shutdown always ends the worker and saves one result. In whatever state it finds the
  client, when it is done the worker was killed or has exited; the saved result is nil only
  if the worker acknowledged Close, in a matching response without an error and with an
  empty payload, and then exited with status zero.
\<close>

theorem shutdown_reaps_worker:
  assumes "reachable client_start (iso_step t) c" and "interleaved t (sd_exchange sch)"
  shows "(ic_killed (shutdown t sch c) \<or> ic_exited (shutdown t sch c) \<noteq> None) \<and>
    (\<exists>err. ic_closing (shutdown t sch c) = Some (Some err) \<and>
      (err = None \<longrightarrow> ic_exited (shutdown t sch c) = Some None \<and>
        (\<exists>m c1. exchange t (sd_exchange sch) opClose nullPayload c = ((m, None), c1) \<and> isNull (Payload m))))"
proof -
  have "gone (shutdown t sch c)"
    by (rule shutdown_gone [THEN conjunct2, OF assms(2) iso.invariant [OF assms(1)]])
  moreover obtain m e c1 where x: "exchange t (sd_exchange sch) opClose nullPayload c = ((m, e), c1)"
    by (metis surj_pair)
  have "\<exists>err. ic_closing (shutdown t sch c) = Some (Some err) \<and>
      (err = None \<longrightarrow> ic_exited (shutdown t sch c) = Some None \<and> e = None \<and> isNull (Payload m))"
    using x by (auto simp: shutdown_def gracefulShutdown_def canceled_def awaitExit_def publishExit_def
        failProtocol_def Let_def prod.case_eq_if split: option.split)
  ultimately show ?thesis using x by (auto simp: gone_def)
qed

text \<open>
  A failed start leaves no worker behind. When \<^verbatim>\<open>Open\<close> fails, no worker was
  started, or the client is terminal and its worker killed. When it succeeds, the
  configuration was valid, the worker acknowledged exactly that configuration, and the
  client's next request has the identifier 2.
\<close>

theorem isolated_open_no_orphan:
  assumes "Open t sch os cfg = (r, live)" and "interleaved t sch"
  shows "(\<forall>e. r = Inl e \<longrightarrow> (\<forall>c. live = Some c \<longrightarrow> ic_killed c \<and> ic_terminal c \<noteq> None)) \<and>
    (\<forall>c. r = Inr c \<longrightarrow> live = Some c \<and> Config_validate cfg = None \<and> ic_nextID c = 1 \<and>
      (\<exists>payload m c0 c1. encodeConfig (Config_libraryConfig cfg) = Inr payload \<and>
        startProcess cfg os = Inr c0 \<and> exchange t sch opOpen payload c0 = ((m, None), c1) \<and>
        isNull (Payload m)))"
proof (cases "before sch = None \<and> Config_validate cfg = None \<and> encoded sch = None")
  case True
  show ?thesis
  proof (cases "encodeConfig (Config_libraryConfig cfg)")
    case (Inl e)
    with True assms(1) show ?thesis by (auto simp: Open_def)
  next
    case payload: (Inr payload)
    show ?thesis
    proof (cases "startProcess cfg os")
      case (Inl e)
      with True payload assms(1) show ?thesis by (auto simp: Open_def)
    next
      case (Inr c0)
      obtain m err c1 where x: "exchange t sch opOpen payload c0 = ((m, err), c1)" by (metis surj_pair)
      have "ic_nextID c0 = 0" using Inr by (auto simp: startProcess_def split: started.splits)
      then have "err = None \<Longrightarrow> ic_nextID c1 = 1" using exchange_success(1) [OF assms(2)] x by simp
      with True payload Inr x assms(1) show ?thesis
        by (auto simp: Open_def Let_def failProtocol_def prod.case_eq_if split: option.splits if_splits)
    qed
  qed
next
  case False
  with assms(1) show ?thesis by (auto simp: Open_def split: option.splits sum.splits)
qed

section \<open>A silent worker\<close>

text \<open>A connection whose peer never answers, and a caller that is cancelled during its call.\<close>

definition silent_transport :: "bytes transport" where
  "silent_transport = \<lparr>t_write = trickle, t_inbound = (\<lambda>s. \<lparr>pending = [], ended = Sentinel IoEOF, allocated = 0\<rparr>),
     t_consume = (\<lambda>st s. s)\<rparr>"

definition plain :: "'s schedule" where
  "plain = \<lparr>before = None, waiting = id, fired = None, locked = None, encoded = None,
     interrupted = None, during = id\<rparr>"

definition cancelled_call :: "bytes schedule" where
  "cancelled_call = plain\<lparr>interrupted := Some (Sentinel CtxCanceled, ''part'')\<rparr>"

definition sample_client_config :: Config where
  "sample_client_config = \<lparr>cf_TSAURL = None, cf_OCSPURL = None, cf_Proxy = None, cf_EndpointPolicy = None,
     cf_Logger = False, cf_Observer = False, cf_WorkerPath = ''/app'', cf_LibraryPath = ''/lib.so'',
     cf_TrustedCertificates = None, cf_OCSPTimeout = 0, cf_MaxInputSize = 0,
     cf_MaxOutputBufferSize = 0, cf_CustomOCSP = False, cf_AtomicZIPOutput = False\<rparr>"

definition fresh_client :: "'s \<Rightarrow> 's isoClient" where
  "fresh_client s = \<lparr>ic_ready = True, ic_conn = s, ic_conn_closed = False, ic_killed = False,
     ic_exited = None, ic_terminal = None, ic_closing = None, ic_nextID = 0, ic_maxInputSize = 0,
     ic_logger = False, ic_observer = False, ic_reported = [], ic_logged = []\<rparr>"

lemma start_fresh: "client_start (fresh_client s)"
  unfolding client_start_def
  by (intro exI [of _ sample_client_config] exI [of _ "Started s"])
    (simp add: startProcess_def sample_client_config_def fresh_client_def)

lemma interleaved_plain: "interleaved t plain" "interleaved silent_transport cancelled_call"
  by (simp_all add: interleaved_def plain_def cancelled_call_def steps.none)


theorem exchange_outcomes_witness:
  "\<exists>c'. exchange silent_transport cancelled_call opHash nullPayload (fresh_client []) =
      ((zeroMessage, Some (Sentinel CtxCanceled)), c') \<and> ic_killed c' \<and> ic_terminal c' \<noteq> None"
proof -
  obtain m err c' where x: "exchange silent_transport cancelled_call opHash nullPayload (fresh_client []) =
      ((m, err), c')" by (metis surj_pair)
  then have e: "m = zeroMessage" "err = Some (Sentinel CtxCanceled)" "Error m \<noteq> err"
    by (auto simp: exchange_def cancelled_call_def Let_def prod.case_eq_if zeroMessage_def)
  have "ic_killed c' \<and> ic_terminal c' \<noteq> None"
    using exchange_outcomes [OF interleaved_plain(2) x] e
    by (auto simp: silent_transport_def trickle_def)
  with x e show ?thesis by auto
qed

theorem shutdown_reaps_worker_witness:
  "\<exists>sch. ic_killed (shutdown silent_transport sch (fresh_client [])) \<and>
     ic_closing (shutdown silent_transport sch (fresh_client [])) = Some (Some (Some (Sentinel CtxDeadlineExceeded)))"
proof -
  let ?sch = "\<lparr>sd_gate_lost = True, sd_check_lost = False, sd_exchange = plain, sd_exit = None,
    sd_cause = Sentinel CtxDeadlineExceeded\<rparr> :: bytes shutdownSchedule"
  have i: "interleaved silent_transport (sd_exchange ?sch)" by (simp add: interleaved_plain)
  have r: "reachable client_start (iso_step silent_transport) (fresh_client [])"
    by (rule reachable.start) (rule start_fresh)
  show ?thesis
    using shutdown_reaps_worker [OF r i]
    by (intro exI [of _ ?sch]) (simp add: shutdown_cancelled fresh_client_def)
qed

lemma sample_client_config_encoded: "\<exists>p. encodeConfig (Config_libraryConfig sample_client_config) = Inr p"
  by (simp add: encodeConfig_def Config_libraryConfig_def sample_client_config_def e_config_def
      encodeOptional_def e_list_def w_length_def wire_run)

theorem isolated_open_no_orphan_witness:
  "\<exists>e c. Open silent_transport cancelled_call (Started []) sample_client_config = (Inl e, Some c) \<and>
     ic_killed c \<and> ic_terminal c \<noteq> None"
proof -
  obtain p where p: "encodeConfig (Config_libraryConfig sample_client_config) = Inr p"
    using sample_client_config_encoded by blast
  have v: "Config_validate sample_client_config = None"
    by (simp add: Config_validate_def sample_client_config_def bad_path_def IsAbs_def)
  obtain c0 :: "bytes isoClient" where c0: "startProcess sample_client_config (Started []) = Inr c0"
    by (simp add: startProcess_def)
  have "snd (fst (exchange silent_transport cancelled_call opOpen p c0)) = Some (Sentinel CtxCanceled)"
    by (simp add: exchange_def cancelled_call_def Let_def prod.case_eq_if)
  then obtain c where o: "Open silent_transport cancelled_call (Started []) sample_client_config =
      (Inl (Sentinel CtxCanceled), Some c)"
    using p v c0 by (simp add: Open_def Let_def prod.case_eq_if cancelled_call_def plain_def)
  with isolated_open_no_orphan [OF o interleaved_plain(2)] show ?thesis by simp
qed

end
