(* ===== verification/Isolated_Call.thy ===== *)
theory Isolated_Call
  imports Isolated_Client
begin

text \<open>
  The parent and the worker composed: a client of \<^verbatim>\<open>isolated\<close> connected by two pipes
  to the worker's loop. The theorem is the contract of the package: a call in the parent is
  the call of the same method in the worker's SDK session, with the same request, result and
  error, and the two processes stay in step for the next call.
\<close>

section \<open>Pipes\<close>

text \<open>Writers that take everything they are given, and what they leave of a state.\<close>

definition accepting :: "'s writer \<Rightarrow> (bytes \<Rightarrow> 's \<Rightarrow> 's) \<Rightarrow> bool" where
  "accepting write upd \<longleftrightarrow> (\<forall>data s. write data s = ((int (length data), None), upd data s)) \<and>
     (\<forall>s. upd [] s = s) \<and> (\<forall>d1 d2 s. upd d2 (upd d1 s) = upd (d1 @ d2) s)"

definition pipe :: "bytes writer" where
  "pipe data out = ((int (length data), None), out @ data)"

lemma accepting_pipe: "accepting pipe (\<lambda>data out. out @ data)"
  by (simp add: accepting_def pipe_def)

lemma faithful_pipe: "faithful_writer pipe (\<lambda>s. s)"
  by (auto simp: faithful_writer_def pipe_def)

lemma writeAll_accepting: "accepting write upd \<Longrightarrow> writeAll write data s = (None, upd data s)"
  by (subst writeAll.simps) (auto simp: accepting_def writeAll.simps)

lemma writeText_accepting:
  assumes "accepting write upd" "0 < buffer"
  shows "writeText write buffer chars s = (None, upd chars s)"
proof (induction chars arbitrary: s rule: length_induct)
  case (1 data)
  show ?case
  proof (cases "data = []")
    case True
    with assms show ?thesis by (simp add: writeText.simps accepting_def)
  next
    case False
    let ?n = "min buffer (length data)"
    have "length (drop ?n data) < length data" using False assms(2) by (simp add: min_def)
    with 1 have "writeText write buffer (drop ?n data) s' = (None, upd (drop ?n data) s')" for s' by blast
    moreover have "upd (drop ?n data) (upd (take ?n data) s) = upd data s"
      using assms(1) by (simp add: accepting_def)
    ultimately show ?thesis
      using False assms by (subst writeText.simps) (simp add: writeAll_accepting [OF assms(1)] Let_def)
  qed
qed

lemma writeBlocks_accepting:
  assumes "accepting write upd"
  shows "writeBlocks write blocks s = (None, upd (concat (map block_contents blocks)) s)"
proof (induction blocks arbitrary: s)
  case Nil
  with assms show ?case by (simp add: accepting_def)
next
  case (Cons b bs)
  have "upd y (upd x s) = upd (x @ y) s" for x y using assms by (simp add: accepting_def)
  with Cons show ?case
    by (simp add: writeText_accepting [OF assms] writeAll_accepting [OF assms] block_contents_def block_bytes_def)
qed

text \<open>Every such writer gets the bytes that a pipe gets.\<close>

definition frame_error :: "message \<Rightarrow> gerror option" where
  "frame_error msg = fst (writeMessage pipe msg [])"

definition frame_sent :: "message \<Rightarrow> bytes" where
  "frame_sent msg = snd (writeMessage pipe msg [])"

lemma writeMessage_accepting:
  assumes "accepting write upd"
  shows "writeMessage write msg s = (frame_error msg, upd (frame_sent msg) s)"
proof -
  have "upd y (upd x s) = upd (x @ y) s" "upd [] s = s" for x y s using assms by (simp_all add: accepting_def)
  then show ?thesis
    unfolding frame_error_def frame_sent_def writeMessage_def Let_def
    by (simp add: writeAll_accepting [OF assms] writeBlocks_accepting [OF assms]
        writeAll_accepting [OF accepting_pipe] writeBlocks_accepting [OF accepting_pipe])
qed

text \<open>A message that goes through: it fits the bounds of the protocol, and its blocks are slices.\<close>

definition deliverable :: "message \<Rightarrow> bool" where
  "deliverable msg \<longleftrightarrow> frame_error msg = None \<and> list_all block_ok (pblocks (Payload msg)) \<and>
     wf_error 32 (Error msg) \<and>
     (\<forall>b \<in> set (eblocks (exec (e_details msg) (newEncoder 0))). int (block_size b) \<le> maxInt)"

lemma deliverable_read:
  assumes "deliverable msg"
  shows "\<exists>extra a'. (Error msg = None \<longrightarrow> extra = []) \<and>
    run_state readMessage \<lparr>pending = frame_sent msg, ended = eof, allocated = a\<rparr> =
      (Done (msg\<lparr>Payload := \<lparr>metadata = metadata (Payload msg),
         pblocks = map received (pblocks (Payload msg)) @ extra\<rparr>, Error := remote_view 32 (Error msg)\<rparr>),
       \<lparr>pending = [], ended = eof, allocated = a'\<rparr>)"
proof -
  have w: "writeMessage pipe msg [] = (None, frame_sent msg)"
    using assms by (simp add: deliverable_def frame_error_def frame_sent_def prod_eq_iff)
  from frame_read_back [OF faithful_pipe w] assms obtain frame extra where
    f: "frame_sent msg = frame" "Error msg = None \<longrightarrow> extra = []"
    and r: "\<forall>rest eof a. \<exists>a'. run_state readMessage \<lparr>pending = frame @ rest, ended = eof, allocated = a\<rparr> =
      (Done \<lparr>ID = ID msg, Operation = Operation msg,
         Payload = \<lparr>metadata = metadata (Payload msg),
                    pblocks = map received (pblocks (Payload msg)) @ extra\<rparr>,
         Error = remote_view 32 (Error msg), Observations = Observations msg\<rparr>,
       \<lparr>pending = rest, ended = eof, allocated = a'\<rparr>)"
    by (auto simp: deliverable_def)
  from r [THEN spec, of "[]", THEN spec, of eof, THEN spec, of a] f show ?thesis
    by (intro exI [of _ extra]) (cases msg; simp)
qed

section \<open>The linked processes\<close>

text \<open>The parent's writer appends to the worker's standard input.\<close>

definition feed :: "bytes \<Rightarrow> ('c, 'w, 's) server \<Rightarrow> ('c, 'w, 's) server" where
  "feed data s = s\<lparr>sv_input := (sv_input s)\<lparr>pending := pending (sv_input s) @ data\<rparr>\<rparr>"

text \<open>One request through the worker's loop, by its goroutines and its cases.\<close>

definition serve_turn :: "('c, 'w) workerLibrary \<Rightarrow> ('c, 'w, bytes) server \<Rightarrow> ('c, 'w, bytes) server" where
  "serve_turn lib s =
     (let s = goRead s in case sv_incoming s of None \<Rightarrow> s
      | Some r \<Rightarrow> let s = goExecute lib (onRead r s) in (case sv_pending s of
          Some (Finished r) \<Rightarrow> let s = goWrite pipe (onResult r s) in (case sv_writing s of
            Some (Written err) \<Rightarrow> onWritten err s | _ \<Rightarrow> s)
        | _ \<Rightarrow> s))"

definition link :: "('c, 'w) workerLibrary \<Rightarrow> ('c, 'w, bytes) server transport" where
  "link lib = \<lparr>t_write = (\<lambda>data s. ((int (length data), None), feed data s)),
     t_inbound = (\<lambda>s. \<lparr>pending = sv_output (serve_turn lib s), ended = Sentinel IoEOF, allocated = 0\<rparr>),
     t_consume = (\<lambda>st s. (serve_turn lib s)\<lparr>sv_output := pending st\<rparr>)\<rparr>"

lemma accepting_link: "accepting (t_write (link lib)) feed"
  by (simp add: accepting_def link_def feed_def)

definition idle_worker :: "('c, 'w, bytes) server \<Rightarrow> bool" where
  "idle_worker s \<longleftrightarrow> sv_incoming s = None \<and> \<not> sv_reader_done s \<and> sv_pending s = None \<and>
     sv_next s = None \<and> sv_writing s = None \<and> \<not> sv_quit s \<and> sv_returned s = None \<and>
     pending (sv_input s) = [] \<and> sv_output s = []"

definition in_sync :: "('c, 'w, bytes) server isoClient \<Rightarrow> bool" where
  "in_sync c \<longleftrightarrow> ic_ready c \<and> stateError c = None \<and> idle_worker (ic_conn c) \<and>
     sv_client (ic_conn c) \<noteq> None \<and> sv_expected (ic_conn c) = ic_nextID c + 1"

text \<open>A turn is a run of the worker's step relation.\<close>

lemma goExecute_finishes:
  "sv_pending s = Some (Running m c) \<Longrightarrow> \<exists>r. sv_pending (goExecute lib s) = Some (Finished r) \<and>
     sv_returned (goExecute lib s) = sv_returned s"
  by (simp add: goExecute_def prod.case_eq_if)

lemma goWrite_finishes:
  "sv_writing s = Some (Writing m) \<Longrightarrow> \<exists>e. sv_writing (goWrite wr s) = Some (Written e) \<and>
     sv_returned (goWrite wr s) = sv_returned s"
  by (simp add: goWrite_def prod.case_eq_if)

lemma onRead_pending:
  "sv_pending s = None \<Longrightarrow> sv_returned s = None \<Longrightarrow>
     sv_pending (onRead r s) = None \<or>
     (\<exists>m c. sv_pending (onRead r s) = Some (Running m c)) \<and> sv_returned (onRead r s) = None"
  by (simp add: onRead_def Let_def split: outcome.split)

lemma serve_turn_steps:
  assumes "idle_worker s"
  shows "steps (serve_step lib pipe) s (serve_turn lib s)"
proof -
  note more = steps.more [where step = "serve_step lib pipe"]
  let ?s1 = "goRead s"
  obtain r where r: "sv_incoming ?s1 = Some r" by (simp add: goRead_def prod.case_eq_if)
  have s1: "sv_pending ?s1 = None" "sv_returned ?s1 = None"
    using assms by (simp_all add: goRead_def idle_worker_def prod.case_eq_if Let_def)
  let ?s2 = "onRead r ?s1"
  have "steps (serve_step lib pipe) s ?s1"
    by (rule more [OF steps.none serve_step.reader]) (use assms in \<open>simp_all add: idle_worker_def\<close>)
  then have s2: "steps (serve_step lib pipe) s ?s2" by (rule more) (rule serve_step.incoming [OF s1(2) r])
  show ?thesis
  proof (cases "sv_pending ?s2")
    case None
    then have "serve_turn lib s = ?s2" using r by (simp add: serve_turn_def Let_def goExecute_def)
    with s2 show ?thesis by simp
  next
    case (Some x)
    with onRead_pending [OF s1, of r] obtain m c where m: "sv_pending ?s2 = Some (Running m c)"
      and ret2: "sv_returned ?s2 = None" by auto
    let ?s3 = "goExecute lib ?s2"
    obtain q where q: "sv_pending ?s3 = Some (Finished q)" "sv_returned ?s3 = None"
      using goExecute_finishes [OF m] ret2 by auto
    have s3: "steps (serve_step lib pipe) s ?s3" by (rule more [OF s2]) (rule serve_step.executor [OF m])
    let ?s4 = "onResult q ?s3"
    have s4: "steps (serve_step lib pipe) s ?s4" by (rule more [OF s3]) (rule serve_step.pending [OF q(2,1)])
    have w4: "sv_writing ?s4 = Some (Writing (or_message q))" "sv_returned ?s4 = None"
      using q by (simp_all add: onResult_def)
    obtain e where e: "sv_writing (goWrite pipe ?s4) = Some (Written e)" "sv_returned (goWrite pipe ?s4) = None"
      using goWrite_finishes [OF w4(1)] w4(2) by auto
    have "steps (serve_step lib pipe) s (goWrite pipe ?s4)" by (rule more [OF s4]) (rule serve_step.writer [OF w4(1)])
    then have "steps (serve_step lib pipe) s (onWritten e (goWrite pipe ?s4))"
      by (rule more) (rule serve_step.written [OF e(2,1)])
    then show ?thesis using r q e by (simp add: serve_turn_def Let_def)
  qed
qed

section \<open>One request through the worker\<close>

definition ok_response :: "message \<Rightarrow> wirePayload \<Rightarrow> gerror option \<Rightarrow> 'w workerHost \<Rightarrow> message" where
  "ok_response msg q err h = \<lparr>ID = ID msg, Operation = Operation msg, Payload = q, Error = err,
     Observations = collected h\<rparr>"

lemma execute_default:
  assumes "Operation m \<noteq> opOpen" "Operation m \<noteq> opClose"
    and "executeDefault lib (Operation m) (Payload m) client h = ((q, err), h1)"
  shows "execute lib m client h = (\<lparr>or_message = ok_response m q err h1, or_client = client,
      or_quit = is_protocol err\<rparr>, h1\<lparr>collected := None\<rparr>)"
  using assms by (simp add: execute_def take_observations_def ok_response_def)

lemma writeResponse_deliverable:
  "deliverable msg \<Longrightarrow> writeResponse pipe msg out = (None, out @ frame_sent msg)"
  by (simp add: writeResponse_def writeMessage_accepting [OF accepting_pipe] deliverable_def)

lemma serve_turn_request:
  fixes s :: "('c, 'w, bytes) server"
  assumes idle: "idle_worker s" and cl: "sv_client s = Some sess" and exp: "sv_expected s = ID msg"
    and msg: "deliverable msg" "Error msg = None" "Observations msg = None"
      "Operation msg \<noteq> opOpen" "Operation msg \<noteq> opClose"
    and ex: "executeDefault lib (Operation msg) (transported (Payload msg)) (Some sess) (sv_host s) = ((q, err), h1)"
    and resp: "\<not> is_protocol err" "deliverable (ok_response msg q err h1)"
  shows "\<exists>t. serve_turn lib (feed (frame_sent msg) s) = t\<lparr>sv_output := frame_sent (ok_response msg q err h1)\<rparr> \<and>
    idle_worker t \<and> sv_client t = Some sess \<and> sv_expected t = ID msg + 1 \<and>
    sv_host t = h1\<lparr>collected := None\<rparr> \<and> sv_output t = []"
proof -
  let ?m = "msg\<lparr>Payload := transported (Payload msg)\<rparr>" and ?s = "feed (frame_sent msg) s"
  let ?r = "ok_response msg q err h1"
  define i where "i = sv_input s"
  have i: "sv_input s = \<lparr>pending = [], ended = ended i, allocated = allocated i\<rparr>"
    using idle by (cases "sv_input s") (simp add: idle_worker_def i_def)
  obtain a' where rd: "run_state readMessage \<lparr>pending = frame_sent msg, ended = ended i, allocated = allocated i\<rparr> =
      (Done ?m, \<lparr>pending = [], ended = ended i, allocated = a'\<rparr>)"
    using deliverable_read [OF msg(1), of "ended i" "allocated i"] msg(2)
    by (cases msg) (auto simp: transported_def)
  let ?in = "\<lparr>pending = [], ended = ended i, allocated = a'\<rparr>"
  have 1: "goRead ?s = s\<lparr>sv_input := ?in, sv_incoming := Some (Done ?m)\<rparr>"
    using i rd idle by (simp add: goRead_def feed_def idle_worker_def)
  let ?s2 = "s\<lparr>sv_input := ?in, sv_expected := ID msg + 1, sv_accepted := sv_accepted s @ [?m],
      sv_pending := Some (Running ?m (Some sess))\<rparr>"
  have 2: "onRead (Done ?m) (goRead ?s) = ?s2"
    unfolding 1 using idle cl exp msg by (simp add: onRead_def idle_worker_def)
  let ?o = "\<lparr>or_message = ?r, or_client = Some sess, or_quit = False\<rparr>"
  have "execute lib ?m (Some sess) (sv_host s) = (?o, h1\<lparr>collected := None\<rparr>)"
    using execute_default [of ?m lib "Some sess" "sv_host s" q err h1] ex msg resp(1)
    by (simp add: ok_response_def)
  then have 3: "goExecute lib ?s2 = ?s2\<lparr>sv_pending := Some (Finished ?o), sv_host := h1\<lparr>collected := None\<rparr>\<rparr>"
    by (simp add: goExecute_def)
  let ?t = "?s2\<lparr>sv_pending := None, sv_host := h1\<lparr>collected := None\<rparr>, sv_answered := sv_answered s @ [?r]\<rparr>"
  have 4: "onResult ?o (goExecute lib ?s2) = ?t\<lparr>sv_writing := Some (Writing ?r)\<rparr>"
    unfolding 3 using cl idle by (simp add: onResult_def idle_worker_def)
  have 5: "goWrite pipe (?t\<lparr>sv_writing := Some (Writing ?r)\<rparr>) =
      ?t\<lparr>sv_writing := Some (Written None), sv_output := frame_sent ?r\<rparr>"
    using idle by (simp add: goWrite_def writeResponse_deliverable [OF resp(2)] idle_worker_def)
  have 6: "onWritten None (?t\<lparr>sv_writing := Some (Written None), sv_output := frame_sent ?r\<rparr>) =
      ?t\<lparr>sv_output := frame_sent ?r\<rparr>"
    using idle by (simp add: onWritten_def idle_worker_def)
  have turn: "serve_turn lib ?s = ?t\<lparr>sv_output := frame_sent ?r\<rparr>"
  proof -
    have in1: "sv_incoming (goRead ?s) = Some (Done ?m)" unfolding 1 by simp
    have p3: "sv_pending (goExecute lib ?s2) = Some (Finished ?o)" unfolding 3 by simp
    show ?thesis
      unfolding serve_turn_def Let_def in1 option.case 2 p3 execution.case 4 5
      using 6 by simp
  qed
  show ?thesis
    using turn idle cl by (intro exI [of _ ?t]) (simp add: idle_worker_def)
qed

lemma transfer_request:
  fixes s :: "('c, 'w, bytes) server"
  assumes "idle_worker s" "sv_client s = Some sess" "sv_expected s = ID msg"
    and "deliverable msg" "Error msg = None" "Observations msg = None"
      "Operation msg \<noteq> opOpen" "Operation msg \<noteq> opClose"
    and "executeDefault lib (Operation msg) (transported (Payload msg)) (Some sess) (sv_host s) = ((q, err), h1)"
    and "\<not> is_protocol err" "deliverable (ok_response msg q err h1)"
  shows "\<exists>t extra. transfer (link lib) msg s = (Done ((ok_response msg q err h1)\<lparr>Payload :=
        \<lparr>metadata = metadata q, pblocks = map received (pblocks q) @ extra\<rparr>, Error := remote_view 32 err\<rparr>), t) \<and>
    (err = None \<longrightarrow> extra = []) \<and> idle_worker t \<and> sv_client t = Some sess \<and> sv_expected t = ID msg + 1 \<and>
    sv_host t = h1\<lparr>collected := None\<rparr>"
proof -
  let ?r = "ok_response msg q err h1"
  obtain t where t: "serve_turn lib (feed (frame_sent msg) s) = t\<lparr>sv_output := frame_sent ?r\<rparr>"
    "idle_worker t" "sv_client t = Some sess" "sv_expected t = ID msg + 1"
    "sv_host t = h1\<lparr>collected := None\<rparr>" "sv_output t = []"
    using serve_turn_request [OF assms] by blast
  obtain extra a where r: "err = None \<longrightarrow> extra = []"
    "run_state readMessage \<lparr>pending = frame_sent ?r, ended = Sentinel IoEOF, allocated = 0\<rparr> =
      (Done (?r\<lparr>Payload := \<lparr>metadata = metadata q, pblocks = map received (pblocks q) @ extra\<rparr>,
         Error := remote_view 32 err\<rparr>), \<lparr>pending = [], ended = Sentinel IoEOF, allocated = a\<rparr>)"
    using deliverable_read [OF assms(11), of "Sentinel IoEOF" 0] by (auto simp: ok_response_def)
  have w: "writeMessage (t_write (link lib)) msg s = (None, feed (frame_sent msg) s)"
    unfolding writeMessage_accepting [OF accepting_link] using assms(4) by (simp add: deliverable_def)
  have "t\<lparr>sv_output := []\<rparr> = t" using t(6) by (cases t) simp
  with w t r show ?thesis
    by (intro exI [of _ t] exI [of _ extra]) (simp add: transfer_def link_def)
qed

section \<open>A call is the worker's call\<close>

lemma request_operation: "request_type op req \<Longrightarrow> op \<noteq> opOpen \<and> op \<noteq> opClose"
  by (induction rule: request_type.induct) (simp_all add: op_defs)

lemma answer_void: "result_type op v out \<Longrightarrow> void_operation op \<Longrightarrow> v = ResNil"
  by (induction rule: result_type.induct) (simp_all add: void_operation_def op_defs)

text \<open>The outcome of the SDK's method as the worker reports it.\<close>

definition method_payload :: "gostring \<Rightarrow> gerror + result \<Rightarrow> wirePayload" where
  "method_payload op res = (case res of Inl e \<Rightarrow> nullPayload
     | Inr v \<Rightarrow> (case encodeResult v of Inl e \<Rightarrow> nullPayload | Inr q \<Rightarrow> q))"

definition method_error :: "gerror + result \<Rightarrow> gerror option" where
  "method_error res = (case res of Inl e \<Rightarrow> Some e | Inr v \<Rightarrow> None)"

lemma executeDefault_request:
  assumes "request_type op req" "wf_request req" "encodeRequest op req limit = Inr p"
    and m: "call_method lib sess op (request_view req) (sdk h) = (res, obs, w)"
    and ok: "\<And>v. res = Inr v \<Longrightarrow> \<exists>q out. result_type op v out \<and> encodeResult v = Inr q"
  shows "executeDefault lib op (transported p) (Some sess) h =
    ((method_payload op res, method_error res), after_call (Called op (request_view req)) obs w h)"
proof -
  have d: "dispatch (callMethod lib sess) op (transported p) h =
      answer op (res, after_call (Called op (request_view req)) obs w h)"
    using request_roundtrip_aux [OF assms(1-3), of "callMethod lib sess" h] m by (simp add: callMethod_def)
  show ?thesis
  proof (cases res)
    case (Inl e)
    then show ?thesis by (simp add: executeDefault_def d answer_def method_payload_def method_error_def)
  next
    case (Inr v)
    with ok obtain q out where v: "result_type op v out" "encodeResult v = Inr q" by blast
    then have "(if void_operation op then ResNil else v) = v" using answer_void by auto
    with Inr v show ?thesis
      by (simp add: executeDefault_def d answer_def method_payload_def method_error_def)
  qed
qed

definition request_message :: "gostring \<Rightarrow> wirePayload \<Rightarrow> 's isoClient \<Rightarrow> message" where
  "request_message op p c = \<lparr>ID = ic_nextID c + 1, Operation = op, Payload = p, Error = None,
     Observations = None\<rparr>"

lemma in_syncI:
  assumes "in_sync c" "idle_worker t" "sv_client t \<noteq> None" "sv_expected t = ic_nextID c + 1 + 1"
  shows "in_sync (report op obs err (c\<lparr>ic_nextID := ic_nextID c + 1, ic_conn := t\<rparr>))"
  using assms by (auto simp: in_sync_def stateError_def split: if_splits option.splits)

lemma plain_simps [simp]: "encoded plain = None" "interrupted plain = None" "during plain = id"
  by (simp_all add: plain_def)

lemma exchange_matched:
  assumes "transfer t (request_message op p c) (ic_conn c) = (Done m, s)"
    and "ID m = ic_nextID c + 1" "Operation m = op"
  shows "exchange t plain op p c = (let c' = c\<lparr>ic_nextID := ic_nextID c + 1, ic_conn := s\<rparr> in
    case Error m of None \<Rightarrow> ((m, None), c')
    | Some e \<Rightarrow> if errors_is e ErrProtocol then ((m, Some (fst (stop e c'))), snd (stop e c')) else ((m, Some e), c'))"
  by (simp add: exchange_run [OF plain_simps(2) assms(1) [unfolded request_message_def]] assms(2,3)
      sent_state_def Let_def)

lemma remote_identity:
  assumes "fits_depth 32 (Some e)"
  shows "\<exists>e'. remote_view 32 (Some e) = Some e' \<and> error_text e' = error_text e \<and>
    ErrorCodeOf e' = ErrorCodeOf e \<and> (\<forall>s \<in> set errorSentinels. errors_is e' s \<longleftrightarrow> errors_is e s)"
proof -
  have "\<exists>e'. remote_view 32 (Some e) = Some e' \<and> error_text e' = error_text e"
    by (simp add: numeral_eq_Suc remoteError_def)
  with remote_is remote_code assms show ?thesis by blast
qed

lemma deliverable_fits: "deliverable msg \<Longrightarrow> fits_depth 32 (Error msg)"
proof -
  assume d: "deliverable msg"
  let ?E = "exec (e_details msg) (newEncoder 0)"
  let ?e1 = "exec (each (\<lambda>block. do { _ \<leftarrow> e_add block; ret () }) (pblocks (Payload msg))) (newEncoder 0)"
  have w: "writeMessage pipe msg [] = (None, frame_sent msg)"
    using d by (simp add: deliverable_def frame_error_def frame_sent_def prod_eq_iff)
  have "werr ?E = None" by (rule writeMessage_sent(1) [OF faithful_pipe w refl])
  then have "enc_le (exec (e_observations (Observations msg)) (exec (encodeError (Error msg) 0) ?e1)) ?E"
    by (simp add: e_details_def enc_le_def)
  from codec_atD(1) [OF codec_observations this]
  have "werr (exec (encodeError (Error msg) 0) ?e1) = None" by (simp add: enc_le_def)
  then show ?thesis unfolding encodeError_def by (simp add: encode_fits)
qed

lemma sdk_after_call [simp]: "sdk (after_call x obs w h) = w"
proof -
  have "sdk (fold append_observation obs g) = sdk g" for g :: "'a workerHost"
    by (induction obs arbitrary: g) (simp_all add: append_observation_def)
  then show ?thesis by (simp add: after_call_def)
qed

text \<open>The exchange of a call, with the response as the parent reads it.\<close>

lemma exchange_request:
  fixes c :: "('c, 'w, bytes) server isoClient"
  assumes "in_sync c" and "sv_client (ic_conn c) = Some sess"
    and "request_type op req" and "wf_request req" and "encodeRequest op req limit = Inr p"
    and "deliverable (request_message op p c)"
    and "call_method lib sess op (request_view req) (sdk (sv_host (ic_conn c))) = (res, obs, w)"
    and "\<And>v. res = Inr v \<Longrightarrow> \<exists>q out. result_type op v out \<and> encodeResult v = Inr q"
    and "\<not> is_protocol (method_error res)"
    and "deliverable (ok_response (request_message op p c) (method_payload op res) (method_error res)
      (after_call (Called op (request_view req)) obs w (sv_host (ic_conn c))))"
  obtains m t where "Error m = remote_view 32 (method_error res)"
    "method_error res = None \<longrightarrow> Payload m = transported (method_payload op res)"
    "exchange (link lib) plain op p c = (let c' = c\<lparr>ic_nextID := ic_nextID c + 1, ic_conn := t\<rparr> in
      case Error m of None \<Rightarrow> ((m, None), c')
      | Some e \<Rightarrow> if errors_is e ErrProtocol then ((m, Some (fst (stop e c'))), snd (stop e c')) else ((m, Some e), c'))"
    "\<forall>op o' e'. in_sync (report op o' e' (c\<lparr>ic_nextID := ic_nextID c + 1, ic_conn := t\<rparr>))"
    "sdk (sv_host t) = w" "calls (sv_host t) = calls (sv_host (ic_conn c)) @ [Called op (request_view req)]"
proof -
  let ?s = "ic_conn c" and ?msg = "request_message op p c"
  let ?h = "after_call (Called op (request_view req)) obs w (sv_host ?s)"
  let ?q = "method_payload op res" and ?err = "method_error res"
  have sync: "idle_worker ?s" "sv_expected ?s = ID ?msg"
    using assms(1) by (simp_all add: in_sync_def request_message_def)
  have ops: "Operation ?msg \<noteq> opOpen" "Operation ?msg \<noteq> opClose"
    using request_operation [OF assms(3)] by (simp_all add: request_message_def)
  have ex: "executeDefault lib (Operation ?msg) (transported (Payload ?msg)) (Some sess) (sv_host ?s) = ((?q, ?err), ?h)"
    using executeDefault_request [OF assms(3,4,5,7,8)] by (simp add: request_message_def)
  obtain t extra where t: "transfer (link lib) ?msg ?s = (Done ((ok_response ?msg ?q ?err ?h)\<lparr>Payload :=
        \<lparr>metadata = metadata ?q, pblocks = map received (pblocks ?q) @ extra\<rparr>, Error := remote_view 32 ?err\<rparr>), t)"
    and extra: "?err = None \<longrightarrow> extra = []"
    and tw: "idle_worker t" "sv_client t = Some sess" "sv_expected t = ID ?msg + 1" "sv_host t = ?h\<lparr>collected := None\<rparr>"
    using transfer_request [OF sync(1) assms(2) sync(2) assms(6) _ _ ops ex assms(9,10)]
    by (auto simp: request_message_def)
  let ?m = "(ok_response ?msg ?q ?err ?h)\<lparr>Payload :=
        \<lparr>metadata = metadata ?q, pblocks = map received (pblocks ?q) @ extra\<rparr>, Error := remote_view 32 ?err\<rparr>"
  have m: "ID ?m = ic_nextID c + 1" "Operation ?m = op" "Error ?m = remote_view 32 ?err"
    "?err = None \<longrightarrow> Payload ?m = transported ?q"
    using extra by (simp_all add: ok_response_def request_message_def transported_def)
  have n: "\<forall>op o' e'. in_sync (report op o' e' (c\<lparr>ic_nextID := ic_nextID c + 1, ic_conn := t\<rparr>))"
    using tw by (intro allI in_syncI [OF assms(1)]) (simp_all add: request_message_def)
  have h: "sdk (sv_host t) = w" "calls (sv_host t) = calls (sv_host ?s) @ [Called op (request_view req)]"
    using tw(4) by simp_all
  show thesis by (rule that [OF m(3,4) exchange_matched [OF t m(1,2)] n h])
qed

text \<open>
  C1: A call on an isolated client is the call of the same method in the worker. For a client
  in step with an idle worker, a well-formed request of the method's type that fits the
  protocol, and a method whose answer fits, the call returns what the worker's SDK session
  returned: the same result (certificates as raw bytes, zero instants in UTC), or an error
  with the same text, the same native code and the same sentinels. The session's method was
  called exactly once, with the caller's request, and the client and the worker are in step
  again for the next call.
\<close>

theorem isolated_call_transparent:
  assumes "in_sync c" and "sv_client (ic_conn c) = Some sess"
    and "request_type op req" and "wf_request req" and "encodeRequest op req (ic_maxInputSize c) = Inr p"
    and "deliverable (request_message op p c)"
    and "call_method lib sess op (request_view req) (sdk (sv_host (ic_conn c))) = (res, obs, w)"
    and "\<And>v. res = Inr v \<Longrightarrow> result_type op v out \<and> wf_result v \<and> (\<exists>q. encodeResult v = Inr q)"
    and "\<And>e. res = Inl e \<Longrightarrow> \<not> errors_is e ErrProtocol"
    and "deliverable (ok_response (request_message op p c) (method_payload op res) (method_error res)
      (after_call (Called op (request_view req)) obs w (sv_host (ic_conn c))))"
    and "callResult (link lib) plain out op req c = (r, c')"
  shows "(\<forall>v. res = Inr v \<longrightarrow> r = Inr (result_view v)) \<and>
    (\<forall>e. res = Inl e \<longrightarrow> (\<exists>e'. r = Inl e' \<and> error_text e' = error_text e \<and>
      ErrorCodeOf e' = ErrorCodeOf e \<and> (\<forall>s \<in> set errorSentinels. errors_is e' s \<longleftrightarrow> errors_is e s))) \<and>
    in_sync c' \<and> sdk (sv_host (ic_conn c')) = w \<and>
    calls (sv_host (ic_conn c')) = calls (sv_host (ic_conn c)) @ [Called op (request_view req)]"
proof -
  have np: "\<not> is_protocol (method_error res)"
    using assms(9) by (simp add: is_protocol_def method_error_def split: sum.split)
  have ok: "\<exists>q out. result_type op v out \<and> encodeResult v = Inr q" if "res = Inr v" for v
    using assms(8) [OF that] by blast
  obtain m t where m: "Error m = remote_view 32 (method_error res)"
      "method_error res = None \<longrightarrow> Payload m = transported (method_payload op res)"
    and run: "exchange (link lib) plain op p c = (let c' = c\<lparr>ic_nextID := ic_nextID c + 1, ic_conn := t\<rparr> in
      case Error m of None \<Rightarrow> ((m, None), c')
      | Some e \<Rightarrow> if errors_is e ErrProtocol then ((m, Some (fst (stop e c'))), snd (stop e c')) else ((m, Some e), c'))"
    and after: "\<forall>op o' e'. in_sync (report op o' e' (c\<lparr>ic_nextID := ic_nextID c + 1, ic_conn := t\<rparr>))"
      "sdk (sv_host t) = w" "calls (sv_host t) = calls (sv_host (ic_conn c)) @ [Called op (request_view req)]"
    by (rule exchange_request [OF assms(1-7) ok np assms(10)])
  have acq: "acquire plain c = (None, c)" "ic_ready c"
    using assms(1) by (simp_all add: in_sync_def acquire_def plain_def acquireCheck_def)
  show ?thesis
  proof (cases res)
    case (Inr v)
    with assms(8) obtain q where v: "result_type op v out" "wf_result v" "encodeResult v = Inr q" by blast
    have q: "Error m = None" "Payload m = transported q"
      using Inr v m by (simp_all add: method_payload_def method_error_def)
    then have "r = Inr (result_view v) \<and> c' = report op (Observations m) None (c\<lparr>ic_nextID := ic_nextID c + 1, ic_conn := t\<rparr>)"
      using assms(5,11) acq run result_roundtrip_aux [OF v]
      by (simp add: callResult_def call_def callSection_def)
    with Inr after show ?thesis by simp
  next
    case (Inl e)
    then have err: "method_error res = Some e" by (simp add: method_error_def)
    have "fits_depth 32 (Some e)"
      using deliverable_fits [OF assms(10)] err by (simp add: ok_response_def)
    from remote_identity [OF this] obtain e' where e': "Error m = Some e'"
      "error_text e' = error_text e" "ErrorCodeOf e' = ErrorCodeOf e"
      "\<forall>s \<in> set errorSentinels. errors_is e' s \<longleftrightarrow> errors_is e s"
      using m(1) unfolding err by metis
    then have "\<not> errors_is e' ErrProtocol" using assms(9) [OF Inl] by (simp add: errorSentinels_def)
    then have "r = Inl e' \<and> c' = report op (Observations m) (Some e') (c\<lparr>ic_nextID := ic_nextID c + 1, ic_conn := t\<rparr>)"
      using assms(5,11) acq run e'(1)
      by (simp add: callResult_def call_def callSection_def)
    with Inl after e' show ?thesis by auto
  qed
qed

section \<open>A hash request through both processes\<close>

definition digest_library :: "(unit, nat) workerLibrary" where
  "digest_library = \<lparr>factory = (\<lambda>cfg b w. ((Some (), None), [], w)),
     call_method = (\<lambda>c op req w. (Inr (ResDigest None), [], Suc w)), closeSession = (\<lambda>c w. (None, [], w))\<rparr>"

definition open_client :: "(unit, nat, bytes) server isoClient" where
  "open_client = fresh_client ((start_server \<lparr>pending = [], ended = Sentinel IoEOF, allocated = 0\<rparr> 0 [])\<lparr>sv_client := Some ()\<rparr>)"

abbreviation hash_payload :: wirePayload where
  "hash_payload \<equiv> \<lparr>metadata = be_bytes 8 0 @ be_bytes 4 (Suc 0) @ be_bytes 4 0 @ be_bytes 8 (Suc 0) @
        [CHR 0x00, CHR 0x01], pblocks = [\<lparr>bdata = Some ''ab'', btext = []\<rparr>]\<rparr>"

lemma plain_details:
  assumes "Error msg = None" "Observations msg = None"
  shows "exec (e_details msg) (newEncoder 0) =
    (let e = exec (each (\<lambda>block. do { _ \<leftarrow> e_add block; ret () }) (pblocks (Payload msg))) (newEncoder 0)
     in exec (w_uint32 0) (exec (w_boolean False) e))"
  using assms by (simp add: e_details_def encodeError_def encode_None e_observations_def e_list_def w_length_def Let_def)

lemma small_room:
  assumes "unat (hs :: uint64) \<le> 3000" "unat n \<le> 1000"
  shows "\<not> n > word_of_nat maxUint64 - hs - 4"
proof -
  let ?m = "word_of_nat maxUint64 :: uint64"
  have m: "unat ?m = 2 ^ 64 - 1" by (simp add: maxUint64_def unat64_of_nat)
  have "hs \<le> ?m" using m assms by (simp add: word_le_nat_alt)
  then have s1: "unat (?m - hs) = 2 ^ 64 - 1 - unat hs" by (simp only: unat_sub m)
  then have "4 \<le> ?m - hs" using assms by (simp add: word_le_nat_alt)
  then have "unat (?m - hs - 4) = 2 ^ 64 - 1 - unat hs - 4" by (simp add: unat_sub s1)
  with assms show ?thesis by (simp add: word_less_nat_alt)
qed

lemma small_frame:
  assumes "Error msg = None" "Observations msg = None" "length (metadata (Payload msg)) \<le> 1000"
    "length (Operation msg) \<le> 1000" 
    "pblocks (Payload msg) = [] \<or> (\<exists>b. pblocks (Payload msg) = [b] \<and> block_ok b \<and> block_size b \<le> 1000)"
  shows "deliverable msg"
proof -
  define bs where "bs = pblocks (Payload msg)"
  define n where "n = sum_list (map block_size bs)"
  have bs: "length bs \<le> 1" "n \<le> 1000" using assms(5) by (auto simp: bs_def n_def)
  have E: "exec (e_details msg) (newEncoder 0) = (newEncoder 0)\<lparr>wdata := [CHR 0x00] @ be_bytes 4 0, eblocks := bs, esize := word_of_nat n\<rparr>"
    unfolding plain_details [OF assms(1,2)] using assms(5) by (auto simp: wire_run run_add bs_def n_def)
  let ?E = "(newEncoder 0)\<lparr>wdata := [CHR 0x00] @ be_bytes 4 0, eblocks := bs, esize := word_of_nat n\<rparr>"
  let ?H = "exec (w_header msg ?E) \<lparr>wdata = [], werr = None\<rparr>"
  have H: "werr ?H = None \<and> length (wdata ?H) \<le> 3000"
    using assms(3,4,5) by (auto simp: w_header_def w_text_raw writer_defs maxMetadataSize_def newEncoder_def bs_def)
  let ?hs = "word_of_nat (length (wdata ?H)) :: uint64"
  have hs: "unat ?hs \<le> 3000" "unat (word_of_nat n :: uint64) = n"
    using H bs by (simp_all add: unat64_of_nat)
  have room: "\<not> word_of_nat n > word_of_nat maxUint64 - ?hs - 4"
    using hs bs by (intro small_room) simp_all
  have "int (unat ?hs) = uint ?hs" by simp
  then have "uint ?hs \<le> 3000" using hs(1) by linarith
  then have "frame_error msg = None"
    unfolding frame_error_def writeMessage_def E Let_def
    using H hs bs room assms(3)
    by (simp add: writeAll_accepting [OF accepting_pipe] writeBlocks_accepting [OF accepting_pipe]
        newEncoder_def maxMetadataSize_def maxBlocks_def bs_def)
  moreover have "\<forall>b \<in> set (eblocks ?E). int (block_size b) \<le> maxInt"
    using assms(5) by (auto simp: bs_def maxInt_def newEncoder_def)
  moreover have "list_all block_ok (pblocks (Payload msg))" using assms(5) by auto
  ultimately show ?thesis unfolding deliverable_def E using assms(1) by (simp add: wf_error_None)
qed


lemma open_client_sync: "in_sync open_client"
  by (simp add: in_sync_def open_client_def fresh_client_def stateError_def start_server_def idle_worker_def)

theorem isolated_call_transparent_witness:
  "\<exists>c'. callResult (link digest_library) plain OutDigest opHash sample_hash open_client = (Inr (ResDigest None), c') \<and>
     in_sync c' \<and> sdk (sv_host (ic_conn c')) = 1 \<and> calls (sv_host (ic_conn c')) = [Called opHash sample_hash]"
proof -
  let ?c = open_client and ?msg = "request_message opHash hash_payload open_client"
  let ?h = "after_call (Called opHash sample_hash) [] 1 (sv_host (ic_conn open_client))"
  have t: "request_type opHash sample_hash" unfolding sample_hash_def by (rule request_type.intros)
  have wf: "wf_request sample_hash" "request_view sample_hash = sample_hash"
    by (simp_all add: sample_hash_def wf_source_def Bytes_def zeroSource_def)
  have enc: "encodeRequest opHash sample_hash (ic_maxInputSize ?c) = Inr hash_payload"
    using sample_hash_encoded by (simp add: open_client_def fresh_client_def)
  have req: "deliverable ?msg"
    by (rule small_frame) (simp_all add: request_message_def opHash_def block_ok_def block_size_def)
  have r: "encodeResult (ResDigest None) = Inr \<lparr>metadata = [CHR 0x00], pblocks = []\<rparr>"
    by (simp add: encodeResult_def encodeOptional_def wire_run)
  have resp: "deliverable (ok_response ?msg (method_payload opHash (Inr (ResDigest None)))
      (method_error (Inr (ResDigest None))) ?h)"
    by (rule small_frame) (simp_all add: ok_response_def method_payload_def method_error_def r
        request_message_def opHash_def after_call_def open_client_def fresh_client_def start_server_def)
  have sess: "sv_client (ic_conn ?c) = Some ()" "sdk (sv_host (ic_conn ?c)) = 0" "calls (sv_host (ic_conn ?c)) = []"
    by (simp_all add: open_client_def fresh_client_def start_server_def)
  have m: "call_method digest_library () opHash (request_view sample_hash) (sdk (sv_host (ic_conn ?c))) =
      (Inr (ResDigest None), [], 1)" by (simp add: digest_library_def sess)
  obtain x c' where x: "callResult (link digest_library) plain OutDigest opHash sample_hash ?c = (x, c')" by fastforce
  have "result_type opHash (ResDigest None) OutDigest" by (rule result_type.intros)
  then show ?thesis
    using isolated_call_transparent [OF open_client_sync sess(1) t wf(1) enc req m _ _ _ x] resp r x sess wf by simp
qed

end
