(* ===== verification/Client_Gate.thy ===== *)
theory Client_Gate
  imports Transition_System Go_Errors
begin

text \<open>
  The call gate and the shutdown of the public client (\<^verbatim>\<open>client.go\<close>). Goroutines that run
  \<^verbatim>\<open>withLockedLibraryResult\<close>, \<^verbatim>\<open>CloseContext\<close> and \<^verbatim>\<open>closeLibrary\<close>
  interleave: each has a program counter, a section under \<^verbatim>\<open>c.mu\<close>, a channel operation and
  the start and the end of a native call are single steps, and callers arrive and contexts are
  cancelled at any time. The receiver is not nil. An operation may change the remembered trusted
  certificates during its native call; the PEM cache, which does not affect the gate, and the
  observer are left out. The abstract specification is the session automaton
  \<open>phase_step\<close>; the gate refines it.
\<close>

section \<open>The session automaton\<close>

datatype event =
    CallStart nat
  | CallEnd nat "gerror option"
  | CloseStart
  | CloseEnd "gerror option"

datatype phase = Idle | Busy nat | Closing | Closed

fun phase_step :: "phase \<Rightarrow> event \<Rightarrow> phase option" where
  "phase_step Idle (CallStart i) = Some (Busy i)"
| "phase_step (Busy j) (CallEnd i r) = (if i = j then Some Idle else None)"
| "phase_step Idle CloseStart = Some Closing"
| "phase_step Closing (CloseEnd r) = Some Closed"
| "phase_step _ _ = None"

definition replay :: "event list \<Rightarrow> phase option" where
  "replay log = fold (\<lambda>e p. Option.bind p (\<lambda>q. phase_step q e)) log (Some Idle)"

lemma replay_simps [simp]:
  "replay [] = Some Idle"
  "replay (log @ [e]) = Option.bind (replay log) (\<lambda>q. phase_step q e)"
  by (simp_all add: replay_def)

section \<open>Goroutines of a client\<close>

text \<open>\<open>never\<close>: \<^verbatim>\<open>ctx.Done()\<close> is nil. \<open>ctx_err\<close>: the value of \<^verbatim>\<open>ctx.Err()\<close>.\<close>

record ctx_state =
  never :: bool
  ctx_err :: "gerror option"

record closeState =
  cs_done :: bool
  cs_err :: "gerror option"

datatype pc =
    OpEnter | OpLock | OpGate | OpAcquired | OpRecheck | OpCall | OpInCall
  | OpRelease "gerror option"
  | CloseEnter | CloseWait | CloseWaitAgain
  | CloserGate | CloserCall | CloserInCall | CloserStore "gerror option" | CloserRelease | CloserDone
  | Returned "gerror option"

datatype routine = Operation gostring | CloseContext | CloseLibrary

record goroutine =
  routine :: routine
  g_ctx :: ctx_state
  pc :: pc

record kclient =
  library :: bool
  closing :: "closeState option"
  gate :: "nat option"
  trusted :: "gostring list"
  events :: "event list"
  routines :: "goroutine list"

definition unsupportedLibraryCapability :: "gostring \<Rightarrow> gerror" where
  "unsupportedLibraryCapability operation =
     ForeignError (''kalkan: library does not support '' @ operation) []"

definition libraryGateLocked :: "kclient \<Rightarrow> kclient" where
  "libraryGateLocked c = (if gate c = None then c\<lparr>gate := Some 1\<rparr> else c)"

text \<open>The channel has capacity one: a receive needs a token, a send needs room.\<close>

definition receiveGate :: "kclient \<Rightarrow> kclient option" where
  "receiveGate c = (case gate c of Some (Suc n) \<Rightarrow> Some (c\<lparr>gate := Some n\<rparr>) | _ \<Rightarrow> None)"

definition releaseLibraryGate :: "kclient \<Rightarrow> kclient option" where
  "releaseLibraryGate c = (case gate c of Some 0 \<Rightarrow> Some (c\<lparr>gate := Some 1\<rparr>) | _ \<Rightarrow> None)"

definition emit :: "event \<Rightarrow> kclient \<Rightarrow> kclient" where
  "emit e c = c\<lparr>events := events c @ [e]\<rparr>"

text \<open>\<^verbatim>\<open>lockLibrary\<close> and the call under the gate in \<^verbatim>\<open>withLockedLibraryResult\<close>, for
  goroutine \<open>i\<close>. \<open>supports\<close> tells whether the library has the capability of an operation.\<close>

inductive lockLibrary :: "ctx_state \<Rightarrow> kclient \<Rightarrow> pc \<Rightarrow> kclient \<Rightarrow> pc \<Rightarrow> bool" for x c where
  cancelled: "ctx_err x = Some e \<Longrightarrow> lockLibrary x c OpEnter c (Returned (Some e))"
| live: "ctx_err x = None \<Longrightarrow> lockLibrary x c OpEnter c OpLock"
| closed: "\<not> library c \<or> closing c \<noteq> None \<Longrightarrow>
    lockLibrary x c OpLock c (Returned (Some (Sentinel KalkanErrClosed)))"
| queue: "library c \<Longrightarrow> closing c = None \<Longrightarrow> lockLibrary x c OpLock (libraryGateLocked c) OpGate"
| acquire: "receiveGate c = Some c' \<Longrightarrow> lockLibrary x c OpGate c' OpAcquired"
| abandon: "\<not> never x \<Longrightarrow> ctx_err x = Some e \<Longrightarrow> lockLibrary x c OpGate c (Returned (Some e))"
| late: "\<not> never x \<Longrightarrow> ctx_err x = Some e \<Longrightarrow> lockLibrary x c OpAcquired c (OpRelease (Some e))"
| intime: "never x \<or> ctx_err x = None \<Longrightarrow> lockLibrary x c OpAcquired c OpRecheck"
| lost: "\<not> library c \<or> closing c \<noteq> None \<Longrightarrow>
    lockLibrary x c OpRecheck c (OpRelease (Some (Sentinel KalkanErrClosed)))"
| locked: "library c \<Longrightarrow> closing c = None \<Longrightarrow> lockLibrary x c OpRecheck c OpCall"

inductive withLockedLibraryResult ::
  "(gostring \<Rightarrow> bool) \<Rightarrow> nat \<Rightarrow> gostring \<Rightarrow> ctx_state \<Rightarrow> kclient \<Rightarrow> pc \<Rightarrow> kclient \<Rightarrow> pc \<Rightarrow> bool"
  for supports i operation x c where
  lock: "lockLibrary x c p c' p' \<Longrightarrow> withLockedLibraryResult supports i operation x c p c' p'"
| unsupported: "\<not> supports operation \<Longrightarrow> withLockedLibraryResult supports i operation x c OpCall c
    (OpRelease (Some (unsupportedLibraryCapability operation)))"
| call: "supports operation \<Longrightarrow>
    withLockedLibraryResult supports i operation x c OpCall (emit (CallStart i) c) OpInCall"
| result: "withLockedLibraryResult supports i operation x c OpInCall
    (emit (CallEnd i r) (c\<lparr>trusted := t\<rparr>)) (OpRelease r)"
| release: "releaseLibraryGate c = Some c' \<Longrightarrow>
    withLockedLibraryResult supports i operation x c (OpRelease r) c' (Returned r)"

text \<open>\<^verbatim>\<open>CloseContext\<close> and \<^verbatim>\<open>waitCloseContext\<close>. The rule \<open>start\<close> also spawns the
  goroutine that runs \<^verbatim>\<open>closeLibrary\<close>.\<close>

definition spawn :: "routine \<Rightarrow> ctx_state \<Rightarrow> pc \<Rightarrow> kclient \<Rightarrow> kclient" where
  "spawn r x p c = c\<lparr>routines := routines c @ [\<lparr>routine = r, g_ctx = x, pc = p\<rparr>]\<rparr>"

definition background :: ctx_state where
  "background = \<lparr>never = True, ctx_err = None\<rparr>"

definition startClosing :: "kclient \<Rightarrow> kclient" where
  "startClosing c = spawn CloseLibrary background CloserGate
     (libraryGateLocked (c\<lparr>closing := Some \<lparr>cs_done = False, cs_err = None\<rparr>\<rparr>))"

inductive closeContext :: "ctx_state \<Rightarrow> kclient \<Rightarrow> pc \<Rightarrow> kclient \<Rightarrow> pc \<Rightarrow> bool" for x c where
  again: "closing c \<noteq> None \<Longrightarrow> closeContext x c CloseEnter c CloseWait"
| empty: "closing c = None \<Longrightarrow> \<not> library c \<Longrightarrow> closeContext x c CloseEnter c (Returned None)"
| start: "closing c = None \<Longrightarrow> library c \<Longrightarrow> closeContext x c CloseEnter (startClosing c) CloseWait"
| ready: "closing c = Some cs \<Longrightarrow> cs_done cs \<Longrightarrow> closeContext x c CloseWait c (Returned (cs_err cs))"
| pending: "closing c = Some cs \<Longrightarrow> \<not> cs_done cs \<Longrightarrow> closeContext x c CloseWait c CloseWaitAgain"
| finished: "closing c = Some cs \<Longrightarrow> cs_done cs \<Longrightarrow>
    closeContext x c CloseWaitAgain c (Returned (cs_err cs))"
| expired: "\<not> never x \<Longrightarrow> ctx_err x = Some e \<Longrightarrow> closeContext x c CloseWaitAgain c (Returned (Some e))"

inductive closeLibrary :: "kclient \<Rightarrow> pc \<Rightarrow> kclient \<Rightarrow> pc \<Rightarrow> bool" for c where
  wait: "receiveGate c = Some c' \<Longrightarrow> closeLibrary c CloserGate c' CloserCall"
| close: "closeLibrary c CloserCall (emit CloseStart c) CloserInCall"
| closed: "closeLibrary c CloserInCall (emit (CloseEnd r) c) (CloserStore r)"
| store: "closing c = Some cs \<Longrightarrow> closeLibrary c (CloserStore r)
    (c\<lparr>library := False, trusted := [], closing := Some (cs\<lparr>cs_err := r\<rparr>)\<rparr>) CloserRelease"
| release: "releaseLibraryGate c = Some c' \<Longrightarrow> closeLibrary c CloserRelease c' CloserDone"
| complete: "closing c = Some cs \<Longrightarrow>
    closeLibrary c CloserDone (c\<lparr>closing := Some (cs\<lparr>cs_done := True\<rparr>)\<rparr>) (Returned None)"

inductive goroutine_step ::
  "(gostring \<Rightarrow> bool) \<Rightarrow> nat \<Rightarrow> routine \<Rightarrow> ctx_state \<Rightarrow> kclient \<Rightarrow> pc \<Rightarrow> kclient \<Rightarrow> pc \<Rightarrow> bool"
  for supports i where
  operation: "withLockedLibraryResult supports i name x c p c' p' \<Longrightarrow>
    goroutine_step supports i (Operation name) x c p c' p'"
| closeContext: "closeContext x c p c' p' \<Longrightarrow> goroutine_step supports i CloseContext x c p c' p'"
| closeLibrary: "closeLibrary c p c' p' \<Longrightarrow> goroutine_step supports i CloseLibrary x c p c' p'"

definition set_pc :: "nat \<Rightarrow> pc \<Rightarrow> kclient \<Rightarrow> kclient" where
  "set_pc i p c = c\<lparr>routines := (routines c)[i := (routines c ! i)\<lparr>pc := p\<rparr>]\<rparr>"

text \<open>The steps of the goroutines that exist, and those with which callers arrive and contexts end.\<close>

inductive run_step :: "(gostring \<Rightarrow> bool) \<Rightarrow> kclient \<Rightarrow> kclient \<Rightarrow> bool" for supports where
  run: "i < length (routines c) \<Longrightarrow> g = routines c ! i \<Longrightarrow>
    goroutine_step supports i (routine g) (g_ctx g) c (pc g) c' p' \<Longrightarrow>
    run_step supports c (set_pc i p' c')"

inductive gate_step :: "(gostring \<Rightarrow> bool) \<Rightarrow> kclient \<Rightarrow> kclient \<Rightarrow> bool" for supports where
  running: "run_step supports c c' \<Longrightarrow> gate_step supports c c'"
| call: "never x \<longrightarrow> ctx_err x = None \<Longrightarrow> gate_step supports c (spawn (Operation name) x OpEnter c)"
| close: "never x \<longrightarrow> ctx_err x = None \<Longrightarrow> gate_step supports c (spawn CloseContext x CloseEnter c)"
| cancel: "i < length (routines c) \<Longrightarrow> g = routines c ! i \<Longrightarrow> \<not> never (g_ctx g) \<Longrightarrow>
    ctx_err (g_ctx g) = None \<Longrightarrow>
    gate_step supports c (c\<lparr>routines := (routines c)[i := g\<lparr>g_ctx := (g_ctx g)\<lparr>ctx_err := Some e\<rparr>\<rparr>]\<rparr>)"

definition opened :: "kclient \<Rightarrow> bool" where
  "opened c \<longleftrightarrow> c = \<lparr>library = True, closing = None, gate = None, trusted = [], events = [], routines = []\<rparr>"

section \<open>The invariant of the gate\<close>

fun holds_gate :: "pc \<Rightarrow> bool" where
  "holds_gate OpAcquired = True"
| "holds_gate OpRecheck = True"
| "holds_gate OpCall = True"
| "holds_gate OpInCall = True"
| "holds_gate (OpRelease r) = True"
| "holds_gate CloserCall = True"
| "holds_gate CloserInCall = True"
| "holds_gate (CloserStore r) = True"
| "holds_gate CloserRelease = True"
| "holds_gate _ = False"

fun uses_gate :: "pc \<Rightarrow> bool" where
  "uses_gate OpGate = True"
| "uses_gate CloserGate = True"
| "uses_gate CloserDone = True"
| "uses_gate p = holds_gate p"

fun before_store :: "pc \<Rightarrow> bool" where
  "before_store CloserGate = True"
| "before_store CloserCall = True"
| "before_store CloserInCall = True"
| "before_store (CloserStore r) = True"
| "before_store _ = False"

fun after_store :: "pc \<Rightarrow> bool" where
  "after_store CloserRelease = True"
| "after_store CloserDone = True"
| "after_store _ = False"

fun is_store :: "pc \<Rightarrow> bool" where
  "is_store (CloserStore r) = True"
| "is_store _ = False"

definition occurs :: "(pc \<Rightarrow> bool) \<Rightarrow> kclient \<Rightarrow> nat" where
  "occurs P c = length (filter (\<lambda>g. P (pc g)) (routines c))"

lemma filter_length_update:
  "i < length xs \<Longrightarrow> length (filter P (xs[i := x])) + of_bool (P (xs ! i)) =
     length (filter P xs) + of_bool (P x)"
proof (induction xs arbitrary: i)
  case (Cons y ys)
  then show ?case
  proof (cases i)
    case (Suc j)
    with Cons.prems Cons.IH [of j] show ?thesis by simp
  qed simp
qed simp

lemma occurs_set_pc:
  "i < length (routines c) \<Longrightarrow>
     occurs P (set_pc i p c) + of_bool (P (pc (routines c ! i))) = occurs P c + of_bool (P p)"
  using filter_length_update [of i "routines c" "\<lambda>g. P (pc g)" "(routines c ! i)\<lparr>pc := p\<rparr>"]
  by (simp add: occurs_def set_pc_def)

lemma occurs_pos: "0 < occurs P c \<longleftrightarrow> (\<exists>i < length (routines c). P (pc (routines c ! i)))"
  by (auto simp: occurs_def filter_empty_conv in_set_conv_nth) (metis in_set_conv_nth)

lemma occurs_unique:
  assumes "occurs P c \<le> 1" "i < length (routines c)" "j < length (routines c)"
    and "P (pc (routines c ! i))" "P (pc (routines c ! j))"
  shows "i = j"
proof (rule ccontr)
  assume "i \<noteq> j"
  let ?K = "{k. k < length (routines c) \<and> P (pc (routines c ! k))}"
  have "card {i, j} \<le> card ?K" using assms(2-5) by (intro card_mono) auto
  moreover have "card {i, j} = 2" using \<open>i \<noteq> j\<close> by simp
  ultimately show False using assms(1) by (simp add: occurs_def length_filter_conv_card)
qed

lemma occurs_simps [simp]:
  "occurs P (c\<lparr>gate := g\<rparr>) = occurs P c" "occurs P (c\<lparr>closing := k\<rparr>) = occurs P c"
  "occurs P (c\<lparr>library := l\<rparr>) = occurs P c" "occurs P (c\<lparr>trusted := t\<rparr>) = occurs P c"
  "occurs P (emit e c) = occurs P c" "occurs P (spawn r x p c) = occurs P c + of_bool (P p)"
  "occurs P (libraryGateLocked c) = occurs P c"
  "occurs P (startClosing c) = occurs P c + of_bool (P CloserGate)"
  by (simp_all add: occurs_def emit_def spawn_def libraryGateLocked_def startClosing_def)

lemma shared_simps [simp]:
  "library (set_pc i p c) = library c" "closing (set_pc i p c) = closing c" "gate (set_pc i p c) = gate c"
  "events (set_pc i p c) = events c" "trusted (set_pc i p c) = trusted c"
  "library (emit e c) = library c" "closing (emit e c) = closing c" "gate (emit e c) = gate c"
  "events (emit e c) = events c @ [e]" "routines (emit e c) = routines c"
  "library (spawn r x p c) = library c" "closing (spawn r x p c) = closing c"
  "gate (spawn r x p c) = gate c" "events (spawn r x p c) = events c"
  "library (libraryGateLocked c) = library c" "closing (libraryGateLocked c) = closing c"
  "events (libraryGateLocked c) = events c" "routines (libraryGateLocked c) = routines c"
  "library (startClosing c) = library c" "events (startClosing c) = events c"
  "closing (startClosing c) = Some \<lparr>cs_done = False, cs_err = None\<rparr>"
  "gate (libraryGateLocked c) = Some (case gate c of None \<Rightarrow> 1 | Some n \<Rightarrow> n)"
  "gate (startClosing c) = Some (case gate c of None \<Rightarrow> 1 | Some n \<Rightarrow> n)"
  "routines (spawn r x p c) = routines c @ [\<lparr>routine = r, g_ctx = x, pc = p\<rparr>]"
  "routines (startClosing c) = routines c @ [\<lparr>routine = CloseLibrary, g_ctx = background, pc = CloserGate\<rparr>]"
  by (auto simp: set_pc_def emit_def spawn_def libraryGateLocked_def startClosing_def)

lemma receiveGate_Some:
  "receiveGate c = Some c' \<longleftrightarrow> (\<exists>n. gate c = Some (Suc n) \<and> c' = c\<lparr>gate := Some n\<rparr>)"
  by (auto simp: receiveGate_def split: option.splits nat.splits)

lemma releaseLibraryGate_Some:
  "releaseLibraryGate c = Some c' \<longleftrightarrow> gate c = Some 0 \<and> c' = c\<lparr>gate := Some 1\<rparr>"
  by (auto simp: releaseLibraryGate_def split: option.splits nat.splits)

lemmas step_elims = goroutine_step.cases withLockedLibraryResult.cases lockLibrary.cases
  closeContext.cases closeLibrary.cases

definition mutex :: "kclient \<Rightarrow> bool" where
  "mutex c \<longleftrightarrow> (case gate c of None \<Rightarrow> occurs uses_gate c = 0 | Some n \<Rightarrow> n + occurs holds_gate c = 1)"

lemma routines_kept:
  assumes "goroutine_step supports i r x c p c' p'" "j < length (routines c)"
  shows "j < length (routines c')" "routines c' ! j = routines c ! j"
  using assms by (auto elim!: step_elims simp: receiveGate_Some releaseLibraryGate_Some nth_append)

lemma occurs_here: "i < length (routines c) \<Longrightarrow> P (pc (routines c ! i)) \<Longrightarrow> 0 < occurs P c"
  by (auto simp: occurs_pos)

lemma mutex_run:
  assumes "goroutine_step supports i r x c (pc (routines c ! i)) c' p'" "i < length (routines c)" "mutex c"
  shows "mutex (set_pc i p' c')"
proof -
  note kept = routines_kept [OF assms(1,2)]
  note here = occurs_here [OF assms(2)]
  note u = occurs_set_pc [OF kept(1), of uses_gate p', unfolded kept(2)]
  note h = occurs_set_pc [OF kept(1), of holds_gate p', unfolded kept(2)]
  have sub: "occurs holds_gate c \<le> occurs uses_gate c"
    unfolding occurs_def length_filter_conv_card
    by (intro card_mono) (auto elim: holds_gate.elims)
  from assms(1,3) u h here [of holds_gate] here [of uses_gate] sub show ?thesis
    by (elim step_elims) (auto simp: mutex_def receiveGate_Some releaseLibraryGate_Some split: option.splits)
qed

definition shutdown_ok :: "kclient \<Rightarrow> bool" where
  "shutdown_ok c \<longleftrightarrow> (case closing c of
     None \<Rightarrow> library c \<and> occurs before_store c = 0 \<and> occurs after_store c = 0
   | Some cs \<Rightarrow> gate c \<noteq> None \<and> (cs_done cs \<longrightarrow> \<not> library c) \<and>
       occurs before_store c = of_bool (library c) \<and>
       occurs after_store c = of_bool (\<not> library c \<and> \<not> cs_done cs))"

lemma shutdown_run:
  assumes "goroutine_step supports i r x c (pc (routines c ! i)) c' p'" "i < length (routines c)"
    and "shutdown_ok c"
  shows "shutdown_ok (set_pc i p' c')"
proof -
  note kept = routines_kept [OF assms(1,2)]
  note here = occurs_here [OF assms(2)]
  note b = occurs_set_pc [OF kept(1), of before_store p', unfolded kept(2)]
  note a = occurs_set_pc [OF kept(1), of after_store p', unfolded kept(2)]
  from assms(1,3) a b here [of before_store] here [of after_store] show ?thesis
    by (elim step_elims) (auto simp: shutdown_ok_def receiveGate_Some releaseLibraryGate_Some
        of_bool_def split: option.splits if_splits)
qed

text \<open>The abstraction: the recorded events form a run of the automaton, and its phase agrees with
  the program counters and with the client.\<close>

definition in_phase :: "phase \<Rightarrow> kclient \<Rightarrow> bool" where
  "in_phase p c \<longleftrightarrow>
     (\<forall>j. p = Busy j \<longleftrightarrow> j < length (routines c) \<and> pc (routines c ! j) = OpInCall) \<and>
     (p = Closing \<longleftrightarrow> (\<exists>j < length (routines c). pc (routines c ! j) = CloserInCall)) \<and>
     (p = Closed \<longleftrightarrow> \<not> library c \<or> (\<exists>j < length (routines c). is_store (pc (routines c ! j)))) \<and>
     (\<forall>j < length (routines c). pc (routines c ! j) \<in> {OpCall, OpInCall} \<longrightarrow> library c)"

lemma holder_unique:
  assumes "mutex c" "i < length (routines c)" "holds_gate (pc (routines c ! i))"
    and "j < length (routines c)" "holds_gate (pc (routines c ! j))"
  shows "j = i"
proof -
  have "occurs holds_gate c \<le> occurs uses_gate c"
    unfolding occurs_def length_filter_conv_card
    by (intro card_mono) (auto elim: holds_gate.elims)
  with assms(1) have "occurs holds_gate c \<le> 1" by (auto simp: mutex_def split: option.splits)
  from occurs_unique [OF this assms(4,2,5,3)] show ?thesis .
qed

lemma pc_set_pc:
  "j < length (routines c) \<Longrightarrow> pc (routines (set_pc i p c) ! j) = (if j = i then p else pc (routines c ! j))"
  "length (routines (set_pc i p c)) = length (routines c)"
  by (auto simp: set_pc_def nth_list_update)

lemma is_store_holds: "is_store p \<Longrightarrow> holds_gate p"
  by (cases p) auto

fun quiet :: "pc \<Rightarrow> bool" where
  "quiet OpInCall = False"
| "quiet CloserInCall = False"
| "quiet (CloserStore r) = False"
| "quiet p = True"

text \<open>A step between program counters outside a native call keeps the phase.\<close>

lemma in_phase_quiet:
  assumes "in_phase q c" and i: "i < length (routines c)" and "library c' = library c"
    and ks: "routines c' = routines c @ ks" "\<forall>g \<in> set ks. pc g = CloserGate"
    and p: "quiet (pc (routines c ! i))" "quiet p'" "p' = OpCall \<Longrightarrow> library c"
  shows "in_phase q (set_pc i p' c')"
proof -
  let ?d = "set_pc i p' c'"
  have len: "length (routines ?d) = length (routines c) + length ks" by (simp add: pc_set_pc ks)
  have old: "pc (routines ?d ! j) = (if j = i then p' else pc (routines c ! j))" if "j < length (routines c)" for j
    using that by (simp add: pc_set_pc ks nth_append)
  have new: "pc (routines ?d ! j) = CloserGate"
    if "\<not> j < length (routines c)" "j < length (routines c) + length ks" for j
    using that i ks(2) by (simp add: pc_set_pc ks(1) nth_append)
  have loud: "j < length (routines ?d) \<and> pc (routines ?d ! j) = k \<longleftrightarrow>
      j < length (routines c) \<and> pc (routines c ! j) = k" if "\<not> quiet k" for j k
    using that p old [of j] new [of j] unfolding len by (cases "j < length (routines c)") auto
  have store: "is_store k \<longleftrightarrow> (\<exists>r. k = CloserStore r)" for k by (cases k) auto
  have call: "library c" if "j < length (routines ?d)" "pc (routines ?d ! j) = OpCall" for j
    using that old [of j] new [of j] p(3) assms(1) unfolding len
    by (cases "j < length (routines c)") (auto simp: in_phase_def split: if_splits)
  show ?thesis
    unfolding in_phase_def
  proof (intro conjI allI impI)
    show "q = Busy j \<longleftrightarrow> j < length (routines ?d) \<and> pc (routines ?d ! j) = OpInCall" for j
      using assms(1) loud [of OpInCall j] by (auto simp: in_phase_def)
    show "q = Closing \<longleftrightarrow> (\<exists>j < length (routines ?d). pc (routines ?d ! j) = CloserInCall)"
      using assms(1) loud [of CloserInCall] by (auto simp: in_phase_def)
    show "q = Closed \<longleftrightarrow> \<not> library ?d \<or> (\<exists>j < length (routines ?d). is_store (pc (routines ?d ! j)))"
      using assms(1,3) loud [of "CloserStore r" for r] unfolding store in_phase_def by auto
    show "library ?d" if "j < length (routines ?d)" "pc (routines ?d ! j) \<in> {OpCall, OpInCall}" for j
      using that assms(1,3) call loud [of OpInCall j] by (auto simp: in_phase_def)
  qed
qed

text \<open>While a goroutine holds the gate, the phase is a matter of its program counter alone.\<close>

lemma in_phase_holder:
  assumes m: "mutex c" and i: "i < length (routines c)" and h: "holds_gate (pc (routines c ! i))"
    and same: "length (routines d) = length (routines c)"
      "\<And>j. j < length (routines c) \<Longrightarrow> j \<noteq> i \<Longrightarrow> pc (routines d ! j) = pc (routines c ! j)"
  shows "in_phase q d \<longleftrightarrow> (\<forall>j. q = Busy j \<longleftrightarrow> j = i \<and> pc (routines d ! i) = OpInCall) \<and>
    (q = Closing \<longleftrightarrow> pc (routines d ! i) = CloserInCall) \<and>
    (q = Closed \<longleftrightarrow> \<not> library d \<or> is_store (pc (routines d ! i))) \<and>
    (pc (routines d ! i) \<in> {OpCall, OpInCall} \<longrightarrow> library d)"
proof -
  have other: "\<not> holds_gate (pc (routines d ! j))" if "j < length (routines c)" "j \<noteq> i" for j
    using holder_unique [OF m i h that(1)] same(2) [OF that] that(2) by auto
  have only: "j < length (routines d) \<and> pc (routines d ! j) = k \<longleftrightarrow> j = i \<and> pc (routines d ! i) = k"
    if "holds_gate k" for j k
    using that other [of j] i same(1) by auto
  have "is_store (pc (routines d ! j)) \<Longrightarrow> j < length (routines d) \<Longrightarrow> j = i" for j
    using is_store_holds other same(1) by metis
  then have stores: "(\<exists>j < length (routines d). is_store (pc (routines d ! j))) \<longleftrightarrow> is_store (pc (routines d ! i))"
    using i same(1) by metis
  have calls: "(\<forall>j < length (routines d). pc (routines d ! j) \<in> {OpCall, OpInCall} \<longrightarrow> library d) \<longleftrightarrow>
      (pc (routines d ! i) \<in> {OpCall, OpInCall} \<longrightarrow> library d)"
    using i same(1) only [of OpCall] only [of OpInCall] by (metis empty_iff holds_gate.simps(3,4) insert_iff)
  have closers: "(\<exists>j < length (routines d). pc (routines d ! j) = CloserInCall) \<longleftrightarrow>
      pc (routines d ! i) = CloserInCall"
    using only [of CloserInCall] by auto
  show ?thesis unfolding in_phase_def stores calls closers only [of OpInCall, simplified] by simp
qed

lemma phase_run:
  assumes step: "goroutine_step supports i r x c (pc (routines c ! i)) c' p'" and i: "i < length (routines c)"
    and "mutex c" "shutdown_ok c" "replay (events c) = Some q" "in_phase q c"
  shows "\<exists>q'. replay (events (set_pc i p' c')) = Some q' \<and> in_phase q' (set_pc i p' c')"
proof -
  have "0 < occurs before_store c \<Longrightarrow> library c"
    using assms(4) by (auto simp: shutdown_ok_def split: option.splits)
  then have closer: "before_store (pc (routines c ! i)) \<Longrightarrow> library c"
    using occurs_here [OF i, of before_store] by simp
  note now = in_phase_holder [OF assms(3) i _ refl refl, of q, THEN iffD1, OF _ assms(6)]
  note after = in_phase_holder [OF assms(3) i, of "set_pc i p' c'"]
  have at: "routines c' = routines c \<Longrightarrow> pc (routines (set_pc i p' c') ! i) = p'" using i by (simp add: pc_set_pc)
  note quiet_step = in_phase_quiet [OF assms(6) i, of c' _ p']
  from step show ?thesis
  proof (cases rule: goroutine_step.cases)
    case (operation name)
    from operation(2) show ?thesis
    proof (cases rule: withLockedLibraryResult.cases)
      case lock
      then show ?thesis using assms(5) quiet_step
        by (intro exI [of _ q], cases rule: lockLibrary.cases) (auto simp: receiveGate_Some)
    next
      case unsupported
      then show ?thesis using assms(5) quiet_step by auto
    next
      case call
      with now have "q = Idle" by (cases q) auto
      with call now after at assms(5) show ?thesis by (auto simp: pc_set_pc)
    next
      case (result r t)
      with now have "q = Busy i" "library c" by auto
      with result after at assms(5) show ?thesis by (auto simp: pc_set_pc)
    next
      case (release r)
      then show ?thesis using assms(5) quiet_step by (auto simp: releaseLibraryGate_Some)
    qed
  next
    case closeContext
    then show ?thesis using assms(5) quiet_step
      by (intro exI [of _ q], elim closeContext.cases) auto
  next
    case closeLibrary
    from closeLibrary(2) show ?thesis
    proof (cases rule: closeLibrary.cases)
      case wait
      then show ?thesis using assms(5) quiet_step by (auto simp: receiveGate_Some)
    next
      case close
      with now closer have "q = Idle" "library c" by (cases q; auto)+
      with close after at assms(5) show ?thesis by (auto simp: pc_set_pc)
    next
      case (closed r)
      with now have "q = Closing" by auto
      with closed after at assms(5) show ?thesis by (auto simp: pc_set_pc)
    next
      case (store cs r)
      with now have "q = Closed" by auto
      with store after at assms(5) show ?thesis by (auto simp: pc_set_pc)
    next
      case release
      then show ?thesis using assms(5) quiet_step by (auto simp: releaseLibraryGate_Some)
    next
      case (complete cs)
      then show ?thesis using assms(5) quiet_step by auto
    qed
  qed
qed

text \<open>What a goroutine knows: its program counter fits its routine, and a returned
  \<^verbatim>\<open>CloseContext\<close> carries its context's error or the saved result.\<close>

fun fits :: "routine \<Rightarrow> pc \<Rightarrow> bool" where
  "fits r (Returned v) = True"
| "fits (Operation name) p \<longleftrightarrow> p \<in> {OpEnter, OpLock, OpGate, OpAcquired, OpRecheck, OpCall, OpInCall} \<or>
     p \<in> range OpRelease"
| "fits CloseContext p \<longleftrightarrow> p \<in> {CloseEnter, CloseWait, CloseWaitAgain}"
| "fits CloseLibrary p \<longleftrightarrow> before_store p \<or> after_store p"

definition close_answer :: "kclient \<Rightarrow> ctx_state \<Rightarrow> gerror option \<Rightarrow> bool" where
  "close_answer c x r \<longleftrightarrow> r \<noteq> None \<and> r = ctx_err x \<or>
     (\<exists>cs. closing c = Some cs \<and> cs_done cs \<and> r = cs_err cs)"

definition routine_ok :: "kclient \<Rightarrow> goroutine \<Rightarrow> bool" where
  "routine_ok c g \<longleftrightarrow> fits (routine g) (pc g) \<and> (never (g_ctx g) \<longrightarrow> ctx_err (g_ctx g) = None) \<and>
     (pc g \<in> {CloseWait, CloseWaitAgain} \<longrightarrow> closing c \<noteq> None) \<and>
     (\<forall>r. pc g = CloserStore r \<longrightarrow> CloseEnd r \<in> set (events c)) \<and>
     (\<forall>r. routine g = CloseContext \<and> pc g = Returned r \<longrightarrow> close_answer c (g_ctx g) r)"

definition saved :: "kclient \<Rightarrow> bool" where
  "saved c \<longleftrightarrow> (library c \<or> (\<exists>cs. closing c = Some cs \<and> CloseEnd (cs_err cs) \<in> set (events c)))"

lemma shared_mono:
  assumes "goroutine_step supports i r x c (pc (routines c ! i)) c' p'" "i < length (routines c)"
    and "shutdown_ok c"
  shows "closing c \<noteq> None \<Longrightarrow> closing c' \<noteq> None"
    and "closing c = Some cs \<Longrightarrow> cs_done cs \<Longrightarrow> closing c' = Some cs"
    and "set (events c) \<subseteq> set (events c')"
proof -
  show "closing c \<noteq> None \<Longrightarrow> closing c' \<noteq> None" "set (events c) \<subseteq> set (events c')"
    using assms(1) by (auto elim!: step_elims simp: receiveGate_Some releaseLibraryGate_Some)
  have "before_store (pc (routines c ! i)) \<or> after_store (pc (routines c ! i)) \<Longrightarrow>
      closing c = Some cs \<Longrightarrow> \<not> cs_done cs"
    using assms(3) occurs_here [OF assms(2), of before_store] occurs_here [OF assms(2), of after_store]
    by (auto simp: shutdown_ok_def)
  then show "closing c = Some cs \<Longrightarrow> cs_done cs \<Longrightarrow> closing c' = Some cs"
    using assms(1) by (elim step_elims) (auto simp: receiveGate_Some releaseLibraryGate_Some)
qed

lemma routine_ok_mono:
  assumes "routine_ok c g" "closing c \<noteq> None \<Longrightarrow> closing c' \<noteq> None"
    and "\<And>cs. closing c = Some cs \<Longrightarrow> cs_done cs \<Longrightarrow> closing c' = Some cs"
    and "set (events c) \<subseteq> set (events c')"
  shows "routine_ok c' g"
proof -
  have "close_answer c x r \<Longrightarrow> close_answer c' x r" for x r
    unfolding close_answer_def using assms(3) by blast
  with assms(1,2,4) show ?thesis unfolding routine_ok_def by blast
qed

lemma routines_run:
  assumes step: "goroutine_step supports i (routine g) (g_ctx g) c (pc g) c' p'"
    and i: "i < length (routines c)" "g = routines c ! i"
    and "shutdown_ok c" "list_all (routine_ok c) (routines c)"
  shows "list_all (routine_ok (set_pc i p' c')) (routines (set_pc i p' c'))"
proof -
  note step' = step [unfolded i(2)]
  note mono = shared_mono [OF step' i(1) assms(4)]
  have old: "routine_ok c' (routines c ! j)" if "j < length (routines c)" for j
    using assms(5) that by (intro routine_ok_mono [OF _ mono]) (auto simp: list_all_length)
  have new: "routine_ok c' (routines c' ! j)" if "j < length (routines c')" "\<not> j < length (routines c)" for j
    using that step by (elim step_elims) (auto simp: receiveGate_Some releaseLibraryGate_Some
        nth_append routine_ok_def background_def)
  have g: "routine_ok c g" using assms(5) i by (simp add: list_all_length)
  have lib: "closing c = None \<Longrightarrow> library c" using assms(4) by (simp add: shutdown_ok_def)
  have "routine_ok c' (g\<lparr>pc := p'\<rparr>)"
    using step g lib
    by (elim step_elims) (auto simp: routine_ok_def close_answer_def receiveGate_Some releaseLibraryGate_Some)
  then have "routine_ok c' ((routines c')[i := g\<lparr>pc := p'\<rparr>] ! j)" if "j < length (routines c')" for j
    using that old [of j] new [of j] routines_kept [OF step, of j]
    by (cases "j = i"; cases "j < length (routines c)") simp_all
  moreover have "routines c' ! i = g" using routines_kept [OF step i(1)] i(2) by simp
  moreover have "routine_ok (set_pc i p' c') = routine_ok c'" by (auto simp: routine_ok_def close_answer_def fun_eq_iff)
  ultimately show ?thesis by (simp add: list_all_length) (simp add: set_pc_def)
qed

lemma saved_run:
  assumes "goroutine_step supports i (routine g) (g_ctx g) c (pc g) c' p'"
    and "routine_ok c g" "saved c" "shutdown_ok c" "0 < occurs before_store c \<or> \<not> before_store (pc g)"
  shows "saved (set_pc i p' c')"
  using assms by (elim step_elims)
    (auto simp: saved_def routine_ok_def shutdown_ok_def receiveGate_Some releaseLibraryGate_Some split: option.splits)

definition gate_inv :: "kclient \<Rightarrow> bool" where
  "gate_inv c \<longleftrightarrow> mutex c \<and> shutdown_ok c \<and> saved c \<and> list_all (routine_ok c) (routines c) \<and>
     (\<exists>q. replay (events c) = Some q \<and> in_phase q c)"

lemma gate_inv_opened: "opened c \<Longrightarrow> gate_inv c"
  by (simp add: opened_def gate_inv_def mutex_def shutdown_ok_def saved_def in_phase_def occurs_def)

lemma gate_inv_run:
  assumes "gate_inv c" "run_step supports c d"
  shows "gate_inv d"
  using assms(2)
proof (cases rule: run_step.cases)
  case (run i g c' p')
  note step = run(4) [unfolded run(3)]
  from assms(1) have ok: "routine_ok c g" using run(2,3) by (simp add: gate_inv_def list_all_length)
  from assms(1) obtain q where "replay (events c) = Some q" "in_phase q c" by (auto simp: gate_inv_def)
  from phase_run [OF step run(2) _ _ this] assms(1)
  have "\<exists>q'. replay (events d) = Some q' \<and> in_phase q' d" by (simp add: run(1) gate_inv_def)
  moreover have "saved d"
    using saved_run [OF run(4) ok] assms(1) occurs_here [OF run(2), of before_store]
    unfolding run(1,3) gate_inv_def by blast
  ultimately show ?thesis
    using assms(1) mutex_run [OF step run(2)] shutdown_run [OF step run(2)]
      routines_run [OF run(4,2,3)] unfolding run(1) gate_inv_def by blast
qed

lemma gate_inv_spawn:
  assumes "gate_inv c" "quiet p" "\<not> uses_gate p" "\<not> holds_gate p" "\<not> before_store p" "\<not> after_store p"
    and "routine_ok c \<lparr>routine = r, g_ctx = x, pc = p\<rparr>"
  shows "gate_inv (spawn r x p c)"
proof -
  let ?d = "spawn r x p c"
  have ok: "routine_ok ?d = routine_ok c" by (auto simp: routine_ok_def close_answer_def fun_eq_iff)
  have at: "j < length (routines ?d) \<and> R (pc (routines ?d ! j)) \<longleftrightarrow>
      j < length (routines c) \<and> R (pc (routines c ! j))" if "\<not> R p" for R j
    using that by (auto simp: nth_append less_Suc_eq)
  have not: "p \<noteq> OpInCall" "p \<noteq> CloserInCall" "\<not> is_store p" "p \<notin> {OpCall, OpInCall}"
    using assms(2,4) by (auto intro: is_store_holds)
  have "in_phase q ?d" if "in_phase q c" for q
    unfolding in_phase_def
  proof (intro conjI allI impI)
    show "q = Busy j \<longleftrightarrow> j < length (routines ?d) \<and> pc (routines ?d ! j) = OpInCall" for j
      using that at [of "\<lambda>p. p = OpInCall" j] not(1) unfolding in_phase_def by simp
    show "q = Closing \<longleftrightarrow> (\<exists>j < length (routines ?d). pc (routines ?d ! j) = CloserInCall)"
      using that at [of "\<lambda>p. p = CloserInCall"] not(2) unfolding in_phase_def by simp
    show "q = Closed \<longleftrightarrow> \<not> library ?d \<or> (\<exists>j < length (routines ?d). is_store (pc (routines ?d ! j)))"
      using that at [of is_store] not(3) unfolding in_phase_def by simp
    show "library ?d" if "j < length (routines ?d)" "pc (routines ?d ! j) \<in> {OpCall, OpInCall}" for j
      using that \<open>in_phase q c\<close> at [of "\<lambda>p. p \<in> {OpCall, OpInCall}" j] not(4) unfolding in_phase_def by auto
  qed
  with assms show ?thesis
    by (auto simp: gate_inv_def mutex_def shutdown_ok_def saved_def ok split: option.splits)
qed

lemma gate_inv_cancel:
  assumes "gate_inv c" "i < length (routines c)" "g = routines c ! i" "\<not> never (g_ctx g)" "ctx_err (g_ctx g) = None"
  shows "gate_inv (c\<lparr>routines := (routines c)[i := g\<lparr>g_ctx := (g_ctx g)\<lparr>ctx_err := Some e\<rparr>\<rparr>]\<rparr>)" (is "gate_inv ?d")
proof -
  have len: "length (routines ?d) = length (routines c)"
    and at: "j < length (routines c) \<Longrightarrow> pc (routines ?d ! j) = pc (routines c ! j)" for j
    using assms(2,3) by (simp, cases "j = i") simp_all
  have occ: "occurs P ?d = occurs P c" for P
    using filter_length_update [OF assms(2), of "\<lambda>g. P (pc g)" "g\<lparr>g_ctx := (g_ctx g)\<lparr>ctx_err := Some e\<rparr>\<rparr>"]
      assms(3) by (simp add: occurs_def)
  have "in_phase q ?d" if "in_phase q c" for q
    using that at len by (auto simp: in_phase_def)
  moreover have "mutex ?d \<longleftrightarrow> mutex c" "shutdown_ok ?d \<longleftrightarrow> shutdown_ok c" "saved ?d \<longleftrightarrow> saved c"
    by (simp_all add: mutex_def shutdown_ok_def saved_def occ cong: option.case_cong)
  moreover have "list_all (routine_ok ?d) (routines ?d)"
  proof -
    have eq: "routine_ok ?d = routine_ok c" by (auto simp: routine_ok_def close_answer_def fun_eq_iff)
    have "routine_ok c g" using assms(1-3) by (simp add: gate_inv_def list_all_length)
    then have "routine_ok c (g\<lparr>g_ctx := (g_ctx g)\<lparr>ctx_err := Some e\<rparr>\<rparr>)"
      using assms(4,5) by (fastforce simp: routine_ok_def close_answer_def)
    with assms(1,2) show ?thesis unfolding eq by (auto simp: gate_inv_def list_all_length nth_list_update)
  qed
  ultimately show ?thesis using assms(1) by (auto simp: gate_inv_def)
qed

lemma gate_inv_step:
  assumes "gate_inv c" "gate_step supports c d"
  shows "gate_inv d"
  using assms(2)
proof (cases rule: gate_step.cases)
  case running
  with assms(1) show ?thesis by (rule gate_inv_run)
next
  case (call x name)
  with assms(1) show ?thesis by (auto intro!: gate_inv_spawn simp: routine_ok_def)
next
  case (close x)
  with assms(1) show ?thesis by (auto intro!: gate_inv_spawn simp: routine_ok_def)
next
  case (cancel i g e)
  with assms(1) show ?thesis by (auto intro!: gate_inv_cancel)
qed

interpretation call_gate: state_machine opened "gate_step supports" gate_inv
  by unfold_locales (auto intro: gate_inv_opened gate_inv_step)

lemma reachable_gate_inv: "reachable opened (gate_step supports) c \<Longrightarrow> gate_inv c"
  by (rule call_gate.invariant)

section \<open>Serialisation and the result of shutdown\<close>

lemma replay_closes: "replay log = Some q \<Longrightarrow> count_list log CloseStart = of_bool (q \<in> {Closing, Closed})"
proof (induction log arbitrary: q rule: rev_induct)
  case (snoc e log)
  then obtain p where "replay log = Some p" "phase_step p e = Some q" by (auto split: Option.bind_splits)
  with snoc.IH show ?case by (cases "(p, e)" rule: phase_step.cases) (auto split: if_splits)
qed simp

lemma replay_closed: "replay log = Some q \<Longrightarrow> CloseEnd r \<in> set log \<Longrightarrow> q = Closed"
proof (induction log arbitrary: q rule: rev_induct)
  case (snoc e log)
  then obtain p where "replay log = Some p" "phase_step p e = Some q" by (auto split: Option.bind_splits)
  with snoc show ?case by (cases "(p, e)" rule: phase_step.cases) (auto split: if_splits)
qed simp

text \<open>
  C34: The gate refines the session automaton. However the goroutines of a client interleave, the
  history of native calls is a run of the automaton: calls never overlap, the library is closed at
  most once, and no call starts once its close has started. The phase the history reaches tells
  which goroutine is inside the library.
\<close>

theorem gate_refines_session:
  assumes "reachable opened (gate_step supports) c"
  shows "\<exists>q. replay (events c) = Some q \<and> in_phase q c \<and> count_list (events c) CloseStart \<le> 1"
proof -
  from reachable_gate_inv [OF assms] obtain q where "replay (events c) = Some q" "in_phase q c"
    by (auto simp: gate_inv_def)
  with replay_closes [of "events c" q] show ?thesis by auto
qed

text \<open>
  The result of shutdown. A call of \<^verbatim>\<open>CloseContext\<close> that returned either gives the error
  of its own cancelled context, or shutdown is complete and it gives what the single close of the
  library returned.
\<close>

theorem close_result_saved:
  assumes "reachable opened (gate_step supports) c"
    and "i < length (routines c)" "routine (routines c ! i) = CloseContext" "pc (routines c ! i) = Returned r"
  shows "r \<noteq> None \<and> r = ctx_err (g_ctx (routines c ! i)) \<or>
    \<not> library c \<and> (\<exists>cs. closing c = Some cs \<and> cs_done cs \<and> r = cs_err cs) \<and>
    CloseEnd r \<in> set (events c) \<and> replay (events c) = Some Closed"
proof -
  note inv = reachable_gate_inv [OF assms(1)]
  then have "routine_ok c (routines c ! i)" using assms(2) by (simp add: gate_inv_def list_all_length)
  then have ans: "close_answer c (g_ctx (routines c ! i)) r" using assms(3,4) by (simp add: routine_ok_def)
  show ?thesis
  proof (cases "r \<noteq> None \<and> r = ctx_err (g_ctx (routines c ! i))")
    case False
    with ans obtain cs where cs: "closing c = Some cs" "cs_done cs" "r = cs_err cs" by (auto simp: close_answer_def)
    with inv have "\<not> library c" "CloseEnd r \<in> set (events c)"
      by (auto simp: gate_inv_def shutdown_ok_def saved_def)
    with inv cs show ?thesis by (auto simp: gate_inv_def dest: replay_closed)
  qed blast
qed

section \<open>Operations that arrive after shutdown began\<close>

fun rejected :: "pc \<Rightarrow> bool" where
  "rejected OpEnter = True"
| "rejected OpLock = True"
| "rejected OpGate = True"
| "rejected OpAcquired = True"
| "rejected OpRecheck = True"
| "rejected (OpRelease r) \<longleftrightarrow> r \<noteq> None"
| "rejected (Returned r) \<longleftrightarrow> r \<noteq> None"
| "rejected _ = False"

definition turned_away :: "nat \<Rightarrow> bool \<Rightarrow> kclient \<Rightarrow> bool" where
  "turned_away i called c \<longleftrightarrow> closing c \<noteq> None \<and> i < length (routines c) \<and>
     (\<exists>name. routine (routines c ! i) = Operation name) \<and> rejected (pc (routines c ! i)) \<and>
     (CallStart i \<in> set (events c) \<longrightarrow> called)"

lemma turned_away_run:
  assumes "turned_away i called c" "run_step supports c d" "shutdown_ok c"
  shows "turned_away i called d"
  using assms(2)
proof (cases rule: run_step.cases)
  case (run j g c' p')
  note step = run(4) [unfolded run(3)]
  note kept = routines_kept [OF run(4)]
  have "closing c' \<noteq> None" using shared_mono(1) [OF step run(2) assms(3)] assms(1) by (simp add: turned_away_def)
  moreover have "j = i \<Longrightarrow> rejected p' \<and> events c' = events c"
    using step assms(1) by (elim step_elims)
      (auto simp: turned_away_def receiveGate_Some releaseLibraryGate_Some)
  moreover have "j \<noteq> i \<Longrightarrow> CallStart i \<in> set (events c') \<longleftrightarrow> CallStart i \<in> set (events c)"
    using step by (elim step_elims) (auto simp: receiveGate_Some releaseLibraryGate_Some)
  ultimately show ?thesis
    using assms(1) kept [of i] run(1)
    by (cases "j = i") (auto simp: turned_away_def set_pc_def)
qed

lemma turned_away_step:
  assumes "gate_inv c" "turned_away i called c" "gate_step supports c d"
  shows "turned_away i called d"
  using assms(3)
proof (cases rule: gate_step.cases)
  case running
  with assms turned_away_run show ?thesis by (auto simp: gate_inv_def)
next
  case (cancel j g e)
  with assms(2) show ?thesis by (cases "j = i") (auto simp: turned_away_def)
qed (use assms(2) in \<open>auto simp: turned_away_def nth_append\<close>)

text \<open>
  After shutdown began no operation gets into the library. An operation that had not yet passed
  the second check when \<^verbatim>\<open>closing\<close> was set makes no native call, in any later state, and if
  it returns it returns an error.
\<close>

theorem closing_rejects_operations:
  assumes "reachable opened (gate_step supports) c" "closing c \<noteq> None"
    and "i < length (routines c)" "routine (routines c ! i) = Operation name"
    and "pc (routines c ! i) \<in> {OpEnter, OpLock, OpGate, OpAcquired, OpRecheck}"
    and "CallStart i \<notin> set (events c)" "steps (gate_step supports) c d"
  shows "CallStart i \<notin> set (events d) \<and> pc (routines d ! i) \<noteq> Returned None"
proof -
  have "turned_away i False c" using assms(2-6) by (auto simp: turned_away_def)
  from call_gate.stable [where P = "turned_away i False", OF turned_away_step assms(1) this assms(7)]
  show ?thesis by (auto simp: turned_away_def)
qed

section \<open>Termination and absence of deadlock\<close>

text \<open>The steps a goroutine still has to make; a first \<^verbatim>\<open>CloseContext\<close> also starts one.\<close>

fun remaining :: "pc \<Rightarrow> nat" where
  "remaining OpEnter = 8"
| "remaining OpLock = 7"
| "remaining OpGate = 6"
| "remaining OpAcquired = 5"
| "remaining OpRecheck = 4"
| "remaining OpCall = 3"
| "remaining OpInCall = 2"
| "remaining (OpRelease r) = 1"
| "remaining CloseEnter = 9"
| "remaining CloseWait = 2"
| "remaining CloseWaitAgain = 1"
| "remaining CloserGate = 6"
| "remaining CloserCall = 5"
| "remaining CloserInCall = 4"
| "remaining (CloserStore r) = 3"
| "remaining CloserRelease = 2"
| "remaining CloserDone = 1"
| "remaining (Returned r) = 0"

definition outstanding :: "kclient \<Rightarrow> nat" where
  "outstanding c = sum_list (map (\<lambda>g. remaining (pc g)) (routines c))"

lemma outstanding_set_pc:
  assumes "i < length (routines c)"
  shows "outstanding (set_pc i p c) + remaining (pc (routines c ! i)) = outstanding c + remaining p"
proof -
  let ?xs = "map (\<lambda>g. remaining (pc g)) (routines c)"
  have "?xs ! i \<le> sum_list ?xs" using assms by (intro elem_le_sum_list) simp
  moreover have "outstanding (set_pc i p c) = sum_list (?xs[i := remaining p])"
    by (simp add: outstanding_def set_pc_def map_update)
  ultimately show ?thesis using assms by (simp add: outstanding_def sum_list_update)
qed

lemma run_decreases:
  assumes "run_step supports c d"
  shows "outstanding d < outstanding c"
  using assms
proof (cases rule: run_step.cases)
  case (run i g c' p')
  note step = run(4) [unfolded run(3)]
  note kept = routines_kept [OF step run(2)]
  note sum = outstanding_set_pc [OF kept(1), of p', unfolded kept(2)]
  have "outstanding c' + remaining p' < outstanding c + remaining (pc (routines c ! i))"
    using step by (elim step_elims)
      (auto simp: receiveGate_Some releaseLibraryGate_Some outstanding_def)
  with sum show ?thesis unfolding run(1) by linarith
qed


lemma run_stepI:
  "i < length (routines c) \<Longrightarrow>
     goroutine_step supports i (routine (routines c ! i)) (g_ctx (routines c ! i)) c (pc (routines c ! i)) c' p' \<Longrightarrow>
     \<exists>d. run_step supports c d"
  by (blast intro: run_step.run)

text \<open>Whoever holds the gate can go on: releasing it never blocks.\<close>

lemma lock_enabled:
  "p \<in> {OpAcquired, OpRecheck, OpEnter, OpLock} \<Longrightarrow> \<exists>c' p'. lockLibrary x c p c' p'"
  by (cases "never x"; cases "ctx_err x"; cases "library c"; cases "closing c")
    (auto intro: lockLibrary.intros exI)

lemma gate_ready:
  "gate c = Some 0 \<Longrightarrow> releaseLibraryGate c = Some (c\<lparr>gate := Some 1\<rparr>)"
  "gate c = Some (Suc 0) \<Longrightarrow> receiveGate c = Some (c\<lparr>gate := Some 0\<rparr>)"
  by (simp_all add: releaseLibraryGate_def receiveGate_def)

lemma operation_enabled:
  assumes "p \<in> {OpEnter, OpLock, OpAcquired, OpRecheck, OpCall, OpInCall} \<or>
      gate c = Some 0 \<and> p \<in> range OpRelease \<or> gate c = Some (Suc 0) \<and> p = OpGate"
  shows "\<exists>c' p'. goroutine_step supports i (Operation name) x c p c' p'"
proof -
  from assms consider "p \<in> {OpAcquired, OpRecheck, OpEnter, OpLock}" | "p = OpCall" | "p = OpInCall"
    | r where "gate c = Some 0" "p = OpRelease r" | "gate c = Some (Suc 0)" "p = OpGate" by blast
  then have "\<exists>c' p'. withLockedLibraryResult supports i name x c p c' p'"
  proof cases
    case 1
    with lock_enabled show ?thesis by (blast intro: withLockedLibraryResult.lock)
  next
    case 5
    with gate_ready(2) show ?thesis by (blast intro: withLockedLibraryResult.lock lockLibrary.acquire)
  qed (use gate_ready(1) in \<open>blast intro: withLockedLibraryResult.intros\<close>)+
  then show ?thesis by (blast intro: goroutine_step.operation)
qed

lemma closer_enabled:
  assumes "p \<in> {CloserCall, CloserInCall} \<or> closing c \<noteq> None \<and> (is_store p \<or> p = CloserDone) \<or>
      gate c = Some 0 \<and> p = CloserRelease \<or> gate c = Some (Suc 0) \<and> p = CloserGate"
  shows "\<exists>c' p'. goroutine_step supports i CloseLibrary x c p c' p'"
proof -
  have "is_store p \<Longrightarrow> \<exists>r. p = CloserStore r" by (cases p) auto
  with assms have "\<exists>c' p'. closeLibrary c p c' p'"
    using gate_ready [of c] by (blast intro: closeLibrary.intros)
  then show ?thesis by (blast intro: goroutine_step.closeLibrary)
qed

lemma waiter_enabled:
  assumes "p = CloseEnter \<or> closing c \<noteq> None \<and> p = CloseWait \<or>
      p = CloseWaitAgain \<and> (\<exists>cs. closing c = Some cs \<and> cs_done cs)"
  shows "\<exists>c' p'. goroutine_step supports i CloseContext x c p c' p'"
proof -
  from assms have "\<exists>c' p'. closeContext x c p c' p'" by (blast intro: closeContext.intros)
  then show ?thesis by (blast intro: goroutine_step.closeContext)
qed

lemma inv_facts:
  assumes "gate_inv c" "i < length (routines c)" and p: "p = pc (routines c ! i)"
  shows "fits (routine (routines c ! i)) p" "p \<in> {CloseWait, CloseWaitAgain} \<Longrightarrow> closing c \<noteq> None"
    and "uses_gate p \<Longrightarrow> gate c \<noteq> None" "holds_gate p \<Longrightarrow> gate c = Some 0"
    and "before_store p \<or> after_store p \<Longrightarrow> closing c \<noteq> None"
    and "gate c \<noteq> None \<Longrightarrow> gate c \<noteq> Some (Suc 0) \<Longrightarrow>
      \<exists>j < length (routines c). holds_gate (pc (routines c ! j))"
    and "closing c = Some cs \<Longrightarrow> \<not> cs_done cs \<Longrightarrow>
      \<exists>j < length (routines c). before_store (pc (routines c ! j)) \<or> after_store (pc (routines c ! j))"
proof -
  from assms have "routine_ok c (routines c ! i)" by (simp add: gate_inv_def list_all_length)
  then show "fits (routine (routines c ! i)) p" "p \<in> {CloseWait, CloseWaitAgain} \<Longrightarrow> closing c \<noteq> None"
    unfolding p routine_ok_def by blast+
  have pos: "P p \<Longrightarrow> 0 < occurs P c" for P unfolding p by (rule occurs_here [OF assms(2)])
  have m: "mutex c" and k: "shutdown_ok c" using assms(1) by (simp_all add: gate_inv_def)
  show u: "uses_gate p \<Longrightarrow> gate c \<noteq> None" using pos [of uses_gate] m by (auto simp: mutex_def split: option.splits)
  have "holds_gate p \<Longrightarrow> uses_gate p" by (cases p) auto
  with u pos [of holds_gate] m show "holds_gate p \<Longrightarrow> gate c = Some 0" by (auto simp: mutex_def split: option.splits)
  show "before_store p \<or> after_store p \<Longrightarrow> closing c \<noteq> None"
    using pos [of before_store] pos [of after_store] k by (auto simp: shutdown_ok_def split: option.splits)
  show "gate c \<noteq> None \<Longrightarrow> gate c \<noteq> Some (Suc 0) \<Longrightarrow>
      \<exists>j < length (routines c). holds_gate (pc (routines c ! j))"
    using m unfolding occurs_pos [symmetric] by (auto simp: mutex_def split: option.splits)
  show "closing c = Some cs \<Longrightarrow> \<not> cs_done cs \<Longrightarrow>
      \<exists>j < length (routines c). before_store (pc (routines c ! j)) \<or> after_store (pc (routines c ! j))"
    using k occurs_pos [of before_store c] occurs_pos [of after_store c]
    by (cases "library c") (auto simp: shutdown_ok_def)
qed

lemma holder_runs:
  assumes "gate_inv c" "i < length (routines c)" "holds_gate (pc (routines c ! i))"
  shows "\<exists>d. run_step supports c d"
proof -
  note f = inv_facts [OF assms(1,2) refl]
  have gate: "gate c = Some 0" by (rule f(4) [OF assms(3)])
  show ?thesis
  proof (cases "routine (routines c ! i)")
    case (Operation name)
    with f(1) assms(3) gate have "\<exists>c' p'. goroutine_step supports i (Operation name)
        (g_ctx (routines c ! i)) c (pc (routines c ! i)) c' p'"
      by (intro operation_enabled) (cases "pc (routines c ! i)"; auto)
    then show ?thesis using run_stepI [OF assms(2)] Operation by metis
  next
    case CloseContext
    with f(1) assms(3) show ?thesis by (cases "pc (routines c ! i)") auto
  next
    case CloseLibrary
    with f(1,5) assms(3) gate have "\<exists>c' p'. goroutine_step supports i CloseLibrary
        (g_ctx (routines c ! i)) c (pc (routines c ! i)) c' p'"
      by (intro closer_enabled) (cases "pc (routines c ! i)"; auto)
    then show ?thesis using run_stepI [OF assms(2)] CloseLibrary by metis
  qed
qed

lemma closer_runs:
  assumes "gate_inv c" "i < length (routines c)"
    and "before_store (pc (routines c ! i)) \<or> after_store (pc (routines c ! i))"
  shows "\<exists>d. run_step supports c d"
proof (cases "holds_gate (pc (routines c ! i)) \<or> gate c \<noteq> None \<and> gate c \<noteq> Some (Suc 0)")
  case True
  then obtain j where "j < length (routines c)" "holds_gate (pc (routines c ! j))"
    using inv_facts(6) [OF assms(1,2) refl] assms(2) by blast
  then show ?thesis by (rule holder_runs [OF assms(1)])
next
  case False
  note f = inv_facts [OF assms(1,2) refl]
  have r: "routine (routines c ! i) = CloseLibrary"
    using f(1) assms(3) by (cases "routine (routines c ! i)"; cases "pc (routines c ! i)") auto
  have "\<exists>c' p'. goroutine_step supports i CloseLibrary (g_ctx (routines c ! i)) c (pc (routines c ! i)) c' p'"
    using False f(3,5) assms(3) by (intro closer_enabled) (cases "pc (routines c ! i)"; auto)
  then show ?thesis using run_stepI [OF assms(2)] r by metis
qed

lemma no_deadlock:
  assumes inv: "gate_inv c" and i: "i < length (routines c)" and live: "\<And>r. pc (routines c ! i) \<noteq> Returned r"
  shows "\<exists>d. run_step supports c d"
proof (cases "\<exists>j < length (routines c). holds_gate (pc (routines c ! j)) \<or>
    before_store (pc (routines c ! j)) \<or> after_store (pc (routines c ! j))")
  case True
  with holder_runs [OF inv] closer_runs [OF inv] show ?thesis by blast
next
  case False
  let ?p = "pc (routines c ! i)" let ?step = "\<lambda>r. \<exists>c' p'. goroutine_step supports i r (g_ctx (routines c ! i)) c ?p c' p'"
  note f = inv_facts [OF inv i refl]
  have gate: "gate c \<noteq> None \<Longrightarrow> gate c = Some (Suc 0)" using f(6) False by blast
  have dn: "closing c = Some cs \<Longrightarrow> cs_done cs" for cs using f(7) False by blast
  have "?step (routine (routines c ! i))"
  proof (cases "routine (routines c ! i)")
    case (Operation name)
    with f(1,3) False i live gate have "?step (Operation name)"
      by (intro operation_enabled) (cases ?p; auto)
    with Operation show ?thesis by simp
  next
    case CloseContext
    with f(1,2) dn live have "?step CloseContext"
      by (intro waiter_enabled) (cases ?p; auto)
    with CloseContext show ?thesis by simp
  next
    case CloseLibrary
    with f(1) False i live show ?thesis by (cases ?p) auto
  qed
  then show ?thesis using run_stepI [OF i] by blast
qed

text \<open>
  C35: Shutdown completes. From every reachable state, when the goroutines that exist run until none
  of them can go on, every call has returned, the gate is free for the next one, and a shutdown that
  had begun is complete.
\<close>

theorem gate_drains:
  assumes "reachable opened (gate_step supports) c"
    and "steps (run_step supports) c d" "\<And>d'. \<not> run_step supports d d'"
  shows "(\<forall>i < length (routines d). \<exists>r. pc (routines d ! i) = Returned r) \<and>
    gate d \<in> {None, Some 1} \<and> (\<forall>cs. closing d = Some cs \<longrightarrow> cs_done cs \<and> \<not> library d)"
proof -
  have "reachable opened (gate_step supports) d"
    using assms(2,1) by (induction rule: steps.induct) (auto intro: reachable.step gate_step.running)
  note inv = reachable_gate_inv [OF this]
  have all: "\<exists>r. pc (routines d ! i) = Returned r" if "i < length (routines d)" for i
    using no_deadlock [OF inv that] assms(3) by blast
  then have none: "occurs P d = 0" if "\<And>r. \<not> P (Returned r)" for P
    using that occurs_pos [of P d] by fastforce
  from inv none [of holds_gate] none [of before_store] none [of after_store] all show ?thesis
    by (auto simp: gate_inv_def mutex_def shutdown_ok_def split: option.splits)
qed

section \<open>A sample run\<close>

definition sample_opened :: kclient where
  "sample_opened = \<lparr>library = True, closing = None, gate = None, trusted = [], events = [], routines = []\<rparr>"

text \<open>A caller of \<^verbatim>\<open>CloseContext\<close> and the goroutine it started.\<close>

definition closing_run :: "bool \<Rightarrow> bool \<Rightarrow> nat \<Rightarrow> event list \<Rightarrow> pc \<Rightarrow> pc \<Rightarrow> kclient" where
  "closing_run lib fin tokens log p q =
     \<lparr>library = lib, closing = Some \<lparr>cs_done = fin, cs_err = None\<rparr>, gate = Some tokens, trusted = [],
      events = log, routines = [\<lparr>routine = CloseContext, g_ctx = background, pc = p\<rparr>,
        \<lparr>routine = CloseLibrary, g_ctx = background, pc = q\<rparr>]\<rparr>"

lemma run_step_at:
  "i < length (routines c) \<Longrightarrow>
     goroutine_step supports i (routine (routines c ! i)) (g_ctx (routines c ! i)) c (pc (routines c ! i)) c' p' \<Longrightarrow>
     d = set_pc i p' c' \<Longrightarrow> run_step supports c d"
  by (blast intro: run_step.run)

lemma closer_step:
  assumes "closeLibrary (closing_run lib fin n log p q) q c' q'" "c' = closing_run lib' fin' n' log' p q"
  shows "run_step supports (closing_run lib fin n log p q) (closing_run lib' fin' n' log' p q')"
  using assms by (intro run_step_at [of 1]) (auto simp: closing_run_def set_pc_def intro: goroutine_step.closeLibrary)

lemma sample_starts: "reachable opened (gate_step supports) (closing_run True False 1 [] CloseWait CloserGate)"
proof (rule reachable.step [OF reachable.step [OF reachable.start]])
  show "opened sample_opened" by (simp add: opened_def sample_opened_def)
  show "gate_step supports sample_opened (spawn CloseContext background CloseEnter sample_opened)"
    by (rule gate_step.close) (simp add: background_def)
  show "gate_step supports (spawn CloseContext background CloseEnter sample_opened)
      (closing_run True False 1 [] CloseWait CloserGate)"
    by (intro gate_step.running run_step_at [of 0])
      (auto simp: spawn_def sample_opened_def closing_run_def set_pc_def startClosing_def libraryGateLocked_def
        intro!: goroutine_step.closeContext closeContext.start)
qed

definition sample_final :: kclient where
  "sample_final = closing_run False True 1 [CloseStart, CloseEnd None] (Returned None) (Returned None)"

lemma sample_finishes:
  "steps (run_step supports) (closing_run True False 1 [] CloseWait CloserGate) sample_final"
proof -
  let ?r = "\<lambda>lib fin n log. closing_run lib fin n log CloseWait"
  have 1: "run_step supports (?r True False 1 [] CloserGate) (?r True False 0 [] CloserCall)"
    by (rule closer_step [OF closeLibrary.wait]) (simp_all add: closing_run_def receiveGate_def)
  have 2: "run_step supports (?r True False 0 [] CloserCall) (?r True False 0 [CloseStart] CloserInCall)"
    by (rule closer_step [OF closeLibrary.close]) (simp add: closing_run_def emit_def)
  have 3: "run_step supports (?r True False 0 [CloseStart] CloserInCall)
      (?r True False 0 [CloseStart, CloseEnd None] (CloserStore None))"
    by (rule closer_step [OF closeLibrary.closed]) (simp add: closing_run_def emit_def)
  have 4: "run_step supports (?r True False 0 [CloseStart, CloseEnd None] (CloserStore None))
      (?r False False 0 [CloseStart, CloseEnd None] CloserRelease)"
    by (rule closer_step [OF closeLibrary.store [where cs = "\<lparr>cs_done = False, cs_err = None\<rparr>"]]) (simp_all add: closing_run_def)
  have 5: "run_step supports (?r False False 0 [CloseStart, CloseEnd None] CloserRelease)
      (?r False False 1 [CloseStart, CloseEnd None] CloserDone)"
    by (rule closer_step [OF closeLibrary.release]) (simp_all add: closing_run_def releaseLibraryGate_def)
  have 6: "run_step supports (?r False False 1 [CloseStart, CloseEnd None] CloserDone)
      (?r False True 1 [CloseStart, CloseEnd None] (Returned None))"
    by (rule closer_step [OF closeLibrary.complete [where cs = "\<lparr>cs_done = False, cs_err = None\<rparr>"]]) (simp_all add: closing_run_def)
  have 7: "run_step supports (?r False True 1 [CloseStart, CloseEnd None] (Returned None)) sample_final"
    using goroutine_step.closeContext [OF closeContext.ready [where cs = "\<lparr>cs_done = True, cs_err = None\<rparr>"],
        of "?r False True 1 [CloseStart, CloseEnd None] (Returned None)" supports 0 background]
    by (intro run_step_at [of 0]) (auto simp: closing_run_def sample_final_def set_pc_def)
  note more = steps.more [where step = "run_step supports"]
  show ?thesis
    by (rule more [OF more [OF more [OF more [OF more [OF more [OF more [OF steps.none 1] 2] 3] 4] 5] 6] 7])
qed

lemma sample_final_reachable: "reachable opened (gate_step supports) sample_final"
proof -
  have "steps (gate_step supports) (closing_run True False 1 [] CloseWait CloserGate) sample_final"
    using sample_finishes by (induction rule: steps.induct) (auto intro: steps.intros gate_step.running)
  then show ?thesis by (rule reachable_steps [OF _ sample_starts])
qed

lemma sample_final_stops: "\<not> run_step supports sample_final d"
proof
  assume "run_step supports sample_final d"
  then show False
    by (cases rule: run_step.cases) (auto simp: sample_final_def closing_run_def less_Suc_eq elim!: step_elims)
qed

theorem gate_refines_session_witness:
  "\<exists>q. replay (events sample_final) = Some q \<and> in_phase q sample_final \<and>
    count_list (events sample_final) CloseStart \<le> 1"
  by (rule gate_refines_session [OF sample_final_reachable])

theorem close_result_saved_witness:
  "CloseEnd None \<in> set (events sample_final) \<and> replay (events sample_final) = Some Closed"
  using close_result_saved [OF sample_final_reachable, of 0 None]
  by (simp add: sample_final_def closing_run_def)

theorem gate_drains_witness:
  "\<exists>cs. closing sample_final = Some cs \<and> cs_done cs \<and> \<not> library sample_final \<and> gate sample_final = Some 1"
  using gate_drains [OF sample_starts sample_finishes sample_final_stops]
  by (simp add: sample_final_def closing_run_def)

definition late_call :: "pc \<Rightarrow> kclient" where
  "late_call p = (let c = closing_run True False 1 [] CloseWait CloserGate
     in c\<lparr>routines := routines c @ [\<lparr>routine = Operation ''Hash'', g_ctx = background, pc = p\<rparr>]\<rparr>)"

lemma late_call_step:
  assumes "lockLibrary background (late_call p) p (late_call p) p'"
  shows "gate_step supports (late_call p) (late_call p')"
proof (intro gate_step.running run_step_at [of 2 _ supports "late_call p" p'])
  show "2 < length (routines (late_call p))" by (simp add: late_call_def closing_run_def)
  show "late_call p' = set_pc 2 p' (late_call p)" by (simp add: late_call_def closing_run_def set_pc_def)
  show "goroutine_step supports 2 (routine (routines (late_call p) ! 2)) (g_ctx (routines (late_call p) ! 2))
      (late_call p) (pc (routines (late_call p) ! 2)) (late_call p) p'"
    using assms by (simp add: late_call_def closing_run_def goroutine_step.operation withLockedLibraryResult.lock)
qed

theorem closing_rejects_operations_witness:
  "\<exists>d. steps (gate_step (\<lambda>_. True)) (late_call OpEnter) d \<and> CallStart 2 \<notin> set (events d) \<and>
    pc (routines d ! 2) = Returned (Some (Sentinel KalkanErrClosed))"
proof -
  let ?d = "late_call (Returned (Some (Sentinel KalkanErrClosed)))"
  have "reachable opened (gate_step (\<lambda>_. True)) (late_call OpEnter)"
  proof (rule reachable.step [OF sample_starts])
    show "gate_step (\<lambda>_. True) (closing_run True False 1 [] CloseWait CloserGate) (late_call OpEnter)"
      using gate_step.call [of background "\<lambda>_. True" "closing_run True False 1 [] CloseWait CloserGate" "''Hash''"]
      by (simp add: late_call_def spawn_def background_def Let_def)
  qed
  moreover have run: "steps (gate_step (\<lambda>_. True)) (late_call OpEnter) ?d"
  proof (rule steps.more [OF steps.more [OF steps.none]])
    show "gate_step (\<lambda>_. True) (late_call OpEnter) (late_call OpLock)"
      by (intro late_call_step lockLibrary.live) (simp add: background_def)
    show "gate_step (\<lambda>_. True) (late_call OpLock) ?d"
      by (intro late_call_step lockLibrary.closed) (simp add: late_call_def closing_run_def)
  qed
  ultimately have "CallStart 2 \<notin> set (events ?d)"
    using closing_rejects_operations [where c = "late_call OpEnter" and i = 2 and d = ?d]
    by (simp add: late_call_def closing_run_def)
  with run show ?thesis by (intro exI [of _ ?d]) (simp add: late_call_def closing_run_def)
qed

end
