(* ===== verification/Output_Capacity.thy ===== *)
theory Output_Capacity
  imports Go_Errors
begin

text \<open>
  Capacities of the native output buffers (\<^verbatim>\<open>ckalkan/buffer.go\<close>,
  \<^verbatim>\<open>output_estimate.go\<close>, \<^verbatim>\<open>options.go\<close>, \<^verbatim>\<open>output_policy_*.go\<close>,
  \<^verbatim>\<open>native_ranges.go\<close>, \<^verbatim>\<open>native_conversions.go\<close>): the hard limit, the initial
  capacities and the growth policy. Capacities and lengths are mathematical integers; the
  lemmas show that every intermediate value of the source stays within 64 bits.
\<close>

unbundle bit_operations_syntax

section \<open>Configuration\<close>

definition conservativeOutputBufferSize :: int where "conservativeOutputBufferSize = 65536"
definition defaultListBufferSize :: int where "defaultListBufferSize = 1048576"
definition defaultOutputBufferSize :: int where "defaultOutputBufferSize = conservativeOutputBufferSize"
definition DefaultMaxOutputBufferSize :: int where "DefaultMaxOutputBufferSize = 67108864"
definition maxNativeOutputBufferSize :: int where "maxNativeOutputBufferSize = 2147483647"
definition initialRawHash256Capacity :: int where "initialRawHash256Capacity = 32"
definition initialRawHash512Capacity :: int where "initialRawHash512Capacity = 64"
definition initialUnknownHashCapacity :: int where "initialUnknownHashCapacity = 128"
definition initialEncodedHashCapacity :: int where "initialEncodedHashCapacity = 256"
definition initialInfoOutputBuffer :: int where "initialInfoOutputBuffer = 4096"
definition initialCertOutputBuffer :: int where "initialCertOutputBuffer = 8192"
definition initialSignatureBuffer :: int where "initialSignatureBuffer = conservativeOutputBufferSize"
definition initialZIPVerifyBuffer :: int where "initialZIPVerifyBuffer = conservativeOutputBufferSize"

lemmas capacity_consts =
  conservativeOutputBufferSize_def defaultListBufferSize_def defaultOutputBufferSize_def
  DefaultMaxOutputBufferSize_def maxNativeOutputBufferSize_def initialRawHash256Capacity_def
  initialRawHash512Capacity_def initialUnknownHashCapacity_def initialEncodedHashCapacity_def
  initialInfoOutputBuffer_def initialCertOutputBuffer_def initialSignatureBuffer_def
  initialZIPVerifyBuffer_def

record config =
  libraryPath :: gostring
  listBufferSize :: int
  bufferSize :: int
  maxBufferSize :: int

definition defaultConfig :: config where
  "defaultConfig = \<lparr>libraryPath = [], listBufferSize = defaultListBufferSize, bufferSize = 0,
     maxBufferSize = 0\<rparr>"

type_synonym Option = "config \<Rightarrow> config"

definition WithLibrary :: "gostring \<Rightarrow> Option" where
  "WithLibrary library c = c\<lparr>libraryPath := library\<rparr>"

definition WithListBufferSize :: "int \<Rightarrow> Option" where
  "WithListBufferSize n c = (if n > 0 then c\<lparr>listBufferSize := n\<rparr> else c)"

definition WithBufferSize :: "int \<Rightarrow> Option" where
  "WithBufferSize n c = (if n > 0 then c\<lparr>bufferSize := n\<rparr> else c)"

definition WithMaxBufferSize :: "int \<Rightarrow> Option" where
  "WithMaxBufferSize n c =
     (if n > 0 then c\<lparr>maxBufferSize := min n maxNativeOutputBufferSize\<rparr>
      else c\<lparr>maxBufferSize := n\<rparr>)"

section \<open>Errors\<close>

definition format_int :: "int \<Rightarrow> gostring" where
  "format_int n = (if n < 0 then ''-'' else []) @ format_nat 10 (nat \<bar>n\<bar>)"

text \<open>\<^verbatim>\<open>fmt.Errorf\<close> without \<^verbatim>\<open>%w\<close>: an error that wraps nothing.\<close>

definition plainError :: "gostring \<Rightarrow> gerror" where
  "plainError message = ForeignError message []"

definition invalidNativeOutputLength :: "gostring \<Rightarrow> int \<Rightarrow> gerror" where
  "invalidNativeOutputLength output len =
     plainError (''ckalkan: native '' @ output @ '' length is negative: '' @ format_int len)"

definition validateNativeOutputDataLength :: "gostring \<Rightarrow> slice \<Rightarrow> int \<Rightarrow> gerror option" where
  "validateNativeOutputDataLength output data reportedLength =
     (if int (slice_len data) \<noteq> reportedLength
      then Some (plainError (''ckalkan: native '' @ output @ '' data length '' @
        format_int (int (slice_len data)) @ '' does not match reported length '' @
        format_int reportedLength))
      else None)"

text \<open>The value, and whether it is non-negative.\<close>

definition nonNegativeIntToUint64 :: "int \<Rightarrow> int option" where
  "nonNegativeIntToUint64 v = (if v < 0 then None else Some v)"

section \<open>The limit and the growth step\<close>

definition outputBufferLimit :: "int \<Rightarrow> int" where
  "outputBufferLimit hardMaximum =
     (if hardMaximum > 0 then min hardMaximum maxNativeOutputBufferSize
      else DefaultMaxOutputBufferSize)"

definition outputBufferLimitError :: "gostring \<Rightarrow> int \<Rightarrow> int \<Rightarrow> gerror" where
  "outputBufferLimitError operation hardMaximum requested =
     (case nonNegativeIntToUint64 (outputBufferLimit hardMaximum) of
        None \<Rightarrow> plainError (''ckalkan: output buffer limit is negative: '' @
          format_int (outputBufferLimit hardMaximum))
      | Some limit \<Rightarrow> OutputBufferLimitError operation (word_of_int requested) (word_of_int limit))"

definition growCapacity :: "int \<Rightarrow> int \<Rightarrow> int \<Rightarrow> int" where
  "growCapacity current requested maximum =
     (let limit = outputBufferLimit maximum
      in if current \<ge> limit then current
         else let next = (if current \<le> limit div 2 then current * 2 else limit);
                  next = max next requested
              in if next > limit then limit else next)"

definition growReportedCapacity :: "int \<Rightarrow> int \<Rightarrow> int \<Rightarrow> int \<times> bool" where
  "growReportedCapacity current reported maximum =
     (let next = growCapacity current reported maximum in (next, next \<noteq> current))"

definition minimumOutputGrowth :: "int \<Rightarrow> int \<Rightarrow> int" where
  "minimumOutputGrowth current reported =
     (case (if reported > current then nonNegativeIntToUint64 reported else None) of
        Some v \<Rightarrow> v
      | None \<Rightarrow> if current \<le> 0 then 1
                else (case nonNegativeIntToUint64 current of None \<Rightarrow> 1 | Some v \<Rightarrow> v + 1))"

section \<open>Initial capacities\<close>

definition normalizeConfiguredBufferSize :: "int \<Rightarrow> int \<Rightarrow> int" where
  "normalizeConfiguredBufferSize v fallback =
     (let sz = defaultOutputBufferSize;
          sz = (if fallback > 0 then fallback else sz);
          sz = (if v > 0 then v else sz)
      in max sz conservativeOutputBufferSize)"

definition boundedOutputCapacity :: "int \<Rightarrow> int \<Rightarrow> int" where
  "boundedOutputCapacity v maximum =
     min (if v \<le> 0 then defaultOutputBufferSize else v) (outputBufferLimit maximum)"

definition outputInitialCapacity :: "config \<Rightarrow> int \<Rightarrow> int" where
  "outputInitialCapacity c defaultInitial =
     (if bufferSize c > 0 then normalizeConfiguredBufferSize (bufferSize c) defaultOutputBufferSize
      else if defaultInitial > 0 then defaultInitial
      else defaultOutputBufferSize)"

definition requestOutputInitialCapacity :: "config \<Rightarrow> int \<Rightarrow> int \<Rightarrow> int" where
  "requestOutputInitialCapacity c requested defaultInitial =
     (if requested > 0 then requested else outputInitialCapacity c defaultInitial)"

section \<open>Retry decisions\<close>

definition shouldRetryOutput :: "ErrorCode \<Rightarrow> int \<Rightarrow> int \<Rightarrow> bool" where
  "shouldRetryOutput code reportedLength capacity \<longleftrightarrow>
     code = ErrorBufferTooSmall \<or> (code = ErrorOK \<and> reportedLength > capacity)"

definition outputNeedsGrowth :: "ErrorCode \<Rightarrow> int \<Rightarrow> int \<Rightarrow> bool \<Rightarrow> bool" where
  "outputNeedsGrowth code reportedLength capacity retrySaturated \<longleftrightarrow>
     reportedLength > capacity \<or>
     code = ErrorBufferTooSmall \<and> reportedLength \<ge> capacity \<or>
     code = ErrorOK \<and> retrySaturated \<and> reportedLength = capacity"

definition retryErrorCode :: "ErrorCode \<Rightarrow> ErrorCode" where
  "retryErrorCode code = (if code = ErrorOK then ErrorBufferTooSmall else code)"

record outputBufferState =
  o_current :: int
  o_reported :: int
  o_active :: bool
  o_retrySaturated :: bool
  o_growthHint :: int

text \<open>The first loop: a negative length of an active output is an error.\<close>

fun negativeOutput :: "outputBufferState list \<Rightarrow> int option" where
  "negativeOutput [] = None"
| "negativeOutput (output # outputs) =
     (if o_active output \<and> o_reported output < 0 then Some (o_reported output)
      else negativeOutput outputs)"

text \<open>The second loop: the largest reported length of the outputs to grow, or an error.\<close>

fun reportedOutputs ::
  "gostring \<Rightarrow> int \<Rightarrow> int \<Rightarrow> (bool \<times> outputBufferState) list \<Rightarrow> gerror + int" where
  "reportedOutputs operation hardMaximum reported [] = Inr reported"
| "reportedOutputs operation hardMaximum reported ((grow, output) # outputs) =
     (if \<not> grow then reportedOutputs operation hardMaximum reported outputs
      else case nonNegativeIntToUint64 (o_reported output) of
        None \<Rightarrow> Inl (invalidNativeOutputLength (operation @ '' output'') (o_reported output))
      | Some reportedSize \<Rightarrow>
          if o_reported output > outputBufferLimit hardMaximum
          then Inl (outputBufferLimitError operation hardMaximum (max reported reportedSize))
          else reportedOutputs operation hardMaximum (max reported reportedSize) outputs)"

text \<open>The third loop, for one output: its next capacity and whether it grew.\<close>

definition nextCapacity :: "int \<Rightarrow> bool \<times> outputBufferState \<Rightarrow> int \<times> bool" where
  "nextCapacity hardMaximum = (\<lambda>(grow, output).
     if \<not> grow then (o_current output, False)
     else growReportedCapacity (o_current output)
       (if o_reported output \<ge> o_current output
        then max (o_reported output) (o_growthHint output) else o_reported output) hardMaximum)"

definition nextOutputBufferCapacities ::
  "gostring \<Rightarrow> ErrorCode \<Rightarrow> int \<Rightarrow> outputBufferState list \<Rightarrow> gerror + int list" where
  "nextOutputBufferCapacities operation code hardMaximum outputs =
     (case negativeOutput outputs of
        Some len \<Rightarrow> Inl (invalidNativeOutputLength (operation @ '' output'') len)
      | None \<Rightarrow>
          let needs = map (\<lambda>output. o_active output \<and> outputNeedsGrowth code (o_reported output)
                             (o_current output) (o_retrySaturated output)) outputs;
              grow = (if code = ErrorBufferTooSmall \<and> \<not> list_ex (\<lambda>b. b) needs
                      then map o_active outputs else needs)
          in case reportedOutputs operation hardMaximum 0 (zip grow outputs) of
               Inl err \<Rightarrow> Inl err
             | Inr reported \<Rightarrow>
                 let next = map (nextCapacity hardMaximum) (zip grow outputs)
                 in if \<not> list_ex snd next
                    then Inl (outputBufferLimitError operation hardMaximum
                      (fold (\<lambda>(g, output) requested. if g
                               then max requested (minimumOutputGrowth (o_current output) (o_reported output))
                               else requested) (zip grow outputs) reported))
                    else Inr (map fst next))"

section \<open>Estimates\<close>

definition signatureOutputOverhead :: int where "signatureOutputOverhead = 65536"
definition pemEnvelopeOverhead :: int where "pemEnvelopeOverhead = 256"
definition pemLineWidth :: int where "pemLineWidth = 64"

definition saturatingEstimateAdd :: "int \<Rightarrow> int \<Rightarrow> int" where
  "saturatingEstimateAdd left right =
     (let limit = maxNativeOutputBufferSize + 1
      in if left \<ge> limit \<or> right \<ge> limit \<or> left > limit - right then limit else left + right)"

definition saturatingEstimateMultiply :: "int \<Rightarrow> int \<Rightarrow> int" where
  "saturatingEstimateMultiply v multiplier =
     (let limit = maxNativeOutputBufferSize + 1
      in if v \<le> 0 \<or> multiplier \<le> 0 then 0
         else if v \<ge> limit \<or> v > limit div multiplier then limit
         else v * multiplier)"

definition ceilPositiveQuotient :: "int \<Rightarrow> int \<Rightarrow> int" where
  "ceilPositiveQuotient v divisor =
     (if v mod divisor \<noteq> 0 then v div divisor + 1 else v div divisor)"

definition base64EncodedEstimate :: "int \<Rightarrow> int" where
  "base64EncodedEstimate raw =
     (if raw \<le> 0 then 0 else saturatingEstimateMultiply (ceilPositiveQuotient raw 3) 4)"

definition decodedBase64UpperBound :: "int \<Rightarrow> int" where
  "decodedBase64UpperBound encoded =
     (if encoded \<le> 0 then 0 else saturatingEstimateMultiply (ceilPositiveQuotient encoded 4) 3)"

type_synonym Flag = goint

definition has_flag :: "Flag \<Rightarrow> Flag \<Rightarrow> bool" where
  "has_flag flags f \<longleftrightarrow> flags AND f \<noteq> 0"

definition SignCMS :: Flag where "SignCMS = 0x2"
definition InBase64 :: Flag where "InBase64 = 0x10"
definition DetachedData :: Flag where "DetachedData = 0x40"
definition OutPEM :: Flag where "OutPEM = 0x200"
definition OutBase64 :: Flag where "OutBase64 = 0x800"
definition InFile :: Flag where "InFile = 0x8000"
definition GetOCSPResponse :: Flag where "GetOCSPResponse = 0x80000"

definition estimateEncodedOutputSize :: "int \<Rightarrow> Flag \<Rightarrow> int" where
  "estimateEncodedOutputSize raw flags =
     (if has_flag flags OutPEM
      then let encoded = base64EncodedEstimate raw;
               lineBreaks = saturatingEstimateMultiply (ceilPositiveQuotient encoded pemLineWidth) 2
           in saturatingEstimateAdd (saturatingEstimateAdd encoded lineBreaks) pemEnvelopeOverhead
      else if has_flag flags OutBase64 then base64EncodedEstimate raw
      else raw)"

definition boundedOutputEstimate :: "int \<Rightarrow> int \<Rightarrow> int" where
  "boundedOutputEstimate estimated maximum = min estimated (outputBufferLimit maximum)"

text \<open>\<^verbatim>\<open>os.Stat\<close> is a parameter: the size of a path that is not a directory.\<close>

definition estimateInputSize :: "(gostring \<Rightarrow> int option) \<Rightarrow> slice \<Rightarrow> bool \<Rightarrow> int" where
  "estimateInputSize stat v file =
     (if \<not> file then int (slice_len v)
      else case stat (str_of v) of
             Some n \<Rightarrow> if n \<ge> 0 then n else int (slice_len v)
           | None \<Rightarrow> int (slice_len v))"

record SignDataRequest =
  sd_Alias :: gostring
  sd_Flags :: Flag
  sd_Data :: slice
  sd_Signature :: slice
  sd_OutputCapacity :: int

definition estimateSignDataOutput :: "(gostring \<Rightarrow> int option) \<Rightarrow> SignDataRequest \<Rightarrow> int \<Rightarrow> int" where
  "estimateSignDataOutput stat req maximum =
     (let signatureSize = int (slice_len (sd_Signature req));
          signatureSize = (if has_flag (sd_Flags req) InBase64
                           then decodedBase64UpperBound signatureSize else signatureSize);
          contentSize =
            (if has_flag (sd_Flags req) SignCMS \<and> \<not> has_flag (sd_Flags req) DetachedData
             then let dataSize = estimateInputSize stat (sd_Data req) (has_flag (sd_Flags req) InFile);
                      dataSize = (if has_flag (sd_Flags req) InBase64
                                  then decodedBase64UpperBound dataSize else dataSize)
                  in max signatureSize dataSize
             else signatureSize);
          estimated = saturatingEstimateAdd contentSize signatureOutputOverhead
      in boundedOutputEstimate (estimateEncodedOutputSize estimated (sd_Flags req)) maximum)"

definition estimateSignedXMLOutput :: "slice \<Rightarrow> int \<Rightarrow> int" where
  "estimateSignedXMLOutput xml maximum =
     boundedOutputEstimate (saturatingEstimateAdd (int (slice_len xml)) signatureOutputOverhead) maximum"

definition estimatedOutputInitialCapacity :: "config \<Rightarrow> int \<Rightarrow> int \<Rightarrow> int \<Rightarrow> int" where
  "estimatedOutputInitialCapacity c requested estimated fallback =
     (if requested > 0 then requested else max (outputInitialCapacity c fallback) estimated)"

definition signedXMLOutputInitialCapacity :: "config \<Rightarrow> int \<Rightarrow> slice \<Rightarrow> int" where
  "signedXMLOutputInitialCapacity c requested xml =
     estimatedOutputInitialCapacity c requested
       (if requested \<le> 0 then estimateSignedXMLOutput xml (maxBufferSize c) else 0)
       initialSignatureBuffer"

type_synonym HashAlgorithm = gostring

definition initialHashOutputCapacity :: "HashAlgorithm \<Rightarrow> Flag \<Rightarrow> int" where
  "initialHashOutputCapacity algorithm flags =
     (if has_flag flags (OutBase64 OR OutPEM) then initialEncodedHashCapacity
      else if algorithm \<in> {''sha256'', ''Gost34311_95'', ''GostR3411_2015_256''}
      then initialRawHash256Capacity
      else if algorithm = ''GostR3411_2015_512'' then initialRawHash512Capacity
      else initialUnknownHashCapacity)"

section \<open>Native argument ranges\<close>

definition maxNativeCInt :: int where "maxNativeCInt = 2147483647"
definition maxNativeUnsignedLong :: int where "maxNativeUnsignedLong = 4294967295"

definition validateNativeUnsignedRange ::
  "gostring \<Rightarrow> int \<Rightarrow> int \<Rightarrow> gostring \<Rightarrow> gerror + int" where
  "validateNativeUnsignedRange field v upperBound nativeType =
     (if v > upperBound
      then Inl (plainError (''ckalkan: '' @ field @ '' '' @ format_int v @ '' must be in range 0..'' @
        format_int upperBound @ '' for '' @ nativeType))
      else Inr v)"

definition validateNativeSignedRange ::
  "gostring \<Rightarrow> int \<Rightarrow> int \<Rightarrow> gostring \<Rightarrow> gerror + int" where
  "validateNativeSignedRange field v upperBound nativeType =
     (if v < 0
      then Inl (plainError (''ckalkan: '' @ field @ '' '' @ format_int v @
        '' must be non-negative for '' @ nativeType))
      else validateNativeUnsignedRange field v upperBound nativeType)"

definition enumToNativeInt :: "gostring \<Rightarrow> goint \<Rightarrow> gerror + int" where
  "enumToNativeInt field v = validateNativeSignedRange field (sint v) maxNativeCInt ''native C int''"

definition storeToNativeInt :: "uint64 \<Rightarrow> gerror + int" where
  "storeToNativeInt storage =
     validateNativeUnsignedRange ''storage flag'' (uint storage) maxNativeCInt ''native C int''"

definition storeToNativeUnsignedLong :: "uint64 \<Rightarrow> gerror + int" where
  "storeToNativeUnsignedLong storage =
     validateNativeUnsignedRange ''storage flag'' (uint storage) maxNativeUnsignedLong
       ''native unsigned long''"

definition flagsToNativeUnsignedLong :: "Flag \<Rightarrow> gerror + int" where
  "flagsToNativeUnsignedLong flags =
     validateNativeSignedRange ''flag mask'' (sint flags) maxNativeUnsignedLong ''native unsigned long''"

definition flagsToNativeInt :: "Flag \<Rightarrow> gerror + int" where
  "flagsToNativeInt flags =
     validateNativeSignedRange ''flag mask'' (sint flags) maxNativeCInt ''native C int''"

definition validateNativeSignerID :: "gostring \<Rightarrow> int \<Rightarrow> gerror option" where
  "validateNativeSignerID field v =
     (if v < 0
      then Some (plainError (''ckalkan: '' @ field @ '' '' @ format_int v @ '' must be non-negative''))
      else if v > maxNativeCInt
      then Some (plainError (''ckalkan: '' @ field @ '' '' @ format_int v @ '' must be in range 0..'' @
        format_int maxNativeCInt @ '' for native C int''))
      else None)"

section \<open>Growth of one buffer\<close>

lemma limit_range: "0 < outputBufferLimit m" "outputBufferLimit m \<le> 2147483647"
  by (auto simp: outputBufferLimit_def capacity_consts)

lemma bounded_range:
  "0 < boundedOutputCapacity v m" "boundedOutputCapacity v m \<le> outputBufferLimit m"
  using limit_range [of m] by (auto simp: boundedOutputCapacity_def capacity_consts)

lemma growCapacity_at_limit: "outputBufferLimit m \<le> c \<Longrightarrow> growCapacity c r m = c"
  by (simp add: growCapacity_def Let_def)

lemma growCapacity_below_limit:
  assumes "c < outputBufferLimit m"
  shows "growCapacity c r m =
    min (outputBufferLimit m) (max (if c \<le> outputBufferLimit m div 2 then c * 2 else outputBufferLimit m) r)"
  using assms by (auto simp: growCapacity_def Let_def)

lemma growCapacity_le_limit: "c \<le> outputBufferLimit m \<Longrightarrow> growCapacity c r m \<le> outputBufferLimit m"
  by (cases "c < outputBufferLimit m") (simp_all add: growCapacity_below_limit growCapacity_at_limit)

lemma growCapacity_ge: "0 \<le> r \<Longrightarrow> c \<le> growCapacity c r m"
  by (cases "c < outputBufferLimit m") (auto simp: growCapacity_below_limit growCapacity_at_limit)

lemma growCapacity_less:
  "0 \<le> r \<Longrightarrow> growCapacity c r m \<noteq> c \<Longrightarrow> c < growCapacity c r m \<and> c < outputBufferLimit m"
  using growCapacity_ge [of r c m] growCapacity_at_limit [of m c r] by force

lemma growCapacity_requested:
  "c < outputBufferLimit m \<Longrightarrow> min (outputBufferLimit m) r \<le> growCapacity c r m"
  by (simp add: growCapacity_below_limit)

lemma growCapacity_doubles:
  "c < outputBufferLimit m \<Longrightarrow> min (outputBufferLimit m) (2 * c) \<le> growCapacity c r m"
  by (auto simp: growCapacity_below_limit)

text \<open>Induction along the capacities of a retry loop.\<close>

lemma growth_induct [case_names step]:
  assumes "\<And>sz. (\<And>r. 0 \<le> r \<Longrightarrow> growCapacity sz r m \<noteq> sz \<Longrightarrow> P (growCapacity sz r m)) \<Longrightarrow> P sz"
  shows "P sz"
proof (induction "nat (outputBufferLimit m - sz)" arbitrary: sz rule: less_induct)
  case less
  show ?case
  proof (rule assms)
    fix r :: int
    assume "0 \<le> r" "growCapacity sz r m \<noteq> sz"
    then have "sz < growCapacity sz r m" "sz < outputBufferLimit m" using growCapacity_less by blast+
    then show "P (growCapacity sz r m)" by (intro less) simp
  qed
qed

text \<open>
  The contract of a growth step towards a limit: below the limit the capacity at least
  doubles or reaches the limit, and at the limit it stays. Any sequence of retries that
  stops when the capacity no longer changes is then short.
\<close>

locale growth_policy =
  fixes limit :: int and grow :: "int \<Rightarrow> int \<Rightarrow> int"
  assumes small: "limit < 2 ^ 31"
    and le_limit: "c \<le> limit \<Longrightarrow> grow c r \<le> limit"
    and doubles: "c < limit \<Longrightarrow> min limit (2 * c) \<le> grow c r"
    and stays: "limit \<le> c \<Longrightarrow> grow c r = c"
begin

text \<open>A history of capacities, the oldest first.\<close>

inductive history :: "int list \<Rightarrow> bool" where
  start: "0 < c \<Longrightarrow> c \<le> limit \<Longrightarrow> history [c]"
| retry: "history (cs @ [c]) \<Longrightarrow> grow c r \<noteq> c \<Longrightarrow> history (cs @ [c, grow c r])"

lemma history_range: "history cs \<Longrightarrow> c \<in> set cs \<Longrightarrow> 0 < c \<and> c \<le> limit"
proof (induction arbitrary: c rule: history.induct)
  case (retry cs c r d)
  from retry.IH [of c] have c: "0 < c" "c \<le> limit" by auto
  then have "c < limit" using retry.hyps(2) stays [of c r] by force
  with doubles [of c r] c have "0 < grow c r" by (simp add: min_def split: if_splits)
  with le_limit [of c r] c retry.IH retry.prems show ?case by auto
qed auto

lemma history_doubles: "history cs \<Longrightarrow> last cs = limit \<or> 2 ^ (length cs - 1) \<le> last cs"
proof (induction rule: history.induct)
  case (retry cs c r)
  have "c \<le> limit" using history_range [OF retry.hyps(1)] by simp
  then have lt: "c < limit" using retry.hyps(2) stays [of c r] by force
  have "2 ^ length cs \<le> c" using retry.IH lt by auto
  with doubles [OF lt, of r] le_limit [of c r] lt show ?case by auto
qed auto

theorem history_length:
  assumes "history cs"
  shows "length cs \<le> 32"
  using assms
proof (cases rule: history.cases)
  case (retry ds c r)
  have "c \<le> limit" using history_range [OF retry(2)] by simp
  then have lt: "c < limit" using retry(3) stays [of c r] by force
  with history_doubles [OF retry(2)] have "2 ^ length ds \<le> c" by auto
  with lt small have "(2 :: int) ^ length ds < 2 ^ 31" by linarith
  then have "length ds < 31" by (rule power_less_imp_less_exp [rotated]) simp
  with retry(1) show ?thesis by simp
qed simp

end

interpretation capacity_growth: growth_policy "outputBufferLimit m" "\<lambda>c r. growCapacity c r m" for m
  by unfold_locales
    (use limit_range [of m] in \<open>auto simp: growCapacity_le_limit growCapacity_doubles growCapacity_at_limit\<close>)

section \<open>Growth of several buffers\<close>

lemma nextCapacity_range:
  assumes "0 < o_current x" "o_current x \<le> outputBufferLimit m" "fst gx = g" "snd gx = x"
    "g \<longrightarrow> 0 \<le> o_reported x"
  shows "o_current x \<le> fst (nextCapacity m gx)" "fst (nextCapacity m gx) \<le> outputBufferLimit m"
    "snd (nextCapacity m gx) \<longleftrightarrow> o_current x < fst (nextCapacity m gx)"
  using assms growCapacity_ge growCapacity_le_limit
  by (auto simp: nextCapacity_def growReportedCapacity_def Let_def case_prod_unfold
      intro!: growCapacity_ge growCapacity_le_limit dest: growCapacity_less [rotated])

lemma reportedOutputs_nonneg:
  "reportedOutputs operation m reported gs = Inr n \<Longrightarrow> (True, x) \<in> set gs \<Longrightarrow>
     0 \<le> o_reported x \<and> o_reported x \<le> outputBufferLimit m"
  by (induction operation m reported gs rule: reportedOutputs.induct)
    (auto simp: nonNegativeIntToUint64_def split: if_splits)

definition output_ok :: "int \<Rightarrow> outputBufferState \<Rightarrow> bool" where
  "output_ok m x \<longleftrightarrow> 0 < o_current x \<and> o_current x \<le> outputBufferLimit m"

text \<open>What a successful step does to each buffer.\<close>

definition grown_from :: "int \<Rightarrow> outputBufferState \<Rightarrow> int \<Rightarrow> bool" where
  "grown_from m x n \<longleftrightarrow> o_current x \<le> n \<and> n \<le> outputBufferLimit m \<and>
     (o_current x < n \<longrightarrow> o_active x \<and> 0 \<le> o_reported x \<and> o_reported x \<le> n)"

lemma nextOutputBufferCapacities_cases:
  assumes "nextOutputBufferCapacities operation code m xs = Inr next"
  obtains grow where "length grow = length xs" "next = map (fst \<circ> nextCapacity m) (zip grow xs)"
    "list_ex snd (map (nextCapacity m) (zip grow xs))"
    "\<And>i. i < length xs \<Longrightarrow> grow ! i \<Longrightarrow>
       o_active (xs ! i) \<and> 0 \<le> o_reported (xs ! i) \<and> o_reported (xs ! i) \<le> outputBufferLimit m"
proof -
  define needs where "needs = map (\<lambda>output. o_active output \<and> outputNeedsGrowth code (o_reported output)
      (o_current output) (o_retrySaturated output)) xs"
  define grow where "grow = (if code = ErrorBufferTooSmall \<and> \<not> list_ex (\<lambda>b. b) needs
      then map o_active xs else needs)"
  let ?gs = "zip grow xs"
  have len: "length grow = length xs" by (simp add: grow_def needs_def)
  from assms obtain n where rep: "reportedOutputs operation m 0 ?gs = Inr n"
    and grew: "list_ex snd (map (nextCapacity m) ?gs)" and nxt: "next = map (fst \<circ> nextCapacity m) ?gs"
    unfolding nextOutputBufferCapacities_def Let_def needs_def [symmetric] grow_def [symmetric]
    by (auto split: option.splits sum.splits if_splits)
  have "o_active (xs ! i) \<and> 0 \<le> o_reported (xs ! i) \<and> o_reported (xs ! i) \<le> outputBufferLimit m"
    if "i < length xs" "grow ! i" for i
  proof -
    have "(grow ! i, xs ! i) \<in> set ?gs" using that len by (auto simp: set_zip)
    with reportedOutputs_nonneg [OF rep] that show ?thesis
      by (auto simp: grow_def needs_def split: if_splits)
  qed
  with len nxt grew that show thesis by blast
qed

lemma nextCapacity_progress:
  assumes "g \<longrightarrow> 0 \<le> o_reported x"
  shows "o_current x \<le> fst (nextCapacity m (g, x)) \<and> (snd (nextCapacity m (g, x)) \<longrightarrow>
    o_current x < fst (nextCapacity m (g, x)) \<and> o_current x < outputBufferLimit m)"
proof (cases g)
  case True
  let ?r = "if o_reported x \<ge> o_current x then max (o_reported x) (o_growthHint x) else o_reported x"
  have "0 \<le> ?r" using assms True by auto
  from growCapacity_ge [OF this] growCapacity_less [OF this] True show ?thesis
    by (simp add: nextCapacity_def growReportedCapacity_def Let_def)
qed (simp add: nextCapacity_def)

text \<open>A successful step moves towards the limit, whatever the capacities are.\<close>

lemma nextOutputBufferCapacities_progress:
  assumes "nextOutputBufferCapacities operation code m xs = Inr next"
  shows "list_all2 (\<lambda>x n. o_current x \<le> n) xs next"
    "\<exists>i < length xs. o_current (xs ! i) < next ! i \<and> o_current (xs ! i) < outputBufferLimit m"
proof -
  from nextOutputBufferCapacities_cases [OF assms] obtain grow where
    g: "length grow = length xs" "next = map (fst \<circ> nextCapacity m) (zip grow xs)"
    "list_ex snd (map (nextCapacity m) (zip grow xs))"
    "\<And>i. i < length xs \<Longrightarrow> grow ! i \<Longrightarrow>
       o_active (xs ! i) \<and> 0 \<le> o_reported (xs ! i) \<and> o_reported (xs ! i) \<le> outputBufferLimit m"
    by blast
  have one: "o_current (xs ! i) \<le> next ! i"
    "snd (nextCapacity m (grow ! i, xs ! i)) \<Longrightarrow>
       o_current (xs ! i) < next ! i \<and> o_current (xs ! i) < outputBufferLimit m" if "i < length xs" for i
    using g(1,2) g(4) [OF that] that nextCapacity_progress [of "grow ! i" "xs ! i" m] by simp_all
  show "list_all2 (\<lambda>x n. o_current x \<le> n) xs next"
    using one(1) g(1,2) by (simp add: list_all2_conv_all_nth)
  from g(3) obtain i where "i < length xs" "snd (nextCapacity m (grow ! i, xs ! i))"
    by (auto simp: list_ex_length g(1))
  with one(2) show "\<exists>i < length xs. o_current (xs ! i) < next ! i \<and> o_current (xs ! i) < outputBufferLimit m"
    by blast
qed

lemma nextOutputBufferCapacities_ok:
  assumes "nextOutputBufferCapacities operation code m xs = Inr next" "list_all (output_ok m) xs"
  shows "list_all2 (grown_from m) xs next" "\<exists>i < length xs. o_current (xs ! i) < next ! i"
proof -
  from nextOutputBufferCapacities_cases [OF assms(1)] obtain grow where
    g: "length grow = length xs" "next = map (fst \<circ> nextCapacity m) (zip grow xs)"
    "list_ex snd (map (nextCapacity m) (zip grow xs))"
    "\<And>i. i < length xs \<Longrightarrow> grow ! i \<Longrightarrow>
       o_active (xs ! i) \<and> 0 \<le> o_reported (xs ! i) \<and> o_reported (xs ! i) \<le> outputBufferLimit m"
    by blast
  have "grown_from m (xs ! i) (next ! i)" if i: "i < length xs" for i
  proof -
    let ?x = "xs ! i" let ?g = "grow ! i" let ?n = "nextCapacity m (?g, ?x)"
    have n: "next ! i = fst ?n" using i g by simp
    have "output_ok m ?x" using assms(2) i by (simp add: list_all_length)
    then have b: "o_current ?x \<le> fst ?n" "fst ?n \<le> outputBufferLimit m" "snd ?n \<longleftrightarrow> o_current ?x < fst ?n"
      using nextCapacity_range [of ?x m "(?g, ?x)" ?g] g(4) [OF i] by (simp_all add: output_ok_def)
    have "o_reported ?x \<le> fst ?n" if lt: "o_current ?x < fst ?n" and grew: "?g"
    proof -
      let ?r = "if o_reported ?x \<ge> o_current ?x then max (o_reported ?x) (o_growthHint ?x)
        else o_reported ?x"
      have "fst ?n = growCapacity (o_current ?x) ?r m"
        using grew by (simp add: nextCapacity_def growReportedCapacity_def Let_def)
      moreover have "min (outputBufferLimit m) ?r \<le> growCapacity (o_current ?x) ?r m"
        using lt b(2) by (intro growCapacity_requested) simp
      ultimately have "min (outputBufferLimit m) (o_reported ?x) \<le> fst ?n"
        by (auto simp: min_le_iff_disj split: if_splits)
      with g(4) [OF i grew] show ?thesis by simp
    qed
    moreover have "?g" if "o_current ?x < fst ?n" using that by (cases ?g) (simp_all add: nextCapacity_def)
    ultimately show ?thesis using b n g(4) [OF i] by (auto simp: grown_from_def)
  qed
  then show "list_all2 (grown_from m) xs next" using g by (simp add: list_all2_conv_all_nth)
  from nextOutputBufferCapacities_progress(2) [OF assms(1)]
  show "\<exists>i < length xs. o_current (xs ! i) < next ! i" by blast
qed

section \<open>Estimates\<close>

lemma max_min_same: "max (min a c) (min b c) = min (max a b) (c :: int)"
  by (auto simp: min_def max_def)

lemma saturatingEstimateAdd_min:
  "0 \<le> l \<Longrightarrow> 0 \<le> r \<Longrightarrow> saturatingEstimateAdd l r = min (l + r) 2147483648"
  by (auto simp: saturatingEstimateAdd_def Let_def maxNativeOutputBufferSize_def)

lemma saturatingEstimateMultiply_min:
  assumes "0 \<le> v" "k \<in> {2, 3, 4}"
  shows "saturatingEstimateMultiply v k = min (v * k) 2147483648"
proof -
  have "v \<le> v * k" using assms by auto
  moreover have "v \<le> 2147483648 div k \<longleftrightarrow> v * k \<le> 2147483648" using assms(2) by auto
  ultimately show ?thesis
    using assms by (auto simp: saturatingEstimateMultiply_def Let_def maxNativeOutputBufferSize_def)
qed

lemma ceilPositiveQuotient_ceil:
  assumes "0 < d"
  shows "ceilPositiveQuotient v d = (v + (d - 1)) div d"
proof -
  let ?q = "v div d" and ?r = "v mod d"
  have r: "0 \<le> ?r" "?r < d" using assms by simp_all
  have "v + (d - 1) = (?r + (d - 1)) + ?q * d" by simp
  then have "(v + (d - 1)) div d = ?q + (?r + (d - 1)) div d"
    using assms by (metis div_mult_self1 less_irrefl)
  moreover have "(?r + (d - 1)) div d = (if ?r = 0 then 0 else 1)"
  proof (cases "?r = 0")
    case True
    with assms show ?thesis by (simp add: div_pos_pos_trivial)
  next
    case False
    have "?r + (d - 1) = (?r - 1) + 1 * d" by simp
    then have "(?r + (d - 1)) div d = 1 + (?r - 1) div d"
      using assms by (metis div_mult_self1 less_irrefl)
    with False r show ?thesis by (simp add: div_pos_pos_trivial)
  qed
  ultimately show ?thesis by (simp add: ceilPositiveQuotient_def)
qed

lemma ceil_quotients:
  "ceilPositiveQuotient v 3 = (v + 2) div 3" "ceilPositiveQuotient v 4 = (v + 3) div 4"
  "ceilPositiveQuotient v 64 = (v + 63) div 64"
  by (simp_all add: ceilPositiveQuotient_ceil)

lemma base64EncodedEstimate_min:
  "0 \<le> n \<Longrightarrow> base64EncodedEstimate n = min ((n + 2) div 3 * 4) 2147483648"
  by (auto simp: base64EncodedEstimate_def saturatingEstimateMultiply_min ceil_quotients)

lemma decodedBase64UpperBound_min:
  "0 \<le> n \<Longrightarrow> decodedBase64UpperBound n = min ((n + 3) div 4 * 3) 2147483648"
  by (auto simp: decodedBase64UpperBound_def saturatingEstimateMultiply_min ceil_quotients)

lemma saturatingEstimateAdd_twice:
  assumes "0 \<le> x" "0 \<le> y"
  shows "saturatingEstimateAdd (saturatingEstimateAdd x y) 256 = min (x + y + 256) 2147483648"
proof -
  have "saturatingEstimateAdd x y = min (x + y) 2147483648" using assms by (rule saturatingEstimateAdd_min)
  moreover have "0 \<le> min (x + y) 2147483648" using assms by simp
  ultimately have "saturatingEstimateAdd (saturatingEstimateAdd x y) 256 =
      min (min (x + y) 2147483648 + 256) 2147483648"
    by (simp add: saturatingEstimateAdd_min)
  then show ?thesis by (simp add: min_def)
qed

lemma div_63: "0 \<le> n \<Longrightarrow> 0 \<le> (n + 63) div (64 :: int)"
  by (simp add: pos_imp_zdiv_nonneg_iff)

lemma saturated_pem:
  assumes "0 \<le> b"
  shows "saturatingEstimateAdd (saturatingEstimateAdd (min b 2147483648)
      ((min b 2147483648 + 63) div 64 * 2)) 256 = min (b + (b + 63) div 64 * 2 + 256) 2147483648"
proof (cases "b \<le> 2147483648")
  case True
  then have e: "min b 2147483648 = b" by (rule min_absorb1)
  have "0 \<le> (b + 63) div 64 * 2" using div_63 [OF assms] by linarith
  then show ?thesis unfolding e by (rule saturatingEstimateAdd_twice [OF assms])
next
  case False
  then have e: "min b 2147483648 = 2147483648" by simp
  have d: "0 \<le> (b + 63) div 64" by (rule div_63 [OF assms])
  have "saturatingEstimateAdd (saturatingEstimateAdd 2147483648 ((2147483648 + 63) div 64 * 2)) 256 = 2147483648"
    by (simp add: saturatingEstimateAdd_def maxNativeOutputBufferSize_def)
  moreover have "min (b + (b + 63) div 64 * 2 + 256) 2147483648 = 2147483648"
    by (rule min_absorb2) (use False d in linarith)
  ultimately show ?thesis unfolding e by (rule trans [OF _ sym])
qed

text \<open>The size of the encoded output, computed without saturation.\<close>

definition encoded_size :: "Flag \<Rightarrow> int \<Rightarrow> int" where
  "encoded_size flags raw =
     (let b64 = (raw + 2) div 3 * 4
      in if has_flag flags OutPEM then b64 + (b64 + 63) div 64 * 2 + 256
         else if has_flag flags OutBase64 then b64
         else raw)"

lemma encoded_size_ge: "0 \<le> raw \<Longrightarrow> raw \<le> encoded_size flags raw"
proof -
  assume raw: "0 \<le> raw"
  then have "raw \<le> (raw + 2) div 3 * 4" "0 \<le> ((raw + 2) div 3 * 4 + 63) div 64 * 2"
    by (simp_all add: pos_imp_zdiv_nonneg_iff)
  then show ?thesis by (auto simp: encoded_size_def Let_def)
qed

lemma estimateEncodedOutputSize_min:
  assumes "0 \<le> raw" "raw \<le> 2147483648"
  shows "estimateEncodedOutputSize raw flags = min (encoded_size flags raw) 2147483648"
proof -
  let ?b = "(raw + 2) div 3 * 4"
  let ?e = "min ?b 2147483648"
  have b: "0 \<le> ?b" "raw \<le> ?b" using assms by simp_all
  have l: "saturatingEstimateMultiply (ceilPositiveQuotient ?e 64) 2 = (?e + 63) div 64 * 2"
    using b by (simp add: saturatingEstimateMultiply_min ceil_quotients)
  have p: "saturatingEstimateAdd (saturatingEstimateAdd ?e ((?e + 63) div 64 * 2)) 256 =
      min (?b + (?b + 63) div 64 * 2 + 256) 2147483648"
    by (rule saturated_pem [OF b(1)])
  have raw: "raw = min raw 2147483648" using assms(2) by (rule min_absorb1 [symmetric])
  show ?thesis
    unfolding estimateEncodedOutputSize_def encoded_size_def Let_def
      base64EncodedEstimate_min [OF assms(1)] pemLineWidth_def pemEnvelopeOverhead_def l p
    using raw by (simp only: if_distrib [of "\<lambda>n. min n 2147483648"] split: if_split)
qed

lemma estimateInputSize_nonneg: "0 \<le> estimateInputSize stat v file"
  by (auto simp: estimateInputSize_def split: option.split)

text \<open>The content a signature may embed: the existing signature, or the attached data.\<close>

definition embedded_size :: "(gostring \<Rightarrow> int option) \<Rightarrow> SignDataRequest \<Rightarrow> int" where
  "embedded_size stat req =
     (let decoded = (\<lambda>n. if has_flag (sd_Flags req) InBase64 then (n + 3) div 4 * 3 else n);
          signature = decoded (int (slice_len (sd_Signature req)));
          data = decoded (estimateInputSize stat (sd_Data req) (has_flag (sd_Flags req) InFile))
      in if has_flag (sd_Flags req) SignCMS \<and> \<not> has_flag (sd_Flags req) DetachedData
         then max signature data else signature)"


end
