(* ===== verification/Native_Calls.thy ===== *)
theory Native_Calls
  imports Output_Capacity
begin

text \<open>
  The retry loops around native calls (\<^verbatim>\<open>ckalkan/buffer.go\<close>,
  \<^verbatim>\<open>client_errors.go\<close>, \<^verbatim>\<open>verify.go\<close>, \<^verbatim>\<open>x509.go\<close>). The native library is a
  parameter: a record of functions on a state of its own, one per method of the interfaces of
  \<^verbatim>\<open>ckalkan/client.go\<close>. The loops are total functions: their termination is the
  growth of the capacities towards the hard limit.
\<close>

section \<open>Native calls and their results\<close>

record BufferResult =
  br_Code :: uint64
  br_Data :: slice
  br_OutLen :: int

record nativeListResult =
  lr_Code :: uint64
  lr_Data :: gostring
  lr_Count :: uint64

record ListResult =
  ls_Data :: gostring
  ls_Count :: uint64

record HashDataCall =
  hc_Algorithm :: gostring
  hc_Flags :: int
  hc_Data :: slice
  hc_Capacity :: int

record SignHashCall =
  shc_Alias :: gostring
  shc_Flags :: int
  shc_Hash :: slice
  shc_Capacity :: int

record SignDataCall =
  sdc_Alias :: gostring
  sdc_Flags :: int
  sdc_Data :: slice
  sdc_Signature :: slice
  sdc_Capacity :: int

record VerifyXMLCall =
  vxc_Alias :: gostring
  vxc_Flags :: int
  vxc_XML :: slice
  vxc_Capacity :: int

record GetCertFromCMSCall =
  gcc_CMS :: slice
  gcc_SignID :: int
  gcc_Flags :: int
  gcc_Capacity :: int

record GetCertFromZipFileCall =
  gzc_ZipFile :: gostring
  gzc_Flags :: int
  gzc_SignID :: int
  gzc_Capacity :: int

record ValidateCertificateCall =
  vcc_Certificate :: slice
  vcc_ValidationType :: int
  vcc_ValidationPath :: gostring
  vcc_CheckTimeUnix :: int64
  vcc_Flags :: int
  vcc_InfoCapacity :: int
  vcc_OCSPCapacity :: int

record ValidateResult =
  vr_Code :: uint64
  vr_Info :: slice
  vr_InfoLen :: int
  vr_OCSP :: slice
  vr_OCSPLen :: int

record VerifyDataCall =
  vdc_Alias :: gostring
  vdc_Flags :: int
  vdc_Data :: slice
  vdc_Signature :: slice
  vdc_CertID :: int
  vdc_DataCapacity :: int
  vdc_InfoCapacity :: int
  vdc_CertCapacity :: int

record VerifyResult =
  yr_Code :: uint64
  yr_Data :: slice
  yr_DataLen :: int
  yr_Info :: slice
  yr_InfoLen :: int
  yr_Cert :: slice
  yr_CertLen :: int

record SignXMLCall =
  sxc_Alias :: gostring
  sxc_Flags :: int
  sxc_XML :: slice
  sxc_SignNodeID :: gostring
  sxc_ParentSignNode :: gostring
  sxc_ParentNamespace :: gostring
  sxc_Capacity :: int

record SignWSSECall =
  swc_Alias :: gostring
  swc_Flags :: int
  swc_XML :: slice
  swc_SignNodeID :: gostring
  swc_Capacity :: int

record ProxyCall =
  pc_Flags :: int
  pc_Address :: gostring
  pc_Port :: gostring
  pc_User :: gostring
  pc_Password :: gostring

record ZipConSignCall =
  zsc_Alias :: gostring
  zsc_FilePath :: gostring
  zsc_Name :: gostring
  zsc_OutDir :: gostring
  zsc_Flags :: int

text \<open>The interfaces a context may implement; a type assertion asks for one of them.\<close>

datatype capability =
    lifecycleContext | tokenStoreContext | x509Context | hashContext | cmsContext | xmlContext
  | networkContext | zipContext

text \<open>
  A native context over the state \<^typ>\<open>'w\<close> of the loaded library. A method that returns a
  result and an error returns either; a method that returns only a status returns it.
\<close>

record 'w nativeContext =
  capabilities :: "capability \<Rightarrow> bool"
  n_Close :: "('w, gerror option) state"
  n_ClearError :: "('w, unit) state"
  n_LastErrorString :: "int \<Rightarrow> ('w, gerror + BufferResult) state"
  n_Init :: "('w, uint64) state"
  n_InitDebug :: "('w, unit) state"
  n_Finalize :: "('w, unit) state"
  n_XMLFinalize :: "('w, unit) state"
  n_LastError :: "('w, uint64) state"
  n_GetTokens :: "int \<Rightarrow> int \<Rightarrow> ('w, gerror + nativeListResult) state"
  n_GetCertificatesList :: "int \<Rightarrow> ('w, gerror + nativeListResult) state"
  n_LoadKeyStore :: "int \<Rightarrow> gostring \<Rightarrow> gostring \<Rightarrow> gostring \<Rightarrow> ('w, uint64) state"
  n_X509LoadCertificateFromFile :: "gostring \<Rightarrow> int \<Rightarrow> ('w, uint64) state"
  n_X509LoadCertificateFromBuffer :: "slice \<Rightarrow> int \<Rightarrow> ('w, uint64) state"
  n_X509ExportCertificateFromStore :: "gostring \<Rightarrow> int \<Rightarrow> int \<Rightarrow> ('w, gerror + BufferResult) state"
  n_X509CertificateGetInfo :: "slice \<Rightarrow> int \<Rightarrow> int \<Rightarrow> ('w, gerror + BufferResult) state"
  n_X509ValidateCertificate :: "ValidateCertificateCall \<Rightarrow> ('w, gerror + ValidateResult) state"
  n_HashData :: "HashDataCall \<Rightarrow> ('w, gerror + BufferResult) state"
  n_SignHash :: "SignHashCall \<Rightarrow> ('w, gerror + BufferResult) state"
  n_SignData :: "SignDataCall \<Rightarrow> ('w, gerror + BufferResult) state"
  n_VerifyData :: "VerifyDataCall \<Rightarrow> ('w, gerror + VerifyResult) state"
  n_GetTimeFromSig :: "slice \<Rightarrow> int \<Rightarrow> int \<Rightarrow> ('w, uint64 \<times> int64) state"
  n_GetCertFromCMS :: "GetCertFromCMSCall \<Rightarrow> ('w, gerror + BufferResult) state"
  n_SignXML :: "SignXMLCall \<Rightarrow> ('w, gerror + BufferResult) state"
  n_SignWSSE :: "SignWSSECall \<Rightarrow> ('w, gerror + BufferResult) state"
  n_VerifyXML :: "VerifyXMLCall \<Rightarrow> ('w, gerror + BufferResult) state"
  n_GetCertFromXML :: "slice \<Rightarrow> int \<Rightarrow> int \<Rightarrow> ('w, gerror + BufferResult) state"
  n_GetSigAlgFromXML :: "slice \<Rightarrow> int \<Rightarrow> ('w, gerror + BufferResult) state"
  n_SetTSAURL :: "gostring \<Rightarrow> ('w, uint64) state"
  n_SetProxy :: "ProxyCall \<Rightarrow> ('w, uint64) state"
  n_ZipConVerify :: "gostring \<Rightarrow> int \<Rightarrow> int \<Rightarrow> ('w, gerror + BufferResult) state"
  n_ZipConSign :: "ZipConSignCall \<Rightarrow> ('w, uint64) state"
  n_GetCertFromZipFile :: "GetCertFromZipFileCall \<Rightarrow> ('w, gerror + BufferResult) state"

section \<open>Text\<close>

text \<open>\<^verbatim>\<open>nativebytes.BeforeNUL\<close>\<close>

definition BeforeNUL :: "slice \<Rightarrow> slice" where
  "BeforeNUL v = map_option (takeWhile (\<lambda>b. b \<noteq> CHR 0x00)) v"

text \<open>\<^verbatim>\<open>strings.TrimSpace\<close> on the UTF-8 encodings of the characters with the Unicode
  property White_Space.\<close>

definition space_runes :: "bytes list" where
  "space_runes =
     [[CHR 0x09], [CHR 0x0A], [CHR 0x0B], [CHR 0x0C], [CHR 0x0D], [CHR 0x20],
      [CHR 0xC2, CHR 0x85], [CHR 0xC2, CHR 0xA0], [CHR 0xE1, CHR 0x9A, CHR 0x80]] @
     map (\<lambda>c. [CHR 0xE2, CHR 0x80, c])
       [CHR 0x80, CHR 0x81, CHR 0x82, CHR 0x83, CHR 0x84, CHR 0x85, CHR 0x86, CHR 0x87, CHR 0x88,
        CHR 0x89, CHR 0x8A, CHR 0xA8, CHR 0xA9, CHR 0xAF] @
     [[CHR 0xE2, CHR 0x81, CHR 0x9F], [CHR 0xE3, CHR 0x80, CHR 0x80]]"

function trim_left :: "bytes list \<Rightarrow> bytes \<Rightarrow> bytes" where
  "trim_left runes s =
     (case List.find (\<lambda>r. r \<noteq> [] \<and> prefix r s) runes of
        None \<Rightarrow> s
      | Some r \<Rightarrow> trim_left runes (drop (length r) s))"
  by pat_completeness auto
termination
proof (relation "measure (\<lambda>(_, s). length s)", goal_cases)
  case (2 runes s r)
  then have "r \<noteq> []" "prefix r s" by (auto simp: find_Some_iff)
  then have "0 < length r" "length r \<le> length s" by (simp_all add: prefix_length_le)
  then have "length s - length r < length s" by linarith
  then show ?case by simp
qed simp

declare trim_left.simps [simp del]

definition TrimSpace :: "gostring \<Rightarrow> gostring" where
  "TrimSpace s = rev (trim_left (map rev space_runes) (rev (trim_left space_runes s)))"

section \<open>Diagnostics\<close>

text \<open>The status and text of the native diagnostic; the client is open.\<close>

function lastErrorStringLoop ::
  "'w nativeContext \<Rightarrow> config \<Rightarrow> int \<Rightarrow> ('w, ErrorCode \<times> gostring) state" where
  "lastErrorStringLoop ctx c sz = do {
     r \<leftarrow> n_LastErrorString ctx sz;
     case r of
       Inl err \<Rightarrow> ret (ErrorMemory, error_text err)
     | Inr result \<Rightarrow>
         if br_OutLen result < 0
         then ret (ErrorMemory, error_text (invalidNativeOutputLength ''last-error string'' (br_OutLen result)))
         else if br_Code result = ErrorBufferTooSmall \<or>
                 (br_Code result = ErrorOK \<and> br_OutLen result > sz)
         then if br_OutLen result > outputBufferLimit (maxBufferSize c)
              then ret (ErrorBufferTooSmall, error_text (outputBufferLimitError ''LastErrorString''
                     (maxBufferSize c) (br_OutLen result)))
              else if growCapacity sz (br_OutLen result) (maxBufferSize c) \<noteq> sz
              then lastErrorStringLoop ctx c (growCapacity sz (br_OutLen result) (maxBufferSize c))
              else ret (retryErrorCode (br_Code result), error_text (outputBufferLimitError
                     ''LastErrorString'' (maxBufferSize c) (minimumOutputGrowth sz (br_OutLen result))))
         else (case (if br_Code result = ErrorOK
                     then validateNativeOutputDataLength ''last-error string'' (br_Data result)
                            (br_OutLen result)
                     else None) of
                 Some err \<Rightarrow> ret (ErrorMemory, error_text err)
               | None \<Rightarrow> ret (br_Code result, str_of (BeforeNUL (br_Data result)))) }"
  by pat_completeness auto
termination
  by (relation "measure (\<lambda>(ctx, c, sz). nat (outputBufferLimit (maxBufferSize c) - sz))")
    (auto dest!: growCapacity_less [rotated])

definition lastErrorStringLocked :: "'w nativeContext \<Rightarrow> config \<Rightarrow> ('w, ErrorCode \<times> gostring) state" where
  "lastErrorStringLocked ctx c = lastErrorStringLoop ctx c
     (boundedOutputCapacity (outputInitialCapacity c initialInfoOutputBuffer) (maxBufferSize c))"

definition errorFromCode :: "ErrorCode \<Rightarrow> gostring \<Rightarrow> gerror option" where
  "errorFromCode code message = (if code = ErrorOK then None else Some (KalkanError code message))"

definition wrapCodeLocked :: "'w nativeContext \<Rightarrow> config \<Rightarrow> ErrorCode \<Rightarrow> ('w, gerror option) state" where
  "wrapCodeLocked ctx c code =
     (if code = ErrorOK then ret None
      else do {
        (_, message) \<leftarrow> lastErrorStringLocked ctx c;
        ret (errorFromCode code (TrimSpace message)) })"

section \<open>One length-aware output\<close>

function callBufferLoop ::
  "'w nativeContext \<Rightarrow> config \<Rightarrow> gostring \<Rightarrow> (int \<Rightarrow> ('w, gerror + BufferResult) state) \<Rightarrow> int \<Rightarrow>
   ('w, gerror + slice) state" where
  "callBufferLoop ctx c operation call sz = do {
     n_ClearError ctx;
     r \<leftarrow> call sz;
     case r of
       Inl err \<Rightarrow> ret (Inl err)
     | Inr result \<Rightarrow>
         if shouldRetryOutput (br_Code result) (br_OutLen result) sz
         then if br_OutLen result < 0
              then ret (Inl (invalidNativeOutputLength ''output'' (br_OutLen result)))
              else if br_OutLen result > outputBufferLimit (maxBufferSize c)
              then ret (Inl (outputBufferLimitError operation (maxBufferSize c) (br_OutLen result)))
              else if \<not> snd (growReportedCapacity sz (br_OutLen result) (maxBufferSize c))
              then ret (Inl (outputBufferLimitError operation (maxBufferSize c)
                     (minimumOutputGrowth sz (br_OutLen result))))
              else callBufferLoop ctx c operation call
                     (fst (growReportedCapacity sz (br_OutLen result) (maxBufferSize c)))
         else if br_OutLen result < 0
         then ret (Inl (invalidNativeOutputLength ''output'' (br_OutLen result)))
         else do {
           e \<leftarrow> wrapCodeLocked ctx c (br_Code result);
           ret (case e of
                  Some err \<Rightarrow> Inl err
                | None \<Rightarrow>
                    (case validateNativeOutputDataLength ''output'' (br_Data result) (br_OutLen result) of
                       Some err \<Rightarrow> Inl err
                     | None \<Rightarrow> Inr (br_Data result))) } }"
  by pat_completeness auto
termination
  by (relation "measure (\<lambda>(ctx, c, operation, call, sz). nat (outputBufferLimit (maxBufferSize c) - sz))")
    (auto simp: growReportedCapacity_def Let_def dest!: growCapacity_less [rotated])

definition callBufferWithCapacityLocked ::
  "'w nativeContext \<Rightarrow> config \<Rightarrow> gostring \<Rightarrow> int \<Rightarrow> (int \<Rightarrow> ('w, gerror + BufferResult) state) \<Rightarrow>
   ('w, gerror + slice) state" where
  "callBufferWithCapacityLocked ctx c operation initial call =
     callBufferLoop ctx c operation call (boundedOutputCapacity initial (maxBufferSize c))"

section \<open>Lists\<close>

function callListLoop ::
  "'w nativeContext \<Rightarrow> config \<Rightarrow> gostring \<Rightarrow> (int \<Rightarrow> ('w, gerror + nativeListResult) state) \<Rightarrow> int \<Rightarrow>
   ('w, gerror + ListResult) state" where
  "callListLoop ctx c operation call sz = do {
     n_ClearError ctx;
     r \<leftarrow> call sz;
     case r of
       Inl err \<Rightarrow> ret (Inl err)
     | Inr result \<Rightarrow>
         if lr_Code result = ErrorBufferTooSmall \<or>
            (lr_Code result = ErrorOK \<and> int (length (lr_Data result)) = sz)
         then if growCapacity sz 0 (maxBufferSize c) = sz
              then ret (Inl (outputBufferLimitError operation (maxBufferSize c) (minimumOutputGrowth sz 0)))
              else callListLoop ctx c operation call (growCapacity sz 0 (maxBufferSize c))
         else do {
           e \<leftarrow> wrapCodeLocked ctx c (lr_Code result);
           ret (case e of
                  Some err \<Rightarrow> Inl err
                | None \<Rightarrow> Inr \<lparr>ls_Data = lr_Data result, ls_Count = lr_Count result\<rparr>) } }"
  by pat_completeness auto
termination
  by (relation "measure (\<lambda>(ctx, c, operation, call, sz). nat (outputBufferLimit (maxBufferSize c) - sz))")
    (use growCapacity_less [of 0] in auto)

declare lastErrorStringLoop.simps [simp del] callBufferLoop.simps [simp del] callListLoop.simps [simp del]

definition callListLocked ::
  "'w nativeContext \<Rightarrow> config \<Rightarrow> gostring \<Rightarrow> (int \<Rightarrow> ('w, gerror + nativeListResult) state) \<Rightarrow>
   ('w, gerror + ListResult) state" where
  "callListLocked ctx c operation call =
     (let sz = normalizeConfiguredBufferSize (listBufferSize c) defaultListBufferSize
      in if sz > outputBufferLimit (maxBufferSize c)
         then (case nonNegativeIntToUint64 sz of
                 None \<Rightarrow> ret (Inl (invalidNativeOutputLength (operation @ '' buffer capacity'') sz))
               | Some requested \<Rightarrow> ret (Inl (outputBufferLimitError operation (maxBufferSize c) requested)))
         else callListLoop ctx c operation call sz)"

section \<open>The calls of the retry loop\<close>

text \<open>
  An observer of the native state that records the capacities of the operation's calls and
  does not see the diagnostic calls.
\<close>

definition records_calls :: "'w nativeContext \<Rightarrow> (int \<Rightarrow> ('w, 'a) state) \<Rightarrow> ('w \<Rightarrow> int list) \<Rightarrow> bool" where
  "records_calls ctx call seen \<longleftrightarrow>
     (\<forall>n w. seen (exec (call n) w) = seen w @ [n]) \<and>
     (\<forall>w. seen (exec (n_ClearError ctx) w) = seen w) \<and>
     (\<forall>n w. seen (exec (n_LastErrorString ctx n) w) = seen w)"

text \<open>The diagnostic loop keeps what its native call keeps.\<close>

lemma keeps_lastErrorString:
  assumes "\<And>n w. seen (exec (n_LastErrorString ctx n) w) = seen w"
  shows "seen (exec (lastErrorStringLoop ctx c sz) w) = seen w"
proof (induction sz arbitrary: w rule: growth_induct [of "maxBufferSize c"])
  case (step sz)
  show ?case
    by (subst lastErrorStringLoop.simps) (auto simp: assms step split: sum.split option.split)
qed

lemma keeps_wrapCode:
  assumes "\<And>n w. seen (exec (n_LastErrorString ctx n) w) = seen w"
  shows "seen (exec (wrapCodeLocked ctx c code) w) = seen w"
  using keeps_lastErrorString [of seen ctx, OF assms]
  by (simp add: wrapCodeLocked_def lastErrorStringLocked_def case_prod_unfold)

abbreviation capacity_history :: "int \<Rightarrow> int list \<Rightarrow> bool" where
  "capacity_history m \<equiv> growth_policy.history (outputBufferLimit m) (\<lambda>c r. growCapacity c r m)"

lemma callBufferLoop_history:
  assumes obs: "records_calls ctx call seen"
    and "capacity_history (maxBufferSize c) (cs @ [sz])"
  shows "\<exists>h. seen (exec (callBufferLoop ctx c operation call sz) w) = seen w @ h \<and>
    capacity_history (maxBufferSize c) (cs @ h)"
  using assms(2)
proof (induction sz arbitrary: cs w rule: growth_induct [of "maxBufferSize c"])
  case (step sz)
  from obs have o: "seen (exec (call n) w) = seen w @ [n]" "seen (exec (n_ClearError ctx) w) = seen w"
    "seen (exec (wrapCodeLocked ctx c code) w) = seen w" for n w code
    by (auto simp: records_calls_def keeps_wrapCode)
  let ?w = "exec (n_ClearError ctx) w" let ?r = "fst (run_state (call sz) ?w)"
  let ?w1 = "exec (call sz) ?w"
  show ?case
  proof (cases "\<exists>result. ?r = Inr result \<and> shouldRetryOutput (br_Code result) (br_OutLen result) sz \<and>
      0 \<le> br_OutLen result \<and> br_OutLen result \<le> outputBufferLimit (maxBufferSize c) \<and>
      growCapacity sz (br_OutLen result) (maxBufferSize c) \<noteq> sz")
    case True
    then obtain result where r: "?r = Inr result"
      "shouldRetryOutput (br_Code result) (br_OutLen result) sz" "0 \<le> br_OutLen result"
      "br_OutLen result \<le> outputBufferLimit (maxBufferSize c)"
      "growCapacity sz (br_OutLen result) (maxBufferSize c) \<noteq> sz" by blast
    let ?n = "growCapacity sz (br_OutLen result) (maxBufferSize c)"
    have loop: "exec (callBufferLoop ctx c operation call sz) w =
        exec (callBufferLoop ctx c operation call ?n) ?w1"
      using r by (subst callBufferLoop.simps) (simp add: growReportedCapacity_def Let_def)
    have "capacity_history (maxBufferSize c) (cs @ [sz, ?n])"
      by (rule capacity_growth.history.retry [OF step.prems r(5)])
    with step.IH [OF r(3,5), of "cs @ [sz]" ?w1] loop o show ?thesis by fastforce
  next
    case False
    then have "seen (exec (callBufferLoop ctx c operation call sz) w) = seen ?w1"
      by (subst callBufferLoop.simps)
        (auto simp: o growReportedCapacity_def Let_def not_less split: sum.split option.split)
    with o step.prems show ?thesis by auto
  qed
qed

lemma bounded_history: "capacity_history m [boundedOutputCapacity v m]"
  by (rule capacity_growth.history.start) (rule bounded_range)+

lemma history_facts:
  "capacity_history m h \<Longrightarrow> h \<noteq> [] \<and> length h \<le> 32 \<and> (\<forall>n \<in> set h. 0 < n \<and> n \<le> outputBufferLimit m)"
  using capacity_growth.history_length capacity_growth.history_range
  by (auto elim: capacity_growth.history.cases)

text \<open>
  The hard limit is never exceeded and the retry loop is short. Whatever the native
  library answers, a length-aware operation makes at least one and at most 32 native calls,
  and every capacity it passes is positive and at most the configured hard limit.
\<close>

theorem callBuffer_bounded:
  assumes "records_calls ctx call seen"
  shows "\<exists>h. seen (exec (callBufferWithCapacityLocked ctx c operation initial call) w) = seen w @ h \<and>
    h \<noteq> [] \<and> length h \<le> 32 \<and> (\<forall>n \<in> set h. 0 < n \<and> n \<le> outputBufferLimit (maxBufferSize c))"
proof -
  let ?sz = "boundedOutputCapacity initial (maxBufferSize c)"
  from callBufferLoop_history [OF assms, of c "[]" ?sz operation w] bounded_history
  obtain h where "seen (exec (callBufferLoop ctx c operation call ?sz) w) = seen w @ h"
    "capacity_history (maxBufferSize c) h" by auto
  with history_facts show ?thesis unfolding callBufferWithCapacityLocked_def by blast
qed

text \<open>A result is what one native call returned, with the length it reported.\<close>

definition call_returned ::
  "(int \<Rightarrow> ('w, gerror + BufferResult) state) \<Rightarrow> int \<Rightarrow> slice \<Rightarrow> bool" where
  "call_returned call limit data \<longleftrightarrow> (\<exists>n w result w'. 0 < n \<and> n \<le> limit \<and>
     run_state (call n) w = (Inr result, w') \<and> br_Code result = ErrorOK \<and>
     br_Data result = data \<and> br_OutLen result = int (slice_len data) \<and> slice_len data \<le> nat n)"

lemma wrapCode_ok: "run_state (wrapCodeLocked ctx c code) w = (None, w') \<longleftrightarrow> code = ErrorOK \<and> w' = w"
  by (auto simp: wrapCodeLocked_def errorFromCode_def case_prod_unfold)

lemma wrapCode_None: "fst (run_state (wrapCodeLocked ctx c code) w) = None \<longleftrightarrow> code = ErrorOK"
  by (auto simp: wrapCodeLocked_def errorFromCode_def case_prod_unfold)

lemma callBufferLoop_returned:
  assumes "0 < sz" "sz \<le> outputBufferLimit (maxBufferSize c)"
    and "fst (run_state (callBufferLoop ctx c operation call sz) w) = Inr data"
  shows "call_returned call (outputBufferLimit (maxBufferSize c)) data"
  using assms
proof (induction sz arbitrary: w rule: growth_induct [of "maxBufferSize c"])
  case (step sz)
  let ?w = "exec (n_ClearError ctx) w"
  obtain r w1 where call: "run_state (call sz) ?w = (r, w1)" by (metis surj_pair)
  show ?case
  proof (cases r)
    case (Inl err)
    with call step.prems(3) show ?thesis by (subst (asm) callBufferLoop.simps) simp
  next
    case (Inr result)
    let ?n = "growCapacity sz (br_OutLen result) (maxBufferSize c)"
    show ?thesis
    proof (cases "shouldRetryOutput (br_Code result) (br_OutLen result) sz")
      case True
      with Inr call step.prems(3) have again: "0 \<le> br_OutLen result" "?n \<noteq> sz"
        "fst (run_state (callBufferLoop ctx c operation call ?n) w1) = Inr data"
        by (subst (asm) callBufferLoop.simps,
            auto simp: growReportedCapacity_def Let_def split: if_splits)+
      from growCapacity_less [OF again(1,2)] step.prems(1) growCapacity_le_limit [OF step.prems(2)]
      have "0 < ?n" "?n \<le> outputBufferLimit (maxBufferSize c)" by auto
      with step.IH [OF again(1,2)] again(3) show ?thesis by blast
    next
      case False
      with Inr call step.prems(3) have "br_Code result = ErrorOK" "br_Data result = data"
        "br_OutLen result = int (slice_len data)"
        by (subst (asm) callBufferLoop.simps,
            auto simp: wrapCode_None validateNativeOutputDataLength_def split: if_splits option.splits)+
      moreover from this False have "slice_len data \<le> nat sz" by (auto simp: shouldRetryOutput_def)
      ultimately show ?thesis
        using step.prems(1,2) call Inr unfolding call_returned_def by blast
    qed
  qed
qed

text \<open>
  No invented or cut output. When a length-aware operation returns data, that data is
  exactly the output of one native call that reported success, its length is the length that
  call reported, and it fits the capacity that call was given: a truncated or padded buffer
  is never returned.
\<close>

theorem callBuffer_sound:
  assumes "fst (run_state (callBufferWithCapacityLocked ctx c operation initial call) w) = Inr data"
  shows "call_returned call (outputBufferLimit (maxBufferSize c)) data"
  using assms unfolding callBufferWithCapacityLocked_def
  by (intro callBufferLoop_returned [OF bounded_range])

text \<open>A native operation with an output of a fixed size: short buffers are refused, possibly
  without a useful length.\<close>

definition delivers ::
  "(int \<Rightarrow> ('w, gerror + BufferResult) state) \<Rightarrow> int \<Rightarrow> int \<Rightarrow> slice \<Rightarrow> bool" where
  "delivers call limit need data \<longleftrightarrow> (\<forall>n w. 0 < n \<and> n \<le> limit \<longrightarrow>
     (\<exists>result w'. run_state (call n) w = (Inr result, w') \<and>
       (if n < need
        then br_Code result = ErrorBufferTooSmall \<and> 0 \<le> br_OutLen result \<and> br_OutLen result \<le> limit
        else br_Code result = ErrorOK \<and> br_Data result = data \<and>
             br_OutLen result = int (slice_len data) \<and> int (slice_len data) \<le> n)))"

lemma ErrorOK_not_small: "ErrorOK \<noteq> ErrorBufferTooSmall"
  by (simp add: ErrorOK_def ErrorBufferTooSmall_def)

lemma callBufferLoop_delivers:
  assumes d: "delivers call (outputBufferLimit (maxBufferSize c)) need data"
    and "0 < sz" "sz \<le> outputBufferLimit (maxBufferSize c)"
  shows "fst (run_state (callBufferLoop ctx c operation call sz) w) =
    (if need \<le> outputBufferLimit (maxBufferSize c) then Inr data
     else Inl (outputBufferLimitError operation (maxBufferSize c)
       (outputBufferLimit (maxBufferSize c) + 1)))"
  using assms(2,3)
proof (induction sz arbitrary: w rule: growth_induct [of "maxBufferSize c"])
  case (step sz)
  let ?L = "outputBufferLimit (maxBufferSize c)" let ?w = "exec (n_ClearError ctx) w"
  from d step.prems obtain result w1 where call: "run_state (call sz) ?w = (Inr result, w1)"
    and res: "if sz < need
        then br_Code result = ErrorBufferTooSmall \<and> 0 \<le> br_OutLen result \<and> br_OutLen result \<le> ?L
        else br_Code result = ErrorOK \<and> br_Data result = data \<and>
             br_OutLen result = int (slice_len data) \<and> int (slice_len data) \<le> sz"
    unfolding delivers_def by blast
  show ?case
  proof (cases "sz < need")
    case False
    with res step.prems have "need \<le> ?L" by simp
    with False res call show ?thesis
      by (subst callBufferLoop.simps)
        (auto simp: shouldRetryOutput_def ErrorOK_not_small wrapCodeLocked_def
          validateNativeOutputDataLength_def)
  next
    case small: True
    let ?n = "growCapacity sz (br_OutLen result) (maxBufferSize c)"
    show ?thesis
    proof (cases "?n = sz")
      case True
      then have "sz = ?L" using growCapacity_doubles [of sz "maxBufferSize c" "br_OutLen result"] step.prems
        by (force simp: min_def split: if_splits)
      with True small res call step.prems show ?thesis
        by (subst callBufferLoop.simps)
          (auto simp: shouldRetryOutput_def growReportedCapacity_def Let_def minimumOutputGrowth_def
            nonNegativeIntToUint64_def)
    next
      case False
      from res small have nn: "0 \<le> br_OutLen result" "br_OutLen result \<le> ?L" by auto
      from growCapacity_less [OF nn(1) False] growCapacity_le_limit [OF step.prems(2)] step.prems(1)
      have "0 < ?n" "?n \<le> ?L" by auto
      with step.IH [OF nn(1) False, of w1]
      have "fst (run_state (callBufferLoop ctx c operation call ?n) w1) =
          (if need \<le> ?L then Inr data else Inl (outputBufferLimitError operation (maxBufferSize c) (?L + 1)))"
        by blast
      with False nn small res call show ?thesis
        by (subst callBufferLoop.simps) (simp add: shouldRetryOutput_def growReportedCapacity_def Let_def)
    qed
  qed
qed

text \<open>
  C31: Every output that fits is obtained, from any initial capacity. When the native
  operation refuses buffers below the size it needs, with or without reporting that size, and
  delivers its output from that size on, the wrapper returns the output if the size is within
  the hard limit; otherwise it returns the output-limit error that names the limit, whose
  code is the buffer-too-small status.
\<close>

theorem callBuffer_complete:
  assumes "delivers call (outputBufferLimit (maxBufferSize c)) need data"
  shows "fst (run_state (callBufferWithCapacityLocked ctx c operation initial call) w) =
    (if need \<le> outputBufferLimit (maxBufferSize c) then Inr data
     else Inl (OutputBufferLimitError operation
       (word_of_int (outputBufferLimit (maxBufferSize c) + 1))
       (word_of_int (outputBufferLimit (maxBufferSize c)))))"
  using callBufferLoop_delivers [OF assms bounded_range] limit_range [of "maxBufferSize c"]
  by (simp add: callBufferWithCapacityLocked_def outputBufferLimitError_def nonNegativeIntToUint64_def)

section \<open>A sample library\<close>

text \<open>A context whose operations succeed with empty outputs, over a log of capacities, and an
  operation on it that needs 100 bytes and does not say so.\<close>

definition empty_result :: "(int list, gerror + BufferResult) state" where
  "empty_result = ret (Inr \<lparr>br_Code = 0, br_Data = Some [], br_OutLen = 0\<rparr>)"

definition empty_list_result :: "(int list, gerror + nativeListResult) state" where
  "empty_list_result = ret (Inr \<lparr>lr_Code = 0, lr_Data = [], lr_Count = 0\<rparr>)"

definition sample_context :: "int list nativeContext" where
  "sample_context = \<lparr>capabilities = \<lambda>_. True, n_Close = ret None, n_ClearError = ret (),
     n_LastErrorString = \<lambda>_. empty_result, n_Init = ret 0, n_InitDebug = ret (), n_Finalize = ret (),
     n_XMLFinalize = ret (), n_LastError = ret 0, n_GetTokens = \<lambda>_ _. empty_list_result,
     n_GetCertificatesList = \<lambda>_. empty_list_result, n_LoadKeyStore = \<lambda>_ _ _ _. ret 0,
     n_X509LoadCertificateFromFile = \<lambda>_ _. ret 0, n_X509LoadCertificateFromBuffer = \<lambda>_ _. ret 0,
     n_X509ExportCertificateFromStore = \<lambda>_ _ _. empty_result,
     n_X509CertificateGetInfo = \<lambda>_ _ _. empty_result,
     n_X509ValidateCertificate = \<lambda>_. ret (Inr \<lparr>vr_Code = 0, vr_Info = Some [], vr_InfoLen = 0,
       vr_OCSP = Some [], vr_OCSPLen = 0\<rparr>),
     n_HashData = \<lambda>_. empty_result, n_SignHash = \<lambda>_. empty_result, n_SignData = \<lambda>_. empty_result,
     n_VerifyData = \<lambda>_. ret (Inr \<lparr>yr_Code = 0, yr_Data = Some [], yr_DataLen = 0, yr_Info = Some [],
       yr_InfoLen = 0, yr_Cert = Some [], yr_CertLen = 0\<rparr>),
     n_GetTimeFromSig = \<lambda>_ _ _. ret (0, 0), n_GetCertFromCMS = \<lambda>_. empty_result,
     n_SignXML = \<lambda>_. empty_result, n_SignWSSE = \<lambda>_. empty_result, n_VerifyXML = \<lambda>_. empty_result,
     n_GetCertFromXML = \<lambda>_ _ _. empty_result, n_GetSigAlgFromXML = \<lambda>_ _. empty_result,
     n_SetTSAURL = \<lambda>_. ret 0, n_SetProxy = \<lambda>_. ret 0, n_ZipConVerify = \<lambda>_ _ _. empty_result,
     n_ZipConSign = \<lambda>_. ret 0, n_GetCertFromZipFile = \<lambda>_. empty_result\<rparr>"

definition sample_call :: "int \<Rightarrow> (int list, gerror + BufferResult) state" where
  "sample_call n = do {
     State_Monad.update (\<lambda>log. log @ [n]);
     ret (Inr (if n < 100 then \<lparr>br_Code = ErrorBufferTooSmall, br_Data = None, br_OutLen = 0\<rparr>
               else \<lparr>br_Code = ErrorOK, br_Data = Some (replicate 100 (CHR ''x'')), br_OutLen = 100\<rparr>)) }"

lemma sample_records: "records_calls sample_context sample_call (\<lambda>w. w)"
  by (simp add: records_calls_def sample_context_def sample_call_def empty_result_def)

lemma sample_delivers: "delivers sample_call (outputBufferLimit m) 100 (Some (replicate 100 (CHR ''x'')))"
  using limit_range [of m] by (simp add: delivers_def sample_call_def)

theorem callBuffer_bounded_witness:
  "\<exists>h. exec (callBufferWithCapacityLocked sample_context defaultConfig ''HashData'' 32 sample_call) [] = h \<and>
    h \<noteq> [] \<and> length h \<le> 32 \<and> (\<forall>n \<in> set h. 0 < n \<and> n \<le> 67108864)"
  using callBuffer_bounded [OF sample_records, of defaultConfig "''HashData''" 32 "[]"]
  by (simp add: outputBufferLimit_def defaultConfig_def capacity_consts)

theorem callBuffer_complete_witness:
  "fst (run_state (callBufferWithCapacityLocked sample_context defaultConfig ''HashData'' 32 sample_call) []) =
    Inr (Some (replicate 100 (CHR ''x'')))"
  using callBuffer_complete [OF sample_delivers, where c = defaultConfig and ctx = sample_context and
      operation = "''HashData''" and initial = 32 and w = "[]"]
  by (simp add: outputBufferLimit_def defaultConfig_def capacity_consts)

theorem callBuffer_sound_witness:
  "call_returned sample_call 67108864 (Some (replicate 100 (CHR ''x'')))"
proof -
  have "fst (run_state (callBufferWithCapacityLocked sample_context defaultConfig ''HashData'' 32 sample_call) []) =
      Inr (Some (replicate 100 (CHR ''x'')))"
    using callBufferLoop_delivers [OF sample_delivers bounded_range [of 32 "maxBufferSize defaultConfig"],
        where ctx = sample_context and operation = "''HashData''" and w = "[]"]
    by (simp add: callBufferWithCapacityLocked_def outputBufferLimit_def defaultConfig_def capacity_consts)
  from callBuffer_sound [OF this] show ?thesis
    by (simp add: outputBufferLimit_def defaultConfig_def capacity_consts)
qed

end
