(* ===== verification/Input_Policy.thy ===== *)
theory Input_Policy
  imports Kalkan_Types Native_Calls
begin

text \<open>
  The checks of untrusted strings and sizes before they reach native code (\<^verbatim>\<open>policy.go\<close>,
  \<^verbatim>\<open>limits.go\<close>), the proxy of \<^verbatim>\<open>certificate.go\<close> and the endpoint allowlist of
  \<^verbatim>\<open>endpoint_policy.go\<close>. Two parsers of Go's standard library are arguments, so that the
  results hold whatever they accept: \<^verbatim>\<open>url.Parse\<close> and \<^verbatim>\<open>net.ParseIP\<close>, with
  \<^verbatim>\<open>strconv.Quote\<close> for the messages. The strings of an allowlist error are rendered with it.
\<close>

record url =
  u_Scheme :: gostring
  u_User :: bool
  u_Hostname :: gostring
  u_Port :: gostring
  u_Fragment :: gostring

record golib =
  url_Parse :: "gostring \<Rightarrow> gerror + url"
  ParseIP :: "gostring \<Rightarrow> bool"
  Quote :: "gostring \<Rightarrow> gostring"

section \<open>Strings\<close>

definition invalidInput :: "gostring \<Rightarrow> gerror" where
  "invalidInput message = errorf KalkanErrInvalidInput message"

text \<open>\<^verbatim>\<open>fmt.Errorf("%w: ... %w", ErrInvalidInput, ..., err)\<close>.\<close>

definition invalidInputCause :: "gostring \<Rightarrow> gerror \<Rightarrow> gerror" where
  "invalidInputCause message err =
     MultiError (sentinel_text KalkanErrInvalidInput @ '': '' @ message @ error_text err)
       [Some (Sentinel KalkanErrInvalidInput), Some err]"

lemma errors_is_invalidInput [simp]:
  "errors_is (invalidInput m) s \<longleftrightarrow> s = KalkanErrInvalidInput"
  "errors_is (invalidInputCause m e) KalkanErrInvalidInput"
  by (simp_all add: invalidInput_def invalidInputCause_def)

text \<open>\<^verbatim>\<open>strings.ContainsFunc(s, unicode.IsSpace)\<close>: UTF-8 is self-synchronising, so a
  white-space character occurs where its encoding does.\<close>

fun contains_space :: "gostring \<Rightarrow> bool" where
  "contains_space [] = False"
| "contains_space (c # cs) = (list_ex (\<lambda>r. prefix r (c # cs)) space_runes \<or> contains_space cs)"

text \<open>\<^verbatim>\<open>strconv.Atoi\<close> and \<^verbatim>\<open>strconv.ParseUint(s, 10, 16)\<close>; the error values are not
  distinguished further.\<close>

definition is_digit :: "char \<Rightarrow> bool" where
  "is_digit c \<longleftrightarrow> (let n = of_char c :: nat in 48 \<le> n \<and> n \<le> 57)"

definition decimal :: "gostring \<Rightarrow> nat option" where
  "decimal s = (if s \<noteq> [] \<and> list_all is_digit s then Some (read_nat 10 s) else None)"

definition Atoi :: "gostring \<Rightarrow> int option" where
  "Atoi s = (case s of
     [] \<Rightarrow> None
   | c # cs \<Rightarrow>
       let n = (if c = CHR ''-'' then map_option (\<lambda>n. - int n) (decimal cs)
                else if c = CHR ''+'' then map_option int (decimal cs)
                else map_option int (decimal s))
       in (case n of None \<Rightarrow> None | Some v \<Rightarrow> if minInt \<le> v \<and> v \<le> maxInt then Some v else None))"

definition ParseUint16 :: "gostring \<Rightarrow> nat option" where
  "ParseUint16 s = (case decimal s of None \<Rightarrow> None | Some n \<Rightarrow> if n < 65536 then Some n else None)"

definition rejectEmbeddedNUL :: "gostring \<Rightarrow> gostring \<Rightarrow> gerror option" where
  "rejectEmbeddedNUL field v =
     (if CHR 0x00 \<in> set v then Some (invalidInput (field @ '' contains embedded NUL'')) else None)"

definition validateNativePathString :: "gostring \<Rightarrow> gostring \<Rightarrow> gerror + gostring" where
  "validateNativePathString field path =
     (if path = [] then Inl (invalidInput (field @ '' is empty''))
      else case rejectEmbeddedNUL field path of
        Some err \<Rightarrow> Inl err
      | None \<Rightarrow> Inr path)"

section \<open>Sizes\<close>

definition validateInputSize :: "int \<Rightarrow> gostring \<Rightarrow> int \<Rightarrow> gerror option" where
  "validateInputSize sz field maxSize =
     (if maxSize \<le> 0 then None
      else if sz > maxSize
      then Some (invalidInput (field @ '' exceeds maximum input size of '' @ format_int maxSize @ '' bytes''))
      else None)"

definition validateBytesSize :: "slice \<Rightarrow> gostring \<Rightarrow> int \<Rightarrow> gerror option" where
  "validateBytesSize data field maxSize = validateInputSize (int (slice_len data)) field maxSize"

definition validateMemorySourceSize :: "Source \<Rightarrow> gostring \<Rightarrow> int \<Rightarrow> gerror option" where
  "validateMemorySourceSize source field maxSize =
     (if maxSize \<le> 0 \<or> s_file source \<or> \<not> s_set source then None
      else validateBytesSize (s_data source) field maxSize)"

definition bytesOrPath :: "Source \<Rightarrow> gerror + slice" where
  "bytesOrPath s =
     (if s_file s
      then (case validateNativePathString ''file source path'' (s_path s) of
              Inl err \<Rightarrow> Inl err
            | Inr path \<Rightarrow> Inr (Some path))
      else Inr (s_data s))"

section \<open>Proxy\<close>

definition Proxy_validate :: "golib \<Rightarrow> Proxy \<Rightarrow> gerror option" where
  "Proxy_validate G p =
     (if \<not> px_Enabled p then None
      else let address = TrimSpace (px_Address p); port = TrimSpace (px_Port p)
      in if address = [] then Some (invalidInput ''proxy address is empty'')
      else case rejectEmbeddedNUL ''proxy address'' address of Some err \<Rightarrow> Some err | None \<Rightarrow>
         if contains_space address then Some (invalidInput ''proxy address contains whitespace'')
         else if port = [] then Some (invalidInput ''proxy port is empty'')
         else case rejectEmbeddedNUL ''proxy port'' port of Some err \<Rightarrow> Some err | None \<Rightarrow>
         (case Atoi port of
            None \<Rightarrow> Some (invalidInputCause ''proxy port must be a number: ''
                     (ForeignError (''strconv.Atoi: parsing '' @ Quote G port) []))
          | Some number \<Rightarrow>
              if number < 1 \<or> number > 65535
              then Some (invalidInput ''proxy port must be in range 1..65535'')
              else case rejectEmbeddedNUL ''proxy user'' (px_User p) of Some err \<Rightarrow> Some err | None \<Rightarrow>
                   rejectEmbeddedNUL ''proxy password'' (px_Password p)))"

section \<open>The endpoint allowlist\<close>

definition lower_char :: "char \<Rightarrow> char" where
  "lower_char c = (let n = of_char c :: nat in if 65 \<le> n \<and> n \<le> 90 then char_of (n + 32) else c)"

definition TrimDot :: "gostring \<Rightarrow> gostring" where
  "TrimDot s = (if s \<noteq> [] \<and> last s = CHR ''.'' then butlast s else s)"

definition normalizePolicyHost :: "golib \<Rightarrow> gostring \<Rightarrow> gerror + gostring" where
  "normalizePolicyHost G v =
     (let host = TrimDot (TrimSpace v)
      in if host = [] then Inl (plainError ''endpoint policy host is empty'')
      else if contains_space host
      then Inl (plainError (''endpoint policy host '' @ Quote G v @ '' contains whitespace''))
      else if list_ex (\<lambda>c. c \<in> set ''/@?#[]'') host
      then Inl (plainError (''endpoint policy host '' @ Quote G v @ '' must not include URL syntax''))
      else if list_ex (\<lambda>c. 128 \<le> (of_char c :: nat)) host
      then Inl (plainError (''endpoint policy host '' @ Quote G v @ '' must use an ASCII DNS form''))
      else Inr (map lower_char host))"

definition defaultHTTPPort :: "gostring \<Rightarrow> gostring" where
  "defaultHTTPPort scheme = (if scheme = ''https'' then ''443'' else ''80'')"

definition go_list :: "'a list option \<Rightarrow> 'a list" where
  "go_list xs = (case xs of None \<Rightarrow> [] | Some ys \<Rightarrow> ys)"

text \<open>The loops over the hosts and the ports of a policy stop at the first error.\<close>

definition policyHostError :: "golib \<Rightarrow> bool \<Rightarrow> gostring \<Rightarrow> gerror option" where
  "policyHostError G allowIP rawHost = (case normalizePolicyHost G rawHost of
     Inl err \<Rightarrow> Some (invalidInputCause [] err)
   | Inr host \<Rightarrow> if ParseIP G host \<and> \<not> allowIP
       then Some (invalidInput (''endpoint policy host '' @ Quote G rawHost @
              '' is an IP address but AllowIPAddresses is false''))
       else None)"

definition policyPortError :: "golib \<Rightarrow> gostring \<Rightarrow> gerror option" where
  "policyPortError G rawPort =
     (let port = TrimSpace rawPort
      in if port = [] then Some (invalidInput ''endpoint policy contains an empty allowed port'')
      else case Atoi port of
        None \<Rightarrow> Some (invalidInput (''endpoint policy port '' @ Quote G rawPort @ '' must be in range 1..65535''))
      | Some number \<Rightarrow> if number < 1 \<or> number > 65535
          then Some (invalidInput (''endpoint policy port '' @ Quote G rawPort @ '' must be in range 1..65535''))
          else None)"

fun first_error :: "('a \<Rightarrow> gerror option) \<Rightarrow> 'a list \<Rightarrow> gerror option" where
  "first_error f [] = None"
| "first_error f (x # xs) = (case f x of Some err \<Rightarrow> Some err | None \<Rightarrow> first_error f xs)"

definition EndpointPolicy_validate :: "golib \<Rightarrow> EndpointPolicy \<Rightarrow> gerror option" where
  "EndpointPolicy_validate G p =
     (if go_list (ep_AllowedHosts p) = []
      then Some (invalidInput ''endpoint policy requires at least one allowed host'')
      else case first_error (policyHostError G (ep_AllowIPAddresses p)) (go_list (ep_AllowedHosts p)) of
        Some err \<Rightarrow> Some err
      | None \<Rightarrow> first_error (policyPortError G) (go_list (ep_AllowedPorts p)))"

text \<open>The second half of \<^verbatim>\<open>validateEndpoint\<close>: the effective port.\<close>

definition endpointPortError :: "golib \<Rightarrow> EndpointPolicy \<Rightarrow> gostring \<Rightarrow> url \<Rightarrow> gerror option" where
  "endpointPortError G p field endpoint =
     (let defaultPort = defaultHTTPPort (u_Scheme endpoint);
          effectivePort = (if u_Port endpoint = [] then defaultPort else u_Port endpoint)
      in (case Atoi effectivePort of
            None \<Rightarrow> Some (invalidInput (field @ '' port '' @ Quote G effectivePort @ '' is invalid''))
          | Some portNumber \<Rightarrow>
              if portNumber < 0 \<or> portNumber > 65535
              then Some (invalidInput (field @ '' port '' @ Quote G effectivePort @ '' is invalid''))
              else if go_list (ep_AllowedPorts p) = []
              then if format_int portNumber \<noteq> defaultPort
                   then Some (invalidInput (field @ '' port '' @ Quote G effectivePort @
                          '' is not the default for '' @ u_Scheme endpoint))
                   else None
              else if list_ex (\<lambda>allowed. Atoi (TrimSpace allowed) = Some portNumber) (go_list (ep_AllowedPorts p))
              then None
              else Some (invalidInput (field @ '' port '' @ Quote G effectivePort @
                     '' is not in the endpoint allowlist''))))"

definition validateEndpoint ::
  "golib \<Rightarrow> EndpointPolicy \<Rightarrow> gostring \<Rightarrow> gostring \<Rightarrow> url \<Rightarrow> gerror option" where
  "validateEndpoint G p field purpose endpoint =
     (if u_User endpoint then Some (invalidInput (field @ '' must not contain user information''))
      else if u_Fragment endpoint \<noteq> [] then Some (invalidInput (field @ '' must not contain a fragment''))
      else if ep_RequireHTTPS p \<and> u_Scheme endpoint \<noteq> ''https''
      then Some (invalidInput (field @ '' must use https under the endpoint policy''))
      else case normalizePolicyHost G (u_Hostname endpoint) of
        Inl err \<Rightarrow> Some (invalidInputCause (field @ '' host is not allowed: '') err)
      | Inr host \<Rightarrow>
      if CHR ''%'' \<in> set host
      then Some (invalidInput (field @ '' IPv6 zone identifiers are not allowed''))
      else if ParseIP G host \<and> \<not> ep_AllowIPAddresses p
      then Some (invalidInput (field @ '' IP address destinations are not allowed''))
      else if \<not> list_ex (\<lambda>candidate. normalizePolicyHost G candidate = Inr host) (go_list (ep_AllowedHosts p))
      then Some (invalidInput (field @ '' host '' @ Quote G host @
             '' is not in the endpoint allowlist for '' @ purpose))
      else endpointPortError G p field endpoint)"

definition normalizeNativeHTTPURLWithPolicy ::
  "golib \<Rightarrow> gostring \<Rightarrow> gostring \<Rightarrow> gostring \<Rightarrow> EndpointPolicy option \<Rightarrow> gerror + gostring" where
  "normalizeNativeHTTPURLWithPolicy G field v purpose policy =
     (let trimmedURL = TrimSpace v
      in if trimmedURL = [] then Inl (invalidInput (field @ '' is empty''))
      else case rejectEmbeddedNUL field trimmedURL of Some err \<Rightarrow> Inl err | None \<Rightarrow>
      if contains_space trimmedURL then Inl (invalidInput (field @ '' contains whitespace''))
      else case url_Parse G trimmedURL of
        Inl err \<Rightarrow> Inl (invalidInputCause (field @ '' is invalid: '') err)
      | Inr parsedURL \<Rightarrow>
      if u_Scheme parsedURL \<noteq> ''http'' \<and> u_Scheme parsedURL \<noteq> ''https''
      then Inl (invalidInput (field @ '' must use http or https''))
      else if u_Hostname parsedURL = [] then Inl (invalidInput (field @ '' host is empty''))
      else if u_Port parsedURL \<noteq> [] \<and> ParseUint16 (u_Port parsedURL) = None
      then Inl (invalidInput (field @ '' port must be in range 0..65535''))
      else (case (case policy of None \<Rightarrow> None | Some p \<Rightarrow> validateEndpoint G p field purpose parsedURL) of
              Some err \<Rightarrow> Inl err
            | None \<Rightarrow> Inr trimmedURL))"

definition normalizeNativeHTTPURL :: "golib \<Rightarrow> gostring \<Rightarrow> gostring \<Rightarrow> gerror + gostring" where
  "normalizeNativeHTTPURL G field v = normalizeNativeHTTPURLWithPolicy G field v [] None"

section \<open>What the checks guarantee\<close>

lemma read_format: "read_nat 10 (format_nat 10 n) = n"
proof (induction "10 :: nat" n rule: format_nat.induct)
  case (1 n)
  show ?case
  proof (cases "n < 10")
    case True
    then show ?thesis by (simp add: format_nat.simps [of 10 n] read_nat_def digit_val_digit_char)
  next
    case False
    with 1 show ?thesis by (simp add: format_nat.simps [of 10 n] digit_val_digit_char)
  qed
qed

lemma format_int_inj: "0 \<le> m \<Longrightarrow> 0 \<le> n \<Longrightarrow> format_int m = format_int n \<longleftrightarrow> m = n"
  by (metis format_int_def abs_of_nonneg append_Nil int_nat_eq not_less read_format)

lemma default_port_text:
  "defaultHTTPPort scheme = format_int (if scheme = ''https'' then 443 else 80)"
proof -
  have "format_int 443 = ''443''" "format_int 80 = ''80''" by code_simp+
  then show ?thesis by (simp add: defaultHTTPPort_def)
qed

text \<open>The effective port as a number, and the destinations a policy admits.\<close>

definition endpoint_port :: "url \<Rightarrow> int option" where
  "endpoint_port u = Atoi (if u_Port u = [] then defaultHTTPPort (u_Scheme u) else u_Port u)"

definition admits_host :: "golib \<Rightarrow> EndpointPolicy \<Rightarrow> gostring \<Rightarrow> bool" where
  "admits_host G p name \<longleftrightarrow> (\<exists>host. normalizePolicyHost G name = Inr host \<and> CHR ''%'' \<notin> set host \<and>
     (ParseIP G host \<longrightarrow> ep_AllowIPAddresses p) \<and>
     (\<exists>candidate \<in> set (go_list (ep_AllowedHosts p)). normalizePolicyHost G candidate = Inr host))"

definition admits_port :: "EndpointPolicy \<Rightarrow> gostring \<Rightarrow> int \<Rightarrow> bool" where
  "admits_port p scheme n \<longleftrightarrow> 0 \<le> n \<and> n \<le> 65535 \<and>
     (if go_list (ep_AllowedPorts p) = [] then n = (if scheme = ''https'' then 443 else 80)
      else \<exists>allowed \<in> set (go_list (ep_AllowedPorts p)). Atoi (TrimSpace allowed) = Some n)"

text \<open>
  C40: The endpoint policy admits exactly the destinations it describes: no user information and no
  fragment, HTTPS where it is required, a host that equals an allowlisted one after
  normalisation (an IP literal only if the policy allows them, never an IPv6 zone), and an effective
  port that is allowlisted, or the default of the scheme if the policy lists no port.
\<close>

theorem endpoint_policy_exact:
  "validateEndpoint G p field purpose u = None \<longleftrightarrow>
    \<not> u_User u \<and> u_Fragment u = [] \<and> (ep_RequireHTTPS p \<longrightarrow> u_Scheme u = ''https'') \<and>
    admits_host G p (u_Hostname u) \<and>
    (\<exists>n. endpoint_port u = Some n \<and> admits_port p (u_Scheme u) n)"
proof -
  have port: "endpointPortError G p field u = None \<longleftrightarrow>
      (\<exists>n. endpoint_port u = Some n \<and> admits_port p (u_Scheme u) n)"
  proof (cases "endpoint_port u")
    case None
    then show ?thesis by (simp add: endpointPortError_def endpoint_port_def Let_def)
  next
    case (Some n)
    then show ?thesis
      using format_int_inj [of n "if u_Scheme u = ''https'' then 443 else 80"]
      by (auto simp: endpointPortError_def endpoint_port_def Let_def admits_port_def list_ex_iff
          default_port_text [symmetric])
  qed
  show ?thesis
    unfolding validateEndpoint_def port [symmetric] admits_host_def
    by (cases "normalizePolicyHost G (u_Hostname u)") (auto simp: list_ex_iff)
qed

text \<open>
  A URL handed to native code went through every check: it is the caller's text without
  surrounding white space, it has no NUL byte and no white space inside, it parses as an HTTP or
  HTTPS URL with a host, and the configured policy admits it.
\<close>

theorem native_url_checked:
  assumes "normalizeNativeHTTPURLWithPolicy G field v purpose policy = Inr s"
  shows "s = TrimSpace v \<and> s \<noteq> [] \<and> CHR 0x00 \<notin> set s \<and> \<not> contains_space s \<and>
    (\<exists>u. url_Parse G s = Inr u \<and> u_Scheme u \<in> {''http'', ''https''} \<and> u_Hostname u \<noteq> [] \<and>
      (\<forall>p. policy = Some p \<longrightarrow> validateEndpoint G p field purpose u = None))"
  using assms
  by (auto simp: normalizeNativeHTTPURLWithPolicy_def Let_def rejectEmbeddedNUL_def
      split: if_splits option.splits sum.splits)

lemma validateEndpoint_error:
  "validateEndpoint G p field purpose u = Some e \<Longrightarrow> errors_is e KalkanErrInvalidInput"
  by (auto simp: validateEndpoint_def endpointPortError_def Let_def split: if_splits option.splits sum.splits)

lemma first_error_is:
  "first_error f xs = Some e \<Longrightarrow> (\<And>x e. f x = Some e \<Longrightarrow> P e) \<Longrightarrow> P e"
  by (induction xs) (auto split: option.splits)

lemma policy_entry_error:
  "policyHostError G a h = Some e \<Longrightarrow> errors_is e KalkanErrInvalidInput"
  "policyPortError G q = Some e \<Longrightarrow> errors_is e KalkanErrInvalidInput"
  by (auto simp: policyHostError_def policyPortError_def Let_def split: if_splits option.splits sum.splits)

text \<open>
  Whatever input a check refuses, the error it returns matches \<^verbatim>\<open>ErrInvalidInput\<close>: for
  paths, URLs under any policy, proxies, endpoint policies and in-memory sizes.
\<close>

theorem refused_input_is_invalid_input:
  "(validateNativePathString field v = Inl e \<longrightarrow> errors_is e KalkanErrInvalidInput) \<and>
   (normalizeNativeHTTPURLWithPolicy G field v purpose policy = Inl e \<longrightarrow> errors_is e KalkanErrInvalidInput) \<and>
   (Proxy_validate G proxy = Some e \<longrightarrow> errors_is e KalkanErrInvalidInput) \<and>
   (EndpointPolicy_validate G p = Some e \<longrightarrow> errors_is e KalkanErrInvalidInput) \<and>
   (validateMemorySourceSize source field limit = Some e \<longrightarrow> errors_is e KalkanErrInvalidInput)"
proof (intro conjI impI)
  show "validateNativePathString field v = Inl e \<Longrightarrow> errors_is e KalkanErrInvalidInput"
    by (auto simp: validateNativePathString_def rejectEmbeddedNUL_def split: if_splits)
  show "normalizeNativeHTTPURLWithPolicy G field v purpose policy = Inl e \<Longrightarrow> errors_is e KalkanErrInvalidInput"
    by (auto simp: normalizeNativeHTTPURLWithPolicy_def Let_def rejectEmbeddedNUL_def
        dest: validateEndpoint_error split: if_splits option.splits sum.splits)
  show "Proxy_validate G proxy = Some e \<Longrightarrow> errors_is e KalkanErrInvalidInput"
    by (auto simp: Proxy_validate_def Let_def rejectEmbeddedNUL_def split: if_splits option.splits)
  show "EndpointPolicy_validate G p = Some e \<Longrightarrow> errors_is e KalkanErrInvalidInput"
    by (auto simp: EndpointPolicy_validate_def split: if_splits option.splits
        elim!: first_error_is dest: policy_entry_error)
  show "validateMemorySourceSize source field limit = Some e \<Longrightarrow> errors_is e KalkanErrInvalidInput"
    by (auto simp: validateMemorySourceSize_def validateBytesSize_def validateInputSize_def split: if_splits)
qed

section \<open>Samples\<close>

definition sample_golib :: golib where
  "sample_golib = \<lparr>url_Parse = \<lambda>s. if s = ''http://tsp.kz'' then Inr \<lparr>u_Scheme = ''http'', u_User = False,
     u_Hostname = ''tsp.kz'', u_Port = [], u_Fragment = []\<rparr> else Inl (plainError ''parse''),
     ParseIP = \<lambda>_. False, Quote = \<lambda>s. s\<rparr>"

definition sample_policy :: EndpointPolicy where
  "sample_policy = \<lparr>ep_AllowedHosts = Some [''TSP.kz.''], ep_AllowedPorts = None, ep_RequireHTTPS = False,
     ep_AllowIPAddresses = False\<rparr>"

theorem native_url_checked_witness:
  "\<exists>u. url_Parse sample_golib ''http://tsp.kz'' = Inr u \<and>
    validateEndpoint sample_golib sample_policy ''TSA URL'' ''TSA'' u = None"
proof -
  have "normalizeNativeHTTPURLWithPolicy sample_golib ''TSA URL'' '' http://tsp.kz '' ''TSA'' (Some sample_policy) =
      Inr ''http://tsp.kz''"
    by code_simp
  from native_url_checked [OF this] show ?thesis by blast
qed

theorem refused_input_is_invalid_input_witness:
  "\<exists>e. validateNativePathString ''library path'' [] = Inl e \<and> errors_is e KalkanErrInvalidInput"
proof -
  have "validateNativePathString ''library path'' [] = Inl (invalidInput ''library path is empty'')"
    by (simp add: validateNativePathString_def)
  with refused_input_is_invalid_input [of "''library path''" "[]" "invalidInput ''library path is empty''"]
  show ?thesis by blast
qed

theorem endpoint_policy_exact_witness:
  "validateEndpoint sample_golib (sample_policy\<lparr>ep_RequireHTTPS := True\<rparr>) ''TSA URL'' ''TSA''
    \<lparr>u_Scheme = ''http'', u_User = False, u_Hostname = ''tsp.kz'', u_Port = [], u_Fragment = []\<rparr> \<noteq> None"
  unfolding endpoint_policy_exact by (simp add: sample_policy_def)

end
