(* ===== verification/Certificate_PEM.thy ===== *)
theory Certificate_PEM
  imports Input_Policy
begin

text \<open>
  Certificates as PEM (\<^verbatim>\<open>certificate_pem.go\<close>, and the encoder of
  \<^verbatim>\<open>certificate_info.go\<close>): the size computation, the encoder that writes into a buffer of
  that size, and the parser that accepts exactly one block. Standard base64 is defined here;
  \<^verbatim>\<open>pem.Decode\<close> is an argument. The theorems show that the buffer is filled exactly and that
  the parser reads back what the encoder wrote.
\<close>

section \<open>Standard base64\<close>

definition base64_alphabet :: bytes where
  "base64_alphabet = ''ABCDEFGHIJKLMNOPQRSTUVWXYZabcdefghijklmnopqrstuvwxyz0123456789+/''"

definition sextet :: "nat \<Rightarrow> char" where
  "sextet n = base64_alphabet ! n"

fun position :: "'a \<Rightarrow> 'a list \<Rightarrow> nat option" where
  "position x [] = None"
| "position x (y # ys) = (if x = y then Some 0 else map_option Suc (position x ys))"

text \<open>\<^verbatim>\<open>base64.StdEncoding.Encode\<close>\<close>

fun base64_encode :: "bytes \<Rightarrow> bytes" where
  "base64_encode [] = []"
| "base64_encode [a] = (let x = of_char a in [sextet (x div 4), sextet (x mod 4 * 16), CHR ''='', CHR ''=''])"
| "base64_encode [a, b] = (let x = of_char a; y = of_char b in
     [sextet (x div 4), sextet (x mod 4 * 16 + y div 16), sextet (y mod 16 * 4), CHR ''=''])"
| "base64_encode (a # b # c # ds) = (let x = of_char a; y = of_char b; z = of_char c in
     [sextet (x div 4), sextet (x mod 4 * 16 + y div 16), sextet (y mod 16 * 4 + z div 64), sextet (z mod 64)] @
     base64_encode ds)"

definition EncodedLen :: "nat \<Rightarrow> nat" where
  "EncodedLen n = (n + 2) div 3 * 4"

text \<open>\<^verbatim>\<open>base64.StdEncoding.AppendDecode\<close> skips line ends, wants complete padding and ignores
  the unused bits of the last quantum.\<close>

fun decode_quanta :: "bytes \<Rightarrow> bytes option" where
  "decode_quanta [] = Some []"
| "decode_quanta (a # b # c # d # rest) = (case (position a base64_alphabet, position b base64_alphabet) of
     (Some x, Some y) \<Rightarrow>
       (if c = CHR ''='' \<and> d = CHR ''='' \<and> rest = [] then Some [char_of (x * 4 + y div 16)]
        else (case position c base64_alphabet of
          None \<Rightarrow> None
        | Some z \<Rightarrow>
            if d = CHR ''='' \<and> rest = [] then Some [char_of (x * 4 + y div 16), char_of (y mod 16 * 16 + z div 4)]
            else (case (position d base64_alphabet, decode_quanta rest) of
              (Some w, Some ds) \<Rightarrow> Some ([char_of (x * 4 + y div 16), char_of (y mod 16 * 16 + z div 4),
                 char_of (z mod 4 * 64 + w)] @ ds)
            | _ \<Rightarrow> None)))
   | _ \<Rightarrow> None)"
| "decode_quanta _ = None"

definition is_line_end :: "char \<Rightarrow> bool" where
  "is_line_end c \<longleftrightarrow> c = CHR 0x0A \<or> c = CHR 0x0D"

definition base64_decode :: "bytes \<Rightarrow> bytes option" where
  "base64_decode s = decode_quanta (filter (\<lambda>c. \<not> is_line_end c) s)"

section \<open>The encoder\<close>

definition certificatePEMHeader :: bytes where
  "certificatePEMHeader = ''-----BEGIN CERTIFICATE-----'' @ [CHR 0x0A]"

definition certificatePEMFooter :: bytes where
  "certificatePEMFooter = ''-----END CERTIFICATE-----'' @ [CHR 0x0A]"

definition certificatePEMLineWidth :: nat where
  "certificatePEMLineWidth = 64"

definition certificatePEMSize :: "int \<Rightarrow> int" where
  "certificatePEMSize derSize =
     (let encoded = (derSize + 2) div 3 * 4;
          lines = (encoded + int certificatePEMLineWidth - 1) div int certificatePEMLineWidth
      in int (length certificatePEMHeader + length certificatePEMFooter) + encoded + lines)"

definition maxInt32 :: int where "maxInt32 = 2147483647"

definition validateCertificatePEMInputSize :: "int \<Rightarrow> int \<Rightarrow> gerror option" where
  "validateCertificatePEMInputSize derSize maxSize =
     (let limit = (if maxSize > 0 then min maxInt32 maxSize else maxInt32)
      in case validateInputSize derSize ''certificate'' limit of
           Some err \<Rightarrow> Some err
         | None \<Rightarrow> validateInputSize (certificatePEMSize derSize) ''certificate'' limit)"

text \<open>\<^verbatim>\<open>copy(out[offset:], v)\<close> writes what fits; a write through a slice expression or an
  index out of range panics, which is \<^const>\<open>None\<close>.\<close>

definition copy_at :: "nat \<Rightarrow> bytes \<Rightarrow> bytes \<Rightarrow> bytes" where
  "copy_at offset v out = (let n = min (length v) (length out - offset)
     in take offset out @ take n v @ drop (offset + n) out)"

definition rawChunkSize :: nat where
  "rawChunkSize = certificatePEMLineWidth div 4 * 3"

function pemLoop :: "bytes \<Rightarrow> nat \<Rightarrow> bytes \<Rightarrow> (bytes \<times> nat) option" where
  "pemLoop der offset out =
     (if der = [] then Some (out, offset)
      else let chunkLen = min (length der) rawChunkSize; n = EncodedLen chunkLen
      in if offset + n > length out then None
      else let out = copy_at offset (base64_encode (take chunkLen der)) out
      in if offset + n \<ge> length out then None
      else pemLoop (drop chunkLen der) (offset + n + 1) (out[offset + n := CHR 0x0A]))"
  by pat_completeness auto
termination
  by (relation "measure (\<lambda>(der, _). length der)") (auto simp: rawChunkSize_def certificatePEMLineWidth_def)

declare pemLoop.simps [simp del]

definition encodeCertificatePEM :: "bytes \<Rightarrow> bytes option" where
  "encodeCertificatePEM der =
     (let logicalLen = nat (certificatePEMSize (int (length der)));
          out = copy_at 0 certificatePEMHeader (replicate (logicalLen + 1) (CHR 0x00))
      in case pemLoop der (min (length certificatePEMHeader) (length out)) out of
           None \<Rightarrow> None
         | Some (out, offset) \<Rightarrow> Some (take logicalLen (copy_at offset certificatePEMFooter out)))"

section \<open>The parser\<close>

record pemBlock =
  pem_Type :: gostring
  pem_Bytes :: bytes

type_synonym pemDecoder = "bytes \<Rightarrow> pemBlock option \<times> bytes"

text \<open>\<^verbatim>\<open>bytes.Index\<close>\<close>

fun index_of :: "bytes \<Rightarrow> bytes \<Rightarrow> nat option" where
  "index_of pat [] = (if pat = [] then Some 0 else None)"
| "index_of pat (c # cs) = (if prefix pat (c # cs) then Some 0 else map_option Suc (index_of pat cs))"

definition parseCertificatePEM :: "golib \<Rightarrow> pemDecoder \<Rightarrow> bytes \<Rightarrow> gerror + bytes" where
  "parseCertificatePEM G Decode original =
     (let data = TrimSpace original
      in if \<not> prefix ''-----BEGIN '' data
      then (if fst (Decode data) \<noteq> None then Inl (invalidInput ''certificate PEM contains leading data'')
            else Inl (invalidInput ''certificate contains invalid PEM''))
      else let first = (case index_of (CHR 0x0A # ''-----BEGIN '') data of
               None \<Rightarrow> data
             | Some n \<Rightarrow> take n data)
      in (case Decode first of
        (None, _) \<Rightarrow> Inl (invalidInput ''certificate contains invalid PEM'')
      | (Some block, rest) \<Rightarrow>
          if pem_Type block \<noteq> ''CERTIFICATE''
          then Inl (invalidInput (''certificate PEM block type must be CERTIFICATE, got '' @ Quote G (pem_Type block)))
          else let rest = TrimSpace (drop (length first - length rest) data)
          in if rest \<noteq> []
          then (if fst (Decode rest) \<noteq> None then Inl (invalidInput ''certificate PEM contains multiple PEM blocks'')
                else Inl (invalidInput ''certificate PEM contains trailing data''))
          else if pem_Bytes block = [] then Inl (invalidInput ''certificate PEM input decodes to empty DER'')
          else Inr (pem_Bytes block)))"

section \<open>Base64 round trip\<close>

lemma position_nth: "distinct xs \<Longrightarrow> n < length xs \<Longrightarrow> position (xs ! n) xs = Some n"
proof (induction xs arbitrary: n)
  case (Cons x xs)
  then show ?case by (cases n) (auto simp: nth_mem)
qed simp

lemma alphabet: "distinct base64_alphabet" "length base64_alphabet = 64" "CHR ''='' \<notin> set base64_alphabet"
  by (simp_all add: base64_alphabet_def)

lemma position_sextet [simp]: "n < 64 \<Longrightarrow> position (sextet n) base64_alphabet = Some n"
  unfolding sextet_def by (rule position_nth) (simp_all add: alphabet)

lemma sextet_in: "n < 64 \<Longrightarrow> sextet n \<in> set base64_alphabet"
  by (simp add: sextet_def alphabet)

lemma sextet_not_pad [simp]: "n < 64 \<Longrightarrow> sextet n \<noteq> CHR ''=''"
  using sextet_in alphabet(3) by metis

lemma of_char_less: "of_char c < (256 :: nat)"
  by (metis of_char_mod_256 mod_less_divisor zero_less_numeral)

lemma length_base64_encode: "length (base64_encode s) = EncodedLen (length s)"
proof (induction s rule: base64_encode.induct)
  case (4 a b c ds)
  have "(5 + length ds) div 3 = Suc ((length ds + 2) div 3)" by linarith
  with 4 show ?case by (simp add: EncodedLen_def Let_def)
qed (simp_all add: EncodedLen_def Let_def)

lemma decode_quanta_pair:
  "x < 64 \<Longrightarrow> y < 64 \<Longrightarrow> decode_quanta [sextet x, sextet y, CHR ''='', CHR ''=''] = Some [char_of (x * 4 + y div 16)]"
  by simp

lemma decode_quanta_triple:
  "x < 64 \<Longrightarrow> y < 64 \<Longrightarrow> z < 64 \<Longrightarrow> decode_quanta [sextet x, sextet y, sextet z, CHR ''=''] =
     Some [char_of (x * 4 + y div 16), char_of (y mod 16 * 16 + z div 4)]"
  by simp

lemma decode_quanta_full:
  "x < 64 \<Longrightarrow> y < 64 \<Longrightarrow> z < 64 \<Longrightarrow> w < 64 \<Longrightarrow>
     decode_quanta (sextet x # sextet y # sextet z # sextet w # rest) = map_option ((@)
       [char_of (x * 4 + y div 16), char_of (y mod 16 * 16 + z div 4), char_of (z mod 4 * 64 + w)]) (decode_quanta rest)"
  by (simp split: option.split)

lemma sextets:
  fixes x y z :: nat
  assumes "x < 256" "y < 256" "z < 256"
  shows "x div 4 < 64" "x mod 4 * 16 + y div 16 < 64" "x mod 4 * 16 < 64" "y mod 16 * 4 < 64"
    "y mod 16 * 4 + z div 64 < 64" "z mod 64 < 64"
    "x div 4 * 4 + (x mod 4 * 16 + y div 16) div 16 = x" "x div 4 * 4 + (x mod 4 * 16) div 16 = x"
    "(x mod 4 * 16 + y div 16) mod 16 * 16 + (y mod 16 * 4 + z div 64) div 4 = y"
    "(x mod 4 * 16 + y div 16) mod 16 * 16 + (y mod 16 * 4) div 4 = y"
    "(y mod 16 * 4 + z div 64) mod 4 * 64 + z mod 64 = z"
  using assms by (simp_all add: div_mult_mod_eq)

lemma decode_encode: "decode_quanta (base64_encode s) = Some s"
proof (induction s rule: base64_encode.induct)
  case (2 a)
  note x = sextets [of "of_char a" "of_char a" "of_char a", OF of_char_less of_char_less of_char_less]
  show ?case by (simp only: base64_encode.simps Let_def decode_quanta_pair [OF x(1,3)] x(8) char_of_char)
next
  case (3 a b)
  note x = sextets [of "of_char a" "of_char b" "of_char b", OF of_char_less of_char_less of_char_less]
  show ?case
    by (simp only: base64_encode.simps Let_def decode_quanta_triple [OF x(1,2,4)] x(7,10) char_of_char)
next
  case (4 a b c ds)
  note x = sextets [of "of_char a" "of_char b" "of_char c", OF of_char_less of_char_less of_char_less]
  from 4 show ?case
    by (simp only: base64_encode.simps Let_def append.simps decode_quanta_full [OF x(1,2,5,6)] x(7,9,11) char_of_char
        option.map)
qed simp

section \<open>The encoder fills its buffer exactly\<close>

text \<open>The lines of a PEM block: 48 bytes each, encoded, with a line end.\<close>

function pem_body :: "bytes \<Rightarrow> bytes" where
  "pem_body der = (if der = [] then [] else base64_encode (take 48 der) @ CHR 0x0A # pem_body (drop 48 der))"
  by pat_completeness auto
termination
  by (relation "measure length") auto

declare pem_body.simps [simp del]

definition pem_text :: "bytes \<Rightarrow> bytes" where
  "pem_text der = certificatePEMHeader @ pem_body der @ certificatePEMFooter"

lemma length_pem_body: "length (pem_body der) = EncodedLen (length der) + (EncodedLen (length der) + 63) div 64"
proof (induction der rule: pem_body.induct)
  case (1 der)
  show ?case
  proof (cases "der = []")
    case True
    then show ?thesis by (simp add: pem_body.simps EncodedLen_def)
  next
    case der: False
    note IH = 1 [OF der]
    show ?thesis
    proof (cases "length der \<le> 48")
      case True
      from der have "1 \<le> length der" by (simp add: Suc_le_eq)
      then have "1 \<le> (length der + 2) div 3" "(length der + 2) div 3 \<le> 16" using True by linarith+
      then have "(EncodedLen (length der) + 63) div 64 = 1"
        unfolding EncodedLen_def by (intro div_nat_eqI) simp_all
      with True der show ?thesis by (subst pem_body.simps) (simp add: length_base64_encode pem_body.simps [of "[]"])
    next
      case False
      then obtain n where n: "length der = 48 + n" by (metis le_Suc_ex linear)
      have "(48 + n + 2) div 3 = 16 + (n + 2) div 3" by linarith
      then have e: "EncodedLen (48 + n) = 64 + EncodedLen n" unfolding EncodedLen_def by simp
      have "length (pem_body der) = EncodedLen 48 + 1 + length (pem_body (drop 48 der))"
        using der n by (subst pem_body.simps) (simp add: length_base64_encode)
      also have "EncodedLen 48 = 64" by (simp add: EncodedLen_def)
      finally show ?thesis using IH n e by simp
    qed
  qed
qed

lemma length_pem_text: "int (length (pem_text der)) = certificatePEMSize (int (length der))"
proof -
  have "int (EncodedLen (length der)) = (int (length der) + 2) div 3 * 4"
    by (simp add: EncodedLen_def zdiv_int)
  moreover have "int ((EncodedLen (length der) + 63) div 64) = (int (EncodedLen (length der)) + 64 - 1) div 64"
    by (simp add: zdiv_int)
  ultimately show ?thesis
    by (simp add: pem_text_def certificatePEMSize_def Let_def length_pem_body certificatePEMLineWidth_def)
qed

lemma copy_at_exact:
  "length v \<le> length r \<Longrightarrow> copy_at (length w) v (w @ r) = w @ v @ drop (length v) r"
  by (simp add: copy_at_def)

lemma pemLoop_exact:
  "length (pem_body der) \<le> length r \<Longrightarrow> pemLoop der (length w) (w @ r) =
     Some (w @ pem_body der @ drop (length (pem_body der)) r, length w + length (pem_body der))"
proof (induction der arbitrary: w r rule: pem_body.induct)
  case (1 der)
  show ?case
  proof (cases "der = []")
    case True
    then show ?thesis by (simp add: pem_body.simps [of "[]"] pemLoop.simps [of "[]"])
  next
    case False
    let ?c = "base64_encode (take 48 der)"
    have body: "pem_body der = ?c @ CHR 0x0A # pem_body (drop 48 der)" using False by (subst pem_body.simps) simp
    have n: "EncodedLen (min (length der) rawChunkSize) = length ?c" "take (min (length der) rawChunkSize) der = take 48 der"
      "drop (min (length der) rawChunkSize) der = drop 48 der"
      by (auto simp: length_base64_encode rawChunkSize_def certificatePEMLineWidth_def min_def)
    from 1 (2) body obtain b r' where r: "drop (length ?c) r = b # r'" "length (pem_body (drop 48 der)) \<le> length r'"
      "length ?c < length r"
      by (cases "drop (length ?c) r") (auto dest: arg_cong [of _ _ length])
    have out: "copy_at (length w) ?c (w @ r) = w @ ?c @ b # r'"
      using r(3) copy_at_exact [of ?c r w] by (simp add: r(1))
    have "pemLoop der (length w) (w @ r) = pemLoop (drop 48 der) (length ((w @ ?c) @ [CHR 0x0A])) (((w @ ?c) @ [CHR 0x0A]) @ r')"
      using False r(3) by (subst pemLoop.simps) (simp add: n Let_def out list_update_append)
    also have "\<dots> = Some (((w @ ?c) @ [CHR 0x0A]) @ pem_body (drop 48 der) @ drop (length (pem_body (drop 48 der))) r',
        length ((w @ ?c) @ [CHR 0x0A]) + length (pem_body (drop 48 der)))"
      by (rule 1(1) [OF False r(2)])
    also have "drop (length (pem_body (drop 48 der))) r' = drop (length (pem_body der)) r"
    proof -
      have "drop (length (pem_body der)) r = drop (length (pem_body (drop 48 der)) + 1) (drop (length ?c) r)"
        by (simp add: body add.commute)
      then show ?thesis by (simp add: r(1))
    qed
    finally show ?thesis by (simp add: body)
  qed
qed

lemma encode_exact: "encodeCertificatePEM der = Some (pem_text der)"
proof -
  let ?n = "nat (certificatePEMSize (int (length der)))"
  have n: "?n = length (pem_text der)" by (simp add: length_pem_text [symmetric])
  then have len: "?n + 1 = length certificatePEMHeader + (length (pem_body der) + length certificatePEMFooter + 1)"
    by (simp add: pem_text_def)
  define r where "r = replicate (length (pem_body der) + length certificatePEMFooter + 1) (CHR 0x00)"
  have r: "replicate (?n + 1) (CHR 0x00) = replicate (length certificatePEMHeader) (CHR 0x00) @ r"
    "length r = length (pem_body der) + length certificatePEMFooter + 1"
    unfolding len r_def by (simp_all only: replicate_add length_append length_replicate append_assoc)
  have h: "copy_at 0 certificatePEMHeader (replicate (?n + 1) (CHR 0x00)) = certificatePEMHeader @ r"
    unfolding r(1) copy_at_def Let_def by simp
  have loop: "pemLoop der (length certificatePEMHeader) (certificatePEMHeader @ r) =
      Some ((certificatePEMHeader @ pem_body der) @ drop (length (pem_body der)) r,
        length (certificatePEMHeader @ pem_body der))"
    using pemLoop_exact [of der r certificatePEMHeader] r(2) by simp
  have "copy_at (length (certificatePEMHeader @ pem_body der)) certificatePEMFooter
      ((certificatePEMHeader @ pem_body der) @ drop (length (pem_body der)) r) =
      pem_text der @ drop (length certificatePEMFooter) (drop (length (pem_body der)) r)"
    by (subst copy_at_exact) (simp_all add: r(2) pem_text_def)
  then show ?thesis
    unfolding encodeCertificatePEM_def Let_def h by (simp add: loop n del: append_assoc)
qed

section \<open>The parser reads the encoder's output\<close>

text \<open>The documented behaviour of \<^verbatim>\<open>pem.Decode\<close> on a block without headers whose lines
  are base64 text.\<close>

definition pem_lines :: "bytes \<Rightarrow> bool" where
  "pem_lines body \<longleftrightarrow> body \<noteq> [] \<and> last body = CHR 0x0A \<and> set body \<subseteq> insert (CHR 0x0A) (insert (CHR ''='') (set base64_alphabet))"

definition standard_pem :: "pemDecoder \<Rightarrow> bool" where
  "standard_pem Decode \<longleftrightarrow> (\<forall>body data. pem_lines body \<and> base64_decode body = Some data \<longrightarrow>
     Decode (certificatePEMHeader @ body @ ''-----END CERTIFICATE-----'') =
       (Some \<lparr>pem_Type = ''CERTIFICATE'', pem_Bytes = data\<rparr>, []))"

lemma decode_quanta_append:
  "length s mod 3 = 0 \<Longrightarrow> decode_quanta (base64_encode s @ t) = map_option ((@) s) (decode_quanta t)"
proof (induction s rule: base64_encode.induct)
  case 1
  then show ?case by (simp add: option.map_ident)
next
  case (4 a b c ds)
  note x = sextets [of "of_char a" "of_char b" "of_char c", OF of_char_less of_char_less of_char_less]
  from 4 show ?case
    by (simp only: base64_encode.simps Let_def append.simps append_assoc decode_quanta_full [OF x(1,2,5,6)]
        x(7,9,11) char_of_char list.size) (cases "decode_quanta t"; simp)
qed simp_all

lemma base64_encode_chars: "set (base64_encode s) \<subseteq> insert (CHR ''='') (set base64_alphabet)"
proof (induction s rule: base64_encode.induct)
  case (2 a)
  note x = sextets [of "of_char a" "of_char a" "of_char a", OF of_char_less of_char_less of_char_less]
  show ?case using x by (simp add: Let_def sextet_in)
next
  case (3 a b)
  note x = sextets [of "of_char a" "of_char b" "of_char b", OF of_char_less of_char_less of_char_less]
  show ?case using x(1,2,4) by (simp add: Let_def sextet_in)
next
  case (4 a b c ds)
  note x = sextets [of "of_char a" "of_char b" "of_char c", OF of_char_less of_char_less of_char_less]
  show ?case using x(1,2,5,6) 4 [OF refl refl refl] by (simp add: Let_def sextet_in)
qed simp

lemma no_line_end: "set s \<subseteq> insert (CHR ''='') (set base64_alphabet) \<Longrightarrow> filter (\<lambda>c. \<not> is_line_end c) s = s"
proof (rule filter_True, rule ballI)
  fix c assume "set s \<subseteq> insert (CHR ''='') (set base64_alphabet)" "c \<in> set s"
  then have "c \<in> insert (CHR ''='') (set base64_alphabet)" by blast
  moreover have "\<forall>c \<in> insert (CHR ''='') (set base64_alphabet). \<not> is_line_end c"
    by (simp add: base64_alphabet_def is_line_end_def)
  ultimately show "\<not> is_line_end c" by blast
qed

lemma decode_pem_body: "base64_decode (pem_body der) = Some der"
proof (induction der rule: pem_body.induct)
  case (1 der)
  show ?case
  proof (cases "der = []")
    case True
    then show ?thesis by (simp add: pem_body.simps base64_decode_def)
  next
    case False
    let ?rest = "filter (\<lambda>c. \<not> is_line_end c) (pem_body (drop 48 der))"
    have IH: "decode_quanta ?rest = Some (drop 48 der)" using 1 [OF False] by (simp add: base64_decode_def)
    have "base64_decode (pem_body der) = decode_quanta (base64_encode (take 48 der) @ ?rest)"
      using False by (subst pem_body.simps)
        (simp add: base64_decode_def no_line_end [OF base64_encode_chars] is_line_end_def [of "CHR 0x0A"])
    also have "\<dots> = Some der"
    proof (cases "length der \<le> 48")
      case True
      then show ?thesis by (simp add: pem_body.simps [of "[]"] decode_encode)
    next
      case False
      then show ?thesis using IH by (simp add: decode_quanta_append)
    qed
    finally show ?thesis .
  qed
qed

lemma pem_body_lines: "der \<noteq> [] \<Longrightarrow> pem_lines (pem_body der)"
proof -
  have chars: "set (pem_body der) \<subseteq> insert (CHR 0x0A) (insert (CHR ''='') (set base64_alphabet))" for der
  proof (induction der rule: pem_body.induct)
    case (1 der)
    then show ?case using base64_encode_chars [of "take 48 der"]
      by (cases "der = []") (auto simp: pem_body.simps [of der] pem_body.simps [of "[]"])
  qed
  have last: "der \<noteq> [] \<Longrightarrow> pem_body der \<noteq> [] \<and> last (pem_body der) = CHR 0x0A"
  proof (induction der rule: pem_body.induct)
    case (1 der)
    then show ?case
      by (cases "drop 48 der = []") (auto simp: pem_body.simps [of der] pem_body.simps [of "[]"])
  qed
  assume "der \<noteq> []"
  with chars last show ?thesis by (simp add: pem_lines_def)
qed

lemma trim_left_none: "(\<And>r. r \<in> set rs \<Longrightarrow> r \<noteq> [] \<Longrightarrow> \<not> prefix r s) \<Longrightarrow> trim_left rs s = s"
proof -
  assume "\<And>r. r \<in> set rs \<Longrightarrow> r \<noteq> [] \<Longrightarrow> \<not> prefix r s"
  then have "List.find (\<lambda>r. r \<noteq> [] \<and> prefix r s) rs = None" by (auto simp: find_None_iff)
  then show ?thesis by (subst trim_left.simps) simp
qed

lemma TrimSpace_dashes: "TrimSpace (CHR ''-'' # s @ [CHR ''-'', CHR 0x0A]) = CHR ''-'' # s @ [CHR ''-'']"
proof -
  have l: "trim_left space_runes (CHR ''-'' # t) = CHR ''-'' # t" for t
    by (rule trim_left_none) (auto simp: space_runes_def)
  have r: "trim_left (map rev space_runes) (CHR ''-'' # t) = CHR ''-'' # t" for t
    by (rule trim_left_none) (auto simp: space_runes_def)
  have "trim_left (map rev space_runes) (CHR 0x0A # t) = trim_left (map rev space_runes) t" for t
    by (subst trim_left.simps) (simp add: space_runes_def)
  with l r show ?thesis by (simp add: TrimSpace_def)
qed

text \<open>The text of one block holds no second \<^verbatim>\<open>BEGIN\<close> line.\<close>

lemma index_of_body:
  assumes "set body \<subseteq> insert (CHR 0x0A) (insert (CHR ''='') (set base64_alphabet))"
  shows "index_of (CHR 0x0A # ''-----BEGIN '') (body @ ''-----END CERTIFICATE-----'') = None"
  using assms
proof (induction body)
  case Nil
  show ?case by simp
next
  case (Cons c body)
  have "\<not> prefix (CHR 0x0A # ''-----BEGIN '') (c # body @ ''-----END CERTIFICATE-----'')"
  proof (cases body)
    case (Cons d ds)
    with Cons.prems have "d \<in> insert (CHR 0x0A) (insert (CHR ''='') (set base64_alphabet))" by simp
    then have "d \<noteq> CHR ''-''" by (auto simp: base64_alphabet_def)
    with Cons show ?thesis by simp
  qed simp
  with Cons show ?case by simp
qed

lemma index_of_text:
  assumes "pem_lines body"
  shows "index_of (CHR 0x0A # ''-----BEGIN '') (certificatePEMHeader @ body @ ''-----END CERTIFICATE-----'') = None"
proof -
  from assms obtain c cs where body: "body = c # cs" by (cases body) (auto simp: pem_lines_def)
  with assms have "c \<noteq> CHR ''-''" by (auto simp: pem_lines_def base64_alphabet_def)
  with assms index_of_body [of body] show ?thesis
    by (simp add: certificatePEMHeader_def body pem_lines_def)
qed

lemma parse_text:
  assumes "standard_pem D" and "der \<noteq> []"
  shows "parseCertificatePEM G D (pem_text der) = Inr der"
proof -
  let ?data = "certificatePEMHeader @ pem_body der @ ''-----END CERTIFICATE-----''"
  have "TrimSpace (pem_text der) = ?data"
    using TrimSpace_dashes [of "''----BEGIN CERTIFICATE-----'' @ [CHR 0x0A] @ pem_body der @ ''-----END CERTIFICATE----''"]
    by (simp add: pem_text_def certificatePEMHeader_def certificatePEMFooter_def)
  moreover have "prefix ''-----BEGIN '' ?data" by (simp add: certificatePEMHeader_def)
  moreover note index_of_text [OF pem_body_lines [OF assms(2)]]
  moreover have "D ?data = (Some \<lparr>pem_Type = ''CERTIFICATE'', pem_Bytes = der\<rparr>, [])"
    using assms(1) pem_body_lines [OF assms(2)] decode_pem_body unfolding standard_pem_def by blast
  moreover have "TrimSpace [] = []" by (simp add: TrimSpace_def trim_left_none)
  ultimately show ?thesis using assms(2) by (simp add: parseCertificatePEM_def Let_def)
qed

text \<open>
  C15: The PEM encoder. For every certificate the encoder returns without a write outside its buffer;
  its output has exactly the computed size, and within the size check that is a C \<^verbatim>\<open>int\<close>
  below the configured limit.
\<close>

theorem pem_encode_exact:
  "\<exists>pem. encodeCertificatePEM der = Some pem \<and> int (length pem) = certificatePEMSize (int (length der)) \<and>
    (validateCertificatePEMInputSize (int (length der)) maxSize = None \<longrightarrow>
       int (length pem) \<le> maxInt32 \<and> (0 < maxSize \<longrightarrow> int (length pem) \<le> maxSize))"
  using length_pem_text [of der]
  by (auto simp: encode_exact validateCertificatePEMInputSize_def validateInputSize_def maxInt32_def Let_def
      split: if_splits)

text \<open>
  PEM round trip. The parser that accepts only a single block reads back the certificate the
  encoder wrote.
\<close>

theorem pem_roundtrip:
  assumes "standard_pem D" and "der \<noteq> []"
  shows "\<exists>pem. encodeCertificatePEM der = Some pem \<and> parseCertificatePEM G D pem = Inr der"
  using parse_text [OF assms] by (simp add: encode_exact)

section \<open>Samples\<close>

text \<open>A decoder of single blocks.\<close>

definition sample_pem :: pemDecoder where
  "sample_pem s =
     (case base64_decode (take (length s - 53) (drop 28 s)) of
        None \<Rightarrow> (None, s)
      | Some data \<Rightarrow> (Some \<lparr>pem_Type = ''CERTIFICATE'', pem_Bytes = data\<rparr>, []))"

lemma sample_standard: "standard_pem sample_pem"
proof -
  have "take (length (certificatePEMHeader @ body @ ''-----END CERTIFICATE-----'') - 53)
      (drop 28 (certificatePEMHeader @ body @ ''-----END CERTIFICATE-----'')) = body" for body
    by (simp add: certificatePEMHeader_def)
  then show ?thesis unfolding standard_pem_def sample_pem_def by simp
qed

theorem pem_encode_exact_witness: "int (length (pem_text ''certificate'')) \<le> maxInt32"
proof -
  have "validateCertificatePEMInputSize (int (length ''certificate'')) 0 = None"
    by (simp add: validateCertificatePEMInputSize_def validateInputSize_def certificatePEMSize_def maxInt32_def
        certificatePEMLineWidth_def certificatePEMHeader_def certificatePEMFooter_def)
  with pem_encode_exact [of "''certificate''" 0] show ?thesis by (simp add: encode_exact)
qed

theorem pem_roundtrip_witness:
  "parseCertificatePEM sample_golib sample_pem (pem_text ''certificate'') = Inr ''certificate''"
  using pem_roundtrip [OF sample_standard, of "''certificate''" sample_golib] by (simp add: encode_exact)

end
