(* ===== verification/X509_Library.thy ===== *)
theory X509_Library
  imports Certificate_PEM Kalkan_Types
begin

text \<open>
  What the sources read of \<^verbatim>\<open>crypto/x509\<close> and \<^verbatim>\<open>os\<close>: parsed certificates
  as data, the parsers and the file system as arguments. The ASN.1 encoding is defined in
  \<^verbatim>\<open>DER\<close>.
\<close>

text \<open>An object identifier and an element of ASN.1 (\<^verbatim>\<open>asn1.RawValue\<close>).\<close>

type_synonym oid = "nat list"

record rawValue =
  rv_Class :: nat
  rv_Tag :: nat
  rv_IsCompound :: bool
  rv_Bytes :: bytes
  rv_FullBytes :: bytes

record extension =
  ext_Id :: oid
  ext_Critical :: bool

text \<open>The fields of \<^verbatim>\<open>x509.Certificate\<close> that the code reads.\<close>

record certificate =
  x_Raw :: bytes
  x_RawTBSCertificate :: bytes
  x_RawSubject :: bytes
  x_RawIssuer :: bytes
  x_RawSubjectPublicKeyInfo :: bytes
  x_SerialNumber :: int
  x_NotBefore :: gotime
  x_NotAfter :: gotime
  x_ExtKeyUsage :: "nat list"
  x_UnhandledCriticalExtensions :: "oid list"
  x_Extensions :: "extension list"
  x_KeyUsage :: nat
  x_Version :: int
  x_SignatureAlgorithm :: nat
  x_Signature :: bytes
  x_BasicConstraintsValid :: bool
  x_IsCA :: bool
  x_AuthorityKeyId :: bytes
  x_SubjectKeyId :: bytes

text \<open>
  \<open>ParseCertificate\<close> is \<^verbatim>\<open>x509.ParseCertificate\<close>; \<open>TimeParse\<close> is
  \<^verbatim>\<open>time.Parse\<close> with a layout; \<open>PemDecode\<close> is \<^verbatim>\<open>pem.Decode\<close>.
\<close>

record pkilib =
  ParseCertificate :: "bytes \<Rightarrow> gerror + certificate"
  TimeParse :: "gostring \<Rightarrow> gostring \<Rightarrow> gotime option"
  PemDecode :: pemDecoder

text \<open>
  The file system at the time of a call: \<^verbatim>\<open>os.ReadFile\<close>, \<^verbatim>\<open>os.Open\<close> with the
  contents the file delivers and the error its reader ends with, and \<^verbatim>\<open>os.Stat\<close> with the
  regular-file bit and the size.
\<close>

record oslib =
  os_ReadFile :: "gostring \<Rightarrow> gerror + bytes"
  os_Open :: "gostring \<Rightarrow> gerror + (bytes \<times> gerror option)"
  os_Stat :: "gostring \<Rightarrow> gerror + (bool \<times> int)"

text \<open>Reading through \<^verbatim>\<open>io.LimitReader\<close>: the error behind the limit is not reached.\<close>

definition limited :: "nat \<Rightarrow> bytes \<times> gerror option \<Rightarrow> gerror + bytes" where
  "limited n f = (case f of (content, err) \<Rightarrow>
     if length content \<ge> n then Inr (take n content)
     else case err of Some e \<Rightarrow> Inl e | None \<Rightarrow> Inr content)"

lemma limited_length: "limited n f = Inr data \<Longrightarrow> length data \<le> n"
  by (auto simp: limited_def split: prod.splits if_splits option.splits)

end
