(* ===== verification/DER.thy ===== *)
theory DER
  imports X509_Library
begin

text \<open>
  The part of \<^verbatim>\<open>encoding/asn1\<close> the sources use: headers, raw values, sequences, numbers,
  bit strings, object identifiers, optional, tagged and explicitly tagged fields, and the encoders.
  A parser returns its value with the rest of the input, \<^const>\<open>None\<close> for an error. The text of
  an instant is read by an argument.
\<close>

type_synonym 'a parser = "bytes \<Rightarrow> ('a \<times> bytes) option"

section \<open>Headers\<close>

record header =
  th_Class :: nat
  th_Tag :: nat
  th_Length :: nat
  th_IsCompound :: bool

fun parseBase128 :: "nat \<Rightarrow> nat \<Rightarrow> nat parser" where
  "parseBase128 shifted acc [] = None"
| "parseBase128 shifted acc (b # bs) =
     (let n = of_char b; v = acc * 128 + n mod 128
      in if shifted = 5 \<or> shifted = 0 \<and> n = 0x80 then None
         else if n < 0x80 then (if v > 2147483647 then None else Some (v, bs))
         else parseBase128 (Suc shifted) v bs)"

fun longLength :: "nat \<Rightarrow> nat \<Rightarrow> nat parser" where
  "longLength 0 len bs = (if len < 0x80 then None else Some (len, bs))"
| "longLength (Suc k) len [] = None"
| "longLength (Suc k) len (b # bs) =
     (let v = len * 256 + of_char b in if len \<ge> 2 ^ 23 \<or> v = 0 then None else longLength k v bs)"

definition parseLength :: "nat parser" where
  "parseLength bs = (case bs of
     [] \<Rightarrow> None
   | b # bs \<Rightarrow>
       let n = of_char b :: nat
       in if n < 0x80 then Some (n, bs) else if n = 0x80 then None else longLength (n - 0x80) 0 bs)"

definition parseTagAndLength :: "header parser" where
  "parseTagAndLength bs = (case bs of
     [] \<Rightarrow> None
   | b # bs \<Rightarrow> do {
       let n = (of_char b :: nat);
       (tag, bs) \<leftarrow> (if n mod 32 = 31
          then (case parseBase128 0 0 bs of None \<Rightarrow> None | Some (t, bs) \<Rightarrow> if t < 31 then None else Some (t, bs))
          else Some (n mod 32, bs));
       (len, bs) \<leftarrow> parseLength bs;
       Some (\<lparr>th_Class = n div 64, th_Tag = tag, th_Length = len, th_IsCompound = odd (n div 32)\<rparr>, bs) })"

section \<open>Raw values and sequences\<close>

definition zeroRaw :: rawValue where
  "zeroRaw = \<lparr>rv_Class = 0, rv_Tag = 0, rv_IsCompound = False, rv_Bytes = [], rv_FullBytes = []\<rparr>"

definition parseRaw :: "rawValue parser" where
  "parseRaw bs = (case parseTagAndLength bs of
     None \<Rightarrow> None
   | Some (h, rest) \<Rightarrow>
       if length rest < th_Length h then None
       else Some (\<lparr>rv_Class = th_Class h, rv_Tag = th_Tag h, rv_IsCompound = th_IsCompound h,
                   rv_Bytes = take (th_Length h) rest,
                   rv_FullBytes = take (length bs - length rest + th_Length h) bs\<rparr>,
                  drop (th_Length h) rest))"

lemma parseBase128_suffix: "parseBase128 k acc bs = Some (n, rest) \<Longrightarrow> suffix rest bs \<and> length rest < length bs"
  by (induction k acc bs rule: parseBase128.induct)
    (auto simp: Let_def suffix_Cons less_Suc_eq split: if_splits)

lemma longLength_suffix: "longLength k len bs = Some (n, rest) \<Longrightarrow> suffix rest bs"
  by (induction k len bs rule: longLength.induct) (auto simp: Let_def suffix_Cons split: if_splits)

lemma parseLength_suffix: "parseLength bs = Some (n, rest) \<Longrightarrow> suffix rest bs"
  by (auto simp: parseLength_def Let_def suffix_Cons dest: longLength_suffix split: list.splits if_splits)

lemma header_suffix:
  assumes "parseTagAndLength bs = Some (h, rest)"
  shows "suffix rest bs" "length rest < length bs"
proof -
  obtain b bs' where bs: "bs = b # bs'" using assms by (cases bs) (auto simp: parseTagAndLength_def)
  have "\<exists>mid. suffix mid bs' \<and> parseLength mid = Some (th_Length h, rest)"
    using assms bs
    by (auto simp: parseTagAndLength_def Let_def split: if_splits option.splits bind_splits)
      (use parseBase128_suffix in blast)+
  then obtain mid where tag: "suffix mid bs'" and len: "parseLength mid = Some (th_Length h, rest)" by blast
  from suffix_order.trans [OF parseLength_suffix [OF len] tag] bs show "suffix rest bs" "length rest < length bs"
    by (auto simp: suffix_Cons dest: suffix_length_le)
qed

text \<open>A raw value is an exact slice of its input.\<close>

lemma parseRaw_slices:
  assumes "parseRaw bs = Some (v, rest)"
  shows "bs = rv_FullBytes v @ rest" "suffix (rv_Bytes v) (rv_FullBytes v)" "rv_FullBytes v \<noteq> []"
proof -
  obtain h mid where h: "parseTagAndLength bs = Some (h, mid)" "th_Length h \<le> length mid" "rest = drop (th_Length h) mid"
    and v: "rv_Bytes v = take (th_Length h) mid" "rv_FullBytes v = take (length bs - length mid + th_Length h) bs"
    using assms by (auto simp: parseRaw_def not_less split: option.splits if_splits)
  from header_suffix(1) [OF h(1)] obtain pre where pre: "bs = pre @ mid" unfolding suffix_def by blast
  then have ne: "pre \<noteq> []" using header_suffix(2) [OF h(1)] by auto
  from pre have full: "rv_FullBytes v = pre @ take (th_Length h) mid" using v(2) by simp
  show "bs = rv_FullBytes v @ rest" unfolding full h(3) append_assoc append_take_drop_id by (rule pre)
  show "suffix (rv_Bytes v) (rv_FullBytes v)" unfolding full v(1) by (rule suffixI) (rule refl)
  show "rv_FullBytes v \<noteq> []" unfolding full using ne by simp
qed

lemma parseRaw_shorter: "parseRaw bs = Some (v, rest) \<Longrightarrow> length rest < length bs"
  using parseRaw_slices(1,3) [of bs v rest] by (metis length_append length_greater_0_conv less_add_same_cancel2)

function rawElements :: "bytes \<Rightarrow> rawValue list option" where
  "rawElements bs =
     (if bs = [] then Some []
      else case parseRaw bs of
        None \<Rightarrow> None
      | Some (v, rest) \<Rightarrow> (case rawElements rest of None \<Rightarrow> None | Some vs \<Rightarrow> Some (v # vs)))"
  by pat_completeness auto
termination
  by (relation "measure length") (auto dest: parseRaw_shorter)

declare rawElements.simps [simp del]

section \<open>Typed values\<close>

text \<open>A type of the target: its universal tags, whether it is compound, and the reader of its
  contents, which sees the tag.\<close>

record 'a form =
  f_Tags :: "nat list"
  f_IsCompound :: bool
  f_Read :: "nat \<Rightarrow> bytes \<Rightarrow> 'a option"

definition fits :: "'a form \<Rightarrow> header \<Rightarrow> bool" where
  "fits f h \<longleftrightarrow> th_Class h = 0 \<and> th_Tag h \<in> set (f_Tags f) \<and> th_IsCompound h = f_IsCompound f"

definition fits_tagged :: "nat \<Rightarrow> 'a form \<Rightarrow> header \<Rightarrow> bool" where
  "fits_tagged tag f h \<longleftrightarrow> th_Class h = 2 \<and> th_Tag h = tag \<and> th_IsCompound h = f_IsCompound f"

definition contents :: "'a form \<Rightarrow> header \<Rightarrow> 'a parser" where
  "contents f h rest =
     (if length rest < th_Length h then None
      else case f_Read f (th_Tag h) (take (th_Length h) rest) of
        None \<Rightarrow> None
      | Some v \<Rightarrow> Some (v, drop (th_Length h) rest))"

definition parseForm :: "'a form \<Rightarrow> 'a parser" where
  "parseForm f bs = (case parseTagAndLength bs of
     None \<Rightarrow> None
   | Some (h, rest) \<Rightarrow> if fits f h then contents f h rest else None)"

text \<open>\<^verbatim>\<open>tag:n\<close>, \<^verbatim>\<open>optional\<close> and \<^verbatim>\<open>optional,explicit,tag:n\<close> with a
  default.\<close>

definition parseTagged :: "nat \<Rightarrow> 'a form \<Rightarrow> 'a parser" where
  "parseTagged tag f bs = (case parseTagAndLength bs of
     None \<Rightarrow> None
   | Some (h, rest) \<Rightarrow> if fits_tagged tag f h then contents f h rest else None)"

definition parseOptional :: "'a form \<Rightarrow> 'a \<Rightarrow> 'a parser" where
  "parseOptional f d bs =
     (if bs = [] then Some (d, bs)
      else case parseTagAndLength bs of
        None \<Rightarrow> None
      | Some (h, rest) \<Rightarrow> if fits f h then contents f h rest else Some (d, bs))"

definition parseOptionalRaw :: "rawValue parser" where
  "parseOptionalRaw bs = (if bs = [] then Some (zeroRaw, bs) else parseRaw bs)"

definition parseExplicit :: "nat \<Rightarrow> 'a form \<Rightarrow> 'a \<Rightarrow> 'a parser" where
  "parseExplicit tag f d bs =
     (if bs = [] then Some (d, bs)
      else case parseTagAndLength bs of
        None \<Rightarrow> None
      | Some (h, rest) \<Rightarrow>
          if rest = [] then None
          else if th_Class h = 2 \<and> th_Tag h = tag \<and> (th_Length h = 0 \<or> th_IsCompound h)
          then (if th_Length h = 0 then None
                else case parseTagAndLength rest of
                  None \<Rightarrow> None
                | Some (h, rest) \<Rightarrow> if fits f h then contents f h rest else Some (d, bs))
          else Some (d, bs))"

function parseForms :: "'a form \<Rightarrow> bytes \<Rightarrow> 'a list option" where
  "parseForms f bs =
     (if bs = [] then Some []
      else case parseForm f bs of
        None \<Rightarrow> None
      | Some (v, rest) \<Rightarrow> (case parseForms f rest of None \<Rightarrow> None | Some vs \<Rightarrow> Some (v # vs)))"
  by pat_completeness auto
termination
proof (relation "measure (\<lambda>(_, bs). length bs)")
  fix f :: "'a form" and bs x y v rest
  assume p: "parseForm f bs = Some x" "(v, rest) = x"
  then obtain h mid where h: "parseTagAndLength bs = Some (h, mid)" and "contents f h mid = Some (v, rest)"
    by (auto simp: parseForm_def split: option.splits if_splits)
  then have "rest = drop (th_Length h) mid" by (auto simp: contents_def split: if_splits option.splits)
  with header_suffix(2) [OF h] show "((f, rest), f, bs) \<in> measure (\<lambda>(_, bs). length bs)" by simp
qed simp

declare parseForms.simps [simp del]

text \<open>Two's complement numbers in the least number of octets.\<close>

definition minimal_integer :: "bytes \<Rightarrow> bool" where
  "minimal_integer bs \<longleftrightarrow> bs \<noteq> [] \<and>
     \<not> (length bs > 1 \<and> (of_char (bs ! 0) = (0 :: nat) \<and> of_char (bs ! 1) < (0x80 :: nat) \<or>
        of_char (bs ! 0) = (0xFF :: nat) \<and> of_char (bs ! 1) \<ge> (0x80 :: nat)))"

definition signed_value :: "bytes \<Rightarrow> int" where
  "signed_value bs = int (be_nat bs) - (if of_char (hd bs) \<ge> (0x80 :: nat) then 256 ^ length bs else 0)"

definition plain_form :: "nat \<Rightarrow> (bytes \<Rightarrow> 'a option) \<Rightarrow> 'a form" where
  "plain_form tag f = \<lparr>f_Tags = [tag], f_IsCompound = False, f_Read = (\<lambda>_. f)\<rparr>"

definition big_form :: "int form" where
  "big_form = plain_form 2 (\<lambda>bs. if minimal_integer bs then Some (signed_value bs) else None)"

definition int_form :: "int form" where
  "int_form = plain_form 2 (\<lambda>bs. if minimal_integer bs \<and> length bs \<le> 8 then Some (signed_value bs) else None)"

definition enumerated_form :: "int form" where
  "enumerated_form = plain_form 10 (\<lambda>bs. if minimal_integer bs \<and> length bs \<le> 4 then Some (signed_value bs) else None)"

definition bool_form :: "bool form" where
  "bool_form = plain_form 1 (\<lambda>bs. if bs = [CHR 0x00] then Some False else if bs = [CHR 0xFF] then Some True else None)"

definition octets_form :: "bytes form" where
  "octets_form = plain_form 4 Some"

record bitString =
  bit_Bytes :: bytes
  bit_Length :: nat

definition readBitString :: "bytes \<Rightarrow> bitString option" where
  "readBitString bs = (case bs of
     [] \<Rightarrow> None
   | p # data \<Rightarrow>
       let padding = of_char p :: nat
       in if padding > 7 \<or> data = [] \<and> padding > 0 \<or>
             (if data = [] then padding else of_char (last data)) mod 2 ^ padding \<noteq> 0
          then None
          else Some \<lparr>bit_Bytes = data, bit_Length = 8 * length data - padding\<rparr>)"

definition bits_form :: "bitString form" where
  "bits_form = plain_form 3 readBitString"

text \<open>\<^verbatim>\<open>BitString.RightAlign\<close>.\<close>

definition RightAlign :: "bitString \<Rightarrow> bytes" where
  "RightAlign b =
     (let shift = 8 - bit_Length b mod 8; data = bit_Bytes b
      in if shift = 8 \<or> data = [] then data
         else map (\<lambda>i. char_of (((if i = 0 then 0 else of_char (data ! (i - 1)) * 2 ^ (8 - shift)) +
                of_char (data ! i) div 2 ^ shift) mod 256 :: nat)) [0..<length data])"

function base128s :: "bytes \<Rightarrow> nat list option" where
  "base128s bs =
     (if bs = [] then Some []
      else case parseBase128 0 0 bs of
        None \<Rightarrow> None
      | Some (n, rest) \<Rightarrow> (case base128s rest of None \<Rightarrow> None | Some ns \<Rightarrow> Some (n # ns)))"
  by pat_completeness auto
termination
  by (relation "measure length") (auto dest: parseBase128_suffix)

definition readOID :: "bytes \<Rightarrow> oid option" where
  "readOID bs = (case base128s bs of
     None \<Rightarrow> None
   | Some [] \<Rightarrow> None
   | Some (v # vs) \<Rightarrow> Some (if v < 80 then v div 40 # v mod 40 # vs else 2 # (v - 80) # vs))"

definition oid_form :: "oid form" where
  "oid_form = plain_form 6 readOID"

text \<open>An instant is a UTCTime or a GeneralizedTime; \<open>T\<close> reads its text.\<close>

definition time_form :: "(nat \<Rightarrow> bytes \<Rightarrow> gotime option) \<Rightarrow> gotime form" where
  "time_form T = \<lparr>f_Tags = [23, 24], f_IsCompound = False, f_Read = T\<rparr>"

definition sequence_form :: "(bytes \<Rightarrow> 'a option) \<Rightarrow> 'a form" where
  "sequence_form f = \<lparr>f_Tags = [16], f_IsCompound = True, f_Read = (\<lambda>_. f)\<rparr>"

definition raws_form :: "rawValue list form" where
  "raws_form = sequence_form rawElements"

text \<open>A struct: what its last field leaves of the sequence is ignored.\<close>

definition struct_form :: "'a parser \<Rightarrow> 'a form" where
  "struct_form p = sequence_form (\<lambda>bs. map_option fst (p bs))"

definition list_form :: "'a form \<Rightarrow> 'a list form" where
  "list_form f = sequence_form (parseForms f)"

record algorithmIdentifier =
  ai_Algorithm :: oid
  ai_Parameters :: rawValue

definition algorithm_form :: "algorithmIdentifier form" where
  "algorithm_form = struct_form (\<lambda>bs. do {
     (algorithm, bs) \<leftarrow> parseForm oid_form bs;
     (parameters, bs) \<leftarrow> parseOptionalRaw bs;
     Some (\<lparr>ai_Algorithm = algorithm, ai_Parameters = parameters\<rparr>, bs) })"

definition extension_form :: "extension form" where
  "extension_form = struct_form (\<lambda>bs. do {
     (i, bs) \<leftarrow> parseForm oid_form bs;
     (critical, bs) \<leftarrow> parseOptional bool_form False bs;
     (v, bs) \<leftarrow> parseForm octets_form bs;
     Some (\<lparr>ext_Id = i, ext_Critical = critical\<rparr>, bs) })"

text \<open>\<^verbatim>\<open>asn1.Unmarshal\<close> that leaves nothing behind.\<close>

definition whole :: "('a \<times> bytes) option \<Rightarrow> 'a option" where
  "whole r = (case r of Some (v, rest) \<Rightarrow> if rest = [] then Some v else None | None \<Rightarrow> None)"

lemma whole_Some [simp]: "whole r = Some v \<longleftrightarrow> r = Some (v, [])"
  by (auto simp: whole_def split: option.splits)

section \<open>Encoding\<close>

fun base128_octets :: "nat \<Rightarrow> bytes" where
  "base128_octets n = (if n < 128 then [char_of n] else map (\<lambda>b. char_of (of_char b mod 128 + 128 :: nat)) (base128_octets (n div 128)) @ [char_of (n mod 128)])"

declare base128_octets.simps [simp del]

fun length_octets :: "nat \<Rightarrow> bytes" where
  "length_octets n = (if n < 256 then [char_of n] else length_octets (n div 256) @ [char_of (n mod 256)])"

declare length_octets.simps [simp del]

definition marshalHeader :: "nat \<Rightarrow> nat \<Rightarrow> bool \<Rightarrow> nat \<Rightarrow> bytes" where
  "marshalHeader class tag compound len =
     (let first = class * 64 + (if compound then 32 else 0)
      in (if tag \<ge> 31 then char_of (first + 31) # base128_octets tag else [char_of (first + tag)]) @
         (if len \<ge> 128 then char_of (128 + length (length_octets len)) # length_octets len else [char_of len]))"

definition marshalValue :: "nat \<Rightarrow> bool \<Rightarrow> bytes \<Rightarrow> bytes" where
  "marshalValue tag compound data = marshalHeader 0 tag compound (length data) @ data"

definition marshalRaw :: "rawValue \<Rightarrow> bytes" where
  "marshalRaw v =
     (if rv_FullBytes v \<noteq> [] then rv_FullBytes v
      else marshalHeader (rv_Class v) (rv_Tag v) (rv_IsCompound v) (length (rv_Bytes v)) @ rv_Bytes v)"

definition marshalOID :: "oid \<Rightarrow> bytes option" where
  "marshalOID i = (case i of
     a # b # rest \<Rightarrow>
       if a > 2 \<or> a < 2 \<and> b \<ge> 40 then None
       else Some (marshalValue 6 False (base128_octets (a * 40 + b) @ concat (map base128_octets rest)))
   | _ \<Rightarrow> None)"

definition marshalAlgorithm :: "algorithmIdentifier \<Rightarrow> bytes option" where
  "marshalAlgorithm a = (case marshalOID (ai_Algorithm a) of
     None \<Rightarrow> None
   | Some i \<Rightarrow> Some (marshalValue 16 True (i @ (if ai_Parameters a = zeroRaw then [] else marshalRaw (ai_Parameters a)))))"

definition marshalBits :: "bitString \<Rightarrow> bytes" where
  "marshalBits b = marshalValue 3 False (char_of ((8 - bit_Length b mod 8) mod 8) # bit_Bytes b)"

text \<open>The octets of a number in two's complement: the fewest that keep the sign.\<close>

fun unsigned_octets :: "nat \<Rightarrow> bytes" where
  "unsigned_octets n = (if n = 0 then [] else unsigned_octets (n div 256) @ [char_of (n mod 256)])"

declare unsigned_octets.simps [simp del]

definition marshalBig :: "int \<Rightarrow> bytes" where
  "marshalBig n = marshalValue 2 False
     (if n = 0 then [CHR 0x00]
      else if n > 0
      then (let bs = unsigned_octets (nat n) in if of_char (hd bs) \<ge> (0x80 :: nat) then CHR 0x00 # bs else bs)
      else (let bs = map (\<lambda>b. char_of (255 - of_char b :: nat)) (unsigned_octets (nat (- n - 1)))
            in if bs = [] \<or> of_char (hd bs) < (0x80 :: nat) then CHR 0xFF # bs else bs))"

section \<open>Evaluation\<close>

lemmas der_eval = parseForm_def parseTagAndLength_def parseLength_def struct_form_def sequence_form_def plain_form_def
  fits_def fits_tagged_def contents_def whole_def parseRaw_def parseOptionalRaw_def oid_form_def readOID_def bits_form_def
  readBitString_def algorithm_form_def zeroRaw_def parseExplicit_def int_form_def

lemmas der_encode = marshalHeader_def marshalValue_def marshalRaw_def marshalOID_def marshalAlgorithm_def
  marshalBits_def base128_octets.simps zeroRaw_def char_of_eq_iff take_bit_eq_mod

end
