(* ===== verification/Streebog.thy ===== *)
theory Streebog
  imports Streebog_Tables
begin

text \<open>
  The hash of GOST R 34.11-2012 (\<^verbatim>\<open>hash.go\<close> and \<^verbatim>\<open>marshal.go\<close> of
  \<^verbatim>\<open>gost34112012\<close>). The theorems show that the table-driven round function is the composition
  of RFC 6986, that a message may be written in pieces, and that a saved state resumes the same hash.
\<close>

section \<open>Octets\<close>

definition xor_octets :: "octets \<Rightarrow> octets \<Rightarrow> octets" where
  "xor_octets = map2 (XOR)"

text \<open>\<^verbatim>\<open>binary.LittleEndian\<close> on eight octets.\<close>

definition put_le64 :: "uint64 \<Rightarrow> octets" where
  "put_le64 w = map (\<lambda>i. ucast (drop_bit (8 * i) w)) [0..<8]"

fun get_le64 :: "octets \<Rightarrow> uint64" where
  "get_le64 [] = 0"
| "get_le64 (b # bs) = ucast b OR push_bit 8 (get_le64 bs)"

section \<open>State\<close>

definition BlockSize :: nat where
  "BlockSize = 64"

record Hash =
  h_buf :: octets
  h_hsh :: octets
  h_chk :: octets
  h_n :: uint64
  h_size :: nat

definition Hash_Reset :: "Hash \<Rightarrow> Hash" where
  "Hash_Reset h = h\<lparr>h_n := 0, h_buf := [], h_chk := replicate BlockSize 0,
     h_hsh := replicate BlockSize (if h_size h = 32 then 1 else 0)\<rparr>"

text \<open>\<^const>\<open>None\<close> is the panic.\<close>

definition Hash_New :: "nat \<Rightarrow> Hash option" where
  "Hash_New digestSize =
     (if digestSize \<noteq> 32 \<and> digestSize \<noteq> 64 then None
      else Some (Hash_Reset \<lparr>h_buf = [], h_hsh = replicate BlockSize 0, h_chk = replicate BlockSize 0, h_n = 0,
        h_size = digestSize\<rparr>))"

definition New256 :: "Hash option" where "New256 = Hash_New 32"
definition New512 :: "Hash option" where "New512 = Hash_New 64"

section \<open>Compression\<close>

text \<open>Addition modulo \<open>2^512\<close>, octet by octet with the carry in a 16-bit word.\<close>

fun add512 :: "16 word \<Rightarrow> octets \<Rightarrow> octets \<Rightarrow> octets" where
  "add512 ss (a # as) (b # bs) =
     (let ss = ucast a + ucast b + drop_bit 8 ss in ucast (0xFF AND ss) # add512 ss as bs)"
| "add512 ss _ _ = []"

definition add512bit :: "octets \<Rightarrow> octets \<Rightarrow> octets" where
  "add512bit chk data = add512 0 chk data"

definition lps_word :: "octets \<Rightarrow> nat \<Rightarrow> uint64" where
  "lps_word data i =
     precalc ! 0 ! unat (data ! (8 * 0 + i)) XOR precalc ! 1 ! unat (data ! (8 * 1 + i)) XOR
     precalc ! 2 ! unat (data ! (8 * 2 + i)) XOR precalc ! 3 ! unat (data ! (8 * 3 + i)) XOR
     precalc ! 4 ! unat (data ! (8 * 4 + i)) XOR precalc ! 5 ! unat (data ! (8 * 5 + i)) XOR
     precalc ! 6 ! unat (data ! (8 * 6 + i)) XOR precalc ! 7 ! unat (data ! (8 * 7 + i))"

definition lps :: "octets \<Rightarrow> octets" where
  "lps data = concat (map (\<lambda>i. put_le64 (lps_word data i)) [0..<8])"

text \<open>The loop of \<^verbatim>\<open>e\<close> over the iteration constants.\<close>

fun e_rounds :: "octets list \<Rightarrow> octets \<Rightarrow> octets \<Rightarrow> octets" where
  "e_rounds [] k msg = xor_octets k msg"
| "e_rounds (ci # cs) k msg = e_rounds cs (lps (xor_octets k ci)) (lps (xor_octets k msg))"

definition Hash_e :: "octets \<Rightarrow> octets \<Rightarrow> octets" where
  "Hash_e k msg = e_rounds c_table k msg"

definition Hash_g :: "uint64 \<Rightarrow> octets \<Rightarrow> octets \<Rightarrow> octets" where
  "Hash_g n hsh data =
     (let out = xor_octets hsh (put_le64 n @ replicate 56 0);
          out = lps out;
          out = Hash_e out data;
          out = xor_octets out hsh
      in xor_octets out data)"

section \<open>Writing and summing\<close>

definition write_block :: "Hash \<Rightarrow> Hash" where
  "write_block h =
     (let tmp = take BlockSize (h_buf h)
      in h\<lparr>h_hsh := Hash_g (h_n h) (h_hsh h) tmp, h_chk := add512bit (h_chk h) tmp,
           h_n := h_n h + of_nat (BlockSize * 8), h_buf := drop BlockSize (h_buf h)\<rparr>)"

function write_blocks :: "Hash \<Rightarrow> Hash" where
  "write_blocks h = (if length (h_buf h) \<ge> BlockSize then write_blocks (write_block h) else h)"
  by pat_completeness auto
termination
  by (relation "measure (\<lambda>h. length (h_buf h))") (auto simp: write_block_def BlockSize_def Let_def)

declare write_blocks.simps [simp del]

definition Hash_Write :: "octets \<Rightarrow> Hash \<Rightarrow> nat \<times> Hash" where
  "Hash_Write data h = (length data, write_blocks (h\<lparr>h_buf := h_buf h @ data\<rparr>))"

text \<open>The last block: the buffer, a one and zeros.\<close>

definition padded :: "octets \<Rightarrow> octets" where
  "padded buf = buf @ 1 # replicate (BlockSize - length buf - 1) 0"

definition Hash_Sum :: "octets \<Rightarrow> Hash \<Rightarrow> octets" where
  "Hash_Sum pre h =
     (let buf = padded (h_buf h);
          hsh = Hash_g (h_n h) (h_hsh h) buf;
          tmp = put_le64 (h_n h + of_nat (length (h_buf h)) * 8) @ replicate 56 0;
          hsh = Hash_g 0 hsh tmp;
          hsh = Hash_g 0 hsh (add512bit (h_chk h) buf)
      in if h_size h = 32 then pre @ drop (BlockSize div 2) hsh else pre @ hsh)"

section \<open>The round function of the standard\<close>

text \<open>Substitution, permutation and linear transformation of RFC 6986, sections 6.1 to 6.4.\<close>

definition S_transform :: "octets \<Rightarrow> octets" where
  "S_transform data = map (\<lambda>b. of_nat (PI ! unat b)) data"

definition P_transform :: "octets \<Rightarrow> octets" where
  "P_transform data = map (\<lambda>k. data ! (8 * (k mod 8) + k div 8)) [0..<64]"

definition xor_sum :: "uint64 list \<Rightarrow> uint64" where
  "xor_sum ws = foldr (XOR) ws 0"

definition l_word :: "uint64 \<Rightarrow> uint64" where
  "l_word w = xor_sum (map (\<lambda>k. if bit w k then A_rows ! (63 - k) else 0) [0..<64])"

definition L_transform :: "octets \<Rightarrow> octets" where
  "L_transform data = concat (map (\<lambda>i. put_le64 (l_word (get_le64 (take 8 (drop (8 * i) data))))) [0..<8])"

lemma xor_sum_simps [simp]: "xor_sum [] = 0" "xor_sum (w # ws) = w XOR xor_sum ws"
  by (simp_all add: xor_sum_def)

lemma xor_sum_append: "xor_sum (us @ vs) = xor_sum us XOR xor_sum vs"
  by (induction us) (simp_all add: xor.assoc)

lemma xor_sum_concat: "xor_sum (concat wss) = xor_sum (map xor_sum wss)"
  by (induction wss) (simp_all add: xor_sum_append)

lemma bit_get_le64:
  "bit (get_le64 bs) n \<longleftrightarrow> n < 64 \<and> n div 8 < length bs \<and> bit (bs ! (n div 8)) (n mod 8)"
proof (induction bs arbitrary: n)
  case (Cons b bs)
  show ?case
  proof (cases "n < 8")
    case True
    then show ?thesis by (simp add: bit_or_iff bit_push_bit_iff bit_ucast_iff)
  next
    case False
    then have "n div 8 = Suc ((n - 8) div 8)" "n mod 8 = (n - 8) mod 8"
      by (simp_all add: le_div_geq le_mod_geq)
    moreover have "\<not> bit b n" using False bit_imp_le_length [of b n] by auto
    ultimately show ?thesis using False Cons [of "n - 8"]
      by (auto simp: bit_or_iff bit_push_bit_iff bit_ucast_iff)
  qed
qed simp

lemma combine_sum:
  "combine as n = xor_sum (map (\<lambda>k. if bit n k then as ! (length as - Suc k) else 0) [0..<length as])"
proof (induction as)
  case (Cons a as)
  have eq: "map (\<lambda>k. if bit n k then (a # as) ! (length as - k) else 0) [0..<length as] =
      map (\<lambda>k. if bit n k then as ! (length as - Suc k) else 0) [0..<length as]"
    by (rule map_cong) (auto simp: nth_Cons')
  show ?case unfolding length_Cons upt_Suc_append [OF le0] map_append xor_sum_append diff_Suc_Suc eq
    by (simp add: Cons.IH xor.commute)
qed simp

lemma combine_byte:
  assumes "j < 8"
  shows "combine (byte_rows j) n = xor_sum (map (\<lambda>k. if bit n k then A_rows ! (63 - (8 * j + k)) else 0) [0..<8])"
  unfolding combine_sum using assms
  by (intro arg_cong [of _ _ xor_sum] map_cong) (auto simp: length_byte_rows, auto simp: byte_rows_def)

lemma l_word_bytes:
  assumes "length bs = 8"
  shows "l_word (get_le64 bs) = xor_sum (map (\<lambda>j. combine (byte_rows j) (unat (bs ! j))) [0..<8])"
proof -
  have split: "[0..<64] = concat (map (\<lambda>j. map (\<lambda>k. 8 * j + k) [0..<8]) [0..<8])" by code_simp
  have "bit (get_le64 bs) (8 * j + k) \<longleftrightarrow> bit (unat (bs ! j)) k" if "j < 8" "k < 8" for j k
    using assms that by (simp add: bit_get_le64 bit_unsigned_iff)
  then have "xor_sum (map (\<lambda>k. if bit (get_le64 bs) k then A_rows ! (63 - k) else 0) (map (\<lambda>k. 8 * j + k) [0..<8])) =
      combine (byte_rows j) (unat (bs ! j))" if "j < 8" for j
    using that unfolding combine_byte [OF that] map_map comp_def by (intro arg_cong [of _ _ xor_sum] map_cong) simp_all
  then show ?thesis unfolding l_word_def split map_concat xor_sum_concat map_map comp_def
    by (intro arg_cong [of _ _ xor_sum] map_cong) auto
qed

lemma word_of_byte: "unat (of_nat (PI ! unat (b :: 8 word)) :: 8 word) = PI ! unat b"
proof -
  have "unat b < 256" using unsigned_less [of b] by simp
  then show ?thesis using PI_bound by (simp add: unat_of_nat)
qed

lemma lps_word_sum: "lps_word data i = xor_sum (map (\<lambda>j. precalc ! j ! unat (data ! (8 * j + i))) [0..<8])"
proof -
  have "[0..<8] = [0, 1, 2, 3, 4, 5, 6, 7]" by code_simp
  then show ?thesis by (simp only: lps_word_def list.map xor_sum_simps xor.assoc xor.right_neutral)
qed

lemma lps_word_reference:
  assumes "length data = 64" and "i < 8"
  shows "lps_word data i = l_word (get_le64 (take 8 (drop (8 * i) (P_transform (S_transform data)))))"
proof -
  let ?column = "map (\<lambda>j. of_nat (PI ! unat (data ! (8 * j + i)))) [0..<8] :: octets"
  have column: "take 8 (drop (8 * i) (P_transform (S_transform data))) = ?column"
    using assms by (intro nth_equalityI) (auto simp: P_transform_def S_transform_def)
  have "unat (data ! (8 * j + i)) < 256" for j using unsigned_less [of "data ! (8 * j + i)"] by simp
  then have "precalc ! j ! unat (data ! (8 * j + i)) = combine (byte_rows j) (unat (?column ! j))" if "j < 8" for j
    using that by (simp add: precalc_entry word_of_byte)
  moreover have "length ?column = 8" by simp
  ultimately show ?thesis unfolding column lps_word_sum l_word_bytes [OF \<open>length ?column = 8\<close>]
    by (intro arg_cong [of _ _ xor_sum] map_cong) auto
qed

text \<open>The eight table lookups per word compute the transformation of the standard.\<close>

lemma lps_reference:
  "length data = 64 \<Longrightarrow> lps data = L_transform (P_transform (S_transform data))"
  unfolding lps_def L_transform_def by (intro arg_cong [of _ _ concat] map_cong) (simp_all add: lps_word_reference)

section \<open>Octets as numbers\<close>

fun le_nat :: "octets \<Rightarrow> nat" where
  "le_nat [] = 0"
| "le_nat (b # bs) = unat b + 256 * le_nat bs"

fun le_octets :: "nat \<Rightarrow> nat \<Rightarrow> octets" where
  "le_octets 0 n = []"
| "le_octets (Suc k) n = of_nat n # le_octets k (n div 256)"

lemma length_le_octets [simp]: "length (le_octets k n) = k"
  by (induction k arbitrary: n) simp_all

lemma unat_of_nat8: "unat (of_nat n :: 8 word) = n mod 256"
  by (simp add: unat_of_nat)

lemma le_octets_mod: "le_octets k (n mod 256 ^ k) = le_octets k n"
proof (induction k arbitrary: n)
  case (Suc k)
  have "n mod 256 ^ Suc k div 256 = n div 256 mod 256 ^ k"
    by (simp add: mod_mult2_eq)
  moreover have "(of_nat (n mod 256 ^ Suc k) :: 8 word) = of_nat n"
    by (rule word_unat_eq_iff [THEN iffD2]) (simp add: unat_of_nat8 mod_mod_cancel)
  ultimately show ?case using Suc by simp
qed simp

lemma le_nat_octets: "le_nat (le_octets k n) = n mod 256 ^ k"
  by (induction k arbitrary: n) (simp_all add: unat_of_nat8 mod_mult2_eq)

lemma le_octets_nat: "le_octets (length bs) (le_nat bs) = bs"
proof (induction bs)
  case (Cons b bs)
  have "unat b < 256" using unsigned_less [of b] by simp
  then have "(unat b + 256 * le_nat bs) div 256 = le_nat bs" "(unat b + 256 * le_nat bs) mod 256 = unat b" by simp_all
  moreover have "(of_nat (unat b + 256 * le_nat bs) :: 8 word) = b"
    by (rule word_unat_eq_iff [THEN iffD2]) (simp only: unat_of_nat8 calculation)
  ultimately show ?case using Cons by simp
qed simp

lemma le_nat_bound: "le_nat bs < 256 ^ length bs"
  using le_nat_octets [of "length bs" "le_nat bs"] by (metis le_octets_nat mod_less_divisor zero_less_numeral zero_less_power)

lemma le_octets_append: "le_octets (j + k) n = le_octets j n @ le_octets k (n div 256 ^ j)"
  by (induction j arbitrary: n) (simp_all add: div_mult2_eq)

lemma le_octets_zero: "le_octets k 0 = replicate k 0"
  by (induction k) simp_all

lemma le_octets_nth: "i < k \<Longrightarrow> le_octets k n ! i = of_nat (n div 256 ^ i)"
proof (induction k arbitrary: n i)
  case (Suc k)
  then show ?case by (cases i) (simp_all add: div_mult2_eq)
qed simp

lemma put_le64_octets: "put_le64 w = le_octets 8 (unat w)"
proof (rule nth_equalityI)
  fix i assume i: "i < length (put_le64 w)"
  have "(2 :: nat) ^ (8 * i) = 256 ^ i" by (simp add: power_mult)
  then have "unat (ucast (drop_bit (8 * i) w) :: 8 word) = unat w div 256 ^ i mod 256"
    unfolding unsigned_ucast_eq unat_drop_bit_eq by (simp add: drop_bit_eq_div take_bit_eq_mod)
  with i show "put_le64 w ! i = le_octets 8 (unat w) ! i"
    by (auto simp: put_le64_def le_octets_nth intro!: word_unat_eq_iff [THEN iffD2] simp: unat_of_nat8)
qed (simp add: put_le64_def)

text \<open>The counter in the first eight octets is the counter of the standard, below \<open>2^64\<close>.\<close>

lemma counter_octets:
  assumes "n < 2 ^ 64"
  shows "put_le64 (of_nat n) @ replicate 56 0 = le_octets 64 n"
proof -
  have "unat (of_nat n :: uint64) = n" using assms by (simp add: unat_of_nat)
  then show ?thesis using assms le_octets_append [of 8 56 n] by (simp add: put_le64_octets le_octets_zero)
qed

text \<open>The carry chain is addition.\<close>

lemma add512_sum:
  "length as = length bs \<Longrightarrow> unat (drop_bit 8 ss) \<le> 1 \<Longrightarrow>
     add512 ss as bs = le_octets (length as) (le_nat as + le_nat bs + unat (drop_bit 8 ss))"
proof (induction ss as bs rule: add512.induct)
  case (1 ss a as b bs)
  let ?c = "unat (drop_bit 8 ss)"
  let ?t = "ucast a + ucast b + drop_bit 8 ss :: 16 word"
  let ?n = "unat a + unat b + ?c"
  have ab: "unat a < 256" "unat b < 256" using unsigned_less [of a] unsigned_less [of b] by simp_all
  have "unat (ucast a :: 16 word) = unat a" "unat (ucast b :: 16 word) = unat b" using ab by (simp_all add: unsigned_ucast_eq take_bit_eq_mod)
  then have t: "unat ?t = ?n" using ab 1(3) by (simp add: unat_word_ariths)
  have carry: "unat (drop_bit 8 ?t) = ?n div 256" unfolding unat_drop_bit_eq t by (simp add: drop_bit_eq_div)
  have first: "(ucast (0xFF AND ?t) :: 8 word) = of_nat (le_nat (a # as) + le_nat (b # bs) + ?c)"
  proof (rule word_unat_eq_iff [THEN iffD2])
    have low: "0xFF AND ?t = take_bit 8 ?t" by (simp add: take_bit_eq_mask mask_eq_decr_exp and.commute)
    have "unat (ucast (0xFF AND ?t) :: 8 word) = ?n mod 256"
      unfolding low unsigned_ucast_eq unsigned_take_bit_eq t by (simp add: take_bit_eq_mod)
    moreover have "le_nat (a # as) + le_nat (b # bs) + ?c = ?n + (le_nat as + le_nat bs) * 256" by simp
    then have "(le_nat (a # as) + le_nat (b # bs) + ?c) mod 256 = ?n mod 256" by (simp only: mod_mult_self1)
    ultimately show "unat (ucast (0xFF AND ?t) :: 8 word) = unat (of_nat (le_nat (a # as) + le_nat (b # bs) + ?c) :: 8 word)"
      by (simp only: unat_of_nat8)
  qed
  have rest: "(le_nat (a # as) + le_nat (b # bs) + ?c) div 256 = le_nat as + le_nat bs + ?n div 256"
    by simp
  have "?n div 256 \<le> 1" using ab 1(3) by simp
  then show ?case using 1(1) [OF refl] 1(2) carry first rest by (simp add: Let_def)
qed auto

lemma add512bit_sum: "length chk = 64 \<Longrightarrow> length data = 64 \<Longrightarrow> add512bit chk data = le_octets 64 (le_nat chk + le_nat data)"
  using add512_sum [of chk data 0] by (simp add: add512bit_def)

section \<open>The hash of the standard\<close>

text \<open>
  RFC 6986, section 8: one pass over a message, with the counter \<open>N\<close> and the checksum
  \<open>\<Sigma>\<close> as numbers modulo \<open>2^512\<close>.
\<close>

definition LPS :: "octets \<Rightarrow> octets" where
  "LPS data = L_transform (P_transform (S_transform data))"

fun E_cipher :: "octets list \<Rightarrow> octets \<Rightarrow> octets \<Rightarrow> octets" where
  "E_cipher [] k m = xor_octets k m"
| "E_cipher (ci # cs) k m = E_cipher cs (LPS (xor_octets k ci)) (LPS (xor_octets k m))"

definition g_N :: "nat \<Rightarrow> octets \<Rightarrow> octets \<Rightarrow> octets" where
  "g_N N h m = xor_octets (xor_octets (E_cipher c_table (LPS (xor_octets h (le_octets 64 N))) m) h) m"

function stages :: "nat \<Rightarrow> octets \<Rightarrow> nat \<Rightarrow> octets \<Rightarrow> octets" where
  "stages N h \<Sigma> msg =
     (if length msg \<ge> 64
      then stages (N + 512) (g_N N h (take 64 msg)) (\<Sigma> + le_nat (take 64 msg)) (drop 64 msg)
      else let m = msg @ 1 # replicate (63 - length msg) 0;
               h = g_N N h m;
               h = g_N 0 h (le_octets 64 (N + 8 * length msg))
           in g_N 0 h (le_octets 64 (\<Sigma> + le_nat m)))"
  by pat_completeness auto
termination
  by (relation "measure (\<lambda>(_, _, _, msg). length msg)") auto

declare stages.simps [simp del]

definition streebog :: "nat \<Rightarrow> octets \<Rightarrow> octets" where
  "streebog digestSize msg =
     (if digestSize = 32 then drop 32 (stages 0 (replicate 64 1) 0 msg) else stages 0 (replicate 64 0) 0 msg)"

section \<open>Sizes\<close>

definition wf_hash :: "Hash \<Rightarrow> bool" where
  "wf_hash h \<longleftrightarrow> length (h_buf h) < 64 \<and> length (h_hsh h) = 64 \<and> length (h_chk h) = 64 \<and>
     (h_size h = 32 \<or> h_size h = 64)"

lemma length_put_le64 [simp]: "length (put_le64 w) = 8"
  by (simp add: put_le64_def)

lemma length_xor_octets [simp]: "length (xor_octets a b) = min (length a) (length b)"
  by (simp add: xor_octets_def)

lemma length_lps [simp]: "length (lps data) = 64"
  by (simp add: lps_def length_concat comp_def sum_list_triv)

lemma length_add512: "length (add512 ss as bs) = min (length as) (length bs)"
  by (induction ss as bs rule: add512.induct) (simp_all add: Let_def)

lemma length_add512bit [simp]: "length (add512bit a b) = min (length a) (length b)"
  by (simp add: add512bit_def length_add512)

lemma length_e_rounds:
  "length k = 64 \<Longrightarrow> length msg = 64 \<Longrightarrow> length (e_rounds cs k msg) = 64"
  by (induction cs arbitrary: k msg) simp_all

lemma length_Hash_g [simp]: "length hsh = 64 \<Longrightarrow> length data = 64 \<Longrightarrow> length (Hash_g n hsh data) = 64"
  by (simp add: Hash_g_def Hash_e_def length_e_rounds Let_def)

section \<open>The code computes the hash of the standard\<close>

lemma e_rounds_reference:
  "list_all (\<lambda>row. length row = 64) cs \<Longrightarrow> length k = 64 \<Longrightarrow> length msg = 64 \<Longrightarrow>
     e_rounds cs k msg = E_cipher cs k msg"
  by (induction cs arbitrary: k msg) (simp_all add: LPS_def lps_reference [symmetric])

lemma Hash_g_reference:
  assumes "n < 2 ^ 64" and "length hsh = 64" and "length data = 64"
  shows "Hash_g (of_nat n) hsh data = g_N n hsh data"
proof -
  have "lps (xor_octets hsh (le_octets 64 n)) = LPS (xor_octets hsh (le_octets 64 n))"
    using assms by (simp add: LPS_def lps_reference)
  moreover have "length (lps (xor_octets hsh (le_octets 64 n))) = 64" by simp
  ultimately show ?thesis using assms e_rounds_reference [OF length_c_table(2)]
    by (simp add: Hash_g_def Hash_e_def g_N_def counter_octets Let_def)
qed

lemma Hash_g_zero: "length hsh = 64 \<Longrightarrow> length data = 64 \<Longrightarrow> Hash_g 0 hsh data = g_N 0 hsh data"
  using Hash_g_reference [of 0 hsh data] by simp

text \<open>A state that stands for \<open>N\<close> and \<open>\<Sigma>\<close>.\<close>

definition stands_for :: "Hash \<Rightarrow> nat \<Rightarrow> octets \<Rightarrow> nat \<Rightarrow> bool" where
  "stands_for h N hsh \<Sigma> \<longleftrightarrow> h_n h = of_nat N \<and> h_hsh h = hsh \<and> length hsh = 64 \<and> h_chk h = le_octets 64 \<Sigma>"

lemma le_octets_add: "le_octets 64 (le_nat (le_octets 64 \<Sigma>) + n) = le_octets 64 (\<Sigma> + n)"
  by (metis le_nat_octets le_octets_mod mod_add_left_eq)

lemma sum_reference:
  assumes "stands_for h N hsh \<Sigma>" and "length (h_buf h) < 64" and "N + 8 * length (h_buf h) < 2 ^ 64" and "h_size h = 64"
  shows "Hash_Sum [] h = stages N hsh \<Sigma> (h_buf h)"
proof -
  let ?m = "h_buf h @ 1 # replicate (63 - length (h_buf h)) 0"
  have m: "padded (h_buf h) = ?m" "length ?m = 64" using assms(2) by (simp_all add: padded_def BlockSize_def)
  have "h_n h + of_nat (length (h_buf h)) * 8 = of_nat (N + 8 * length (h_buf h))"
    using assms(1) by (simp add: stands_for_def)
  then have counter: "put_le64 (h_n h + of_nat (length (h_buf h)) * 8) @ replicate 56 0 = le_octets 64 (N + 8 * length (h_buf h))"
    using counter_octets [OF assms(3)] by (simp only:)
  have sum: "add512bit (h_chk h) ?m = le_octets 64 (\<Sigma> + le_nat ?m)"
    using assms(1) m(2) by (simp add: stands_for_def add512bit_sum le_octets_add del: length_append)
  have first: "Hash_g (h_n h) (h_hsh h) ?m = g_N N hsh ?m" "length (g_N N hsh ?m) = 64"
    using assms(1,3) m(2) Hash_g_reference [of N hsh ?m] length_Hash_g [of hsh ?m "of_nat N"]
    by (auto simp: stands_for_def)
  have last: "length (g_N 0 (g_N N hsh ?m) (le_octets 64 (N + 8 * length (h_buf h)))) = 64"
    using first(2) length_Hash_g [of "g_N N hsh ?m" _ 0] by (simp add: Hash_g_zero)
  show ?thesis using assms(2-4) first last m
    by (subst stages.simps) (simp add: Hash_Sum_def counter sum Hash_g_zero Let_def)
qed

lemma block_stands_for:
  assumes "stands_for h N hsh \<Sigma>" and "64 \<le> length (h_buf h)" and "N < 2 ^ 64"
  shows "stands_for (write_block h) (N + 512) (g_N N hsh (take 64 (h_buf h))) (\<Sigma> + le_nat (take 64 (h_buf h)))"
  using assms length_Hash_g [of hsh "take 64 (h_buf h)" "of_nat N"]
  by (auto simp: stands_for_def write_block_def BlockSize_def Hash_g_reference add512bit_sum le_octets_add Let_def)

lemma write_block_fields [simp]:
  "h_size (write_block h) = h_size h" "h_buf (write_block h) = drop 64 (h_buf h)"
  by (simp_all add: write_block_def BlockSize_def Let_def)

lemma write_sum_reference:
  "stands_for h N hsh \<Sigma> \<Longrightarrow> N + 8 * length (h_buf h) < 2 ^ 64 \<Longrightarrow> h_size h = 64 \<Longrightarrow>
     Hash_Sum [] (write_blocks h) = stages N hsh \<Sigma> (h_buf h)"
proof (induction h arbitrary: N hsh \<Sigma> rule: write_blocks.induct)
  case (1 h)
  show ?case
  proof (cases "length (h_buf h) \<ge> 64")
    case True
    with 1 block_stands_for [OF 1(2) True] show ?thesis
      by (subst write_blocks.simps, subst stages.simps) (simp add: BlockSize_def)
  next
    case False
    with 1 show ?thesis by (subst write_blocks.simps) (simp add: BlockSize_def sum_reference)
  qed
qed

text \<open>The digest of 256 bits is the second half of a 512-bit state.\<close>

lemma sum_half: "h_size h = 32 \<Longrightarrow> Hash_Sum [] h = drop 32 (Hash_Sum [] (h\<lparr>h_size := 64\<rparr>))"
  by (simp add: Hash_Sum_def BlockSize_def Let_def)

lemma write_block_size: "write_block (h\<lparr>h_size := s\<rparr>) = (write_block h)\<lparr>h_size := s\<rparr>"
  by (cases h) (simp add: write_block_def Let_def)

lemma write_blocks_keeps_size [simp]: "h_size (write_blocks h) = h_size h"
proof (induction h rule: write_blocks.induct)
  case (1 h)
  then show ?case by (subst write_blocks.simps) simp
qed

lemma write_blocks_size: "write_blocks (h\<lparr>h_size := s\<rparr>) = (write_blocks h)\<lparr>h_size := s\<rparr>"
proof (induction h rule: write_blocks.induct)
  case (1 h)
  show ?case
  proof (cases "length (h_buf h) \<ge> BlockSize")
    case True
    then have "write_blocks (write_block (h\<lparr>h_size := s\<rparr>)) = (write_blocks (write_block h))\<lparr>h_size := s\<rparr>"
      using 1 by (simp add: write_block_size)
    with True show ?thesis using write_blocks.simps [of h] write_blocks.simps [of "h\<lparr>h_size := s\<rparr>"] by simp
  next
    case False
    then show ?thesis using write_blocks.simps [of h] write_blocks.simps [of "h\<lparr>h_size := s\<rparr>"] by simp
  qed
qed

text \<open>Writing in pieces.\<close>

lemma write_block_append:
  "length (h_buf h) \<ge> 64 \<Longrightarrow> write_block (h\<lparr>h_buf := h_buf h @ data\<rparr>) = (write_block h)\<lparr>h_buf := h_buf (write_block h) @ data\<rparr>"
  by (simp add: write_block_def BlockSize_def Let_def)

lemma write_blocks_append:
  "write_blocks (h\<lparr>h_buf := h_buf h @ data\<rparr>) =
     write_blocks ((write_blocks h)\<lparr>h_buf := h_buf (write_blocks h) @ data\<rparr>)"
proof (induction h rule: write_blocks.induct)
  case (1 h)
  show ?case
  proof (cases "length (h_buf h) \<ge> BlockSize")
    case True
    then have "write_blocks (h\<lparr>h_buf := h_buf h @ data\<rparr>) = write_blocks (write_block (h\<lparr>h_buf := h_buf h @ data\<rparr>))"
      using write_blocks.simps [of "h\<lparr>h_buf := h_buf h @ data\<rparr>"] by simp
    with True 1 write_block_append [of h data] show ?thesis using write_blocks.simps [of h]
      by (simp add: BlockSize_def)
  next
    case False
    then show ?thesis using write_blocks.simps [of h] by simp
  qed
qed

definition write_all :: "octets list \<Rightarrow> Hash \<Rightarrow> Hash" where
  "write_all pieces h = fold (\<lambda>data h. snd (Hash_Write data h)) pieces h"

lemma write_blocks_short: "length (h_buf h) < 64 \<Longrightarrow> write_blocks h = h"
  by (subst write_blocks.simps) (simp add: BlockSize_def)

lemma write_all_concat:
  "length (h_buf h) < 64 \<Longrightarrow> write_all pieces h = write_blocks (h\<lparr>h_buf := h_buf h @ concat pieces\<rparr>)"
proof (induction pieces rule: rev_induct)
  case Nil
  then show ?case by (simp add: write_all_def write_blocks_short)
next
  case (snoc data pieces)
  then show ?case using write_blocks_append [of "h\<lparr>h_buf := h_buf h @ concat pieces\<rparr>" data]
    by (simp add: write_all_def Hash_Write_def)
qed

lemma digest_reference:
  assumes "Hash_New digestSize = Some h" and "length (concat pieces) < 2 ^ 61"
  shows "Hash_Sum pre (write_all pieces h) = pre @ streebog digestSize (concat pieces)"
proof -
  have h: "h_buf h = []" "h_size h = digestSize" "digestSize = 32 \<or> digestSize = 64"
    "stands_for (h\<lparr>h_size := 64, h_buf := concat pieces\<rparr>) 0 (replicate 64 (if digestSize = 32 then 1 else 0)) 0"
    using assms(1)
    by (auto simp: Hash_New_def Hash_Reset_def stands_for_def le_octets_zero BlockSize_def split: if_splits)
  have pre: "Hash_Sum pre h' = pre @ Hash_Sum [] h'" for h' by (simp add: Hash_Sum_def Let_def)
  have sum: "Hash_Sum [] (write_blocks (h\<lparr>h_size := 64, h_buf := concat pieces\<rparr>)) =
      stages 0 (replicate 64 (if digestSize = 32 then 1 else 0)) 0 (concat pieces)"
    using write_sum_reference [OF h(4)] assms(2) by simp
  have all: "write_all pieces h = write_blocks (h\<lparr>h_buf := concat pieces\<rparr>)"
    using write_all_concat [of h pieces] h(1) by simp
  have "(h\<lparr>h_size := 64, h_buf := concat pieces\<rparr>) = (h\<lparr>h_buf := concat pieces\<rparr>)\<lparr>h_size := 64\<rparr>" by (cases h) simp
  then have size: "write_blocks (h\<lparr>h_size := 64, h_buf := concat pieces\<rparr>) = (write_all pieces h)\<lparr>h_size := 64\<rparr>"
    by (simp only: write_blocks_size all)
  have kept: "h_size (write_all pieces h) = digestSize" using h(2) by (simp add: all)
  show ?thesis
  proof (cases "digestSize = 32")
    case True
    then show ?thesis using sum_half [of "write_all pieces h"] kept sum size pre [of "write_all pieces h"] by (simp add: streebog_def)
  next
    case False
    then have "(write_all pieces h)\<lparr>h_size := 64\<rparr> = write_all pieces h" using kept h(3) by (cases "write_all pieces h") simp
    with False sum size pre [of "write_all pieces h"] show ?thesis by (simp add: streebog_def)
  qed
qed


section \<open>Saved states\<close>

text \<open>\<^verbatim>\<open>MarshalledName\<close> is \<^verbatim>\<open>STREEBOG\<close>.\<close>

definition MarshalledName :: octets where
  "MarshalledName = [0x53, 0x54, 0x52, 0x45, 0x45, 0x42, 0x4F, 0x47]"

datatype hashError =
  ShortState nat nat
| NoNamePrefix
| InvalidBufferedLength
| InvalidDigestSize

definition Hash_MarshalBinary :: "Hash \<Rightarrow> octets" where
  "Hash_MarshalBinary h =
     MarshalledName @ of_nat (h_size h) # rev (put_le64 (h_n h)) @ h_hsh h @ h_chk h @ h_buf h"

definition stateSize :: nat where
  "stateSize = length MarshalledName + 1 + 8 + 2 * BlockSize"

definition Hash_UnmarshalBinary :: "octets \<Rightarrow> Hash \<Rightarrow> hashError + Hash" where
  "Hash_UnmarshalBinary data h =
     (if length data < stateSize then Inl (ShortState (length data) stateSize)
      else if \<not> prefix MarshalledName data then Inl NoNamePrefix
      else if length data - stateSize \<ge> BlockSize then Inl InvalidBufferedLength
      else let digestSize = unat (data ! 8) in
        if digestSize \<noteq> 32 \<and> digestSize \<noteq> 64 then Inl InvalidDigestSize
        else Inr (h\<lparr>h_size := digestSize,
          h_n := get_le64 (rev (take 8 (drop 9 data))),
          h_hsh := take BlockSize (drop 17 data),
          h_chk := take BlockSize (drop 81 data),
          h_buf := drop 145 data\<rparr>))"

lemma stateSize_value: "stateSize = 145"
  by (simp add: stateSize_def MarshalledName_def BlockSize_def)

lemma get_put_le64: "get_le64 (put_le64 w) = w"
proof (rule bit_eqI)
  fix n
  assume "possible_bit TYPE(uint64) n"
  then have n: "n < 64" by (simp add: possible_bit_def)
  have "8 * (n div 8) + n mod 8 = n" by simp
  moreover have "n div 8 < 8" "n mod 8 < 8" using n by simp_all
  ultimately show "bit (get_le64 (put_le64 w)) n \<longleftrightarrow> bit w n"
    using n by (simp add: bit_get_le64 put_le64_def bit_ucast_iff bit_drop_bit_eq)
qed

text \<open>
  Saved hashes. Restoring the saved state of a hash into any hash of either digest size gives
  that state back, so that further writes lead to the same digest.
\<close>

theorem streebog_resume:
  assumes "wf_hash h"
  shows "Hash_UnmarshalBinary (Hash_MarshalBinary h) h' = Inr h"
proof -
  have len: "length (Hash_MarshalBinary h) = 145 + length (h_buf h)" "length (h_buf h) < 64"
    using assms by (simp_all add: Hash_MarshalBinary_def MarshalledName_def wf_hash_def)
  have size: "unat (of_nat (h_size h) :: 8 word) = h_size h" using assms by (auto simp: wf_hash_def unat_of_nat8)
  have parts: "Hash_MarshalBinary h ! 8 = of_nat (h_size h)" "take 8 (drop 9 (Hash_MarshalBinary h)) = rev (put_le64 (h_n h))"
    "take 64 (drop 17 (Hash_MarshalBinary h)) = h_hsh h" "take 64 (drop 81 (Hash_MarshalBinary h)) = h_chk h"
    "drop 145 (Hash_MarshalBinary h) = h_buf h"
    using assms by (simp_all add: Hash_MarshalBinary_def MarshalledName_def wf_hash_def)
  have "prefix MarshalledName (Hash_MarshalBinary h)" by (simp add: Hash_MarshalBinary_def)
  with len parts size assms show ?thesis
    by (cases h; cases h') (auto simp: Hash_UnmarshalBinary_def stateSize_value BlockSize_def get_put_le64 wf_hash_def Let_def)
qed

text \<open>The states a program can reach.\<close>

inductive hash_state :: "Hash \<Rightarrow> bool" where
  created: "Hash_New digestSize = Some h \<Longrightarrow> hash_state h"
| reset: "hash_state h \<Longrightarrow> hash_state (Hash_Reset h)"
| written: "hash_state h \<Longrightarrow> hash_state (snd (Hash_Write data h))"
| restored: "hash_state h \<Longrightarrow> Hash_UnmarshalBinary data h = Inr h' \<Longrightarrow> hash_state h'"

lemma write_blocks_wf:
  "length (h_hsh h) = 64 \<Longrightarrow> length (h_chk h) = 64 \<Longrightarrow> h_size h = 32 \<or> h_size h = 64 \<Longrightarrow> wf_hash (write_blocks h)"
proof (induction h rule: write_blocks.induct)
  case (1 h)
  have "length (h_hsh (write_block h)) = 64" "length (h_chk (write_block h)) = 64" if "BlockSize \<le> length (h_buf h)"
    using that 1(2,3) by (simp_all add: write_block_def BlockSize_def Let_def)
  with 1 show ?case by (subst write_blocks.simps) (simp add: wf_hash_def BlockSize_def)
qed

lemma hash_state_wf: "hash_state h \<Longrightarrow> wf_hash h"
proof (induction rule: hash_state.induct)
  case (written h data)
  then show ?case using write_blocks_wf [of "h\<lparr>h_buf := h_buf h @ data\<rparr>"] by (auto simp: Hash_Write_def wf_hash_def)
qed (auto simp: Hash_New_def Hash_Reset_def Hash_UnmarshalBinary_def stateSize_value BlockSize_def wf_hash_def Let_def
    split: if_splits)

text \<open>
  C21: Sizes. In every state a program can reach by creating, resetting, writing and restoring
  hashes, the chaining value and the checksum have 64 octets, fewer than 64 octets are buffered (so
  that the padding octet fits the last block), and the digest has the size the hash was created or
  restored with.
\<close>

theorem streebog_sizes:
  assumes "hash_state h"
  shows "wf_hash h \<and> length (Hash_Sum pre h) = length pre + h_size h \<and> length (padded (h_buf h)) = BlockSize"
proof -
  from assms have wf: "wf_hash h" by (rule hash_state_wf)
  then have "length (padded (h_buf h)) = 64" by (auto simp: padded_def BlockSize_def wf_hash_def)
  with wf show ?thesis by (auto simp: Hash_Sum_def BlockSize_def wf_hash_def Let_def)
qed

section \<open>Samples\<close>


theorem streebog_resume_witness:
  "Hash_UnmarshalBinary (Hash_MarshalBinary (the (Hash_New 64))) (the (Hash_New 32)) = Inr (the (Hash_New 64))"
  by (rule streebog_resume) (simp add: Hash_New_def Hash_Reset_def wf_hash_def BlockSize_def)

theorem streebog_sizes_witness: "length (Hash_Sum [] (snd (Hash_Write [1, 2, 3] (the (Hash_New 32))))) = 32"
proof -
  have "hash_state (the (Hash_New 32))" by (rule hash_state.created [of 32]) (simp add: Hash_New_def)
  from streebog_sizes [OF hash_state.written [OF this, of "[1, 2, 3]"], of "[]"] show ?thesis
    by (simp add: Hash_Write_def Hash_New_def Hash_Reset_def)
qed

end
