(* ===== verification/Gost_Curve.thy ===== *)
theory Gost_Curve
  imports Streebog
begin

text \<open>
  Elliptic curves and signature verification of GOST R 34.10-2012 (package \<^verbatim>\<open>gost3410\<close>).
  A \<^verbatim>\<open>big.Int\<close> is an \<^typ>\<open>int\<close>; its \<^verbatim>\<open>Mod\<close> is the Euclidean
  remainder, which for a positive modulus is \<^const>\<open>modulo\<close>. The theorems show that point
  arithmetic stays on the curve, that public keys survive their encodings, and which signatures are
  accepted.
\<close>

section \<open>Integers\<close>

text \<open>\<^verbatim>\<open>SetBytes\<close>, \<^verbatim>\<open>Bytes\<close> and \<^verbatim>\<open>BitLen\<close>.\<close>

definition bytes2big :: "octets \<Rightarrow> int" where
  "bytes2big d = int (le_nat (rev d))"

fun nat_octets :: "nat \<Rightarrow> octets" where
  "nat_octets n = (if n = 0 then [] else of_nat n # nat_octets (n div 256))"

declare nat_octets.simps [simp del]

definition big_Bytes :: "int \<Rightarrow> octets" where
  "big_Bytes x = rev (nat_octets (nat \<bar>x\<bar>))"

fun bit_len :: "nat \<Rightarrow> nat" where
  "bit_len n = (if n = 0 then 0 else Suc (bit_len (n div 2)))"

declare bit_len.simps [simp del]

text \<open>The extended Euclidean algorithm, and \<^verbatim>\<open>ModInverse\<close> for a positive modulus;
  \<^const>\<open>None\<close> is the nil result.\<close>

function ext_gcd :: "int \<Rightarrow> int \<Rightarrow> int \<times> int \<times> int" where
  "ext_gcd a b =
     (if b \<le> 0 then (a, 1, 0)
      else let (d, x, y) = ext_gcd b (a mod b) in (d, y, x - (a div b) * y))"
  by pat_completeness auto
termination
  by (relation "measure (\<lambda>(_, b). nat b)") auto

declare ext_gcd.simps [simp del]

definition ModInverse :: "int \<Rightarrow> int \<Rightarrow> int option" where
  "ModInverse g n =
     (let (d, x, _) = ext_gcd (g mod n) n in if d = 1 then Some (x mod n) else None)"

definition pointSize :: "int \<Rightarrow> nat" where
  "pointSize p = (if bit_len (nat \<bar>p\<bar>) > 256 then 64 else 32)"

text \<open>\<^const>\<open>None\<close> is the panic of a negative length.\<close>

definition pad :: "octets \<Rightarrow> nat \<Rightarrow> octets option" where
  "pad d width = (if width < length d then None else Some (replicate (width - length d) 0 @ d))"

section \<open>Curves\<close>

record Curve =
  c_P :: int
  c_Q :: int
  c_Co :: int
  c_A :: int
  c_B :: int
  c_E :: "int option"
  c_D :: "int option"
  c_X :: int
  c_Y :: int

definition Curve_pos :: "Curve \<Rightarrow> int \<Rightarrow> int" where
  "Curve_pos cv v = (if v < 0 then v + c_P cv else v)"

definition Curve_Contains :: "Curve \<Rightarrow> int \<Rightarrow> int \<Rightarrow> bool" where
  "Curve_Contains cv x y \<longleftrightarrow>
     (y * y) mod c_P cv = Curve_pos cv (((x * x + c_A cv) * x + c_B cv) mod c_P cv)"

text \<open>\<^const>\<open>None\<close> is the error for a base point off the curve.\<close>

definition NewCurve ::
  "int \<Rightarrow> int \<Rightarrow> int \<Rightarrow> int \<Rightarrow> int \<Rightarrow> int \<Rightarrow> int option \<Rightarrow> int option \<Rightarrow> int option \<Rightarrow> Curve option" where
  "NewCurve p q a b x y ed d co =
     (let cv = \<lparr>c_P = p, c_Q = q, c_Co = (case co of None \<Rightarrow> 1 | Some n \<Rightarrow> n), c_A = a, c_B = b,
                c_E = (if ed \<noteq> None \<and> d \<noteq> None then ed else None),
                c_D = (if ed \<noteq> None \<and> d \<noteq> None then d else None), c_X = x, c_Y = y\<rparr>
      in if Curve_Contains cv x y then Some cv else None)"

definition Curve_Equal :: "Curve \<Rightarrow> Curve \<Rightarrow> bool" where
  "Curve_Equal our their \<longleftrightarrow> c_P our = c_P their \<and> c_Q our = c_Q their \<and> c_A our = c_A their \<and>
     c_B our = c_B their \<and> c_X our = c_X their \<and> c_Y our = c_Y their \<and> c_E our = c_E their \<and>
     c_D our = c_D their \<and> c_Co our = c_Co their"

section \<open>Points\<close>

type_synonym point = "int \<times> int"

text \<open>The slope of a doubling and of a sum of points with different \<open>x\<close>.\<close>

definition double_slope :: "Curve \<Rightarrow> int \<Rightarrow> int \<Rightarrow> int option" where
  "double_slope cv p1x p1y =
     (case ModInverse (2 * p1y) (c_P cv) of
        None \<Rightarrow> None
      | Some tx \<Rightarrow> Some (((p1x * p1x * 3 + c_A cv) * tx) mod c_P cv))"

definition chord_slope :: "Curve \<Rightarrow> point \<Rightarrow> point \<Rightarrow> int option" where
  "chord_slope cv p1 p2 =
     (let tx = Curve_pos cv ((fst p2 - fst p1) mod c_P cv);
          ty = Curve_pos cv ((snd p2 - snd p1) mod c_P cv)
      in case ModInverse tx (c_P cv) of None \<Rightarrow> None | Some t \<Rightarrow> Some ((t * ty) mod c_P cv))"

text \<open>The finite sum, or \<^const>\<open>None\<close> where the method reports infinity.\<close>

definition Curve_add :: "Curve \<Rightarrow> point \<Rightarrow> point \<Rightarrow> point option" where
  "Curve_add cv p1 p2 =
     (case (if fst p1 = fst p2
            then (if snd p1 \<noteq> snd p2 \<or> snd p1 = 0 then None else double_slope cv (fst p1) (snd p1))
            else chord_slope cv p1 p2) of
        None \<Rightarrow> None
      | Some t \<Rightarrow>
          let tx = Curve_pos cv ((t * t - fst p1 - fst p2) mod c_P cv);
              ty = Curve_pos cv (((fst p1 - tx) * t - snd p1) mod c_P cv)
          in Some (tx, ty))"

datatype curveError = NonpositiveDegree | InfinitePoint

text \<open>One bit of the loop, and the loop from bit \<open>i - 1\<close> down; \<^const>\<open>None\<close> is the flag
  \<^verbatim>\<open>infinity\<close>.\<close>

definition exp_bit :: "Curve \<Rightarrow> int \<Rightarrow> point \<Rightarrow> nat \<Rightarrow> point option \<Rightarrow> point option" where
  "exp_bit cv degree s i acc =
     (let acc = (case acc of None \<Rightarrow> None | Some t \<Rightarrow> Curve_add cv t t)
      in if bit degree i then (case acc of None \<Rightarrow> Some s | Some t \<Rightarrow> Curve_add cv t s) else acc)"

fun exp_loop :: "Curve \<Rightarrow> int \<Rightarrow> point \<Rightarrow> nat \<Rightarrow> point option \<Rightarrow> point option" where
  "exp_loop cv degree s 0 acc = acc"
| "exp_loop cv degree s (Suc i) acc = exp_loop cv degree s i (exp_bit cv degree s i acc)"

definition Curve_Exp :: "Curve \<Rightarrow> int \<Rightarrow> point \<Rightarrow> curveError + point" where
  "Curve_Exp cv degree s =
     (if degree \<le> 0 then Inl NonpositiveDegree
      else case exp_loop cv degree s (bit_len (nat degree)) None of
        None \<Rightarrow> Inl InfinitePoint
      | Some t \<Rightarrow> Inr t)"

definition Curve_IsInSubgroup :: "Curve \<Rightarrow> int \<Rightarrow> int \<Rightarrow> bool" where
  "Curve_IsInSubgroup cv x y \<longleftrightarrow>
     \<not> (x < 0 \<or> y < 0 \<or> c_P cv \<le> x \<or> c_P cv \<le> y \<or> \<not> Curve_Contains cv x y) \<and>
     (c_Co cv = 1 \<or> Curve_Exp cv (c_Q cv) (x, y) = Inl InfinitePoint)"

section \<open>Public keys\<close>

record PublicKey =
  pk_C :: Curve
  pk_X :: int
  pk_Y :: int

definition NewPublicKeyLE :: "Curve \<Rightarrow> octets \<Rightarrow> PublicKey option" where
  "NewPublicKeyLE cv raw =
     (let n = pointSize (c_P cv); key = rev raw
      in if length raw \<noteq> 2 * n then None
         else Some \<lparr>pk_C = cv, pk_X = bytes2big (drop n key), pk_Y = bytes2big (take n key)\<rparr>)"

definition NewPublicKeyBE :: "Curve \<Rightarrow> octets \<Rightarrow> PublicKey option" where
  "NewPublicKeyBE cv raw =
     (let n = pointSize (c_P cv)
      in if length raw \<noteq> 2 * n then None
         else Some \<lparr>pk_C = cv, pk_X = bytes2big (take n raw), pk_Y = bytes2big (drop n raw)\<rparr>)"

definition NewPublicKey :: "Curve \<Rightarrow> octets \<Rightarrow> PublicKey option" where
  "NewPublicKey cv raw = NewPublicKeyLE cv raw"

definition PublicKey_RawBE :: "PublicKey \<Rightarrow> octets option" where
  "PublicKey_RawBE pk =
     (let n = pointSize (c_P (pk_C pk))
      in case pad (big_Bytes (pk_X pk)) n of
           None \<Rightarrow> None
         | Some x \<Rightarrow> (case pad (big_Bytes (pk_Y pk)) n of None \<Rightarrow> None | Some y \<Rightarrow> Some (x @ y)))"

definition PublicKey_RawLE :: "PublicKey \<Rightarrow> octets option" where
  "PublicKey_RawLE pk =
     (let n = pointSize (c_P (pk_C pk))
      in case pad (big_Bytes (pk_Y pk)) n of
           None \<Rightarrow> None
         | Some y \<Rightarrow> (case pad (big_Bytes (pk_X pk)) n of None \<Rightarrow> None | Some x \<Rightarrow> Some (rev (y @ x))))"

definition PublicKey_Raw :: "PublicKey \<Rightarrow> octets option" where
  "PublicKey_Raw pk = PublicKey_RawLE pk"

definition PublicKey_Equal :: "PublicKey \<Rightarrow> PublicKey \<Rightarrow> bool" where
  "PublicKey_Equal pk their \<longleftrightarrow> pk_X pk = pk_X their \<and> pk_Y pk = pk_Y their \<and> Curve_Equal (pk_C pk) (pk_C their)"

section \<open>Verification\<close>

datatype verifyError = SignatureLength nat nat | ExpError curveError

definition digest_number :: "Curve \<Rightarrow> octets \<Rightarrow> int" where
  "digest_number cv digest = (let n = bytes2big digest mod c_Q cv in if n = 0 then 1 else n)"

text \<open>\<^verbatim>\<open>ModInverse\<close> leaves its receiver, here zero, when there is no inverse.\<close>

definition digest_inverse :: "Curve \<Rightarrow> octets \<Rightarrow> int" where
  "digest_inverse cv digest = (case ModInverse (digest_number cv digest) (c_Q cv) of None \<Rightarrow> 0 | Some v \<Rightarrow> v)"

definition PublicKey_VerifyDigest :: "PublicKey \<Rightarrow> octets \<Rightarrow> octets \<Rightarrow> verifyError + bool" where
  "PublicKey_VerifyDigest pk digest signature =
     (let cv = pk_C pk; n = pointSize (c_P cv) in
      if length signature \<noteq> 2 * n then Inl (SignatureLength (length signature) (2 * n))
      else
        let s = bytes2big (take n signature);
            r = bytes2big (drop n signature) in
        if r \<le> 0 \<or> c_Q cv \<le> r \<or> s \<le> 0 \<or> c_Q cv \<le> s then Inr False
        else
          let v = digest_inverse cv digest;
              z1 = (s * v) mod c_Q cv;
              z2 = c_Q cv - (r * v) mod c_Q cv in
          case Curve_Exp cv z1 (c_X cv, c_Y cv) of
            Inl err \<Rightarrow> Inl (ExpError err)
          | Inr p1 \<Rightarrow> (case Curve_Exp cv z2 (pk_X pk, pk_Y pk) of
              Inl err \<Rightarrow> Inl (ExpError err)
            | Inr q1 \<Rightarrow> (case Curve_add cv p1 q1 of
                None \<Rightarrow> Inr False
              | Some p1 \<Rightarrow> Inr (fst p1 mod c_Q cv = r))))"

definition ReverseDigest_VerifyDigest :: "PublicKey \<Rightarrow> octets \<Rightarrow> octets \<Rightarrow> verifyError + bool" where
  "ReverseDigest_VerifyDigest pub digest signature = PublicKey_VerifyDigest pub (rev digest) signature"

definition ReverseDigestAndSignature_VerifyDigest :: "PublicKey \<Rightarrow> octets \<Rightarrow> octets \<Rightarrow> verifyError + bool" where
  "ReverseDigestAndSignature_VerifyDigest pub digest signature = PublicKey_VerifyDigest pub (rev digest) (rev signature)"

section \<open>Inverses\<close>

lemma ext_gcd_bezout: "ext_gcd a b = (d, x, y) \<Longrightarrow> x * a + y * b = d \<and> (0 \<le> a \<longrightarrow> 0 \<le> b \<longrightarrow> d = gcd a b)"
proof (induction a b arbitrary: d x y rule: ext_gcd.induct)
  case (1 a b)
  show ?case
  proof (cases "b \<le> 0")
    case True
    with 1(2) have "(a, 1, 0) = (d, x, y)" by (simp add: ext_gcd.simps [of a b])
    with True show ?thesis by auto
  next
    case False
    obtain d' x' y' where rec: "ext_gcd b (a mod b) = (d', x', y')" by (metis prod_cases3)
    have step: "x' * b + y' * (a mod b) = d'" "d' = gcd b (a mod b)"
      using 1(1) [OF False rec] False by simp_all
    have res: "d = d'" "x = y'" "y = x' - (a div b) * y'" using 1(2) False rec by (auto simp: ext_gcd.simps [of a b])
    have "y' * a + (x' - (a div b) * y') * b = x' * b + y' * (a - (a div b) * b)" by (simp add: algebra_simps)
    also have "\<dots> = d'" using step(1) by (simp add: minus_div_mult_eq_mod)
    finally show ?thesis using res step(2) by (simp add: gcd_red_int [of a b])
  qed
qed

lemma ModInverse_sound:
  assumes "ModInverse g n = Some t" and "0 < n"
  shows "n dvd t * g - 1" "0 \<le> t" "t < n"
proof -
  obtain d x y where e: "ext_gcd (g mod n) n = (d, x, y)" by (metis prod_cases3)
  with assms have t: "d = 1" "t = x mod n" by (auto simp: ModInverse_def split: if_splits)
  from ext_gcd_bezout [OF e] t have "x * (g mod n) + y * n = 1" by simp
  then have "(x mod n * g) mod n = 1 mod n" by (metis mod_mult_eq mod_mult_left_eq mod_mult_self3 add.commute mod_mult_right_eq)
  then show "n dvd t * g - 1" using t by (simp add: mod_eq_dvd_iff)
  show "0 \<le> t" "t < n" using assms(2) t by simp_all
qed

lemma ModInverse_complete:
  assumes "coprime g n" and "0 < n"
  shows "\<exists>t. ModInverse g n = Some t"
proof -
  obtain d x y where e: "ext_gcd (g mod n) n = (d, x, y)" by (metis prod_cases3)
  from ext_gcd_bezout [OF e] assms have "d = 1" by (simp add: gcd_red_int [symmetric] gcd.commute)
  with e show ?thesis by (simp add: ModInverse_def)
qed

section \<open>Points stay on the curve\<close>

text \<open>The cubic minus the square of the line through \<open>(x\<^sub>1, y\<^sub>1)\<close> with slope \<open>t\<close>.\<close>

definition on_line :: "int \<Rightarrow> int \<Rightarrow> int \<Rightarrow> int \<Rightarrow> int \<Rightarrow> int \<Rightarrow> int" where
  "on_line a b x1 y1 t x = x * x * x + a * x + b - (y1 + t * (x - x1)) * (y1 + t * (x - x1))"

lemma chord_identity:
  "(x2 - x1) * on_line a b x1 y1 t (t * t - x1 - x2) =
     on_line a b x1 y1 t x1 * (x2 - (t * t - x1 - x2)) + on_line a b x1 y1 t x2 * ((t * t - x1 - x2) - x1)"
  unfolding on_line_def by algebra

lemma tangent_identity:
  "on_line a b x1 y1 t (t * t - x1 - x1) =
     on_line a b x1 y1 t x1 + ((t * t - x1 - x1) - x1) * (3 * x1 * x1 + a - 2 * y1 * t)"
  unfolding on_line_def by algebra

lemma chord_point:
  assumes "p dvd y1 * y1 - (x1 * x1 * x1 + a * x1 + b)" and "p dvd y2 * y2 - (x2 * x2 * x2 + a * x2 + b)"
    and "p dvd t * (x2 - x1) - (y2 - y1)" and "p dvd i * (x2 - x1) - (1 :: int)"
  shows "p dvd on_line a b x1 y1 t (t * t - x1 - x2)"
proof -
  have "p dvd on_line a b x1 y1 t x1" using assms(1) by (simp add: on_line_def dvd_diff_commute)
  moreover have "p dvd on_line a b x1 y1 t x2"
  proof -
    have "on_line a b x1 y1 t x2 = - (y2 * y2 - (x2 * x2 * x2 + a * x2 + b)) -
        (t * (x2 - x1) - (y2 - y1)) * (y1 + t * (x2 - x1) + y2)" unfolding on_line_def by algebra
    then show ?thesis using assms(2,3) by (metis dvd_diff dvd_minus_iff dvd_mult2)
  qed
  ultimately have "p dvd (x2 - x1) * on_line a b x1 y1 t (t * t - x1 - x2)" unfolding chord_identity by simp
  then have "p dvd i * ((x2 - x1) * on_line a b x1 y1 t (t * t - x1 - x2))" by simp
  moreover have "p dvd (i * (x2 - x1) - 1) * on_line a b x1 y1 t (t * t - x1 - x2)" using assms(4) by simp
  ultimately have "p dvd i * ((x2 - x1) * on_line a b x1 y1 t (t * t - x1 - x2)) -
      (i * (x2 - x1) - 1) * on_line a b x1 y1 t (t * t - x1 - x2)" by (rule dvd_diff)
  then show ?thesis by (simp add: algebra_simps)
qed

lemma tangent_point:
  assumes "p dvd y1 * y1 - (x1 * x1 * x1 + a * x1 + b)" and "p dvd 2 * y1 * t - (3 * x1 * x1 + a :: int)"
  shows "p dvd on_line a b x1 y1 t (t * t - x1 - x1)"
proof -
  have "p dvd on_line a b x1 y1 t x1" using assms(1) by (simp add: on_line_def dvd_diff_commute)
  moreover have "p dvd 3 * x1 * x1 + a - 2 * y1 * t" using assms(2) by (simp add: dvd_diff_commute)
  ultimately show ?thesis unfolding tangent_identity by simp
qed

text \<open>The points with canonical coordinates.\<close>

definition on_curve :: "Curve \<Rightarrow> point \<Rightarrow> bool" where
  "on_curve cv s \<longleftrightarrow> 0 \<le> fst s \<and> fst s < c_P cv \<and> 0 \<le> snd s \<and> snd s < c_P cv \<and> Curve_Contains cv (fst s) (snd s)"

lemma Contains_dvd:
  assumes "0 < c_P cv"
  shows "Curve_Contains cv x y \<longleftrightarrow> c_P cv dvd y * y - (x * x * x + c_A cv * x + c_B cv)"
proof -
  have "\<not> ((x * x + c_A cv) * x + c_B cv) mod c_P cv < 0" using assms by (simp add: not_less)
  then show ?thesis by (simp add: Curve_Contains_def Curve_pos_def mod_eq_dvd_iff algebra_simps)
qed

lemma pos_mod: "0 < c_P cv \<Longrightarrow> Curve_pos cv (v mod c_P cv) = v mod c_P cv"
  by (simp add: Curve_pos_def not_less)

lemma slope_tangent:
  assumes "0 < c_P cv" and "double_slope cv x y = Some t"
  shows "c_P cv dvd 2 * y * t - (3 * x * x + c_A cv)"
proof -
  obtain i where i: "ModInverse (2 * y) (c_P cv) = Some i" "t = ((x * x * 3 + c_A cv) * i) mod c_P cv"
    using assms(2) by (auto simp: double_slope_def split: option.splits)
  have "c_P cv dvd i * (2 * y) - 1" using ModInverse_sound(1) [OF i(1) assms(1)] .
  then have "c_P cv dvd (i * (2 * y) - 1) * (x * x * 3 + c_A cv)" by simp
  then have d: "c_P cv dvd 2 * y * ((x * x * 3 + c_A cv) * i) - (3 * x * x + c_A cv)" by (simp add: algebra_simps)
  have "(2 * y * t) mod c_P cv = (2 * y * ((x * x * 3 + c_A cv) * i)) mod c_P cv" unfolding i(2) by (simp add: mod_simps)
  with d show ?thesis by (metis mod_eq_dvd_iff)
qed

lemma slope_chord:
  assumes "0 < c_P cv" and "chord_slope cv p1 p2 = Some t"
  shows "\<exists>i. c_P cv dvd i * (fst p2 - fst p1) - 1 \<and> c_P cv dvd t * (fst p2 - fst p1) - (snd p2 - snd p1)"
proof -
  let ?tx = "(fst p2 - fst p1) mod c_P cv" and ?ty = "(snd p2 - snd p1) mod c_P cv"
  obtain i where i: "ModInverse ?tx (c_P cv) = Some i" "t = (i * ?ty) mod c_P cv"
    using assms by (auto simp: chord_slope_def pos_mod Let_def split: option.splits)
  have "(i * ?tx) mod c_P cv = 1 mod c_P cv" using ModInverse_sound(1) [OF i(1) assms(1)] by (simp add: mod_eq_dvd_iff)
  then have inv: "(i * (fst p2 - fst p1)) mod c_P cv = 1 mod c_P cv" by (simp add: mod_simps)
  have "(t * (fst p2 - fst p1)) mod c_P cv = (i * (snd p2 - snd p1) * (fst p2 - fst p1)) mod c_P cv"
    unfolding i(2) by (metis mod_mult_left_eq mod_mult_right_eq)
  also have "\<dots> = ((i * (fst p2 - fst p1)) mod c_P cv * (snd p2 - snd p1)) mod c_P cv"
    unfolding mod_mult_left_eq by (simp only: ac_simps)
  also have "\<dots> = (snd p2 - snd p1) mod c_P cv" unfolding inv by (simp add: mod_mult_left_eq)
  finally show ?thesis using inv by (auto simp: mod_eq_dvd_iff)
qed

text \<open>The third point of a line, reduced.\<close>

lemma third_point:
  assumes "0 < c_P cv" and "c_P cv dvd on_line (c_A cv) (c_B cv) x1 y1 t x3"
    and "tx = x3 mod c_P cv" and "ty = ((x1 - tx) * t - y1) mod c_P cv"
  shows "on_curve cv (tx, ty)"
proof -
  let ?p = "c_P cv"
  have "ty mod ?p = ((x1 - x3) * t - y1) mod ?p" unfolding assms(3,4) mod_mod_trivial
    by (intro mod_diff_cong mod_mult_cong) simp_all
  moreover have "(x1 - x3) * t - y1 = - (y1 + t * (x3 - x1))" by (simp add: algebra_simps)
  ultimately have ty: "ty mod ?p = (- (y1 + t * (x3 - x1))) mod ?p" by (simp only:)
  have "(ty * ty) mod ?p = ((y1 + t * (x3 - x1)) * (y1 + t * (x3 - x1))) mod ?p"
    by (metis ty minus_mult_minus mod_mult_cong)
  also have "\<dots> = (x3 * x3 * x3 + c_A cv * x3 + c_B cv) mod ?p"
    using assms(2) by (simp add: on_line_def mod_eq_dvd_iff dvd_diff_commute)
  also have "\<dots> = (tx * tx * tx + c_A cv * tx + c_B cv) mod ?p"
    unfolding assms(3) by (intro mod_add_cong mod_mult_cong) simp_all
  finally have "Curve_Contains cv tx ty" using assms(1) by (simp add: Contains_dvd mod_eq_dvd_iff)
  with assms show ?thesis by (simp add: on_curve_def)
qed

lemma add_on_curve:
  assumes "0 < c_P cv" and "on_curve cv p1" and "on_curve cv p2" and "Curve_add cv p1 p2 = Some q"
  shows "on_curve cv q"
proof -
  have curve: "c_P cv dvd snd p1 * snd p1 - (fst p1 * fst p1 * fst p1 + c_A cv * fst p1 + c_B cv)"
    "c_P cv dvd snd p2 * snd p2 - (fst p2 * fst p2 * fst p2 + c_A cv * fst p2 + c_B cv)"
    using assms(1-3) by (simp_all add: on_curve_def Contains_dvd)
  obtain t where t: "(if fst p1 = fst p2 then (if snd p1 \<noteq> snd p2 \<or> snd p1 = 0 then None else double_slope cv (fst p1) (snd p1))
      else chord_slope cv p1 p2) = Some t"
    and q: "q = ((t * t - fst p1 - fst p2) mod c_P cv,
      ((fst p1 - (t * t - fst p1 - fst p2) mod c_P cv) * t - snd p1) mod c_P cv)"
    using assms(1,4) by (auto simp: Curve_add_def pos_mod Let_def split: option.splits)
  have "c_P cv dvd on_line (c_A cv) (c_B cv) (fst p1) (snd p1) t (t * t - fst p1 - fst p2)"
  proof (cases "fst p1 = fst p2")
    case True
    with t have "double_slope cv (fst p1) (snd p1) = Some t" by (simp split: if_splits)
    from tangent_point [OF curve(1) slope_tangent [OF assms(1) this]] True show ?thesis by simp
  next
    case False
    with t have "chord_slope cv p1 p2 = Some t" by simp
    from slope_chord [OF assms(1) this] chord_point [OF curve] show ?thesis by blast
  qed
  from third_point [OF assms(1) this refl refl] q show ?thesis by simp
qed

lemma exp_bit_on_curve:
  assumes "0 < c_P cv" and "on_curve cv s" and "\<And>t. acc = Some t \<Longrightarrow> on_curve cv t" and "exp_bit cv degree s i acc = Some q"
  shows "on_curve cv q"
proof -
  define dbl where "dbl = (case acc of None \<Rightarrow> None | Some t \<Rightarrow> Curve_add cv t t)"
  have d: "on_curve cv t" if t: "dbl = Some t" for t
  proof (cases acc)
    case None
    with t show ?thesis by (simp add: dbl_def)
  next
    case (Some t')
    with t have "Curve_add cv t' t' = Some t" by (simp add: dbl_def)
    then show ?thesis by (rule add_on_curve [OF assms(1) assms(3) [OF Some] assms(3) [OF Some]])
  qed
  have q: "(if bit degree i then (case dbl of None \<Rightarrow> Some s | Some t \<Rightarrow> Curve_add cv t s) else dbl) = Some q"
    using assms(4) by (simp only: exp_bit_def dbl_def Let_def)
  show ?thesis
  proof (cases "bit degree i")
    case False
    with q d show ?thesis by simp
  next
    case True
    show ?thesis
    proof (cases dbl)
      case None
      with True q assms(2) show ?thesis by simp
    next
      case (Some t)
      with True q have "Curve_add cv t s = Some q" by simp
      then show ?thesis by (rule add_on_curve [OF assms(1) d [OF Some] assms(2)])
    qed
  qed
qed

lemma exp_loop_on_curve:
  assumes "0 < c_P cv" and "on_curve cv s"
  shows "(\<And>t. acc = Some t \<Longrightarrow> on_curve cv t) \<Longrightarrow> exp_loop cv degree s n acc = Some q \<Longrightarrow> on_curve cv q"
proof (induction n arbitrary: acc)
  case (Suc n)
  from Suc.IH [OF exp_bit_on_curve [OF assms Suc.prems(1)]] Suc.prems(2) show ?case by simp
qed simp

lemma exp_on_curve:
  assumes "0 < c_P cv" and "on_curve cv s" and "Curve_Exp cv degree s = Inr q"
  shows "on_curve cv q"
proof -
  have "exp_loop cv degree s (bit_len (nat degree)) None = Some q"
    using assms(3) unfolding Curve_Exp_def
    by (cases "degree \<le> 0"; cases "exp_loop cv degree s (bit_len (nat degree)) None") simp_all
  then show ?thesis by (rule exp_loop_on_curve [OF assms(1,2), rotated]) simp
qed

section \<open>Scalar multiples\<close>

text \<open>Doubling and adding by the binary digits of a number.\<close>

fun scalar :: "Curve \<Rightarrow> nat \<Rightarrow> point \<Rightarrow> point option" where
  "scalar cv n s =
     (if n = 0 then None
      else let d = (case scalar cv (n div 2) s of None \<Rightarrow> None | Some t \<Rightarrow> Curve_add cv t t)
           in if odd n then (case d of None \<Rightarrow> Some s | Some t \<Rightarrow> Curve_add cv t s) else d)"

declare scalar.simps [simp del]

lemma scalar_zero [simp]: "scalar cv 0 s = None"
  by (simp add: scalar.simps)

lemma exp_bit_scalar: "exp_bit cv (int n) s i (scalar cv (n div 2 ^ Suc i) s) = scalar cv (n div 2 ^ i) s"
proof -
  have half: "n div 2 ^ i div 2 = n div 2 ^ Suc i" by (simp only: div_mult2_eq [symmetric] power_Suc2)
  have bit: "bit (int n) i \<longleftrightarrow> odd (n div 2 ^ i)" by (simp only: bit_of_nat_iff_bit) (rule bit_iff_odd)
  show ?thesis
  proof (cases "n div 2 ^ i = 0")
    case True
    then have "n div 2 ^ Suc i = 0" using half by simp
    with True bit show ?thesis by (simp add: exp_bit_def)
  next
    case False
    then show ?thesis unfolding exp_bit_def bit half [symmetric] by (simp add: scalar.simps [of cv "n div 2 ^ i"])
  qed
qed

lemma exp_loop_scalar: "exp_loop cv (int n) s i (scalar cv (n div 2 ^ i) s) = scalar cv n s"
proof (induction i)
  case (Suc i)
  then show ?case by (simp only: exp_loop.simps exp_bit_scalar)
qed simp

lemma bit_len_bound: "n < 2 ^ bit_len n"
proof (induction n rule: bit_len.induct)
  case (1 n)
  show ?case
  proof (cases "n = 0")
    case False
    with 1 have "n div 2 < 2 ^ bit_len (n div 2)" by simp
    then have "n < 2 * 2 ^ bit_len (n div 2)" by linarith
    with False show ?thesis by (simp add: bit_len.simps [of n])
  qed simp
qed

lemma Exp_scalar:
  "Curve_Exp cv degree s = (if degree \<le> 0 then Inl NonpositiveDegree
     else case scalar cv (nat degree) s of None \<Rightarrow> Inl InfinitePoint | Some t \<Rightarrow> Inr t)"
proof (cases "degree \<le> 0")
  case False
  then have "exp_loop cv degree s (bit_len (nat degree)) None = scalar cv (nat degree) s"
    using exp_loop_scalar [of cv "nat degree" s "bit_len (nat degree)"] bit_len_bound [of "nat degree"] by simp
  with False show ?thesis by (simp add: Curve_Exp_def)
qed (simp add: Curve_Exp_def)

section \<open>Accepted signatures\<close>

text \<open>The numbers of a signature, and that they are in range.\<close>

definition sig_s :: "PublicKey \<Rightarrow> octets \<Rightarrow> int" where
  "sig_s pk signature = bytes2big (take (pointSize (c_P (pk_C pk))) signature)"

definition sig_r :: "PublicKey \<Rightarrow> octets \<Rightarrow> int" where
  "sig_r pk signature = bytes2big (drop (pointSize (c_P (pk_C pk))) signature)"

definition sig_ok :: "PublicKey \<Rightarrow> octets \<Rightarrow> bool" where
  "sig_ok pk signature \<longleftrightarrow> length signature = 2 * pointSize (c_P (pk_C pk)) \<and>
     0 < sig_r pk signature \<and> sig_r pk signature < c_Q (pk_C pk) \<and>
     0 < sig_s pk signature \<and> sig_s pk signature < c_Q (pk_C pk)"

text \<open>The condition of the standard: for the inverse \<open>v\<close> of the digest number, the multiple
  \<open>s v\<close> of the base point plus the multiple \<open>- r v\<close> of the public key has the \<open>x\<close>
  coordinate \<open>r\<close>.\<close>

definition gost_accepts :: "PublicKey \<Rightarrow> octets \<Rightarrow> octets \<Rightarrow> bool" where
  "gost_accepts pk digest signature \<longleftrightarrow> sig_ok pk signature \<and>
     (let cv = pk_C pk; q = c_Q cv in
      \<exists>v p1 q1 t. 0 \<le> v \<and> v < q \<and> (digest_number cv digest * v) mod q = 1 mod q \<and>
        scalar cv (nat ((sig_s pk signature * v) mod q)) (c_X cv, c_Y cv) = Some p1 \<and>
        scalar cv (nat ((- (sig_r pk signature * v)) mod q)) (pk_X pk, pk_Y pk) = Some q1 \<and>
        Curve_add cv p1 q1 = Some t \<and> fst t mod q = sig_r pk signature)"

lemma inverse_unique:
  assumes "0 < q" and "0 \<le> v" and "v < q" and "(num * v) mod q = 1 mod q"
  shows "ModInverse num q = Some (v :: int)"
proof -
  have d: "q dvd num * v - 1" using assms(4) by (simp add: mod_eq_dvd_iff)
  have "coprime num q"
  proof (rule coprimeI)
    fix g assume "g dvd num" "g dvd q"
    then have "g dvd num * v" "g dvd num * v - 1" using d dvd_trans by auto
    then have "g dvd num * v - (num * v - 1)" by (rule dvd_diff)
    then show "is_unit g" by simp
  qed
  then obtain t where t: "ModInverse num q = Some t" using ModInverse_complete assms(1) by blast
  from ModInverse_sound [OF t assms(1)] have "(t * num) mod q = 1 mod q" "0 \<le> t" "t < q" by (simp_all add: mod_eq_dvd_iff)
  then have "(t * (num * v)) mod q = t mod q" "(t * num * v) mod q = v mod q"
    using assms(4) by (metis mod_mult_right_eq mult.right_neutral, metis mod_mult_left_eq mult_1)
  then show ?thesis using t \<open>0 \<le> t\<close> \<open>t < q\<close> assms(2,3) by (simp add: mult.assoc)
qed

lemma inverse_nonzero:
  assumes "0 < r" and "r < q" and "(num * v) mod q = 1 mod (q :: int)"
  shows "(r * v) mod q \<noteq> 0"
proof
  assume "(r * v) mod q = 0"
  then have "(num * (r * v)) mod q = 0" by (metis mod_0 mod_mult_right_eq mult_zero_right)
  moreover have "(num * (r * v)) mod q = (r * (num * v)) mod q" by (simp add: mult.left_commute)
  ultimately have "(r * (num * v mod q)) mod q = 0" by (simp add: mod_mult_right_eq)
  then have "r mod q = 0" using assms(3) by (metis mod_mult_right_eq mult.right_neutral)
  with assms(1,2) show False by simp
qed

lemma verify_refused: "\<not> sig_ok pk signature \<Longrightarrow> PublicKey_VerifyDigest pk digest signature \<noteq> Inr True"
  by (auto simp: PublicKey_VerifyDigest_def sig_ok_def sig_s_def sig_r_def Let_def)

lemma verify_code:
  assumes "sig_ok pk signature" and "v = digest_inverse (pk_C pk) digest" and "q = c_Q (pk_C pk)"
  shows "PublicKey_VerifyDigest pk digest signature = Inr True \<longleftrightarrow>
    (\<exists>p1 q1 t. Curve_Exp (pk_C pk) ((sig_s pk signature * v) mod q) (c_X (pk_C pk), c_Y (pk_C pk)) = Inr p1 \<and>
       Curve_Exp (pk_C pk) (q - (sig_r pk signature * v) mod q) (pk_X pk, pk_Y pk) = Inr q1 \<and>
       Curve_add (pk_C pk) p1 q1 = Some t \<and> fst t mod q = sig_r pk signature)"
  using assms by (auto simp: PublicKey_VerifyDigest_def sig_ok_def sig_s_def sig_r_def Let_def split: sum.split option.split)

text \<open>The degrees handed to the multiplication are positive and those of the standard.\<close>

lemma multiples:
  assumes "0 < r" and "r < q" and "(num * w) mod q = 1 mod (q :: int)"
  shows "Curve_Exp cv ((r * w) mod q) g = Inr p1 \<longleftrightarrow> scalar cv (nat ((r * w) mod q)) g = Some p1"
    "Curve_Exp cv (q - (r * w) mod q) g = Inr p1 \<longleftrightarrow> scalar cv (nat ((- (r * w)) mod q)) g = Some p1"
proof -
  have range: "(r * w) mod q \<noteq> 0" "0 \<le> (r * w) mod q" "(r * w) mod q < q"
    using inverse_nonzero [OF assms] assms(1,2) by simp_all
  have "(- (r * w)) mod q = q - (r * w) mod q" using range(1) by (simp add: zmod_zminus1_eq_if)
  with range show "Curve_Exp cv ((r * w) mod q) g = Inr p1 \<longleftrightarrow> scalar cv (nat ((r * w) mod q)) g = Some p1"
    "Curve_Exp cv (q - (r * w) mod q) g = Inr p1 \<longleftrightarrow> scalar cv (nat ((- (r * w)) mod q)) g = Some p1"
    by (auto simp: Exp_scalar split: option.split)
qed

lemma verify_accepts:
  assumes "0 < c_Q (pk_C pk)"
  shows "PublicKey_VerifyDigest pk digest signature = Inr True \<longleftrightarrow> gost_accepts pk digest signature"
proof (cases "sig_ok pk signature")
  case False
  then show ?thesis using verify_refused by (simp add: gost_accepts_def)
next
  case True
  define q num where "q = c_Q (pk_C pk)" and "num = digest_number (pk_C pk) digest"
  have q: "0 < q" using assms by (simp add: q_def)
  note code = verify_code [OF True refl q_def]
  show ?thesis
  proof (cases "ModInverse num q")
    case None
    then have "digest_inverse (pk_C pk) digest = 0" by (simp add: digest_inverse_def q_def num_def)
    then have "PublicKey_VerifyDigest pk digest signature \<noteq> Inr True" unfolding code by (simp add: Exp_scalar)
    moreover have "\<not> gost_accepts pk digest signature"
      using inverse_unique [OF q, of _ num] None by (auto simp: gost_accepts_def Let_def q_def num_def)
    ultimately show ?thesis by simp
  next
    case (Some w)
    then have v: "digest_inverse (pk_C pk) digest = w" by (simp add: digest_inverse_def q_def num_def)
    have w: "0 \<le> w" "w < q" "(num * w) mod q = 1 mod q"
      using ModInverse_sound [OF Some q] by (simp_all add: mod_eq_dvd_iff mult.commute)
    have unique: "w' = w" if "0 \<le> w'" "w' < q" "(num * w') mod q = 1 mod q" for w'
      using inverse_unique [OF q that] Some by simp
    have range: "0 < sig_r pk signature" "sig_r pk signature < q" "0 < sig_s pk signature" "sig_s pk signature < q"
      using True by (simp_all add: sig_ok_def q_def)
    show ?thesis unfolding code v multiples(1) [OF range(3,4) w(3)] multiples(2) [OF range(1,2) w(3)] gost_accepts_def Let_def
        q_def [symmetric] num_def [symmetric]
      using True w unique by metis
  qed
qed

text \<open>
  C22: Accepted signatures. For every key, digest and octet string, verification reports success
  exactly when the string has the length of two coordinates, its numbers \<open>s\<close> and \<open>r\<close>
  lie strictly between zero and the order \<open>q\<close>, the digest number has an inverse \<open>v\<close>
  modulo \<open>q\<close>, and \<open>(s v) P + (- r v) Q\<close> is a finite point whose \<open>x\<close> coordinate is
  \<open>r\<close> modulo \<open>q\<close>.
\<close>

theorem gost_verify_exact:
  assumes "0 < c_Q (pk_C pk)"
  shows "PublicKey_VerifyDigest pk digest signature = Inr True \<longleftrightarrow> gost_accepts pk digest signature"
  using assms by (rule verify_accepts)

section \<open>Encodings of public keys\<close>

lemma nat_octets_padded: "m < 256 ^ k \<Longrightarrow> length (nat_octets m) \<le> k \<and> nat_octets m @ replicate (k - length (nat_octets m)) 0 = le_octets k m"
proof (induction k arbitrary: m)
  case 0
  then show ?case by (simp add: nat_octets.simps)
next
  case (Suc k)
  show ?case
  proof (cases "m = 0")
    case True
    then have "nat_octets m = []" by (simp add: nat_octets.simps)
    with True show ?thesis using le_octets_zero [of "Suc k"] by simp
  next
    case False
    have "m div 256 < 256 ^ k" using Suc.prems by (simp add: less_mult_imp_div_less mult.commute)
    with Suc.IH [of "m div 256"] False show ?thesis by (simp add: nat_octets.simps [of m])
  qed
qed

lemma pad_bytes: "length bs = n \<Longrightarrow> pad (big_Bytes (bytes2big bs)) n = Some bs"
proof -
  assume n: "length bs = n"
  have "le_nat (rev bs) < 256 ^ n" using le_nat_bound [of "rev bs"] n by simp
  from nat_octets_padded [OF this] have len: "length (nat_octets (le_nat (rev bs))) \<le> n"
    and eq: "nat_octets (le_nat (rev bs)) @ replicate (n - length (nat_octets (le_nat (rev bs)))) 0 = rev bs"
    using le_octets_nat [of "rev bs"] n by simp_all
  have "replicate (n - length (nat_octets (le_nat (rev bs)))) 0 @ rev (nat_octets (le_nat (rev bs))) = bs"
    using arg_cong [OF eq, of rev] by simp
  with len show ?thesis by (simp add: pad_def big_Bytes_def bytes2big_def)
qed

text \<open>
  Public keys. A key read from octets in either byte order is written back to the same octets,
  and the padding never fails.
\<close>

theorem public_key_roundtrip:
  "(NewPublicKeyLE cv raw = Some pk \<longrightarrow> PublicKey_RawLE pk = Some raw) \<and>
   (NewPublicKeyBE cv raw = Some pk \<longrightarrow> PublicKey_RawBE pk = Some raw)"
proof -
  let ?n = "pointSize (c_P cv)"
  have "PublicKey_RawLE pk = Some raw" if "NewPublicKeyLE cv raw = Some pk"
  proof -
    from that have len: "length (take ?n (rev raw)) = ?n" "length (drop ?n (rev raw)) = ?n"
      and pk: "pk = \<lparr>pk_C = cv, pk_X = bytes2big (drop ?n (rev raw)), pk_Y = bytes2big (take ?n (rev raw))\<rparr>"
      by (auto simp: NewPublicKeyLE_def Let_def split: if_splits)
    have "rev (take ?n (rev raw) @ drop ?n (rev raw)) = raw" unfolding append_take_drop_id by simp
    then show ?thesis unfolding pk PublicKey_RawLE_def by (simp add: pad_bytes [OF len(1)] pad_bytes [OF len(2)] Let_def del: rev_append)
  qed
  moreover have "PublicKey_RawBE pk = Some raw" if "NewPublicKeyBE cv raw = Some pk"
  proof -
    from that have len: "length (take ?n raw) = ?n" "length (drop ?n raw) = ?n"
      and pk: "pk = \<lparr>pk_C = cv, pk_X = bytes2big (take ?n raw), pk_Y = bytes2big (drop ?n raw)\<rparr>"
      by (auto simp: NewPublicKeyBE_def Let_def split: if_splits)
    then show ?thesis unfolding pk PublicKey_RawBE_def by (simp add: pad_bytes [OF len(1)] pad_bytes [OF len(2)] Let_def)
  qed
  ultimately show ?thesis by blast
qed

text \<open>
  C23: Points stay on the curve. Sums and multiples of points with canonical coordinates on a curve
  are, when finite, points with canonical coordinates on it.
\<close>

theorem curve_closed:
  assumes "0 < c_P cv" and "on_curve cv p1" and "on_curve cv p2"
  shows "(Curve_add cv p1 p2 = Some t \<longrightarrow> on_curve cv t) \<and> (Curve_Exp cv degree p1 = Inr t \<longrightarrow> on_curve cv t)"
  using add_on_curve [OF assms] exp_on_curve [OF assms(1,2)] by blast

section \<open>Samples\<close>

definition small_curve :: Curve where
  "small_curve = \<lparr>c_P = 11, c_Q = 13, c_Co = 1, c_A = 1, c_B = 6, c_E = None, c_D = None, c_X = 2, c_Y = 7\<rparr>"

theorem curve_closed_witness: "on_curve small_curve (2, 7) \<and> Curve_Exp small_curve 3 (2, 7) = Inr (8, 3) \<and> on_curve small_curve (8, 3)"
proof -
  have base: "on_curve small_curve (2, 7)" by (simp add: on_curve_def small_curve_def Curve_Contains_def Curve_pos_def)
  have triple: "Curve_Exp small_curve 3 (2, 7) = Inr (8, 3)"
    by (simp add: Exp_scalar scalar.simps Curve_add_def double_slope_def chord_slope_def ModInverse_def ext_gcd.simps
        Curve_pos_def small_curve_def)
  with base curve_closed [OF _ base base, of "(8, 3)" 3] show ?thesis by (simp add: small_curve_def)
qed

theorem public_key_roundtrip_witness:
  "\<exists>pk. NewPublicKeyLE small_curve (replicate 64 1) = Some pk \<and> PublicKey_RawLE pk = Some (replicate 64 1)"
proof -
  have "\<exists>pk. NewPublicKeyLE small_curve (replicate 64 1) = Some pk"
    by (simp add: NewPublicKeyLE_def pointSize_def small_curve_def bit_len.simps)
  then show ?thesis using public_key_roundtrip [of small_curve "replicate 64 1"] by blast
qed

text \<open>The key is five times the base point; \<open>s = 5\<close> and \<open>r = 10\<close>.\<close>

definition small_key :: PublicKey where
  "small_key = \<lparr>pk_C = small_curve, pk_X = 3, pk_Y = 6\<rparr>"

definition small_signature :: octets where
  "small_signature = replicate 31 0 @ [5] @ replicate 31 0 @ [10]"

lemma le_nat_zeros [simp]: "le_nat (replicate k 0) = 0"
  by (induction k) simp_all

lemma small_values:
  "pointSize (c_P small_curve) = 32" "bytes2big (take 32 small_signature) = 5" "bytes2big (drop 32 small_signature) = 10"
  "length small_signature = 64" "digest_inverse small_curve [5] = 8"
  by (simp_all add: small_signature_def small_curve_def pointSize_def bit_len.simps bytes2big_def
      digest_inverse_def digest_number_def ModInverse_def ext_gcd.simps)

lemma small_multiples:
  "Curve_Exp small_curve 1 (2, 7) = Inr (2, 7)" "Curve_Exp small_curve 11 (3, 6) = Inr (8, 3)"
  "Curve_add small_curve (2, 7) (8, 3) = Some (10, 2)"
  by (simp_all add: Exp_scalar scalar.simps Curve_add_def double_slope_def chord_slope_def ModInverse_def
      ext_gcd.simps Curve_pos_def small_curve_def)

theorem gost_verify_exact_witness:
  "PublicKey_VerifyDigest small_key [5] small_signature = Inr True \<and> gost_accepts small_key [5] small_signature"
proof -
  have order: "c_Q small_curve = 13" "c_X small_curve = 2" "c_Y small_curve = 7" by (simp_all add: small_curve_def)
  have "PublicKey_VerifyDigest small_key [5] small_signature = Inr True"
    unfolding PublicKey_VerifyDigest_def small_key_def PublicKey.select_convs small_values order Let_def
    by (simp add: small_multiples)
  moreover have "0 < c_Q (pk_C small_key)" by (simp add: small_key_def small_curve_def)
  ultimately show ?thesis using gost_verify_exact by blast
qed

end
