(* ===== verification/Gost_Params.thy ===== *)
theory Gost_Params
  imports Gost_Curve
begin

text \<open>
  The two parameter sets of \<^verbatim>\<open>params.go\<close>, octet by octet, and that they are valid.
\<close>

section \<open>Parameter sets\<close>

definition CurveIdtc26gost341012256paramSetA :: "Curve option" where
  "CurveIdtc26gost341012256paramSetA =
     NewCurve
       (bytes2big
       [0xFF, 0xFF, 0xFF, 0xFF, 0xFF, 0xFF, 0xFF, 0xFF, 0xFF, 0xFF, 0xFF, 0xFF, 0xFF, 0xFF, 0xFF, 0xFF,
        0xFF, 0xFF, 0xFF, 0xFF, 0xFF, 0xFF, 0xFF, 0xFF, 0xFF, 0xFF, 0xFF, 0xFF, 0xFF, 0xFF, 0xFD, 0x97])
       (bytes2big
       [0x40, 0, 0, 0, 0, 0, 0, 0, 0, 0, 0, 0, 0, 0, 0, 0,
        0x0F, 0xD8, 0xCD, 0xDF, 0xC8, 0x7B, 0x66, 0x35, 0xC1, 0x15, 0xAF, 0x55, 0x6C, 0x36, 0x0C, 0x67])
       (bytes2big
       [0xC2, 0x17, 0x3F, 0x15, 0x13, 0x98, 0x16, 0x73, 0xAF, 0x48, 0x92, 0xC2, 0x30, 0x35, 0xA2, 0x7C,
        0xE2, 0x5E, 0x20, 0x13, 0xBF, 0x95, 0xAA, 0x33, 0xB2, 0x2C, 0x65, 0x6F, 0x27, 0x7E, 0x73, 0x35])
       (bytes2big
       [0x29, 0x5F, 0x9B, 0xAE, 0x74, 0x28, 0xED, 0x9C, 0xCC, 0x20, 0xE7, 0xC3, 0x59, 0xA9, 0xD4, 0x1A,
        0x22, 0xFC, 0xCD, 0x91, 0x08, 0xE1, 0x7B, 0xF7, 0xBA, 0x93, 0x37, 0xA6, 0xF8, 0xAE, 0x95, 0x13])
       (bytes2big
       [0x91, 0xE3, 0x84, 0x43, 0xA5, 0xE8, 0x2C, 0x0D, 0x88, 0x09, 0x23, 0x42, 0x57, 0x12, 0xB2, 0xBB,
        0x65, 0x8B, 0x91, 0x96, 0x93, 0x2E, 0x02, 0xC7, 0x8B, 0x25, 0x82, 0xFE, 0x74, 0x2D, 0xAA, 0x28])
       (bytes2big
       [0x32, 0x87, 0x94, 0x23, 0xAB, 0x1A, 0x03, 0x75, 0x89, 0x57, 0x86, 0xC4, 0xBB, 0x46, 0xE9, 0x56,
        0x5F, 0xDE, 0x0B, 0x53, 0x44, 0x76, 0x67, 0x40, 0xAF, 0x26, 0x8A, 0xDB, 0x32, 0x32, 0x2E, 0x5C])
       (Some 1)
       (Some (bytes2big
       [0x06, 0x05, 0xF6, 0xB7, 0xC1, 0x83, 0xFA, 0x81, 0x57, 0x8B, 0xC3, 0x9C, 0xFA, 0xD5, 0x18, 0x13,
        0x2B, 0x9D, 0xF6, 0x28, 0x97, 0, 0x9A, 0xF7, 0xE5, 0x22, 0xC3, 0x2D, 0x6D, 0xC7, 0xBF, 0xFB]))
       (Some 4)"

definition CurveIdtc26gost341012512paramSetA :: "Curve option" where
  "CurveIdtc26gost341012512paramSetA =
     NewCurve
       (bytes2big
       [0xFF, 0xFF, 0xFF, 0xFF, 0xFF, 0xFF, 0xFF, 0xFF, 0xFF, 0xFF, 0xFF, 0xFF, 0xFF, 0xFF, 0xFF, 0xFF,
        0xFF, 0xFF, 0xFF, 0xFF, 0xFF, 0xFF, 0xFF, 0xFF, 0xFF, 0xFF, 0xFF, 0xFF, 0xFF, 0xFF, 0xFF, 0xFF,
        0xFF, 0xFF, 0xFF, 0xFF, 0xFF, 0xFF, 0xFF, 0xFF, 0xFF, 0xFF, 0xFF, 0xFF, 0xFF, 0xFF, 0xFF, 0xFF,
        0xFF, 0xFF, 0xFF, 0xFF, 0xFF, 0xFF, 0xFF, 0xFF, 0xFF, 0xFF, 0xFF, 0xFF, 0xFF, 0xFF, 0xFD, 0xC7])
       (bytes2big
       [0xFF, 0xFF, 0xFF, 0xFF, 0xFF, 0xFF, 0xFF, 0xFF, 0xFF, 0xFF, 0xFF, 0xFF, 0xFF, 0xFF, 0xFF, 0xFF,
        0xFF, 0xFF, 0xFF, 0xFF, 0xFF, 0xFF, 0xFF, 0xFF, 0xFF, 0xFF, 0xFF, 0xFF, 0xFF, 0xFF, 0xFF, 0xFF,
        0x27, 0xE6, 0x95, 0x32, 0xF4, 0x8D, 0x89, 0x11, 0x6F, 0xF2, 0x2B, 0x8D, 0x4E, 0x05, 0x60, 0x60,
        0x9B, 0x4B, 0x38, 0xAB, 0xFA, 0xD2, 0xB8, 0x5D, 0xCA, 0xCD, 0xB1, 0x41, 0x1F, 0x10, 0xB2, 0x75])
       (bytes2big
       [0xFF, 0xFF, 0xFF, 0xFF, 0xFF, 0xFF, 0xFF, 0xFF, 0xFF, 0xFF, 0xFF, 0xFF, 0xFF, 0xFF, 0xFF, 0xFF,
        0xFF, 0xFF, 0xFF, 0xFF, 0xFF, 0xFF, 0xFF, 0xFF, 0xFF, 0xFF, 0xFF, 0xFF, 0xFF, 0xFF, 0xFF, 0xFF,
        0xFF, 0xFF, 0xFF, 0xFF, 0xFF, 0xFF, 0xFF, 0xFF, 0xFF, 0xFF, 0xFF, 0xFF, 0xFF, 0xFF, 0xFF, 0xFF,
        0xFF, 0xFF, 0xFF, 0xFF, 0xFF, 0xFF, 0xFF, 0xFF, 0xFF, 0xFF, 0xFF, 0xFF, 0xFF, 0xFF, 0xFD, 0xC4])
       (bytes2big
       [0xE8, 0xC2, 0x50, 0x5D, 0xED, 0xFC, 0x86, 0xDD, 0xC1, 0xBD, 0x0B, 0x2B, 0x66, 0x67, 0xF1, 0xDA,
        0x34, 0xB8, 0x25, 0x74, 0x76, 0x1C, 0xB0, 0xE8, 0x79, 0xBD, 0x08, 0x1C, 0xFD, 0x0B, 0x62, 0x65,
        0xEE, 0x3C, 0xB0, 0x90, 0xF3, 0x0D, 0x27, 0x61, 0x4C, 0xB4, 0x57, 0x40, 0x10, 0xDA, 0x90, 0xDD,
        0x86, 0x2E, 0xF9, 0xD4, 0xEB, 0xEE, 0x47, 0x61, 0x50, 0x31, 0x90, 0x78, 0x5A, 0x71, 0xC7, 0x60])
       (bytes2big
       [0, 0, 0, 0, 0, 0, 0, 0, 0, 0, 0, 0, 0, 0, 0, 0,
        0, 0, 0, 0, 0, 0, 0, 0, 0, 0, 0, 0, 0, 0, 0, 0,
        0, 0, 0, 0, 0, 0, 0, 0, 0, 0, 0, 0, 0, 0, 0, 0,
        0, 0, 0, 0, 0, 0, 0, 0, 0, 0, 0, 0, 0, 0, 0, 0x03])
       (bytes2big
       [0x75, 0x03, 0xCF, 0xE8, 0x7A, 0x83, 0x6A, 0xE3, 0xA6, 0x1B, 0x88, 0x16, 0xE2, 0x54, 0x50, 0xE6,
        0xCE, 0x5E, 0x1C, 0x93, 0xAC, 0xF1, 0xAB, 0xC1, 0x77, 0x80, 0x64, 0xFD, 0xCB, 0xEF, 0xA9, 0x21,
        0xDF, 0x16, 0x26, 0xBE, 0x4F, 0xD0, 0x36, 0xE9, 0x3D, 0x75, 0xE6, 0xA5, 0x0E, 0x3A, 0x41, 0xE9,
        0x80, 0x28, 0xFE, 0x5F, 0xC2, 0x35, 0xF5, 0xB8, 0x89, 0xA5, 0x89, 0xCB, 0x52, 0x15, 0xF2, 0xA4])
       None None None"

section \<open>The parameter sets are valid\<close>

text \<open>The two curves as numbers.\<close>

definition curve256 :: Curve where
  "curve256 = \<lparr>c_P = 0xfffffffffffffffffffffffffffffffffffffffffffffffffffffffffffffd97,
     c_Q = 0x400000000000000000000000000000000fd8cddfc87b6635c115af556c360c67,
     c_Co = 4,
     c_A = 0xc2173f1513981673af4892c23035a27ce25e2013bf95aa33b22c656f277e7335,
     c_B = 0x295f9bae7428ed9ccc20e7c359a9d41a22fccd9108e17bf7ba9337a6f8ae9513,
     c_E = Some 1,
     c_D = Some 0x605f6b7c183fa81578bc39cfad518132b9df62897009af7e522c32d6dc7bffb,
     c_X = 0x91e38443a5e82c0d880923425712b2bb658b9196932e02c78b2582fe742daa28,
     c_Y = 0x32879423ab1a0375895786c4bb46e9565fde0b5344766740af268adb32322e5c\<rparr>"

definition curve512 :: Curve where
  "curve512 = \<lparr>c_P = 0xfffffffffffffffffffffffffffffffffffffffffffffffffffffffffffffffffffffffffffffffffffffffffffffffffffffffffffffffffffffffffffffdc7,
     c_Q = 0xffffffffffffffffffffffffffffffffffffffffffffffffffffffffffffffff27e69532f48d89116ff22b8d4e0560609b4b38abfad2b85dcacdb1411f10b275,
     c_Co = 1,
     c_A = 0xfffffffffffffffffffffffffffffffffffffffffffffffffffffffffffffffffffffffffffffffffffffffffffffffffffffffffffffffffffffffffffffdc4,
     c_B = 0xe8c2505dedfc86ddc1bd0b2b6667f1da34b82574761cb0e879bd081cfd0b6265ee3cb090f30d27614cb4574010da90dd862ef9d4ebee4761503190785a71c760,
     c_E = None,
     c_D = None,
     c_X = 0x3,
     c_Y = 0x7503cfe87a836ae3a61b8816e25450e6ce5e1c93acf1abc1778064fdcbefa921df1626be4fd036e93d75e6a50e3a41e98028fe5fc235f5b889a589cb5215f2a4\<rparr>"

lemma curve256_contains: "Curve_Contains curve256 (c_X curve256) (c_Y curve256)"
proof -
  have "c_Y curve256 * c_Y curve256 - (c_X curve256 * c_X curve256 * c_X curve256 + c_A curve256 * c_X curve256 + c_B curve256) =
      c_P curve256 *
        (- 0x2f61025eedc44f67a0086333fd8f07faf1119139fe0e0fa1f571fb71257e919439258698d86ab16ff34d602c9d5cb2ac14cc0b2dc7d157381b5c0682abd6816d)"
    by (simp add: curve256_def)
  moreover have "0 < c_P curve256" by (simp add: curve256_def)
  ultimately show ?thesis by (simp only: Contains_dvd dvd_triv_left)
qed

lemma curve512_contains: "Curve_Contains curve512 (c_X curve512) (c_Y curve512)"
proof -
  have "c_Y curve512 * c_Y curve512 - (c_X curve512 * c_X curve512 * c_X curve512 + c_A curve512 * c_X curve512 + c_B curve512) =
      c_P curve512 *
        0x357c7c190848c80766da779f3f55994d5624c3438c767f00baf659d9527f31e50f7975b8b983b181f835e60576e136479c9225f4034eb386a85e7665410cd96f"
    by (simp add: curve512_def)
  moreover have "0 < c_P curve512" by (simp add: curve512_def)
  ultimately show ?thesis by (simp only: Contains_dvd dvd_triv_left)
qed

text \<open>The constructor applied to the parameters of a curve gives that curve.\<close>

lemma NewCurve_again:
  assumes "Curve_Contains cv (c_X cv) (c_Y cv)" and "c_E cv = None \<longleftrightarrow> c_D cv = None"
  shows "NewCurve (c_P cv) (c_Q cv) (c_A cv) (c_B cv) (c_X cv) (c_Y cv) (c_E cv) (c_D cv) (Some (c_Co cv)) = Some cv"
  using assms by (cases cv) (auto simp: NewCurve_def Let_def)

lemma NewCurve_cofactor: "NewCurve p q a b x y ed d None = NewCurve p q a b x y ed d (Some 1)"
  by (simp add: NewCurve_def)

lemma new_curve256: "CurveIdtc26gost341012256paramSetA = Some curve256"
proof -
  have "CurveIdtc26gost341012256paramSetA = NewCurve (c_P curve256) (c_Q curve256) (c_A curve256) (c_B curve256)
      (c_X curve256) (c_Y curve256) (c_E curve256) (c_D curve256) (Some (c_Co curve256))"
    by (simp add: CurveIdtc26gost341012256paramSetA_def bytes2big_def curve256_def)
  then show ?thesis using NewCurve_again [OF curve256_contains] by (simp add: curve256_def)
qed

lemma new_curve512: "CurveIdtc26gost341012512paramSetA = Some curve512"
proof -
  have "CurveIdtc26gost341012512paramSetA = NewCurve (c_P curve512) (c_Q curve512) (c_A curve512) (c_B curve512)
      (c_X curve512) (c_Y curve512) (c_E curve512) (c_D curve512) (Some (c_Co curve512))"
    by (simp add: CurveIdtc26gost341012512paramSetA_def bytes2big_def curve512_def NewCurve_cofactor)
  then show ?thesis using NewCurve_again [OF curve512_contains] by (simp add: curve512_def)
qed

lemma not_dvd_witness: "N = P * k + r \<Longrightarrow> 0 < r \<Longrightarrow> r < P \<Longrightarrow> \<not> P dvd (N :: int)"
  by (simp add: dvd_eq_mod_eq_0)

lemma curve256_smooth:
  "\<not> c_P curve256 dvd 4 * c_A curve256 * c_A curve256 * c_A curve256 + 27 * c_B curve256 * c_B curve256"
  by (rule not_dvd_witness
      [where k = "0x1be44663c0cbcc9718111e574c72575f3035da2a5d83d8f5660bc2dfcf7bf1a16e47fb1b964eba89d4b9e88c87e9d27ac6fdeb375b93e1430104e3ead804c5a71"
         and r = "0x6e226626ad4cd468e13e8e958c801135315c4deb0f7b56f5da8797e23eeda4a0"])
    (simp_all add: curve256_def)

lemma curve512_smooth:
  "\<not> c_P curve512 dvd 4 * c_A curve512 * c_A curve512 * c_A curve512 + 27 * c_B curve512 * c_B curve512"
proof -
  have a: "c_A curve512 = c_P curve512 - 3" by (simp add: curve512_def)
  have split: "4 * (m - 3) * (m - 3) * (m - 3) + 27 * b * b = (27 * b * b - 108) + m * (4 * m * m - 36 * m + 108)"
    for m b :: int by (simp add: algebra_simps)
  have "\<not> c_P curve512 dvd 27 * c_B curve512 * c_B curve512 - 108"
    by (rule not_dvd_witness
        [where k = "0x1651f4cb3c1b71946f8d00f230440666ab5350f47f6f22bae1d503ff0df31f5912d7e238683d81bbb81d373c943ed2ea1bdd982d08ab4dd02fb87321e01c2a6d7b"
           and r = "0x17176bd14d7f0f9731052642a2b2e4a039259d40da4361d422592caa433bd47694a6fc0e80843785e72d0f8a42d5eabcc2eac8522f16bbc78f2537cc4f9e1f7"])
      (simp_all add: curve512_def)
  then show ?thesis unfolding a split by (simp add: dvd_add_left_iff)
qed

text \<open>The coefficients of the Weierstrass form of an Edwards curve, without fractions.\<close>

definition edwards_form :: "Curve \<Rightarrow> int \<Rightarrow> int \<Rightarrow> bool" where
  "edwards_form cv ed d \<longleftrightarrow>
     c_P cv dvd 48 * c_A cv - (3 * (ed - d) * (ed - d) - 4 * (ed + d) * (ed + d)) \<and>
     c_P cv dvd 864 * c_B cv - (8 * (ed + d) * (ed + d) * (ed + d) - 9 * (ed + d) * (ed - d) * (ed - d))"

lemma curve256_edwards: "edwards_form curve256 (the (c_E curve256)) (the (c_D curve256))"
  unfolding edwards_form_def
proof
  let ?e = "the (c_E curve256)" and ?d = "the (c_D curve256)"
  show "c_P curve256 dvd 48 * c_A curve256 - (3 * (?e - ?d) * (?e - ?d) - 4 * (?e + ?d) * (?e + ?d))"
    by (rule dvdI [where k = "0x2447b42e056ab5bb90f58e21285c4735706cb4b32e2304ccef8a771dcc34dc"])
      (simp add: curve256_def)
  show "c_P curve256 dvd 864 * c_B curve256 - (8 * (?e + ?d) * (?e + ?d) * (?e + ?d) - 9 * (?e + ?d) * (?e - ?d) * (?e - ?d))"
    by (rule dvdI [where k = "0xda86968ad9647a9c1ade7cd188bebe0a89d44639264144c627178bad73263a1a47d751addacde22284590e28900ac3f220d5a9357e4a58ce8111b9898d70"])
      (simp add: curve256_def)
qed

lemma pointSize_curves: "pointSize (c_P curve256) = 32" "pointSize (c_P curve512) = 64"
  by (simp_all add: pointSize_def curve256_def curve512_def bit_len.simps)

text \<open>
  C24: The parameter sets. The constructors of both curves return a curve (they never panic): its base
  point has canonical coordinates and satisfies the curve equation, the curve is not singular, the
  256-bit curve is the Weierstrass form of its Edwards parameters with cofactor 4, and coordinates
  take 32 and 64 octets.
\<close>

theorem curve_parameters_valid:
  "CurveIdtc26gost341012256paramSetA = Some curve256 \<and> CurveIdtc26gost341012512paramSetA = Some curve512 \<and>
   on_curve curve256 (c_X curve256, c_Y curve256) \<and> on_curve curve512 (c_X curve512, c_Y curve512) \<and>
   \<not> c_P curve256 dvd 4 * c_A curve256 * c_A curve256 * c_A curve256 + 27 * c_B curve256 * c_B curve256 \<and>
   \<not> c_P curve512 dvd 4 * c_A curve512 * c_A curve512 * c_A curve512 + 27 * c_B curve512 * c_B curve512 \<and>
   edwards_form curve256 (the (c_E curve256)) (the (c_D curve256)) \<and> c_Co curve256 = 4 \<and> c_Co curve512 = 1 \<and>
   pointSize (c_P curve256) = 32 \<and> pointSize (c_P curve512) = 64"
proof (intro conjI)
  show "on_curve curve256 (c_X curve256, c_Y curve256)"
    using curve256_contains unfolding on_curve_def fst_conv snd_conv by (simp add: curve256_def)
  show "on_curve curve512 (c_X curve512, c_Y curve512)"
    using curve512_contains unfolding on_curve_def fst_conv snd_conv by (simp add: curve512_def)
qed (simp_all only: new_curve256 new_curve512 curve256_smooth curve512_smooth curve256_edwards pointSize_curves,
    simp_all add: curve256_def curve512_def)

end
