(* ===== verification/Cert_Signature.thy ===== *)
theory Cert_Signature
  imports DER Gost_Params
begin

text \<open>
  Signatures of certificates and OCSP responses (\<^verbatim>\<open>internal/certsig\<close>): the choice of the
  verifier by the algorithm, the checks that an encoding is canonical, and the verification of ST RK
  GOST R 34.10-2015. The verifiers of \<^verbatim>\<open>crypto/x509\<close> for other algorithms are arguments. The
  theorem describes the accepted GOST signatures down to the curve equation and the hash of RFC 6986.
\<close>

section \<open>Libraries\<close>

text \<open>\<open>CheckSignatureFrom\<close> and \<open>x509CheckSignature\<close> are the methods of
  \<^verbatim>\<open>x509.Certificate\<close>; \<open>SHA1\<close> is \<^verbatim>\<open>sha1.Sum\<close>; \<open>TimeText\<close> reads the text of an
  ASN.1 instant with the given tag.\<close>

record cryptolib = pkilib +
  CheckSignatureFrom :: "certificate \<Rightarrow> certificate \<Rightarrow> gerror option"
  x509CheckSignature :: "certificate \<Rightarrow> nat \<Rightarrow> bytes \<Rightarrow> bytes \<Rightarrow> gerror option"
  SHA1 :: "bytes \<Rightarrow> bytes"
  TimeText :: "nat \<Rightarrow> bytes \<Rightarrow> gotime option"

definition ErrUnsupportedAlgorithm :: gerror where
  "ErrUnsupportedAlgorithm = plainError ''x509: cannot verify signature: algorithm unimplemented''"

definition ConstraintViolationError :: gerror where
  "ConstraintViolationError = plainError
     ''x509: invalid signature: parent certificate cannot sign this kind of certificate''"

definition KeyUsageCertSign :: nat where
  "KeyUsageCertSign = 32"

definition oid_text :: "oid \<Rightarrow> gostring" where
  "oid_text i = concat (case map (format_nat 10) i of [] \<Rightarrow> [] | a # as \<Rightarrow> a # map (\<lambda>s. ''.'' @ s) as)"

section \<open>Algorithms\<close>

definition oidSignatureKazakhGost2015Digest256 :: oid where
  "oidSignatureKazakhGost2015Digest256 = [1, 2, 398, 3, 10, 1, 1, 2, 3, 1]"
definition oidPublicKeyKazakhGost2015Digest256 :: oid where
  "oidPublicKeyKazakhGost2015Digest256 = [1, 2, 398, 3, 10, 1, 1, 2, 1]"
definition oidKazakhGost2015Curve256 :: oid where
  "oidKazakhGost2015Curve256 = [1, 2, 398, 3, 10, 1, 1, 2, 1, 1]"
definition oidKazakhGost2015Digest256 :: oid where
  "oidKazakhGost2015Digest256 = [1, 2, 398, 3, 10, 1, 3, 2]"
definition oidSignatureKazakhGost2015Digest512 :: oid where
  "oidSignatureKazakhGost2015Digest512 = [1, 2, 398, 3, 10, 1, 1, 2, 3, 2]"
definition oidPublicKeyKazakhGost2015Digest512 :: oid where
  "oidPublicKeyKazakhGost2015Digest512 = [1, 2, 398, 3, 10, 1, 1, 2, 2]"
definition oidKazakhGost2015Curve512 :: oid where
  "oidKazakhGost2015Curve512 = [1, 2, 398, 3, 10, 1, 1, 2, 2, 1]"
definition oidKazakhGost2015Digest512 :: oid where
  "oidKazakhGost2015Digest512 = [1, 2, 398, 3, 10, 1, 3, 3]"

text \<open>The numbers are those of \<^verbatim>\<open>x509.SignatureAlgorithm\<close>.\<close>

definition x509Algorithm :: "oid \<Rightarrow> nat" where
  "x509Algorithm algorithm =
     (if algorithm = [1, 2, 840, 113549, 1, 1, 5] then 3
      else if algorithm = [1, 2, 840, 113549, 1, 1, 11] then 4
      else if algorithm = [1, 2, 840, 113549, 1, 1, 12] then 5
      else if algorithm = [1, 2, 840, 113549, 1, 1, 13] then 6
      else if algorithm = [1, 2, 840, 10045, 4, 1] then 9
      else if algorithm = [1, 2, 840, 10045, 4, 3, 2] then 10
      else if algorithm = [1, 2, 840, 10045, 4, 3, 3] then 11
      else if algorithm = [1, 2, 840, 10045, 4, 3, 4] then 12
      else if algorithm = [1, 3, 101, 112] then 16
      else 0)"

section \<open>Canonical encodings\<close>

definition matchesASN1Encoding :: "bytes \<Rightarrow> bytes option \<Rightarrow> bool" where
  "matchesASN1Encoding encoded canonical \<longleftrightarrow> canonical = Some encoded"

definition NullBytes :: bytes where
  "NullBytes = [CHR 0x05, CHR 0x00]"

definition validGostSignatureParameters :: "rawValue \<Rightarrow> bool" where
  "validGostSignatureParameters p \<longleftrightarrow>
     rv_Class p = 0 \<and> rv_Tag p = 0 \<and> \<not> rv_IsCompound p \<and> rv_Bytes p = [] \<and> rv_FullBytes p = [] \<or>
     matchesASN1Encoding NullBytes (Some (marshalRaw p))"

text \<open>The signed prefix of a certificate, the three parts of a certificate and a public key.\<close>

record tbsPrefix =
  tp_Version :: int
  tp_SerialNumber :: rawValue
  tp_Algorithm :: rawValue

definition prefix_form :: "tbsPrefix form" where
  "prefix_form = struct_form (\<lambda>bs. do {
     (version, bs) \<leftarrow> parseExplicit 0 int_form 0 bs;
     (serial, bs) \<leftarrow> parseRaw bs;
     (algorithm, bs) \<leftarrow> parseRaw bs;
     Some (\<lparr>tp_Version = version, tp_SerialNumber = serial, tp_Algorithm = algorithm\<rparr>, bs) })"

definition gostCertificateAlgorithmsMatch :: "rawValue \<Rightarrow> algorithmIdentifier \<Rightarrow> bool" where
  "gostCertificateAlgorithmsMatch tbs outer =
     (if rv_Class tbs \<noteq> 0 \<or> rv_Tag tbs \<noteq> 16 \<or> \<not> rv_IsCompound tbs then False
      else case whole (parseForm prefix_form (rv_FullBytes tbs)) of
        None \<Rightarrow> False
      | Some p \<Rightarrow>
          if rv_Class (tp_SerialNumber p) \<noteq> 0 \<or> rv_Tag (tp_SerialNumber p) \<noteq> 2 \<or> rv_IsCompound (tp_SerialNumber p)
          then False
          else matchesASN1Encoding (rv_FullBytes (tp_Algorithm p)) (marshalAlgorithm outer))"

record signedParts =
  sp_TBS :: rawValue
  sp_Algorithm :: algorithmIdentifier
  sp_Signature :: bitString

definition signed_form :: "signedParts form" where
  "signed_form = struct_form (\<lambda>bs. do {
     (tbs, bs) \<leftarrow> parseRaw bs;
     (algorithm, bs) \<leftarrow> parseForm algorithm_form bs;
     (signature, bs) \<leftarrow> parseForm bits_form bs;
     Some (\<lparr>sp_TBS = tbs, sp_Algorithm = algorithm, sp_Signature = signature\<rparr>, bs) })"

definition marshalSigned :: "signedParts \<Rightarrow> bytes option" where
  "marshalSigned p = (case marshalAlgorithm (sp_Algorithm p) of
     None \<Rightarrow> None
   | Some a \<Rightarrow> Some (marshalValue 16 True (marshalRaw (sp_TBS p) @ a @ marshalBits (sp_Signature p))))"

record keyInfo =
  ki_Algorithm :: algorithmIdentifier
  ki_PublicKey :: bitString

definition key_form :: "keyInfo form" where
  "key_form = struct_form (\<lambda>bs. do {
     (algorithm, bs) \<leftarrow> parseForm algorithm_form bs;
     (key, bs) \<leftarrow> parseForm bits_form bs;
     Some (\<lparr>ki_Algorithm = algorithm, ki_PublicKey = key\<rparr>, bs) })"

definition marshalKey :: "keyInfo \<Rightarrow> bytes option" where
  "marshalKey k = (case marshalAlgorithm (ki_Algorithm k) of
     None \<Rightarrow> None
   | Some a \<Rightarrow> Some (marshalValue 16 True (a @ marshalBits (ki_PublicKey k))))"

section \<open>GOST signatures\<close>

definition kazakhGost2015Parameters :: "bytes \<Rightarrow> gerror + oid \<times> oid" where
  "kazakhGost2015Parameters encoded = (case whole (parseRaw encoded) of
     None \<Rightarrow> Inl (plainError ''expected a parameter sequence'')
   | Some s \<Rightarrow>
       if rv_Class s \<noteq> 0 \<or> rv_Tag s \<noteq> 16 \<or> \<not> rv_IsCompound s
       then Inl (plainError ''expected a parameter sequence'')
       else case parseForm oid_form (rv_Bytes s) of
         None \<Rightarrow> Inl (plainError ''asn1: syntax error'')
       | Some (curve, rest) \<Rightarrow>
           if rest = [] then Inr (curve, [])
           else case whole (parseForm oid_form rest) of
             None \<Rightarrow> Inl (plainError ''expected a single digest OID'')
           | Some digest \<Rightarrow> Inr (curve, digest))"

definition octets_of :: "bytes \<Rightarrow> octets" where
  "octets_of bs = map (\<lambda>c. of_nat (of_char c)) bs"

definition verify_error_text :: "verifyError \<Rightarrow> gostring" where
  "verify_error_text e = (case e of
     SignatureLength n m \<Rightarrow> ''gogost/gost3410: len(signature)='' @ format_nat 10 n @ '' != '' @ format_nat 10 m
   | ExpError NonpositiveDegree \<Rightarrow> ''gogost/gost3410: nonpositive degree value''
   | ExpError InfinitePoint \<Rightarrow> ''gogost/gost3410: point at infinity'')"

text \<open>What the algorithm selects; a curve whose constructor would panic is missing.\<close>

record gostProfile =
  gp_name :: gostring
  gp_publicKey :: oid
  gp_curveOID :: oid
  gp_digestOID :: oid
  gp_curve :: "Curve option"
  gp_hash :: "Hash option"

definition gostProfile_of :: "oid \<Rightarrow> gostProfile" where
  "gostProfile_of algorithm =
     (if algorithm = oidSignatureKazakhGost2015Digest256
      then \<lparr>gp_name = ''ST RK GOST R 34.10-2015 256'', gp_publicKey = oidPublicKeyKazakhGost2015Digest256,
            gp_curveOID = oidKazakhGost2015Curve256, gp_digestOID = oidKazakhGost2015Digest256,
            gp_curve = CurveIdtc26gost341012256paramSetA, gp_hash = New256\<rparr>
      else \<lparr>gp_name = ''ST RK GOST R 34.10-2015 512'', gp_publicKey = oidPublicKeyKazakhGost2015Digest512,
            gp_curveOID = oidKazakhGost2015Curve512, gp_digestOID = oidKazakhGost2015Digest512,
            gp_curve = CurveIdtc26gost341012512paramSetA, gp_hash = New512\<rparr>)"

text \<open>The key of a signer on the selected curve, or the error.\<close>

definition gost_key :: "gostProfile \<Rightarrow> Curve \<Rightarrow> certificate \<Rightarrow> gerror + PublicKey" where
  "gost_key g cv signer =
     (case whole (parseForm key_form (x_RawSubjectPublicKeyInfo signer)) of
        None \<Rightarrow> Inl (plainError ''certsig: malformed public key'')
      | Some key \<Rightarrow>
          if bit_Length (ki_PublicKey key) mod 8 \<noteq> 0 \<or>
             \<not> matchesASN1Encoding (x_RawSubjectPublicKeyInfo signer) (marshalKey key)
          then Inl (plainError ''certsig: malformed public key'')
          else if ai_Algorithm (ki_Algorithm key) \<noteq> gp_publicKey g
          then Inl (plainError (''certsig: issuer public key algorithm '' @ oid_text (ai_Algorithm (ki_Algorithm key)) @
                 '' cannot verify a '' @ gp_name g @ '' signature''))
          else case kazakhGost2015Parameters (rv_FullBytes (ai_Parameters (ki_Algorithm key))) of
            Inl err \<Rightarrow> Inl (WrapError (''certsig: malformed '' @ gp_name g @ '' public key parameters: '' @ error_text err) (Some err))
          | Inr (curveOID, digestOID) \<Rightarrow>
              if curveOID \<noteq> gp_curveOID g
              then Inl (WrapError (''certsig: '' @ gp_name g @ '' curve '' @ oid_text curveOID @ '': '' @
                     error_text ErrUnsupportedAlgorithm) (Some ErrUnsupportedAlgorithm))
              else if digestOID \<noteq> [] \<and> digestOID \<noteq> gp_digestOID g
              then Inl (WrapError (''certsig: '' @ gp_name g @ '' digest '' @ oid_text digestOID @ '': '' @
                     error_text ErrUnsupportedAlgorithm) (Some ErrUnsupportedAlgorithm))
              else case whole (parseForm octets_form (RightAlign (ki_PublicKey key))) of
                None \<Rightarrow> Inl (plainError (''certsig: malformed '' @ gp_name g @ '' public key''))
              | Some point \<Rightarrow> (case NewPublicKeyLE cv (octets_of point) of
                  None \<Rightarrow> Inl (plainError (''certsig: invalid '' @ gp_name g @ '' public key''))
                | Some pk \<Rightarrow>
                    if \<not> Curve_IsInSubgroup cv (pk_X pk) (pk_Y pk)
                    then Inl (plainError (''certsig: invalid '' @ gp_name g @ '' public key''))
                    else Inr pk))"

definition verifyKazakhGost2015 :: "certificate \<Rightarrow> oid \<Rightarrow> bytes \<Rightarrow> bytes \<Rightarrow> gerror option" where
  "verifyKazakhGost2015 signer algorithm content signature =
     (let g = gostProfile_of algorithm in
      case gost_key g (the (gp_curve g)) signer of
        Inl err \<Rightarrow> Some err
      | Inr pk \<Rightarrow>
          let h = snd (Hash_Write (octets_of content) (the (gp_hash g))) in
          (case ReverseDigestAndSignature_VerifyDigest pk (Hash_Sum [] h) (octets_of signature) of
             Inl err \<Rightarrow> Some (WrapError (''certsig: '' @ gp_name g @ '' verification failure: '' @ verify_error_text err)
                          (Some (plainError (verify_error_text err))))
           | Inr valid \<Rightarrow>
               if valid then None else Some (plainError (''certsig: '' @ gp_name g @ '' verification failure''))))"

section \<open>Checks\<close>

definition is_gost :: "oid \<Rightarrow> bool" where
  "is_gost algorithm \<longleftrightarrow>
     algorithm = oidSignatureKazakhGost2015Digest256 \<or> algorithm = oidSignatureKazakhGost2015Digest512"

text \<open>Pointers that are nil are \<^const>\<open>None\<close>.\<close>

definition CheckSignature ::
  "'k cryptolib_scheme \<Rightarrow> certificate option \<Rightarrow> algorithmIdentifier \<Rightarrow> bytes \<Rightarrow> bytes \<Rightarrow> gerror option" where
  "CheckSignature K signer algorithm content signature = (case signer of
     None \<Rightarrow> Some (plainError ''certsig: missing signer'')
   | Some signer \<Rightarrow>
       if is_gost (ai_Algorithm algorithm)
       then (if \<not> validGostSignatureParameters (ai_Parameters algorithm)
             then Some (plainError ''certsig: malformed GOST signature parameters'')
             else verifyKazakhGost2015 signer (ai_Algorithm algorithm) content signature)
       else if x509Algorithm (ai_Algorithm algorithm) = 0 then Some ErrUnsupportedAlgorithm
       else x509CheckSignature K signer (x509Algorithm (ai_Algorithm algorithm)) content signature)"

definition issuer_violation :: "certificate \<Rightarrow> bool" where
  "issuer_violation issuer \<longleftrightarrow>
     x_Version issuer = 3 \<and> \<not> x_BasicConstraintsValid issuer \<or> x_BasicConstraintsValid issuer \<and> \<not> x_IsCA issuer \<or>
     x_KeyUsage issuer \<noteq> 0 \<and> \<not> bit (x_KeyUsage issuer) 5"

definition CheckCertificateSignature ::
  "'k cryptolib_scheme \<Rightarrow> certificate option \<Rightarrow> certificate option \<Rightarrow> gerror option" where
  "CheckCertificateSignature K cert issuer = (case (cert, issuer) of
     (Some cert, Some issuer) \<Rightarrow>
       if x_SignatureAlgorithm cert \<noteq> 0 then CheckSignatureFrom K cert issuer
       else (case whole (parseForm signed_form (x_Raw cert)) of
         None \<Rightarrow> Some (plainError ''certsig: malformed certificate'')
       | Some parts \<Rightarrow>
           if \<not> is_gost (ai_Algorithm (sp_Algorithm parts)) then CheckSignatureFrom K cert issuer
           else if \<not> matchesASN1Encoding (x_Raw cert) (marshalSigned parts) \<or>
                   bit_Length (sp_Signature parts) mod 8 \<noteq> 0 \<or>
                   rv_FullBytes (sp_TBS parts) \<noteq> x_RawTBSCertificate cert \<or>
                   bit_Bytes (sp_Signature parts) \<noteq> x_Signature cert \<or>
                   \<not> gostCertificateAlgorithmsMatch (sp_TBS parts) (sp_Algorithm parts)
           then Some (plainError ''certsig: malformed GOST certificate'')
           else if issuer_violation issuer then Some ConstraintViolationError
           else CheckSignature K (Some issuer) (sp_Algorithm parts) (x_RawTBSCertificate cert) (x_Signature cert))
   | _ \<Rightarrow> Some (plainError ''certsig: missing certificate or issuer''))"

section \<open>Accepted GOST signatures\<close>

text \<open>What a profile accepts, over the reference hash and the curve equation.\<close>

definition digest_size :: "oid \<Rightarrow> nat" where
  "digest_size algorithm = (if algorithm = oidSignatureKazakhGost2015Digest256 then 32 else 64)"

definition gost_curve :: "oid \<Rightarrow> Curve" where
  "gost_curve algorithm = (if algorithm = oidSignatureKazakhGost2015Digest256 then curve256 else curve512)"

definition gost_signed :: "certificate \<Rightarrow> oid \<Rightarrow> bytes \<Rightarrow> bytes \<Rightarrow> bool" where
  "gost_signed signer algorithm content signature \<longleftrightarrow>
     (\<exists>pk. gost_key (gostProfile_of algorithm) (gost_curve algorithm) signer = Inr pk \<and>
        pk_C pk = gost_curve algorithm \<and> Curve_IsInSubgroup (gost_curve algorithm) (pk_X pk) (pk_Y pk) \<and>
        gost_accepts pk (rev (streebog (digest_size algorithm) (octets_of content))) (rev (octets_of signature)))"

lemma profile_curve: "the (gp_curve (gostProfile_of algorithm)) = gost_curve algorithm"
  by (simp add: gostProfile_of_def gost_curve_def new_curve256 new_curve512)

lemma profile_hash: "gp_hash (gostProfile_of algorithm) = Hash_New (digest_size algorithm)"
  by (simp add: gostProfile_of_def digest_size_def New256_def New512_def)

lemma profile_hash_some: "\<exists>h. gp_hash (gostProfile_of algorithm) = Some h"
  by (simp add: profile_hash digest_size_def Hash_New_def)

lemma gost_curve_order: "0 < c_Q (gost_curve algorithm)"
  by (simp add: gost_curve_def curve256_def curve512_def)

lemma NewPublicKeyLE_curve: "NewPublicKeyLE cv raw = Some pk \<Longrightarrow> pk_C pk = cv"
  by (auto simp: NewPublicKeyLE_def Let_def split: if_splits)

lemma gost_key_valid:
  "gost_key g cv signer = Inr pk \<Longrightarrow> pk_C pk = cv \<and> Curve_IsInSubgroup cv (pk_X pk) (pk_Y pk)"
  unfolding gost_key_def
  by (auto simp: NewPublicKeyLE_curve split: option.splits sum.splits if_splits prod.splits)

lemma hash_once:
  assumes "length content < 2 ^ 61"
  shows "Hash_Sum [] (snd (Hash_Write (octets_of content) (the (gp_hash (gostProfile_of algorithm))))) =
    streebog (digest_size algorithm) (octets_of content)"
proof -
  obtain h where h: "gp_hash (gostProfile_of algorithm) = Some h" using profile_hash_some by blast
  have "length (concat [octets_of content]) < 2 ^ 61" using assms by (simp add: octets_of_def)
  from digest_reference [OF h [unfolded profile_hash] this, of "[]"] h show ?thesis by (simp add: write_all_def)
qed

lemma gost_verified:
  assumes "length content < 2 ^ 61"
  shows "verifyKazakhGost2015 signer algorithm content signature = None \<longleftrightarrow> gost_signed signer algorithm content signature"
proof (cases "gost_key (gostProfile_of algorithm) (gost_curve algorithm) signer")
  case (Inl err)
  then show ?thesis by (simp add: verifyKazakhGost2015_def gost_signed_def profile_curve)
next
  case (Inr pk)
  note valid = gost_key_valid [OF Inr]
  have "verifyKazakhGost2015 signer algorithm content signature = None \<longleftrightarrow>
      ReverseDigestAndSignature_VerifyDigest pk (streebog (digest_size algorithm) (octets_of content)) (octets_of signature) = Inr True"
    using Inr by (simp add: verifyKazakhGost2015_def profile_curve hash_once [OF assms] Let_def split: sum.splits)
  also have "\<dots> \<longleftrightarrow> gost_accepts pk (rev (streebog (digest_size algorithm) (octets_of content))) (rev (octets_of signature))"
    unfolding ReverseDigestAndSignature_VerifyDigest_def
    using valid gost_curve_order by (intro verify_accepts) simp
  finally show ?thesis using Inr valid by (simp add: gost_signed_def)
qed

text \<open>A certificate of a profile whose two encodings agree: it re-encodes to the bytes it was parsed
  from, the library's view of it is that of the encoding, and the algorithm outside the signed part is
  the one inside.\<close>

definition canonical_gost :: "certificate \<Rightarrow> signedParts \<Rightarrow> bool" where
  "canonical_gost cert parts \<longleftrightarrow>
     marshalSigned parts = Some (x_Raw cert) \<and> 8 dvd bit_Length (sp_Signature parts) \<and>
     rv_FullBytes (sp_TBS parts) = x_RawTBSCertificate cert \<and> bit_Bytes (sp_Signature parts) = x_Signature cert \<and>
     gostCertificateAlgorithmsMatch (sp_TBS parts) (sp_Algorithm parts)"


section \<open>Examples\<close>

text \<open>A certificate with the 256-bit profile in both places, and no public key to verify it with.\<close>

definition sample_gost_tbs :: bytes where
  "sample_gost_tbs = [CHR 0x30, CHR 0x11, CHR 0x02, CHR 0x01, CHR 0x01, CHR 0x30, CHR 0x0C, CHR 0x06, CHR 0x0A, CHR 0x2A,
     CHR 0x83, CHR 0x0E, CHR 0x03, CHR 0x0A, CHR 0x01, CHR 0x01, CHR 0x02, CHR 0x03, CHR 0x01]"

definition sample_gost_raw :: bytes where
  "sample_gost_raw = [CHR 0x30, CHR 0x25] @ sample_gost_tbs @
     [CHR 0x30, CHR 0x0C, CHR 0x06, CHR 0x0A, CHR 0x2A, CHR 0x83, CHR 0x0E, CHR 0x03, CHR 0x0A, CHR 0x01,
     CHR 0x01, CHR 0x02, CHR 0x03, CHR 0x01, CHR 0x03, CHR 0x02, CHR 0x00, CHR 0xAA]"

definition sample_gost_certificate :: certificate where
  "sample_gost_certificate = \<lparr>x_Raw = sample_gost_raw, x_RawTBSCertificate = sample_gost_tbs, x_RawSubject = [],
     x_RawIssuer = [], x_RawSubjectPublicKeyInfo = [], x_SerialNumber = 1, x_NotBefore = zero_time,
     x_NotAfter = zero_time, x_ExtKeyUsage = [], x_UnhandledCriticalExtensions = [],
     x_Extensions = [], x_KeyUsage = 0, x_Version = 1, x_SignatureAlgorithm = 0, x_Signature = [CHR 0xAA],
     x_BasicConstraintsValid = False, x_IsCA = False, x_AuthorityKeyId = [], x_SubjectKeyId = []\<rparr>"

definition sample_gost_parts :: signedParts where
  "sample_gost_parts =
     \<lparr>sp_TBS = \<lparr>rv_Class = 0, rv_Tag = 16, rv_IsCompound = True, rv_Bytes = drop 2 sample_gost_tbs,
                rv_FullBytes = sample_gost_tbs\<rparr>,
      sp_Algorithm = \<lparr>ai_Algorithm = oidSignatureKazakhGost2015Digest256, ai_Parameters = zeroRaw\<rparr>,
      sp_Signature = \<lparr>bit_Bytes = [CHR 0xAA], bit_Length = 8\<rparr>\<rparr>"

lemmas sample_gost_eval = sample_gost_parts_def sample_gost_raw_def sample_gost_tbs_def oidSignatureKazakhGost2015Digest256_def

lemma sample_gost_parsed: "whole (parseForm signed_form sample_gost_raw) = Some sample_gost_parts"
  by (simp add: der_eval signed_form_def sample_gost_eval)

lemma sample_gost_encoded: "marshalSigned sample_gost_parts = Some sample_gost_raw"
  by (simp add: der_encode marshalSigned_def sample_gost_eval)

lemma sample_gost_matches:
  "gostCertificateAlgorithmsMatch (sp_TBS sample_gost_parts) (sp_Algorithm sample_gost_parts)"
  by (simp add: gostCertificateAlgorithmsMatch_def prefix_form_def der_eval der_encode matchesASN1Encoding_def sample_gost_eval)

lemma sample_gost_canonical: "canonical_gost sample_gost_certificate sample_gost_parts"
  unfolding canonical_gost_def sample_gost_encoded
  using sample_gost_matches by (simp add: sample_gost_certificate_def sample_gost_parts_def)

lemma sample_gost_profile:
  "is_gost (ai_Algorithm (sp_Algorithm sample_gost_parts))"
  "validGostSignatureParameters (ai_Parameters (sp_Algorithm sample_gost_parts))"
  "length sample_gost_tbs = 19"
  by (simp_all add: is_gost_def validGostSignatureParameters_def zeroRaw_def sample_gost_parts_def sample_gost_tbs_def)

lemma no_key_no_signature: "x_RawSubjectPublicKeyInfo signer = [] \<Longrightarrow> \<not> gost_signed signer algorithm content signature"
  by (auto simp: gost_signed_def gost_key_def parseForm_def parseTagAndLength_def whole_def)


end
