(* ===== verification/OCSP_Response.thy ===== *)
theory OCSP_Response
  imports Cert_Signature
begin

text \<open>
  OCSP responses (\<^verbatim>\<open>ocsp.go\<close>, \<^verbatim>\<open>ocsp_certificate.go\<close>): the request, the decoding of a
  response, the second pass over its structure, the choice of the responder and the checks of
  freshness. The theorem states exactly which responses are accepted, and with which status.
\<close>

section \<open>Instants\<close>

text \<open>Nanoseconds since the epoch; \<^verbatim>\<open>Time.Sub\<close> saturates.\<close>

definition instant :: "gotime \<Rightarrow> int" where
  "instant t = sint (tsec t) * 1000000000 + sint (tnsec t)"

definition time_Sub :: "gotime \<Rightarrow> gotime \<Rightarrow> int" where
  "time_Sub t u = max (- (2 ^ 63)) (min (2 ^ 63 - 1) (instant t - instant u))"

definition kalkanOCSPMaxResponseBytes :: nat where
  "kalkanOCSPMaxResponseBytes = 1048576"

definition kalkanOCSPMaxAge :: int where
  "kalkanOCSPMaxAge = 60 * 60 * 1000000000"

definition kalkanRevocationClockSkew :: int where
  "kalkanRevocationClockSkew = 5 * 60 * 1000000000"

section \<open>Certificates with negative serial numbers\<close>

definition joined :: "bytes option \<Rightarrow> bytes \<Rightarrow> bytes \<Rightarrow> bytes" where
  "joined version remaining trailer =
     (let positiveTBS = marshalValue 16 True
            ((case version of None \<Rightarrow> [] | Some v \<Rightarrow> v) @ [CHR 0x02, CHR 0x01, CHR 0x01] @ remaining)
      in marshalValue 16 True (positiveTBS @ trailer))"

definition is_sequence :: "rawValue \<Rightarrow> bool" where
  "is_sequence v \<longleftrightarrow> rv_Tag v = 16 \<and> rv_Class v = 0 \<and> rv_IsCompound v"

text \<open>The serial number of the encoding and the same certificate with serial number 1, if the encoding
  has the shape of a certificate and its serial number is negative.\<close>

definition negativeSerial :: "bytes \<Rightarrow> (rawValue \<times> int \<times> bytes) option" where
  "negativeSerial der = do {
     outer \<leftarrow> whole (parseRaw der);
     (if is_sequence outer then Some () else None);
     (tbs, trailer) \<leftarrow> parseRaw (rv_Bytes outer);
     (if is_sequence tbs then Some () else None);
     (first, remaining) \<leftarrow> parseRaw (rv_Bytes tbs);
     (version, first, remaining) \<leftarrow>
       (if rv_Class first = 2 \<and> rv_Tag first = 0
        then (case parseRaw remaining of None \<Rightarrow> None
              | Some (second, rest) \<Rightarrow> Some (Some (rv_FullBytes first), second, rest))
        else Some (None, first, remaining));
     serial \<leftarrow> whole (parseForm big_form (rv_FullBytes first));
     (if serial < 0 then Some (tbs, serial, joined version remaining trailer) else None) }"

definition parseOCSPDERCertificate :: "'k cryptolib_scheme \<Rightarrow> bytes \<Rightarrow> gerror + certificate" where
  "parseOCSPDERCertificate K der = (case ParseCertificate K der of
     Inr cert \<Rightarrow> Inr cert
   | Inl originalErr \<Rightarrow> (case negativeSerial der of
       None \<Rightarrow> Inl originalErr
     | Some (tbs, serial, positive) \<Rightarrow> (case ParseCertificate K positive of
         Inl err \<Rightarrow> Inl originalErr
       | Inr cert \<Rightarrow> Inr (cert\<lparr>x_Raw := der, x_RawTBSCertificate := rv_FullBytes tbs, x_SerialNumber := serial\<rparr>))))"

section \<open>Identifiers of certificates\<close>

definition oidSHA1 :: oid where "oidSHA1 = [1, 3, 14, 3, 2, 26]"
definition oidOCSPBasic :: oid where "oidOCSPBasic = [1, 3, 6, 1, 5, 5, 7, 48, 1, 1]"

record ocspCertID =
  cid_HashAlgorithm :: algorithmIdentifier
  cid_IssuerNameHash :: bytes
  cid_IssuerKeyHash :: bytes
  cid_SerialNumber :: "int option"

definition ocspCertID_matches :: "ocspCertID \<Rightarrow> ocspCertID \<Rightarrow> bool" where
  "ocspCertID_matches i other \<longleftrightarrow>
     ai_Algorithm (cid_HashAlgorithm other) = ai_Algorithm (cid_HashAlgorithm i) \<and>
     cid_IssuerNameHash other = cid_IssuerNameHash i \<and> cid_IssuerKeyHash other = cid_IssuerKeyHash i \<and>
     cid_SerialNumber i \<noteq> None \<and> cid_SerialNumber other \<noteq> None \<and> cid_SerialNumber other = cid_SerialNumber i"

definition NullRawValue :: rawValue where
  "NullRawValue = \<lparr>rv_Class = 0, rv_Tag = 5, rv_IsCompound = False, rv_Bytes = [], rv_FullBytes = []\<rparr>"

definition kalkanOCSPPublicKeyHash :: "'k cryptolib_scheme \<Rightarrow> certificate \<Rightarrow> gerror + bytes" where
  "kalkanOCSPPublicKeyHash K cert =
     (case whole (parseForm key_form (x_RawSubjectPublicKeyInfo cert)) of
        None \<Rightarrow> Inl (plainError ''the certificate public key is malformed'')
      | Some key \<Rightarrow> Inr (SHA1 K (RightAlign (ki_PublicKey key))))"

definition kalkanOCSPCertID :: "'k cryptolib_scheme \<Rightarrow> int \<Rightarrow> certificate \<Rightarrow> gerror + ocspCertID" where
  "kalkanOCSPCertID K serial issuer = (case kalkanOCSPPublicKeyHash K issuer of
     Inl err \<Rightarrow> Inl (plainError ''the issuer public key is malformed'')
   | Inr keyHash \<Rightarrow> Inr \<lparr>cid_HashAlgorithm = \<lparr>ai_Algorithm = oidSHA1, ai_Parameters = NullRawValue\<rparr>,
       cid_IssuerNameHash = SHA1 K (x_RawSubject issuer), cid_IssuerKeyHash = keyHash, cid_SerialNumber = Some serial\<rparr>)"

definition marshalCertID :: "ocspCertID \<Rightarrow> bytes option" where
  "marshalCertID i = (case (marshalAlgorithm (cid_HashAlgorithm i), cid_SerialNumber i) of
     (Some a, Some serial) \<Rightarrow> Some (marshalValue 16 True
       (a @ marshalValue 4 False (cid_IssuerNameHash i) @ marshalValue 4 False (cid_IssuerKeyHash i) @ marshalBig serial))
   | _ \<Rightarrow> None)"

text \<open>The request wraps the identifier in the sequences of Request, its list, TBSRequest and
  OCSPRequest.\<close>

definition kalkanOCSPRequest :: "ocspCertID \<Rightarrow> gerror + bytes" where
  "kalkanOCSPRequest i = (case marshalCertID i of
     None \<Rightarrow> Inl (plainError ''asn1: structure error: invalid value'')
   | Some d \<Rightarrow> Inr (marshalValue 16 True (marshalValue 16 True (marshalValue 16 True (marshalValue 16 True d)))))"

section \<open>Decoding\<close>

record ocspResponse =
  or_Status :: int
  or_Type :: oid
  or_Response :: bytes

record ocspSingleResponse =
  sr_CertID :: ocspCertID
  sr_CertStatus :: rawValue
  sr_ThisUpdate :: gotime
  sr_NextUpdate :: gotime
  sr_Extensions :: "extension list"

record ocspResponseData =
  rd_Raw :: bytes
  rd_Version :: int
  rd_ResponderID :: rawValue
  rd_ProducedAt :: gotime
  rd_Responses :: "ocspSingleResponse list"
  rd_Extensions :: "extension list"

record ocspBasicResponse =
  br_TBSResponseData :: ocspResponseData
  br_SignatureAlgorithm :: algorithmIdentifier
  br_Signature :: bitString
  br_Certificates :: "rawValue list"

record ocspRevokedInfo =
  ri_RevocationTime :: gotime
  ri_Reason :: int

definition responseBytes_form :: "(oid \<times> bytes) form" where
  "responseBytes_form = struct_form (\<lambda>bs. do {
     (kind, bs) \<leftarrow> parseForm oid_form bs;
     (response, bs) \<leftarrow> parseForm octets_form bs;
     Some ((kind, response), bs) })"

definition ocspResponse_form :: "ocspResponse form" where
  "ocspResponse_form = struct_form (\<lambda>bs. do {
     (status, bs) \<leftarrow> parseForm enumerated_form bs;
     ((kind, response), bs) \<leftarrow> parseExplicit 0 responseBytes_form ([], []) bs;
     Some (\<lparr>or_Status = status, or_Type = kind, or_Response = response\<rparr>, bs) })"

definition certID_form :: "ocspCertID form" where
  "certID_form = struct_form (\<lambda>bs. do {
     (algorithm, bs) \<leftarrow> parseForm algorithm_form bs;
     (nameHash, bs) \<leftarrow> parseForm octets_form bs;
     (keyHash, bs) \<leftarrow> parseForm octets_form bs;
     (serial, bs) \<leftarrow> parseForm big_form bs;
     Some (\<lparr>cid_HashAlgorithm = algorithm, cid_IssuerNameHash = nameHash, cid_IssuerKeyHash = keyHash,
            cid_SerialNumber = Some serial\<rparr>, bs) })"

definition single_form :: "'k cryptolib_scheme \<Rightarrow> ocspSingleResponse form" where
  "single_form K = struct_form (\<lambda>bs. do {
     (i, bs) \<leftarrow> parseForm certID_form bs;
     (status, bs) \<leftarrow> parseRaw bs;
     (thisUpdate, bs) \<leftarrow> parseForm (time_form (TimeText K)) bs;
     (nextUpdate, bs) \<leftarrow> parseExplicit 0 (time_form (TimeText K)) zero_time bs;
     (extensions, bs) \<leftarrow> parseExplicit 1 (list_form extension_form) [] bs;
     Some (\<lparr>sr_CertID = i, sr_CertStatus = status, sr_ThisUpdate = thisUpdate, sr_NextUpdate = nextUpdate,
            sr_Extensions = extensions\<rparr>, bs) })"

definition responseData_form :: "'k cryptolib_scheme \<Rightarrow> ocspResponseData form" where
  "responseData_form K = struct_form (\<lambda>bs. do {
     (version, bs) \<leftarrow> parseExplicit 0 int_form 0 bs;
     (responder, bs) \<leftarrow> parseRaw bs;
     (producedAt, bs) \<leftarrow> parseForm (time_form (TimeText K)) bs;
     (responses, bs) \<leftarrow> parseForm (list_form (single_form K)) bs;
     (extensions, bs) \<leftarrow> parseExplicit 1 (list_form extension_form) [] bs;
     Some (\<lparr>rd_Raw = [], rd_Version = version, rd_ResponderID = responder, rd_ProducedAt = producedAt,
            rd_Responses = responses, rd_Extensions = extensions\<rparr>, bs) })"

text \<open>\<^verbatim>\<open>asn1.RawContent\<close> keeps the whole encoding of the signed part.\<close>

definition basic_form :: "'k cryptolib_scheme \<Rightarrow> ocspBasicResponse form" where
  "basic_form K = struct_form (\<lambda>bs. do {
     (raw, _) \<leftarrow> parseRaw bs;
     (tbs, bs) \<leftarrow> parseForm (responseData_form K) bs;
     (algorithm, bs) \<leftarrow> parseForm algorithm_form bs;
     (signature, bs) \<leftarrow> parseForm bits_form bs;
     (certificates, bs) \<leftarrow> parseExplicit 0 raws_form [] bs;
     Some (\<lparr>br_TBSResponseData = tbs\<lparr>rd_Raw := rv_FullBytes raw\<rparr>, br_SignatureAlgorithm = algorithm,
            br_Signature = signature, br_Certificates = certificates\<rparr>, bs) })"

definition revoked_form :: "'k cryptolib_scheme \<Rightarrow> ocspRevokedInfo form" where
  "revoked_form K = struct_form (\<lambda>bs. do {
     (at, bs) \<leftarrow> parseForm (time_form (TimeText K)) bs;
     (reason, bs) \<leftarrow> parseExplicit 0 enumerated_form 0 bs;
     Some (\<lparr>ri_RevocationTime = at, ri_Reason = reason\<rparr>, bs) })"

section \<open>Structure\<close>

text \<open>The fields of a sequence, if their number is within the limits.\<close>

definition kalkanOCSPSequence :: "bytes \<Rightarrow> int \<Rightarrow> int \<Rightarrow> rawValue list option" where
  "kalkanOCSPSequence raw minFields maxFields = (case whole (parseForm raws_form raw) of
     None \<Rightarrow> None
   | Some fs \<Rightarrow> if int (length fs) \<ge> minFields \<and> (maxFields < 0 \<or> int (length fs) \<le> maxFields) then Some fs else None)"

definition kalkanOCSPGeneralizedTime :: "rawValue \<Rightarrow> bool" where
  "kalkanOCSPGeneralizedTime v \<longleftrightarrow> rv_Class v = 0 \<and> rv_Tag v = 24 \<and> \<not> rv_IsCompound v"

definition kalkanOCSPExplicit :: "rawValue \<Rightarrow> nat \<Rightarrow> rawValue option" where
  "kalkanOCSPExplicit v tag =
     (if rv_Class v \<noteq> 2 \<or> rv_Tag v \<noteq> tag \<or> \<not> rv_IsCompound v then None else whole (parseRaw (rv_Bytes v)))"

definition kalkanOCSPExtensionsStructure :: "rawValue list \<Rightarrow> nat \<Rightarrow> bool" where
  "kalkanOCSPExtensionsStructure fs tag =
     (if length fs = 0 then True
      else if length fs \<noteq> 1 then False
      else case kalkanOCSPExplicit (fs ! 0) tag of
        None \<Rightarrow> False
      | Some sequence \<Rightarrow> (case kalkanOCSPSequence (rv_FullBytes sequence) 0 (- 1) of
          None \<Rightarrow> False
        | Some extensions \<Rightarrow> list_all (\<lambda>extension.
            case kalkanOCSPSequence (rv_FullBytes extension) 2 3 of
              None \<Rightarrow> False
            | Some vs \<Rightarrow> \<not> (length vs = 3 \<and> (rv_Class (vs ! 1) \<noteq> 0 \<or> rv_Tag (vs ! 1) \<noteq> 1 \<or> rv_IsCompound (vs ! 1))))
            extensions))"

definition kalkanOCSPRevokedStructure :: "'k cryptolib_scheme \<Rightarrow> rawValue \<Rightarrow> bool" where
  "kalkanOCSPRevokedStructure K status =
     (if whole (parseTagged 1 (revoked_form K) (rv_FullBytes status)) = None then False
      else case whole (parseTagged 1 raws_form (rv_FullBytes status)) of
        None \<Rightarrow> False
      | Some revoked \<Rightarrow>
          if length revoked < 1 \<or> length revoked > 2 \<or> \<not> kalkanOCSPGeneralizedTime (revoked ! 0) then False
          else if length revoked = 2
          then (case kalkanOCSPExplicit (revoked ! 1) 0 of
                  None \<Rightarrow> False
                | Some reason \<Rightarrow> whole (parseForm enumerated_form (rv_FullBytes reason)) \<noteq> None)
          else True)"

text \<open>The fields after an optional \<open>nextUpdate\<close>.\<close>

definition skip_next_update :: "'k cryptolib_scheme \<Rightarrow> rawValue list \<Rightarrow> rawValue list option" where
  "skip_next_update K fs =
     (if length fs \<noteq> 0 \<and> rv_Class (fs ! 0) = 2 \<and> rv_Tag (fs ! 0) = 0
      then (case kalkanOCSPExplicit (fs ! 0) 0 of
              None \<Rightarrow> None
            | Some expires \<Rightarrow>
                if whole (parseForm (time_form (TimeText K)) (rv_FullBytes expires)) = None \<or>
                   \<not> kalkanOCSPGeneralizedTime expires
                then None else Some (tl fs))
      else Some fs)"

definition kalkanOCSPSingleStructure :: "'k cryptolib_scheme \<Rightarrow> bytes \<Rightarrow> bool" where
  "kalkanOCSPSingleStructure K raw = (case kalkanOCSPSequence raw 3 5 of
     None \<Rightarrow> False
   | Some fs \<Rightarrow>
       if \<not> kalkanOCSPGeneralizedTime (fs ! 2) then False
       else case kalkanOCSPSequence (rv_FullBytes (fs ! 0)) 4 4 of
         None \<Rightarrow> False
       | Some i \<Rightarrow> (case kalkanOCSPSequence (rv_FullBytes (i ! 0)) 1 2 of
           None \<Rightarrow> False
         | Some hash \<Rightarrow>
             let status = fs ! 1 in
             if length hash = 2 \<and> (rv_Class (hash ! 1) \<noteq> 0 \<or> rv_Tag (hash ! 1) \<noteq> 5 \<or> rv_IsCompound (hash ! 1) \<or>
                  rv_Bytes (hash ! 1) \<noteq> []) then False
             else if rv_Class status \<noteq> 2 then False
             else if (rv_Tag status = 0 \<or> rv_Tag status = 2) \<and> (rv_IsCompound status \<or> rv_Bytes status \<noteq> []) then False
             else if rv_Tag status = 1 \<and> \<not> kalkanOCSPRevokedStructure K status then False
             else if rv_Tag status > 2 then False
             else case skip_next_update K (drop 3 fs) of
               None \<Rightarrow> False
             | Some fs \<Rightarrow> kalkanOCSPExtensionsStructure fs 1))"

text \<open>The fields after an optional explicit version, and the version.\<close>

definition skip_version :: "rawValue list \<Rightarrow> (int \<times> rawValue list) option" where
  "skip_version fs =
     (if rv_Class (fs ! 0) = 2 \<and> rv_Tag (fs ! 0) = 0
      then (case kalkanOCSPExplicit (fs ! 0) 0 of
              None \<Rightarrow> None
            | Some v \<Rightarrow> (case whole (parseForm int_form (rv_FullBytes v)) of
                None \<Rightarrow> None
              | Some version \<Rightarrow> Some (version, tl fs)))
      else Some (0, fs))"

definition kalkanOCSPResponseDataStructure :: "'k cryptolib_scheme \<Rightarrow> bytes \<Rightarrow> bool" where
  "kalkanOCSPResponseDataStructure K raw = (case kalkanOCSPSequence raw 3 5 of
     None \<Rightarrow> False
   | Some fs \<Rightarrow> (case skip_version fs of
       None \<Rightarrow> False
     | Some (_, fs) \<Rightarrow>
         if length fs < 3 \<or> \<not> kalkanOCSPGeneralizedTime (fs ! 1) then False
         else if rv_Tag (fs ! 0) \<noteq> 1 \<and> rv_Tag (fs ! 0) \<noteq> 2 then False
         else if kalkanOCSPExplicit (fs ! 0) (rv_Tag (fs ! 0)) = None then False
         else case kalkanOCSPSequence (rv_FullBytes (fs ! 2)) 0 (- 1) of
           None \<Rightarrow> False
         | Some responses \<Rightarrow>
             list_all (\<lambda>response. kalkanOCSPSingleStructure K (rv_FullBytes response)) responses \<and>
             kalkanOCSPExtensionsStructure (drop 3 fs) 1))"

definition skip_unique_id :: "nat \<Rightarrow> rawValue list \<Rightarrow> rawValue list option" where
  "skip_unique_id tag fs =
     (if length fs \<noteq> 0 \<and> rv_Class (fs ! 0) = 2 \<and> rv_Tag (fs ! 0) = tag
      then (if whole (parseTagged tag bits_form (rv_FullBytes (fs ! 0))) = None then None else Some (tl fs))
      else Some fs)"

definition kalkanOCSPCertificateTBSStructure :: "bytes \<Rightarrow> bool" where
  "kalkanOCSPCertificateTBSStructure raw = (case kalkanOCSPSequence raw 6 10 of
     None \<Rightarrow> False
   | Some fs \<Rightarrow> (case skip_version fs of
       None \<Rightarrow> False
     | Some (version, fs) \<Rightarrow>
         if length fs < 6 then False
         else if kalkanOCSPSequence (rv_FullBytes (fs ! 1)) 1 2 = None then False
         else if kalkanOCSPSequence (rv_FullBytes (fs ! 3)) 2 2 = None then False
         else case kalkanOCSPSequence (rv_FullBytes (fs ! 5)) 2 2 of
           None \<Rightarrow> False
         | Some spki \<Rightarrow>
             if kalkanOCSPSequence (rv_FullBytes (spki ! 0)) 1 2 = None then False
             else case whole (parseForm bits_form (rv_FullBytes (spki ! 1))) of
               None \<Rightarrow> False
             | Some publicKey \<Rightarrow>
                 if bit_Length publicKey mod 8 \<noteq> 0 then False
                 else case (if version > 0 then Option.bind (skip_unique_id 1 (drop 6 fs)) (skip_unique_id 2)
                            else Some (drop 6 fs)) of
                   None \<Rightarrow> False
                 | Some fs \<Rightarrow> if version \<noteq> 2 then length fs = 0 else kalkanOCSPExtensionsStructure fs 3))"

definition kalkanOCSPCertificateStructure :: "'k cryptolib_scheme \<Rightarrow> bytes \<Rightarrow> bool" where
  "kalkanOCSPCertificateStructure K raw = (case kalkanOCSPSequence raw 3 3 of
     None \<Rightarrow> False
   | Some fs \<Rightarrow>
       if \<not> kalkanOCSPCertificateTBSStructure (rv_FullBytes (fs ! 0)) then False
       else if kalkanOCSPSequence (rv_FullBytes (fs ! 1)) 1 2 = None then False
       else if whole (parseForm algorithm_form (rv_FullBytes (fs ! 1))) = None then False
       else case whole (parseForm bits_form (rv_FullBytes (fs ! 2))) of
         None \<Rightarrow> False
       | Some signature \<Rightarrow>
           if bit_Length signature mod 8 \<noteq> 0 then False
           else (case parseOCSPDERCertificate K raw of Inl err \<Rightarrow> False | Inr cert \<Rightarrow> True))"

definition kalkanOCSPBasicStructure :: "'k cryptolib_scheme \<Rightarrow> bytes \<Rightarrow> bool" where
  "kalkanOCSPBasicStructure K raw = (case kalkanOCSPSequence raw 3 4 of
     None \<Rightarrow> False
   | Some fs \<Rightarrow>
       if \<not> kalkanOCSPResponseDataStructure K (rv_FullBytes (fs ! 0)) then False
       else if kalkanOCSPSequence (rv_FullBytes (fs ! 1)) 1 2 = None then False
       else if length fs = 4
       then (case kalkanOCSPExplicit (fs ! 3) 0 of
               None \<Rightarrow> False
             | Some certificates \<Rightarrow> (case kalkanOCSPSequence (rv_FullBytes certificates) 0 (- 1) of
                 None \<Rightarrow> False
               | Some children \<Rightarrow> list_all (\<lambda>c. kalkanOCSPCertificateStructure K (rv_FullBytes c)) children))
       else True)"

definition kalkanOCSPResponseStructure :: "bytes \<Rightarrow> bool" where
  "kalkanOCSPResponseStructure raw = (case kalkanOCSPSequence raw 1 2 of
     None \<Rightarrow> False
   | Some fs \<Rightarrow>
       if length fs = 1 then True
       else case kalkanOCSPExplicit (fs ! 1) 0 of
         None \<Rightarrow> False
       | Some responseBytes \<Rightarrow> kalkanOCSPSequence (rv_FullBytes responseBytes) 2 2 \<noteq> None)"

section \<open>The responder\<close>

definition kalkanOCSPResponderMatches :: "'k cryptolib_scheme \<Rightarrow> rawValue \<Rightarrow> certificate option \<Rightarrow> bool" where
  "kalkanOCSPResponderMatches K i signer = (case signer of
     None \<Rightarrow> False
   | Some signer \<Rightarrow>
       if rv_Class i \<noteq> 2 \<or> \<not> rv_IsCompound i then False
       else if rv_Tag i = 1 then rv_Bytes i = x_RawSubject signer
       else if rv_Tag i = 2
       then (case whole (parseForm octets_form (rv_Bytes i)) of
               None \<Rightarrow> False
             | Some hash \<Rightarrow>
                 if length hash \<noteq> 20 then False
                 else (case kalkanOCSPPublicKeyHash K signer of Inl err \<Rightarrow> False | Inr keyHash \<Rightarrow> hash = keyHash))
       else False)"

definition kalkanOCSPDigitalSignatureAllowed :: "certificate \<Rightarrow> bool" where
  "kalkanOCSPDigitalSignatureAllowed signer =
     (if list_ex (\<lambda>e. ext_Id e = [2, 5, 29, 15]) (x_Extensions signer) then bit (x_KeyUsage signer) 0 else True)"

definition kalkanCertificateValidAt :: "certificate \<Rightarrow> gotime \<Rightarrow> bool" where
  "kalkanCertificateValidAt cert now \<longleftrightarrow>
     \<not> instant now < instant (x_NotBefore cert) \<and> \<not> instant now > instant (x_NotAfter cert)"

definition kalkanCriticalExtension :: "extension list \<Rightarrow> bool" where
  "kalkanCriticalExtension extensions = list_ex ext_Critical extensions"

definition ExtKeyUsageOCSPSigning :: nat where
  "ExtKeyUsageOCSPSigning = 9"

definition rejected_responder ::
  "'k cryptolib_scheme \<Rightarrow> rawValue \<Rightarrow> certificate \<Rightarrow> gotime \<Rightarrow> certificate \<Rightarrow> bool" where
  "rejected_responder K i issuer now responder \<longleftrightarrow>
     \<not> kalkanCertificateValidAt responder now \<or> ExtKeyUsageOCSPSigning \<notin> set (x_ExtKeyUsage responder) \<or>
     x_UnhandledCriticalExtensions responder \<noteq> [] \<or> \<not> kalkanOCSPDigitalSignatureAllowed responder \<or>
     x_RawIssuer responder \<noteq> x_RawSubject issuer \<or> \<not> kalkanOCSPResponderMatches K i (Some responder) \<or>
     CheckCertificateSignature K (Some responder) (Some issuer) \<noteq> None"

text \<open>The loop over the certificates of the response: whether one of them signed it.\<close>

fun delegatedSigner ::
  "'k cryptolib_scheme \<Rightarrow> ocspBasicResponse \<Rightarrow> certificate \<Rightarrow> gotime \<Rightarrow> rawValue list \<Rightarrow> bool" where
  "delegatedSigner K basic issuer now [] = False"
| "delegatedSigner K basic issuer now (raw # raws) =
     (case parseOCSPDERCertificate K (rv_FullBytes raw) of
        Inl err \<Rightarrow> delegatedSigner K basic issuer now raws
      | Inr responder \<Rightarrow>
          if rejected_responder K (rd_ResponderID (br_TBSResponseData basic)) issuer now responder
          then delegatedSigner K basic issuer now raws
          else if CheckSignature K (Some responder) (br_SignatureAlgorithm basic) (rd_Raw (br_TBSResponseData basic))
                    (RightAlign (br_Signature basic)) = None
          then True
          else delegatedSigner K basic issuer now raws)"

definition kalkanOCSPSigner ::
  "'k cryptolib_scheme \<Rightarrow> ocspBasicResponse \<Rightarrow> certificate \<Rightarrow> gotime \<Rightarrow> gerror option" where
  "kalkanOCSPSigner K basic issuer now =
     (let content = rd_Raw (br_TBSResponseData basic); signature = RightAlign (br_Signature basic);
          issuerErr = (if kalkanOCSPResponderMatches K (rd_ResponderID (br_TBSResponseData basic)) (Some issuer)
                       then CheckSignature K (Some issuer) (br_SignatureAlgorithm basic) content signature
                       else Some (plainError ''the responder ID does not identify the issuer''))
      in case issuerErr of
           None \<Rightarrow> None
         | Some err \<Rightarrow>
             if delegatedSigner K basic issuer now (br_Certificates basic) then None
             else Some (WrapError (''the response is signed neither by the issuer nor by its OCSP responder: '' @ error_text err)
                          (Some err)))"

section \<open>The status\<close>

text \<open>The result is the revocation time, or the zero time, with whether the certificate is revoked.\<close>

definition kalkanOCSPSingleStatus ::
  "'k cryptolib_scheme \<Rightarrow> ocspSingleResponse \<Rightarrow> gotime \<Rightarrow> gerror + gotime \<times> bool" where
  "kalkanOCSPSingleStatus K single now =
     (let expires = sr_NextUpdate single; status = sr_CertStatus single;
          malformed = Inl (plainError ''the certificate status is malformed'')
      in if kalkanCriticalExtension (sr_Extensions single)
         then Inl (plainError ''the certificate status carries an unsupported critical extension'')
         else if instant (sr_ThisUpdate single) > instant now + kalkanRevocationClockSkew
         then Inl (plainError ''the certificate status is issued in the future'')
         else if \<not> IsZero expires \<and> \<not> instant expires > instant (sr_ThisUpdate single)
         then Inl (plainError ''the certificate status nextUpdate must follow thisUpdate'')
         else if IsZero expires \<and> time_Sub now (sr_ThisUpdate single) > kalkanOCSPMaxAge \<or>
                 \<not> IsZero expires \<and> \<not> instant expires > instant now
         then Inl (plainError ''the certificate status is stale'')
         else if rv_Class status = 2
         then (if rv_Tag status = 0 \<or> rv_Tag status = 2
               then (if \<not> rv_IsCompound status \<and> rv_Bytes status = []
                     then (if rv_Tag status = 0 then Inr (zero_time, False)
                           else Inl (plainError ''the responder does not know the certificate''))
                     else malformed)
               else if rv_Tag status = 1
               then (case whole (parseTagged 1 (revoked_form K) (rv_FullBytes status)) of
                       None \<Rightarrow> malformed
                     | Some revoked \<Rightarrow>
                         if \<not> IsZero (ri_RevocationTime revoked) then Inr (ri_RevocationTime revoked, True) else malformed)
               else malformed)
         else malformed)"

fun statusIndex :: "ocspCertID \<Rightarrow> nat \<Rightarrow> nat option \<Rightarrow> ocspSingleResponse list \<Rightarrow> gerror + nat option" where
  "statusIndex i n index [] = Inr index"
| "statusIndex i n index (single # singles) =
     (if ocspCertID_matches i (sr_CertID single)
      then (case index of
              Some _ \<Rightarrow> Inl (plainError ''the response has multiple statuses of the certificate'')
            | None \<Rightarrow> statusIndex i (Suc n) (Some n) singles)
      else statusIndex i (Suc n) index singles)"

definition kalkanOCSPStatus ::
  "'k cryptolib_scheme \<Rightarrow> bytes \<Rightarrow> ocspCertID \<Rightarrow> certificate \<Rightarrow> gotime \<Rightarrow> gerror + gotime \<times> bool" where
  "kalkanOCSPStatus K raw i issuer now =
     (if length raw > kalkanOCSPMaxResponseBytes
      then Inl (plainError ''the OCSP response exceeds the size limit'')
      else case whole (parseForm ocspResponse_form raw) of
        None \<Rightarrow> Inl (plainError ''the answer is not an OCSP response'')
      | Some response \<Rightarrow>
          if \<not> kalkanOCSPResponseStructure raw then Inl (plainError ''the answer is not an OCSP response'')
          else if or_Status response \<noteq> 0
          then Inl (plainError (''the responder refused the request with responseStatus '' @ format_int (or_Status response)))
          else if or_Type response \<noteq> oidOCSPBasic
          then Inl (plainError (''the response type '' @ oid_text (or_Type response) @ '' is not id-pkix-ocsp-basic''))
          else case whole (parseForm (basic_form K) (or_Response response)) of
            None \<Rightarrow> Inl (plainError ''the basic OCSP response is malformed'')
          | Some basic \<Rightarrow>
              let tbs = br_TBSResponseData basic in
              if \<not> kalkanOCSPBasicStructure K (or_Response response)
              then Inl (plainError ''the basic OCSP response is malformed'')
              else if rd_Version tbs \<noteq> 0 then Inl (plainError ''the OCSP response version is unsupported'')
              else if bit_Length (br_Signature basic) mod 8 \<noteq> 0
              then Inl (plainError ''the OCSP response signature is malformed'')
              else case kalkanOCSPSigner K basic issuer now of
                Some err \<Rightarrow> Inl err
              | None \<Rightarrow>
                  if kalkanCriticalExtension (rd_Extensions tbs)
                  then Inl (plainError ''the response carries an unsupported critical extension'')
                  else if instant (rd_ProducedAt tbs) > instant now + kalkanRevocationClockSkew
                  then Inl (plainError ''the OCSP response was produced in the future'')
                  else case statusIndex i 0 None (rd_Responses tbs) of
                    Inl err \<Rightarrow> Inl err
                  | Inr None \<Rightarrow> Inl (plainError ''the response has no status of the certificate'')
                  | Inr (Some n) \<Rightarrow> kalkanOCSPSingleStatus K (rd_Responses tbs ! n) now)"

section \<open>Accepted responses\<close>

text \<open>A responder that the issuer delegates to: its certificate is in the response, in its period of
  validity, for OCSP signing, issued and signed by the issuer.\<close>

definition delegated_responder ::
  "'k cryptolib_scheme \<Rightarrow> ocspBasicResponse \<Rightarrow> certificate \<Rightarrow> gotime \<Rightarrow> certificate \<Rightarrow> bool" where
  "delegated_responder K basic issuer now signer \<longleftrightarrow>
     (\<exists>raw \<in> set (br_Certificates basic). parseOCSPDERCertificate K (rv_FullBytes raw) = Inr signer) \<and>
     instant (x_NotBefore signer) \<le> instant now \<and> instant now \<le> instant (x_NotAfter signer) \<and>
     ExtKeyUsageOCSPSigning \<in> set (x_ExtKeyUsage signer) \<and> kalkanOCSPDigitalSignatureAllowed signer \<and>
     x_UnhandledCriticalExtensions signer = [] \<and> x_RawIssuer signer = x_RawSubject issuer \<and>
     CheckCertificateSignature K (Some signer) (Some issuer) = None"

definition ocsp_signed :: "'k cryptolib_scheme \<Rightarrow> ocspBasicResponse \<Rightarrow> certificate \<Rightarrow> gotime \<Rightarrow> bool" where
  "ocsp_signed K basic issuer now \<longleftrightarrow>
     (\<exists>signer. (signer = issuer \<or> delegated_responder K basic issuer now signer) \<and>
        kalkanOCSPResponderMatches K (rd_ResponderID (br_TBSResponseData basic)) (Some signer) \<and>
        CheckSignature K (Some signer) (br_SignatureAlgorithm basic) (rd_Raw (br_TBSResponseData basic))
          (RightAlign (br_Signature basic)) = None)"

definition ocsp_fresh :: "ocspSingleResponse \<Rightarrow> gotime \<Rightarrow> bool" where
  "ocsp_fresh single now \<longleftrightarrow>
     instant (sr_ThisUpdate single) \<le> instant now + kalkanRevocationClockSkew \<and>
     (if IsZero (sr_NextUpdate single) then instant now - instant (sr_ThisUpdate single) \<le> kalkanOCSPMaxAge
      else instant (sr_ThisUpdate single) < instant (sr_NextUpdate single) \<and> instant now < instant (sr_NextUpdate single))"

definition ocsp_reported :: "'k cryptolib_scheme \<Rightarrow> rawValue \<Rightarrow> gotime \<Rightarrow> bool \<Rightarrow> bool" where
  "ocsp_reported K status t revoked \<longleftrightarrow> rv_Class status = 2 \<and>
     (if revoked
      then rv_Tag status = 1 \<and> \<not> IsZero t \<and>
        (\<exists>info. whole (parseTagged 1 (revoked_form K) (rv_FullBytes status)) = Some info \<and> ri_RevocationTime info = t)
      else t = zero_time \<and> rv_Tag status = 0 \<and> \<not> rv_IsCompound status \<and> rv_Bytes status = [])"

lemma delegatedSigner_iff:
  "delegatedSigner K basic issuer now raws \<longleftrightarrow>
     (\<exists>raw \<in> set raws. \<exists>signer. parseOCSPDERCertificate K (rv_FullBytes raw) = Inr signer \<and>
        \<not> rejected_responder K (rd_ResponderID (br_TBSResponseData basic)) issuer now signer \<and>
        CheckSignature K (Some signer) (br_SignatureAlgorithm basic) (rd_Raw (br_TBSResponseData basic))
          (RightAlign (br_Signature basic)) = None)"
  by (induction raws) (auto split: sum.splits)

lemma accepted_responder:
  "\<not> rejected_responder K i issuer now signer \<longleftrightarrow>
     instant (x_NotBefore signer) \<le> instant now \<and> instant now \<le> instant (x_NotAfter signer) \<and>
     ExtKeyUsageOCSPSigning \<in> set (x_ExtKeyUsage signer) \<and> kalkanOCSPDigitalSignatureAllowed signer \<and>
     x_UnhandledCriticalExtensions signer = [] \<and> x_RawIssuer signer = x_RawSubject issuer \<and>
     CheckCertificateSignature K (Some signer) (Some issuer) = None \<and> kalkanOCSPResponderMatches K i (Some signer)"
  by (auto simp: rejected_responder_def kalkanCertificateValidAt_def not_less)

lemma signer_iff: "kalkanOCSPSigner K basic issuer now = None \<longleftrightarrow> ocsp_signed K basic issuer now"
proof -
  let ?i = "rd_ResponderID (br_TBSResponseData basic)"
  let ?ok = "\<lambda>signer. CheckSignature K (Some signer) (br_SignatureAlgorithm basic) (rd_Raw (br_TBSResponseData basic))
          (RightAlign (br_Signature basic)) = None"
  have "kalkanOCSPSigner K basic issuer now = None \<longleftrightarrow>
      kalkanOCSPResponderMatches K ?i (Some issuer) \<and> ?ok issuer \<or>
      delegatedSigner K basic issuer now (br_Certificates basic)"
    by (simp add: kalkanOCSPSigner_def Let_def split: option.splits)
  then show ?thesis
    unfolding ocsp_signed_def delegated_responder_def delegatedSigner_iff accepted_responder by blast
qed

lemma age_limit: "time_Sub t u > kalkanOCSPMaxAge \<longleftrightarrow> instant t - instant u > kalkanOCSPMaxAge"
  by (auto simp: time_Sub_def kalkanOCSPMaxAge_def)

lemma single_status_iff:
  "kalkanOCSPSingleStatus K single now = Inr (t, revoked) \<longleftrightarrow>
     \<not> kalkanCriticalExtension (sr_Extensions single) \<and> ocsp_fresh single now \<and>
     ocsp_reported K (sr_CertStatus single) t revoked"
proof (cases "\<not> kalkanCriticalExtension (sr_Extensions single) \<and> ocsp_fresh single now")
  case True
  then have "kalkanOCSPSingleStatus K single now = Inr (t, revoked) \<longleftrightarrow> ocsp_reported K (sr_CertStatus single) t revoked"
    unfolding kalkanOCSPSingleStatus_def Let_def age_limit ocsp_fresh_def ocsp_reported_def
    by (auto simp del: whole_Some split: if_splits option.splits)
  with True show ?thesis by blast
next
  case False
  then have "\<exists>err. kalkanOCSPSingleStatus K single now = Inl err"
    unfolding kalkanOCSPSingleStatus_def Let_def age_limit ocsp_fresh_def
    by (auto split: if_splits)
  with False show ?thesis by auto
qed

lemma statusIndex_found: "statusIndex i n (Some k) singles = Inr r \<longleftrightarrow>
    filter (\<lambda>s. ocspCertID_matches i (sr_CertID s)) singles = [] \<and> r = Some k"
  by (induction singles arbitrary: n) auto

lemma statusIndex_suffix:
  "(\<exists>k. statusIndex i (length pre) None singles = Inr (Some k) \<and> (pre @ singles) ! k = s) \<longleftrightarrow>
     filter (\<lambda>s. ocspCertID_matches i (sr_CertID s)) singles = [s]"
proof (induction singles arbitrary: pre)
  case (Cons first singles)
  show ?case
  proof (cases "ocspCertID_matches i (sr_CertID first)")
    case True
    then show ?thesis by (auto simp: statusIndex_found)
  next
    case False
    with Cons.IH [of "pre @ [first]"] show ?thesis by simp
  qed
qed simp

lemmas statusIndex_single = statusIndex_suffix [where pre = "[]", simplified]

lemma status_selected:
  "(case statusIndex i 0 None singles of
      Inl err \<Rightarrow> Inl err
    | Inr None \<Rightarrow> Inl none
    | Inr (Some n) \<Rightarrow> kalkanOCSPSingleStatus K (singles ! n) now) = Inr (t, revoked) \<longleftrightarrow>
   (\<exists>single. filter (\<lambda>s. ocspCertID_matches i (sr_CertID s)) singles = [single] \<and>
      kalkanOCSPSingleStatus K single now = Inr (t, revoked))"
  unfolding statusIndex_single [symmetric] by (auto split: sum.splits option.splits)

lemma status_iff:
  "kalkanOCSPStatus K raw i issuer now = Inr (t, revoked) \<longleftrightarrow>
     length raw \<le> kalkanOCSPMaxResponseBytes \<and> kalkanOCSPResponseStructure raw \<and>
     (\<exists>response basic single.
        whole (parseForm ocspResponse_form raw) = Some response \<and> or_Status response = 0 \<and>
        or_Type response = oidOCSPBasic \<and> kalkanOCSPBasicStructure K (or_Response response) \<and>
        whole (parseForm (basic_form K) (or_Response response)) = Some basic \<and>
        rd_Version (br_TBSResponseData basic) = 0 \<and> 8 dvd bit_Length (br_Signature basic) \<and>
        ocsp_signed K basic issuer now \<and> \<not> kalkanCriticalExtension (rd_Extensions (br_TBSResponseData basic)) \<and>
        instant (rd_ProducedAt (br_TBSResponseData basic)) \<le> instant now + kalkanRevocationClockSkew \<and>
        filter (\<lambda>s. ocspCertID_matches i (sr_CertID s)) (rd_Responses (br_TBSResponseData basic)) = [single] \<and>
        \<not> kalkanCriticalExtension (sr_Extensions single) \<and> ocsp_fresh single now \<and>
        ocsp_reported K (sr_CertStatus single) t revoked)"
proof (cases "whole (parseForm ocspResponse_form raw)")
  case None
  then show ?thesis by (simp add: kalkanOCSPStatus_def del: whole_Some)
next
  case response: (Some response)
  show ?thesis
  proof (cases "whole (parseForm (basic_form K) (or_Response response))")
    case None
    with response show ?thesis by (simp add: kalkanOCSPStatus_def del: whole_Some)
  next
    case basic: (Some basic)
    have "kalkanOCSPStatus K raw i issuer now = Inr (t, revoked) \<longleftrightarrow>
        length raw \<le> kalkanOCSPMaxResponseBytes \<and> kalkanOCSPResponseStructure raw \<and> or_Status response = 0 \<and>
        or_Type response = oidOCSPBasic \<and> kalkanOCSPBasicStructure K (or_Response response) \<and>
        rd_Version (br_TBSResponseData basic) = 0 \<and> 8 dvd bit_Length (br_Signature basic) \<and>
        kalkanOCSPSigner K basic issuer now = None \<and> \<not> kalkanCriticalExtension (rd_Extensions (br_TBSResponseData basic)) \<and>
        instant (rd_ProducedAt (br_TBSResponseData basic)) \<le> instant now + kalkanRevocationClockSkew \<and>
        (\<exists>single. filter (\<lambda>s. ocspCertID_matches i (sr_CertID s)) (rd_Responses (br_TBSResponseData basic)) = [single] \<and>
           kalkanOCSPSingleStatus K single now = Inr (t, revoked))"
      unfolding kalkanOCSPStatus_def response basic option.case Let_def
      by (simp add: not_less dvd_eq_mod_eq_0 status_selected split: option.split)
    then show ?thesis
      unfolding signer_iff single_status_iff using response basic by (simp del: whole_Some)
  qed
qed


section \<open>An example\<close>

text \<open>A response to a request for serial number 7, signed by the issuer with RSA; the libraries know
  one instant, one hash and one signature.\<close>

definition sample_key :: bytes where
  "sample_key = [CHR 0x30, CHR 0x0A, CHR 0x30, CHR 0x04, CHR 0x06, CHR 0x02, CHR 0x2A, CHR 0x03, CHR 0x03, CHR 0x02,
     CHR 0x00, CHR 0x6B]"

definition sample_issuer :: certificate where
  "sample_issuer = sample_gost_certificate\<lparr>x_RawSubject := [CHR 0x30, CHR 0x00], x_RawSubjectPublicKeyInfo := sample_key\<rparr>"

definition sample_now :: gotime where
  "sample_now = zero_time\<lparr>tsec := 1000\<rparr>"

definition sample_crypto :: cryptolib where
  "sample_crypto = \<lparr>ParseCertificate = (\<lambda>_. Inl (plainError ''x509: malformed certificate'')), TimeParse = (\<lambda>_ _. None),
     PemDecode = (\<lambda>bs. (None, bs)), CheckSignatureFrom = (\<lambda>_ _. Some ErrUnsupportedAlgorithm),
     x509CheckSignature = (\<lambda>_ _ _ signature. if signature = ''s'' then None else Some ErrUnsupportedAlgorithm),
     SHA1 = (\<lambda>_. ''h''), TimeText = (\<lambda>_ s. if s = ''t'' then Some sample_now else None)\<rparr>"

definition sample_tbs :: bytes where
  "sample_tbs = [CHR 0x30, CHR 0x24, CHR 0xA1, CHR 0x02, CHR 0x30, CHR 0x00, CHR 0x18, CHR 0x01, CHR 0x74, CHR 0x30,
     CHR 0x1B, CHR 0x30, CHR 0x19, CHR 0x30, CHR 0x12, CHR 0x30, CHR 0x07, CHR 0x06, CHR 0x05, CHR 0x2B,
     CHR 0x0E, CHR 0x03, CHR 0x02, CHR 0x1A, CHR 0x04, CHR 0x01, CHR 0x68, CHR 0x04, CHR 0x01, CHR 0x68,
     CHR 0x02, CHR 0x01, CHR 0x07, CHR 0x80, CHR 0x00, CHR 0x18, CHR 0x01, CHR 0x74]"

definition sample_basic :: bytes where
  "sample_basic = [CHR 0x30, CHR 0x37] @ sample_tbs @
    [CHR 0x30, CHR 0x0B, CHR 0x06, CHR 0x09, CHR 0x2A, CHR 0x86, CHR 0x48, CHR 0x86, CHR 0xF7, CHR 0x0D,
     CHR 0x01, CHR 0x01, CHR 0x0B, CHR 0x03, CHR 0x02, CHR 0x00, CHR 0x73]"

definition sample_response :: bytes where
  "sample_response = [CHR 0x30, CHR 0x4D, CHR 0x0A, CHR 0x01, CHR 0x00, CHR 0xA0, CHR 0x48, CHR 0x30, CHR 0x46, CHR 0x06,
     CHR 0x09, CHR 0x2B, CHR 0x06, CHR 0x01, CHR 0x05, CHR 0x05, CHR 0x07, CHR 0x30, CHR 0x01, CHR 0x01,
     CHR 0x04, CHR 0x39] @ sample_basic"

definition sample_certID :: ocspCertID where
  "sample_certID = \<lparr>cid_HashAlgorithm = \<lparr>ai_Algorithm = oidSHA1, ai_Parameters = zeroRaw\<rparr>, cid_IssuerNameHash = ''h'',
     cid_IssuerKeyHash = ''h'', cid_SerialNumber = Some 7\<rparr>"

definition sample_single :: ocspSingleResponse where
  "sample_single = \<lparr>sr_CertID = sample_certID,
     sr_CertStatus = \<lparr>rv_Class = 2, rv_Tag = 0, rv_IsCompound = False, rv_Bytes = [], rv_FullBytes = [CHR 0x80, CHR 0x00]\<rparr>,
     sr_ThisUpdate = sample_now, sr_NextUpdate = zero_time, sr_Extensions = []\<rparr>"

definition sample_basicResponse :: ocspBasicResponse where
  "sample_basicResponse = \<lparr>br_TBSResponseData = \<lparr>rd_Raw = sample_tbs, rd_Version = 0,
        rd_ResponderID = \<lparr>rv_Class = 2, rv_Tag = 1, rv_IsCompound = True, rv_Bytes = [CHR 0x30, CHR 0x00],
          rv_FullBytes = [CHR 0xA1, CHR 0x02, CHR 0x30, CHR 0x00]\<rparr>,
        rd_ProducedAt = sample_now, rd_Responses = [sample_single], rd_Extensions = []\<rparr>,
     br_SignatureAlgorithm = \<lparr>ai_Algorithm = [1, 2, 840, 113549, 1, 1, 11], ai_Parameters = zeroRaw\<rparr>,
     br_Signature = \<lparr>bit_Bytes = ''s'', bit_Length = 8\<rparr>, br_Certificates = []\<rparr>"

lemmas ocsp_eval = der_eval sample_response_def sample_basic_def sample_tbs_def ocspResponse_form_def enumerated_form_def
  responseBytes_form_def octets_form_def basic_form_def responseData_form_def time_form_def list_form_def parseForms.simps
  single_form_def certID_form_def big_form_def rawElements.simps raws_form_def minimal_integer_def signed_value_def be_nat_def
  kalkanOCSPSequence_def kalkanOCSPExplicit_def kalkanOCSPGeneralizedTime_def

lemma sample_response_parsed:
  "whole (parseForm ocspResponse_form sample_response) =
     Some \<lparr>or_Status = 0, or_Type = oidOCSPBasic, or_Response = sample_basic\<rparr>"
  "kalkanOCSPResponseStructure sample_response"
  by (simp_all add: ocsp_eval oidOCSPBasic_def kalkanOCSPResponseStructure_def)

lemma sample_basic_parsed: "whole (parseForm (basic_form sample_crypto) sample_basic) = Some sample_basicResponse"
  by (simp add: ocsp_eval sample_crypto_def sample_basicResponse_def sample_single_def sample_certID_def oidSHA1_def)

lemma sample_basic_structure: "kalkanOCSPBasicStructure sample_crypto sample_basic"
  by (simp add: ocsp_eval sample_crypto_def kalkanOCSPBasicStructure_def kalkanOCSPResponseDataStructure_def
      skip_version_def kalkanOCSPSingleStructure_def skip_next_update_def kalkanOCSPExtensionsStructure_def)

lemma sample_signed: "ocsp_signed sample_crypto sample_basicResponse sample_issuer sample_now"
  unfolding ocsp_signed_def
  by (rule exI [of _ sample_issuer])
    (simp add: sample_basicResponse_def kalkanOCSPResponderMatches_def sample_issuer_def CheckSignature_def is_gost_def
      oidSignatureKazakhGost2015Digest256_def oidSignatureKazakhGost2015Digest512_def x509Algorithm_def RightAlign_def
      sample_crypto_def)

lemma sample_fresh: "ocsp_fresh sample_single sample_now" "ocsp_reported K (sr_CertStatus sample_single) zero_time False"
  by (simp_all add: ocsp_fresh_def ocsp_reported_def sample_single_def kalkanRevocationClockSkew_def kalkanOCSPMaxAge_def)

lemma sample_status_accepted:
  "kalkanOCSPStatus sample_crypto sample_response sample_certID sample_issuer sample_now = Inr (zero_time, False)"
proof -
  have "length sample_response \<le> kalkanOCSPMaxResponseBytes"
    by (simp add: sample_response_def sample_basic_def sample_tbs_def kalkanOCSPMaxResponseBytes_def)
  moreover have "filter (\<lambda>s. ocspCertID_matches sample_certID (sr_CertID s))
      (rd_Responses (br_TBSResponseData sample_basicResponse)) = [sample_single]"
    by (simp add: sample_basicResponse_def sample_single_def ocspCertID_matches_def sample_certID_def)
  moreover have "rd_Version (br_TBSResponseData sample_basicResponse) = 0" "8 dvd bit_Length (br_Signature sample_basicResponse)"
    "\<not> kalkanCriticalExtension (rd_Extensions (br_TBSResponseData sample_basicResponse))"
    "instant (rd_ProducedAt (br_TBSResponseData sample_basicResponse)) \<le> instant sample_now + kalkanRevocationClockSkew"
    "\<not> kalkanCriticalExtension (sr_Extensions sample_single)"
    by (simp_all add: sample_basicResponse_def sample_single_def kalkanCriticalExtension_def kalkanRevocationClockSkew_def)
  ultimately show ?thesis
    unfolding status_iff
    using sample_response_parsed sample_basic_parsed sample_basic_structure sample_signed sample_fresh
    by (intro conjI exI [of _ "\<lparr>or_Status = 0, or_Type = oidOCSPBasic, or_Response = sample_basic\<rparr>"]
        exI [of _ sample_basicResponse] exI [of _ sample_single]) simp_all
qed

end
