(* ===== verification/Native_Verify.thy ===== *)
theory Native_Verify
  imports Native_Calls
begin

text \<open>
  The native calls with several outputs: CMS verification (\<^verbatim>\<open>ckalkan/verify.go\<close>) and
  certificate validation (\<^verbatim>\<open>ckalkan/x509.go\<close>), with the platform policies of
  \<^verbatim>\<open>output_policy_linux.go\<close> and \<^verbatim>\<open>output_policy_other.go\<close>. The platform is an
  argument; the loops run while the client holds the process lock and is open.
\<close>

datatype platform = Linux | OtherPlatform

section \<open>CMS verification\<close>

record VerifyDataRequest =
  vd_Alias :: gostring
  vd_Flags :: Flag
  vd_Data :: slice
  vd_Signature :: slice
  vd_CertID :: int
  vd_DataCapacity :: int
  vd_VerifyInfoCapacity :: int
  vd_CertCapacity :: int

record VerifyDataResult =
  vdr_Data :: slice
  vdr_VerifyInfo :: gostring
  vdr_Cert :: slice

record verifyDataOutputPolicy =
  dataBufferActive :: bool
  returnDecodedData :: bool
  retrySaturatedData :: bool
  dataCapacityHint :: int

record verifyDataCapacities =
  cap_data :: int
  cap_info :: int
  cap_cert :: int

definition verifyDataReturnsDecodedData :: "VerifyDataRequest \<Rightarrow> bool" where
  "verifyDataReturnsDecodedData req \<longleftrightarrow> has_flag (vd_Flags req) SignCMS \<and>
     \<not> has_flag (vd_Flags req) DetachedData \<and> \<not> has_flag (vd_Flags req) InFile"

definition linuxVerifyDataOutputPolicy :: "VerifyDataRequest \<Rightarrow> verifyDataOutputPolicy" where
  "linuxVerifyDataOutputPolicy req =
     (let returnsDecodedData = verifyDataReturnsDecodedData req
      in \<lparr>dataBufferActive = returnsDecodedData, returnDecodedData = returnsDecodedData,
          retrySaturatedData = returnsDecodedData,
          dataCapacityHint = (if returnsDecodedData then int (slice_len (vd_Signature req)) else 0)\<rparr>)"

definition otherVerifyDataOutputPolicy :: "VerifyDataRequest \<Rightarrow> verifyDataOutputPolicy" where
  "otherVerifyDataOutputPolicy req =
     \<lparr>dataBufferActive = True, returnDecodedData = verifyDataReturnsDecodedData req,
      retrySaturatedData = False, dataCapacityHint = 0\<rparr>"

definition platformVerifyDataOutputPolicy :: "platform \<Rightarrow> VerifyDataRequest \<Rightarrow> verifyDataOutputPolicy" where
  "platformVerifyDataOutputPolicy p req =
     (case p of Linux \<Rightarrow> linuxVerifyDataOutputPolicy req | OtherPlatform \<Rightarrow> otherVerifyDataOutputPolicy req)"

definition platformCMSLastError :: "platform \<Rightarrow> 'w nativeContext \<Rightarrow> ('w, ErrorCode) state" where
  "platformCMSLastError p ctx = (case p of Linux \<Rightarrow> n_LastError ctx | OtherPlatform \<Rightarrow> ret ErrorOK)"

definition platformZIPVerifySafetyCapacity :: "platform \<Rightarrow> int" where
  "platformZIPVerifySafetyCapacity p = (case p of Linux \<Rightarrow> initialZIPVerifyBuffer | OtherPlatform \<Rightarrow> 0)"

definition validateVerifyDataOutputLengths :: "VerifyResult \<Rightarrow> verifyDataOutputPolicy \<Rightarrow> gerror option" where
  "validateVerifyDataOutputLengths result policy =
     (if dataBufferActive policy \<and> yr_DataLen result < 0
      then Some (invalidNativeOutputLength ''VerifyData data'' (yr_DataLen result))
      else if yr_InfoLen result < 0
      then Some (invalidNativeOutputLength ''VerifyData info'' (yr_InfoLen result))
      else if yr_CertLen result < 0
      then Some (invalidNativeOutputLength ''VerifyData certificate'' (yr_CertLen result))
      else None)"

definition shouldRetryVerifyDataOutput ::
  "ErrorCode \<Rightarrow> VerifyResult \<Rightarrow> verifyDataCapacities \<Rightarrow> verifyDataOutputPolicy \<Rightarrow> bool" where
  "shouldRetryVerifyDataOutput code result capacities policy \<longleftrightarrow>
     (if code = ErrorBufferTooSmall then True
      else if code \<noteq> ErrorOK then False
      else dataBufferActive policy \<and> (yr_DataLen result > cap_data capacities \<or>
             retrySaturatedData policy \<and> yr_DataLen result = cap_data capacities) \<or>
           yr_InfoLen result > cap_info capacities \<or> yr_CertLen result > cap_cert capacities)"

definition verifyDataOutputs ::
  "VerifyResult \<Rightarrow> verifyDataCapacities \<Rightarrow> verifyDataOutputPolicy \<Rightarrow> outputBufferState list" where
  "verifyDataOutputs result current policy =
     [\<lparr>o_current = cap_data current, o_reported = yr_DataLen result, o_active = dataBufferActive policy,
       o_retrySaturated = retrySaturatedData policy, o_growthHint = dataCapacityHint policy\<rparr>,
      \<lparr>o_current = cap_info current, o_reported = yr_InfoLen result, o_active = True,
       o_retrySaturated = False, o_growthHint = 0\<rparr>,
      \<lparr>o_current = cap_cert current, o_reported = yr_CertLen result, o_active = True,
       o_retrySaturated = False, o_growthHint = 0\<rparr>]"

definition nextVerifyDataCapacities ::
  "ErrorCode \<Rightarrow> VerifyResult \<Rightarrow> verifyDataCapacities \<Rightarrow> verifyDataOutputPolicy \<Rightarrow> int \<Rightarrow>
   gerror + verifyDataCapacities" where
  "nextVerifyDataCapacities code result current policy hardMaximum =
     (case nextOutputBufferCapacities ''VerifyData'' code hardMaximum
             (verifyDataOutputs result current policy) of
        Inl err \<Rightarrow> Inl err
      | Inr next \<Rightarrow> Inr \<lparr>cap_data = next ! 0, cap_info = next ! 1, cap_cert = next ! 2\<rparr>)"

text \<open>The outcome of a call that needs no retry.\<close>

definition verifyDataOutcome ::
  "'w nativeContext \<Rightarrow> config \<Rightarrow> verifyDataOutputPolicy \<Rightarrow> VerifyResult \<Rightarrow>
   ('w, gerror + VerifyDataResult) state" where
  "verifyDataOutcome ctx c policy result = do {
     e \<leftarrow> wrapCodeLocked ctx c (yr_Code result);
     ret (case e of
            Some err \<Rightarrow> Inl err
          | None \<Rightarrow>
              (case (if dataBufferActive policy
                     then validateNativeOutputDataLength ''VerifyData data'' (yr_Data result) (yr_DataLen result)
                     else None) of
                 Some err \<Rightarrow> Inl err
               | None \<Rightarrow>
              (case validateNativeOutputDataLength ''VerifyData info'' (yr_Info result) (yr_InfoLen result) of
                 Some err \<Rightarrow> Inl err
               | None \<Rightarrow>
              (case validateNativeOutputDataLength ''VerifyData certificate'' (yr_Cert result) (yr_CertLen result) of
                 Some err \<Rightarrow> Inl err
               | None \<Rightarrow> Inr \<lparr>vdr_Data = (if returnDecodedData policy then yr_Data result else None),
                              vdr_VerifyInfo = str_of (BeforeNUL (yr_Info result)),
                              vdr_Cert = yr_Cert result\<rparr>)))) }"

lemma nextVerifyDataCapacities_progress:
  assumes "nextVerifyDataCapacities code result current policy m = Inr next"
  shows "nat (outputBufferLimit m - cap_data next) + nat (outputBufferLimit m - cap_info next) +
      nat (outputBufferLimit m - cap_cert next) <
    nat (outputBufferLimit m - cap_data current) + nat (outputBufferLimit m - cap_info current) +
      nat (outputBufferLimit m - cap_cert current)"
proof -
  from assms obtain ns where n: "nextOutputBufferCapacities ''VerifyData'' code m
      (verifyDataOutputs result current policy) = Inr ns"
    and nx: "next = \<lparr>cap_data = ns ! 0, cap_info = ns ! 1, cap_cert = ns ! 2\<rparr>"
    by (auto simp: nextVerifyDataCapacities_def split: sum.splits)
  note p = nextOutputBufferCapacities_progress [OF n]
  from p(1) obtain a b d where ns: "ns = [a, b, d]"
    and le: "cap_data current \<le> a" "cap_info current \<le> b" "cap_cert current \<le> d"
    by (auto simp: verifyDataOutputs_def list_all2_Cons1)
  from p(2) have "cap_data current < a \<and> cap_data current < outputBufferLimit m \<or>
      cap_info current < b \<and> cap_info current < outputBufferLimit m \<or>
      cap_cert current < d \<and> cap_cert current < outputBufferLimit m"
    unfolding ns by (auto simp: verifyDataOutputs_def less_Suc_eq numeral_eq_Suc)
  with le show ?thesis by (auto simp: nx ns)
qed

function verifyDataLoop ::
  "platform \<Rightarrow> 'w nativeContext \<Rightarrow> config \<Rightarrow> VerifyDataRequest \<Rightarrow> int \<Rightarrow> verifyDataCapacities \<Rightarrow>
   ('w, gerror + VerifyDataResult) state" where
  "verifyDataLoop p ctx c req nativeFlags capacities = do {
     n_ClearError ctx;
     r \<leftarrow> n_VerifyData ctx \<lparr>vdc_Alias = vd_Alias req, vdc_Flags = nativeFlags, vdc_Data = vd_Data req,
            vdc_Signature = vd_Signature req, vdc_CertID = vd_CertID req,
            vdc_DataCapacity = cap_data capacities, vdc_InfoCapacity = cap_info capacities,
            vdc_CertCapacity = cap_cert capacities\<rparr>;
     case r of
       Inl err \<Rightarrow> ret (Inl err)
     | Inr result \<Rightarrow> do {
         code \<leftarrow> (if yr_Code result = ErrorOK then platformCMSLastError p ctx else ret ErrorOK);
         if code \<noteq> ErrorOK
         then do {
           e \<leftarrow> wrapCodeLocked ctx c code;
           ret (Inl (the e)) }
         else case validateVerifyDataOutputLengths result (platformVerifyDataOutputPolicy p req) of
           Some err \<Rightarrow> ret (Inl err)
         | None \<Rightarrow>
             if shouldRetryVerifyDataOutput (yr_Code result) result capacities
                  (platformVerifyDataOutputPolicy p req)
             then (case nextVerifyDataCapacities (yr_Code result) result capacities
                          (platformVerifyDataOutputPolicy p req) (maxBufferSize c) of
                     Inl err \<Rightarrow> ret (Inl err)
                   | Inr next \<Rightarrow> verifyDataLoop p ctx c req nativeFlags next)
             else verifyDataOutcome ctx c (platformVerifyDataOutputPolicy p req) result } }"
  by pat_completeness auto
termination
  by (relation "measure (\<lambda>(p, ctx, c, req, nativeFlags, capacities).
      nat (outputBufferLimit (maxBufferSize c) - cap_data capacities) +
      nat (outputBufferLimit (maxBufferSize c) - cap_info capacities) +
      nat (outputBufferLimit (maxBufferSize c) - cap_cert capacities))")
    (auto dest: nextVerifyDataCapacities_progress)

declare verifyDataLoop.simps [simp del]

definition verifyDataInitial :: "platform \<Rightarrow> config \<Rightarrow> VerifyDataRequest \<Rightarrow> verifyDataCapacities" where
  "verifyDataInitial p c req =
     \<lparr>cap_data = (if dataBufferActive (platformVerifyDataOutputPolicy p req)
        then boundedOutputCapacity (requestOutputInitialCapacity c (vd_DataCapacity req)
               initialSignatureBuffer) (maxBufferSize c)
        else 1),
      cap_info = boundedOutputCapacity (requestOutputInitialCapacity c (vd_VerifyInfoCapacity req)
        initialInfoOutputBuffer) (maxBufferSize c),
      cap_cert = boundedOutputCapacity (requestOutputInitialCapacity c (vd_CertCapacity req)
        initialCertOutputBuffer) (maxBufferSize c)\<rparr>"

section \<open>Certificate validation\<close>

record ValidateCertificateCallRequest =
  vq_Certificate :: slice
  vq_ValidationType :: goint
  vq_ValidationPath :: gostring
  vq_CheckTimeUnix :: int64
  vq_Flags :: Flag
  vq_OutputCapacity :: int
  vq_OCSPCapacity :: int

record ValidateCertificateResultN =
  vqr_Info :: gostring
  vqr_OCSPResponse :: slice

definition shouldRetryValidateCertificateOutput ::
  "ErrorCode \<Rightarrow> ValidateResult \<Rightarrow> int \<Rightarrow> int \<Rightarrow> bool \<Rightarrow> bool" where
  "shouldRetryValidateCertificateOutput code result infoCap ocspCap returnOCSP \<longleftrightarrow>
     code = ErrorBufferTooSmall \<or>
     code = ErrorOK \<and> (vr_InfoLen result > infoCap \<or> returnOCSP \<and> vr_OCSPLen result > ocspCap)"

definition validateOutputs :: "ValidateResult \<Rightarrow> int \<Rightarrow> int \<Rightarrow> bool \<Rightarrow> outputBufferState list" where
  "validateOutputs result infoCap ocspCap returnOCSP =
     [\<lparr>o_current = infoCap, o_reported = vr_InfoLen result, o_active = True,
       o_retrySaturated = False, o_growthHint = 0\<rparr>,
      \<lparr>o_current = ocspCap, o_reported = vr_OCSPLen result, o_active = returnOCSP,
       o_retrySaturated = False, o_growthHint = 0\<rparr>]"

definition validateOutcome ::
  "'w nativeContext \<Rightarrow> config \<Rightarrow> bool \<Rightarrow> ValidateResult \<Rightarrow> ('w, gerror + ValidateCertificateResultN) state" where
  "validateOutcome ctx c returnOCSP result = do {
     e \<leftarrow> wrapCodeLocked ctx c (vr_Code result);
     ret (case e of
            Some err \<Rightarrow> Inl err
          | None \<Rightarrow>
              (case validateNativeOutputDataLength ''certificate-validation info'' (vr_Info result)
                      (vr_InfoLen result) of
                 Some err \<Rightarrow> Inl err
               | None \<Rightarrow>
              (case (if returnOCSP
                     then validateNativeOutputDataLength ''OCSP response'' (vr_OCSP result) (vr_OCSPLen result)
                     else None) of
                 Some err \<Rightarrow> Inl err
               | None \<Rightarrow> Inr \<lparr>vqr_Info = str_of (BeforeNUL (vr_Info result)),
                              vqr_OCSPResponse = (if returnOCSP then vr_OCSP result else None)\<rparr>))) }"

lemma validate_progress:
  assumes "nextOutputBufferCapacities operation code m (validateOutputs result infoCap ocspCap returnOCSP) = Inr next"
  shows "nat (outputBufferLimit m - next ! 0) + nat (outputBufferLimit m - next ! 1) <
    nat (outputBufferLimit m - infoCap) + nat (outputBufferLimit m - ocspCap)"
proof -
  note p = nextOutputBufferCapacities_progress [OF assms]
  from p(1) obtain a b where ns: "next = [a, b]" and le: "infoCap \<le> a" "ocspCap \<le> b"
    by (auto simp: validateOutputs_def list_all2_Cons1)
  from p(2) have "infoCap < a \<and> infoCap < outputBufferLimit m \<or> ocspCap < b \<and> ocspCap < outputBufferLimit m"
    unfolding ns by (auto simp: validateOutputs_def less_Suc_eq numeral_eq_Suc)
  with le show ?thesis by (auto simp: ns)
qed

function validateLoop ::
  "'w nativeContext \<Rightarrow> config \<Rightarrow> ValidateCertificateCallRequest \<Rightarrow> int \<Rightarrow> int \<Rightarrow> int \<Rightarrow> int \<Rightarrow>
   ('w, gerror + ValidateCertificateResultN) state" where
  "validateLoop ctx c req nativeType nativeFlags infoCap ocspCap = do {
     n_ClearError ctx;
     r \<leftarrow> n_X509ValidateCertificate ctx \<lparr>vcc_Certificate = vq_Certificate req,
            vcc_ValidationType = nativeType, vcc_ValidationPath = vq_ValidationPath req,
            vcc_CheckTimeUnix = vq_CheckTimeUnix req, vcc_Flags = nativeFlags,
            vcc_InfoCapacity = infoCap, vcc_OCSPCapacity = ocspCap\<rparr>;
     case r of
       Inl err \<Rightarrow> ret (Inl err)
     | Inr result \<Rightarrow>
         if vr_InfoLen result < 0
         then ret (Inl (invalidNativeOutputLength ''certificate-validation info'' (vr_InfoLen result)))
         else if has_flag (vq_Flags req) GetOCSPResponse \<and> vr_OCSPLen result < 0
         then ret (Inl (invalidNativeOutputLength ''OCSP response'' (vr_OCSPLen result)))
         else if shouldRetryValidateCertificateOutput (vr_Code result) result infoCap ocspCap
                   (has_flag (vq_Flags req) GetOCSPResponse)
         then (case nextOutputBufferCapacities ''X509ValidateCertificate'' (vr_Code result) (maxBufferSize c)
                      (validateOutputs result infoCap ocspCap (has_flag (vq_Flags req) GetOCSPResponse)) of
                 Inl err \<Rightarrow> ret (Inl err)
               | Inr next \<Rightarrow> validateLoop ctx c req nativeType nativeFlags (next ! 0) (next ! 1))
         else validateOutcome ctx c (has_flag (vq_Flags req) GetOCSPResponse) result }"
  by pat_completeness auto
termination
  by (relation "measure (\<lambda>(ctx, c, req, nativeType, nativeFlags, infoCap, ocspCap).
      nat (outputBufferLimit (maxBufferSize c) - infoCap) +
      nat (outputBufferLimit (maxBufferSize c) - ocspCap))")
    (auto dest: validate_progress)

declare validateLoop.simps [simp del]

section \<open>Verification results\<close>

lemma verify_induct [case_names step]:
  assumes "\<And>caps. (\<And>code result policy next.
      nextVerifyDataCapacities code result caps policy m = Inr next \<Longrightarrow> P next) \<Longrightarrow> P caps"
  shows "P caps"
proof (induction "nat (outputBufferLimit m - cap_data caps) + nat (outputBufferLimit m - cap_info caps) +
    nat (outputBufferLimit m - cap_cert caps)" arbitrary: caps rule: less_induct)
  case less
  show ?case
    by (rule assms) (rule less, erule nextVerifyDataCapacities_progress)
qed

definition capacities_ok :: "int \<Rightarrow> verifyDataCapacities \<Rightarrow> bool" where
  "capacities_ok m caps \<longleftrightarrow>
     0 < cap_data caps \<and> cap_data caps \<le> outputBufferLimit m \<and>
     0 < cap_info caps \<and> cap_info caps \<le> outputBufferLimit m \<and>
     0 < cap_cert caps \<and> cap_cert caps \<le> outputBufferLimit m"

lemma capacities_initial: "capacities_ok (maxBufferSize c) (verifyDataInitial p c req)"
  using limit_range [of "maxBufferSize c"] bounded_range [of _ "maxBufferSize c"]
  by (simp add: capacities_ok_def verifyDataInitial_def)

lemma capacities_next:
  assumes "nextVerifyDataCapacities code result caps policy m = Inr next" "capacities_ok m caps"
  shows "capacities_ok m next"
proof -
  from assms obtain ns where n: "nextOutputBufferCapacities ''VerifyData'' code m
      (verifyDataOutputs result caps policy) = Inr ns"
    and nx: "next = \<lparr>cap_data = ns ! 0, cap_info = ns ! 1, cap_cert = ns ! 2\<rparr>"
    by (auto simp: nextVerifyDataCapacities_def split: sum.splits)
  have "list_all (output_ok m) (verifyDataOutputs result caps policy)"
    using assms(2) by (simp add: verifyDataOutputs_def output_ok_def capacities_ok_def)
  from nextOutputBufferCapacities_ok(1) [OF n this] obtain a b d where "ns = [a, b, d]"
    and "cap_data caps \<le> a" "a \<le> outputBufferLimit m" "cap_info caps \<le> b" "b \<le> outputBufferLimit m"
      "cap_cert caps \<le> d" "d \<le> outputBufferLimit m"
    by (auto simp: verifyDataOutputs_def list_all2_Cons1 grown_from_def)
  with assms(2) show ?thesis by (auto simp: nx capacities_ok_def)
qed

definition verify_call :: "VerifyDataRequest \<Rightarrow> int \<Rightarrow> verifyDataCapacities \<Rightarrow> VerifyDataCall" where
  "verify_call req nativeFlags caps = \<lparr>vdc_Alias = vd_Alias req, vdc_Flags = nativeFlags,
     vdc_Data = vd_Data req, vdc_Signature = vd_Signature req, vdc_CertID = vd_CertID req,
     vdc_DataCapacity = cap_data caps, vdc_InfoCapacity = cap_info caps, vdc_CertCapacity = cap_cert caps\<rparr>"

text \<open>What it means that a verification result comes from a successful native verification.\<close>

definition verified_by ::
  "platform \<Rightarrow> 'w nativeContext \<Rightarrow> config \<Rightarrow> VerifyDataRequest \<Rightarrow> int \<Rightarrow> VerifyDataResult \<Rightarrow> bool" where
  "verified_by p ctx c req nativeFlags res \<longleftrightarrow>
     (\<exists>caps w1 w2 result w3. capacities_ok (maxBufferSize c) caps \<and>
        run_state (n_VerifyData ctx (verify_call req nativeFlags caps)) w1 = (Inr result, w2) \<and>
        yr_Code result = ErrorOK \<and>
        run_state (platformCMSLastError p ctx) w2 = (ErrorOK, w3) \<and>
        yr_InfoLen result = int (slice_len (yr_Info result)) \<and> yr_InfoLen result \<le> cap_info caps \<and>
        yr_CertLen result = int (slice_len (yr_Cert result)) \<and> yr_CertLen result \<le> cap_cert caps \<and>
        (verifyDataReturnsDecodedData req \<longrightarrow>
           yr_DataLen result = int (slice_len (yr_Data result)) \<and> yr_DataLen result \<le> cap_data caps \<and>
           (p = Linux \<longrightarrow> yr_DataLen result < cap_data caps)) \<and>
        res = \<lparr>vdr_Data = (if verifyDataReturnsDecodedData req then yr_Data result else None),
               vdr_VerifyInfo = str_of (BeforeNUL (yr_Info result)), vdr_Cert = yr_Cert result\<rparr>)"

lemma policy_facts:
  "returnDecodedData (platformVerifyDataOutputPolicy p req) = verifyDataReturnsDecodedData req"
  "verifyDataReturnsDecodedData req \<Longrightarrow> dataBufferActive (platformVerifyDataOutputPolicy p req)"
  "retrySaturatedData (platformVerifyDataOutputPolicy Linux req) = verifyDataReturnsDecodedData req"
  by (cases p; simp add: platformVerifyDataOutputPolicy_def linuxVerifyDataOutputPolicy_def
      otherVerifyDataOutputPolicy_def Let_def)+

lemma verifyDataOutcome_Inr:
  assumes "fst (run_state (verifyDataOutcome ctx c policy result) w) = Inr res"
  shows "yr_Code result = ErrorOK"
    "dataBufferActive policy \<Longrightarrow> yr_DataLen result = int (slice_len (yr_Data result))"
    "yr_InfoLen result = int (slice_len (yr_Info result))"
    "yr_CertLen result = int (slice_len (yr_Cert result))"
    "res = \<lparr>vdr_Data = (if returnDecodedData policy then yr_Data result else None),
       vdr_VerifyInfo = str_of (BeforeNUL (yr_Info result)), vdr_Cert = yr_Cert result\<rparr>"
  using assms
  by (auto simp: verifyDataOutcome_def wrapCode_None validateNativeOutputDataLength_def
      split: option.splits if_splits)

lemma verifyDataLoop_sound:
  assumes "capacities_ok (maxBufferSize c) caps"
    and "fst (run_state (verifyDataLoop p ctx c req nativeFlags caps) w) = Inr res"
  shows "verified_by p ctx c req nativeFlags res"
  using assms
proof (induction caps arbitrary: w rule: verify_induct [of "maxBufferSize c"])
  case (step caps)
  let ?policy = "platformVerifyDataOutputPolicy p req" let ?w = "exec (n_ClearError ctx) w"
  obtain r w1 where call: "run_state (n_VerifyData ctx (verify_call req nativeFlags caps)) ?w = (r, w1)"
    by (metis surj_pair)
  note loop = step.prems(2) [unfolded verifyDataLoop.simps [of p ctx c req nativeFlags caps]]
  note call' = call [unfolded verify_call_def]
  from loop call' obtain result where r: "r = Inr result" by (cases r) auto
  let ?last = "if yr_Code result = ErrorOK then platformCMSLastError p ctx else ret ErrorOK"
  obtain code w2 where last: "run_state ?last w1 = (code, w2)" by (metis surj_pair)
  from loop call' r last have ok: "code = ErrorOK"
    "validateVerifyDataOutputLengths result ?policy = None"
    by (auto split: if_splits option.splits)
  show ?case
  proof (cases "shouldRetryVerifyDataOutput (yr_Code result) result caps ?policy")
    case True
    with loop call' r last ok obtain next' where
      n: "nextVerifyDataCapacities (yr_Code result) result caps ?policy (maxBufferSize c) = Inr next'"
      and again: "fst (run_state (verifyDataLoop p ctx c req nativeFlags next') w2) = Inr res"
      by (auto split: sum.splits)
    from step.IH [OF n capacities_next [OF n step.prems(1)] again] show ?thesis .
  next
    case False
    with loop call' r last ok
    have "fst (run_state (verifyDataOutcome ctx c ?policy result) w2) = Inr res" by simp
    note out = verifyDataOutcome_Inr [OF this]
    from False out(1) have fit: "yr_InfoLen result \<le> cap_info caps" "yr_CertLen result \<le> cap_cert caps"
      "dataBufferActive ?policy \<Longrightarrow> yr_DataLen result \<le> cap_data caps"
      "dataBufferActive ?policy \<Longrightarrow> retrySaturatedData ?policy \<Longrightarrow> yr_DataLen result \<noteq> cap_data caps"
      by (auto simp: shouldRetryVerifyDataOutput_def ErrorOK_not_small)
    have "verifyDataReturnsDecodedData req \<longrightarrow>
        yr_DataLen result = int (slice_len (yr_Data result)) \<and> yr_DataLen result \<le> cap_data caps \<and>
        (p = Linux \<longrightarrow> yr_DataLen result < cap_data caps)"
      using out(2) fit(3,4) policy_facts(2) [of req p] policy_facts(3) [of req] by force
    moreover have "run_state (platformCMSLastError p ctx) w1 = (ErrorOK, w2)"
      using last ok(1) out(1) by simp
    ultimately show ?thesis
      using step.prems(1) call r out(1,3,4) fit(1,2) out(5) [unfolded policy_facts(1)]
      unfolding verified_by_def by blast
  qed
qed

end
