(* ===== verification/Ckalkan_Client.thy ===== *)
theory Ckalkan_Client
  imports Native_Verify Transition_System
begin

text \<open>
  The client of the native wrapper (\<^verbatim>\<open>ckalkan/client.go\<close>, \<^verbatim>\<open>lifecycle.go\<close> and the
  operation files): the process-wide slot, the clients that \<^verbatim>\<open>New\<close> has created, the
  state of the native library, and every operation. One process mutex protects all of it, so
  each method is one atomic step; a method runs between the lock and the unlock of that mutex.
  A client pointer that may be nil is an option.
\<close>

section \<open>Clients\<close>

record client =
  ctx :: bool
  cfg :: config
  closed :: bool
  ownsSlot :: bool

text \<open>Whether the build has a native loader, and the loaded library: parameters.\<close>

record 'w loader =
  available :: bool
  native :: "'w nativeContext"
  open_library :: "gostring \<Rightarrow> ('w, gerror option) state"
  is_unavailable :: "gerror \<Rightarrow> bool"
  stat :: "gostring \<Rightarrow> int option"
  target :: platform

definition unsupportedContextCapability :: "gostring \<Rightarrow> gerror" where
  "unsupportedContextCapability operation =
     plainError (''ckalkan: native context does not support '' @ operation)"

definition ensureOpenLocked :: "'w loader \<Rightarrow> client option \<Rightarrow> gerror option" where
  "ensureOpenLocked L c = (case c of
     None \<Rightarrow> Some (Sentinel CkErrClosed)
   | Some cl \<Rightarrow>
       if closed cl \<or> \<not> ctx cl
       then if \<not> available L then Some (Sentinel CkErrUnavailable) else Some (Sentinel CkErrClosed)
       else None)"

definition contextAsLocked :: "'w loader \<Rightarrow> client option \<Rightarrow> capability \<Rightarrow> gostring \<Rightarrow> gerror option" where
  "contextAsLocked L c T operation = (case ensureOpenLocked L c of
     Some err \<Rightarrow> Some err
   | None \<Rightarrow> if \<not> capabilities (native L) T then Some (unsupportedContextCapability operation) else None)"

text \<open>The prologue of an operation: the context check, then the body with the configuration.\<close>

definition with_context ::
  "'w loader \<Rightarrow> client option \<Rightarrow> capability \<Rightarrow> gostring \<Rightarrow> (config \<Rightarrow> ('w, gerror + 'a) state) \<Rightarrow>
   ('w, gerror + 'a) state" where
  "with_context L c T operation body = (case contextAsLocked L c T operation of
     Some err \<Rightarrow> ret (Inl err)
   | None \<Rightarrow> body (cfg (the c)))"

text \<open>Go's \<^verbatim>\<open>if err != nil { return ..., err }\<close> after an argument check.\<close>

definition checked :: "gerror + 'a \<Rightarrow> ('a \<Rightarrow> ('w, gerror + 'b) state) \<Rightarrow> ('w, gerror + 'b) state" where
  "checked r k = (case r of Inl err \<Rightarrow> ret (Inl err) | Inr v \<Rightarrow> k v)"

definition guarded :: "gerror option \<Rightarrow> ('w, gerror + 'b) state \<Rightarrow> ('w, gerror + 'b) state" where
  "guarded e k = (case e of Some err \<Rightarrow> ret (Inl err) | None \<Rightarrow> k)"

text \<open>A native call that returns only a status.\<close>

definition status_call :: "'w loader \<Rightarrow> config \<Rightarrow> ('w, uint64) state \<Rightarrow> ('w, gerror + unit) state" where
  "status_call L c call = do {
     n_ClearError (native L);
     code \<leftarrow> call;
     e \<leftarrow> wrapCodeLocked (native L) c code;
     ret (case e of Some err \<Rightarrow> Inl err | None \<Rightarrow> Inr ()) }"

definition void_call :: "'w loader \<Rightarrow> ('w, unit) state \<Rightarrow> ('w, gerror + unit) state" where
  "void_call L call = do { n_ClearError (native L); call; ret (Inr ()) }"

text \<open>A length-aware call whose output is used as bytes, or as a C string.\<close>

abbreviation buffer_call ::
  "'w loader \<Rightarrow> config \<Rightarrow> gostring \<Rightarrow> int \<Rightarrow> (int \<Rightarrow> ('w, gerror + BufferResult) state) \<Rightarrow>
   ('w, gerror + slice) state" where
  "buffer_call L c \<equiv> callBufferWithCapacityLocked (native L) c"

definition text_call ::
  "'w loader \<Rightarrow> config \<Rightarrow> gostring \<Rightarrow> int \<Rightarrow> (int \<Rightarrow> ('w, gerror + BufferResult) state) \<Rightarrow>
   ('w, gerror + slice) state" where
  "text_call L c operation initial call = do {
     out \<leftarrow> buffer_call L c operation initial call;
     ret (case out of Inl err \<Rightarrow> Inl err | Inr b \<Rightarrow> Inr (BeforeNUL b)) }"

section \<open>Lifecycle operations\<close>

definition Init :: "'w loader \<Rightarrow> client option \<Rightarrow> ('w, gerror + unit) state" where
  "Init L c = with_context L c lifecycleContext ''Init'' (\<lambda>f. status_call L f (n_Init (native L)))"

definition InitDebug :: "'w loader \<Rightarrow> client option \<Rightarrow> ('w, gerror + unit) state" where
  "InitDebug L c = with_context L c lifecycleContext ''InitDebug''
     (\<lambda>_. void_call L (n_InitDebug (native L)))"

definition Finalize :: "'w loader \<Rightarrow> client option \<Rightarrow> ('w, gerror + unit) state" where
  "Finalize L c = with_context L c lifecycleContext ''Finalize''
     (\<lambda>_. void_call L (n_Finalize (native L)))"

definition XMLFinalize :: "'w loader \<Rightarrow> client option \<Rightarrow> ('w, gerror + unit) state" where
  "XMLFinalize L c = with_context L c lifecycleContext ''XMLFinalize''
     (\<lambda>_. void_call L (n_XMLFinalize (native L)))"

definition GetLastError :: "'w loader \<Rightarrow> client option \<Rightarrow> ('w, ErrorCode) state" where
  "GetLastError L c = (case contextAsLocked L c lifecycleContext ''GetLastError'' of
     Some err \<Rightarrow> ret ErrorLibraryNotInitialized
   | None \<Rightarrow> n_LastError (native L))"

definition GetLastErrorString :: "'w loader \<Rightarrow> client option \<Rightarrow> ('w, ErrorCode \<times> gostring) state" where
  "GetLastErrorString L c = (case ensureOpenLocked L c of
     Some err \<Rightarrow> ret (ErrorLibraryNotInitialized, error_text err)
   | None \<Rightarrow> lastErrorStringLocked (native L) (cfg (the c)))"

section \<open>Stores and certificates\<close>

definition GetTokens :: "'w loader \<Rightarrow> client option \<Rightarrow> uint64 \<Rightarrow> ('w, gerror + ListResult) state" where
  "GetTokens L c storage = with_context L c tokenStoreContext ''GetTokens'' (\<lambda>f.
     checked (storeToNativeUnsignedLong storage) (\<lambda>nativeStorage.
       callListLocked (native L) f ''GetTokens'' (n_GetTokens (native L) nativeStorage)))"

definition GetCertificatesList :: "'w loader \<Rightarrow> client option \<Rightarrow> ('w, gerror + ListResult) state" where
  "GetCertificatesList L c = with_context L c tokenStoreContext ''GetCertificatesList'' (\<lambda>f.
     callListLocked (native L) f ''GetCertificatesList'' (n_GetCertificatesList (native L)))"

definition LoadKeyStore ::
  "'w loader \<Rightarrow> client option \<Rightarrow> uint64 \<Rightarrow> gostring \<Rightarrow> gostring \<Rightarrow> gostring \<Rightarrow> ('w, gerror + unit) state" where
  "LoadKeyStore L c storage password container alias =
     checked (storeToNativeInt storage) (\<lambda>nativeStorage.
       with_context L c tokenStoreContext ''LoadKeyStore'' (\<lambda>f.
         status_call L f (n_LoadKeyStore (native L) nativeStorage password container alias)))"

definition X509LoadCertificateFromFile ::
  "'w loader \<Rightarrow> client option \<Rightarrow> gostring \<Rightarrow> goint \<Rightarrow> ('w, gerror + unit) state" where
  "X509LoadCertificateFromFile L c certPath certType =
     checked (enumToNativeInt ''certificate type'' certType) (\<lambda>nativeType.
       with_context L c x509Context ''X509LoadCertificateFromFile'' (\<lambda>f.
         status_call L f (n_X509LoadCertificateFromFile (native L) certPath nativeType)))"

definition X509LoadCertificateFromBuffer ::
  "'w loader \<Rightarrow> client option \<Rightarrow> slice \<Rightarrow> goint \<Rightarrow> ('w, gerror + unit) state" where
  "X509LoadCertificateFromBuffer L c cert format =
     checked (enumToNativeInt ''certificate format'' format) (\<lambda>nativeFormat.
       with_context L c x509Context ''X509LoadCertificateFromBuffer'' (\<lambda>f.
         status_call L f (n_X509LoadCertificateFromBuffer (native L) cert nativeFormat)))"

definition X509ExportCertificateFromStore ::
  "'w loader \<Rightarrow> client option \<Rightarrow> gostring \<Rightarrow> goint \<Rightarrow> ('w, gerror + slice) state" where
  "X509ExportCertificateFromStore L c alias format =
     checked (enumToNativeInt ''certificate format'' format) (\<lambda>nativeFormat.
       with_context L c x509Context ''X509ExportCertificateFromStore'' (\<lambda>f.
         buffer_call L f ''X509ExportCertificateFromStore'' (outputInitialCapacity f initialCertOutputBuffer)
           (n_X509ExportCertificateFromStore (native L) alias nativeFormat)))"

definition X509CertificateGetInfo ::
  "'w loader \<Rightarrow> client option \<Rightarrow> slice \<Rightarrow> goint \<Rightarrow> ('w, gerror + slice) state" where
  "X509CertificateGetInfo L c cert prop =
     checked (enumToNativeInt ''certificate property'' prop) (\<lambda>nativeProperty.
       with_context L c x509Context ''X509CertificateGetInfo'' (\<lambda>f.
         text_call L f ''X509CertificateGetInfo'' (outputInitialCapacity f initialInfoOutputBuffer)
           (n_X509CertificateGetInfo (native L) cert nativeProperty)))"

definition X509ValidateCertificate ::
  "'w loader \<Rightarrow> client option \<Rightarrow> ValidateCertificateCallRequest \<Rightarrow>
   ('w, gerror + ValidateCertificateResultN) state" where
  "X509ValidateCertificate L c req =
     checked (enumToNativeInt ''validation type'' (vq_ValidationType req)) (\<lambda>nativeType.
     checked (flagsToNativeInt (vq_Flags req)) (\<lambda>nativeFlags.
       with_context L c x509Context ''X509ValidateCertificate'' (\<lambda>f.
         validateLoop (native L) f req nativeType nativeFlags
           (boundedOutputCapacity (requestOutputInitialCapacity f (vq_OutputCapacity req)
              initialInfoOutputBuffer) (maxBufferSize f))
           (boundedOutputCapacity (requestOutputInitialCapacity f (vq_OCSPCapacity req)
              initialCertOutputBuffer) (maxBufferSize f)))))"

section \<open>Hashing and signing\<close>

definition HashData ::
  "'w loader \<Rightarrow> client option \<Rightarrow> HashAlgorithm \<Rightarrow> Flag \<Rightarrow> slice \<Rightarrow> ('w, gerror + slice) state" where
  "HashData L c algorithm flags data =
     checked (flagsToNativeInt flags) (\<lambda>nativeFlags.
       with_context L c hashContext ''HashData'' (\<lambda>f.
         buffer_call L f ''HashData'' (outputInitialCapacity f (initialHashOutputCapacity algorithm flags))
           (\<lambda>capacity. n_HashData (native L) \<lparr>hc_Algorithm = algorithm, hc_Flags = nativeFlags,
              hc_Data = data, hc_Capacity = capacity\<rparr>)))"

definition SignHash ::
  "'w loader \<Rightarrow> client option \<Rightarrow> gostring \<Rightarrow> Flag \<Rightarrow> slice \<Rightarrow> ('w, gerror + slice) state" where
  "SignHash L c alias flags hash =
     checked (flagsToNativeInt flags) (\<lambda>nativeFlags.
       with_context L c hashContext ''SignHash'' (\<lambda>f.
         buffer_call L f ''SignHash'' (outputInitialCapacity f initialSignatureBuffer)
           (\<lambda>capacity. n_SignHash (native L) \<lparr>shc_Alias = alias, shc_Flags = nativeFlags,
              shc_Hash = hash, shc_Capacity = capacity\<rparr>)))"

text \<open>The call of \<^verbatim>\<open>SignData\<close>: a success status is replaced by the last error.\<close>

definition signDataCall ::
  "'w loader \<Rightarrow> SignDataRequest \<Rightarrow> int \<Rightarrow> int \<Rightarrow> ('w, gerror + BufferResult) state" where
  "signDataCall L req nativeFlags capacity = do {
     r \<leftarrow> n_SignData (native L) \<lparr>sdc_Alias = sd_Alias req, sdc_Flags = nativeFlags,
            sdc_Data = sd_Data req, sdc_Signature = sd_Signature req, sdc_Capacity = capacity\<rparr>;
     case r of
       Inl err \<Rightarrow> ret (Inl err)
     | Inr result \<Rightarrow>
         if br_Code result = ErrorOK
         then do {
           code \<leftarrow> platformCMSLastError (target L) (native L);
           ret (Inr (result\<lparr>br_Code := code\<rparr>)) }
         else ret (Inr result) }"

definition SignData :: "'w loader \<Rightarrow> client option \<Rightarrow> SignDataRequest \<Rightarrow> ('w, gerror + slice) state" where
  "SignData L c req =
     checked (flagsToNativeInt (sd_Flags req)) (\<lambda>nativeFlags.
       with_context L c cmsContext ''SignData'' (\<lambda>f.
         buffer_call L f ''SignData''
           (estimatedOutputInitialCapacity f (sd_OutputCapacity req)
              (if sd_OutputCapacity req \<le> 0 then estimateSignDataOutput (stat L) req (maxBufferSize f) else 0)
              initialSignatureBuffer)
           (signDataCall L req nativeFlags)))"

section \<open>CMS\<close>

definition GetCertFromCMS ::
  "'w loader \<Rightarrow> client option \<Rightarrow> slice \<Rightarrow> int \<Rightarrow> Flag \<Rightarrow> ('w, gerror + slice) state" where
  "GetCertFromCMS L c cms signID flags =
     guarded (validateNativeSignerID ''signID'' signID) (
     checked (flagsToNativeInt flags) (\<lambda>nativeFlags.
       with_context L c cmsContext ''GetCertFromCMS'' (\<lambda>f.
         buffer_call L f ''GetCertFromCMS'' (outputInitialCapacity f initialCertOutputBuffer)
           (\<lambda>capacity. n_GetCertFromCMS (native L) \<lparr>gcc_CMS = cms, gcc_SignID = signID,
              gcc_Flags = nativeFlags, gcc_Capacity = capacity\<rparr>))))"

text \<open>The result is the Unix time that \<^verbatim>\<open>time.Unix(unix, 0)\<close> turns into an instant.\<close>

definition GetTimeFromSig ::
  "'w loader \<Rightarrow> client option \<Rightarrow> slice \<Rightarrow> Flag \<Rightarrow> int \<Rightarrow> ('w, gerror + int64) state" where
  "GetTimeFromSig L c data flags sigID =
     guarded (validateNativeSignerID ''sigID'' sigID) (
     checked (flagsToNativeInt flags) (\<lambda>nativeFlags.
       with_context L c cmsContext ''GetTimeFromSig'' (\<lambda>f. do {
         n_ClearError (native L);
         (code, unix) \<leftarrow> n_GetTimeFromSig (native L) data nativeFlags sigID;
         e \<leftarrow> wrapCodeLocked (native L) f code;
         ret (case e of Some err \<Rightarrow> Inl err | None \<Rightarrow> Inr unix) })))"

definition VerifyData ::
  "'w loader \<Rightarrow> client option \<Rightarrow> VerifyDataRequest \<Rightarrow> ('w, gerror + VerifyDataResult) state" where
  "VerifyData L c req =
     guarded (validateNativeSignerID ''CertID'' (vd_CertID req)) (
     checked (flagsToNativeInt (vd_Flags req)) (\<lambda>nativeFlags.
       with_context L c cmsContext ''VerifyData'' (\<lambda>f.
         verifyDataLoop (target L) (native L) f req nativeFlags (verifyDataInitial (target L) f req))))"

section \<open>XML\<close>

record SignXMLCallRequest =
  snx_Alias :: gostring
  snx_Flags :: Flag
  snx_XML :: slice
  snx_SignNodeID :: gostring
  snx_ParentSignNode :: gostring
  snx_ParentNamespace :: gostring
  snx_OutputCapacity :: int

definition SignXML :: "'w loader \<Rightarrow> client option \<Rightarrow> SignXMLCallRequest \<Rightarrow> ('w, gerror + slice) state" where
  "SignXML L c req =
     checked (flagsToNativeInt (snx_Flags req)) (\<lambda>nativeFlags.
       with_context L c xmlContext ''SignXML'' (\<lambda>f.
         text_call L f ''SignXML'' (signedXMLOutputInitialCapacity f (snx_OutputCapacity req) (snx_XML req))
           (\<lambda>capacity. n_SignXML (native L) \<lparr>sxc_Alias = snx_Alias req, sxc_Flags = nativeFlags,
              sxc_XML = snx_XML req, sxc_SignNodeID = snx_SignNodeID req,
              sxc_ParentSignNode = snx_ParentSignNode req, sxc_ParentNamespace = snx_ParentNamespace req,
              sxc_Capacity = capacity\<rparr>)))"

definition VerifyXML ::
  "'w loader \<Rightarrow> client option \<Rightarrow> gostring \<Rightarrow> Flag \<Rightarrow> slice \<Rightarrow> ('w, gerror + slice) state" where
  "VerifyXML L c alias flags xml =
     checked (flagsToNativeInt flags) (\<lambda>nativeFlags.
       with_context L c xmlContext ''VerifyXML'' (\<lambda>f.
         text_call L f ''VerifyXML'' (outputInitialCapacity f initialInfoOutputBuffer)
           (\<lambda>capacity. n_VerifyXML (native L) \<lparr>vxc_Alias = alias, vxc_Flags = nativeFlags,
              vxc_XML = xml, vxc_Capacity = capacity\<rparr>)))"

definition GetCertFromXML ::
  "'w loader \<Rightarrow> client option \<Rightarrow> slice \<Rightarrow> int \<Rightarrow> ('w, gerror + slice) state" where
  "GetCertFromXML L c xml signID =
     guarded (validateNativeSignerID ''signID'' signID) (
       with_context L c xmlContext ''GetCertFromXML'' (\<lambda>f.
         buffer_call L f ''GetCertFromXML'' (outputInitialCapacity f initialCertOutputBuffer)
           (n_GetCertFromXML (native L) xml signID)))"

definition GetSigAlgFromXML :: "'w loader \<Rightarrow> client option \<Rightarrow> slice \<Rightarrow> ('w, gerror + slice) state" where
  "GetSigAlgFromXML L c xml =
     with_context L c xmlContext ''GetSigAlgFromXML'' (\<lambda>f.
       text_call L f ''GetSigAlgFromXML'' (outputInitialCapacity f initialInfoOutputBuffer)
         (n_GetSigAlgFromXML (native L) xml))"

record SignWSSECallRequest =
  sw_Alias :: gostring
  sw_Flags :: Flag
  sw_XML :: slice
  sw_SignNodeID :: gostring
  sw_OutputCapacity :: int

definition SignWSSE :: "'w loader \<Rightarrow> client option \<Rightarrow> SignWSSECallRequest \<Rightarrow> ('w, gerror + slice) state" where
  "SignWSSE L c req =
     checked (flagsToNativeUnsignedLong (sw_Flags req)) (\<lambda>flags.
       with_context L c xmlContext ''SignWSSE'' (\<lambda>f.
         text_call L f ''SignWSSE'' (signedXMLOutputInitialCapacity f (sw_OutputCapacity req) (sw_XML req))
           (\<lambda>capacity. n_SignWSSE (native L) \<lparr>swc_Alias = sw_Alias req, swc_Flags = flags,
              swc_XML = sw_XML req, swc_SignNodeID = sw_SignNodeID req, swc_Capacity = capacity\<rparr>)))"

section \<open>Network settings and ZIP containers\<close>

definition SetTSAURL :: "'w loader \<Rightarrow> client option \<Rightarrow> gostring \<Rightarrow> ('w, gerror + unit) state" where
  "SetTSAURL L c tsaURL = with_context L c networkContext ''SetTSAURL'' (\<lambda>f.
     status_call L f (n_SetTSAURL (native L) tsaURL))"

record ProxyCallRequest =
  pr_Flags :: Flag
  pr_Address :: gostring
  pr_Port :: gostring
  pr_User :: gostring
  pr_Password :: gostring

definition SetProxy :: "'w loader \<Rightarrow> client option \<Rightarrow> ProxyCallRequest \<Rightarrow> ('w, gerror + unit) state" where
  "SetProxy L c req =
     checked (flagsToNativeInt (pr_Flags req)) (\<lambda>nativeFlags.
       with_context L c networkContext ''SetProxy'' (\<lambda>f.
         status_call L f (n_SetProxy (native L) \<lparr>pc_Flags = nativeFlags, pc_Address = pr_Address req,
           pc_Port = pr_Port req, pc_User = pr_User req, pc_Password = pr_Password req\<rparr>)))"

definition ZipConVerify ::
  "'w loader \<Rightarrow> client option \<Rightarrow> gostring \<Rightarrow> Flag \<Rightarrow> ('w, gerror + slice) state" where
  "ZipConVerify L c zipFile flags =
     checked (flagsToNativeInt flags) (\<lambda>nativeFlags.
       with_context L c zipContext ''ZipConVerify'' (\<lambda>f.
         let safetyCapacity = platformZIPVerifySafetyCapacity (target L)
         in if safetyCapacity > 0 \<and> maxBufferSize f > 0 \<and> maxBufferSize f < safetyCapacity
            then ret (Inl (outputBufferLimitError ''ZipConVerify'' (maxBufferSize f) safetyCapacity))
            else text_call L f ''ZipConVerify'' (outputInitialCapacity f initialZIPVerifyBuffer)
                   (n_ZipConVerify (native L) zipFile nativeFlags)))"

record ZipConSignCallRequest =
  zs_Alias :: gostring
  zs_FilePath :: gostring
  zs_Name :: gostring
  zs_OutDir :: gostring
  zs_Flags :: Flag

definition ZipConSign :: "'w loader \<Rightarrow> client option \<Rightarrow> ZipConSignCallRequest \<Rightarrow> ('w, gerror + unit) state" where
  "ZipConSign L c req =
     checked (flagsToNativeInt (zs_Flags req)) (\<lambda>nativeFlags.
       with_context L c zipContext ''ZipConSign'' (\<lambda>f.
         status_call L f (n_ZipConSign (native L) \<lparr>zsc_Alias = zs_Alias req,
           zsc_FilePath = zs_FilePath req, zsc_Name = zs_Name req, zsc_OutDir = zs_OutDir req,
           zsc_Flags = nativeFlags\<rparr>)))"

definition GetCertFromZipFile ::
  "'w loader \<Rightarrow> client option \<Rightarrow> gostring \<Rightarrow> Flag \<Rightarrow> int \<Rightarrow> ('w, gerror + slice) state" where
  "GetCertFromZipFile L c zipFile flags signID =
     guarded (validateNativeSignerID ''signID'' signID) (
     checked (flagsToNativeInt flags) (\<lambda>nativeFlags.
       with_context L c zipContext ''GetCertFromZipFile'' (\<lambda>f.
         buffer_call L f ''GetCertFromZipFile'' (outputInitialCapacity f initialCertOutputBuffer)
           (\<lambda>capacity. n_GetCertFromZipFile (native L) \<lparr>gzc_ZipFile = zipFile, gzc_Flags = nativeFlags,
              gzc_SignID = signID, gzc_Capacity = capacity\<rparr>))))"

end
