(* ===== verification/Ckalkan_Process.thy ===== *)
theory Ckalkan_Process
  imports Ckalkan_Client
begin

text \<open>
  The process-wide state of the native wrapper and the life of its clients
  (\<^verbatim>\<open>New\<close> and \<^verbatim>\<open>Close\<close> of \<^verbatim>\<open>ckalkan/client.go\<close>): one slot for an active
  client, the poison flag a failed close leaves, the clients created so far (a pointer is an
  index) and the state of the native library. Every method holds the process mutex from its
  first access to this state to its return, so the methods of concurrent callers are the
  atomic steps of one transition system.
\<close>

record 'w process =
  active :: bool
  poisoned :: bool
  clients :: "client list"
  world :: 'w

definition zero_client :: client where
  "zero_client = \<lparr>ctx = False, cfg = \<lparr>libraryPath = [], listBufferSize = 0, bufferSize = 0,
     maxBufferSize = 0\<rparr>, closed = False, ownsSlot = False\<rparr>"

text \<open>Running a native function inside the process.\<close>

definition native_call :: "('w, 'a) state \<Rightarrow> ('w process, 'a) state" where
  "native_call m = State (\<lambda>s. let (r, w) = run_state m (world s) in (r, s\<lparr>world := w\<rparr>))"

lemma run_native_call [simp]:
  "run_state (native_call m) s = (fst (run_state m (world s)), s\<lparr>world := exec m (world s)\<rparr>)"
  by (simp add: native_call_def case_prod_unfold Let_def)

definition applyOptions :: "Option option list \<Rightarrow> config" where
  "applyOptions options = foldl (\<lambda>c opt. case opt of None \<Rightarrow> c | Some f \<Rightarrow> f c) defaultConfig options"

definition New :: "'w loader \<Rightarrow> Option option list \<Rightarrow> ('w process, gerror + nat) state" where
  "New L options =
     (let c = applyOptions options
      in if maxBufferSize c < 0 then ret (Inl (Sentinel CkErrInvalidOutputBufferSize))
      else if libraryPath c = [] then ret (Inl (Sentinel CkErrNoLibrary))
      else do {
        s \<leftarrow> State_Monad.get;
        if poisoned s then ret (Inl (Sentinel CkErrPoisoned))
        else if active s then ret (Inl (Sentinel CkErrAlreadyOpen))
        else do {
          State_Monad.update (\<lambda>s. s\<lparr>active := True\<rparr>);
          err \<leftarrow> native_call (open_library L (libraryPath c));
          (case err of
             None \<Rightarrow> do {
               State_Monad.update (\<lambda>s. s\<lparr>clients := clients s @
                 [\<lparr>ctx = True, cfg = c, closed = False, ownsSlot = True\<rparr>]\<rparr>);
               ret (Inr (length (clients s))) }
           | Some e \<Rightarrow> do {
               State_Monad.update (\<lambda>s. s\<lparr>active := False\<rparr>);
               ret (Inl (if is_unavailable L e then Sentinel CkErrUnavailable
                         else WrapError (''ckalkan: cannot load KalkanCrypt library: '' @
                                libraryPath c @ '': '' @ error_text e) (Some e))) }) } })"

text \<open>\<^verbatim>\<open>errors.Join\<close>: nil errors are dropped, the texts are joined by newlines.\<close>

definition joinErrors :: "gerror option list \<Rightarrow> gerror option" where
  "joinErrors errs =
     (let es = List.map_filter (\<lambda>e. e) errs
      in if es = [] then None
         else Some (MultiError (concat (map (\<lambda>e. error_text e @ [CHR 0x0A]) (butlast es)) @
                error_text (last es)) (map Some es)))"

definition update_client :: "nat \<Rightarrow> client \<Rightarrow> ('w process, unit) state" where
  "update_client i cl = State_Monad.update (\<lambda>s. s\<lparr>clients := (clients s)[i := cl]\<rparr>)"

definition release_slot :: "nat \<Rightarrow> client \<Rightarrow> ('w process, unit) state" where
  "release_slot i cl = do {
     State_Monad.update (\<lambda>s. s\<lparr>active := False\<rparr>);
     update_client i (cl\<lparr>ownsSlot := False\<rparr>) }"

definition Close :: "'w loader \<Rightarrow> nat option \<Rightarrow> ('w process, gerror option) state" where
  "Close L c = (case c of
     None \<Rightarrow> ret None
   | Some i \<Rightarrow> do {
       s \<leftarrow> State_Monad.get;
       let cl = clients s ! i in
       if closed cl \<or> \<not> ctx cl
       then do {
         update_client i (cl\<lparr>closed := True\<rparr>);
         (if ownsSlot cl \<and> \<not> poisoned s then release_slot i (cl\<lparr>closed := True\<rparr>) else ret ());
         ret None }
       else do {
         err \<leftarrow> (if capabilities (native L) lifecycleContext
                 then do { native_call (n_XMLFinalize (native L)); native_call (n_Finalize (native L));
                           ret None }
                 else ret (Some (unsupportedContextCapability ''Close'')));
         closeErr \<leftarrow> native_call (n_Close (native L));
         (case closeErr of
            Some e \<Rightarrow> do {
              State_Monad.update (\<lambda>s. s\<lparr>poisoned := True\<rparr>);
              update_client i (cl\<lparr>ctx := False, closed := True\<rparr>);
              ret (joinErrors [err, Some (WrapError (''ckalkan: '' @ error_text e) (Some e))]) }
          | None \<Rightarrow> do {
              update_client i (cl\<lparr>ctx := False, closed := True\<rparr>);
              (if ownsSlot cl then release_slot i (cl\<lparr>ctx := False, closed := True\<rparr>) else ret ());
              ret err }) } })"

section \<open>Operations on a client\<close>

definition outcome_of :: "('w, gerror + 'a) state \<Rightarrow> ('w, gerror option) state" where
  "outcome_of m = do { r \<leftarrow> m; ret (case r of Inl e \<Rightarrow> Some e | Inr _ \<Rightarrow> None) }"

text \<open>The methods of a client, each with its arguments, as what they do to the library.\<close>

inductive operation :: "'w loader \<Rightarrow> client option \<Rightarrow> ('w, gerror option) state \<Rightarrow> bool" for L c where
  "operation L c (outcome_of (Init L c))"
| "operation L c (outcome_of (InitDebug L c))"
| "operation L c (outcome_of (Finalize L c))"
| "operation L c (outcome_of (XMLFinalize L c))"
| "operation L c (State_Monad.bind (GetLastError L c) (\<lambda>code. ret (errorFromCode code [])))"
| "operation L c (State_Monad.bind (GetLastErrorString L c)
     (\<lambda>(code, message). ret (errorFromCode code message)))"
| "operation L c (outcome_of (GetTokens L c storage))"
| "operation L c (outcome_of (GetCertificatesList L c))"
| "operation L c (outcome_of (LoadKeyStore L c storage password container alias))"
| "operation L c (outcome_of (X509LoadCertificateFromFile L c path certType))"
| "operation L c (outcome_of (X509LoadCertificateFromBuffer L c cert format))"
| "operation L c (outcome_of (X509ExportCertificateFromStore L c alias format))"
| "operation L c (outcome_of (X509CertificateGetInfo L c cert prop))"
| "operation L c (outcome_of (X509ValidateCertificate L c validateRequest))"
| "operation L c (outcome_of (HashData L c algorithm flags data))"
| "operation L c (outcome_of (SignHash L c alias flags hash))"
| "operation L c (outcome_of (SignData L c signDataRequest))"
| "operation L c (outcome_of (GetCertFromCMS L c cms signID flags))"
| "operation L c (outcome_of (GetTimeFromSig L c data flags sigID))"
| "operation L c (outcome_of (VerifyData L c verifyDataRequest))"
| "operation L c (outcome_of (SignXML L c signXMLRequest))"
| "operation L c (outcome_of (VerifyXML L c alias flags xml))"
| "operation L c (outcome_of (GetCertFromXML L c xml signID))"
| "operation L c (outcome_of (GetSigAlgFromXML L c xml))"
| "operation L c (outcome_of (SignWSSE L c signWSSERequest))"
| "operation L c (outcome_of (SetTSAURL L c url))"
| "operation L c (outcome_of (SetProxy L c proxyRequest))"
| "operation L c (outcome_of (ZipConVerify L c zipFile flags))"
| "operation L c (outcome_of (ZipConSign L c zipConSignRequest))"
| "operation L c (outcome_of (GetCertFromZipFile L c zipFile flags signID))"

lemmas operation_defs =
  Init_def InitDebug_def Finalize_def XMLFinalize_def GetLastError_def GetLastErrorString_def
  GetTokens_def GetCertificatesList_def LoadKeyStore_def X509LoadCertificateFromFile_def
  X509LoadCertificateFromBuffer_def X509ExportCertificateFromStore_def X509CertificateGetInfo_def
  X509ValidateCertificate_def HashData_def SignHash_def SignData_def GetCertFromCMS_def
  GetTimeFromSig_def VerifyData_def SignXML_def VerifyXML_def GetCertFromXML_def
  GetSigAlgFromXML_def SignWSSE_def SetTSAURL_def SetProxy_def ZipConVerify_def ZipConSign_def
  GetCertFromZipFile_def

definition is_open :: "client option \<Rightarrow> bool" where
  "is_open c \<longleftrightarrow> (case c of None \<Rightarrow> False | Some cl \<Rightarrow> \<not> closed cl \<and> ctx cl)"

lemma ensureOpen_closed: "\<not> is_open c \<Longrightarrow> \<exists>e. ensureOpenLocked L c = Some e"
  by (auto simp: is_open_def ensureOpenLocked_def split: option.splits)

text \<open>
  A client that is nil, closed or was never opened cannot reach the native library.
  Every method of such a client returns an error and leaves the state of the library exactly
  as it was.
\<close>

theorem closed_client_inert:
  assumes "operation L c m" and "\<not> is_open c"
  shows "\<exists>e. run_state m w = (Some e, w)"
proof -
  from ensureOpen_closed [OF assms(2)] obtain e where e: "ensureOpenLocked L c = Some e" ..
  then have ctx: "contextAsLocked L c T name = Some e" for T name
    by (simp add: contextAsLocked_def)
  show ?thesis
    using assms(1) e
    by (cases rule: operation.cases)
      (auto simp: operation_defs outcome_of_def checked_def guarded_def with_context_def ctx
        errorFromCode_def ErrorLibraryNotInitialized_def ErrorOK_def split: sum.split option.split)
qed

section \<open>The process as a state machine\<close>

inductive process_step :: "'w loader \<Rightarrow> 'w process \<Rightarrow> 'w process \<Rightarrow> bool" for L where
  new: "run_state (New L options) s = (r, s') \<Longrightarrow> process_step L s s'"
| zero: "process_step L s (s\<lparr>clients := clients s @ [zero_client]\<rparr>)"
| close: "i < length (clients s) \<Longrightarrow> run_state (Close L (Some i)) s = (r, s') \<Longrightarrow> process_step L s s'"
| operate: "i < length (clients s) \<Longrightarrow> operation L (Some (clients s ! i)) m \<Longrightarrow>
    process_step L s (s\<lparr>world := exec m (world s)\<rparr>)"

definition process_init :: "'w process \<Rightarrow> bool" where
  "process_init s \<longleftrightarrow> \<not> active s \<and> \<not> poisoned s \<and> clients s = []"

definition process_inv :: "'w process \<Rightarrow> bool" where
  "process_inv s \<longleftrightarrow>
     (\<forall>i < length (clients s). ctx (clients s ! i) \<longrightarrow>
        ownsSlot (clients s ! i) \<and> \<not> closed (clients s ! i) \<and> \<not> poisoned s) \<and>
     (\<forall>i < length (clients s). ownsSlot (clients s ! i) \<longrightarrow>
        active s \<and> (ctx (clients s ! i) \<or> poisoned s)) \<and>
     (\<forall>i < length (clients s). \<forall>j < length (clients s).
        ownsSlot (clients s ! i) \<longrightarrow> ownsSlot (clients s ! j) \<longrightarrow> i = j) \<and>
     (poisoned s \<longrightarrow> active s) \<and>
     (active s \<and> \<not> poisoned s \<longrightarrow> (\<exists>i < length (clients s). ctx (clients s ! i)))"

lemma New_run:
  "run_state (New L options) s =
    (let c = applyOptions options;
         w = exec (open_library L (libraryPath c)) (world s);
         err = fst (run_state (open_library L (libraryPath c)) (world s))
     in if maxBufferSize c < 0 then (Inl (Sentinel CkErrInvalidOutputBufferSize), s)
        else if libraryPath c = [] then (Inl (Sentinel CkErrNoLibrary), s)
        else if poisoned s then (Inl (Sentinel CkErrPoisoned), s)
        else if active s then (Inl (Sentinel CkErrAlreadyOpen), s)
        else (case err of
            None \<Rightarrow> (Inr (length (clients s)), s\<lparr>active := True, world := w, clients := clients s @
              [\<lparr>ctx = True, cfg = c, closed = False, ownsSlot = True\<rparr>]\<rparr>)
          | Some e \<Rightarrow> (Inl (if is_unavailable L e then Sentinel CkErrUnavailable
                         else WrapError (''ckalkan: cannot load KalkanCrypt library: '' @
                                libraryPath c @ '': '' @ error_text e) (Some e)),
              s\<lparr>active := False, world := w\<rparr>)))"
  by (simp add: New_def Let_def split: option.split)

text \<open>What \<^const>\<open>Close\<close> does to an open client's process, by the outcome of the native close.\<close>

definition close_world :: "'w loader \<Rightarrow> 'w \<Rightarrow> 'w" where
  "close_world L w = (if capabilities (native L) lifecycleContext
     then exec (n_Finalize (native L)) (exec (n_XMLFinalize (native L)) w) else w)"

lemma drop_slot:
  "\<not> ownsSlot cl \<Longrightarrow> cl\<lparr>ctx := a, closed := b, ownsSlot := False\<rparr> = cl\<lparr>ctx := a, closed := b\<rparr>"
  "\<not> ownsSlot cl \<Longrightarrow> cl\<lparr>closed := b, ownsSlot := False\<rparr> = cl\<lparr>closed := b\<rparr>"
  "ownsSlot cl \<Longrightarrow> cl\<lparr>closed := b, ownsSlot := True\<rparr> = cl\<lparr>closed := b\<rparr>"
  "cl\<lparr>ctx := a, ownsSlot := o', closed := b\<rparr> = cl\<lparr>ctx := a, closed := b, ownsSlot := o'\<rparr>"
  by (cases cl, simp)+

lemma Close_run:
  assumes "i < length (clients s)" "cl = clients s ! i"
  shows "exec (Close L (Some i)) s =
    (if closed cl \<or> \<not> ctx cl
     then s\<lparr>active := (active s \<and> \<not> (ownsSlot cl \<and> \<not> poisoned s)),
            clients := (clients s)[i := cl\<lparr>closed := True,
              ownsSlot := (ownsSlot cl \<and> \<not> (ownsSlot cl \<and> \<not> poisoned s))\<rparr>]\<rparr>
     else (case fst (run_state (n_Close (native L)) (close_world L (world s))) of
         Some e \<Rightarrow> s\<lparr>poisoned := True, world := exec (n_Close (native L)) (close_world L (world s)),
              clients := (clients s)[i := cl\<lparr>ctx := False, closed := True\<rparr>]\<rparr>
       | None \<Rightarrow> s\<lparr>active := (active s \<and> \<not> ownsSlot cl),
              world := exec (n_Close (native L)) (close_world L (world s)),
              clients := (clients s)[i := cl\<lparr>ctx := False, closed := True, ownsSlot := False\<rparr>]\<rparr>))"
  using assms
  by (auto simp: Close_def Let_def update_client_def release_slot_def close_world_def drop_slot
      split: option.split)

lemma process_inv_new:
  assumes "process_inv s" "run_state (New L options) s = (r, s')"
  shows "process_inv s'"
proof -
  let ?err = "fst (run_state (open_library L (libraryPath (applyOptions options))) (world s))"
  show ?thesis
  proof (cases "active s \<or> s' = s")
    case True
    with assms show ?thesis by (auto simp: New_run Let_def split: if_splits option.splits)
  next
    case False
    then have idle: "\<not> poisoned s" "\<not> active s" using assms(1) by (auto simp: process_inv_def)
    then have none: "i < length (clients s) \<Longrightarrow> \<not> ownsSlot (clients s ! i) \<and> \<not> ctx (clients s ! i)" for i
      using assms(1) by (auto simp: process_inv_def)
    show ?thesis
    proof (cases ?err)
      case None
      with False idle assms(2) have "s' = s\<lparr>active := True, world := world s', clients := clients s @
          [\<lparr>ctx = True, cfg = applyOptions options, closed = False, ownsSlot = True\<rparr>]\<rparr>"
        by (auto simp: New_run Let_def split: if_splits)
      then have "active s'" "\<not> poisoned s'" "clients s' = clients s @
          [\<lparr>ctx = True, cfg = applyOptions options, closed = False, ownsSlot = True\<rparr>]"
        using idle by (metis process.select_convs process.surjective process.update_convs)+
      with none show ?thesis
        by (auto simp: process_inv_def nth_append less_Suc_eq intro: exI [of _ "length (clients s)"])
    next
      case (Some e)
      with False idle assms(2) have "active s' = False" "poisoned s' = poisoned s" "clients s' = clients s"
        by (auto simp: New_run Let_def split: if_splits)
      with none idle show ?thesis by (auto simp: process_inv_def)
    qed
  qed
qed

lemma process_inv_close:
  assumes inv: "process_inv s" and i: "i < length (clients s)"
  shows "process_inv (exec (Close L (Some i)) s)"
proof -
  let ?cl = "clients s ! i"
  show ?thesis
  proof (cases "closed ?cl \<or> \<not> ctx ?cl")
    case True
    have "\<not> ctx ?cl" using True inv i by (auto simp: process_inv_def)
    then have keep: "\<not> (ownsSlot ?cl \<and> \<not> poisoned s)" using inv i by (auto simp: process_inv_def)
    then have "exec (Close L (Some i)) s = s\<lparr>clients := (clients s)[i := ?cl\<lparr>closed := True\<rparr>]\<rparr>"
      using True by (simp add: Close_run [OF i HOL.refl] drop_slot)
    with inv \<open>\<not> ctx ?cl\<close> i show ?thesis
      by (auto simp: process_inv_def nth_list_update)
  next
    case False
    then have owns: "ownsSlot ?cl" "\<not> poisoned s" "active s" using inv i by (auto simp: process_inv_def)
    have only: "j < length (clients s) \<Longrightarrow> j \<noteq> i \<Longrightarrow> \<not> ownsSlot (clients s ! j) \<and> \<not> ctx (clients s ! j)" for j
      using inv i owns(1) by (auto simp: process_inv_def)
    show ?thesis
    proof (cases "fst (run_state (n_Close (native L)) (close_world L (world s)))")
      case None
      with False owns have "active (exec (Close L (Some i)) s) = False"
        "poisoned (exec (Close L (Some i)) s) = False" "clients (exec (Close L (Some i)) s) =
          (clients s)[i := ?cl\<lparr>ctx := False, closed := True, ownsSlot := False\<rparr>]"
        by (auto simp: Close_run [OF i HOL.refl])
      with only i show ?thesis by (auto simp: process_inv_def nth_list_update)
    next
      case (Some e)
      with False owns have "active (exec (Close L (Some i)) s)" "poisoned (exec (Close L (Some i)) s)"
        "clients (exec (Close L (Some i)) s) = (clients s)[i := ?cl\<lparr>ctx := False, closed := True\<rparr>]"
        by (auto simp: Close_run [OF i HOL.refl])
      with only i owns show ?thesis by (auto simp: process_inv_def nth_list_update)
    qed
  qed
qed

lemma process_inv_step:
  assumes "process_inv s" "process_step L s s'"
  shows "process_inv s'"
  using assms(2)
proof (cases rule: process_step.cases)
  case (new options r)
  with assms(1) process_inv_new show ?thesis by blast
next
  case zero
  with assms(1) show ?thesis
    by (auto simp: process_inv_def zero_client_def nth_append less_Suc_eq)
next
  case (close i r)
  with process_inv_close [OF assms(1) close(1), of L] show ?thesis by simp
next
  case (operate i m)
  with assms(1) show ?thesis by (auto simp: process_inv_def)
qed

interpretation process_machine: state_machine process_init "process_step L" process_inv for L
proof unfold_locales
  show "process_inv s" if "process_init s" for s
    using that by (simp add: process_init_def process_inv_def)
  show "process_inv s'" if "process_inv s" "process_step L s s'" for s s'
    using that by (rule process_inv_step)
qed

lemma is_open_Some [simp]: "is_open (Some cl) \<longleftrightarrow> \<not> closed cl \<and> ctx cl"
  by (simp add: is_open_def)

text \<open>
  C26: At most one native session exists in the process. In every state the process can reach
  by any sequence of New, Close and operations of any callers, no two clients are open, an
  open client holds the process slot, and the process is then not poisoned.
\<close>

theorem single_session:
  assumes "reachable process_init (process_step L) s"
    and "i < length (clients s)" "is_open (Some (clients s ! i))"
  shows "active s \<and> \<not> poisoned s \<and> ownsSlot (clients s ! i) \<and>
    (\<forall>j < length (clients s). is_open (Some (clients s ! j)) \<longrightarrow> j = i)"
  using process_machine.invariant [OF assms(1)] assms(2,3) by (auto simp: process_inv_def)

lemma poisoned_step: "poisoned s \<Longrightarrow> process_step L s s' \<Longrightarrow> poisoned s'"
  by (erule process_step.cases)
    (auto simp: New_run Let_def Close_run dest!: arg_cong [where f = snd] split: if_splits option.splits)

text \<open>
  A failed native close poisons the process for ever. Once the poison flag is set, it
  stays set in every later state, no client is open there, and New with a usable
  configuration returns the poison error without touching the library.
\<close>

theorem poisoned_forever:
  assumes "reachable process_init (process_step L) s" "poisoned s" "steps (process_step L) s s'"
    and "0 \<le> maxBufferSize (applyOptions options)" "libraryPath (applyOptions options) \<noteq> []"
  shows "poisoned s' \<and> (\<forall>i < length (clients s'). \<not> is_open (Some (clients s' ! i))) \<and>
    run_state (New L options) s' = (Inl (Sentinel CkErrPoisoned), s')"
proof -
  have p: "poisoned s'"
    by (rule process_machine.stable [where P = poisoned, OF poisoned_step assms(1,2,3)])
  moreover have "process_inv s'"
    by (rule process_machine.invariant) (rule reachable_steps [OF assms(3,1)])
  ultimately show ?thesis using assms(4,5) by (auto simp: New_run Let_def process_inv_def)
qed

text \<open>
  A clean close frees the process. When the native close of the open client succeeds, the
  slot is free and the client is closed; closing again returns no error and does not reach
  the library; and New with a usable configuration and a library that loads opens a new client.
\<close>

theorem close_frees_slot:
  assumes "reachable process_init (process_step L) s"
    and "i < length (clients s)" "is_open (Some (clients s ! i))"
    and "fst (run_state (n_Close (native L)) (close_world L (world s))) = None"
    and "0 \<le> maxBufferSize (applyOptions options)" "libraryPath (applyOptions options) \<noteq> []"
    and "\<And>w. fst (run_state (open_library L (libraryPath (applyOptions options))) w) = None"
  shows "let s1 = exec (Close L (Some i)) s; (r, s2) = run_state (New L options) s1 in
    \<not> active s1 \<and> \<not> is_open (Some (clients s1 ! i)) \<and>
    run_state (Close L (Some i)) s1 = (None, s1) \<and>
    r = Inr (length (clients s)) \<and> is_open (Some (clients s2 ! length (clients s)))"
proof -
  let ?s1 = "exec (Close L (Some i)) s" let ?cl = "clients s ! i"
  let ?closed = "?cl\<lparr>ctx := False, closed := True, ownsSlot := False\<rparr>"
  have inv: "ownsSlot ?cl" "\<not> poisoned s" "active s"
    using process_machine.invariant [OF assms(1)] assms(2,3) by (auto simp: process_inv_def)
  have s1: "?s1 = s\<lparr>active := False, world := exec (n_Close (native L)) (close_world L (world s)),
      clients := (clients s)[i := ?closed]\<rparr>"
    using assms(3,4) inv by (simp add: Close_run [OF assms(2) HOL.refl])
  have again: "run_state (Close L (Some i)) ?s1 = (None, ?s1)"
    unfolding s1 using assms(2) by (simp add: Close_def Let_def update_client_def release_slot_def drop_slot(4))
  show ?thesis
    unfolding Let_def case_prod_unfold
    using again assms inv unfolding s1 by (simp add: New_run Let_def nth_append)
qed

section \<open>Operations that report success\<close>

lemma with_context_Inr:
  assumes "fst (run_state (with_context L c T name body) w) = Inr res"
  shows "is_open c" "fst (run_state (body (cfg (the c))) w) = Inr res"
  using assms
  by (auto simp: with_context_def contextAsLocked_def ensureOpenLocked_def is_open_def
      split: option.splits if_splits)

lemma checked_Inr:
  "fst (run_state (checked r k) w) = Inr res \<Longrightarrow> \<exists>v. r = Inr v \<and> fst (run_state (k v) w) = Inr res"
  by (auto simp: checked_def split: sum.splits)

lemma guarded_Inr:
  "fst (run_state (guarded e k) w) = Inr res \<Longrightarrow> e = None \<and> fst (run_state k w) = Inr res"
  by (auto simp: guarded_def split: option.splits)

lemma verifyData_verified:
  assumes "fst (run_state (VerifyData L c req) w) = Inr res"
  shows "is_open c \<and> (\<exists>nativeFlags. flagsToNativeInt (vd_Flags req) = Inr nativeFlags \<and>
    verified_by (target L) (native L) (cfg (the c)) req nativeFlags res)"
proof -
  note g = guarded_Inr [OF assms [unfolded VerifyData_def], THEN conjunct2]
  from checked_Inr [OF g] obtain n where n: "flagsToNativeInt (vd_Flags req) = Inr n"
    "fst (run_state (with_context L c cmsContext ''VerifyData'' (\<lambda>f. verifyDataLoop (target L) (native L)
       f req n (verifyDataInitial (target L) f req))) w) = Inr res" by blast
  note ctx = with_context_Inr [OF n(2)]
  from verifyDataLoop_sound [OF capacities_initial ctx(2)] ctx(1) n(1) show ?thesis by blast
qed

text \<open>
  C9: A CMS verification succeeds only if the library verified. When \<^verbatim>\<open>VerifyData\<close>
  returns a result, the client is open and the result comes from one native call within the
  capacity limit that returned the success status and, on Linux, left no last error; the
  lengths it reported are the lengths of its outputs and fit their buffers (on Linux with room
  to spare for decoded data, so that it is not cut), and decoded data is returned only for an
  attached signature in memory.
\<close>

theorem verifyData_sound:
  assumes "fst (run_state (VerifyData L c req) w) = Inr res"
  shows "is_open c \<and> (\<exists>nativeFlags. flagsToNativeInt (vd_Flags req) = Inr nativeFlags \<and>
    verified_by (target L) (native L) (cfg (the c)) req nativeFlags res)"
  using assms by (rule verifyData_verified)

text \<open>
  C10: A signature is returned only if the library reported no error for it. When
  \<^verbatim>\<open>SignData\<close> returns bytes, they are the whole output of one native signing call that
  returned the success status and after which, on Linux, the last error was clear.
\<close>

theorem signData_sound:
  assumes "fst (run_state (SignData L c req) w) = Inr data"
  shows "is_open c \<and> (\<exists>nativeFlags capacity w1 result w2 w3.
    flagsToNativeInt (sd_Flags req) = Inr nativeFlags \<and>
    0 < capacity \<and> capacity \<le> outputBufferLimit (maxBufferSize (cfg (the c))) \<and>
    run_state (n_SignData (native L) \<lparr>sdc_Alias = sd_Alias req, sdc_Flags = nativeFlags,
       sdc_Data = sd_Data req, sdc_Signature = sd_Signature req, sdc_Capacity = capacity\<rparr>) w1 = (Inr result, w2) \<and>
    br_Code result = ErrorOK \<and> run_state (platformCMSLastError (target L) (native L)) w2 = (ErrorOK, w3) \<and>
    br_Data result = data \<and> br_OutLen result = int (slice_len data) \<and> slice_len data \<le> nat capacity)"
proof -
  from checked_Inr [OF assms [unfolded SignData_def]] obtain n where
    n: "flagsToNativeInt (sd_Flags req) = Inr n"
    "fst (run_state (with_context L c cmsContext ''SignData'' (\<lambda>f. buffer_call L f ''SignData''
       (estimatedOutputInitialCapacity f (sd_OutputCapacity req)
          (if sd_OutputCapacity req \<le> 0 then estimateSignDataOutput (stat L) req (maxBufferSize f) else 0)
          initialSignatureBuffer) (signDataCall L req n))) w) = Inr data" by blast
  note ctx = with_context_Inr [OF n(2)]
  from callBufferLoop_returned [OF bounded_range ctx(2) [unfolded callBufferWithCapacityLocked_def]]
  obtain cap w1 result' w3 where r: "0 < cap" "cap \<le> outputBufferLimit (maxBufferSize (cfg (the c)))"
    "run_state (signDataCall L req n cap) w1 = (Inr result', w3)" "br_Code result' = ErrorOK"
    "br_Data result' = data" "br_OutLen result' = int (slice_len data)" "slice_len data \<le> nat cap"
    unfolding call_returned_def by blast
  let ?call = "\<lparr>sdc_Alias = sd_Alias req, sdc_Flags = n, sdc_Data = sd_Data req,
      sdc_Signature = sd_Signature req, sdc_Capacity = cap\<rparr>"
  obtain x w2 where call: "run_state (n_SignData (native L) ?call) w1 = (x, w2)" by (metis surj_pair)
  from r(3) call obtain result where x: "x = Inr result" by (cases x) (auto simp: signDataCall_def)
  have "br_Code result = ErrorOK \<and> run_state (platformCMSLastError (target L) (native L)) w2 = (ErrorOK, w3) \<and>
      br_Data result = data \<and> br_OutLen result = int (slice_len data)"
    using r(3-6) call x by (auto simp: signDataCall_def prod_eq_iff split: if_splits)
  with ctx(1) n(1) r call x show ?thesis by blast
qed

section \<open>A sample process\<close>

definition sample_loader :: "int list loader" where
  "sample_loader = \<lparr>available = True, native = sample_context, open_library = \<lambda>_. ret None,
     is_unavailable = \<lambda>_. False, stat = \<lambda>_. None, target = Linux\<rparr>"

definition sample_options :: "Option option list" where
  "sample_options = [Some (WithLibrary ''libkalkan.so''), None]"

definition sample_client :: client where
  "sample_client = \<lparr>ctx = True, cfg = defaultConfig\<lparr>libraryPath := ''libkalkan.so''\<rparr>,
     closed = False, ownsSlot = True\<rparr>"

definition sample_idle :: "int list process" where
  "sample_idle = \<lparr>active = False, poisoned = False, clients = [], world = []\<rparr>"

definition sample_open :: "int list process" where
  "sample_open = \<lparr>active = True, poisoned = False, clients = [sample_client], world = []\<rparr>"

lemma sample_config: "applyOptions sample_options = defaultConfig\<lparr>libraryPath := ''libkalkan.so''\<rparr>"
  by (simp add: applyOptions_def sample_options_def WithLibrary_def)

lemma sample_new:
  "open_library L = (\<lambda>_. ret None) \<Longrightarrow> run_state (New L sample_options) sample_idle = (Inr 0, sample_open)"
  by (simp add: New_run Let_def sample_config sample_idle_def sample_open_def sample_client_def
      defaultConfig_def)

lemma sample_reachable:
  assumes "open_library L = (\<lambda>_. ret None)"
  shows "reachable process_init (process_step L) sample_open"
proof (rule reachable.step)
  show "reachable process_init (process_step L) sample_idle"
    by (rule reachable.start) (simp add: process_init_def sample_idle_def)
  show "process_step L sample_idle sample_open" by (rule process_step.new [OF sample_new [OF assms]])
qed

theorem closed_client_inert_witness:
  "\<exists>e. run_state (outcome_of (HashData sample_loader None ''sha256'' 0 (Some ''data''))) [7] = (Some e, [7])"
  by (rule closed_client_inert [OF operation.intros(15)]) (simp add: is_open_def)

theorem single_session_witness:
  "is_open (Some (clients sample_open ! 0)) \<and> active sample_open \<and> \<not> poisoned sample_open"
  using single_session [OF sample_reachable [of sample_loader], of 0]
  by (simp add: sample_loader_def sample_open_def sample_client_def)

definition failing_loader :: "int list loader" where
  "failing_loader = sample_loader\<lparr>native := sample_context\<lparr>n_Close := ret (Some (plainError ''dlclose''))\<rparr>\<rparr>"

definition sample_poisoned :: "int list process" where
  "sample_poisoned = sample_open\<lparr>poisoned := True,
     clients := [sample_client\<lparr>ctx := False, closed := True\<rparr>]\<rparr>"

theorem poisoned_forever_witness:
  "run_state (New failing_loader sample_options) sample_poisoned = (Inl (Sentinel CkErrPoisoned), sample_poisoned)"
proof -
  have "exec (Close failing_loader (Some 0)) sample_open = sample_poisoned"
    using Close_run [of 0 sample_open sample_client failing_loader]
    by (simp add: sample_open_def sample_client_def sample_poisoned_def
        failing_loader_def sample_loader_def sample_context_def close_world_def)
  then have "process_step failing_loader sample_open sample_poisoned"
    by (intro process_step.close [of 0 _ _ "fst (run_state (Close failing_loader (Some 0)) sample_open)"])
      (simp_all add: sample_open_def prod_eq_iff)
  then have "reachable process_init (process_step failing_loader) sample_poisoned"
    by (intro reachable.step [OF sample_reachable]) (simp_all add: failing_loader_def sample_loader_def)
  from poisoned_forever [OF this _ steps.none, of sample_options] show ?thesis
    by (simp add: sample_poisoned_def sample_config defaultConfig_def)
qed

theorem close_frees_slot_witness:
  "\<exists>s1 s2. exec (Close sample_loader (Some 0)) sample_open = s1 \<and> \<not> active s1 \<and>
    run_state (New sample_loader sample_options) s1 = (Inr 1, s2) \<and> is_open (Some (clients s2 ! 1))"
proof -
  have "let s1 = exec (Close sample_loader (Some 0)) sample_open;
      (r, s2) = run_state (New sample_loader sample_options) s1 in
      \<not> active s1 \<and> \<not> is_open (Some (clients s1 ! 0)) \<and>
      run_state (Close sample_loader (Some 0)) s1 = (None, s1) \<and>
      r = Inr (length (clients sample_open)) \<and> is_open (Some (clients s2 ! length (clients sample_open)))"
    by (rule close_frees_slot [OF sample_reachable])
      (simp_all add: sample_loader_def sample_open_def sample_client_def sample_context_def
        sample_config defaultConfig_def)
  then show ?thesis
    by (auto simp: Let_def case_prod_unfold sample_open_def prod_eq_iff)
qed

definition sample_verify :: VerifyDataRequest where
  "sample_verify = \<lparr>vd_Alias = [], vd_Flags = 0, vd_Data = Some ''data'', vd_Signature = Some ''signature'',
     vd_CertID = 0, vd_DataCapacity = 0, vd_VerifyInfoCapacity = 0, vd_CertCapacity = 0\<rparr>"

lemma no_flags: "flagsToNativeInt 0 = Inr 0" "\<not> has_flag 0 f"
  by (simp_all add: flagsToNativeInt_def validateNativeSignedRange_def validateNativeUnsignedRange_def
      maxNativeCInt_def has_flag_def)

lemma sample_with_context:
  "with_context sample_loader (Some sample_client) T name body = body (cfg sample_client)"
  by (simp add: with_context_def contextAsLocked_def ensureOpenLocked_def sample_client_def
      sample_loader_def sample_context_def)

definition sample_sign :: SignDataRequest where
  "sample_sign = \<lparr>sd_Alias = [], sd_Flags = 0, sd_Data = Some ''data'', sd_Signature = None,
     sd_OutputCapacity = 16\<rparr>"

lemma sample_request:
  "flagsToNativeInt (vd_Flags sample_verify) = Inr 0" "vd_CertID sample_verify = 0"
  "flagsToNativeInt (sd_Flags sample_sign) = Inr 0"
  by (simp_all add: sample_verify_def sample_sign_def no_flags)

lemma sample_verify_loop:
  assumes "0 < cap_info capacities" "0 < cap_cert capacities"
  shows "run_state (verifyDataLoop Linux sample_context c sample_verify 0 capacities) w =
    (Inr \<lparr>vdr_Data = None, vdr_VerifyInfo = [], vdr_Cert = Some []\<rparr>, w)"
  using assms
  by (subst verifyDataLoop.simps)
    (simp add: sample_context_def platformCMSLastError_def ErrorOK_def ErrorBufferTooSmall_def
      validateVerifyDataOutputLengths_def shouldRetryVerifyDataOutput_def verifyDataOutcome_def
      wrapCodeLocked_def validateNativeOutputDataLength_def BeforeNUL_def
      platformVerifyDataOutputPolicy_def linuxVerifyDataOutputPolicy_def
      verifyDataReturnsDecodedData_def sample_verify_def no_flags)

theorem verifyData_sound_witness:
  "verified_by Linux sample_context (cfg sample_client) sample_verify 0
     \<lparr>vdr_Data = None, vdr_VerifyInfo = [], vdr_Cert = Some []\<rparr>"
proof -
  have "fst (run_state (VerifyData sample_loader (Some sample_client) sample_verify) []) =
      Inr \<lparr>vdr_Data = None, vdr_VerifyInfo = [], vdr_Cert = Some []\<rparr>"
    by (simp add: VerifyData_def guarded_def checked_def sample_with_context sample_request
        validateNativeSignerID_def maxNativeCInt_def sample_verify_loop verifyDataInitial_def bounded_range)
      (simp add: sample_loader_def sample_verify_loop bounded_range)
  from verifyData_sound [OF this] show ?thesis
    by (auto simp: sample_loader_def sample_verify_def no_flags)
qed

lemma sample_sign_call:
  "delivers (signDataCall sample_loader sample_sign 0) m 0 (Some [])"
  by (simp add: delivers_def signDataCall_def sample_loader_def sample_context_def empty_result_def
      platformCMSLastError_def ErrorOK_def)

theorem signData_sound_witness:
  "\<exists>w1 w2 w3 result. run_state (n_SignData sample_context \<lparr>sdc_Alias = [], sdc_Flags = 0,
      sdc_Data = Some ''data'', sdc_Signature = None, sdc_Capacity = 16\<rparr>) w1 = (Inr result, w2) \<and>
    br_Code result = ErrorOK \<and> run_state (n_LastError sample_context) w2 = (ErrorOK, w3) \<and>
    fst (run_state (SignData sample_loader (Some sample_client) sample_sign) []) = Inr (br_Data result)"
proof -
  have "fst (run_state (SignData sample_loader (Some sample_client) sample_sign) []) = Inr (Some [])"
    using callBufferLoop_delivers [OF sample_sign_call bounded_range] less_imp_le [OF limit_range(1)]
    by (simp add: SignData_def checked_def sample_with_context sample_request callBufferWithCapacityLocked_def)
  from this signData_sound [OF this] show ?thesis
    by (auto simp: sample_loader_def platformCMSLastError_def sample_context_def empty_result_def ErrorOK_def)
qed

end
