(* ===== verification/Kalkan_Operations.thy ===== *)
theory Kalkan_Operations
  imports Input_Policy Ckalkan_Process
begin

text \<open>
  The operations of the public client (\<^verbatim>\<open>hash.go\<close>, \<^verbatim>\<open>cms.go\<close>,
  \<^verbatim>\<open>certificate.go\<close>, \<^verbatim>\<open>zip.go\<close>) on top of the low-level client of
  \<^verbatim>\<open>Ckalkan_Client\<close>: argument checks, the translation to native flags, and the call under the
  gate. \<^verbatim>\<open>Client_Gate\<close> shows that such calls are serialised, so an operation is one
  transition of the session. A context is seen through the two places that read it: the check at
  entry and the acquisition of the gate. The low-level client has every capability interface, and
  only the public client calls it.
\<close>

section \<open>Native selectors\<close>

definition InPEM :: Flag where "InPEM = 0x4"
definition InDER :: Flag where "InDER = 0x8"
definition In2Base64 :: Flag where "In2Base64 = 0x20"
definition WithCert :: Flag where "WithCert = 0x80"
definition WithTimestamp :: Flag where "WithTimestamp = 0x100"
definition OutDER :: Flag where "OutDER = 0x400"
definition ProxyOff :: Flag where "ProxyOff = 0x1000"
definition ProxyOn :: Flag where "ProxyOn = 0x2000"
definition ProxyAuth :: Flag where "ProxyAuth = 0x4000"
definition NoCheckCertTime :: Flag where "NoCheckCertTime = 0x10000"

definition unknown :: "gostring \<Rightarrow> goint \<Rightarrow> gerror" where
  "unknown what v = invalidInput (''unknown '' @ what @ '' '' @ format_int (sint v))"

definition KeyStoreType_native :: "goint \<Rightarrow> gerror + uint64" where
  "KeyStoreType_native t = (if t = 0 then Inr 1 else Inl (unknown ''key store type'' t))"

definition CertificateType_native :: "goint \<Rightarrow> gerror + goint" where
  "CertificateType_native t =
     (if t = 0 then Inr 0x201 else if t = 1 then Inr 0x202 else if t = 2 then Inr 0x204
      else Inl (unknown ''certificate type'' t))"

definition CertificateFormat_native :: "goint \<Rightarrow> gerror + goint" where
  "CertificateFormat_native f =
     (if f = 0 then Inr 0x101 else if f = 1 then Inr 0x102 else if f = 2 then Inr 0x104
      else Inl (unknown ''certificate format'' f))"

definition digestInfo :: "goint \<Rightarrow> gerror + gostring \<times> nat" where
  "digestInfo algorithm =
     (if algorithm = 0 then Inr (''sha256'', 32)
      else if algorithm = 1 then Inr (''Gost34311_95'', 32)
      else if algorithm = 2 then Inr (''GostR3411_2015_256'', 32)
      else if algorithm = 3 then Inr (''GostR3411_2015_512'', 64)
      else Inl (unknown ''hash algorithm'' algorithm))"

definition HashAlgorithm_native :: "goint \<Rightarrow> gerror + HashAlgorithm" where
  "HashAlgorithm_native a = (case digestInfo a of Inl err \<Rightarrow> Inl err | Inr (name, _) \<Rightarrow> Inr name)"

definition validateDigestLength :: "goint \<Rightarrow> slice \<Rightarrow> gerror option" where
  "validateDigestLength algorithm digest = (case digestInfo algorithm of
     Inl err \<Rightarrow> Some err
   | Inr (name, want) \<Rightarrow>
       if slice_len digest \<noteq> want
       then Some (invalidInput (''digest length for '' @ name @ '' must be '' @ format_int (int want) @
              '' bytes, got '' @ format_int (int (slice_len digest))))
       else None)"

definition inputFlag :: "goint \<Rightarrow> Flag" where
  "inputFlag encoding =
     (if encoding = EncodingBase64 then InBase64 else if encoding = EncodingPEM then InPEM
      else if encoding = EncodingDER then InDER else 0)"

definition cmsOutputFlag :: "goint \<Rightarrow> gerror + Flag" where
  "cmsOutputFlag format =
     (if format = 0 then Inr OutDER else if format = 1 then Inr OutBase64 else if format = 2 then Inr OutPEM
      else Inl (unknown ''CMS output format'' format))"

definition certificateTimeCheckFlag :: "goint \<Rightarrow> gerror + Flag" where
  "certificateTimeCheckFlag check =
     (if check = 0 then Inr 0 else if check = 1 then Inr NoCheckCertTime
      else Inl (unknown ''certificate time check'' check))"

definition encodingName :: "goint \<Rightarrow> gostring" where
  "encodingName encoding =
     (if encoding = EncodingAuto then ''auto'' else if encoding = EncodingRaw then ''raw''
      else if encoding = EncodingBase64 then ''base64'' else if encoding = EncodingPEM then ''PEM''
      else if encoding = EncodingDER then ''DER'' else format_int (sint encoding))"

definition maxSignerID :: int where "maxSignerID = 2147483647"

definition validateSignerID :: "gostring \<Rightarrow> goint \<Rightarrow> gerror option" where
  "validateSignerID field v =
     (if sint v < 0 then Some (invalidInput (field @ '' must be non-negative''))
      else if sint v > maxSignerID
      then Some (invalidInput (field @ '' must be in range 0..'' @ format_int maxSignerID))
      else None)"

section \<open>The session of a client\<close>

record loadedTrustedCertificate =
  lt_data :: slice
  lt_path :: gostring
  lt_certType :: goint
  lt_format :: goint

record 'w session =
  s_world :: 'w
  s_library :: "client option"
  s_trusted :: "loadedTrustedCertificate list"
  s_proxy :: Proxy
  s_pemCache :: "(bytes \<times> bytes) option"

record call_context =
  at_entry :: "gerror option"
  at_gate :: "gerror option"

text \<open>A native call changes the library only.\<close>

definition natively :: "('w, 'a) state \<Rightarrow> ('w session, 'a) state" where
  "natively m = State (\<lambda>s. let (r, w) = run_state m (s_world s) in (r, s\<lparr>s_world := w\<rparr>))"

definition withLockedLibrary ::
  "call_context \<Rightarrow> (client option \<Rightarrow> ('w session, gerror + 'a) state) \<Rightarrow> ('w session, gerror + 'a) state" where
  "withLockedLibrary x call =
     guarded (at_gate x) (do {
       s \<leftarrow> State_Monad.get;
       if s_library s = None then ret (Inl (Sentinel KalkanErrClosed)) else call (s_library s) })"

definition mapped :: "('a \<Rightarrow> 'b) \<Rightarrow> ('s, gerror + 'a) state \<Rightarrow> ('s, gerror + 'b) state" where
  "mapped f m = do { r \<leftarrow> m; ret (map_sum id f r) }"

section \<open>Digests\<close>

definition source_flags :: "Source \<Rightarrow> Flag" where
  "source_flags source = inputFlag (effectiveEncoding source EncodingRaw) OR (if s_file source then InFile else 0)"

definition Client_Hash ::
  "'w loader \<Rightarrow> int \<Rightarrow> call_context \<Rightarrow> HashRequest \<Rightarrow> ('w session, gerror + Digest) state" where
  "Client_Hash L maxInputSize x req =
     guarded (at_entry x) (
     guarded (if \<not> s_set (hr_Data req) then Some (invalidInput ''hash data is required'') else None) (
     checked (HashAlgorithm_native (hr_Algorithm req)) (\<lambda>algorithm.
     guarded (validateEncoding (s_encoding (hr_Data req))) (
     guarded (validateMemorySourceSize (hr_Data req) ''hash data'' maxInputSize) (
     checked (bytesOrPath (hr_Data req)) (\<lambda>data.
     mapped (\<lambda>digest. \<lparr>dg_Algorithm = hr_Algorithm req, dg_Data = digest\<rparr>)
       (withLockedLibrary x (\<lambda>c. natively (HashData L c algorithm (source_flags (hr_Data req)) data)))))))))"

definition signHashFlags :: "SignHashRequest \<Rightarrow> Flag \<Rightarrow> Flag \<Rightarrow> Flag" where
  "signHashFlags req outputFlags checkFlags =
     SignCMS OR outputFlags OR (if shr_Timestamp req then WithTimestamp else 0) OR
     (if shr_IncludeCertificate req then WithCert else 0) OR checkFlags"

definition Client_SignHash ::
  "'w loader \<Rightarrow> int \<Rightarrow> call_context \<Rightarrow> SignHashRequest \<Rightarrow> ('w session, gerror + CMS) state" where
  "Client_SignHash L maxInputSize x req =
     guarded (at_entry x) (
     guarded (rejectEmbeddedNUL ''alias'' (shr_Alias req)) (
     guarded (if slice_len (shr_Digest req) = 0 then Some (invalidInput ''digest is empty'') else None) (
     guarded (validateBytesSize (shr_Digest req) ''digest'' maxInputSize) (
     guarded (validateDigestLength (shr_DigestAlgorithm req) (shr_Digest req)) (
     checked (cmsOutputFlag (shr_OutputFormat req)) (\<lambda>outputFlags.
     checked (certificateTimeCheckFlag (shr_CertificateTimeCheck req)) (\<lambda>checkFlags.
     mapped (\<lambda>out. \<lparr>cms_Data = out\<rparr>)
       (withLockedLibrary x (\<lambda>c. natively (SignHash L c (shr_Alias req)
          (signHashFlags req outputFlags checkFlags) (shr_Digest req)))))))))))"

section \<open>CMS\<close>

definition signCMSFlags :: "SignCMSRequest \<Rightarrow> Flag \<Rightarrow> Flag \<Rightarrow> Flag" where
  "signCMSFlags req outputFlags checkFlags =
     SignCMS OR outputFlags OR (if scr_Detached req then DetachedData else 0) OR
     (if scr_Timestamp req then WithTimestamp else 0) OR
     (if scr_IncludeCertificate req then WithCert else 0) OR checkFlags OR
     source_flags (scr_Data req)"

definition Client_SignCMS ::
  "'w loader \<Rightarrow> int \<Rightarrow> call_context \<Rightarrow> SignCMSRequest \<Rightarrow> ('w session, gerror + CMS) state" where
  "Client_SignCMS L maxInputSize x req =
     guarded (at_entry x) (
     guarded (rejectEmbeddedNUL ''alias'' (scr_Alias req)) (
     guarded (if \<not> s_set (scr_Data req) then Some (invalidInput ''CMS data is required'') else None) (
     guarded (validateEncoding (s_encoding (scr_Data req))) (
     guarded (validateMemorySourceSize (scr_Data req) ''CMS data'' maxInputSize) (
     checked (bytesOrPath (scr_Data req)) (\<lambda>data.
     checked (cmsOutputFlag (scr_OutputFormat req)) (\<lambda>outputFlags.
     checked (certificateTimeCheckFlag (scr_CertificateTimeCheck req)) (\<lambda>checkFlags.
     mapped (\<lambda>out. \<lparr>cms_Data = out\<rparr>)
       (withLockedLibrary x (\<lambda>c. natively (SignData L c
          \<lparr>sd_Alias = scr_Alias req, sd_Flags = signCMSFlags req outputFlags checkFlags, sd_Data = data,
           sd_Signature = None, sd_OutputCapacity = 0\<rparr>)))))))))))"

definition cmsSignatureInput :: "Source \<Rightarrow> goint \<Rightarrow> int \<Rightarrow> gerror + slice \<times> Flag" where
  "cmsSignatureInput source fallback maxInputSize =
     (if source_isZero source then Inl (invalidInput ''CMS signature is required'')
      else case validateMemorySourceSize source ''CMS signature'' maxInputSize of Some err \<Rightarrow> Inl err | None \<Rightarrow>
      (case bytesOrPath source of
         Inl err \<Rightarrow> Inl err
       | Inr v \<Rightarrow>
           if \<not> s_file source \<and> slice_len v = 0 then Inl (invalidInput ''CMS signature is empty'')
           else let encoding = effectiveEncoding source fallback
           in if encoding \<in> {EncodingAuto, EncodingRaw, EncodingDER} then Inr (v, InDER)
              else if encoding = EncodingBase64 then Inr (v, InBase64)
              else if encoding = EncodingPEM then Inr (v, InPEM)
              else Inl (unknown ''CMS signature encoding'' encoding)))"

definition cmsDataInput :: "Source \<Rightarrow> int \<Rightarrow> gerror + slice \<times> Flag" where
  "cmsDataInput source maxInputSize =
     (if source_isZero source then Inr (None, 0)
      else case validateMemorySourceSize source ''detached CMS data'' maxInputSize of Some err \<Rightarrow> Inl err | None \<Rightarrow>
      (case bytesOrPath source of
         Inl err \<Rightarrow> Inl err
       | Inr v \<Rightarrow>
           let encoding = effectiveEncoding source EncodingRaw
           in if encoding \<in> {EncodingPEM, EncodingDER}
              then Inl (invalidInput (''detached CMS data encoding '' @ encodingName encoding @
                     '' is not supported by KalkanCrypt; use raw or base64 data''))
              else if s_file source
              then (if encoding = EncodingBase64 then Inr (v, In2Base64) else Inr (v, 0))
              else if encoding \<in> {EncodingAuto, EncodingRaw} then Inr (v, 0)
              else if encoding = EncodingBase64 then Inr (v, In2Base64)
              else Inl (unknown ''CMS data encoding'' encoding)))"

definition verifyCMSFlags :: "VerifyCMSRequest \<Rightarrow> Flag \<Rightarrow> Flag \<Rightarrow> Flag \<Rightarrow> Flag" where
  "verifyCMSFlags req flags dataFlags checkFlags =
     flags OR SignCMS OR dataFlags OR (if vcr_Detached req then DetachedData else 0) OR checkFlags OR
     (if s_file (vcr_Signature req) then InFile else 0)"

definition Client_VerifyCMS ::
  "'w loader \<Rightarrow> int \<Rightarrow> call_context \<Rightarrow> VerifyCMSRequest \<Rightarrow> ('w session, gerror + Verification) state" where
  "Client_VerifyCMS L maxInputSize x req =
     guarded (at_entry x) (
     guarded (rejectEmbeddedNUL ''alias'' (vcr_Alias req)) (
     guarded (validateEncoding (vcr_Encoding req)) (
     guarded (validateSignerID ''SignerID'' (vcr_SignerID req)) (
     guarded (if \<not> vcr_Detached req \<and> \<not> source_isZero (vcr_Data req)
              then Some (invalidInput ''detached CMS data requires detached verification'')
              else if vcr_Detached req \<and> source_isZero (vcr_Data req)
              then Some (invalidInput ''detached CMS data is required for detached verification'') else None) (
     checked (cmsSignatureInput (vcr_Signature req) (vcr_Encoding req) maxInputSize) (\<lambda>(signature, flags).
     checked (cmsDataInput (vcr_Data req) maxInputSize) (\<lambda>(data, dataFlags).
     guarded (if vcr_Detached req \<and> s_file (vcr_Data req)
              then Some (invalidInput (''detached CMS data must be an in-memory source; KalkanCrypt '' @
                ''accepts a file source only for the CMS signature during verification'')) else None) (
     checked (certificateTimeCheckFlag (vcr_CertificateTimeCheck req)) (\<lambda>checkFlags.
     mapped (\<lambda>result. \<lparr>vf_Info = vdr_VerifyInfo result, vf_Data = vdr_Data result, vf_SignerCert = vdr_Cert result\<rparr>)
       (withLockedLibrary x (\<lambda>c. natively (VerifyData L c
          \<lparr>vd_Alias = vcr_Alias req, vd_Flags = verifyCMSFlags req flags dataFlags checkFlags, vd_Data = data,
           vd_Signature = signature, vd_CertID = sint (vcr_SignerID req), vd_DataCapacity = 0,
           vd_VerifyInfoCapacity = 0, vd_CertCapacity = 0\<rparr>))))))))))))"

section \<open>Keys, trusted certificates and the proxy\<close>

definition load_certificate ::
  "'w loader \<Rightarrow> client option \<Rightarrow> loadedTrustedCertificate \<Rightarrow> ('w, gerror + unit) state" where
  "load_certificate L c cert =
     (if lt_path cert \<noteq> [] then X509LoadCertificateFromFile L c (lt_path cert) (lt_certType cert)
      else X509LoadCertificateFromBuffer L c (lt_data cert) (lt_format cert))"

text \<open>\<^verbatim>\<open>bytes.Equal\<close> does not tell a nil slice from an empty one.\<close>

definition same_certificate :: "loadedTrustedCertificate \<Rightarrow> loadedTrustedCertificate \<Rightarrow> bool" where
  "same_certificate a b \<longleftrightarrow> lt_path a = lt_path b \<and> lt_certType a = lt_certType b \<and>
     lt_format a = lt_format b \<and> str_of (lt_data a) = str_of (lt_data b)"

definition rememberTrustedCertificate :: "loadedTrustedCertificate \<Rightarrow> 'w session \<Rightarrow> 'w session" where
  "rememberTrustedCertificate cert s =
     (if list_ex (same_certificate cert) (s_trusted s) then s
      else s\<lparr>s_trusted := s_trusted s @ [cert]\<rparr>)"

fun restoreFrom ::
  "'w loader \<Rightarrow> client option \<Rightarrow> nat \<Rightarrow> loadedTrustedCertificate list \<Rightarrow> ('w, gerror + unit) state" where
  "restoreFrom L c index [] = ret (Inr ())"
| "restoreFrom L c index (cert # certs) = do {
     r \<leftarrow> load_certificate L c cert;
     case r of
       Inl err \<Rightarrow> ret (Inl (WrapError (''kalkan: key store loaded but restoring trusted certificate '' @
         format_int (int index + 1) @ '' failed: '' @ error_text err) (Some err)))
     | Inr _ \<Rightarrow> restoreFrom L c (Suc index) certs }"

definition restoreTrustedCertificates ::
  "'w loader \<Rightarrow> client option \<Rightarrow> ('w session, gerror + unit) state" where
  "restoreTrustedCertificates L c = do {
     s \<leftarrow> State_Monad.get;
     natively (restoreFrom L c 0 (s_trusted s)) }"

definition Client_LoadKeyStore ::
  "'w loader \<Rightarrow> call_context \<Rightarrow> KeyStore \<Rightarrow> ('w session, gerror + unit) state" where
  "Client_LoadKeyStore L x store =
     guarded (at_entry x) (
     checked (KeyStoreType_native (ks_Type store)) (\<lambda>storage.
     checked (validateNativePathString ''key store path'' (ks_Path store)) (\<lambda>path.
     guarded (rejectEmbeddedNUL ''key store password'' (ks_Password store)) (
     guarded (rejectEmbeddedNUL ''key store alias'' (ks_Alias store)) (
     withLockedLibrary x (\<lambda>c. do {
       r \<leftarrow> natively (LoadKeyStore L c storage (ks_Password store) path (ks_Alias store));
       case r of Inl err \<Rightarrow> ret (Inl err) | Inr _ \<Rightarrow> restoreTrustedCertificates L c }))))))"

definition load_and_remember ::
  "'w loader \<Rightarrow> loadedTrustedCertificate \<Rightarrow> client option \<Rightarrow> ('w session, gerror + unit) state" where
  "load_and_remember L loaded c = do {
     r \<leftarrow> natively (load_certificate L c loaded);
     case r of
       Inl err \<Rightarrow> ret (Inl err)
     | Inr _ \<Rightarrow> do {
         State_Monad.update (rememberTrustedCertificate loaded);
         ret (Inr ()) } }"

definition Client_LoadTrustedCertificate ::
  "'w loader \<Rightarrow> int \<Rightarrow> call_context \<Rightarrow> TrustedCertificate \<Rightarrow> ('w session, gerror + unit) state" where
  "Client_LoadTrustedCertificate L maxInputSize x cert =
     guarded (at_entry x) (
     checked (CertificateType_native (tc_Type cert)) (\<lambda>certType.
     guarded (if tc_Path cert \<noteq> [] \<and> slice_len (tc_Data cert) \<noteq> 0
              then Some (invalidInput ''trusted certificate must set either Path or Data, not both'') else None) (
     if tc_Path cert \<noteq> []
     then checked (validateNativePathString ''trusted certificate path'' (tc_Path cert)) (\<lambda>path.
            withLockedLibrary x (load_and_remember L
              \<lparr>lt_data = None, lt_path = path, lt_certType = certType, lt_format = 0\<rparr>))
     else
     guarded (if slice_len (tc_Data cert) = 0 then Some (invalidInput ''trusted certificate data is empty'')
              else None) (
     checked (CertificateFormat_native (tc_Format cert)) (\<lambda>format.
     guarded (validateBytesSize (tc_Data cert) ''trusted certificate data'' maxInputSize) (
     withLockedLibrary x (load_and_remember L
       \<lparr>lt_data = tc_Data cert, lt_path = [], lt_certType = 0, lt_format = format\<rparr>)))))))"

definition Proxy_native :: "Proxy \<Rightarrow> ProxyCallRequest" where
  "Proxy_native p =
     (if \<not> px_Enabled p
      then \<lparr>pr_Flags = ProxyOff, pr_Address = [], pr_Port = [], pr_User = [], pr_Password = []\<rparr>
      else \<lparr>pr_Flags = ProxyOn OR (if px_User p \<noteq> [] \<or> px_Password p \<noteq> [] then ProxyAuth else 0),
            pr_Address = TrimSpace (px_Address p), pr_Port = TrimSpace (px_Port p),
            pr_User = px_User p, pr_Password = px_Password p\<rparr>)"

definition Client_SetProxy ::
  "golib \<Rightarrow> 'w loader \<Rightarrow> call_context \<Rightarrow> Proxy \<Rightarrow> ('w session, gerror + unit) state" where
  "Client_SetProxy G L x proxy =
     guarded (at_entry x) (
     guarded (Proxy_validate G proxy) (
     withLockedLibrary x (\<lambda>c. do {
       r \<leftarrow> natively (SetProxy L c (Proxy_native proxy));
       case r of
         Inl err \<Rightarrow> ret (Inl err)
       | Inr _ \<Rightarrow> do {
           State_Monad.update (\<lambda>s. s\<lparr>s_proxy := proxy\<rparr>);
           ret (Inr ()) } })))"

section \<open>ZIP containers\<close>

definition Client_VerifyZIP ::
  "'w loader \<Rightarrow> call_context \<Rightarrow> VerifyZIPRequest \<Rightarrow> ('w session, gerror + Verification) state" where
  "Client_VerifyZIP L x req =
     guarded (at_entry x) (
     checked (validateNativePathString ''ZIP path'' (vzr_Path req)) (\<lambda>zipPath.
     checked (certificateTimeCheckFlag (vzr_CertificateTimeCheck req)) (\<lambda>flags.
     mapped (\<lambda>info. \<lparr>vf_Info = str_of info, vf_Data = None, vf_SignerCert = None\<rparr>)
       (withLockedLibrary x (\<lambda>c. natively (ZipConVerify L c zipPath flags))))))"

text \<open>\<^verbatim>\<open>bytes.Trim\<close> of NUL bytes and ASCII white space, and the first byte of a DER
  certificate.\<close>

definition native_padding :: "char list" where
  "native_padding = [CHR 0x00, CHR 0x20, CHR 0x09, CHR 0x0D, CHR 0x0A]"

definition isEmptyNativeCertificate :: "slice \<Rightarrow> bool" where
  "isEmptyNativeCertificate data \<longleftrightarrow> list_all (\<lambda>c. c \<in> set native_padding) (str_of data) \<or>
     hd (str_of data) \<noteq> CHR 0x30 \<and> TrimSpace (str_of (BeforeNUL data)) = []"

definition Client_ExtractZIPSignerCertificate ::
  "'w loader \<Rightarrow> call_context \<Rightarrow> ExtractZIPSignerCertificateRequest \<Rightarrow> ('w session, gerror + slice) state" where
  "Client_ExtractZIPSignerCertificate L x req =
     guarded (at_entry x) (
     checked (validateNativePathString ''ZIP path'' (ezr_Path req)) (\<lambda>zipPath.
     guarded (validateSignerID ''SignerID'' (ezr_SignerID req)) (
     checked (certificateTimeCheckFlag (ezr_CertificateTimeCheck req)) (\<lambda>flags. do {
       r \<leftarrow> withLockedLibrary x (\<lambda>c. natively (GetCertFromZipFile L c zipPath flags (sint (ezr_SignerID req))));
       ret (case r of
              Inl err \<Rightarrow> Inl err
            | Inr cert \<Rightarrow>
                if isEmptyNativeCertificate cert
                then Inl (invalidInput ''ZIP signer certificate output is empty'') else Inr cert) }))))"

section \<open>What reaches the library\<close>

lemma natively_run [simp]:
  "run_state (natively m) s = (fst (run_state m (s_world s)), s\<lparr>s_world := exec m (s_world s)\<rparr>)"
  by (simp add: natively_def case_prod_unfold Let_def)

lemma mapped_Inr:
  "fst (run_state (mapped f m) s) = Inr r \<Longrightarrow> \<exists>v. fst (run_state m s) = Inr v \<and> r = f v"
  by (cases "fst (run_state m s)") (auto simp: mapped_def)

lemma withLockedLibrary_Inr:
  assumes "fst (run_state (withLockedLibrary x call) s) = Inr r"
  shows "at_gate x = None \<and> s_library s \<noteq> None \<and> fst (run_state (call (s_library s)) s) = Inr r"
  using assms by (auto simp: withLockedLibrary_def guarded_def split: option.splits if_splits)

lemma unchanged_unless:
  "exec (guarded e k) s \<noteq> s \<Longrightarrow> e = None \<and> exec k s \<noteq> s"
  "exec (checked r f) s \<noteq> s \<Longrightarrow> \<exists>v. r = Inr v \<and> exec (f v) s \<noteq> s"
  "exec (mapped g m) s \<noteq> s \<Longrightarrow> exec m s \<noteq> s"
  "exec (withLockedLibrary x call) s \<noteq> s \<Longrightarrow> at_gate x = None \<and> s_library s \<noteq> None"
  by (auto simp: guarded_def checked_def mapped_def withLockedLibrary_def split: option.splits sum.splits if_splits)

text \<open>The flags of a signing or verification request, each set exactly when the request asks for it.\<close>

lemmas flag_consts = SignCMS_def InBase64_def DetachedData_def OutPEM_def OutBase64_def InFile_def
  InPEM_def InDER_def In2Base64_def WithCert_def WithTimestamp_def OutDER_def NoCheckCertTime_def

lemma has_flag_or: "has_flag (a OR b) f \<longleftrightarrow> has_flag a f \<or> has_flag b f"
  unfolding has_flag_def bit.conj_disj_distrib2 by (metis or.right_neutral or.left_neutral or_eq_0_iff)

lemma has_flag_if: "has_flag (if c then a else b) f \<longleftrightarrow> (if c then has_flag a f else has_flag b f)"
  by simp

lemma cmsSignatureInput_Inr:
  assumes "cmsSignatureInput source fallback limit = Inr (v, f)"
  shows "bytesOrPath source = Inr v" "f \<in> {InDER, InBase64, InPEM}" "s_set source"
    "validateMemorySourceSize source ''CMS signature'' limit = None"
  using assms by (auto simp: cmsSignatureInput_def source_isZero_def Let_def split: if_splits option.splits sum.splits)

lemma cmsDataInput_Inr:
  assumes "cmsDataInput source limit = Inr (v, f)"
  shows "if s_set source then bytesOrPath source = Inr v else v = None" "f \<in> {0, In2Base64}"
    "s_set source \<Longrightarrow> validateMemorySourceSize source ''detached CMS data'' limit = None"
  using assms by (auto simp: cmsDataInput_def source_isZero_def Let_def split: if_splits option.splits sum.splits)

lemma certificateTimeCheckFlag_Inr:
  "certificateTimeCheckFlag check = Inr f \<Longrightarrow> f = (if check = 1 then NoCheckCertTime else 0)"
  by (auto simp: certificateTimeCheckFlag_def split: if_splits)

lemma cmsOutputFlag_Inr: "cmsOutputFlag format = Inr f \<Longrightarrow> f \<in> {OutDER, OutBase64, OutPEM}"
  by (auto simp: cmsOutputFlag_def split: if_splits)

lemma verifyCMSFlags_exact:
  assumes "f \<in> {InDER, InBase64, InPEM}" "d \<in> {0, In2Base64}" "k = (if check = 1 then NoCheckCertTime else 0)"
  shows "has_flag (verifyCMSFlags req f d k) SignCMS"
    "has_flag (verifyCMSFlags req f d k) DetachedData \<longleftrightarrow> vcr_Detached req"
    "has_flag (verifyCMSFlags req f d k) NoCheckCertTime \<longleftrightarrow> check = 1"
    "has_flag (verifyCMSFlags req f d k) InFile \<longleftrightarrow> s_file (vcr_Signature req)"
  using assms unfolding verifyCMSFlags_def has_flag_or has_flag_if
  by (auto simp: has_flag_def flag_consts)


definition entered :: "call_context \<Rightarrow> 'w session \<Rightarrow> bool" where
  "entered x s \<longleftrightarrow> at_entry x = None \<and> at_gate x = None \<and> s_library s \<noteq> None"

definition within :: "int \<Rightarrow> Source \<Rightarrow> bool" where
  "within limit source \<longleftrightarrow> s_set source \<and>
     (0 < limit \<and> \<not> s_file source \<longrightarrow> int (slice_len (s_data source)) \<le> limit)"

lemmas input_checks = entered_def within_def rejectEmbeddedNUL_def validateMemorySourceSize_def
  validateBytesSize_def validateInputSize_def

text \<open>
  No operation enters the library with unchecked input. If a CMS signing, a digest signing or a
  verification changes the session, then the context was not cancelled, the client was open, the
  alias has no NUL byte (at which native code would cut it), and an in-memory payload respects
  the configured size limit.
\<close>

theorem native_input_checked:
  "(exec (Client_SignCMS L limit x cms) s \<noteq> s \<longrightarrow> entered x s \<and> CHR 0x00 \<notin> set (scr_Alias cms) \<and>
      within limit (scr_Data cms)) \<and>
   (exec (Client_SignHash L limit x hash) s \<noteq> s \<longrightarrow> entered x s \<and> CHR 0x00 \<notin> set (shr_Alias hash) \<and>
      (0 < limit \<longrightarrow> int (slice_len (shr_Digest hash)) \<le> limit)) \<and>
   (exec (Client_VerifyCMS L limit x ver) s \<noteq> s \<longrightarrow> entered x s \<and> CHR 0x00 \<notin> set (vcr_Alias ver) \<and>
      within limit (vcr_Signature ver))"
proof -
  have 1: "entered x s \<and> CHR 0x00 \<notin> set (scr_Alias cms) \<and> within limit (scr_Data cms)"
    if "exec (Client_SignCMS L limit x cms) s \<noteq> s"
    using that unfolding Client_SignCMS_def
    by (auto dest!: unchanged_unless simp: input_checks split: if_splits)
  have 2: "entered x s \<and> CHR 0x00 \<notin> set (shr_Alias hash) \<and> (0 < limit \<longrightarrow> int (slice_len (shr_Digest hash)) \<le> limit)"
    if "exec (Client_SignHash L limit x hash) s \<noteq> s"
    using that unfolding Client_SignHash_def
    by (auto dest!: unchanged_unless simp: input_checks split: if_splits)
  have 3: "entered x s \<and> CHR 0x00 \<notin> set (vcr_Alias ver) \<and> within limit (vcr_Signature ver)"
    if ver: "exec (Client_VerifyCMS L limit x ver) s \<noteq> s"
  proof -
    from ver obtain signature f where
      sig: "cmsSignatureInput (vcr_Signature ver) (vcr_Encoding ver) limit = Inr (signature, f)"
      and "entered x s" "rejectEmbeddedNUL ''alias'' (vcr_Alias ver) = None"
      unfolding Client_VerifyCMS_def by (auto dest!: unchanged_unless simp: entered_def split: if_splits)
    with cmsSignatureInput_Inr(3,4) [OF sig] show ?thesis by (auto simp: input_checks split: if_splits)
  qed
  from 1 2 3 show ?thesis by blast
qed

section \<open>Trusted certificates across key stores\<close>

text \<open>The certificates load one after the other, each successfully.\<close>

fun loads ::
  "'w loader \<Rightarrow> client option \<Rightarrow> loadedTrustedCertificate list \<Rightarrow> 'w \<Rightarrow> 'w \<Rightarrow> bool" where
  "loads L c [] w w' \<longleftrightarrow> w' = w"
| "loads L c (cert # certs) w w' \<longleftrightarrow>
     (\<exists>w1. run_state (load_certificate L c cert) w = (Inr (), w1) \<and> loads L c certs w1 w')"

lemma restoreFrom_loads:
  "fst (run_state (restoreFrom L c n certs) w) = Inr () \<Longrightarrow> loads L c certs w (exec (restoreFrom L c n certs) w)"
proof (induction certs arbitrary: n w)
  case (Cons cert certs)
  obtain r w1 where r: "run_state (load_certificate L c cert) w = (r, w1)" by (metis surj_pair)
  with Cons show ?case by (cases r) (auto simp: prod_eq_iff)
qed simp

text \<open>
  Loading a key store keeps the trust the application configured. When \<^verbatim>\<open>LoadKeyStore\<close>
  succeeds, the key store was loaded and after it, in the same critical section, every remembered
  certificate was loaded again in order; the remembered list is unchanged.
\<close>

theorem loadKeyStore_restores_trust:
  assumes "run_state (Client_LoadKeyStore L x store) s = (Inr (), s')"
  shows "\<exists>w. run_state (LoadKeyStore L (s_library s) 1 (ks_Password store) (ks_Path store) (ks_Alias store))
      (s_world s) = (Inr (), w) \<and> loads L (s_library s) (s_trusted s) w (s_world s') \<and>
    s_trusted s' = s_trusted s \<and> s_library s' = s_library s"
proof -
  let ?load = "LoadKeyStore L (s_library s) 1 (ks_Password store) (ks_Path store) (ks_Alias store)"
  from assms have "at_gate x = None" "s_library s \<noteq> None" "KeyStoreType_native (ks_Type store) = Inr 1"
    "validateNativePathString ''key store path'' (ks_Path store) = Inr (ks_Path store)"
    "at_entry x = None" "rejectEmbeddedNUL ''key store password'' (ks_Password store) = None"
    "rejectEmbeddedNUL ''key store alias'' (ks_Alias store) = None"
    by (auto simp: Client_LoadKeyStore_def guarded_def checked_def withLockedLibrary_def KeyStoreType_native_def
        validateNativePathString_def split: option.splits sum.splits if_splits)
  with assms obtain w where w: "run_state ?load (s_world s) = (Inr (), w)"
    "fst (run_state (restoreFrom L (s_library s) 0 (s_trusted s)) w) = Inr ()"
    "s' = s\<lparr>s_world := exec (restoreFrom L (s_library s) 0 (s_trusted s)) w\<rparr>"
    by (cases "run_state ?load (s_world s)")
      (auto simp: Client_LoadKeyStore_def guarded_def checked_def withLockedLibrary_def
        restoreTrustedCertificates_def split: sum.splits)
  with restoreFrom_loads [OF w(2)] show ?thesis by auto
qed

text \<open>The remembered certificates: no two alike, and each names a file or holds bytes.\<close>

definition wf_certificate :: "loadedTrustedCertificate \<Rightarrow> bool" where
  "wf_certificate cert \<longleftrightarrow> (if lt_path cert = [] then slice_len (lt_data cert) \<noteq> 0
     else lt_data cert = None \<and> CHR 0x00 \<notin> set (lt_path cert))"

definition trust_inv :: "'w session \<Rightarrow> bool" where
  "trust_inv s \<longleftrightarrow> list_all wf_certificate (s_trusted s) \<and>
     sorted_wrt (\<lambda>a b. \<not> same_certificate b a) (s_trusted s)"

inductive session_step :: "golib \<Rightarrow> 'w loader \<Rightarrow> int \<Rightarrow> 'w session \<Rightarrow> 'w session \<Rightarrow> bool" for G L limit where
  hash: "session_step G L limit s (exec (Client_Hash L limit x r1) s)"
| signHash: "session_step G L limit s (exec (Client_SignHash L limit x r2) s)"
| signCMS: "session_step G L limit s (exec (Client_SignCMS L limit x r3) s)"
| verifyCMS: "session_step G L limit s (exec (Client_VerifyCMS L limit x r4) s)"
| loadKeyStore: "session_step G L limit s (exec (Client_LoadKeyStore L x r5) s)"
| loadTrustedCertificate: "session_step G L limit s (exec (Client_LoadTrustedCertificate L limit x r6) s)"
| setProxy: "session_step G L limit s (exec (Client_SetProxy G L x r7) s)"
| verifyZIP: "session_step G L limit s (exec (Client_VerifyZIP L x r8) s)"
| extractZIP: "session_step G L limit s (exec (Client_ExtractZIPSignerCertificate L x r9) s)"

definition session_open :: "'w session \<Rightarrow> bool" where
  "session_open s \<longleftrightarrow> s_library s \<noteq> None \<and> s_trusted s = []"

lemma trust_inv_remember:
  assumes "trust_inv s" "wf_certificate cert"
  shows "trust_inv (rememberTrustedCertificate cert s)"
  using assms by (auto simp: trust_inv_def rememberTrustedCertificate_def sorted_wrt_append list_ex_iff)

lemma trust_keep:
  "s_trusted (exec (guarded e k) s) = (if e = None then s_trusted (exec k s) else s_trusted s)"
  "s_trusted (exec (checked r f) s) = (case r of Inl _ \<Rightarrow> s_trusted s | Inr v \<Rightarrow> s_trusted (exec (f v) s))"
  "s_trusted (exec (mapped g m) s) = s_trusted (exec m s)"
  "s_trusted (exec (withLockedLibrary x call) s) =
     (if at_gate x = None \<and> s_library s \<noteq> None then s_trusted (exec (call (s_library s)) s) else s_trusted s)"
  by (auto simp: guarded_def checked_def mapped_def withLockedLibrary_def split: option.splits sum.splits)

lemma session_keeps_trusted:
  "s_trusted (exec (Client_Hash L limit x r1) s) = s_trusted s"
  "s_trusted (exec (Client_SignHash L limit x r2) s) = s_trusted s"
  "s_trusted (exec (Client_SignCMS L limit x r3) s) = s_trusted s"
  "s_trusted (exec (Client_VerifyCMS L limit x r4) s) = s_trusted s"
  "s_trusted (exec (Client_LoadKeyStore L x r5) s) = s_trusted s"
  "s_trusted (exec (Client_SetProxy G L x r7) s) = s_trusted s"
  "s_trusted (exec (Client_VerifyZIP L x r8) s) = s_trusted s"
  "s_trusted (exec (Client_ExtractZIPSignerCertificate L x r9) s) = s_trusted s"
  by (simp_all add: Client_Hash_def Client_SignHash_def Client_SignCMS_def Client_VerifyCMS_def
      Client_LoadKeyStore_def Client_SetProxy_def Client_VerifyZIP_def Client_ExtractZIPSignerCertificate_def
      restoreTrustedCertificates_def trust_keep split: sum.split)

lemma trust_inv_load:
  assumes "trust_inv s"
  shows "trust_inv (exec (Client_LoadTrustedCertificate L limit x cert) s)"
proof -
  have step: "trust_inv (exec (withLockedLibrary x (load_and_remember L loaded)) s)" if "wf_certificate loaded" for loaded
    using assms that
    by (auto simp: withLockedLibrary_def guarded_def load_and_remember_def intro!: trust_inv_remember
        split: option.split sum.split) (simp_all add: trust_inv_def)
  show ?thesis
    using assms step
    by (auto simp: Client_LoadTrustedCertificate_def guarded_def checked_def validateNativePathString_def
        rejectEmbeddedNUL_def wf_certificate_def split: option.split sum.split)
qed

lemma trust_inv_cong: "s_trusted s' = s_trusted s \<Longrightarrow> trust_inv s' \<longleftrightarrow> trust_inv s"
  by (simp add: trust_inv_def)

interpretation trust: state_machine session_open "session_step G L limit" trust_inv
proof unfold_locales
  show "session_open s \<Longrightarrow> trust_inv s" for s :: "'w session" by (simp add: session_open_def trust_inv_def)
  show "trust_inv s \<Longrightarrow> session_step G L limit s s' \<Longrightarrow> trust_inv s'" for s s'
    by (erule session_step.cases) (auto simp: trust_inv_load trust_inv_cong [OF session_keeps_trusted(1)]
        trust_inv_cong [OF session_keeps_trusted(2)] trust_inv_cong [OF session_keeps_trusted(3)]
        trust_inv_cong [OF session_keeps_trusted(4)] trust_inv_cong [OF session_keeps_trusted(5)]
        trust_inv_cong [OF session_keeps_trusted(6)] trust_inv_cong [OF session_keeps_trusted(7)]
        trust_inv_cong [OF session_keeps_trusted(8)])
qed


section \<open>A sample session\<close>

definition sample_session :: "loadedTrustedCertificate list \<Rightarrow> int list session" where
  "sample_session certs = \<lparr>s_world = [], s_library = Some sample_client, s_trusted = certs,
     s_proxy = \<lparr>px_Enabled = False, px_Address = [], px_Port = [], px_User = [], px_Password = []\<rparr>,
     s_pemCache = None\<rparr>"

definition live_context :: call_context where
  "live_context = \<lparr>at_entry = None, at_gate = None\<rparr>"

definition sample_verify_cms :: VerifyCMSRequest where
  "sample_verify_cms = \<lparr>vcr_Alias = ''key'', vcr_Signature = Bytes (Some ''cms''), vcr_Data = zeroSource,
     vcr_Detached = False, vcr_Encoding = 0, vcr_SignerID = 1, vcr_CertificateTimeCheck = 0\<rparr>"

lemma sample_loop:
  assumes "0 < cap_data capacities" "0 < cap_info capacities" "0 < cap_cert capacities"
  shows "fst (run_state (verifyDataLoop Linux sample_context c req n capacities) w) =
    Inr \<lparr>vdr_Data = (if verifyDataReturnsDecodedData req then Some [] else None), vdr_VerifyInfo = [],
      vdr_Cert = Some []\<rparr>"
  using assms
  by (subst verifyDataLoop.simps)
    (simp add: sample_context_def platformCMSLastError_def ErrorOK_def ErrorBufferTooSmall_def
      validateVerifyDataOutputLengths_def shouldRetryVerifyDataOutput_def verifyDataOutcome_def
      wrapCodeLocked_def validateNativeOutputDataLength_def BeforeNUL_def
      platformVerifyDataOutputPolicy_def linuxVerifyDataOutputPolicy_def Let_def)

lemma initial_positive:
  "0 < cap_data (verifyDataInitial p c req)" "0 < cap_info (verifyDataInitial p c req)"
  "0 < cap_cert (verifyDataInitial p c req)"
  by (simp_all add: verifyDataInitial_def bounded_range)

lemma sample_verify_data:
  assumes "flagsToNativeInt (vd_Flags req) = Inr n" "validateNativeSignerID ''CertID'' (vd_CertID req) = None"
  shows "fst (run_state (VerifyData sample_loader (Some sample_client) req) w) =
    Inr \<lparr>vdr_Data = (if verifyDataReturnsDecodedData req then Some [] else None), vdr_VerifyInfo = [],
      vdr_Cert = Some []\<rparr>"
proof -
  have L: "target sample_loader = Linux" "native sample_loader = sample_context" by (simp_all add: sample_loader_def)
  show ?thesis
    using assms by (simp add: VerifyData_def guarded_def checked_def sample_with_context L sample_loop initial_positive)
qed

lemma sample_verified:
  "\<exists>ver. fst (run_state (Client_VerifyCMS sample_loader 0 live_context sample_verify_cms) (sample_session [])) = Inr ver"
proof -
  have f: "flagsToNativeInt (verifyCMSFlags sample_verify_cms InDER 0 0) = Inr 10"
    by (simp add: verifyCMSFlags_def sample_verify_cms_def InDER_def SignCMS_def Bytes_def zeroSource_def
        flagsToNativeInt_def validateNativeSignedRange_def validateNativeUnsignedRange_def maxNativeCInt_def)
  have "cmsSignatureInput (vcr_Signature sample_verify_cms) (vcr_Encoding sample_verify_cms) 0 = Inr (Some ''cms'', InDER)"
    "cmsDataInput (vcr_Data sample_verify_cms) 0 = Inr (None, 0)"
    by (simp_all add: cmsSignatureInput_def cmsDataInput_def source_isZero_def sample_verify_cms_def Bytes_def
        zeroSource_def validateMemorySourceSize_def bytesOrPath_def effectiveEncoding_def EncodingAuto_def
        EncodingRaw_def)
  with f show ?thesis
    by (simp add: Client_VerifyCMS_def guarded_def checked_def mapped_def withLockedLibrary_def live_context_def
        sample_session_def sample_verify_data validateNativeSignerID_def maxNativeCInt_def)
      (simp add: sample_verify_cms_def rejectEmbeddedNUL_def validateEncoding_def EncodingAuto_def
        validateSignerID_def maxSignerID_def source_isZero_def zeroSource_def certificateTimeCheckFlag_def
        sample_verify_data validateNativeSignerID_def maxNativeCInt_def)
qed


definition sample_certificate :: loadedTrustedCertificate where
  "sample_certificate = \<lparr>lt_data = None, lt_path = ''/ca.pem'', lt_certType = 0x201, lt_format = 0\<rparr>"

definition sample_store :: KeyStore where
  "sample_store = \<lparr>ks_Type = 0, ks_Path = ''/key.p12'', ks_Password = ''pw'', ks_Alias = []\<rparr>"

lemma sample_status: "run_state (status_call sample_loader c (ret 0)) w = (Inr (), w)"
  by (simp add: status_call_def sample_loader_def sample_context_def wrapCodeLocked_def ErrorOK_def)

lemma sample_native:
  "n_LoadKeyStore (native sample_loader) a b d e = ret 0" "n_X509LoadCertificateFromFile (native sample_loader) f g = ret 0"
  by (simp_all add: sample_loader_def sample_context_def)

lemma sample_loaded:
  "run_state (LoadKeyStore sample_loader (Some sample_client) 1 password path alias) w = (Inr (), w)"
  "run_state (load_certificate sample_loader (Some sample_client) sample_certificate) w = (Inr (), w)"
  by (simp_all add: LoadKeyStore_def load_certificate_def X509LoadCertificateFromFile_def sample_certificate_def
      checked_def sample_with_context sample_native sample_status storeToNativeInt_def enumToNativeInt_def
      validateNativeSignedRange_def validateNativeUnsignedRange_def maxNativeCInt_def)

theorem loadKeyStore_restores_trust_witness:
  "loads sample_loader (Some sample_client) [sample_certificate] [] []"
proof -
  have "run_state (Client_LoadKeyStore sample_loader live_context sample_store) (sample_session [sample_certificate]) =
      (Inr (), sample_session [sample_certificate])"
    by (simp add: Client_LoadKeyStore_def guarded_def checked_def live_context_def sample_store_def
        KeyStoreType_native_def validateNativePathString_def rejectEmbeddedNUL_def withLockedLibrary_def
        sample_session_def restoreTrustedCertificates_def sample_loaded)
  from loadKeyStore_restores_trust [OF this] show ?thesis
    by (simp add: sample_session_def sample_loaded)
qed

definition sample_trusted :: TrustedCertificate where
  "sample_trusted = \<lparr>tc_Data = None, tc_Path = ''/ca.pem'', tc_Type = 0, tc_Format = 0\<rparr>"


text \<open>A library that counts how often its error state is cleared.\<close>

definition counting_loader :: "int list loader" where
  "counting_loader = sample_loader\<lparr>native := sample_context\<lparr>n_ClearError := State_Monad.update (\<lambda>w. 1 # w)\<rparr>\<rparr>"

lemma counting_loop:
  assumes "0 < cap_data capacities" "0 < cap_info capacities" "0 < cap_cert capacities"
  shows "exec (verifyDataLoop Linux (native counting_loader) c req n capacities) w = 1 # w"
  using assms
  by (subst verifyDataLoop.simps)
    (simp add: counting_loader_def sample_context_def platformCMSLastError_def ErrorOK_def ErrorBufferTooSmall_def
      validateVerifyDataOutputLengths_def shouldRetryVerifyDataOutput_def verifyDataOutcome_def
      wrapCodeLocked_def validateNativeOutputDataLength_def BeforeNUL_def
      platformVerifyDataOutputPolicy_def linuxVerifyDataOutputPolicy_def Let_def)

lemma counting_context:
  "with_context counting_loader (Some sample_client) T name body = body (cfg sample_client)"
  "target counting_loader = Linux"
  by (simp_all add: with_context_def contextAsLocked_def ensureOpenLocked_def sample_client_def counting_loader_def
      sample_loader_def sample_context_def)

lemma counting_changes:
  "exec (Client_VerifyCMS counting_loader 3 live_context sample_verify_cms) (sample_session []) \<noteq> sample_session []"
proof -
  have f: "flagsToNativeInt (verifyCMSFlags sample_verify_cms InDER 0 0) = Inr 10"
    by (simp add: verifyCMSFlags_def sample_verify_cms_def InDER_def SignCMS_def Bytes_def zeroSource_def
        flagsToNativeInt_def validateNativeSignedRange_def validateNativeUnsignedRange_def maxNativeCInt_def)
  have inputs: "cmsSignatureInput (vcr_Signature sample_verify_cms) (vcr_Encoding sample_verify_cms) 3 = Inr (Some ''cms'', InDER)"
    "cmsDataInput (vcr_Data sample_verify_cms) 3 = Inr (None, 0)"
    by (simp_all add: cmsSignatureInput_def cmsDataInput_def source_isZero_def sample_verify_cms_def Bytes_def
        zeroSource_def validateMemorySourceSize_def validateBytesSize_def validateInputSize_def bytesOrPath_def
        effectiveEncoding_def EncodingAuto_def EncodingRaw_def)
  have checks: "rejectEmbeddedNUL ''alias'' (vcr_Alias sample_verify_cms) = None"
    "validateEncoding (vcr_Encoding sample_verify_cms) = None"
    "validateSignerID ''SignerID'' (vcr_SignerID sample_verify_cms) = None"
    "validateNativeSignerID ''CertID'' (sint (vcr_SignerID sample_verify_cms)) = None"
    "source_isZero (vcr_Data sample_verify_cms)" "\<not> vcr_Detached sample_verify_cms"
    "certificateTimeCheckFlag (vcr_CertificateTimeCheck sample_verify_cms) = Inr 0"
    by (simp_all add: sample_verify_cms_def rejectEmbeddedNUL_def validateEncoding_def EncodingAuto_def
        validateSignerID_def maxSignerID_def source_isZero_def zeroSource_def certificateTimeCheckFlag_def
        validateNativeSignerID_def maxNativeCInt_def)
  show ?thesis
    by (simp add: Client_VerifyCMS_def guarded_def checked_def mapped_def withLockedLibrary_def live_context_def
        sample_session_def f inputs checks VerifyData_def counting_context counting_loop initial_positive)
qed

theorem native_input_checked_witness:
  "CHR 0x00 \<notin> set (vcr_Alias sample_verify_cms) \<and> within 3 (vcr_Signature sample_verify_cms)"
  using native_input_checked [where ver = sample_verify_cms and L = counting_loader and limit = 3 and
      x = live_context and s = "sample_session []"] counting_changes by blast

end
