(* ===== verification/Kalkan_Open.thy ===== *)
theory Kalkan_Open
  imports Protocol_Config Kalkan_Operations
begin

text \<open>
  Opening the public client (\<^verbatim>\<open>option.go\<close>, \<^verbatim>\<open>client.go\<close>): the options, the validation of
  the configuration, the load of the library through the process slot of \<^verbatim>\<open>Ckalkan_Process\<close>,
  the setup of the session and the clean-up when a step fails. The options are those of
  \<^verbatim>\<open>Protocol_Config\<close>, which the isolated worker passes on; the logger and the observer
  are left out. \<^verbatim>\<open>filepath.IsAbs\<close> depends on the platform and is an argument. A context may
  end at any of the points where it is read.
\<close>

section \<open>Configuration\<close>

record openConfig =
  oc_proxy :: "Proxy option"
  oc_endpointPolicy :: "EndpointPolicy option"
  oc_libraryPath :: gostring
  oc_tsaURL :: gostring
  oc_ocspURL :: gostring
  oc_trusted :: "TrustedCertificate list"
  oc_ocspTimeout :: int
  oc_maxInputSize :: int
  oc_maxOutputBufferSize :: int
  oc_customOCSP :: bool
  oc_atomicZIPOutput :: bool

record runtimeConfig =
  rc_ocspURL :: gostring
  rc_customOCSP :: bool
  rc_ocspTimeout :: int
  rc_proxy :: Proxy
  rc_maxInputSize :: int
  rc_atomicZIPOutput :: bool
  rc_endpointPolicy :: "EndpointPolicy option"

definition defaultTSAURL :: gostring where "defaultTSAURL = ''http://tsp.pki.gov.kz:80''"
definition defaultOCSPURL :: gostring where "defaultOCSPURL = ''http://ocsp.pki.gov.kz''"

definition defaultOpenConfig :: openConfig where
  "defaultOpenConfig = \<lparr>oc_proxy = None, oc_endpointPolicy = None, oc_libraryPath = [],
     oc_tsaURL = defaultTSAURL, oc_ocspURL = defaultOCSPURL, oc_trusted = [], oc_ocspTimeout = 0,
     oc_maxInputSize = 0, oc_maxOutputBufferSize = 0, oc_customOCSP = False, oc_atomicZIPOutput = False\<rparr>"

fun applyOption :: "openOption \<Rightarrow> openConfig \<Rightarrow> openConfig" where
  "applyOption (WithLibraryPath path) c = c\<lparr>oc_libraryPath := path\<rparr>"
| "applyOption (WithMaxInputSize sz) c = c\<lparr>oc_maxInputSize := max (sint sz) 0\<rparr>"
| "applyOption (WithMaxOutputBufferSize sz) c = c\<lparr>oc_maxOutputBufferSize := sint sz\<rparr>"
| "applyOption (WithOCSPTimeout timeout) c = c\<lparr>oc_ocspTimeout := sint timeout\<rparr>"
| "applyOption (WithTSAURL url) c = c\<lparr>oc_tsaURL := url\<rparr>"
| "applyOption (WithOCSPURL url) c = c\<lparr>oc_ocspURL := url\<rparr>"
| "applyOption WithCustomOCSP c = c\<lparr>oc_customOCSP := True\<rparr>"
| "applyOption (WithProxy proxy) c = c\<lparr>oc_proxy := Some proxy\<rparr>"
| "applyOption (WithTrustedCertificate cert) c = c\<lparr>oc_trusted := oc_trusted c @ [cert]\<rparr>"
| "applyOption WithAtomicZIPOutput c = c\<lparr>oc_atomicZIPOutput := True\<rparr>"
| "applyOption (WithEndpointPolicy policy) c = c\<lparr>oc_endpointPolicy := Some policy\<rparr>"

definition applyOpenOptions :: "openOption option list \<Rightarrow> openConfig" where
  "applyOpenOptions options =
     foldl (\<lambda>c opt. case opt of None \<Rightarrow> c | Some f \<Rightarrow> applyOption f c) defaultOpenConfig options"

definition openConfig_validate :: "golib \<Rightarrow> (gostring \<Rightarrow> bool) \<Rightarrow> openConfig \<Rightarrow> gerror + openConfig" where
  "openConfig_validate G isAbs c =
     (if oc_ocspTimeout c < 0 then Inl (invalidInput ''OCSP timeout must be non-negative'')
      else if oc_maxOutputBufferSize c < 0
      then Inl (invalidInput ''maximum output buffer size must be non-negative'')
      else case (case oc_endpointPolicy c of None \<Rightarrow> None | Some p \<Rightarrow> EndpointPolicy_validate G p) of
        Some err \<Rightarrow> Inl err
      | None \<Rightarrow>
      (case validateNativePathString ''library path'' (oc_libraryPath c) of
         Inl err \<Rightarrow> if oc_libraryPath c = [] then Inl (invalidInput ''library path is required'') else Inl err
       | Inr path \<Rightarrow>
      if \<not> isAbs path then Inl (invalidInput ''absolute library path is required'')
      else
      (case normalizeNativeHTTPURLWithPolicy G ''TSA URL'' (oc_tsaURL c) ''TSA'' (oc_endpointPolicy c) of
         Inl err \<Rightarrow> Inl err
       | Inr tsaURL \<Rightarrow>
      (case normalizeNativeHTTPURLWithPolicy G ''OCSP URL'' (oc_ocspURL c) ''OCSP'' (oc_endpointPolicy c) of
         Inl err \<Rightarrow> Inl err
       | Inr ocspURL \<Rightarrow>
      (case (case oc_proxy c of None \<Rightarrow> None | Some p \<Rightarrow> Proxy_validate G p) of
         Some err \<Rightarrow> Inl err
       | None \<Rightarrow> Inr (c\<lparr>oc_libraryPath := path, oc_tsaURL := tsaURL, oc_ocspURL := ocspURL\<rparr>))))))"

definition noProxy :: Proxy where
  "noProxy = \<lparr>px_Enabled = False, px_Address = [], px_Port = [], px_User = [], px_Password = []\<rparr>"

definition openConfig_runtime :: "openConfig \<Rightarrow> runtimeConfig" where
  "openConfig_runtime c = \<lparr>rc_ocspURL = oc_ocspURL c, rc_customOCSP = oc_customOCSP c,
     rc_ocspTimeout = oc_ocspTimeout c, rc_proxy = (case oc_proxy c of None \<Rightarrow> noProxy | Some p \<Rightarrow> p),
     rc_maxInputSize = oc_maxInputSize c, rc_atomicZIPOutput = oc_atomicZIPOutput c,
     rc_endpointPolicy = oc_endpointPolicy c\<rparr>"

section \<open>Opening a session\<close>

datatype ctx_point =
    OpenEntry | BeforeLoad | SetupCheck nat | SetupGate nat
  | CertCheck nat | CertEntry nat | CertGate nat | OpenEnd

type_synonym open_context = "ctx_point \<Rightarrow> gerror option"

definition defaultLibraryFactory :: "'w loader \<Rightarrow> openConfig \<Rightarrow> ('w process, gerror + nat) state" where
  "defaultLibraryFactory L c = do {
     low \<leftarrow> New L (Some (WithLibrary (oc_libraryPath c)) #
              (if oc_maxOutputBufferSize c > 0 then [Some (WithMaxBufferSize (oc_maxOutputBufferSize c))] else []));
     ret (case low of
            Inl err \<Rightarrow> Inl (if errors_is err CkErrUnavailable then Sentinel KalkanErrUnavailable else err)
          | Inr client \<Rightarrow> Inr client) }"

text \<open>An operation of the client that owns low-level client \<open>i\<close>; it remembers \<open>known\<close>
  certificates.\<close>

definition with_session ::
  "nat \<Rightarrow> loadedTrustedCertificate list \<Rightarrow> ('w session, 'a) state \<Rightarrow>
   ('w process, 'a \<times> loadedTrustedCertificate list) state" where
  "with_session i known m = State (\<lambda>s.
     let (r, t) = run_state m \<lparr>s_world = world s, s_library = Some (clients s ! i), s_trusted = known,
           s_proxy = noProxy, s_pemCache = None\<rparr>
     in ((r, s_trusted t), s\<lparr>world := s_world t\<rparr>))"

definition setup_call ::
  "open_context \<Rightarrow> nat \<Rightarrow> nat \<Rightarrow> gostring \<Rightarrow> (client option \<Rightarrow> ('w, gerror + unit) state) \<Rightarrow>
   ('w process, gerror + unit) state" where
  "setup_call x step i what call = do {
     r \<leftarrow> with_session i [] (withLockedLibrary \<lparr>at_entry = None, at_gate = x (SetupGate step)\<rparr>
            (\<lambda>c. natively (call c)));
     ret (case fst r of
            Inl err \<Rightarrow> Inl (WrapError (''kalkan: '' @ what @ '': '' @ error_text err) (Some err))
          | Inr _ \<Rightarrow> Inr ()) }"

text \<open>\<^verbatim>\<open>m\<close>, then \<^verbatim>\<open>k\<close> unless it failed.\<close>

definition and_then :: "('s, gerror + 'a) state \<Rightarrow> ('a \<Rightarrow> ('s, gerror + 'b) state) \<Rightarrow> ('s, gerror + 'b) state" where
  "and_then m k = do { r \<leftarrow> m; (case r of Inl err \<Rightarrow> ret (Inl err) | Inr v \<Rightarrow> k v) }"

definition setupOpenedClient ::
  "'w loader \<Rightarrow> open_context \<Rightarrow> nat \<Rightarrow> openConfig \<Rightarrow> ('w process, gerror + unit) state" where
  "setupOpenedClient L x i c =
     guarded (x (SetupCheck 0)) (
     and_then (setup_call x 0 i ''initialize native library'' (Init L)) (\<lambda>_.
     guarded (x (SetupCheck 1)) (
     and_then (setup_call x 1 i ''configure TSA URL'' (\<lambda>cl. SetTSAURL L cl (oc_tsaURL c))) (\<lambda>_.
     guarded (x (SetupCheck 2)) (
     and_then (case oc_proxy c of
         None \<Rightarrow> ret (Inr ())
       | Some proxy \<Rightarrow> setup_call x 2 i ''configure proxy'' (\<lambda>cl. SetProxy L cl (Proxy_native proxy))) (\<lambda>_.
     guarded (x (SetupCheck 3)) (ret (Inr ()))))))))"

fun loadTrusted ::
  "'w loader \<Rightarrow> open_context \<Rightarrow> int \<Rightarrow> nat \<Rightarrow> nat \<Rightarrow> TrustedCertificate list \<Rightarrow>
   loadedTrustedCertificate list \<Rightarrow> ('w process, gerror + loadedTrustedCertificate list) state" where
  "loadTrusted L x limit i k [] known = ret (Inr known)"
| "loadTrusted L x limit i k (cert # certs) known =
     guarded (x (CertCheck k)) (do {
       r \<leftarrow> with_session i known (Client_LoadTrustedCertificate L limit
              \<lparr>at_entry = x (CertEntry k), at_gate = x (CertGate k)\<rparr> cert);
       (case fst r of
          Inl err \<Rightarrow> ret (Inl err)
        | Inr _ \<Rightarrow> loadTrusted L x limit i (Suc k) certs (snd r)) })"

record opened_client =
  op_library :: nat
  op_config :: runtimeConfig
  op_trusted :: "loadedTrustedCertificate list"

text \<open>The part of \<^verbatim>\<open>openWithLibraryFactory\<close> between the load of the library and its return,
  and the deferred close after a failure.\<close>

definition finishOpen ::
  "'w loader \<Rightarrow> open_context \<Rightarrow> openConfig \<Rightarrow> nat \<Rightarrow> ('w process, gerror + opened_client) state" where
  "finishOpen L x c i =
     and_then (setupOpenedClient L x i c) (\<lambda>_.
     and_then (loadTrusted L x (oc_maxInputSize c) i 0 (oc_trusted c) []) (\<lambda>known.
     guarded (x OpenEnd)
       (ret (Inr \<lparr>op_library = i, op_config = openConfig_runtime c, op_trusted = known\<rparr>))))"

definition closeUnlessOpened ::
  "'w loader \<Rightarrow> nat \<Rightarrow> gerror + 'a \<Rightarrow> ('w process, gerror + 'a) state" where
  "closeUnlessOpened L i r = (case r of
     Inr v \<Rightarrow> ret (Inr v)
   | Inl err \<Rightarrow> do {
       closeErr \<leftarrow> Close L (Some i);
       ret (Inl (case closeErr of None \<Rightarrow> err | Some e \<Rightarrow> the (joinErrors [Some err, Some e]))) })"

definition openWithLibraryFactory ::
  "golib \<Rightarrow> (gostring \<Rightarrow> bool) \<Rightarrow> 'w loader \<Rightarrow> open_context \<Rightarrow> openOption option list \<Rightarrow>
   ('w process, gerror + opened_client) state" where
  "openWithLibraryFactory G isAbs L x options =
     guarded (x OpenEntry) (
     checked (openConfig_validate G isAbs (applyOpenOptions options)) (\<lambda>c.
     guarded (x BeforeLoad) (
     and_then (defaultLibraryFactory L c) (\<lambda>i. do {
       r \<leftarrow> finishOpen L x c i;
       closeUnlessOpened L i r }))))"

section \<open>What opening leaves behind\<close>

text \<open>A computation that changes the library only.\<close>

definition only_world :: "('w process, 'a) state \<Rightarrow> bool" where
  "only_world m \<longleftrightarrow> (\<forall>s. \<exists>w. exec m s = s\<lparr>world := w\<rparr>)"

lemma only_world_ret: "only_world (ret v)"
  unfolding only_world_def
proof
  show "\<exists>w. exec (ret v) s = s\<lparr>world := w\<rparr>" for s :: "'w process" by (rule exI [of _ "world s"]) simp
qed

lemma only_world_session: "only_world (with_session i known m)"
  by (auto simp: only_world_def with_session_def case_prod_unfold Let_def)

lemma only_world_guarded: "only_world k \<Longrightarrow> only_world (guarded e k)"
  using only_world_ret by (auto simp: guarded_def split: option.split)

lemma only_world_bind:
  assumes "only_world m" "\<And>v. only_world (g v)"
  shows "only_world (State_Monad.bind m g)"
  unfolding only_world_def
proof
  fix s
  from assms(1) obtain w where w: "exec m s = s\<lparr>world := w\<rparr>" unfolding only_world_def by blast
  from assms(2) obtain v where "exec (g (fst (run_state m s))) (s\<lparr>world := w\<rparr>) = s\<lparr>world := w, world := v\<rparr>"
    unfolding only_world_def by blast
  with w show "\<exists>w. exec (State_Monad.bind m g) s = s\<lparr>world := w\<rparr>" by (auto intro: exI [of _ v])
qed

lemma only_world_and_then:
  "only_world m \<Longrightarrow> (\<And>v. only_world (f v)) \<Longrightarrow> only_world (and_then m f)"
  unfolding and_then_def by (rule only_world_bind) (auto intro: only_world_ret split: sum.split)

lemma only_world_setup: "only_world (setup_call x n i what call)"
  unfolding setup_call_def by (intro only_world_bind only_world_session only_world_ret)

lemma only_world_setupOpenedClient: "only_world (setupOpenedClient L x i c)"
  unfolding setupOpenedClient_def
  by (intro only_world_guarded only_world_and_then only_world_setup)
    (auto intro: only_world_ret only_world_setup split: option.split)

lemma only_world_loadTrusted: "only_world (loadTrusted L x limit i k certs known)"
proof (induction certs arbitrary: k known)
  case (Cons cert certs)
  show ?case
    unfolding loadTrusted.simps
    by (intro only_world_guarded only_world_bind only_world_session)
      (auto intro: only_world_ret Cons split: sum.split)
qed (simp add: only_world_ret)

lemma only_world_finishOpen: "only_world (finishOpen L x c i)"
  unfolding finishOpen_def
  by (intro only_world_and_then only_world_guarded only_world_ret only_world_setupOpenedClient only_world_loadTrusted)

text \<open>The load of the library: what it needs, and what it adds to the process.\<close>

definition library_options :: "openConfig \<Rightarrow> Option option list" where
  "library_options c = Some (WithLibrary (oc_libraryPath c)) #
     (if oc_maxOutputBufferSize c > 0 then [Some (WithMaxBufferSize (oc_maxOutputBufferSize c))] else [])"

lemma factory_run:
  "run_state (defaultLibraryFactory L c) s =
    (case run_state (New L (library_options c)) s of
       (Inl err, s') \<Rightarrow> (Inl (if errors_is err CkErrUnavailable then Sentinel KalkanErrUnavailable else err), s')
     | (Inr i, s') \<Rightarrow> (Inr i, s'))"
  by (simp add: defaultLibraryFactory_def library_options_def case_prod_unfold split: sum.split)

lemma New_failed:
  assumes "run_state (New L options) s = (Inl err, s')"
  shows "clients s' = clients s \<and> active s' = active s \<and> poisoned s' = poisoned s"
  using assms by (auto simp: New_run Let_def split: if_splits option.splits)

lemma New_opened:
  assumes "run_state (New L options) s = (Inr i, s')"
  shows "i = length (clients s) \<and> \<not> active s \<and> \<not> poisoned s \<and> active s' \<and> \<not> poisoned s' \<and>
    clients s' = clients s @ [\<lparr>ctx = True, cfg = applyOptions options, closed = False, ownsSlot = True\<rparr>]"
  using assms by (auto simp: New_run Let_def split: if_splits option.splits)

lemma Close_opened:
  assumes "clients s = cls @ [\<lparr>ctx = True, cfg = f, closed = False, ownsSlot = True\<rparr>]"
    and "active s" "\<not> poisoned s" "s' = exec (Close L (Some (length cls))) s"
  shows "(\<exists>cl. clients s' = cls @ [cl] \<and> \<not> is_open (Some cl)) \<and> (poisoned s' \<or> \<not> active s')"
  using assms
  by (auto simp: Close_run [of "length cls" s "\<lparr>ctx = True, cfg = f, closed = False, ownsSlot = True\<rparr>"]
      nth_append is_open_def split: option.split)

text \<open>
  C37: A failed \<^verbatim>\<open>Open\<close> leaks nothing. Whatever made it fail (options, context, library load,
  setup, a trusted certificate), every client that is open afterwards was open before, and the
  process slot is as it was, unless the close of the half-opened library itself failed and
  poisoned the process.
\<close>

theorem open_failure_leaks_nothing:
  assumes "run_state (openWithLibraryFactory G isAbs L x options) s = (Inl err, s')"
  shows "(\<forall>j < length (clients s'). is_open (Some (clients s' ! j)) \<longrightarrow>
      j < length (clients s) \<and> clients s' ! j = clients s ! j) \<and>
    (active s' = active s \<or> poisoned s' \<and> \<not> poisoned s)"
proof -
  let ?clean = "clients s' = clients s \<and> active s' = active s \<or>
    (\<exists>cl. clients s' = clients s @ [cl] \<and> \<not> is_open (Some cl)) \<and> (active s' = active s \<or> poisoned s' \<and> \<not> poisoned s)"
  have ?clean
  proof (cases "\<exists>c. x OpenEntry = None \<and> openConfig_validate G isAbs (applyOpenOptions options) = Inr c \<and>
      x BeforeLoad = None")
    case False
    with assms show ?thesis
      by (auto simp: openWithLibraryFactory_def guarded_def checked_def split: option.splits sum.splits)
  next
    case True
    then obtain c where c: "x OpenEntry = None" "x BeforeLoad = None"
      "openConfig_validate G isAbs (applyOpenOptions options) = Inr c" by blast
    obtain r s1 where new: "run_state (New L (library_options c)) s = (r, s1)" by (metis surj_pair)
    show ?thesis
    proof (cases r)
      case (Inl e)
      with new c assms have "s' = s1"
        by (auto simp: openWithLibraryFactory_def guarded_def checked_def and_then_def factory_run)
      with New_failed [OF new [unfolded Inl]] show ?thesis by auto
    next
      case (Inr i)
      note opened = New_opened [OF new [unfolded Inr]]
      obtain w where w: "exec (finishOpen L x c i) s1 = s1\<lparr>world := w\<rparr>"
        using only_world_finishOpen [of L x c i] unfolding only_world_def by blast
      have "s' = exec (Close L (Some i)) (s1\<lparr>world := w\<rparr>)"
        using new c assms w unfolding Inr
        by (auto simp: openWithLibraryFactory_def guarded_def checked_def and_then_def factory_run
            closeUnlessOpened_def split: sum.splits)
      from Close_opened [OF _ _ _ this [unfolded opened [THEN conjunct1]], of "applyOptions (library_options c)"]
        opened show ?thesis by auto
    qed
  qed
  then show ?thesis by (auto simp: nth_append split: if_splits)
qed

text \<open>How a configured certificate is remembered.\<close>

definition remembered_as :: "TrustedCertificate \<Rightarrow> loadedTrustedCertificate \<Rightarrow> bool" where
  "remembered_as cert t \<longleftrightarrow> (if tc_Path cert \<noteq> [] then lt_path t = tc_Path cert
     else lt_path t = [] \<and> str_of (lt_data t) = str_of (tc_Data cert))"

lemma remember_covers:
  "\<exists>t \<in> set (s_trusted (rememberTrustedCertificate cert s)). same_certificate cert t"
  "set (s_trusted s) \<subseteq> set (s_trusted (rememberTrustedCertificate cert s))"
  by (auto simp: rememberTrustedCertificate_def list_ex_iff same_certificate_def)

lemma loadTrustedCertificate_covers:
  assumes "fst (run_state (Client_LoadTrustedCertificate L limit x cert) s) = Inr ()"
  shows "\<exists>t \<in> set (s_trusted (exec (Client_LoadTrustedCertificate L limit x cert) s)). remembered_as cert t"
    "set (s_trusted s) \<subseteq> set (s_trusted (exec (Client_LoadTrustedCertificate L limit x cert) s))"
proof -
  have step: "\<exists>s1. exec (withLockedLibrary x (load_and_remember L loaded)) s = rememberTrustedCertificate loaded s1 \<and>
      s_trusted s1 = s_trusted s"
    if "fst (run_state (withLockedLibrary x (load_and_remember L loaded)) s) = Inr ()" for loaded
    using that by (auto simp: withLockedLibrary_def guarded_def load_and_remember_def split: option.splits
        if_splits sum.splits intro!: exI [of _ "s\<lparr>s_world := exec (load_certificate L (s_library s) loaded) (s_world s)\<rparr>"])
  from assms obtain loaded s1 where s1:
    "exec (Client_LoadTrustedCertificate L limit x cert) s = rememberTrustedCertificate loaded s1"
    "s_trusted s1 = s_trusted s"
    and loaded: "if tc_Path cert \<noteq> [] then lt_path loaded = tc_Path cert
      else lt_path loaded = [] \<and> lt_data loaded = tc_Data cert"
    by (auto simp: Client_LoadTrustedCertificate_def guarded_def checked_def validateNativePathString_def
        dest!: step split: option.splits sum.splits if_splits)
  have "same_certificate loaded t \<Longrightarrow> remembered_as cert t" for t
    using loaded by (auto simp: remembered_as_def same_certificate_def split: if_splits)
  with remember_covers [where cert = loaded and s = s1] s1 show
    "\<exists>t \<in> set (s_trusted (exec (Client_LoadTrustedCertificate L limit x cert) s)). remembered_as cert t"
    "set (s_trusted s) \<subseteq> set (s_trusted (exec (Client_LoadTrustedCertificate L limit x cert) s))"
    by (simp, blast, simp)
qed

lemma loadTrusted_covers:
  assumes "fst (run_state (loadTrusted L x limit i k certs known) s) = Inr out"
  shows "set known \<subseteq> set out \<and> (\<forall>cert \<in> set certs. \<exists>t \<in> set out. remembered_as cert t)"
  using assms
proof (induction certs arbitrary: k known s)
  case (Cons cert certs)
  let ?s = "\<lparr>s_world = world s, s_library = Some (clients s ! i), s_trusted = known, s_proxy = noProxy, s_pemCache = None\<rparr>"
  let ?m = "Client_LoadTrustedCertificate L limit \<lparr>at_entry = x (CertEntry k), at_gate = x (CertGate k)\<rparr> cert"
  from Cons.prems have ok: "fst (run_state ?m ?s) = Inr ()" and rest: "\<exists>s1. fst (run_state
      (loadTrusted L x limit i (Suc k) certs (s_trusted (exec ?m ?s))) s1) = Inr out"
    by (auto simp: guarded_def with_session_def case_prod_unfold Let_def split: option.splits sum.splits)
  from rest obtain s1 where
    "fst (run_state (loadTrusted L x limit i (Suc k) certs (s_trusted (exec ?m ?s))) s1) = Inr out" ..
  from Cons.IH [OF this] loadTrustedCertificate_covers [OF ok] show ?case by auto
qed simp

lemma and_then_Inr:
  "fst (run_state (and_then m f) s) = Inr r \<Longrightarrow>
     \<exists>v. fst (run_state m s) = Inr v \<and> fst (run_state (f v) (exec m s)) = Inr r"
  by (auto simp: and_then_def split: sum.splits)

text \<open>
  A successful \<^verbatim>\<open>Open\<close> gives a checked, configured client. The configuration passed
  validation (absolute library path without NUL, timestamp and OCSP endpoints admitted by the
  policy), the process slot was free and now belongs to the new low-level client, which is open with
  that library, and every configured trusted certificate is loaded and remembered.
\<close>

theorem open_success:
  assumes "run_state (openWithLibraryFactory G isAbs L x options) s = (Inr oc, s')"
  shows "\<exists>c. openConfig_validate G isAbs (applyOpenOptions options) = Inr c \<and>
    isAbs (oc_libraryPath c) \<and> CHR 0x00 \<notin> set (oc_libraryPath c) \<and> op_config oc = openConfig_runtime c \<and>
    \<not> active s \<and> \<not> poisoned s \<and> active s' \<and> op_library oc = length (clients s) \<and>
    (\<exists>cl. clients s' = clients s @ [cl] \<and> is_open (Some cl) \<and> libraryPath (cfg cl) = oc_libraryPath c) \<and>
    (\<forall>cert \<in> set (oc_trusted c). \<exists>t \<in> set (op_trusted oc). remembered_as cert t)"
proof -
  from assms obtain c where c: "x OpenEntry = None" "x BeforeLoad = None"
    "openConfig_validate G isAbs (applyOpenOptions options) = Inr c"
    by (auto simp: openWithLibraryFactory_def guarded_def checked_def split: option.splits sum.splits)
  obtain r s1 where new: "run_state (New L (library_options c)) s = (r, s1)" by (metis surj_pair)
  with c assms obtain i where r: "r = Inr i"
    by (cases r) (auto simp: openWithLibraryFactory_def guarded_def checked_def and_then_def factory_run)
  note opened = New_opened [OF new [unfolded r]]
  obtain w where w: "exec (finishOpen L x c i) s1 = s1\<lparr>world := w\<rparr>"
    using only_world_finishOpen [of L x c i] unfolding only_world_def by blast
  have fin: "fst (run_state (finishOpen L x c i) s1) = Inr oc" and s': "s' = s1\<lparr>world := w\<rparr>"
    using new c assms w unfolding r
    by (auto simp: openWithLibraryFactory_def guarded_def checked_def and_then_def factory_run
        closeUnlessOpened_def split: sum.splits)
  from fin [unfolded finishOpen_def] obtain known s2 where
    known: "fst (run_state (loadTrusted L x (oc_maxInputSize c) i 0 (oc_trusted c) []) s2) = Inr known"
    and oc: "oc = \<lparr>op_library = i, op_config = openConfig_runtime c, op_trusted = known\<rparr>"
    by (auto dest!: and_then_Inr guarded_Inr)
  have path: "isAbs (oc_libraryPath c) \<and> CHR 0x00 \<notin> set (oc_libraryPath c)"
    using c(3) by (auto simp: openConfig_validate_def validateNativePathString_def rejectEmbeddedNUL_def
        split: if_splits option.splits sum.splits)
  have lib: "libraryPath (applyOptions (library_options c)) = oc_libraryPath c"
    by (simp add: applyOptions_def library_options_def WithLibrary_def WithMaxBufferSize_def)
  from c(3) path opened s' oc lib loadTrusted_covers [OF known] show ?thesis
    by (auto simp: is_open_def)
qed

section \<open>Sample runs\<close>

definition sample_open_options :: "openOption option list" where
  "sample_open_options = [Some (WithLibraryPath ''/lib.so''), None, Some (WithTSAURL ''http://tsp.kz''),
     Some (WithOCSPURL '' http://tsp.kz''), Some (WithTrustedCertificate sample_trusted)]"

definition rooted :: "gostring \<Rightarrow> bool" where
  "rooted p \<longleftrightarrow> p \<noteq> [] \<and> hd p = CHR ''/''"

definition sample_open_config :: openConfig where
  "sample_open_config = defaultOpenConfig\<lparr>oc_libraryPath := ''/lib.so'', oc_tsaURL := ''http://tsp.kz'',
     oc_ocspURL := ''http://tsp.kz'', oc_trusted := [sample_trusted]\<rparr>"

lemma sample_urls:
  "normalizeNativeHTTPURLWithPolicy sample_golib ''TSA URL'' ''http://tsp.kz'' ''TSA'' None = Inr ''http://tsp.kz''"
  "normalizeNativeHTTPURLWithPolicy sample_golib ''OCSP URL'' '' http://tsp.kz'' ''OCSP'' None = Inr ''http://tsp.kz''"
  by code_simp+

lemma sample_validated:
  "openConfig_validate sample_golib rooted (applyOpenOptions sample_open_options) = Inr sample_open_config"
  by (simp add: openConfig_validate_def applyOpenOptions_def sample_open_options_def defaultOpenConfig_def
      sample_open_config_def rooted_def validateNativePathString_def rejectEmbeddedNUL_def sample_urls)

definition sample_new_client :: client where
  "sample_new_client = \<lparr>ctx = True, cfg = defaultConfig\<lparr>libraryPath := ''/lib.so''\<rparr>, closed = False,
     ownsSlot = True\<rparr>"

definition sample_loaded_process :: "int list process" where
  "sample_loaded_process = \<lparr>active = True, poisoned = False, clients = [sample_new_client], world = []\<rparr>"

lemma sample_factory:
  "run_state (defaultLibraryFactory sample_loader sample_open_config) sample_idle = (Inr 0, sample_loaded_process)"
  by (simp add: factory_run New_run Let_def library_options_def applyOptions_def WithLibrary_def sample_open_config_def
      defaultOpenConfig_def sample_loader_def sample_idle_def sample_loaded_process_def sample_new_client_def
      defaultConfig_def)

lemma sample_new_context:
  "with_context sample_loader (Some sample_new_client) T name body = body (cfg sample_new_client)"
  by (simp add: with_context_def contextAsLocked_def ensureOpenLocked_def sample_new_client_def
      sample_loader_def sample_context_def)

lemma sample_setup_native:
  "n_Init (native sample_loader) = ret 0" "n_SetTSAURL (native sample_loader) u = ret 0"
  by (simp_all add: sample_loader_def sample_context_def)

lemma sample_load_certificate:
  "run_state (load_certificate sample_loader (Some sample_new_client) sample_certificate) w = (Inr (), w)"
  by (simp add: load_certificate_def X509LoadCertificateFromFile_def sample_certificate_def checked_def
      sample_new_context sample_native sample_status enumToNativeInt_def validateNativeSignedRange_def
      validateNativeUnsignedRange_def maxNativeCInt_def)

lemma sample_finish:
  "run_state (finishOpen sample_loader (\<lambda>_. None) sample_open_config 0) sample_loaded_process =
    (Inr \<lparr>op_library = 0, op_config = openConfig_runtime sample_open_config, op_trusted = [sample_certificate]\<rparr>,
     sample_loaded_process)"
  by (simp add: finishOpen_def and_then_def setupOpenedClient_def guarded_def setup_call_def with_session_def
      withLockedLibrary_def sample_loaded_process_def Init_def SetTSAURL_def sample_new_context sample_setup_native
      sample_status sample_open_config_def defaultOpenConfig_def Client_LoadTrustedCertificate_def checked_def
      sample_trusted_def CertificateType_native_def validateNativePathString_def rejectEmbeddedNUL_def
      load_and_remember_def rememberTrustedCertificate_def sample_load_certificate
      sample_certificate_def [symmetric])

theorem open_success_witness:
  "\<exists>s'. clients s' = [sample_new_client] \<and> active s' \<and>
    run_state (openWithLibraryFactory sample_golib rooted sample_loader (\<lambda>_. None) sample_open_options) sample_idle =
      (Inr \<lparr>op_library = 0, op_config = openConfig_runtime sample_open_config, op_trusted = [sample_certificate]\<rparr>, s')"
proof -
  have run: "run_state (openWithLibraryFactory sample_golib rooted sample_loader (\<lambda>_. None) sample_open_options) sample_idle =
      (Inr \<lparr>op_library = 0, op_config = openConfig_runtime sample_open_config, op_trusted = [sample_certificate]\<rparr>,
       sample_loaded_process)"
    by (simp add: openWithLibraryFactory_def guarded_def checked_def sample_validated and_then_def sample_factory
        sample_finish closeUnlessOpened_def)
  from open_success [OF this] have "active sample_loaded_process" by blast
  with run show ?thesis by (simp add: sample_loaded_process_def)
qed

text \<open>A context that ends right after the library was loaded.\<close>

definition ends_at_setup :: open_context where
  "ends_at_setup p = (if p = SetupCheck 0 then Some (Sentinel CtxCanceled) else None)"

theorem open_failure_leaks_nothing_witness:
  "\<exists>s'. run_state (openWithLibraryFactory sample_golib rooted sample_loader ends_at_setup sample_open_options)
      sample_idle = (Inl (Sentinel CtxCanceled), s') \<and> length (clients s') = 1 \<and> \<not> is_open (Some (clients s' ! 0))"
proof -
  let ?s = "exec (Close sample_loader (Some 0)) sample_loaded_process"
  have c: "fst (run_state (Close sample_loader (Some 0)) sample_loaded_process) = None" "length (clients ?s) = 1"
    by (simp_all add: Close_def sample_loaded_process_def sample_new_client_def Let_def sample_loader_def
        sample_context_def update_client_def release_slot_def)
  have "run_state (openWithLibraryFactory sample_golib rooted sample_loader ends_at_setup sample_open_options)
      sample_idle = (Inl (Sentinel CtxCanceled), ?s)"
    using c(1) by (simp add: openWithLibraryFactory_def guarded_def checked_def sample_validated and_then_def
        sample_factory finishOpen_def setupOpenedClient_def closeUnlessOpened_def ends_at_setup_def)
  with open_failure_leaks_nothing [OF this] c(2) show ?thesis by (auto simp: sample_idle_def)
qed

end
