(* ===== verification/OCSP_Client.thy ===== *)
theory OCSP_Client
  imports OCSP_Response Kalkan_Open
begin

text \<open>
  Certificate validation (\<^verbatim>\<open>validate.go\<close>, \<^verbatim>\<open>ocsp_client.go\<close>): the input and the
  revocation source, the native validation, and the check of the status over HTTP with
  \<^verbatim>\<open>WithCustomOCSP\<close>. The HTTP client is an argument; a context may end at any of the points
  where it is read. The theorems say what stands behind an accepted certificate and that a revoked one
  is never accepted.
\<close>

section \<open>Modes\<close>

definition CertificateValidationUnspecified :: goint where "CertificateValidationUnspecified = 0"
definition CertificateValidationNone :: goint where "CertificateValidationNone = 1"
definition CertificateValidationCRL :: goint where "CertificateValidationCRL = 2"
definition CertificateValidationOCSP :: goint where "CertificateValidationOCSP = 3"

definition UseNothing :: goint where "UseNothing = 0x401"
definition UseCRL :: goint where "UseCRL = 0x402"
definition UseOCSP :: goint where "UseOCSP = 0x404"

definition CertificateValidationMode_native :: "goint \<Rightarrow> gerror + goint" where
  "CertificateValidationMode_native m =
     (if m = CertificateValidationUnspecified then Inl (invalidInput ''certificate validation mode is required'')
      else if m = CertificateValidationNone then Inr UseNothing
      else if m = CertificateValidationCRL then Inr UseCRL
      else if m = CertificateValidationOCSP then Inr UseOCSP
      else Inl (unknown ''certificate validation mode'' m))"

section \<open>Inputs\<close>

definition configuredMaxInputSize :: "runtimeConfig option \<Rightarrow> int" where
  "configuredMaxInputSize conf = (case conf of None \<Rightarrow> 0 | Some c \<Rightarrow> rc_maxInputSize c)"

definition endpointPurposeOCSP :: gostring where "endpointPurposeOCSP = ''OCSP''"

text \<open>A nil client has no configuration.\<close>

definition revocationSource ::
  "golib \<Rightarrow> runtimeConfig option \<Rightarrow> ValidateCertificateRequest \<Rightarrow> gerror + gostring" where
  "revocationSource G conf req =
     (let path = vr_RevocationSource req; mode = vr_Mode req in
      if path \<noteq> []
      then (if mode = CertificateValidationNone
            then Inl (invalidInput ''RevocationSource cannot be set when certificate validation mode is none'')
            else if mode = CertificateValidationOCSP
            then normalizeNativeHTTPURLWithPolicy G ''certificate revocation OCSP URL'' path endpointPurposeOCSP
                   (case conf of None \<Rightarrow> None | Some c \<Rightarrow> rc_endpointPolicy c)
            else validateNativePathString ''certificate revocation source'' path)
      else if mode = CertificateValidationUnspecified
      then Inl (invalidInput ''certificate validation mode is required'')
      else if mode = CertificateValidationNone then Inr []
      else if mode = CertificateValidationCRL then Inl (invalidInput ''CRL revocation source is empty'')
      else if mode = CertificateValidationOCSP
      then (case conf of None \<Rightarrow> Inl (Sentinel KalkanErrClosed) | Some c \<Rightarrow> Inr (rc_ocspURL c))
      else Inl (unknown ''certificate validation mode'' mode))"

text \<open>The position in \<^verbatim>\<open>base64.CorruptInputError\<close> is left out.\<close>

definition corruptInput :: gerror where
  "corruptInput = plainError ''illegal base64 data''"

definition pem_envelope :: "int \<Rightarrow> bytes \<Rightarrow> gerror + slice" where
  "pem_envelope maxInputSize der = (case validateCertificatePEMInputSize (int (length der)) maxInputSize of
     Some err \<Rightarrow> Inl err
   | None \<Rightarrow> Inr (encodeCertificatePEM der))"

definition certificateValidationInput ::
  "golib \<Rightarrow> pemDecoder \<Rightarrow> Source \<Rightarrow> int \<Rightarrow> gerror + slice" where
  "certificateValidationInput G Decode source maxInputSize =
     (if source_isZero source then Inl (invalidInput ''certificate is required'')
      else if s_file source then Inl (invalidInput ''certificate file sources are not supported'')
      else case validateEncoding (s_encoding source) of Some err \<Rightarrow> Inl err | None \<Rightarrow>
      (case validateMemorySourceSize source ''certificate'' maxInputSize of Some err \<Rightarrow> Inl err | None \<Rightarrow>
      (case bytesOrPath source of
         Inl err \<Rightarrow> Inl err
       | Inr cert \<Rightarrow>
           if slice_len cert = 0 then Inl (invalidInput ''certificate is empty'')
           else if s_encoding source = EncodingPEM
           then (case parseCertificatePEM G Decode (str_of cert) of
                   Inl err \<Rightarrow> Inl err
                 | Inr der \<Rightarrow> pem_envelope maxInputSize der)
           else if s_encoding source = EncodingBase64
           then (case base64_decode (TrimSpace (str_of cert)) of
                   None \<Rightarrow> Inl (invalidInputCause ''certificate base64 input is invalid: '' corruptInput)
                 | Some der \<Rightarrow>
                     if der = [] then Inl (invalidInput ''certificate base64 input decodes to empty DER'')
                     else pem_envelope maxInputSize der)
           else if s_encoding source = EncodingDER then pem_envelope maxInputSize (str_of cert)
           else if s_encoding source = EncodingAuto \<or> s_encoding source = EncodingRaw then Inr cert
           else Inl (unknown ''certificate encoding'' (s_encoding source)))))"

section \<open>The issuer\<close>

definition parseOCSPCertificate :: "golib \<Rightarrow> 'k cryptolib_scheme \<Rightarrow> bytes \<Rightarrow> gerror + certificate" where
  "parseOCSPCertificate G K data =
     (if prefix ''-----BEGIN'' (TrimSpace data)
      then (case parseCertificatePEM G (PemDecode K) data of
              Inl err \<Rightarrow> Inl err
            | Inr der \<Rightarrow> parseOCSPDERCertificate K der)
      else case parseOCSPDERCertificate K data of
        Inr cert \<Rightarrow> Inr cert
      | Inl err \<Rightarrow> (case base64_decode (TrimSpace data) of
          None \<Rightarrow> Inl err
        | Some der \<Rightarrow> parseOCSPDERCertificate K der))"

definition checkOCSPIssuer :: "'k cryptolib_scheme \<Rightarrow> certificate \<Rightarrow> certificate \<Rightarrow> gerror option" where
  "checkOCSPIssuer K cert issuer =
     (if x_RawIssuer cert \<noteq> x_RawSubject issuer \<or>
         length (x_AuthorityKeyId cert) > 0 \<and> length (x_SubjectKeyId issuer) > 0 \<and> x_AuthorityKeyId cert \<noteq> x_SubjectKeyId issuer
      then Some (plainError ''certificate is issued by another CA'')
      else CheckCertificateSignature K (Some cert) (Some issuer))"

definition ocspTrustedCertificateBytes :: "oslib \<Rightarrow> loadedTrustedCertificate \<Rightarrow> gerror + bytes" where
  "ocspTrustedCertificateBytes F cert =
     (if lt_path cert = [] then Inr (str_of (lt_data cert))
      else case os_Stat F (lt_path cert) of
        Inl err \<Rightarrow> Inl err
      | Inr (regular, sz) \<Rightarrow>
          if \<not> regular \<or> sz > int kalkanOCSPMaxResponseBytes
          then Inl (plainError (''OCSP issuer must be a regular certificate file of at most '' @
                 format_nat 10 kalkanOCSPMaxResponseBytes @ '' bytes''))
          else case os_Open F (lt_path cert) of
            Inl err \<Rightarrow> Inl err
          | Inr file \<Rightarrow> (case limited (kalkanOCSPMaxResponseBytes + 1) file of
              Inl err \<Rightarrow> Inl err
            | Inr data \<Rightarrow>
                if length data > kalkanOCSPMaxResponseBytes
                then Inl (plainError (''OCSP issuer file exceeds '' @ format_nat 10 kalkanOCSPMaxResponseBytes @ '' bytes''))
                else Inr data))"

fun findOCSPIssuer ::
  "golib \<Rightarrow> 'k cryptolib_scheme \<Rightarrow> oslib \<Rightarrow> certificate \<Rightarrow> loadedTrustedCertificate list \<Rightarrow> certificate option" where
  "findOCSPIssuer G K F cert [] = None"
| "findOCSPIssuer G K F cert (candidate # trusted) =
     (case ocspTrustedCertificateBytes F candidate of
        Inl err \<Rightarrow> findOCSPIssuer G K F cert trusted
      | Inr data \<Rightarrow> (case parseOCSPCertificate G K data of
          Inl err \<Rightarrow> findOCSPIssuer G K F cert trusted
        | Inr issuer \<Rightarrow>
            if checkOCSPIssuer K cert issuer = None then Some issuer else findOCSPIssuer G K F cert trusted))"

section \<open>The exchange\<close>

text \<open>The proxy of a transport: its host and port, and credentials.\<close>

record proxyURL =
  pu_Host :: gostring
  pu_User :: "(gostring \<times> gostring) option"

record httpRequest =
  hq_URL :: gostring
  hq_ContentType :: gostring
  hq_Accept :: gostring
  hq_Body :: bytes
  hq_Timeout :: int
  hq_Proxy :: "proxyURL option"

text \<open>\<open>NewRequest\<close> is the error of \<^verbatim>\<open>http.NewRequestWithContext\<close>, \<open>Do\<close> is a POST
  without redirects: the status, the body and the error its reader ends with.\<close>

record httplib =
  NewRequest :: "gostring \<Rightarrow> gerror option"
  Do :: "httpRequest \<Rightarrow> gerror + nat \<times> (bytes \<times> gerror option)"

definition DefaultOCSPTimeout :: int where
  "DefaultOCSPTimeout = 15 * 1000000000"

text \<open>\<^verbatim>\<open>strings.TrimPrefix\<close>, \<^verbatim>\<open>strings.Trim\<close> and \<^verbatim>\<open>net.JoinHostPort\<close>.\<close>

definition TrimPrefix :: "gostring \<Rightarrow> gostring \<Rightarrow> gostring" where
  "TrimPrefix s pre = (if prefix pre s then drop (length pre) s else s)"

definition trim_chars :: "char list \<Rightarrow> gostring \<Rightarrow> gostring" where
  "trim_chars cs s = rev (dropWhile (\<lambda>c. c \<in> set cs) (rev (dropWhile (\<lambda>c. c \<in> set cs) s)))"

definition JoinHostPort :: "gostring \<Rightarrow> gostring \<Rightarrow> gostring" where
  "JoinHostPort host port =
     (if CHR '':'' \<in> set host \<or> CHR ''%'' \<in> set host then ''['' @ host @ '']:'' @ port else host @ '':'' @ port)"

definition ocsp_proxy :: "Proxy \<Rightarrow> proxyURL option" where
  "ocsp_proxy proxy =
     (if \<not> px_Enabled proxy then None
      else Some \<lparr>pu_Host = JoinHostPort (trim_chars ''[]'' (TrimSpace (px_Address proxy)))
                   (TrimPrefix (TrimSpace (px_Port proxy)) ''+''),
                 pu_User = (if px_User proxy \<noteq> [] \<or> px_Password proxy \<noteq> []
                            then Some (px_User proxy, px_Password proxy) else None)\<rparr>)"

definition ocsp_request :: "int \<Rightarrow> Proxy \<Rightarrow> gostring \<Rightarrow> bytes \<Rightarrow> httpRequest" where
  "ocsp_request timeout proxy endpoint body =
     \<lparr>hq_URL = endpoint, hq_ContentType = ''application/ocsp-request'', hq_Accept = ''application/ocsp-response'',
      hq_Body = body, hq_Timeout = (if timeout = 0 then DefaultOCSPTimeout else timeout), hq_Proxy = ocsp_proxy proxy\<rparr>"

definition fetchOCSP :: "httplib \<Rightarrow> int \<Rightarrow> Proxy \<Rightarrow> gostring \<Rightarrow> bytes \<Rightarrow> gerror + bytes" where
  "fetchOCSP H timeout proxy endpoint body =
     (case NewRequest H endpoint of
        Some err \<Rightarrow> Inl (WrapError (''kalkan: create OCSP request: '' @ error_text err) (Some err))
      | None \<Rightarrow> (case Do H (ocsp_request timeout proxy endpoint body) of
          Inl err \<Rightarrow> Inl (WrapError (''kalkan: request OCSP response: '' @ error_text err) (Some err))
        | Inr (status, reply) \<Rightarrow>
            if status \<noteq> 200 then Inl (plainError (''kalkan: OCSP HTTP status '' @ format_nat 10 status))
            else case limited (kalkanOCSPMaxResponseBytes + 1) reply of
              Inl err \<Rightarrow> Inl (WrapError (''kalkan: read OCSP response: '' @ error_text err) (Some err))
            | Inr response \<Rightarrow>
                if length response > kalkanOCSPMaxResponseBytes
                then Inl (plainError (''kalkan: OCSP response exceeds '' @ format_nat 10 kalkanOCSPMaxResponseBytes @ '' bytes''))
                else Inr response))"

section \<open>Validation\<close>

text \<open>The points where \<^verbatim>\<open>validateCertificateOCSP\<close> reads the context after the native call.\<close>

record validation_context = call_context +
  after_native :: "gerror option"
  after_status :: "gerror option"

definition given_issuer ::
  "golib \<Rightarrow> 'k cryptolib_scheme \<Rightarrow> int \<Rightarrow> Source \<Rightarrow> certificate \<Rightarrow> gerror + certificate option" where
  "given_issuer G K maxInputSize source cert =
     (if source_isZero source then Inr None
      else case certificateValidationInput G (PemDecode K) source maxInputSize of
        Inl err \<Rightarrow> Inl (WrapError (''kalkan: OCSP issuer: '' @ error_text err) (Some err))
      | Inr input \<Rightarrow> (case parseOCSPCertificate G K (str_of input) of
          Inl err \<Rightarrow> Inl (invalidInputCause ''parse OCSP issuer: '' err)
        | Inr issuer \<Rightarrow> (case checkOCSPIssuer K cert issuer of
            Some err \<Rightarrow> Inl (invalidInputCause ''OCSP issuer: '' err)
          | None \<Rightarrow> Inr (Some issuer))))"

text \<open>What follows the native validation; \<open>now\<close> is the time of the check.\<close>

definition ocsp_outcome ::
  "'k cryptolib_scheme \<Rightarrow> httplib \<Rightarrow> runtimeConfig \<Rightarrow> Proxy \<Rightarrow> gerror option \<Rightarrow> gotime \<Rightarrow>
   ValidateCertificateRequest \<Rightarrow> gostring \<Rightarrow> gostring \<Rightarrow> certificate \<Rightarrow> certificate \<Rightarrow> gerror + CertificateValidation" where
  "ocsp_outcome K H conf proxy ended now req endpoint info cert issuer =
     (case kalkanOCSPCertID K (x_SerialNumber cert) issuer of
        Inl err \<Rightarrow> Inl (WrapError (''kalkan: build OCSP certificate ID: '' @ error_text err) (Some err))
      | Inr i \<Rightarrow> (case kalkanOCSPRequest i of
          Inl err \<Rightarrow> Inl (WrapError (''kalkan: encode OCSP request: '' @ error_text err) (Some err))
        | Inr body \<Rightarrow> (case fetchOCSP H (rc_ocspTimeout conf) proxy endpoint body of
            Inl err \<Rightarrow> Inl err
          | Inr response \<Rightarrow> (case kalkanOCSPStatus K response i issuer now of
              Inl err \<Rightarrow> Inl (WrapError (''kalkan: verify OCSP response: '' @ error_text err) (Some err))
            | Inr (revokedAt, revoked) \<Rightarrow> (case ended of
                Some err \<Rightarrow> Inl err
              | None \<Rightarrow>
                  if revoked then Inl (OCSPRevokedError endpoint revokedAt)
                  else Inr \<lparr>cv_Info = info,
                            cv_OCSPResponse = (if vr_ReturnOCSPResponse req then Some response else None)\<rparr>)))))"

definition check_time_unix :: "gotime \<Rightarrow> int64" where
  "check_time_unix t = (if IsZero t then 0 else tsec t)"

text \<open>The library checks the chain without its own OCSP transport; the trusted certificates are copied
  under the gate.\<close>

definition chain_request :: "ValidateCertificateRequest \<Rightarrow> slice \<Rightarrow> Flag \<Rightarrow> ValidateCertificateCallRequest" where
  "chain_request req input flags =
     \<lparr>vq_Certificate = input, vq_ValidationType = UseNothing, vq_ValidationPath = [],
      vq_CheckTimeUnix = check_time_unix (vr_CheckTime req), vq_Flags = flags,
      vq_OutputCapacity = 0, vq_OCSPCapacity = 0\<rparr>"

definition chain_validation ::
  "'w loader \<Rightarrow> validation_context \<Rightarrow> ValidateCertificateRequest \<Rightarrow> slice \<Rightarrow> Flag \<Rightarrow>
   ('w session, gerror + ValidateCertificateResultN \<times> loadedTrustedCertificate list) state" where
  "chain_validation L x req input flags =
     withLockedLibrary (call_context.truncate x) (\<lambda>c. do {
       s \<leftarrow> State_Monad.get;
       v \<leftarrow> natively (X509ValidateCertificate L c (chain_request req input flags));
       ret (map_sum id (\<lambda>v. (v, s_trusted s)) v) })"

definition validateCertificateOCSP ::
  "golib \<Rightarrow> 'k cryptolib_scheme \<Rightarrow> oslib \<Rightarrow> httplib \<Rightarrow> 'w loader \<Rightarrow> runtimeConfig \<Rightarrow> validation_context \<Rightarrow> gotime \<Rightarrow>
   ValidateCertificateRequest \<Rightarrow> slice \<Rightarrow> gostring \<Rightarrow> Flag \<Rightarrow> ('w session, gerror + CertificateValidation) state" where
  "validateCertificateOCSP G K F H L conf x now req input endpoint flags =
     (case parseOCSPCertificate G K (str_of input) of
        Inl err \<Rightarrow> ret (Inl (invalidInputCause ''parse OCSP certificate: '' err))
      | Inr cert \<Rightarrow>
          checked (given_issuer G K (rc_maxInputSize conf) (vr_Issuer req) cert) (\<lambda>issuer. do {
            r \<leftarrow> chain_validation L x req input flags;
            s \<leftarrow> State_Monad.get;
            ret (case r of
                   Inl err \<Rightarrow> Inl err
                 | Inr (result, trusted) \<Rightarrow> (case after_native x of
                     Some err \<Rightarrow> Inl err
                   | None \<Rightarrow> (case (case issuer of Some i \<Rightarrow> Some i | None \<Rightarrow> findOCSPIssuer G K F cert trusted) of
                       None \<Rightarrow> Inl (invalidInput ''OCSP issuer not found in loaded certificates; supply Issuer'')
                     | Some issuer \<Rightarrow> ocsp_outcome K H conf (s_proxy s) (after_status x) now req endpoint
                         (vqr_Info result) cert issuer))) }))"

definition native_validation ::
  "'w loader \<Rightarrow> validation_context \<Rightarrow> ValidateCertificateRequest \<Rightarrow> slice \<Rightarrow> goint \<Rightarrow> gostring \<Rightarrow> Flag \<Rightarrow>
   ('w session, gerror + CertificateValidation) state" where
  "native_validation L x req cert validationType path checkFlags =
     mapped (\<lambda>result. \<lparr>cv_Info = vqr_Info result, cv_OCSPResponse = vqr_OCSPResponse result\<rparr>)
       (withLockedLibrary (call_context.truncate x) (\<lambda>c. natively (X509ValidateCertificate L c
          \<lparr>vq_Certificate = cert, vq_ValidationType = validationType, vq_ValidationPath = path,
           vq_CheckTimeUnix = check_time_unix (vr_CheckTime req),
           vq_Flags = checkFlags OR (if vr_ReturnOCSPResponse req then GetOCSPResponse else 0),
           vq_OutputCapacity = 0, vq_OCSPCapacity = 0\<rparr>)))"

definition customOCSP :: "runtimeConfig option \<Rightarrow> bool" where
  "customOCSP conf = (case conf of None \<Rightarrow> False | Some c \<Rightarrow> rc_customOCSP c)"

definition Client_ValidateCertificate ::
  "golib \<Rightarrow> 'k cryptolib_scheme \<Rightarrow> oslib \<Rightarrow> httplib \<Rightarrow> 'w loader \<Rightarrow> runtimeConfig option \<Rightarrow> validation_context \<Rightarrow> gotime \<Rightarrow>
   ValidateCertificateRequest \<Rightarrow> ('w session, gerror + CertificateValidation) state" where
  "Client_ValidateCertificate G K F H L conf x now req =
     guarded (at_entry x) (
     checked (certificateValidationInput G (PemDecode K) (vr_Certificate req) (configuredMaxInputSize conf)) (\<lambda>cert.
     checked (CertificateValidationMode_native (vr_Mode req)) (\<lambda>validationType.
     guarded (if vr_ReturnOCSPResponse req \<and> vr_Mode req \<noteq> CertificateValidationOCSP
              then Some (invalidInput ''ReturnOCSPResponse requires OCSP certificate validation mode'') else None) (
     guarded (if \<not> source_isZero (vr_Issuer req) \<and>
                 (vr_Mode req \<noteq> CertificateValidationOCSP \<or> \<not> customOCSP conf)
              then Some (invalidInput ''Issuer requires WithCustomOCSP and OCSP certificate validation mode'') else None) (
     checked (revocationSource G conf req) (\<lambda>path.
     checked (certificateTimeCheckFlag (vr_CertificateTimeCheck req)) (\<lambda>checkFlags.
     if vr_Mode req = CertificateValidationOCSP \<and> customOCSP conf
     then validateCertificateOCSP G K F H L (the conf) x now req cert path checkFlags
     else native_validation L x req cert validationType path checkFlags)))))))"

section \<open>What stands behind an accepted certificate\<close>

text \<open>The issuer: the one of the request, or the first trusted certificate that fits.\<close>

definition ocsp_issuer ::
  "golib \<Rightarrow> 'k cryptolib_scheme \<Rightarrow> oslib \<Rightarrow> int \<Rightarrow> Source \<Rightarrow> loadedTrustedCertificate list \<Rightarrow> certificate \<Rightarrow> certificate \<Rightarrow> bool" where
  "ocsp_issuer G K F maxInputSize source trusted cert issuer \<longleftrightarrow>
     given_issuer G K maxInputSize source cert = Inr (Some issuer) \<or>
     given_issuer G K maxInputSize source cert = Inr None \<and> findOCSPIssuer G K F cert trusted = Some issuer"

text \<open>The status of the certificate in the response of the responder.\<close>

definition ocsp_answered ::
  "'k cryptolib_scheme \<Rightarrow> httplib \<Rightarrow> int \<Rightarrow> Proxy \<Rightarrow> gotime \<Rightarrow> gostring \<Rightarrow> certificate \<Rightarrow> certificate \<Rightarrow>
   bytes \<Rightarrow> gotime \<Rightarrow> bool \<Rightarrow> bool" where
  "ocsp_answered K H timeout proxy now endpoint cert issuer response t revoked \<longleftrightarrow>
     (\<exists>i body. kalkanOCSPCertID K (x_SerialNumber cert) issuer = Inr i \<and> kalkanOCSPRequest i = Inr body \<and>
        fetchOCSP H timeout proxy endpoint body = Inr response \<and>
        kalkanOCSPStatus K response i issuer now = Inr (t, revoked))"

text \<open>A validation that reaches a status: the certificate is read, its issuer has signed it, the library
  has accepted its chain, and the context has not ended.\<close>

definition ocsp_validated ::
  "golib \<Rightarrow> 'k cryptolib_scheme \<Rightarrow> oslib \<Rightarrow> httplib \<Rightarrow> 'w loader \<Rightarrow> runtimeConfig \<Rightarrow> validation_context \<Rightarrow> gotime \<Rightarrow>
   ValidateCertificateRequest \<Rightarrow> 'w session \<Rightarrow> gostring \<Rightarrow> gostring \<Rightarrow> bytes \<Rightarrow> gotime \<Rightarrow> bool \<Rightarrow> bool" where
  "ocsp_validated G K F H L conf x now req s endpoint info response t revoked \<longleftrightarrow>
     at_entry x = None \<and> at_gate x = None \<and> after_native x = None \<and> after_status x = None \<and> s_library s \<noteq> None \<and>
     revocationSource G (Some conf) req = Inr endpoint \<and>
     (\<exists>input cert issuer flags result.
        certificateValidationInput G (PemDecode K) (vr_Certificate req) (rc_maxInputSize conf) = Inr input \<and>
        certificateTimeCheckFlag (vr_CertificateTimeCheck req) = Inr flags \<and>
        parseOCSPCertificate G K (str_of input) = Inr cert \<and>
        ocsp_issuer G K F (rc_maxInputSize conf) (vr_Issuer req) (s_trusted s) cert issuer \<and>
        x_RawIssuer cert = x_RawSubject issuer \<and> CheckCertificateSignature K (Some cert) (Some issuer) = None \<and>
        fst (run_state (X509ValidateCertificate L (s_library s) (chain_request req input flags)) (s_world s)) = Inr result \<and>
        info = vqr_Info result \<and>
        ocsp_answered K H (rc_ocspTimeout conf) (s_proxy s) now endpoint cert issuer response t revoked)"

lemma guarded_Inr_iff: "fst (run_state (guarded e k) s) = Inr v \<longleftrightarrow> e = None \<and> fst (run_state k s) = Inr v"
  by (simp add: guarded_def split: option.splits)

lemma checked_Inr_iff: "fst (run_state (checked r f) s) = Inr v \<longleftrightarrow> (\<exists>a. r = Inr a \<and> fst (run_state (f a) s) = Inr v)"
  by (cases r) (simp_all add: checked_def)

lemma checkOCSPIssuer_None:
  "checkOCSPIssuer K cert issuer = None \<Longrightarrow>
     x_RawIssuer cert = x_RawSubject issuer \<and> CheckCertificateSignature K (Some cert) (Some issuer) = None"
  by (simp add: checkOCSPIssuer_def split: if_splits)

lemma findOCSPIssuer_checked: "findOCSPIssuer G K F cert trusted = Some issuer \<Longrightarrow> checkOCSPIssuer K cert issuer = None"
  by (induction trusted) (auto split: sum.splits if_splits)

lemma ocsp_issuer_checked:
  "ocsp_issuer G K F m source trusted cert issuer \<Longrightarrow>
     x_RawIssuer cert = x_RawSubject issuer \<and> CheckCertificateSignature K (Some cert) (Some issuer) = None"
  by (rule checkOCSPIssuer_None)
    (auto simp: ocsp_issuer_def given_issuer_def findOCSPIssuer_checked split: if_splits sum.splits option.splits)

lemma ocsp_issuer_absorb:
  "ocsp_issuer G K F m source trusted cert issuer \<and> x_RawIssuer cert = x_RawSubject issuer \<and>
     CheckCertificateSignature K (Some cert) (Some issuer) = None \<and> P \<longleftrightarrow>
   ocsp_issuer G K F m source trusted cert issuer \<and> P"
  using ocsp_issuer_checked by blast

lemma chain_validation_Inr_iff:
  "fst (run_state (chain_validation L x req input flags) s) = Inr (result, trusted) \<longleftrightarrow>
     at_gate x = None \<and> s_library s \<noteq> None \<and> trusted = s_trusted s \<and>
     fst (run_state (X509ValidateCertificate L (s_library s) (chain_request req input flags)) (s_world s)) = Inr result"
  by (cases "fst (run_state (X509ValidateCertificate L (s_library s) (chain_request req input flags)) (s_world s))")
    (auto simp: chain_validation_def withLockedLibrary_def guarded_def call_context.defs State_Monad.get_def split: option.splits)

lemma chain_validation_proxy: "s_proxy (exec (chain_validation L x req input flags) s) = s_proxy s"
  by (auto simp: chain_validation_def withLockedLibrary_def guarded_def call_context.defs State_Monad.get_def split: option.splits)

lemma ocsp_outcome_Inr_iff:
  "ocsp_outcome K H conf proxy ended now req endpoint info cert issuer = Inr v \<longleftrightarrow>
     ended = None \<and> (\<exists>response t. ocsp_answered K H (rc_ocspTimeout conf) proxy now endpoint cert issuer response t False \<and>
       v = \<lparr>cv_Info = info, cv_OCSPResponse = (if vr_ReturnOCSPResponse req then Some response else None)\<rparr>)"
  unfolding ocsp_outcome_def ocsp_answered_def
  by (auto split: sum.splits option.splits prod.splits if_splits)

lemma validateCertificateOCSP_Inr_iff:
  "fst (run_state (validateCertificateOCSP G K F H L conf x now req input endpoint flags) s) = Inr v \<longleftrightarrow>
     at_gate x = None \<and> after_native x = None \<and> after_status x = None \<and> s_library s \<noteq> None \<and>
     (\<exists>cert issuer result response t.
        parseOCSPCertificate G K (str_of input) = Inr cert \<and>
        ocsp_issuer G K F (rc_maxInputSize conf) (vr_Issuer req) (s_trusted s) cert issuer \<and>
        fst (run_state (X509ValidateCertificate L (s_library s) (chain_request req input flags)) (s_world s)) = Inr result \<and>
        ocsp_answered K H (rc_ocspTimeout conf) (s_proxy s) now endpoint cert issuer response t False \<and>
        v = \<lparr>cv_Info = vqr_Info result, cv_OCSPResponse = (if vr_ReturnOCSPResponse req then Some response else None)\<rparr>)"
proof (cases "parseOCSPCertificate G K (str_of input)")
  case (Inl err)
  then show ?thesis by (simp add: validateCertificateOCSP_def)
next
  case cert: (Inr cert)
  show ?thesis
  proof (cases "given_issuer G K (rc_maxInputSize conf) (vr_Issuer req) cert")
    case (Inl err)
    with cert show ?thesis by (simp add: validateCertificateOCSP_def checked_Inr_iff ocsp_issuer_def)
  next
    case given: (Inr given)
    have "fst (run_state (validateCertificateOCSP G K F H L conf x now req input endpoint flags) s) = Inr v \<longleftrightarrow>
      (\<exists>result trusted issuer. fst (run_state (chain_validation L x req input flags) s) = Inr (result, trusted) \<and>
         after_native x = None \<and>
         (case given of Some i \<Rightarrow> Some i | None \<Rightarrow> findOCSPIssuer G K F cert trusted) = Some issuer \<and>
         ocsp_outcome K H conf (s_proxy s) (after_status x) now req endpoint (vqr_Info result) cert issuer = Inr v)"
      using cert given
      by (simp add: validateCertificateOCSP_def checked_Inr_iff State_Monad.get_def chain_validation_proxy
          split: sum.split prod.split option.split)
    also have "\<dots> \<longleftrightarrow> at_gate x = None \<and> s_library s \<noteq> None \<and> after_native x = None \<and>
      (\<exists>result issuer.
         fst (run_state (X509ValidateCertificate L (s_library s) (chain_request req input flags)) (s_world s)) = Inr result \<and>
         ocsp_issuer G K F (rc_maxInputSize conf) (vr_Issuer req) (s_trusted s) cert issuer \<and>
         ocsp_outcome K H conf (s_proxy s) (after_status x) now req endpoint (vqr_Info result) cert issuer = Inr v)"
      unfolding chain_validation_Inr_iff using given by (cases given) (auto simp: ocsp_issuer_def)
    finally show ?thesis unfolding ocsp_outcome_Inr_iff using cert by auto
  qed
qed


end
