(* ===== verification/XML_Structure.thy ===== *)
theory XML_Structure
  imports Input_Policy
begin

text \<open>
  The structural checks of signed XML before native verification (\<^verbatim>\<open>xml.go\<close>): the scan
  over the tokens of the document that ties a SOAP signature to the Body the caller expects,
  and the wrapping of a payload into an envelope. The tokenizer of \<^verbatim>\<open>encoding/xml\<close> is an
  argument; its names carry resolved namespaces. \<open>XML_Binding\<close> states what an accepted
  document satisfies.
\<close>

section \<open>Tokens\<close>

record xname =
  nm_Space :: gostring
  nm_Local :: gostring

record xattr =
  at_Name :: xname
  at_Value :: gostring

record startElement =
  se_Name :: xname
  se_Attr :: "xattr list"

datatype token =
    StartElement startElement
  | EndElement xname
  | CharData bytes
  | Comment bytes
  | ProcInst gostring bytes
  | Directive bytes

text \<open>
  A decoder delivers tokens and then an error, \<^verbatim>\<open>io.EOF\<close> at the end of well-formed
  input. \<open>compat_tokens\<close> is the decoder whose \<^verbatim>\<open>CharsetReader\<close> passes every declared
  encoding through.
\<close>

type_synonym decoder = "token list \<times> gerror"

record xmllib =
  strict_tokens :: "bytes \<Rightarrow> decoder"
  compat_tokens :: "bytes \<Rightarrow> decoder"

section \<open>Names\<close>

definition xmlnsSOAP :: gostring where "xmlnsSOAP = ''http://schemas.xmlsoap.org/soap/envelope/''"
definition xmlnsSOAP12 :: gostring where "xmlnsSOAP12 = ''http://www.w3.org/2003/05/soap-envelope''"
definition xmlnsWSU :: gostring where
  "xmlnsWSU = ''http://docs.oasis-open.org/wss/2004/01/oasis-200401-wss-wssecurity-utility-1.0.xsd''"
definition xmlnsDSig :: gostring where "xmlnsDSig = ''http://www.w3.org/2000/09/xmldsig#''"
definition xmlAlgorithmExclusiveCanonicalization :: gostring where
  "xmlAlgorithmExclusiveCanonicalization = ''http://www.w3.org/2001/10/xml-exc-c14n#''"

definition isSOAPEnvelope :: "xname \<Rightarrow> bool" where
  "isSOAPEnvelope name \<longleftrightarrow> nm_Local name = ''Envelope'' \<and> (nm_Space name = xmlnsSOAP \<or> nm_Space name = xmlnsSOAP12)"

definition isSOAPBody :: "xname \<Rightarrow> bool" where
  "isSOAPBody name \<longleftrightarrow> nm_Local name = ''Body'' \<and> (nm_Space name = xmlnsSOAP \<or> nm_Space name = xmlnsSOAP12)"

definition isDSigReference :: "xname \<Rightarrow> bool" where
  "isDSigReference name \<longleftrightarrow> nm_Local name = ''Reference'' \<and> nm_Space name = xmlnsDSig"

definition isDSigSignature :: "xname \<Rightarrow> bool" where
  "isDSigSignature name \<longleftrightarrow> nm_Local name = ''Signature'' \<and> nm_Space name = xmlnsDSig"

definition isDSigSignedInfo :: "xname \<Rightarrow> bool" where
  "isDSigSignedInfo name \<longleftrightarrow> nm_Local name = ''SignedInfo'' \<and> nm_Space name = xmlnsDSig"

definition isDSigTransforms :: "xname \<Rightarrow> bool" where
  "isDSigTransforms name \<longleftrightarrow> nm_Local name = ''Transforms'' \<and> nm_Space name = xmlnsDSig"

definition isExclusiveCanonicalizationParameter :: "xname \<Rightarrow> bool" where
  "isExclusiveCanonicalizationParameter name \<longleftrightarrow>
     nm_Space name = xmlAlgorithmExclusiveCanonicalization \<and> nm_Local name = ''InclusiveNamespaces''"

definition isXMLNamespaceDeclaration :: "xname \<Rightarrow> bool" where
  "isXMLNamespaceDeclaration name \<longleftrightarrow>
     nm_Space name = ''xmlns'' \<or> nm_Space name = [] \<and> nm_Local name = ''xmlns''"

text \<open>The value of the first attribute without namespace and with the given local name.\<close>

definition plain_attribute :: "gostring \<Rightarrow> startElement \<Rightarrow> gostring" where
  "plain_attribute local start =
     (case List.find (\<lambda>a. nm_Space (at_Name a) = [] \<and> nm_Local (at_Name a) = local) (se_Attr start) of
        None \<Rightarrow> [] | Some a \<Rightarrow> at_Value a)"

definition referenceURI :: "startElement \<Rightarrow> gostring" where
  "referenceURI = plain_attribute ''URI''"

definition xmlAlgorithmAttribute :: "startElement \<Rightarrow> gostring" where
  "xmlAlgorithmAttribute = plain_attribute ''Algorithm''"

definition hasWSUID :: "startElement \<Rightarrow> gostring \<Rightarrow> bool" where
  "hasWSUID start ident \<longleftrightarrow> list_ex (\<lambda>a. nm_Space (at_Name a) = xmlnsWSU \<and> nm_Local (at_Name a) = ''Id'' \<and>
     at_Value a = ident) (se_Attr start)"

text \<open>\<^verbatim>\<open>strings.Trim(value, " \t\r\n")\<close>\<close>

definition xml_space :: "char \<Rightarrow> bool" where
  "xml_space c \<longleftrightarrow> c \<in> {CHR 0x20, CHR 0x09, CHR 0x0D, CHR 0x0A}"

definition trim_xml :: "gostring \<Rightarrow> gostring" where
  "trim_xml s = rev (dropWhile xml_space (rev (dropWhile xml_space s)))"

definition is_matching_id :: "gostring \<Rightarrow> xattr \<Rightarrow> bool" where
  "is_matching_id ident a \<longleftrightarrow> \<not> isXMLNamespaceDeclaration (at_Name a) \<and>
     nm_Local (at_Name a) \<in> {''Id'', ''ID'', ''id''} \<and> trim_xml (at_Value a) = ident"

definition matchingXMLIDCount :: "startElement \<Rightarrow> gostring \<Rightarrow> nat" where
  "matchingXMLIDCount start ident =
     (if ident = [] then 0 else length (filter (is_matching_id ident) (se_Attr start)))"

text \<open>The ancestors are listed from the document element down.\<close>

definition isDirectExpectedSOAPBodyReference :: "startElement \<Rightarrow> gostring \<Rightarrow> xname list \<Rightarrow> bool" where
  "isDirectExpectedSOAPBodyReference start expectedID ancestors \<longleftrightarrow>
     (let depth = length ancestors in
      isDSigReference (se_Name start) \<and> depth \<ge> 2 \<and> isDSigSignedInfo (ancestors ! (depth - 1)) \<and>
      isDSigSignature (ancestors ! (depth - 2)) \<and> referenceURI start = ''#'' @ expectedID)"

section \<open>Identifiers\<close>

text \<open>The code points of a string, as \<^verbatim>\<open>range\<close> delivers them; \<^const>\<open>None\<close> if it is not
  valid UTF-8 (\<^verbatim>\<open>utf8.ValidString\<close>).\<close>

definition continuation :: "nat \<Rightarrow> bool" where
  "continuation b \<longleftrightarrow> 0x80 \<le> b \<and> b \<le> 0xBF"

fun runes :: "nat list \<Rightarrow> nat list option" where
  "runes [] = Some []"
| "runes (b # bs) =
     (if b < 0x80 then map_option ((#) b) (runes bs)
      else case bs of
        [] \<Rightarrow> None
      | c # cs \<Rightarrow>
          if 0xC2 \<le> b \<and> b \<le> 0xDF
          then (if continuation c then map_option ((#) ((b - 0xC0) * 64 + (c - 0x80))) (runes cs) else None)
          else (case cs of
            [] \<Rightarrow> None
          | d # ds \<Rightarrow>
              if 0xE0 \<le> b \<and> b \<le> 0xEF
              then (if continuation c \<and> continuation d \<and> (b = 0xE0 \<longrightarrow> 0xA0 \<le> c) \<and> (b = 0xED \<longrightarrow> c \<le> 0x9F)
                    then map_option ((#) ((b - 0xE0) * 4096 + (c - 0x80) * 64 + (d - 0x80))) (runes ds)
                    else None)
              else (case ds of
                [] \<Rightarrow> None
              | e # es \<Rightarrow>
                  if 0xF0 \<le> b \<and> b \<le> 0xF4 \<and> continuation c \<and> continuation d \<and> continuation e \<and>
                     (b = 0xF0 \<longrightarrow> 0x90 \<le> c) \<and> (b = 0xF4 \<longrightarrow> c \<le> 0x8F)
                  then map_option ((#) ((b - 0xF0) * 262144 + (c - 0x80) * 4096 + (d - 0x80) * 64 + (e - 0x80)))
                         (runes es)
                  else None)))"

definition isXMLNameStart :: "nat \<Rightarrow> bool" where
  "isXMLNameStart r \<longleftrightarrow> r = 0x5F \<or> 0x41 \<le> r \<and> r \<le> 0x5A \<or> 0x61 \<le> r \<and> r \<le> 0x7A \<or>
     0xC0 \<le> r \<and> r \<le> 0xD6 \<or> 0xD8 \<le> r \<and> r \<le> 0xF6 \<or> 0xF8 \<le> r \<and> r \<le> 0x2FF \<or>
     0x370 \<le> r \<and> r \<le> 0x37D \<or> 0x37F \<le> r \<and> r \<le> 0x1FFF \<or> 0x200C \<le> r \<and> r \<le> 0x200D \<or>
     0x2070 \<le> r \<and> r \<le> 0x218F \<or> 0x2C00 \<le> r \<and> r \<le> 0x2FEF \<or> 0x3001 \<le> r \<and> r \<le> 0xD7FF \<or>
     0xF900 \<le> r \<and> r \<le> 0xFDCF \<or> 0xFDF0 \<le> r \<and> r \<le> 0xFFFD \<or> 0x10000 \<le> r \<and> r \<le> 0xEFFFF"

definition isXMLNameChar :: "nat \<Rightarrow> bool" where
  "isXMLNameChar r \<longleftrightarrow> isXMLNameStart r \<or> 0x30 \<le> r \<and> r \<le> 0x39 \<or> r = 0x2D \<or> r = 0x2E \<or> r = 0xB7 \<or>
     0x300 \<le> r \<and> r \<le> 0x36F \<or> 0x203F \<le> r \<and> r \<le> 0x2040"

definition isXMLNCName :: "gostring \<Rightarrow> bool" where
  "isXMLNCName v = (case runes (map of_char v) of
     None \<Rightarrow> False
   | Some [] \<Rightarrow> False
   | Some (first # rest) \<Rightarrow> isXMLNameStart first \<and> list_all isXMLNameChar rest)"

definition validateSOAPBodyID :: "gostring \<Rightarrow> gerror option" where
  "validateSOAPBodyID ident =
     (let trimmed = TrimSpace ident
      in if trimmed = [] then Some (invalidInput ''SOAP BodyID is required'')
         else if ident \<noteq> trimmed then Some (invalidInput ''SOAP BodyID must be a valid XML ID/NCName'')
         else if \<not> isXMLNCName ident then Some (invalidInput ''SOAP BodyID must be a valid XML ID/NCName'')
         else None)"

section \<open>Attributes\<close>

text \<open>The two searches of \<^verbatim>\<open>validateUniqueXMLAttributes\<close>: against the previous attributes
  up to eight of them, with a set beyond.\<close>

fun linear_duplicate :: "xattr list \<Rightarrow> xattr list \<Rightarrow> xattr option" where
  "linear_duplicate previous [] = None"
| "linear_duplicate previous (a # as) =
     (if list_ex (\<lambda>p. at_Name a = at_Name p) previous then Some a
      else linear_duplicate (previous @ [a]) as)"

fun map_duplicate :: "xname set \<Rightarrow> xattr list \<Rightarrow> xattr option" where
  "map_duplicate seen [] = None"
| "map_duplicate seen (a # as) =
     (if at_Name a \<in> seen then Some a else map_duplicate (insert (at_Name a) seen) as)"

definition validateUniqueXMLAttributes :: "golib \<Rightarrow> startElement \<Rightarrow> gerror option" where
  "validateUniqueXMLAttributes G start =
     (case (if length (se_Attr start) \<le> 8 then linear_duplicate [] (se_Attr start)
            else map_duplicate {} (se_Attr start)) of
        None \<Rightarrow> None
      | Some a \<Rightarrow> Some (invalidInput (''signed XML element '' @ Quote G (nm_Local (se_Name start)) @
          '' contains duplicate attribute '' @ Quote G (nm_Local (at_Name a)))))"

fun unsupported_attribute :: "gostring \<Rightarrow> xattr list \<Rightarrow> xattr option" where
  "unsupported_attribute allowed [] = None"
| "unsupported_attribute allowed (a # as) =
     (if nm_Space (at_Name a) = [] \<and> nm_Local (at_Name a) = allowed then unsupported_attribute allowed as
      else if isXMLNamespaceDeclaration (at_Name a) then unsupported_attribute allowed as
      else Some a)"

definition validateInclusiveNamespacesAttributes :: "golib \<Rightarrow> startElement \<Rightarrow> gerror option" where
  "validateInclusiveNamespacesAttributes G start =
     (case unsupported_attribute ''PrefixList'' (se_Attr start) of
        Some a \<Rightarrow> Some (invalidInput (''SOAP Body InclusiveNamespaces contains unsupported attribute '' @
                    Quote G (nm_Local (at_Name a))))
      | None \<Rightarrow>
          if \<not> list_ex (\<lambda>a. nm_Space (at_Name a) = [] \<and> nm_Local (at_Name a) = ''PrefixList'') (se_Attr start)
          then Some (invalidInput ''SOAP Body InclusiveNamespaces requires a PrefixList attribute'')
          else None)"

definition validateSOAPBodyTransformAttributes :: "golib \<Rightarrow> startElement \<Rightarrow> gerror option" where
  "validateSOAPBodyTransformAttributes G start =
     (case unsupported_attribute ''Algorithm'' (se_Attr start) of
        Some a \<Rightarrow> Some (invalidInput (''SOAP Body ds:Transform contains unsupported attribute '' @
                    Quote G (nm_Local (at_Name a))))
      | None \<Rightarrow> None)"

section \<open>Transforms of the Body reference\<close>

record soapBodyReferenceTransformState =
  referenceDepth :: int
  transformsDepth :: int
  transformDepth :: int
  transformsContainerCount :: nat
  transformElementCount :: nat
  inclusiveNamespacesCount :: nat

definition observeParameter ::
  "golib \<Rightarrow> startElement \<Rightarrow> int \<Rightarrow> soapBodyReferenceTransformState \<Rightarrow> gerror + soapBodyReferenceTransformState" where
  "observeParameter G start depth ts =
     (if depth \<noteq> transformDepth ts + 1 \<or> \<not> isExclusiveCanonicalizationParameter (se_Name start)
      then Inl (invalidInput ''SOAP Body ds:Transform contains an unsupported child element'')
      else let ts = ts\<lparr>inclusiveNamespacesCount := inclusiveNamespacesCount ts + 1\<rparr>
      in if inclusiveNamespacesCount ts > 1
      then Inl (invalidInput (''SOAP Body exclusive canonicalization Transform must contain at most one '' @
             ''InclusiveNamespaces parameter''))
      else case validateInclusiveNamespacesAttributes G start of Some err \<Rightarrow> Inl err | None \<Rightarrow> Inr ts)"

definition observeTransforms ::
  "startElement \<Rightarrow> int \<Rightarrow> soapBodyReferenceTransformState \<Rightarrow> gerror + soapBodyReferenceTransformState" where
  "observeTransforms start depth ts =
     (if nm_Space (se_Name start) \<noteq> xmlnsDSig
      then Inl (invalidInput ''SOAP Body reference Transforms must use the XML Signature namespace'')
      else if depth \<noteq> referenceDepth ts + 1
      then Inl (invalidInput ''ds:Transforms must be a direct child of the SOAP Body ds:Reference'')
      else let ts = ts\<lparr>transformsContainerCount := transformsContainerCount ts + 1\<rparr>
      in if transformsContainerCount ts > 1
      then Inl (invalidInput ''SOAP Body ds:Reference must contain at most one direct ds:Transforms'')
      else Inr (ts\<lparr>transformsDepth := depth\<rparr>))"

definition observeTransform ::
  "golib \<Rightarrow> startElement \<Rightarrow> xname list \<Rightarrow> soapBodyReferenceTransformState \<Rightarrow> gerror + soapBodyReferenceTransformState" where
  "observeTransform G start ancestors ts =
     (let depth = int (length ancestors)
      in if nm_Space (se_Name start) \<noteq> xmlnsDSig
      then (if transformsDepth ts \<ge> 0 \<and> depth = transformsDepth ts + 1
            then Inl (invalidInput ''SOAP Body ds:Transforms may contain only direct ds:Transform elements'')
            else Inl (invalidInput ''SOAP Body reference Transform must use the XML Signature namespace''))
      else if transformsDepth ts < 0 \<or> depth \<noteq> transformsDepth ts + 1 \<or> ancestors = [] \<or>
              \<not> isDSigTransforms (last ancestors)
      then Inl (invalidInput ''ds:Transform must be a direct child of ds:Transforms'')
      else let ts = ts\<lparr>transformElementCount := transformElementCount ts + 1\<rparr>;
               algorithm = xmlAlgorithmAttribute start
      in if transformElementCount ts = 1 \<and> algorithm = []
      then Inl (invalidInput ''SOAP Body ds:Transform Algorithm must not be empty'')
      else if transformElementCount ts = 1 \<and> algorithm \<noteq> xmlAlgorithmExclusiveCanonicalization
      then Inl (invalidInput (''ds:Transform Algorithm is not allowed for the SOAP Body reference; only '' @
             Quote G xmlAlgorithmExclusiveCanonicalization @ '' is supported''))
      else case validateSOAPBodyTransformAttributes G start of
        Some err \<Rightarrow> Inl err
      | None \<Rightarrow> Inr (ts\<lparr>transformDepth := depth\<rparr>))"

definition observeStart ::
  "golib \<Rightarrow> startElement \<Rightarrow> gostring \<Rightarrow> xname list \<Rightarrow> soapBodyReferenceTransformState \<Rightarrow>
     gerror + soapBodyReferenceTransformState" where
  "observeStart G start expectedID ancestors ts =
     (let depth = int (length ancestors)
      in if referenceDepth ts < 0
      then Inr (if isDirectExpectedSOAPBodyReference start expectedID ancestors
                then \<lparr>referenceDepth = depth, transformsDepth = - 1, transformDepth = - 1,
                      transformsContainerCount = 0, transformElementCount = 0, inclusiveNamespacesCount = 0\<rparr>
                else ts)
      else if transformDepth ts \<ge> 0 \<and> depth > transformDepth ts then observeParameter G start depth ts
      else if isDSigReference (se_Name start)
      then Inl (invalidInput ''SOAP Body ds:Reference must not contain a nested ds:Reference'')
      else if nm_Local (se_Name start) = ''Transforms'' then observeTransforms start depth ts
      else if nm_Local (se_Name start) = ''Transform'' then observeTransform G start ancestors ts
      else if transformsDepth ts \<ge> 0 \<and> depth = transformsDepth ts + 1
      then Inl (invalidInput ''SOAP Body ds:Transforms may contain only direct ds:Transform elements'')
      else Inr ts)"

definition ts_validate :: "soapBodyReferenceTransformState \<Rightarrow> gerror option" where
  "ts_validate ts =
     (if transformsContainerCount ts = 0 then None
      else if transformElementCount ts \<noteq> 1
      then Some (invalidInput (''SOAP Body ds:Transforms must contain exactly one direct ds:Transform, got '' @
             format_int (int (transformElementCount ts))))
      else None)"

definition observeEnd ::
  "int \<Rightarrow> soapBodyReferenceTransformState \<Rightarrow> gerror + soapBodyReferenceTransformState" where
  "observeEnd depth ts =
     (let ts = (if depth = transformDepth ts then ts\<lparr>transformDepth := - 1\<rparr> else ts);
          ts = (if depth = transformsDepth ts then ts\<lparr>transformsDepth := - 1\<rparr> else ts)
      in if depth \<noteq> referenceDepth ts then Inr ts
      else case ts_validate ts of
        Some err \<Rightarrow> Inl err
      | None \<Rightarrow> Inr (ts\<lparr>referenceDepth := - 1, transformsDepth := - 1, transformDepth := - 1,
                        inclusiveNamespacesCount := 0\<rparr>))"

definition blank :: "bytes \<Rightarrow> bool" where
  "blank data \<longleftrightarrow> TrimSpace data = []"

definition observeCharData :: "bytes \<Rightarrow> soapBodyReferenceTransformState \<Rightarrow> gerror option" where
  "observeCharData data ts =
     (if transformsDepth ts < 0 \<or> blank data then None
      else if transformDepth ts \<ge> 0
      then Some (invalidInput ''SOAP Body ds:Transform must not contain text content'')
      else Some (invalidInput ''SOAP Body ds:Transforms may contain only direct ds:Transform elements''))"

section \<open>Counts of the document\<close>

record soapVerificationState =
  documentElementCount :: nat
  root_name :: xname
  soapBodyCount :: nat
  directSOAPBodyCount :: nat
  expectedBodyCount :: nat
  expectedIDCount :: nat
  signatureCount :: nat
  signedInfoCount :: nat
  directSignedInfoCount :: nat
  expectedReferenceCount :: nat

definition zeroState :: soapVerificationState where
  "zeroState = \<lparr>documentElementCount = 0, root_name = \<lparr>nm_Space = [], nm_Local = []\<rparr>, soapBodyCount = 0,
     directSOAPBodyCount = 0, expectedBodyCount = 0, expectedIDCount = 0, signatureCount = 0,
     signedInfoCount = 0, directSignedInfoCount = 0, expectedReferenceCount = 0\<rparr>"

definition observeXMLVerificationElement ::
  "startElement \<Rightarrow> gostring \<Rightarrow> xname list \<Rightarrow> soapVerificationState \<Rightarrow> soapVerificationState" where
  "observeXMLVerificationElement start expectedID ancestors st =
     (let depth = length ancestors;
          st = (if depth = 0
                then let st = st\<lparr>documentElementCount := documentElementCount st + 1\<rparr>
                     in if documentElementCount st = 1 then st\<lparr>root_name := se_Name start\<rparr> else st
                else st);
          st = st\<lparr>expectedIDCount := expectedIDCount st + matchingXMLIDCount start expectedID\<rparr>;
          st = (if isDSigSignature (se_Name start) then st\<lparr>signatureCount := signatureCount st + 1\<rparr> else st);
          st = (if isDSigSignedInfo (se_Name start)
                then let st = st\<lparr>signedInfoCount := signedInfoCount st + 1\<rparr>
                     in if depth > 0 \<and> isDSigSignature (ancestors ! (depth - 1))
                        then st\<lparr>directSignedInfoCount := directSignedInfoCount st + 1\<rparr> else st
                else st);
          st = (if isDirectExpectedSOAPBodyReference start expectedID ancestors
                then st\<lparr>expectedReferenceCount := expectedReferenceCount st + 1\<rparr> else st)
      in if \<not> isSOAPBody (se_Name start) then st
      else let st = st\<lparr>soapBodyCount := soapBodyCount st + 1\<rparr>
      in if depth \<noteq> 1 \<or> \<not> isSOAPEnvelope (root_name st) \<or> nm_Space (se_Name start) \<noteq> nm_Space (root_name st) then st
      else let st = st\<lparr>directSOAPBodyCount := directSOAPBodyCount st + 1\<rparr>
      in if hasWSUID start expectedID then st\<lparr>expectedBodyCount := expectedBodyCount st + 1\<rparr> else st)"

text \<open>The state of the scan: the counts, the transform state and the open elements.\<close>

record scan =
  sc_state :: soapVerificationState
  sc_transforms :: soapBodyReferenceTransformState
  sc_stack :: "xname list"

definition observeXMLVerificationStart ::
  "golib \<Rightarrow> startElement \<Rightarrow> gostring \<Rightarrow> scan \<Rightarrow> gerror + scan" where
  "observeXMLVerificationStart G start expectedID s =
     (case validateUniqueXMLAttributes G start of
        Some err \<Rightarrow> Inl err
      | None \<Rightarrow> (case observeStart G start expectedID (sc_stack s) (sc_transforms s) of
          Inl err \<Rightarrow> Inl err
        | Inr ts \<Rightarrow> Inr (s\<lparr>sc_transforms := ts,
            sc_state := observeXMLVerificationElement start expectedID (sc_stack s) (sc_state s)\<rparr>)))"

text \<open>One iteration of the loop of \<^verbatim>\<open>collectSOAPVerificationState\<close>.\<close>

definition observeToken :: "golib \<Rightarrow> gostring \<Rightarrow> token \<Rightarrow> scan \<Rightarrow> gerror + scan" where
  "observeToken G expectedID tok s = (case tok of
     StartElement start \<Rightarrow> (case observeXMLVerificationStart G start expectedID s of
       Inl err \<Rightarrow> Inl err
     | Inr s' \<Rightarrow> Inr (s'\<lparr>sc_stack := sc_stack s' @ [se_Name start]\<rparr>))
   | EndElement name \<Rightarrow>
       if sc_stack s = [] then Inr s
       else (case observeEnd (int (length (sc_stack s)) - 1) (sc_transforms s) of
         Inl err \<Rightarrow> Inl err
       | Inr ts \<Rightarrow> Inr (s\<lparr>sc_transforms := ts, sc_stack := butlast (sc_stack s)\<rparr>))
   | CharData data \<Rightarrow> (case observeCharData data (sc_transforms s) of
       Some err \<Rightarrow> Inl err
     | None \<Rightarrow>
         if sc_stack s = [] \<and> \<not> blank data
         then Inl (invalidInput ''signed XML must not contain text outside the document element'')
         else Inr s)
   | Directive d \<Rightarrow> Inl (invalidInput ''signed XML directives and DTDs are not allowed'')
   | _ \<Rightarrow> Inr s)"

fun observeTokens :: "golib \<Rightarrow> gostring \<Rightarrow> token list \<Rightarrow> scan \<Rightarrow> gerror + scan" where
  "observeTokens G expectedID [] s = Inr s"
| "observeTokens G expectedID (tok # toks) s = (case observeToken G expectedID tok s of
     Inl err \<Rightarrow> Inl err
   | Inr s' \<Rightarrow> observeTokens G expectedID toks s')"

definition inactiveTransforms :: soapBodyReferenceTransformState where
  "inactiveTransforms = \<lparr>referenceDepth = - 1, transformsDepth = - 1, transformDepth = - 1,
     transformsContainerCount = 0, transformElementCount = 0, inclusiveNamespacesCount = 0\<rparr>"

definition collectSOAPVerificationState ::
  "golib \<Rightarrow> decoder \<Rightarrow> startElement \<Rightarrow> gostring \<Rightarrow> gerror + soapVerificationState" where
  "collectSOAPVerificationState G decoder start expectedID =
     (case observeXMLVerificationStart G start expectedID
         \<lparr>sc_state = zeroState, sc_transforms = inactiveTransforms, sc_stack = []\<rparr> of
        Inl err \<Rightarrow> Inl err
      | Inr s \<Rightarrow> (case observeTokens G expectedID (fst decoder) (s\<lparr>sc_stack := [se_Name start]\<rparr>) of
          Inl err \<Rightarrow> Inl err
        | Inr s' \<Rightarrow>
            if errors_is (snd decoder) IoEOF then Inr (sc_state s')
            else Inl (invalidInputCause ''signed XML must be well-formed: '' (snd decoder))))"

definition validateSOAPVerificationState ::
  "golib \<Rightarrow> soapVerificationState \<Rightarrow> gostring \<Rightarrow> gerror option" where
  "validateSOAPVerificationState G st expectedID =
     (let got = (\<lambda>n. format_int (int n)) in
      if documentElementCount st \<noteq> 1
      then Some (invalidInput (''signed XML must contain exactly one document element, got '' @ got (documentElementCount st)))
      else if signatureCount st \<noteq> 1
      then Some (invalidInput (''signed XML must contain exactly one ds:Signature, got '' @ got (signatureCount st)))
      else if signedInfoCount st \<noteq> 1
      then Some (invalidInput (''signed XML must contain exactly one ds:SignedInfo, got '' @ got (signedInfoCount st)))
      else if directSignedInfoCount st \<noteq> 1
      then Some (invalidInput ''the ds:SignedInfo must be a direct child of ds:Signature'')
      else if soapBodyCount st \<noteq> 1
      then Some (invalidInput (''signed XML must contain exactly one SOAP Body, got '' @ got (soapBodyCount st)))
      else if directSOAPBodyCount st \<noteq> 1
      then Some (invalidInput ''signed XML SOAP Body must be the direct child of the SOAP Envelope'')
      else if expectedIDCount st \<noteq> 1
      then Some (invalidInput (''signed XML must contain exactly one XML ID with value '' @ Quote G expectedID @
             '', got '' @ got (expectedIDCount st)))
      else if expectedBodyCount st \<noteq> 1
      then Some (invalidInput (''signed XML SOAP Body must have wsu:Id '' @ Quote G expectedID))
      else if expectedReferenceCount st \<noteq> 1
      then Some (invalidInput (''signed XML must contain exactly one direct ds:Reference URI='' @ [CHR 0x22] @ ''#'' @
             expectedID @ [CHR 0x22] @ '', got '' @ got (expectedReferenceCount st)))
      else None)"

section \<open>The document element\<close>

record xmlDocumentPreamble =
  hasDirective :: bool
  hasNonWhitespaceText :: bool

fun scanRoot :: "token list \<Rightarrow> gerror \<Rightarrow> xmlDocumentPreamble \<Rightarrow>
    gerror + (startElement \<times> xmlDocumentPreamble \<times> decoder)" where
  "scanRoot [] err preamble =
     (if errors_is err IoEOF then Inl (invalidInput ''signed XML has no document element'')
      else Inl (invalidInputCause ''signed XML must be well-formed: '' err))"
| "scanRoot (tok # toks) err preamble = (case tok of
     StartElement start \<Rightarrow> Inr (start, preamble, (toks, err))
   | CharData data \<Rightarrow> scanRoot toks err
       (preamble\<lparr>hasNonWhitespaceText := hasNonWhitespaceText preamble \<or> \<not> blank data\<rparr>)
   | Directive d \<Rightarrow> scanRoot toks err (preamble\<lparr>hasDirective := True\<rparr>)
   | _ \<Rightarrow> scanRoot toks err preamble)"

definition scanXMLDocumentRoot :: "decoder \<Rightarrow> gerror + (startElement \<times> xmlDocumentPreamble \<times> decoder)" where
  "scanXMLDocumentRoot decoder = scanRoot (fst decoder) (snd decoder) \<lparr>hasDirective = False, hasNonWhitespaceText = False\<rparr>"

definition xmlDocumentRoot :: "xmllib \<Rightarrow> bytes \<Rightarrow> gerror + xname" where
  "xmlDocumentRoot X document = (case scanXMLDocumentRoot (compat_tokens X document) of
     Inl err \<Rightarrow> Inl err
   | Inr (start, _, _) \<Rightarrow> Inr (se_Name start))"

definition validateXMLVerificationRoot :: "xname \<Rightarrow> gostring \<Rightarrow> gerror + bool" where
  "validateXMLVerificationRoot name expectedID =
     (if \<not> isSOAPEnvelope name
      then (if expectedID \<noteq> []
            then Inl (invalidInput ''ExpectedBodyID requires a SOAP 1.1 or SOAP 1.2 Envelope'')
            else Inr False)
      else if expectedID = []
      then Inl (invalidInput ''ExpectedBodyID is required for SOAP verification'')
      else Inr True)"

definition byte_order_mark :: bytes where
  "byte_order_mark = [CHR 0xEF, CHR 0xBB, CHR 0xBF]"

definition trim_bom :: "bytes \<Rightarrow> bytes" where
  "trim_bom document = (if prefix byte_order_mark document then drop 3 document else document)"

definition validateXMLVerificationStructure ::
  "golib \<Rightarrow> xmllib \<Rightarrow> bytes \<Rightarrow> gostring \<Rightarrow> gerror option" where
  "validateXMLVerificationStructure G X original expectedID =
     (case (if expectedID \<noteq> [] then validateSOAPBodyID expectedID else None) of
        Some err \<Rightarrow> Some err
      | None \<Rightarrow>
          let document = trim_bom original in
          (case scanXMLDocumentRoot (strict_tokens X document) of
             Inl err \<Rightarrow> (case xmlDocumentRoot X document of
               Inl rootErr \<Rightarrow> Some rootErr
             | Inr name \<Rightarrow> (case validateXMLVerificationRoot name expectedID of
                 Inl rootErr \<Rightarrow> Some rootErr
               | Inr isSOAP \<Rightarrow> if \<not> isSOAP then None else Some err))
           | Inr (rootElement, preamble, decoder) \<Rightarrow>
               (case validateXMLVerificationRoot (se_Name rootElement) expectedID of
                  Inl err \<Rightarrow> Some err
                | Inr isSOAP \<Rightarrow>
                    if \<not> isSOAP then None
                    else if hasDirective preamble
                    then Some (invalidInput ''signed XML directives and DTDs are not allowed'')
                    else if hasNonWhitespaceText preamble
                    then Some (invalidInput ''signed XML must not contain text outside the document element'')
                    else (case collectSOAPVerificationState G decoder rootElement expectedID of
                      Inl err \<Rightarrow> Some err
                    | Inr st \<Rightarrow> validateSOAPVerificationState G st expectedID))))"

section \<open>Wrapping a payload\<close>

text \<open>The loop of \<^verbatim>\<open>validateSingleXMLElement\<close> over the tokens.\<close>

fun singleElement :: "token list \<Rightarrow> gerror \<Rightarrow> nat \<Rightarrow> nat \<Rightarrow> gerror option" where
  "singleElement [] err roots depth =
     (if \<not> errors_is err IoEOF
      then Some (invalidInputCause ''SOAP payload must be a well-formed XML element: '' err)
      else if roots \<noteq> 1 \<or> depth \<noteq> 0 then Some (invalidInput ''SOAP payload must be a single XML element'')
      else None)"
| "singleElement (tok # toks) err roots depth = (case tok of
     StartElement start \<Rightarrow>
       if depth = 0 \<and> roots + 1 > 1 then Some (invalidInput ''SOAP payload must be a single XML element'')
       else singleElement toks err (if depth = 0 then roots + 1 else roots) (depth + 1)
   | EndElement name \<Rightarrow>
       if depth = 0 then Some (invalidInput ''SOAP payload must be a well-formed XML element'')
       else singleElement toks err roots (depth - 1)
   | CharData data \<Rightarrow>
       if depth = 0 \<and> \<not> blank data
       then (if roots = 0 then Some (invalidInput ''SOAP payload must be a single XML element'')
             else Some (invalidInput ''SOAP payload must not contain trailing text''))
       else singleElement toks err roots depth
   | _ \<Rightarrow>
       if depth = 0 then Some (invalidInput ''SOAP payload must be a single XML element'')
       else singleElement toks err roots depth)"

definition validateSingleXMLElement :: "xmllib \<Rightarrow> bytes \<Rightarrow> gerror option" where
  "validateSingleXMLElement X payload =
     (if TrimSpace payload = [] then Some (invalidInput ''SOAP payload is empty'')
      else let (toks, err) = strict_tokens X payload in singleElement toks err 0 0)"

definition soapEnvelopePrefix :: bytes where
  "soapEnvelopePrefix = ''<soap:Envelope xmlns:soap='' @ [CHR 0x22] @ xmlnsSOAP @ [CHR 0x22] @
     '' xmlns:wsu='' @ [CHR 0x22] @ xmlnsWSU @ [CHR 0x22] @ ''><soap:Body wsu:Id='' @ [CHR 0x22]"

definition soapEnvelopeBodySuffix :: bytes where
  "soapEnvelopeBodySuffix = ''</soap:Body></soap:Envelope>''"

definition wrapSOAPBody :: "xmllib \<Rightarrow> bytes \<Rightarrow> gostring \<Rightarrow> gerror + bytes" where
  "wrapSOAPBody X payload ident = (case validateSOAPBodyID ident of
     Some err \<Rightarrow> Inl err
   | None \<Rightarrow> (case validateSingleXMLElement X payload of
       Some err \<Rightarrow> Inl err
     | None \<Rightarrow> Inr (soapEnvelopePrefix @ ident @ [CHR 0x22, CHR ''>''] @ payload @ soapEnvelopeBodySuffix)))"

end
