(* ===== verification/XML_Binding.thy ===== *)
theory XML_Binding
  imports XML_Structure
begin

text \<open>
  What the structural scan of \<open>XML_Structure\<close> guarantees, stated on the element tree of the
  document: the signature that native code verifies is bound to the one SOAP Body with the
  expected identifier, and its reference cannot transform that Body into something else.
\<close>

section \<open>Element trees\<close>

datatype node =
    Element startElement "node list"
  | Chars bytes
  | Remark token
  | Declaration bytes

fun tokens :: "node \<Rightarrow> token list" where
  "tokens (Element s cs) = StartElement s # concat (map tokens cs) @ [EndElement (se_Name s)]"
| "tokens (Chars data) = [CharData data]"
| "tokens (Remark t) = [t]"
| "tokens (Declaration d) = [Directive d]"

text \<open>Comments and processing instructions are the remarks.\<close>

fun proper :: "node \<Rightarrow> bool" where
  "proper (Element s cs) \<longleftrightarrow> list_all proper cs"
| "proper (Remark t) \<longleftrightarrow> (case t of Comment c \<Rightarrow> True | ProcInst g d \<Rightarrow> True | _ \<Rightarrow> False)"
| "proper _ \<longleftrightarrow> True"

text \<open>The elements below a list of ancestors, in document order, each with its ancestors and its
  children.\<close>

type_synonym occurrence = "xname list \<times> startElement \<times> node list"

fun occurrences :: "xname list \<Rightarrow> node \<Rightarrow> occurrence list" where
  "occurrences anc (Element s cs) = (anc, s, cs) # concat (map (occurrences (anc @ [se_Name s])) cs)"
| "occurrences anc _ = []"

definition forest_tokens :: "node list \<Rightarrow> token list" where
  "forest_tokens ns = concat (map tokens ns)"

definition forest_occurrences :: "xname list \<Rightarrow> node list \<Rightarrow> occurrence list" where
  "forest_occurrences anc ns = concat (map (occurrences anc) ns)"

lemma forest_tokens_simps [simp]:
  "forest_tokens [] = []"
  "forest_tokens (Element e cs # ns) =
     StartElement e # forest_tokens cs @ EndElement (se_Name e) # forest_tokens ns"
  "forest_tokens (Chars d # ns) = CharData d # forest_tokens ns"
  "forest_tokens (Remark t # ns) = t # forest_tokens ns"
  "forest_tokens (Declaration b # ns) = Directive b # forest_tokens ns"
  by (simp_all add: forest_tokens_def)

lemma forest_occurrences_simps [simp]:
  "forest_occurrences anc [] = []"
  "forest_occurrences anc (Element e cs # ns) =
     (anc, e, cs) # forest_occurrences (anc @ [se_Name e]) cs @ forest_occurrences anc ns"
  "forest_occurrences anc (Chars d # ns) = forest_occurrences anc ns"
  "forest_occurrences anc (Remark t # ns) = forest_occurrences anc ns"
  "forest_occurrences anc (Declaration b # ns) = forest_occurrences anc ns"
  by (simp_all add: forest_occurrences_def)

text \<open>Induction over a list of nodes, with the children of the first element as a list of its own.\<close>

lemma forest_induct [case_names Nil Element Chars Remark Declaration]:
  assumes "P []"
    and "\<And>e cs ns. P cs \<Longrightarrow> P ns \<Longrightarrow> P (Element e cs # ns)"
    and "\<And>d ns. P ns \<Longrightarrow> P (Chars d # ns)"
    and "\<And>t ns. P ns \<Longrightarrow> P (Remark t # ns)"
    and "\<And>b ns. P ns \<Longrightarrow> P (Declaration b # ns)"
  shows "P ns"
proof (induction "size_list size ns" arbitrary: ns rule: less_induct)
  case less
  show ?case
  proof (cases ns)
    case Nil
    then show ?thesis using assms(1) by simp
  next
    case (Cons n ms)
    then show ?thesis using assms(2-5) less by (cases n) auto
  qed
qed

lemma observeTokens_append:
  "observeTokens G k (xs @ ys) s = (case observeTokens G k xs s of Inl e \<Rightarrow> Inl e | Inr s' \<Rightarrow> observeTokens G k ys s')"
  by (induction xs arbitrary: s) (auto split: sum.split)

lemma proper_remark: "proper (Remark t) \<Longrightarrow> observeToken G k t s = Inr s"
  by (cases t) (auto simp: observeToken_def)

section \<open>The counts\<close>

text \<open>The elements are observed in document order, each under its ancestors.\<close>

definition observe_one ::
  "gostring \<Rightarrow> occurrence \<Rightarrow> soapVerificationState \<Rightarrow> soapVerificationState" where
  "observe_one k = (\<lambda>(anc, s, cs). observeXMLVerificationElement s k anc)"

abbreviation observe_all ::
  "gostring \<Rightarrow> occurrence list \<Rightarrow> soapVerificationState \<Rightarrow> soapVerificationState" where
  "observe_all k \<equiv> fold (observe_one k)"

lemma observeStart_frame:
  "observeXMLVerificationStart G e k s = Inr s1 \<Longrightarrow>
     validateUniqueXMLAttributes G e = None \<and> sc_stack s1 = sc_stack s \<and>
     sc_state s1 = observeXMLVerificationElement e k (sc_stack s) (sc_state s) \<and>
     observeStart G e k (sc_stack s) (sc_transforms s) = Inr (sc_transforms s1)"
  by (auto simp: observeXMLVerificationStart_def split: option.splits sum.splits)

lemma run_element:
  assumes "observeTokens G k (forest_tokens (Element e cs # ns)) s = Inr s'"
  obtains s1 s2 s3 where
    "observeXMLVerificationStart G e k s = Inr s1"
    "observeTokens G k (forest_tokens cs) (s1\<lparr>sc_stack := sc_stack s1 @ [se_Name e]\<rparr>) = Inr s2"
    "observeToken G k (EndElement (se_Name e)) s2 = Inr s3"
    "observeTokens G k (forest_tokens ns) s3 = Inr s'"
  using assms by (auto simp: observeTokens_append observeToken_def [of _ _ "StartElement e"] split: sum.splits)

lemma observe_forest:
  "list_all proper ns \<Longrightarrow> observeTokens G k (forest_tokens ns) s = Inr s' \<Longrightarrow>
     sc_stack s' = sc_stack s \<and> sc_state s' = observe_all k (forest_occurrences (sc_stack s) ns) (sc_state s)"
proof (induction ns arbitrary: s s' rule: forest_induct)
  case (Element e cs ns)
  obtain s1 s2 s3 where r: "observeXMLVerificationStart G e k s = Inr s1"
    "observeTokens G k (forest_tokens cs) (s1\<lparr>sc_stack := sc_stack s1 @ [se_Name e]\<rparr>) = Inr s2"
    "observeToken G k (EndElement (se_Name e)) s2 = Inr s3"
    "observeTokens G k (forest_tokens ns) s3 = Inr s'"
    using Element.prems(2) by (rule run_element)
  note s1 = observeStart_frame [OF r(1)]
  from Element.IH(1) [OF _ r(2)] Element.prems(1) s1 have
    s2: "sc_stack s2 = sc_stack s @ [se_Name e]"
      "sc_state s2 = observe_all k (forest_occurrences (sc_stack s @ [se_Name e]) cs) (sc_state s1)"
    by auto
  from r(3) s2(1) have "sc_stack s3 = sc_stack s" "sc_state s3 = sc_state s2"
    by (auto simp: observeToken_def split: sum.splits)
  with Element.IH(2) [OF _ r(4)] Element.prems(1) s1 s2 show ?case by (simp add: observe_one_def)
next
  case (Remark t ns)
  then show ?case using proper_remark [of t G k s] by simp
qed (auto simp: observeToken_def split: option.splits if_splits)

text \<open>Inside a document the transform state and the open elements develop by themselves.\<close>

lemma run_transforms:
  assumes "observeTokens G k (forest_tokens (Element e cs # ns)) s = Inr s'" and "list_all proper cs"
  obtains s1 s2 s3 where
    "observeStart G e k (sc_stack s) (sc_transforms s) = Inr (sc_transforms s1)"
    "sc_stack s1 = sc_stack s @ [se_Name e]"
    "observeTokens G k (forest_tokens cs) s1 = Inr s2"
    "observeEnd (int (length (sc_stack s))) (sc_transforms s2) = Inr (sc_transforms s3)"
    "sc_stack s3 = sc_stack s"
    "observeTokens G k (forest_tokens ns) s3 = Inr s'"
proof -
  obtain s1 s2 s3 where r: "observeXMLVerificationStart G e k s = Inr s1"
    "observeTokens G k (forest_tokens cs) (s1\<lparr>sc_stack := sc_stack s1 @ [se_Name e]\<rparr>) = Inr s2"
    "observeToken G k (EndElement (se_Name e)) s2 = Inr s3"
    "observeTokens G k (forest_tokens ns) s3 = Inr s'"
    using assms(1) by (rule run_element)
  note s1 = observeStart_frame [OF r(1)]
  have "sc_stack s2 = sc_stack s @ [se_Name e]"
    using observe_forest [OF assms(2) r(2)] s1 by simp
  with r(3) have "observeEnd (int (length (sc_stack s))) (sc_transforms s2) = Inr (sc_transforms s3)"
    "sc_stack s3 = sc_stack s"
    by (auto simp: observeToken_def split: sum.splits)
  with r(2,4) s1 that [of "s1\<lparr>sc_stack := sc_stack s1 @ [se_Name e]\<rparr>" s2 s3] show thesis by simp
qed

section \<open>What a reference may contain\<close>

definition permitted_attributes :: "gostring \<Rightarrow> startElement \<Rightarrow> bool" where
  "permitted_attributes local s \<longleftrightarrow> list_all (\<lambda>a. nm_Space (at_Name a) = [] \<and> nm_Local (at_Name a) = local \<or>
     isXMLNamespaceDeclaration (at_Name a)) (se_Attr s)"

definition has_attribute :: "gostring \<Rightarrow> startElement \<Rightarrow> bool" where
  "has_attribute local s \<longleftrightarrow> list_ex (\<lambda>a. nm_Space (at_Name a) = [] \<and> nm_Local (at_Name a) = local) (se_Attr s)"

fun is_element :: "node \<Rightarrow> bool" where
  "is_element (Element e cs) \<longleftrightarrow> True"
| "is_element _ \<longleftrightarrow> False"

fun is_blank :: "node \<Rightarrow> bool" where
  "is_blank (Chars d) \<longleftrightarrow> blank d"
| "is_blank (Remark t) \<longleftrightarrow> True"
| "is_blank _ \<longleftrightarrow> False"

text \<open>An \<^verbatim>\<open>ec:InclusiveNamespaces\<close> parameter, a transform with at most one of them, a
  container with exactly one transform.\<close>

fun is_parameter :: "node \<Rightarrow> bool" where
  "is_parameter (Element e cs) \<longleftrightarrow> isExclusiveCanonicalizationParameter (se_Name e) \<and>
     permitted_attributes ''PrefixList'' e \<and> has_attribute ''PrefixList'' e \<and> list_all is_blank cs"
| "is_parameter _ \<longleftrightarrow> False"

fun is_transform :: "node \<Rightarrow> bool" where
  "is_transform (Element e cs) \<longleftrightarrow> se_Name e = \<lparr>nm_Space = xmlnsDSig, nm_Local = ''Transform''\<rparr> \<and>
     xmlAlgorithmAttribute e = xmlAlgorithmExclusiveCanonicalization \<and> permitted_attributes ''Algorithm'' e \<and>
     list_all (\<lambda>n. is_blank n \<or> is_parameter n) cs \<and> length (filter is_element cs) \<le> 1"
| "is_transform _ \<longleftrightarrow> False"

fun is_transforms :: "node \<Rightarrow> bool" where
  "is_transforms (Element e cs) \<longleftrightarrow> isDSigTransforms (se_Name e) \<and>
     list_all (\<lambda>n. is_blank n \<or> is_transform n) cs \<and> length (filter is_element cs) = 1"
| "is_transforms _ \<longleftrightarrow> False"

text \<open>Nodes without a transform and without another reference, whatever their depth.\<close>

fun is_ordinary :: "node \<Rightarrow> bool" where
  "is_ordinary (Element e cs) \<longleftrightarrow> \<not> isDSigReference (se_Name e) \<and>
     nm_Local (se_Name e) \<notin> {''Transforms'', ''Transform''} \<and> list_all is_ordinary cs"
| "is_ordinary (Declaration b) \<longleftrightarrow> False"
| "is_ordinary _ \<longleftrightarrow> True"

definition reference_content :: "node list \<Rightarrow> bool" where
  "reference_content cs \<longleftrightarrow> list_all (\<lambda>n. is_ordinary n \<or> is_transforms n) cs \<and>
     length (filter is_transforms cs) \<le> 1"

lemma unsupported_attribute_None:
  "unsupported_attribute local (se_Attr s) = None \<longleftrightarrow> permitted_attributes local s"
proof -
  have "unsupported_attribute local as = None \<longleftrightarrow> list_all (\<lambda>a. nm_Space (at_Name a) = [] \<and>
      nm_Local (at_Name a) = local \<or> isXMLNamespaceDeclaration (at_Name a)) as" for as
    by (induction as) auto
  then show ?thesis by (simp add: permitted_attributes_def)
qed

subsection \<open>Inside a transform\<close>

lemma observeCharData_blank: "observeCharData d ts = None \<Longrightarrow> transformsDepth ts \<ge> 0 \<Longrightarrow> blank d"
  by (auto simp: observeCharData_def split: if_splits)

lemma run_chars:
  "observeTokens G k (forest_tokens (Chars d # ns)) s = Inr s' \<Longrightarrow>
     observeCharData d (sc_transforms s) = None \<and> observeTokens G k (forest_tokens ns) s = Inr s'"
  by (auto simp: observeToken_def split: option.splits if_splits)

lemma run_remark:
  "observeTokens G k (forest_tokens (Remark t # ns)) s = Inr s' \<Longrightarrow> proper (Remark t) \<Longrightarrow>
     observeTokens G k (forest_tokens ns) s = Inr s'"
  using proper_remark [of t G k s] by simp

lemma run_start:
  "observeTokens G k (forest_tokens (Element e cs # ns)) s = Inr s' \<Longrightarrow>
     \<exists>ts. observeStart G e k (sc_stack s) (sc_transforms s) = Inr ts"
  by (rule run_element) (auto dest: observeStart_frame)

text \<open>Below a parameter every element is refused.\<close>

lemma in_parameter:
  assumes "observeTokens G k (forest_tokens ns) s = Inr s'" and "list_all proper ns"
    and "referenceDepth (sc_transforms s) \<ge> 0" and "transformsDepth (sc_transforms s) \<ge> 0"
    and "transformDepth (sc_transforms s) \<ge> 0"
    and "int (length (sc_stack s)) > transformDepth (sc_transforms s) + 1"
  shows "list_all is_blank ns \<and> sc_transforms s' = sc_transforms s"
  using assms
proof (induction ns arbitrary: s rule: forest_induct)
  case (Element e cs ns)
  obtain ts where "observeStart G e k (sc_stack s) (sc_transforms s) = Inr ts"
    using run_start [OF Element.prems(1)] by blast
  with Element.prems(3-6) show ?case
    by (simp add: observeStart_def observeParameter_def Let_def)
next
  case (Chars d ns)
  note c = run_chars [OF Chars.prems(1)]
  from Chars.IH [OF conjunct2 [OF c]] Chars.prems(2-) observeCharData_blank [OF conjunct1 [OF c]] show ?case
    by simp
next
  case (Remark t ns)
  then have "observeTokens G k (forest_tokens ns) s = Inr s'" using run_remark by auto
  from Remark.IH [OF this] Remark.prems(2-) show ?case by simp
qed (auto simp: observeToken_def)

text \<open>In a transform only the parameter is accepted.\<close>

lemma observeParameter_Inr:
  assumes "observeParameter G e d ts = Inr ts'"
  shows "d = transformDepth ts + 1" "isExclusiveCanonicalizationParameter (se_Name e)"
    "ts' = ts\<lparr>inclusiveNamespacesCount := inclusiveNamespacesCount ts + 1\<rparr>"
    "inclusiveNamespacesCount ts' \<le> 1" "permitted_attributes ''PrefixList'' e" "has_attribute ''PrefixList'' e"
  using assms
  by (auto simp: observeParameter_def Let_def validateInclusiveNamespacesAttributes_def has_attribute_def
      unsupported_attribute_None split: if_splits option.splits)

lemma in_transform:
  assumes "observeTokens G k (forest_tokens ns) s = Inr s'" and "list_all proper ns"
    and "referenceDepth (sc_transforms s) \<ge> 0"
    and "transformsDepth (sc_transforms s) > referenceDepth (sc_transforms s)"
    and "transformDepth (sc_transforms s) > transformsDepth (sc_transforms s)"
    and "int (length (sc_stack s)) = transformDepth (sc_transforms s) + 1"
  shows "list_all (\<lambda>n. is_blank n \<or> is_parameter n) ns \<and>
    sc_transforms s' = (sc_transforms s)\<lparr>inclusiveNamespacesCount :=
       inclusiveNamespacesCount (sc_transforms s) + length (filter is_element ns)\<rparr> \<and>
    (filter is_element ns \<noteq> [] \<longrightarrow> inclusiveNamespacesCount (sc_transforms s') \<le> 1)"
  using assms
proof (induction ns arbitrary: s rule: forest_induct)
  case (Element e cs ns)
  let ?ts = "sc_transforms s"
  from Element.prems(2) have pr: "list_all proper cs" "list_all proper ns" by simp_all
  obtain s1 s2 s3 where r: "observeStart G e k (sc_stack s) ?ts = Inr (sc_transforms s1)"
    "sc_stack s1 = sc_stack s @ [se_Name e]"
    "observeTokens G k (forest_tokens cs) s1 = Inr s2"
    "observeEnd (int (length (sc_stack s))) (sc_transforms s2) = Inr (sc_transforms s3)"
    "sc_stack s3 = sc_stack s"
    "observeTokens G k (forest_tokens ns) s3 = Inr s'"
    using Element.prems(1) pr(1) by (rule run_transforms)
  have "observeParameter G e (int (length (sc_stack s))) ?ts = Inr (sc_transforms s1)"
    using r(1) Element.prems(3-6) by (auto simp: observeStart_def Let_def split: if_splits)
  note p = observeParameter_Inr [OF this]
  have c: "list_all is_blank cs" "sc_transforms s2 = sc_transforms s1"
    using in_parameter [OF r(3) pr(1)] r(2) p(3) Element.prems(3-6) by simp_all
  have "sc_transforms s3 = sc_transforms s1"
    using r(4) c(2) p(3) Element.prems(3-6) by (auto simp: observeEnd_def Let_def split: if_splits)
  with Element.IH(2) [OF r(6) pr(2)] r(5) p Element.prems(3-6) c show ?case by (auto split: if_splits)
next
  case (Chars d ns)
  note c = run_chars [OF Chars.prems(1)]
  from Chars.IH [OF conjunct2 [OF c]] Chars.prems(2-) observeCharData_blank [OF conjunct1 [OF c]] show ?case
    by auto
next
  case (Remark t ns)
  then have "observeTokens G k (forest_tokens ns) s = Inr s'" using run_remark by auto
  from Remark.IH [OF this] Remark.prems(2-) show ?case by auto
qed (auto simp: observeToken_def)

subsection \<open>Inside a container of transforms\<close>

lemma xname_eqI: "nm_Space n = sp \<Longrightarrow> nm_Local n = lc \<Longrightarrow> n = \<lparr>nm_Space = sp, nm_Local = lc\<rparr>"
  by simp

lemma observeTransform_Inr:
  assumes "observeTransform G e anc ts = Inr ts'" and "nm_Local (se_Name e) = ''Transform''"
  shows "se_Name e = \<lparr>nm_Space = xmlnsDSig, nm_Local = ''Transform''\<rparr>"
    "transformsDepth ts \<ge> 0" "int (length anc) = transformsDepth ts + 1"
    "ts' = ts\<lparr>transformElementCount := transformElementCount ts + 1, transformDepth := int (length anc)\<rparr>"
    "transformElementCount ts = 0 \<longrightarrow> xmlAlgorithmAttribute e = xmlAlgorithmExclusiveCanonicalization"
    "permitted_attributes ''Algorithm'' e"
  using assms
  by (auto simp: observeTransform_def Let_def validateSOAPBodyTransformAttributes_def
      unsupported_attribute_None intro: xname_eqI split: if_splits option.splits)

lemma observeEnd_transform:
  "observeEnd d ts = Inr ts' \<Longrightarrow> transformDepth ts = d \<Longrightarrow> transformsDepth ts \<noteq> d \<Longrightarrow>
     referenceDepth ts \<noteq> d \<Longrightarrow> ts' = ts\<lparr>transformDepth := - 1\<rparr>"
  by (auto simp: observeEnd_def)

lemma observeEnd_transforms:
  "observeEnd d ts = Inr ts' \<Longrightarrow> transformsDepth ts = d \<Longrightarrow> transformDepth ts \<noteq> d \<Longrightarrow>
     referenceDepth ts \<noteq> d \<Longrightarrow> ts' = ts\<lparr>transformsDepth := - 1\<rparr>"
  by (auto simp: observeEnd_def)

text \<open>The algorithm is checked on the first transform only; a second one is refused when the
  reference ends.\<close>

lemma in_transforms:
  assumes "observeTokens G k (forest_tokens ns) s = Inr s'" and "list_all proper ns"
    and "referenceDepth (sc_transforms s) \<ge> 0"
    and "transformsDepth (sc_transforms s) = referenceDepth (sc_transforms s) + 1"
    and "transformDepth (sc_transforms s) = - 1"
    and "int (length (sc_stack s)) = transformsDepth (sc_transforms s) + 1"
  shows "\<exists>m. sc_transforms s' = (sc_transforms s)\<lparr>transformElementCount :=
       transformElementCount (sc_transforms s) + length (filter is_element ns), inclusiveNamespacesCount := m\<rparr> \<and>
    (transformElementCount (sc_transforms s') \<le> 1 \<longrightarrow> list_all (\<lambda>n. is_blank n \<or> is_transform n) ns)"
  using assms
proof (induction ns arbitrary: s rule: forest_induct)
  case Nil
  then show ?case by (auto intro: exI [of _ "inclusiveNamespacesCount (sc_transforms s)"])
next
  case (Element e cs ns)
  let ?ts = "sc_transforms s"
  from Element.prems(2) have pr: "list_all proper cs" "list_all proper ns" by simp_all
  obtain s1 s2 s3 where r: "observeStart G e k (sc_stack s) ?ts = Inr (sc_transforms s1)"
    "sc_stack s1 = sc_stack s @ [se_Name e]"
    "observeTokens G k (forest_tokens cs) s1 = Inr s2"
    "observeEnd (int (length (sc_stack s))) (sc_transforms s2) = Inr (sc_transforms s3)"
    "sc_stack s3 = sc_stack s"
    "observeTokens G k (forest_tokens ns) s3 = Inr s'"
    using Element.prems(1) pr(1) by (rule run_transforms)
  have l: "nm_Local (se_Name e) = ''Transform''"
    and t: "observeTransform G e (sc_stack s) ?ts = Inr (sc_transforms s1)"
    using r(1) Element.prems(3-6) by (auto simp: observeStart_def observeTransforms_def Let_def split: if_splits)
  note t = observeTransform_Inr [OF t l]
  obtain c: "list_all (\<lambda>n. is_blank n \<or> is_parameter n) cs" and
    s2: "sc_transforms s2 = (sc_transforms s1)\<lparr>inclusiveNamespacesCount :=
       inclusiveNamespacesCount (sc_transforms s1) + length (filter is_element cs)\<rparr>" and
    one: "filter is_element cs \<noteq> [] \<longrightarrow> inclusiveNamespacesCount (sc_transforms s2) \<le> 1"
    using in_transform [OF r(3) pr(1)] r(2) t Element.prems(3-6) by auto
  from one s2 have le: "length (filter is_element cs) \<le> 1" by (cases "filter is_element cs") auto
  have "sc_transforms s3 = (sc_transforms s2)\<lparr>transformDepth := - 1\<rparr>"
    using observeEnd_transform [OF r(4)] s2 t(4) Element.prems(3-6) by simp
  then have s3: "sc_transforms s3 = ?ts\<lparr>transformElementCount := transformElementCount ?ts + 1,
      inclusiveNamespacesCount := inclusiveNamespacesCount (sc_transforms s2)\<rparr>"
    using s2 t(4) Element.prems(5) by (intro soapBodyReferenceTransformState.equality) simp_all
  from Element.IH(2) [OF r(6) pr(2)] s3 Element.prems(3-6) r(5) obtain m where
    m: "sc_transforms s' = ?ts\<lparr>transformElementCount := transformElementCount ?ts + 1 + length (filter is_element ns),
      inclusiveNamespacesCount := m\<rparr>"
    and ns: "transformElementCount (sc_transforms s') \<le> 1 \<longrightarrow> list_all (\<lambda>n. is_blank n \<or> is_transform n) ns"
    by auto
  show ?case using m ns t(1,5,6) c le by (intro exI [of _ m]) auto
next
  case (Chars d ns)
  note c = run_chars [OF Chars.prems(1)]
  from Chars.IH [OF conjunct2 [OF c]] Chars.prems(2-) observeCharData_blank [OF conjunct1 [OF c]] show ?case
    by auto
next
  case (Remark t ns)
  then have "observeTokens G k (forest_tokens ns) s = Inr s'" using run_remark by auto
  from Remark.IH [OF this] Remark.prems(2-) show ?case by auto
qed (auto simp: observeToken_def)

subsection \<open>Inside a reference\<close>

text \<open>The state of a reference outside its transforms.\<close>

definition in_ref :: "soapBodyReferenceTransformState \<Rightarrow> bool" where
  "in_ref ts \<longleftrightarrow> referenceDepth ts \<ge> 0 \<and> transformsDepth ts = - 1 \<and> transformDepth ts = - 1"

lemma observeStart_in_ref:
  assumes "observeStart G e k anc ts = Inr ts'" and "in_ref ts"
  shows "\<not> isDSigReference (se_Name e)" "nm_Local (se_Name e) \<noteq> ''Transform''"
    "nm_Local (se_Name e) = ''Transforms'' \<Longrightarrow> isDSigTransforms (se_Name e) \<and>
       int (length anc) = referenceDepth ts + 1 \<and> transformsContainerCount ts = 0 \<and>
       ts' = ts\<lparr>transformsContainerCount := 1, transformsDepth := int (length anc)\<rparr>"
    "nm_Local (se_Name e) \<noteq> ''Transforms'' \<Longrightarrow> ts' = ts"
  using assms
  by (auto simp: in_ref_def observeStart_def observeTransforms_def observeTransform_def isDSigTransforms_def Let_def
      split: if_splits)

lemma observeEnd_in_ref:
  "observeEnd d ts = Inr ts' \<Longrightarrow> in_ref ts \<Longrightarrow> d > referenceDepth ts \<Longrightarrow> ts' = ts"
  by (auto simp: in_ref_def observeEnd_def Let_def split: if_splits)

text \<open>Below the children of a reference everything is ordinary.\<close>

lemma in_child:
  assumes "observeTokens G k (forest_tokens ns) s = Inr s'" and "list_all proper ns"
    and "in_ref (sc_transforms s)" and "int (length (sc_stack s)) > referenceDepth (sc_transforms s) + 1"
  shows "list_all is_ordinary ns \<and> sc_transforms s' = sc_transforms s"
  using assms
proof (induction ns arbitrary: s s' rule: forest_induct)
  case (Element e cs ns)
  from Element.prems(2) have pr: "list_all proper cs" "list_all proper ns" by simp_all
  obtain s1 s2 s3 where r: "observeStart G e k (sc_stack s) (sc_transforms s) = Inr (sc_transforms s1)"
    "sc_stack s1 = sc_stack s @ [se_Name e]"
    "observeTokens G k (forest_tokens cs) s1 = Inr s2"
    "observeEnd (int (length (sc_stack s))) (sc_transforms s2) = Inr (sc_transforms s3)"
    "sc_stack s3 = sc_stack s"
    "observeTokens G k (forest_tokens ns) s3 = Inr s'"
    using Element.prems(1) pr(1) by (rule run_transforms)
  note st = observeStart_in_ref [OF r(1) Element.prems(3)]
  have nt: "nm_Local (se_Name e) \<noteq> ''Transforms''" using st(3) Element.prems(4) by auto
  then have s1: "sc_transforms s1 = sc_transforms s" by (rule st(4))
  have c: "list_all is_ordinary cs" "sc_transforms s2 = sc_transforms s"
    using Element.IH(1) [OF r(3) pr(1)] s1 r(2) Element.prems(3,4) by auto
  have "sc_transforms s3 = sc_transforms s"
    using observeEnd_in_ref [OF r(4)] c(2) Element.prems(3,4) by auto
  with Element.IH(2) [OF r(6) pr(2)] r(5) c st(1,2) nt Element.prems(3,4) show ?case by simp
next
  case (Chars d ns)
  from Chars.IH [OF conjunct2 [OF run_chars [OF Chars.prems(1)]]] Chars.prems(2-) show ?case by simp
next
  case (Remark t ns)
  then have "observeTokens G k (forest_tokens ns) s = Inr s'" using run_remark by auto
  from Remark.IH [OF this] Remark.prems(2-) show ?case by simp
qed (auto simp: observeToken_def)

text \<open>The containers among the children of a reference, and their transforms.\<close>

fun transforms_named :: "node \<Rightarrow> bool" where
  "transforms_named (Element e cs) \<longleftrightarrow> nm_Local (se_Name e) = ''Transforms''"
| "transforms_named _ \<longleftrightarrow> False"

fun transform_count :: "node \<Rightarrow> nat" where
  "transform_count (Element e cs) =
     (if nm_Local (se_Name e) = ''Transforms'' then length (filter is_element cs) else 0)"
| "transform_count _ = 0"

fun holds_transforms :: "node \<Rightarrow> bool" where
  "holds_transforms (Element e cs) \<longleftrightarrow> isDSigTransforms (se_Name e) \<and> list_all (\<lambda>n. is_blank n \<or> is_transform n) cs"
| "holds_transforms _ \<longleftrightarrow> False"

lemma holds_transforms_named: "holds_transforms n \<Longrightarrow> transforms_named n"
  by (cases n) (auto simp: isDSigTransforms_def)

lemma is_transforms_iff: "is_transforms n \<longleftrightarrow> holds_transforms n \<and> transform_count n = 1"
  by (cases n) (auto simp: isDSigTransforms_def)

lemma in_reference:
  assumes "observeTokens G k (forest_tokens ns) s = Inr s'" and "list_all proper ns"
    and "in_ref (sc_transforms s)" and "int (length (sc_stack s)) = referenceDepth (sc_transforms s) + 1"
  shows "\<exists>m. sc_transforms s' = (sc_transforms s)\<lparr>transformsContainerCount :=
        transformsContainerCount (sc_transforms s) + length (filter transforms_named ns),
      transformElementCount := transformElementCount (sc_transforms s) + sum_list (map transform_count ns),
      inclusiveNamespacesCount := m\<rparr> \<and>
    (transformElementCount (sc_transforms s') \<le> 1 \<longrightarrow> list_all (\<lambda>n. is_ordinary n \<or> holds_transforms n) ns) \<and>
    (filter transforms_named ns \<noteq> [] \<longrightarrow> transformsContainerCount (sc_transforms s') \<le> 1)"
  using assms
proof (induction ns arbitrary: s rule: forest_induct)
  case Nil
  then show ?case by (auto intro: exI [of _ "inclusiveNamespacesCount (sc_transforms s)"])
next
  case (Element e cs ns)
  let ?ts = "sc_transforms s"
  from Element.prems(2) have pr: "list_all proper cs" "list_all proper ns" by simp_all
  obtain s1 s2 s3 where r: "observeStart G e k (sc_stack s) ?ts = Inr (sc_transforms s1)"
    "sc_stack s1 = sc_stack s @ [se_Name e]"
    "observeTokens G k (forest_tokens cs) s1 = Inr s2"
    "observeEnd (int (length (sc_stack s))) (sc_transforms s2) = Inr (sc_transforms s3)"
    "sc_stack s3 = sc_stack s"
    "observeTokens G k (forest_tokens ns) s3 = Inr s'"
    using Element.prems(1) pr(1) by (rule run_transforms)
  note st = observeStart_in_ref [OF r(1) Element.prems(3)]
  show ?case
  proof (cases "nm_Local (se_Name e) = ''Transforms''")
    case False
    then have "sc_transforms s1 = ?ts" by (rule st(4))
    then have c: "list_all is_ordinary cs" "sc_transforms s2 = ?ts"
      using in_child [OF r(3) pr(1)] r(2) Element.prems(3,4) by auto
    have "sc_transforms s3 = ?ts" using observeEnd_in_ref [OF r(4)] c(2) Element.prems(3,4) by auto
    with Element.IH(2) [OF r(6) pr(2)] r(5) Element.prems(3,4) st(1,2) False c show ?thesis by simp
  next
    case True
    note t = st(3) [OF True]
    from Element.prems(3) have ref: "referenceDepth ?ts \<ge> 0" "transformsDepth ?ts = - 1" "transformDepth ?ts = - 1"
      by (simp_all add: in_ref_def)
    from t ref in_transforms [OF r(3) pr(1)] r(2) obtain m where
      s2: "sc_transforms s2 = (sc_transforms s1)\<lparr>transformElementCount :=
        transformElementCount ?ts + length (filter is_element cs), inclusiveNamespacesCount := m\<rparr>" and
      c: "transformElementCount (sc_transforms s2) \<le> 1 \<longrightarrow> list_all (\<lambda>n. is_blank n \<or> is_transform n) cs"
      by auto
    have "sc_transforms s3 = (sc_transforms s2)\<lparr>transformsDepth := - 1\<rparr>"
      using observeEnd_transforms [OF r(4)] s2 t ref by simp
    then have s3: "sc_transforms s3 = ?ts\<lparr>transformsContainerCount := 1, transformElementCount :=
        transformElementCount ?ts + length (filter is_element cs), inclusiveNamespacesCount := m\<rparr>"
      using s2 t ref by (intro soapBodyReferenceTransformState.equality) simp_all
    have "in_ref (sc_transforms s3)" "int (length (sc_stack s3)) = referenceDepth (sc_transforms s3) + 1"
      using s3 r(5) Element.prems(3,4) by (simp_all add: in_ref_def)
    from Element.IH(2) [OF r(6) pr(2) this] obtain m' where
      ts': "sc_transforms s' = ?ts\<lparr>transformsContainerCount := 1 + length (filter transforms_named ns),
        transformElementCount := transformElementCount ?ts + length (filter is_element cs) +
          sum_list (map transform_count ns), inclusiveNamespacesCount := m'\<rparr>" and
      ns: "transformElementCount (sc_transforms s') \<le> 1 \<longrightarrow> list_all (\<lambda>n. is_ordinary n \<or> holds_transforms n) ns" and
      le: "filter transforms_named ns \<noteq> [] \<longrightarrow> transformsContainerCount (sc_transforms s') \<le> 1"
      unfolding s3 by (elim exE conjE) simp
    show ?thesis
      using ts' ns le c s2 t True by (intro exI [of _ m']) auto
  qed
next
  case (Chars d ns)
  from Chars.IH [OF conjunct2 [OF run_chars [OF Chars.prems(1)]]] Chars.prems(2-) show ?case by simp
next
  case (Remark t ns)
  then have "observeTokens G k (forest_tokens ns) s = Inr s'" using run_remark by auto
  from Remark.IH [OF this] Remark.prems(2-) show ?case by simp
qed (auto simp: observeToken_def)

lemma sum_list_filter_zero:
  "(\<And>x. \<not> P x \<Longrightarrow> f x = 0) \<Longrightarrow> sum_list (map f xs) = sum_list (map f (filter P xs))" for f :: "'a \<Rightarrow> nat"
  by (induction xs) auto

lemma reference_contentI:
  assumes "list_all (\<lambda>n. is_ordinary n \<or> holds_transforms n) ns"
    and "length (filter transforms_named ns) \<le> 1"
    and "filter transforms_named ns = [] \<or> sum_list (map transform_count ns) = 1"
  shows "reference_content ns"
proof -
  have "\<not> transforms_named n \<Longrightarrow> transform_count n = 0" for n by (cases n) auto
  then have "sum_list (map transform_count ns) = sum_list (map transform_count (filter transforms_named ns))"
    by (rule sum_list_filter_zero)
  from trans [OF this [symmetric]] assms(3) have
    "filter transforms_named ns = [] \<or> sum_list (map transform_count (filter transforms_named ns)) = 1" by blast
  with assms(2) consider "filter transforms_named ns = []"
    | x where "filter transforms_named ns = [x]" "transform_count x = 1"
    by (cases "filter transforms_named ns") auto
  then have one: "transform_count n = 1" if "n \<in> set ns" "transforms_named n" for n
  proof cases
    case 1
    then show ?thesis using that by (auto simp: filter_empty_conv)
  next
    case 2
    have "n \<in> set (filter transforms_named ns)" using that by simp
    then show ?thesis using 2 by simp
  qed
  have "length (filter is_transforms ns) \<le> length (filter transforms_named ns)"
    by (induction ns) (auto simp: is_transforms_iff holds_transforms_named)
  then show ?thesis
    using assms(1,2) one by (auto simp: reference_content_def list_all_iff is_transforms_iff holds_transforms_named)
qed

subsection \<open>The whole document\<close>

definition idle :: "soapBodyReferenceTransformState \<Rightarrow> bool" where
  "idle ts \<longleftrightarrow> referenceDepth ts = - 1 \<and> transformsDepth ts = - 1 \<and> transformDepth ts = - 1"

fun no_references :: "node \<Rightarrow> bool" where
  "no_references (Element e cs) \<longleftrightarrow> \<not> isDSigReference (se_Name e) \<and> list_all no_references cs"
| "no_references _ \<longleftrightarrow> True"

lemma no_references_blank: "is_blank n \<Longrightarrow> no_references n"
  by (cases n) auto

lemma no_references_parameter: "is_parameter n \<Longrightarrow> no_references n"
  by (cases n) (auto simp: isDSigReference_def isExclusiveCanonicalizationParameter_def list_all_iff
      intro: no_references_blank)

lemma no_references_transform: "is_transform n \<Longrightarrow> no_references n"
  by (cases n) (auto simp: isDSigReference_def list_all_iff intro: no_references_blank no_references_parameter)

lemma no_references_transforms: "is_transforms n \<Longrightarrow> no_references n"
  by (cases n) (auto simp: isDSigReference_def isDSigTransforms_def list_all_iff
      intro: no_references_blank no_references_transform)

lemma no_references_ordinary: "is_ordinary n \<Longrightarrow> no_references n"
  by (induction n) (auto simp: list_all_iff)

lemma no_references_occurrences:
  "list_all no_references ns \<Longrightarrow> (anc, e, cs) \<in> set (forest_occurrences a ns) \<Longrightarrow> \<not> isDSigReference (se_Name e)"
  by (induction ns arbitrary: a rule: forest_induct) auto

lemma reference_content_occurrences:
  "reference_content ns \<Longrightarrow> (anc, e, cs) \<in> set (forest_occurrences a ns) \<Longrightarrow>
     \<not> isDirectExpectedSOAPBodyReference e k anc"
  by (rule contrapos_nn [OF no_references_occurrences])
    (auto simp: reference_content_def list_all_iff isDirectExpectedSOAPBodyReference_def Let_def
      intro: no_references_ordinary no_references_transforms)

lemma observeStart_idle:
  assumes "observeStart G e k anc ts = Inr ts'" and "idle ts"
  shows "\<not> isDirectExpectedSOAPBodyReference e k anc \<Longrightarrow> ts' = ts"
    "isDirectExpectedSOAPBodyReference e k anc \<Longrightarrow> in_ref ts' \<and> referenceDepth ts' = int (length anc) \<and>
       transformsContainerCount ts' = 0 \<and> transformElementCount ts' = 0"
  using assms by (auto simp: observeStart_def idle_def in_ref_def Let_def)

lemma observeEnd_idle: "observeEnd (int d) ts = Inr ts' \<Longrightarrow> idle ts \<Longrightarrow> ts' = ts"
  by (auto simp: observeEnd_def idle_def Let_def split: if_splits)

lemma observeEnd_reference:
  "observeEnd d ts = Inr ts' \<Longrightarrow> in_ref ts \<Longrightarrow> d = referenceDepth ts \<Longrightarrow> idle ts' \<and> ts_validate ts = None"
  by (auto simp: observeEnd_def idle_def in_ref_def Let_def split: if_splits option.splits)

lemma expected_reference_content:
  assumes "observeTokens G k (forest_tokens cs) s = Inr s'" and "list_all proper cs"
    and "in_ref (sc_transforms s)" and "int (length (sc_stack s)) = referenceDepth (sc_transforms s) + 1"
    and "transformsContainerCount (sc_transforms s) = 0" and "transformElementCount (sc_transforms s) = 0"
    and "observeEnd (referenceDepth (sc_transforms s)) (sc_transforms s') = Inr ts"
  shows "reference_content cs \<and> idle ts"
proof -
  obtain m where s': "sc_transforms s' = (sc_transforms s)\<lparr>transformsContainerCount := length (filter transforms_named cs),
      transformElementCount := sum_list (map transform_count cs), inclusiveNamespacesCount := m\<rparr>"
    and c: "transformElementCount (sc_transforms s') \<le> 1 \<longrightarrow> list_all (\<lambda>n. is_ordinary n \<or> holds_transforms n) cs"
    and le: "filter transforms_named cs \<noteq> [] \<longrightarrow> transformsContainerCount (sc_transforms s') \<le> 1"
    using in_reference [OF assms(1-4)] unfolding assms(5,6) by (elim exE conjE) simp
  have "in_ref (sc_transforms s')" "referenceDepth (sc_transforms s) = referenceDepth (sc_transforms s')"
    using assms(3) by (simp_all add: s' in_ref_def)
  from observeEnd_reference [OF assms(7) this] have e: "idle ts" "ts_validate (sc_transforms s') = None"
    by simp_all
  then have v: "filter transforms_named cs = [] \<or> sum_list (map transform_count cs) = 1"
    by (auto simp: ts_validate_def s' split: if_splits)
  have "\<not> transforms_named n \<Longrightarrow> transform_count n = 0" for n by (cases n) auto
  then have "filter transforms_named cs = [] \<Longrightarrow> sum_list (map transform_count cs) = 0"
    by (induction cs) (auto split: if_splits)
  with v have "sum_list (map transform_count cs) \<le> 1" by linarith
  then have "list_all (\<lambda>n. is_ordinary n \<or> holds_transforms n) cs" using c by (simp add: s')
  then show ?thesis
    using reference_contentI [OF _ _ v] le s' e(1) by (cases "filter transforms_named cs") auto
qed

lemma in_document:
  assumes "observeTokens G k (forest_tokens ns) s = Inr s'" and "list_all proper ns" and "idle (sc_transforms s)"
  shows "idle (sc_transforms s') \<and> (\<forall>(anc, e, cs) \<in> set (forest_occurrences (sc_stack s) ns).
    isDirectExpectedSOAPBodyReference e k anc \<longrightarrow> reference_content cs)"
  using assms
proof (induction ns arbitrary: s s' rule: forest_induct)
  case (Element e cs ns)
  from Element.prems(2) have pr: "list_all proper cs" "list_all proper ns" by simp_all
  obtain s1 s2 s3 where r: "observeStart G e k (sc_stack s) (sc_transforms s) = Inr (sc_transforms s1)"
    "sc_stack s1 = sc_stack s @ [se_Name e]"
    "observeTokens G k (forest_tokens cs) s1 = Inr s2"
    "observeEnd (int (length (sc_stack s))) (sc_transforms s2) = Inr (sc_transforms s3)"
    "sc_stack s3 = sc_stack s"
    "observeTokens G k (forest_tokens ns) s3 = Inr s'"
    using Element.prems(1) pr(1) by (rule run_transforms)
  note st = observeStart_idle [OF r(1) Element.prems(3)]
  have "idle (sc_transforms s3) \<and> (isDirectExpectedSOAPBodyReference e k (sc_stack s) \<longrightarrow> reference_content cs) \<and>
    (\<forall>(anc, f, ds) \<in> set (forest_occurrences (sc_stack s @ [se_Name e]) cs).
      isDirectExpectedSOAPBodyReference f k anc \<longrightarrow> reference_content ds)"
  proof (cases "isDirectExpectedSOAPBodyReference e k (sc_stack s)")
    case True
    from st(2) [OF True] expected_reference_content [OF r(3) pr(1)] r(2,4)
    have "reference_content cs \<and> idle (sc_transforms s3)" by simp
    then show ?thesis using reference_content_occurrences [of cs] by blast
  next
    case False
    with st(1) Element.IH(1) [OF r(3) pr(1)] r(2) Element.prems(3) observeEnd_idle [OF r(4)] show ?thesis by simp
  qed
  with Element.IH(2) [OF r(6) pr(2)] r(5) show ?case by auto
next
  case (Chars d ns)
  from Chars.IH [OF conjunct2 [OF run_chars [OF Chars.prems(1)]]] Chars.prems(2-) show ?case by simp
next
  case (Remark t ns)
  then have "observeTokens G k (forest_tokens ns) s = Inr s'" using run_remark by auto
  from Remark.IH [OF this] Remark.prems(2-) show ?case by simp
qed (auto simp: observeToken_def)

section \<open>Attribute names\<close>

lemma linear_duplicate_None:
  "distinct (map at_Name p) \<Longrightarrow> linear_duplicate p as = None \<longleftrightarrow> distinct (map at_Name (p @ as))"
proof (induction as arbitrary: p)
  case (Cons a as)
  have "list_ex (\<lambda>q. at_Name a = at_Name q) p \<longleftrightarrow> at_Name a \<in> at_Name ` set p" by (auto simp: list_ex_iff)
  with Cons show ?case by auto
qed simp

lemma map_duplicate_None:
  "map_duplicate seen as = None \<longleftrightarrow> distinct (map at_Name as) \<and> at_Name ` set as \<inter> seen = {}"
  by (induction as arbitrary: seen) auto

text \<open>Both searches decide the same property.\<close>

lemma validateUnique_None:
  "validateUniqueXMLAttributes G e = None \<longleftrightarrow> distinct (map at_Name (se_Attr e))"
  using linear_duplicate_None [of "[]" "se_Attr e"] map_duplicate_None [of "{}" "se_Attr e"]
  by (auto simp: validateUniqueXMLAttributes_def split: option.split)

lemma observe_attributes:
  "list_all proper ns \<Longrightarrow> observeTokens G k (forest_tokens ns) s = Inr s' \<Longrightarrow>
     \<forall>(anc, e, cs) \<in> set (forest_occurrences a ns). distinct (map at_Name (se_Attr e))"
proof (induction ns arbitrary: s s' a rule: forest_induct)
  case (Element e cs ns)
  obtain s1 s2 s3 where r: "observeXMLVerificationStart G e k s = Inr s1"
    "observeTokens G k (forest_tokens cs) (s1\<lparr>sc_stack := sc_stack s1 @ [se_Name e]\<rparr>) = Inr s2"
    "observeToken G k (EndElement (se_Name e)) s2 = Inr s3"
    "observeTokens G k (forest_tokens ns) s3 = Inr s'"
    using Element.prems(2) by (rule run_element)
  have "distinct (map at_Name (se_Attr e))" using observeStart_frame [OF r(1)] validateUnique_None by blast
  with Element.IH(1) [OF _ r(2), of "a @ [se_Name e]"] Element.IH(2) [OF _ r(4), of a] Element.prems(1)
  show ?case by auto
next
  case (Remark t ns)
  then show ?case using proper_remark [of t G k s] by auto
qed (auto simp: observeToken_def split: option.splits if_splits)

section \<open>An accepted SOAP document\<close>

text \<open>The only element of the document with a property.\<close>

definition only :: "node list \<Rightarrow> (occurrence \<Rightarrow> bool) \<Rightarrow> occurrence \<Rightarrow> bool" where
  "only ns P x \<longleftrightarrow> filter P (forest_occurrences [] ns) = [x]"

abbreviation named :: "(xname \<Rightarrow> bool) \<Rightarrow> occurrence \<Rightarrow> bool" where
  "named P \<equiv> \<lambda>(anc, e, cs). P (se_Name e)"

lemma only_set: "only ns P x \<Longrightarrow> {y \<in> set (forest_occurrences [] ns). P y} = {x}"
  unfolding only_def set_filter [symmetric] by simp

lemma onlyD: "only ns P x \<Longrightarrow> P x \<and> x \<in> set (forest_occurrences [] ns)"
  by (drule only_set) blast

lemma only_unique: "only ns P x \<Longrightarrow> y \<in> set (forest_occurrences [] ns) \<Longrightarrow> P y \<Longrightarrow> y = x"
  by (drule only_set) blast

lemma only_cong:
  "only ns P x \<Longrightarrow> Q x \<Longrightarrow> (\<And>y. y \<in> set (forest_occurrences [] ns) \<Longrightarrow> Q y \<Longrightarrow> P y) \<Longrightarrow> only ns Q x"
proof -
  assume x: "only ns P x" "Q x" and sub: "\<And>y. y \<in> set (forest_occurrences [] ns) \<Longrightarrow> Q y \<Longrightarrow> P y"
  have "filter Q (forest_occurrences [] ns) = filter Q (filter P (forest_occurrences [] ns))"
    unfolding filter_filter by (rule filter_cong [OF refl]) (use sub in auto)
  also have "\<dots> = [x]" using x by (simp only: only_def filter.simps if_True)
  finally show "only ns Q x" by (simp only: only_def)
qed

lemma only_length: "length (filter P (forest_occurrences [] ns)) = 1 \<Longrightarrow> \<exists>x. only ns P x"
  by (cases "filter P (forest_occurrences [] ns)") (auto simp: only_def)

text \<open>The binding: one envelope; its one Body is the only element with the identifier; the one
  signature has one \<^verbatim>\<open>SignedInfo\<close>, whose one reference to the identifier has at most
  exclusive canonicalization as its transform.\<close>

definition soap_bound :: "gostring \<Rightarrow> node list \<Rightarrow> bool" where
  "soap_bound k ns \<longleftrightarrow> (\<exists>envelope ecs body bcs sanc signature scs info ics reference rcs.
     only ns (\<lambda>(anc, e, cs). anc = []) ([], envelope, ecs) \<and> isSOAPEnvelope (se_Name envelope) \<and>
     only ns (named isSOAPBody) ([se_Name envelope], body, bcs) \<and> Element body bcs \<in> set ecs \<and>
     nm_Space (se_Name body) = nm_Space (se_Name envelope) \<and> hasWSUID body k \<and>
     only ns (\<lambda>(anc, e, cs). matchingXMLIDCount e k > 0) ([se_Name envelope], body, bcs) \<and>
     matchingXMLIDCount body k = 1 \<and>
     only ns (named isDSigSignature) (sanc, signature, scs) \<and>
     only ns (named isDSigSignedInfo) (sanc @ [se_Name signature], info, ics) \<and> Element info ics \<in> set scs \<and>
     only ns (\<lambda>(anc, e, cs). isDirectExpectedSOAPBodyReference e k anc)
       (sanc @ [se_Name signature, se_Name info], reference, rcs) \<and> Element reference rcs \<in> set ics \<and>
     referenceURI reference = ''#'' @ k \<and> reference_content rcs \<and>
     (\<forall>(anc, e, cs) \<in> set (forest_occurrences [] ns). distinct (map at_Name (se_Attr e))))"

text \<open>An element is at the top or a child of an element of the document.\<close>

lemma occurrence_parent:
  "(p, e, cs) \<in> set (forest_occurrences a ns) \<Longrightarrow> p = a \<and> Element e cs \<in> set ns \<or>
     (\<exists>anc f ds. p = anc @ [se_Name f] \<and> (anc, f, ds) \<in> set (forest_occurrences a ns) \<and> Element e cs \<in> set ds)"
proof (induction ns arbitrary: a rule: forest_induct)
  case (Element f ds ns)
  then consider "p = a" "e = f" "cs = ds" | "(p, e, cs) \<in> set (forest_occurrences (a @ [se_Name f]) ds)"
    | "(p, e, cs) \<in> set (forest_occurrences a ns)" by auto
  then show ?case
  proof cases
    case 2
    from Element.IH(1) [OF 2] show ?thesis by auto
  next
    case 3
    from Element.IH(2) [OF 3] show ?thesis by auto
  qed auto
qed auto

lemma only_parent:
  assumes "only ns P (anc @ [n], e, cs)" and "only ns (named Q) (sanc, f, ds)" and "Q n"
  shows "anc = sanc \<and> n = se_Name f \<and> Element e cs \<in> set ds"
proof -
  have "(anc @ [n], e, cs) \<in> set (forest_occurrences [] ns)" using assms(1) by (simp add: onlyD)
  from occurrence_parent [OF this] obtain g gs where g: "n = se_Name g" "(anc, g, gs) \<in> set (forest_occurrences [] ns)"
    "Element e cs \<in> set gs" by auto
  have "(anc, g, gs) = (sanc, f, ds)" by (rule only_unique [OF assms(2) g(2)]) (use assms(3) g(1) in simp)
  with g show ?thesis by simp
qed

subsection \<open>The counts of a document\<close>

definition direct_info :: "occurrence \<Rightarrow> bool" where
  "direct_info = (\<lambda>(anc, e, cs). isDSigSignedInfo (se_Name e) \<and> anc \<noteq> [] \<and> isDSigSignature (last anc))"

definition direct_body :: "xname \<Rightarrow> occurrence \<Rightarrow> bool" where
  "direct_body r = (\<lambda>(anc, e, cs). isSOAPBody (se_Name e) \<and> length anc = 1 \<and> isSOAPEnvelope r \<and>
     nm_Space (se_Name e) = nm_Space r)"

definition expected_body :: "xname \<Rightarrow> gostring \<Rightarrow> occurrence \<Rightarrow> bool" where
  "expected_body r k = (\<lambda>(anc, e, cs). direct_body r (anc, e, cs) \<and> hasWSUID e k)"

text \<open>The observation of an element, one group of counts at a time.\<close>

definition count_document :: "startElement \<Rightarrow> xname list \<Rightarrow> soapVerificationState \<Rightarrow> soapVerificationState" where
  "count_document e anc st = st\<lparr>documentElementCount := documentElementCount st + (if anc = [] then 1 else 0),
     root_name := (if anc = [] \<and> documentElementCount st = 0 then se_Name e else root_name st)\<rparr>"

definition count_signature ::
  "startElement \<Rightarrow> gostring \<Rightarrow> xname list \<Rightarrow> soapVerificationState \<Rightarrow> soapVerificationState" where
  "count_signature e k anc st = st\<lparr>expectedIDCount := expectedIDCount st + matchingXMLIDCount e k,
     signatureCount := signatureCount st + (if isDSigSignature (se_Name e) then 1 else 0),
     signedInfoCount := signedInfoCount st + (if isDSigSignedInfo (se_Name e) then 1 else 0),
     directSignedInfoCount := directSignedInfoCount st + (if direct_info (anc, e, []) then 1 else 0),
     expectedReferenceCount := expectedReferenceCount st + (if isDirectExpectedSOAPBodyReference e k anc then 1 else 0)\<rparr>"

definition count_body ::
  "startElement \<Rightarrow> gostring \<Rightarrow> xname list \<Rightarrow> soapVerificationState \<Rightarrow> soapVerificationState" where
  "count_body e k anc st = st\<lparr>soapBodyCount := soapBodyCount st + (if isSOAPBody (se_Name e) then 1 else 0),
     directSOAPBodyCount := directSOAPBodyCount st + (if direct_body (root_name st) (anc, e, []) then 1 else 0),
     expectedBodyCount := expectedBodyCount st + (if expected_body (root_name st) k (anc, e, []) then 1 else 0)\<rparr>"

lemma document_stage:
  "(if length anc = 0
    then let st = st\<lparr>documentElementCount := documentElementCount st + 1\<rparr>
         in if documentElementCount st = 1 then st\<lparr>root_name := se_Name e\<rparr> else st
    else st) = count_document e anc st"
  by (simp add: count_document_def Let_def)

lemma signature_stage:
  "(let st = st\<lparr>expectedIDCount := expectedIDCount st + matchingXMLIDCount e k\<rparr>;
        st = (if isDSigSignature (se_Name e) then st\<lparr>signatureCount := signatureCount st + 1\<rparr> else st);
        st = (if isDSigSignedInfo (se_Name e)
              then let st = st\<lparr>signedInfoCount := signedInfoCount st + 1\<rparr>
                   in if length anc > 0 \<and> isDSigSignature (anc ! (length anc - 1))
                      then st\<lparr>directSignedInfoCount := directSignedInfoCount st + 1\<rparr> else st
              else st);
        st = (if isDirectExpectedSOAPBodyReference e k anc
              then st\<lparr>expectedReferenceCount := expectedReferenceCount st + 1\<rparr> else st)
    in st) = count_signature e k anc st"
  by (simp add: count_signature_def direct_info_def last_conv_nth Let_def)

lemma body_stage:
  "(if \<not> isSOAPBody (se_Name e) then st
    else let st = st\<lparr>soapBodyCount := soapBodyCount st + 1\<rparr>
    in if length anc \<noteq> 1 \<or> \<not> isSOAPEnvelope (root_name st) \<or> nm_Space (se_Name e) \<noteq> nm_Space (root_name st) then st
    else let st = st\<lparr>directSOAPBodyCount := directSOAPBodyCount st + 1\<rparr>
    in if hasWSUID e k then st\<lparr>expectedBodyCount := expectedBodyCount st + 1\<rparr> else st) = count_body e k anc st"
  by (auto simp: count_body_def direct_body_def expected_body_def Let_def)

lemma observe_stages:
  "observeXMLVerificationElement e k anc st = count_body e k anc (count_signature e k anc (count_document e anc st))"
  unfolding observeXMLVerificationElement_def body_stage [symmetric] signature_stage [symmetric]
    document_stage [symmetric] Let_def by (rule refl)

lemma element_counts:
  fixes x :: occurrence and k :: gostring
  defines "st' \<equiv> observe_one k x"
  shows "documentElementCount (st' st) = documentElementCount st + (if (\<lambda>(anc, e, cs). anc = []) x then 1 else 0)"
    "root_name (st' st) = (if (\<lambda>(anc, e, cs). anc = []) x \<and> documentElementCount st = 0
       then se_Name (fst (snd x)) else root_name st)"
    "expectedIDCount (st' st) = expectedIDCount st + (\<lambda>(anc, e, cs). matchingXMLIDCount e k) x"
    "signatureCount (st' st) = signatureCount st + (if named isDSigSignature x then 1 else 0)"
    "signedInfoCount (st' st) = signedInfoCount st + (if named isDSigSignedInfo x then 1 else 0)"
    "directSignedInfoCount (st' st) = directSignedInfoCount st + (if direct_info x then 1 else 0)"
    "expectedReferenceCount (st' st) = expectedReferenceCount st +
       (if (\<lambda>(anc, e, cs). isDirectExpectedSOAPBodyReference e k anc) x then 1 else 0)"
    "soapBodyCount (st' st) = soapBodyCount st + (if named isSOAPBody x then 1 else 0)"
    "directSOAPBodyCount (st' st) = directSOAPBodyCount st + (if direct_body (root_name (st' st)) x then 1 else 0)"
    "expectedBodyCount (st' st) = expectedBodyCount st + (if expected_body (root_name (st' st)) k x then 1 else 0)"
  by (cases x; simp add: st'_def observe_one_def observe_stages count_document_def count_signature_def count_body_def
      direct_info_def direct_body_def expected_body_def)+

text \<open>Once the document element is known, the counts are those of the elements.\<close>

abbreviation tally :: "('a \<Rightarrow> bool) \<Rightarrow> 'a list \<Rightarrow> nat" where
  "tally P xs \<equiv> length (filter P xs)"

lemma observe_all_counts:
  fixes k :: gostring and es :: "occurrence list"
  defines "run \<equiv> observe_all k es"
  assumes "documentElementCount st > 0"
  shows "root_name (run st) = root_name st"
    "documentElementCount (run st) = documentElementCount st + tally (\<lambda>(anc, e, cs). anc = []) es"
    "expectedIDCount (run st) = expectedIDCount st + sum_list (map (\<lambda>(anc, e, cs). matchingXMLIDCount e k) es)"
    "signatureCount (run st) = signatureCount st + tally (named isDSigSignature) es"
    "signedInfoCount (run st) = signedInfoCount st + tally (named isDSigSignedInfo) es"
    "directSignedInfoCount (run st) = directSignedInfoCount st + tally direct_info es"
    "expectedReferenceCount (run st) = expectedReferenceCount st +
       tally (\<lambda>(anc, e, cs). isDirectExpectedSOAPBodyReference e k anc) es"
    "soapBodyCount (run st) = soapBodyCount st + tally (named isSOAPBody) es"
    "directSOAPBodyCount (run st) = directSOAPBodyCount st + tally (direct_body (root_name st)) es"
    "expectedBodyCount (run st) = expectedBodyCount st + tally (expected_body (root_name st) k) es"
  using assms(2) unfolding run_def
  by (induction es arbitrary: st) (simp_all add: element_counts)

text \<open>The counts of a document that starts with its document element.\<close>

lemma document_counts:
  assumes "st = observe_all k (forest_occurrences [] (Element e cs # ns)) zeroState"
  defines "all \<equiv> forest_occurrences [] (Element e cs # ns)"
  shows "documentElementCount st = tally (\<lambda>(anc, e, cs). anc = []) all"
    "expectedIDCount st = sum_list (map (\<lambda>(anc, e, cs). matchingXMLIDCount e k) all)"
    "signatureCount st = tally (named isDSigSignature) all"
    "signedInfoCount st = tally (named isDSigSignedInfo) all"
    "directSignedInfoCount st = tally direct_info all"
    "expectedReferenceCount st = tally (\<lambda>(anc, e, cs). isDirectExpectedSOAPBodyReference e k anc) all"
    "soapBodyCount st = tally (named isSOAPBody) all"
    "directSOAPBodyCount st = tally (direct_body (se_Name e)) all"
    "expectedBodyCount st = tally (expected_body (se_Name e) k) all"
  unfolding assms
  by (simp_all add: observe_all_counts element_counts zeroState_def)

section \<open>Identifiers have no surrounding space\<close>

lemma trim_left_length: "length (trim_left rs s) \<le> length s"
  by (induction rs s rule: trim_left.induct) (subst trim_left.simps, auto split: option.split)

lemma trim_left_strict: "r \<in> set rs \<Longrightarrow> r \<noteq> [] \<Longrightarrow> prefix r s \<Longrightarrow> length (trim_left rs s) < length s"
proof -
  assume r: "r \<in> set rs" "r \<noteq> []" "prefix r s"
  then have "List.find (\<lambda>r. r \<noteq> [] \<and> prefix r s) rs \<noteq> None" by (auto simp: find_None_iff)
  then obtain q where q: "List.find (\<lambda>r. r \<noteq> [] \<and> prefix r s) rs = Some q" by blast
  then have "q \<noteq> [] \<and> prefix q s" by (auto simp: find_Some_iff)
  then have "0 < length q" "length q \<le> length s" by (simp_all add: prefix_length_le)
  moreover have "length (trim_left rs s) \<le> length s - length q"
    using trim_left_length [of rs "drop (length q) s"] by (subst trim_left.simps) (simp add: q)
  ultimately show ?thesis by linarith
qed

lemma trim_left_fixed: "length (trim_left rs s) = length s \<Longrightarrow> trim_left rs s = s"
proof -
  assume "length (trim_left rs s) = length s"
  then have "List.find (\<lambda>r. r \<noteq> [] \<and> prefix r s) rs = None"
    using trim_left_strict [of _ rs s] by (auto simp: find_None_iff)
  then show ?thesis by (subst trim_left.simps) simp
qed

lemma TrimSpace_fixed:
  assumes "TrimSpace s = s" and "xml_space c"
  shows "s \<noteq> [] \<Longrightarrow> hd s \<noteq> c" "s \<noteq> [] \<Longrightarrow> last s \<noteq> c"
proof -
  let ?l = "trim_left space_runes s"
  have c: "[c] \<in> set space_runes" "[c] \<in> set (map rev space_runes)"
    using assms(2) by (auto simp: space_runes_def xml_space_def)
  have "length s \<le> length ?l"
    using trim_left_length [of "map rev space_runes" "rev ?l"] arg_cong [OF assms(1), of length]
    by (simp add: TrimSpace_def)
  then have l: "length ?l = length s" using trim_left_length [of space_runes s] by linarith
  then have r: "rev (trim_left (map rev space_runes) (rev s)) = s"
    using trim_left_fixed [OF l] assms(1) by (simp add: TrimSpace_def)
  show "hd s \<noteq> c" if "s \<noteq> []"
    using trim_left_strict [OF c(1), of s] l that by (cases s) auto
  show "last s \<noteq> c" if "s \<noteq> []"
    using trim_left_strict [OF c(2), of "rev s"] arg_cong [OF r, of length] that by (cases s rule: rev_cases) auto
qed

lemma trim_xml_identifier: "validateSOAPBodyID k = None \<Longrightarrow> k \<noteq> [] \<and> trim_xml k = k"
proof -
  assume "validateSOAPBodyID k = None"
  then have k: "TrimSpace k = k" "k \<noteq> []"
    by (auto simp: validateSOAPBodyID_def Let_def split: if_splits)
  have "\<not> xml_space (hd k)" "\<not> xml_space (last k)"
    using TrimSpace_fixed [OF k(1)] k(2) by blast+
  with k(2) have "dropWhile xml_space k = k" "dropWhile xml_space (rev k) = rev k"
    by (simp_all add: dropWhile_eq_self_iff hd_rev)
  with k(2) show ?thesis by (simp add: trim_xml_def)
qed

lemma hasWSUID_matching: "hasWSUID e k \<Longrightarrow> k \<noteq> [] \<Longrightarrow> trim_xml k = k \<Longrightarrow> matchingXMLIDCount e k > 0"
proof -
  assume h: "hasWSUID e k" "k \<noteq> []" "trim_xml k = k"
  then obtain a where a: "a \<in> set (se_Attr e)" "nm_Space (at_Name a) = xmlnsWSU" "nm_Local (at_Name a) = ''Id''"
    "at_Value a = k"
    by (auto simp: hasWSUID_def list_ex_iff)
  have "is_matching_id k a"
    using a h(3) by (auto simp: is_matching_id_def isXMLNamespaceDeclaration_def xmlnsWSU_def)
  then show ?thesis using a(1) h(2) by (auto simp: matchingXMLIDCount_def filter_empty_conv)
qed

section \<open>The binding\<close>

lemma sum_list_one:
  "sum_list (map f xs) = 1 \<Longrightarrow> \<exists>x. filter (\<lambda>x. f x > 0) xs = [x] \<and> f x = 1" for f :: "'a \<Rightarrow> nat"
proof (induction xs)
  case (Cons y ys)
  show ?case
  proof (cases "f y = 0")
    case False
    with Cons.prems have "f y = 1" "sum_list (map f ys) = 0" unfolding list.map sum_list.Cons by linarith+
    then show ?thesis by (auto simp: filter_empty_conv)
  qed (use Cons in auto)
qed simp

lemma validate_counts:
  assumes "validateSOAPVerificationState G st k = None"
  shows "documentElementCount st = 1" "signatureCount st = 1" "signedInfoCount st = 1" "directSignedInfoCount st = 1"
    "soapBodyCount st = 1" "expectedIDCount st = 1" "expectedBodyCount st = 1" "expectedReferenceCount st = 1"
  using assms by (simp_all add: validateSOAPVerificationState_def Let_def split: if_splits)

lemma the_signature:
  assumes "only ns (named isDSigSignature) s" and "only ns (named isDSigSignedInfo) i" and "only ns direct_info i'"
    and "only ns (\<lambda>(anc, e, cs). isDirectExpectedSOAPBodyReference e k anc) r"
  shows "\<exists>sanc signature scs info ics reference rcs. s = (sanc, signature, scs) \<and>
    i = (sanc @ [se_Name signature], info, ics) \<and> Element info ics \<in> set scs \<and>
    r = (sanc @ [se_Name signature, se_Name info], reference, rcs) \<and> Element reference rcs \<in> set ics \<and>
    referenceURI reference = ''#'' @ k"
proof -
  obtain sanc signature scs ianc info ics ranc reference rcs where
    x: "s = (sanc, signature, scs)" "i = (ianc, info, ics)" "r = (ranc, reference, rcs)"
    by (cases s, cases i, cases r) blast
  have "i' = i" using only_unique [OF assms(2)] onlyD [OF assms(3)] by (auto simp: direct_info_def)
  then have i: "ianc \<noteq> []" "isDSigSignature (last ianc)"
    using onlyD [OF assms(3)] x by (auto simp: direct_info_def)
  then obtain ia n where ia: "ianc = ia @ [n]" "isDSigSignature n" by (cases ianc rule: rev_cases) auto
  have p: "ia = sanc" "n = se_Name signature" "Element info ics \<in> set scs"
    using only_parent [OF assms(2) [unfolded x ia] assms(1) [unfolded x] ia(2)] by simp_all
  have r: "length ranc \<ge> 2" "isDSigSignedInfo (ranc ! (length ranc - 1))" "referenceURI reference = ''#'' @ k"
    using onlyD [OF assms(4)] x by (auto simp: isDirectExpectedSOAPBodyReference_def Let_def)
  then obtain ra m where ra: "ranc = ra @ [m]" "isDSigSignedInfo m" by (cases ranc rule: rev_cases) auto
  have "ra = ianc" "m = se_Name info" "Element reference rcs \<in> set ics"
    using only_parent [OF assms(4) [unfolded x ra] assms(2) [unfolded x] ra(2)] by simp_all
  with x ia ra p r(3) show ?thesis by simp
qed

lemma the_body:
  assumes "only ns (\<lambda>(anc, e, cs). anc = []) ([], envelope, ecs)" and "only ns (named isSOAPBody) b"
    and "only ns (expected_body (se_Name envelope) k) b'"
  shows "\<exists>body bcs. b = ([se_Name envelope], body, bcs) \<and> Element body bcs \<in> set ecs \<and>
    nm_Space (se_Name body) = nm_Space (se_Name envelope) \<and> hasWSUID body k"
proof -
  obtain anc body bcs where b: "b = (anc, body, bcs)" by (cases b) blast
  have "b' = b" using only_unique [OF assms(2)] onlyD [OF assms(3)] by (auto simp: expected_body_def direct_body_def)
  then have p: "length anc = 1" "nm_Space (se_Name body) = nm_Space (se_Name envelope)" "hasWSUID body k"
    using onlyD [OF assms(3)] b by (auto simp: expected_body_def direct_body_def)
  have "(anc, body, bcs) \<in> set (forest_occurrences [] ns)" using onlyD [OF assms(2)] b by simp
  from occurrence_parent [OF this] p(1) obtain f ds where f: "anc = [se_Name f]"
    "([], f, ds) \<in> set (forest_occurrences [] ns)" "Element body bcs \<in> set ds" by auto
  have "f = envelope \<and> ds = ecs" using only_unique [OF assms(1) f(2)] by simp
  with f p b show ?thesis by simp
qed

lemma counts_bound:
  assumes "validateSOAPVerificationState G (observe_all k (forest_occurrences [] ns) zeroState) k = None"
    and ns: "ns = Element e cs # ms" and "isSOAPEnvelope (se_Name e)" and "k \<noteq> []" and "trim_xml k = k"
    and refs: "\<forall>(anc, e, cs) \<in> set (forest_occurrences [] ns). isDirectExpectedSOAPBodyReference e k anc \<longrightarrow> reference_content cs"
    and "\<forall>(anc, e, cs) \<in> set (forest_occurrences [] ns). distinct (map at_Name (se_Attr e))"
  shows "soap_bound k ns"
proof -
  note counts = validate_counts [OF assms(1), unfolded ns document_counts [OF refl], folded ns]
  have top: "only ns (\<lambda>(anc, e, cs). anc = []) ([], e, cs)"
    using only_length [OF counts(1)] only_unique [of ns "\<lambda>(anc, e, cs). anc = []" _ "([], e, cs)"] ns by auto
  obtain s where s: "only ns (named isDSigSignature) s" using only_length [OF counts(2)] by blast
  obtain i where i: "only ns (named isDSigSignedInfo) i" using only_length [OF counts(3)] by blast
  obtain j where j: "only ns direct_info j" using only_length [OF counts(4)] by blast
  obtain r where r: "only ns (\<lambda>(anc, e, cs). isDirectExpectedSOAPBodyReference e k anc) r"
    using only_length [OF counts(8)] by blast
  obtain b where b: "only ns (named isSOAPBody) b" using only_length [OF counts(5)] by blast
  obtain b' where b': "only ns (expected_body (se_Name e) k) b'" using only_length [OF counts(7)] by blast
  obtain body bcs where body: "b = ([se_Name e], body, bcs)" "Element body bcs \<in> set cs"
    "nm_Space (se_Name body) = nm_Space (se_Name e)" "hasWSUID body k"
    using the_body [OF top b b'] by blast
  obtain x where x: "only ns (\<lambda>x. (case x of (anc, e, cs) \<Rightarrow> matchingXMLIDCount e k) > 0) x"
    "(case x of (anc, e, cs) \<Rightarrow> matchingXMLIDCount e k) = 1"
    using sum_list_one [OF counts(6)] by (auto simp: only_def)
  have "b = x" using only_unique [OF x(1)] onlyD [OF b] hasWSUID_matching [OF body(4) assms(4,5)] body(1) by auto
  then have x_eq: "x = ([se_Name e], body, bcs)" using body(1) by simp
  have ident: "only ns (\<lambda>(anc, e, cs). matchingXMLIDCount e k > 0) b" "matchingXMLIDCount body k = 1"
    using x unfolding x_eq body(1) by (simp_all add: case_prod_unfold)
  have content: "reference_content (snd (snd r))" using refs onlyD [OF r] by auto
  show ?thesis
    unfolding soap_bound_def using top assms(3,7) b body ident s i r content the_signature [OF s i j r]
    by (elim exE conjE) (intro exI conjI; simp)
qed

text \<open>The document of a decoder that reports well-nested elements, as \<^verbatim>\<open>Decoder.Token\<close>
  documents it.\<close>

definition nested_decoder :: "xmllib \<Rightarrow> bool" where
  "nested_decoder X \<longleftrightarrow> (\<forall>document. errors_is (snd (strict_tokens X document)) IoEOF \<longrightarrow>
     (\<exists>ns. list_all proper ns \<and> fst (strict_tokens X document) = forest_tokens ns))"

lemma scanRoot_forest:
  "list_all proper ns \<Longrightarrow> scanRoot (forest_tokens ns) err p = Inr (e, preamble, decoder) \<Longrightarrow>
     snd decoder = err \<and> (\<exists>cs ms. list_all proper (Element e cs # ms) \<and>
       forest_occurrences [] ns = forest_occurrences [] (Element e cs # ms) \<and>
       StartElement e # fst decoder = forest_tokens (Element e cs # ms))"
proof (induction ns arbitrary: p)
  case (Cons n ns)
  show ?case
  proof (cases n)
    case (Remark t)
    then show ?thesis using Cons by (cases t) auto
  next
    case (Element f ds)
    then show ?thesis using Cons.prems by (intro conjI exI [of _ ds] exI [of _ ns]) auto
  qed (use Cons in auto)
qed (simp split: if_splits)

lemma scanRoot_error: "scanRoot toks err p = Inr (e, preamble, decoder) \<Longrightarrow> snd decoder = err"
  by (induction toks err p rule: scanRoot.induct) (auto split: token.splits if_splits)

lemma soap_bound_cong:
  "forest_occurrences [] ns = forest_occurrences [] ms \<Longrightarrow> soap_bound k ns \<longleftrightarrow> soap_bound k ms"
  by (simp add: soap_bound_def only_def)

lemma collect_bound:
  assumes "collectSOAPVerificationState G decoder e k = Inr st" and "validateSOAPVerificationState G st k = None"
    and "StartElement e # fst decoder = forest_tokens (Element e cs # ms)" and "list_all proper (Element e cs # ms)"
    and "isSOAPEnvelope (se_Name e)" and "k \<noteq> []" and "trim_xml k = k"
  shows "soap_bound k (Element e cs # ms)"
proof -
  let ?s = "\<lparr>sc_state = zeroState, sc_transforms = inactiveTransforms, sc_stack = []\<rparr>"
  from assms(1) obtain s' where run: "observeTokens G k (StartElement e # fst decoder) ?s = Inr s'" "st = sc_state s'"
    by (auto simp: collectSOAPVerificationState_def observeToken_def observeXMLVerificationStart_def
        split: sum.splits option.splits if_splits)
  note run = run(1) [unfolded assms(3)] run(2)
  have "idle (sc_transforms ?s)" by (simp add: idle_def inactiveTransforms_def)
  from in_document [OF run(1) assms(4) this] have refs: "\<forall>(anc, f, ds) \<in> set (forest_occurrences [] (Element e cs # ms)).
      isDirectExpectedSOAPBodyReference f k anc \<longrightarrow> reference_content ds" by simp
  have st: "st = observe_all k (forest_occurrences [] (Element e cs # ms)) zeroState"
    using observe_forest [OF assms(4) run(1)] run(2) by simp
  from counts_bound [OF assms(2) [unfolded st] refl assms(5-7) refs observe_attributes [OF assms(4) run(1)]]
  show ?thesis .
qed

lemma verification_structure_bound:
  assumes "nested_decoder X" and "k \<noteq> []" and "validateXMLVerificationStructure G X document k = None"
  shows "\<exists>ns. list_all proper ns \<and> fst (strict_tokens X (trim_bom document)) = forest_tokens ns \<and> soap_bound k ns"
proof -
  obtain toks err where d: "strict_tokens X (trim_bom document) = (toks, err)" by (cases "strict_tokens X (trim_bom document)")
  from assms(2,3) have "validateSOAPBodyID k = None"
    by (auto simp: validateXMLVerificationStructure_def split: option.splits)
  then have k: "trim_xml k = k" using trim_xml_identifier by blast
  from assms(2,3) obtain e preamble decoder st where
    r: "scanXMLDocumentRoot (toks, err) = Inr (e, preamble, decoder)" "isSOAPEnvelope (se_Name e)"
      "collectSOAPVerificationState G decoder e k = Inr st" "validateSOAPVerificationState G st k = None"
    by (auto simp: validateXMLVerificationStructure_def validateXMLVerificationRoot_def Let_def d
        split: option.splits sum.splits if_splits prod.splits)
  have "errors_is (snd decoder) IoEOF"
    using r(3) by (auto simp: collectSOAPVerificationState_def split: sum.splits if_splits)
  then have "errors_is err IoEOF" using r(1) scanRoot_error by (auto simp: scanXMLDocumentRoot_def)
  with assms(1) d obtain ns where ns: "list_all proper ns" "toks = forest_tokens ns"
    by (auto simp: nested_decoder_def dest!: spec [of _ "trim_bom document"])
  from scanRoot_forest [OF ns(1) r(1) [unfolded scanXMLDocumentRoot_def fst_conv snd_conv ns(2)]] obtain cs ms where
    m: "list_all proper (Element e cs # ms)" "forest_occurrences [] ns = forest_occurrences [] (Element e cs # ms)"
      "StartElement e # fst decoder = forest_tokens (Element e cs # ms)" by blast
  from collect_bound [OF r(3,4) m(3,1) r(2) assms(2) k] m(2) have "soap_bound k ns"
    using soap_bound_cong by blast
  with ns d show ?thesis by auto
qed

end
