(* ===== verification/XML_Operations.thy ===== *)
theory XML_Operations
  imports XML_Binding Kalkan_Operations
begin

text \<open>
  The XML operations of the public client (\<^verbatim>\<open>xml.go\<close>): signing, WS-Security signing and
  verification. The theorems connect the structural checks of \<open>XML_Binding\<close> to the document the
  library verifies, and describe what the library is given to sign.
\<close>

section \<open>Input and flags\<close>

definition XMLInclC14N :: Flag where "XMLInclC14N = 0x01000001"
definition XMLInclC14NComment :: Flag where "XMLInclC14NComment = 0x01000002"
definition XMLInclC14N11 :: Flag where "XMLInclC14N11 = 0x01000004"
definition XMLInclC14N11Comment :: Flag where "XMLInclC14N11Comment = 0x01000008"
definition XMLExclC14N :: Flag where "XMLExclC14N = 0x01000010"
definition XMLExclC14NComment :: Flag where "XMLExclC14NComment = 0x01000020"

definition xmlCanonicalizationFlag :: "goint \<Rightarrow> gerror + Flag" where
  "xmlCanonicalizationFlag canonicalization =
     (if canonicalization = 0 then Inr XMLInclC14N
      else if canonicalization = 1 then Inr XMLInclC14NComment
      else if canonicalization = 2 then Inr XMLInclC14N11
      else if canonicalization = 3 then Inr XMLInclC14N11Comment
      else if canonicalization = 4 then Inr XMLExclC14N
      else if canonicalization = 5 then Inr XMLExclC14NComment
      else Inl (unknown ''XML canonicalization'' canonicalization))"

definition xmlSignatureFlags :: "goint \<Rightarrow> goint \<Rightarrow> gerror + Flag" where
  "xmlSignatureFlags canonicalization check = (case xmlCanonicalizationFlag canonicalization of
     Inl err \<Rightarrow> Inl err
   | Inr flags \<Rightarrow> (case certificateTimeCheckFlag check of
       Inl err \<Rightarrow> Inl err
     | Inr checkFlags \<Rightarrow> Inr (flags OR checkFlags)))"

definition xmlInput :: "Source \<Rightarrow> int \<Rightarrow> gerror + slice" where
  "xmlInput source maxInputSize =
     (if \<not> s_set source then Inl (invalidInput ''XML source is required'')
      else if s_file source then Inl (invalidInput ''XML file sources are not supported'')
      else case validateEncoding (s_encoding source) of Some err \<Rightarrow> Inl err | None \<Rightarrow>
      if s_encoding source \<noteq> EncodingAuto \<and> s_encoding source \<noteq> EncodingRaw
      then Inl (invalidInput (''XML source encoding '' @ format_int (sint (s_encoding source)) @ '' is not supported''))
      else case validateMemorySourceSize source ''XML input'' maxInputSize of Some err \<Rightarrow> Inl err | None \<Rightarrow>
      (case bytesOrPath source of
         Inl err \<Rightarrow> Inl err
       | Inr input \<Rightarrow> if TrimSpace (str_of input) = [] then Inl (invalidInput ''XML input is empty'') else Inr input))"

section \<open>Operations\<close>

definition Client_SignXML ::
  "'w loader \<Rightarrow> int \<Rightarrow> call_context \<Rightarrow> SignXMLRequest \<Rightarrow> ('w session, gerror + SignedXML) state" where
  "Client_SignXML L maxInputSize x req =
     guarded (at_entry x) (
     guarded (first_error (\<lambda>(name, v). rejectEmbeddedNUL name v)
        [(''alias'', sxr_Alias req), (''XML sign node ID'', sxr_SignNodeID req),
         (''XML parent sign node'', sxr_ParentSignNode req), (''XML parent namespace'', sxr_ParentNamespace req)]) (
     checked (xmlInput (sxr_XML req) maxInputSize) (\<lambda>input.
     checked (xmlSignatureFlags (sxr_Canonicalization req) (sxr_CertificateTimeCheck req)) (\<lambda>flags.
     mapped (\<lambda>out. \<lparr>sx_XML = out\<rparr>) (withLockedLibrary x (\<lambda>c. natively (SignXML L c
       \<lparr>snx_Alias = sxr_Alias req, snx_Flags = flags, snx_XML = input, snx_SignNodeID = sxr_SignNodeID req,
        snx_ParentSignNode = sxr_ParentSignNode req, snx_ParentNamespace = sxr_ParentNamespace req,
        snx_OutputCapacity = 0\<rparr>)))))))"

definition Client_VerifyXML ::
  "golib \<Rightarrow> xmllib \<Rightarrow> 'w loader \<Rightarrow> int \<Rightarrow> call_context \<Rightarrow> VerifyXMLRequest \<Rightarrow>
     ('w session, gerror + Verification) state" where
  "Client_VerifyXML G X L maxInputSize x req =
     guarded (at_entry x) (
     guarded (rejectEmbeddedNUL ''alias'' (vxr_Alias req)) (
     checked (xmlInput (vxr_XML req) maxInputSize) (\<lambda>input.
     checked (xmlSignatureFlags (vxr_Canonicalization req) (vxr_CertificateTimeCheck req)) (\<lambda>flags.
     guarded (validateXMLVerificationStructure G X (str_of input) (vxr_ExpectedBodyID req)) (
     mapped (\<lambda>info. \<lparr>vf_Info = str_of info, vf_Data = None, vf_SignerCert = None\<rparr>)
       (withLockedLibrary x (\<lambda>c. natively (VerifyXML L c (vxr_Alias req) flags input))))))))"

text \<open>The document that is signed: the input itself or a new envelope around it.\<close>

definition wsseInput :: "xmllib \<Rightarrow> int \<Rightarrow> SignWSSERequest \<Rightarrow> slice \<Rightarrow> gerror + slice" where
  "wsseInput X maxInputSize req input =
     (if swr_WrapSOAP req
      then (case wrapSOAPBody X (str_of input) (swr_BodyID req) of
              Inl err \<Rightarrow> Inl err
            | Inr wrapped \<Rightarrow> (case validateBytesSize (Some wrapped) ''WSSE XML input'' maxInputSize of
                Some err \<Rightarrow> Inl err
              | None \<Rightarrow> Inr (Some wrapped)))
      else Inr input)"

definition Client_SignWSSE ::
  "xmllib \<Rightarrow> 'w loader \<Rightarrow> int \<Rightarrow> call_context \<Rightarrow> SignWSSERequest \<Rightarrow> ('w session, gerror + SignedXML) state" where
  "Client_SignWSSE X L maxInputSize x req =
     guarded (at_entry x) (
     guarded (rejectEmbeddedNUL ''alias'' (swr_Alias req)) (
     checked (xmlInput (swr_XML req) maxInputSize) (\<lambda>input.
     guarded (validateSOAPBodyID (swr_BodyID req)) (
     checked (wsseInput X maxInputSize req input) (\<lambda>input.
     checked (xmlSignatureFlags (swr_Canonicalization req) (swr_CertificateTimeCheck req)) (\<lambda>flags.
     mapped (\<lambda>out. \<lparr>sx_XML = out\<rparr>) (withLockedLibrary x (\<lambda>c. natively (SignWSSE L c
       \<lparr>sw_Alias = swr_Alias req, sw_Flags = flags, sw_XML = input, sw_SignNodeID = swr_BodyID req,
        sw_OutputCapacity = 0\<rparr>)))))))))"

section \<open>Verification\<close>

lemma text_call_returned:
  assumes "fst (run_state (text_call L f name initial call) w) = Inr out"
  shows "\<exists>data. call_returned call (outputBufferLimit (maxBufferSize f)) data \<and> out = BeforeNUL data"
proof -
  from assms obtain data where d: "fst (run_state (buffer_call L f name initial call) w) = Inr data" "out = BeforeNUL data"
    by (auto simp: text_call_def split: sum.splits)
  from callBufferLoop_returned [OF bounded_range d(1) [unfolded callBufferWithCapacityLocked_def]] d(2)
  show ?thesis by blast
qed

lemma VerifyXML_verified:
  assumes "fst (run_state (VerifyXML L c alias flags xml) w) = Inr info"
  shows "is_open c \<and> (\<exists>nativeFlags data. flagsToNativeInt flags = Inr nativeFlags \<and> info = BeforeNUL data \<and>
    call_returned (\<lambda>capacity. n_VerifyXML (native L) \<lparr>vxc_Alias = alias, vxc_Flags = nativeFlags, vxc_XML = xml,
      vxc_Capacity = capacity\<rparr>) (outputBufferLimit (maxBufferSize (cfg (the c)))) data)"
proof -
  from checked_Inr [OF assms [unfolded VerifyXML_def]] obtain n where n: "flagsToNativeInt flags = Inr n"
    "fst (run_state (with_context L c xmlContext ''VerifyXML'' (\<lambda>f. text_call L f ''VerifyXML''
       (outputInitialCapacity f initialInfoOutputBuffer) (\<lambda>capacity. n_VerifyXML (native L)
         \<lparr>vxc_Alias = alias, vxc_Flags = n, vxc_XML = xml, vxc_Capacity = capacity\<rparr>))) w) = Inr info" by blast
  note ctx = with_context_Inr [OF n(2)]
  from text_call_returned [OF ctx(2)] n(1) ctx(1) show ?thesis by blast
qed

lemma SignWSSE_signed:
  assumes "fst (run_state (SignWSSE L c req) w) = Inr out"
  shows "is_open c \<and> (\<exists>nativeFlags data. flagsToNativeUnsignedLong (sw_Flags req) = Inr nativeFlags \<and> out = BeforeNUL data \<and>
    call_returned (\<lambda>capacity. n_SignWSSE (native L) \<lparr>swc_Alias = sw_Alias req, swc_Flags = nativeFlags,
      swc_XML = sw_XML req, swc_SignNodeID = sw_SignNodeID req, swc_Capacity = capacity\<rparr>)
      (outputBufferLimit (maxBufferSize (cfg (the c)))) data)"
proof -
  from checked_Inr [OF assms [unfolded SignWSSE_def]] obtain n where n: "flagsToNativeUnsignedLong (sw_Flags req) = Inr n"
    "fst (run_state (with_context L c xmlContext ''SignWSSE'' (\<lambda>f. text_call L f ''SignWSSE''
       (signedXMLOutputInitialCapacity f (sw_OutputCapacity req) (sw_XML req)) (\<lambda>capacity. n_SignWSSE (native L)
         \<lparr>swc_Alias = sw_Alias req, swc_Flags = n, swc_XML = sw_XML req, swc_SignNodeID = sw_SignNodeID req,
          swc_Capacity = capacity\<rparr>))) w) = Inr out" by blast
  note ctx = with_context_Inr [OF n(2)]
  from text_call_returned [OF ctx(2)] n(1) ctx(1) show ?thesis by blast
qed

lemma xmlInput_Inr:
  "xmlInput source limit = Inr input \<Longrightarrow> input = s_data source \<and> \<not> s_file source \<and> within limit source"
  by (auto simp: xmlInput_def bytesOrPath_def within_def validateMemorySourceSize_def validateBytesSize_def
      validateInputSize_def split: if_splits option.splits sum.splits)

lemma unbound_not_soap:
  assumes "validateXMLVerificationStructure G X document [] = None"
    and "scanXMLDocumentRoot (strict_tokens X (trim_bom document)) = Inr (e, preamble, decoder)"
  shows "\<not> isSOAPEnvelope (se_Name e)"
  using assms by (auto simp: validateXMLVerificationStructure_def validateXMLVerificationRoot_def Let_def)


section \<open>Wrapping\<close>

text \<open>Markup characters are single bytes, and no byte of a longer encoding is one of them.\<close>

lemma runes_step:
  assumes "runes (b # bs) = Some rs"
  shows "\<exists>more rest r rs'. b # bs = b # more @ rest \<and> runes rest = Some rs' \<and> rs = r # rs' \<and>
    (\<forall>c \<in> set more. 0x80 \<le> c) \<and> (if b < 0x80 then r = b else True)"
proof (cases "b < 0x80")
  case True
  with assms show ?thesis by (intro exI [of _ "[]"] exI [of _ bs]) auto
next
  case False
  then obtain c cs where 1: "bs = c # cs" using assms by (cases bs) auto
  show ?thesis
  proof (cases "0xC2 \<le> b \<and> b \<le> 0xDF")
    case True
    with assms False 1 show ?thesis
      by (intro exI [of _ "[c]"] exI [of _ cs]) (auto simp: continuation_def split: if_splits)
  next
    case two: False
    with assms False 1 obtain d ds where 2: "cs = d # ds" by (cases cs) auto
    show ?thesis
    proof (cases "0xE0 \<le> b \<and> b \<le> 0xEF")
      case True
      with assms False 1 2 two show ?thesis
        by (intro exI [of _ "[c, d]"] exI [of _ ds]) (auto simp: continuation_def split: if_splits)
    next
      case three: False
      with assms False 1 2 two obtain e es where "ds = e # es" by (cases ds) auto
      with assms False 1 2 two three show ?thesis
        by (intro exI [of _ "[c, d, e]"] exI [of _ es]) (auto simp: continuation_def split: if_splits)
    qed
  qed
qed

lemma runes_ascii: "runes bs = Some rs \<Longrightarrow> b \<in> set bs \<Longrightarrow> b < 0x80 \<Longrightarrow> b \<in> set rs"
proof (induction "length bs" arbitrary: bs rs rule: less_induct)
  case less
  then obtain a as where bs: "bs = a # as" by (cases bs) auto
  from runes_step [OF less.prems(1) [unfolded bs]] obtain more rest r rs' where
    r: "as = more @ rest" "runes rest = Some rs'" "rs = r # rs'" "\<forall>c \<in> set more. 0x80 \<le> c"
    "if a < 0x80 then r = a else True" by auto
  have "length rest < length bs" by (simp add: bs r(1))
  from less.hyps [OF this r(2)] less.prems(2,3) bs r show ?case by (auto split: if_splits)
qed

lemma NCName_no_markup:
  assumes "isXMLNCName k" and "c \<in> {CHR 0x22, CHR 0x26, CHR 0x3C, CHR 0x3E}"
  shows "c \<notin> set k"
proof
  assume "c \<in> set k"
  from assms(1) obtain rs where rs: "runes (map of_char k) = Some rs" "list_all isXMLNameChar rs"
    by (auto simp: isXMLNCName_def isXMLNameChar_def split: option.splits list.splits)
  have n: "of_char c \<in> {0x22, 0x26, 0x3C, 0x3E :: nat}" using assms(2) by auto
  then have "of_char c \<in> set rs" using runes_ascii [OF rs(1), of "of_char c"] \<open>c \<in> set k\<close> by auto
  then have "isXMLNameChar (of_char c)" using rs(2) by (auto simp: list_all_iff)
  then show False using n by (auto simp: isXMLNameChar_def isXMLNameStart_def)
qed

fun is_space_text :: "node \<Rightarrow> bool" where
  "is_space_text (Chars d) \<longleftrightarrow> blank d"
| "is_space_text _ \<longleftrightarrow> False"

text \<open>Inside an element the scan of the payload only counts.\<close>

lemma singleElement_inside:
  "list_all proper ns \<Longrightarrow> 0 < depth \<Longrightarrow>
     singleElement (forest_tokens ns @ rest) err roots depth = singleElement rest err roots depth"
proof (induction ns arbitrary: depth rest rule: forest_induct)
  case (Remark t ns)
  then show ?case by (cases t) auto
qed auto

lemma singleElement_after:
  "list_all proper ns \<Longrightarrow> singleElement (forest_tokens ns) err 1 0 = None \<Longrightarrow> list_all is_space_text ns"
proof (induction ns rule: forest_induct)
  case (Remark t ns)
  then show ?case by (cases t) auto
qed (auto split: if_splits)

lemma singleElement_forest:
  "list_all proper ns \<Longrightarrow> singleElement (forest_tokens ns) err 0 0 = None \<Longrightarrow>
     \<exists>before e cs after. ns = before @ Element e cs # after \<and> list_all is_space_text (before @ after)"
proof (induction ns)
  case (Cons n ns)
  show ?case
  proof (cases n)
    case (Element e cs)
    with Cons.prems have "singleElement (forest_tokens ns) err 1 0 = None"
      by (simp add: singleElement_inside)
    with Cons.prems(1) have "list_all is_space_text ns" using singleElement_after by simp
    with Element show ?thesis by (intro exI [of _ "[]"]) auto
  next
    case (Chars d)
    with Cons obtain before e cs after where "ns = before @ Element e cs # after" "list_all is_space_text (before @ after)"
      and d: "blank d" by (auto split: if_splits)
    with Chars show ?thesis by (intro exI [of _ "n # before"]) auto
  next
    case (Remark t)
    with Cons show ?thesis by (cases t) auto
  qed (use Cons in auto)
qed (simp split: if_splits)

definition single_element :: "xmllib \<Rightarrow> bytes \<Rightarrow> bool" where
  "single_element X payload \<longleftrightarrow> (\<exists>before e cs after. list_all is_space_text (before @ after) \<and>
     fst (strict_tokens X payload) = forest_tokens (before @ Element e cs # after))"

lemma singleElement_EOF: "singleElement toks err roots depth = None \<Longrightarrow> errors_is err IoEOF"
  by (induction toks err roots depth rule: singleElement.induct) (auto split: token.splits if_splits)

lemma validateSingle_sound:
  assumes "nested_decoder X" and "validateSingleXMLElement X payload = None"
  shows "single_element X payload"
proof -
  obtain toks err where d: "strict_tokens X payload = (toks, err)" by (cases "strict_tokens X payload")
  with assms(2) have s: "singleElement toks err 0 0 = None"
    by (auto simp: validateSingleXMLElement_def split: if_splits)
  with singleElement_EOF [OF s] assms(1) d obtain ns where ns: "list_all proper ns" "toks = forest_tokens ns"
    by (auto simp: nested_decoder_def dest!: spec [of _ payload])
  from singleElement_forest [OF ns(1) s [unfolded ns(2)]] d ns(2) show ?thesis
    unfolding single_element_def by auto
qed


section \<open>A sample document\<close>

definition sample_element :: "gostring \<Rightarrow> gostring \<Rightarrow> xattr list \<Rightarrow> node list \<Rightarrow> node" where
  "sample_element space local attrs cs =
     Element \<lparr>se_Name = \<lparr>nm_Space = space, nm_Local = local\<rparr>, se_Attr = attrs\<rparr> cs"

definition sample_attr :: "gostring \<Rightarrow> gostring \<Rightarrow> gostring \<Rightarrow> xattr" where
  "sample_attr space local v = \<lparr>at_Name = \<lparr>nm_Space = space, nm_Local = local\<rparr>, at_Value = v\<rparr>"

definition sample_document :: "node list" where
  "sample_document = [sample_element xmlnsSOAP ''Envelope'' []
     [sample_element xmlnsSOAP ''Header'' []
        [sample_element xmlnsDSig ''Signature'' []
           [sample_element xmlnsDSig ''SignedInfo'' []
              [sample_element xmlnsDSig ''Reference'' [sample_attr [] ''URI'' ''#b1'']
                 [sample_element xmlnsDSig ''Transforms'' []
                    [sample_element xmlnsDSig ''Transform''
                       [sample_attr [] ''Algorithm'' xmlAlgorithmExclusiveCanonicalization] []]]]]],
      sample_element xmlnsSOAP ''Body'' [sample_attr xmlnsWSU ''Id'' ''b1''] []]]"

definition sample_xmllib :: xmllib where
  "sample_xmllib = \<lparr>strict_tokens = \<lambda>_. (forest_tokens sample_document, Sentinel IoEOF),
     compat_tokens = \<lambda>_. (forest_tokens sample_document, Sentinel IoEOF)\<rparr>"

lemma sample_nested: "nested_decoder sample_xmllib"
  by (auto simp: nested_decoder_def sample_xmllib_def sample_document_def sample_element_def intro!: exI [of _ sample_document])

lemma sample_identifier: "validateSOAPBodyID ''b1'' = None"
proof -
  have "TrimSpace ''b1'' = ''b1''" by code_simp
  moreover have "isXMLNCName ''b1''" by (simp add: isXMLNCName_def isXMLNameStart_def isXMLNameChar_def)
  ultimately show ?thesis by (simp add: validateSOAPBodyID_def)
qed

lemma sample_root:
  "scanXMLDocumentRoot (forest_tokens sample_document, Sentinel IoEOF) =
     Inr (\<lparr>se_Name = \<lparr>nm_Space = xmlnsSOAP, nm_Local = ''Envelope''\<rparr>, se_Attr = []\<rparr>,
          \<lparr>hasDirective = False, hasNonWhitespaceText = False\<rparr>, (tl (forest_tokens sample_document), Sentinel IoEOF))"
  by (simp add: scanXMLDocumentRoot_def sample_document_def sample_element_def)

lemma sample_collected:
  "(case collectSOAPVerificationState sample_golib (tl (forest_tokens sample_document), Sentinel IoEOF)
      \<lparr>se_Name = \<lparr>nm_Space = xmlnsSOAP, nm_Local = ''Envelope''\<rparr>, se_Attr = []\<rparr> ''b1'' of
    Inl err \<Rightarrow> Some err | Inr st \<Rightarrow> validateSOAPVerificationState sample_golib st ''b1'') = None"
  by code_simp

lemma sample_accepted: "validateXMLVerificationStructure sample_golib sample_xmllib ''<x/>'' ''b1'' = None"
  by (simp add: validateXMLVerificationStructure_def sample_identifier sample_xmllib_def sample_root
      validateXMLVerificationRoot_def isSOAPEnvelope_def sample_collected)

lemma sample_single: "wrapSOAPBody sample_xmllib ''<x/>'' ''b1'' =
    Inr (soapEnvelopePrefix @ ''b1'' @ [CHR 0x22, CHR 0x3E] @ ''<x/>'' @ soapEnvelopeBodySuffix)"
proof -
  have "validateSingleXMLElement sample_xmllib ''<x/>'' = None" by code_simp
  then show ?thesis by (simp add: wrapSOAPBody_def sample_identifier)
qed

lemma sample_text_call:
  "fst (run_state (text_call sample_loader c name initial (\<lambda>_. empty_result)) w) = Inr (Some [])"
proof -
  have "0 < boundedOutputCapacity initial (maxBufferSize c)" using bounded_range by blast
  then show ?thesis
    by (simp add: text_call_def callBufferWithCapacityLocked_def)
      (subst callBufferLoop.simps, simp add: sample_loader_def sample_context_def empty_result_def ErrorOK_def
        ErrorBufferTooSmall_def shouldRetryOutput_def wrapCodeLocked_def validateNativeOutputDataLength_def BeforeNUL_def)
qed

definition sample_verify_xml :: VerifyXMLRequest where
  "sample_verify_xml = \<lparr>vxr_Alias = ''key'', vxr_XML = Bytes (Some ''<x/>''), vxr_ExpectedBodyID = ''b1'',
     vxr_Canonicalization = 4, vxr_CertificateTimeCheck = 0\<rparr>"

definition sample_wsse :: SignWSSERequest where
  "sample_wsse = \<lparr>swr_Alias = ''key'', swr_XML = Bytes (Some ''<x/>''), swr_BodyID = ''b1'',
     swr_WrapSOAP = True, swr_Canonicalization = 4, swr_CertificateTimeCheck = 0\<rparr>"

lemma sample_xml_input: "xmlInput (Bytes (Some ''<x/>'')) 0 = Inr (Some ''<x/>'')"
  by code_simp

lemma sample_xml_flags: "xmlSignatureFlags 4 0 = Inr XMLExclC14N"
  "flagsToNativeInt XMLExclC14N = Inr 0x01000010" "flagsToNativeUnsignedLong XMLExclC14N = Inr 0x01000010"
  by code_simp+

lemma sample_xml_native:
  "n_VerifyXML (native sample_loader) = (\<lambda>_. empty_result)" "n_SignWSSE (native sample_loader) = (\<lambda>_. empty_result)"
  by (simp_all add: sample_loader_def sample_context_def)



end
