(* ===== verification/Certificate_Info.thy ===== *)
theory Certificate_Info
  imports XML_Operations DER
begin

text \<open>
  Certificate information (\<^verbatim>\<open>certificate_info.go\<close>): the properties of a certificate read
  from the library through the one-entry PEM cache, the details derived from them, and the signer
  certificates of a CMS or XML document. The theorems show that the cache is invisible and that a
  list of signers is never cut short.
\<close>

section \<open>Fields\<close>

type_synonym CertificateInfoField = uint64

record certificateInfoProperty =
  ip_field :: CertificateInfoField
  ip_prop :: goint
  ip_optional :: bool

text \<open>Bit \<open>i\<close> of the mask, in the order of the constants.\<close>

definition info_field :: "nat \<Rightarrow> CertificateInfoField" where
  "info_field i = push_bit i 1"

definition CertificateInfoSubject :: CertificateInfoField where "CertificateInfoSubject = info_field 0"
definition CertificateInfoSerialNumber :: CertificateInfoField where "CertificateInfoSerialNumber = info_field 1"
definition CertificateInfoValidFrom :: CertificateInfoField where "CertificateInfoValidFrom = info_field 2"
definition CertificateInfoValidUntil :: CertificateInfoField where "CertificateInfoValidUntil = info_field 3"
definition CertificateInfoIssuer :: CertificateInfoField where "CertificateInfoIssuer = info_field 4"
definition CertificateInfoPolicy :: CertificateInfoField where "CertificateInfoPolicy = info_field 5"
definition CertificateInfoKeyUsage :: CertificateInfoField where "CertificateInfoKeyUsage = info_field 6"
definition CertificateInfoExtKeyUsage :: CertificateInfoField where "CertificateInfoExtKeyUsage = info_field 7"
definition CertificateInfoAuthKeyID :: CertificateInfoField where "CertificateInfoAuthKeyID = info_field 8"
definition CertificateInfoSubjKeyID :: CertificateInfoField where "CertificateInfoSubjKeyID = info_field 9"
definition CertificateInfoAlgorithmSignCert :: CertificateInfoField where "CertificateInfoAlgorithmSignCert = info_field 10"
definition CertificateInfoPublicKey :: CertificateInfoField where "CertificateInfoPublicKey = info_field 11"
definition CertificateInfoOCSPURL :: CertificateInfoField where "CertificateInfoOCSPURL = info_field 12"
definition CertificateInfoCRLURL :: CertificateInfoField where "CertificateInfoCRLURL = info_field 13"
definition CertificateInfoDeltaCRLURL :: CertificateInfoField where "CertificateInfoDeltaCRLURL = info_field 14"
definition CertificateInfoSubjectCountry :: CertificateInfoField where "CertificateInfoSubjectCountry = info_field 15"
definition CertificateInfoSubjectSerialNumber :: CertificateInfoField where "CertificateInfoSubjectSerialNumber = info_field 16"
definition CertificateInfoSubjectOrganization :: CertificateInfoField where "CertificateInfoSubjectOrganization = info_field 17"
definition CertificateInfoSubjectOrganizationalUnit :: CertificateInfoField where
  "CertificateInfoSubjectOrganizationalUnit = info_field 18"

definition CertificateInfoAllFields :: CertificateInfoField where
  "CertificateInfoAllFields = foldr (OR)
     [CertificateInfoSubject, CertificateInfoSerialNumber, CertificateInfoValidFrom, CertificateInfoValidUntil,
      CertificateInfoIssuer, CertificateInfoPolicy, CertificateInfoKeyUsage, CertificateInfoExtKeyUsage,
      CertificateInfoAuthKeyID, CertificateInfoSubjKeyID, CertificateInfoAlgorithmSignCert, CertificateInfoPublicKey,
      CertificateInfoOCSPURL, CertificateInfoCRLURL, CertificateInfoDeltaCRLURL, CertificateInfoSubjectCountry,
      CertificateInfoSubjectSerialNumber, CertificateInfoSubjectOrganization,
      CertificateInfoSubjectOrganizationalUnit] 0"

text \<open>The property selectors the table uses.\<close>

definition CertPropSubjectCountryName :: goint where "CertPropSubjectCountryName = 0x807"
definition CertPropSubjectSerialNumber :: goint where "CertPropSubjectSerialNumber = 0x80d"
definition CertPropSubjectOrgName :: goint where "CertPropSubjectOrgName = 0x80f"
definition CertPropSubjectOrgUnitName :: goint where "CertPropSubjectOrgUnitName = 0x810"
definition CertPropNotBefore :: goint where "CertPropNotBefore = 0x813"
definition CertPropNotAfter :: goint where "CertPropNotAfter = 0x814"
definition CertPropKeyUsage :: goint where "CertPropKeyUsage = 0x815"
definition CertPropExtKeyUsage :: goint where "CertPropExtKeyUsage = 0x816"
definition CertPropAuthKeyID :: goint where "CertPropAuthKeyID = 0x817"
definition CertPropSubjKeyID :: goint where "CertPropSubjKeyID = 0x818"
definition CertPropCertSN :: goint where "CertPropCertSN = 0x819"
definition CertPropIssuerDN :: goint where "CertPropIssuerDN = 0x81a"
definition CertPropSubjectDN :: goint where "CertPropSubjectDN = 0x81b"
definition CertPropSignatureAlg :: goint where "CertPropSignatureAlg = 0x81c"
definition CertPropPubKey :: goint where "CertPropPubKey = 0x81d"
definition CertPropPoliciesID :: goint where "CertPropPoliciesID = 0x81e"
definition CertPropOCSP :: goint where "CertPropOCSP = 0x81f"
definition CertPropGetCRL :: goint where "CertPropGetCRL = 0x820"
definition CertPropGetDeltaCRL :: goint where "CertPropGetDeltaCRL = 0x821"

text \<open>The table in the order of the requests.\<close>

definition certificateInfoProperties :: "certificateInfoProperty list" where
  "certificateInfoProperties = map (\<lambda>(f, p, opt). \<lparr>ip_field = f, ip_prop = p, ip_optional = opt\<rparr>)
     [(CertificateInfoSubject, CertPropSubjectDN, False), (CertificateInfoSerialNumber, CertPropCertSN, False),
      (CertificateInfoValidFrom, CertPropNotBefore, False), (CertificateInfoValidUntil, CertPropNotAfter, False),
      (CertificateInfoIssuer, CertPropIssuerDN, False), (CertificateInfoPolicy, CertPropPoliciesID, False),
      (CertificateInfoSubjectCountry, CertPropSubjectCountryName, True), (CertificateInfoSubjectSerialNumber, CertPropSubjectSerialNumber, True),
      (CertificateInfoSubjectOrganization, CertPropSubjectOrgName, True), (CertificateInfoSubjectOrganizationalUnit, CertPropSubjectOrgUnitName, True),
      (CertificateInfoKeyUsage, CertPropKeyUsage, False), (CertificateInfoExtKeyUsage, CertPropExtKeyUsage, False),
      (CertificateInfoAuthKeyID, CertPropAuthKeyID, False), (CertificateInfoSubjKeyID, CertPropSubjKeyID, False),
      (CertificateInfoAlgorithmSignCert, CertPropSignatureAlg, False), (CertificateInfoPublicKey, CertPropPubKey, False),
      (CertificateInfoOCSPURL, CertPropOCSP, True), (CertificateInfoCRLURL, CertPropGetCRL, True),
      (CertificateInfoDeltaCRLURL, CertPropGetDeltaCRL, True)]"

definition noInfo :: CertificateInfo where
  "noInfo = \<lparr>ci_Subject = [], ci_SerialNumber = [], ci_ValidFrom = zero_time, ci_ValidUntil = zero_time,
     ci_Issuer = [], ci_Policy = [], ci_KeyUsage = [], ci_ExtKeyUsage = [], ci_AuthKeyID = [], ci_SubjKeyID = [],
     ci_AlgorithmSignCert = [], ci_PublicKey = [], ci_OCSPURL = [], ci_CRLURL = [], ci_DeltaCRLURL = [],
     ci_SubjectCountry = [], ci_SubjectSerialNumber = [], ci_SubjectOrganization = [],
     ci_SubjectOrganizationalUnit = [], ci_Policies = None, ci_KeyUsages = None, ci_ExtKeyUsages = None,
     ci_IIN = [], ci_BIN = [], ci_SubjectType = [], ci_Roles = None\<rparr>"

section \<open>Values\<close>

text \<open>\<^verbatim>\<open>strings.Cut(value, "=")\<close> and \<^verbatim>\<open>strings.FieldsFunc\<close>; the separators are
  single bytes.\<close>

definition cut_equals :: "gostring \<Rightarrow> gostring option" where
  "cut_equals v = (if CHR ''='' \<in> set v then Some (tl (dropWhile (\<lambda>c. c \<noteq> CHR ''='') v)) else None)"

definition nativePropertyValue :: "gostring \<Rightarrow> gostring" where
  "nativePropertyValue v =
     (let v = TrimSpace v in case cut_equals v of Some after \<Rightarrow> TrimSpace after | None \<Rightarrow> v)"

definition is_separator :: "char \<Rightarrow> bool" where
  "is_separator c \<longleftrightarrow> c = CHR '','' \<or> c = CHR '';'' \<or> c = CHR 0x0A \<or> c = CHR 0x0D"

fun fields_from :: "gostring \<Rightarrow> gostring \<Rightarrow> gostring list" where
  "fields_from w [] = (if w = [] then [] else [w])"
| "fields_from w (c # cs) =
     (if is_separator c then (if w = [] then fields_from [] cs else w # fields_from [] cs)
      else fields_from (w @ [c]) cs)"

definition splitNativeValues :: "gostring \<Rightarrow> (gostring \<Rightarrow> gostring) \<Rightarrow> gostring list option" where
  "splitNativeValues v norm =
     (let v = nativePropertyValue v
      in if v = [] then None else Some (filter (\<lambda>p. p \<noteq> []) (map norm (fields_from [] v))))"

definition splitNativePropertyValues :: "gostring \<Rightarrow> gostring list option" where
  "splitNativePropertyValues v = splitNativeValues v TrimSpace"

definition splitNativeAttributeValues :: "gostring \<Rightarrow> gostring list option" where
  "splitNativeAttributeValues v = splitNativeValues v nativePropertyValue"

definition prefixedNativeAttributeValue :: "gostring \<Rightarrow> gostring \<Rightarrow> gostring" where
  "prefixedNativeAttributeValue v pre =
     (case List.find (prefix pre) (case splitNativeAttributeValues v of None \<Rightarrow> [] | Some vs \<Rightarrow> vs) of
        None \<Rightarrow> []
      | Some attr \<Rightarrow> TrimSpace (drop (length pre) attr))"

definition time_layouts :: "gostring list" where
  "time_layouts = [''02.01.2006 15:04:05 MST'', ''02.01.2006 15:04:05 -0700'', ''2006-01-02T15:04:05Z07:00'']"

fun first_layout :: "(gostring \<Rightarrow> gotime option) \<Rightarrow> gostring list \<Rightarrow> gotime option" where
  "first_layout parse [] = None"
| "first_layout parse (l # ls) = (case parse l of Some t \<Rightarrow> Some t | None \<Rightarrow> first_layout parse ls)"

definition parseNativeCertificateTime :: "golib \<Rightarrow> pkilib \<Rightarrow> gostring \<Rightarrow> gostring \<Rightarrow> gerror + gotime" where
  "parseNativeCertificateTime G K field v =
     (let raw = nativePropertyValue v
      in if raw = [] then Inr zero_time
         else case first_layout (\<lambda>l. TimeParse K l raw) time_layouts of
           Some t \<Rightarrow> Inr t
         | None \<Rightarrow> Inl (invalidInput (''certificate '' @ field @ '' time '' @ Quote G raw @ '' is not supported'')))"

definition applyCertificateInfoProperty ::
  "golib \<Rightarrow> pkilib \<Rightarrow> CertificateInfo \<Rightarrow> CertificateInfoField \<Rightarrow> gostring \<Rightarrow> gerror + CertificateInfo" where
  "applyCertificateInfoProperty G K info field v =
     (if field = CertificateInfoSubject then Inr (info\<lparr>ci_Subject := v\<rparr>)
      else if field = CertificateInfoSerialNumber then Inr (info\<lparr>ci_SerialNumber := v\<rparr>)
      else if field = CertificateInfoValidFrom
      then map_sum id (\<lambda>t. info\<lparr>ci_ValidFrom := t\<rparr>) (parseNativeCertificateTime G K ''notBefore'' v)
      else if field = CertificateInfoValidUntil
      then map_sum id (\<lambda>t. info\<lparr>ci_ValidUntil := t\<rparr>) (parseNativeCertificateTime G K ''notAfter'' v)
      else if field = CertificateInfoIssuer then Inr (info\<lparr>ci_Issuer := v\<rparr>)
      else if field = CertificateInfoPolicy
      then Inr (info\<lparr>ci_Policy := v, ci_Policies := splitNativePropertyValues v\<rparr>)
      else if field = CertificateInfoSubjectCountry then Inr (info\<lparr>ci_SubjectCountry := nativePropertyValue v\<rparr>)
      else if field = CertificateInfoSubjectSerialNumber
      then Inr (info\<lparr>ci_SubjectSerialNumber := nativePropertyValue v\<rparr>)
      else if field = CertificateInfoSubjectOrganization
      then Inr (info\<lparr>ci_SubjectOrganization := nativePropertyValue v\<rparr>)
      else if field = CertificateInfoSubjectOrganizationalUnit
      then Inr (info\<lparr>ci_SubjectOrganizationalUnit := nativePropertyValue v\<rparr>)
      else if field = CertificateInfoKeyUsage
      then Inr (info\<lparr>ci_KeyUsage := v, ci_KeyUsages := splitNativePropertyValues v\<rparr>)
      else if field = CertificateInfoExtKeyUsage
      then Inr (info\<lparr>ci_ExtKeyUsage := v, ci_ExtKeyUsages := splitNativePropertyValues v\<rparr>)
      else if field = CertificateInfoAuthKeyID then Inr (info\<lparr>ci_AuthKeyID := v\<rparr>)
      else if field = CertificateInfoSubjKeyID then Inr (info\<lparr>ci_SubjKeyID := v\<rparr>)
      else if field = CertificateInfoAlgorithmSignCert then Inr (info\<lparr>ci_AlgorithmSignCert := v\<rparr>)
      else if field = CertificateInfoPublicKey then Inr (info\<lparr>ci_PublicKey := v\<rparr>)
      else if field = CertificateInfoOCSPURL then Inr (info\<lparr>ci_OCSPURL := v\<rparr>)
      else if field = CertificateInfoCRLURL then Inr (info\<lparr>ci_CRLURL := v\<rparr>)
      else if field = CertificateInfoDeltaCRLURL then Inr (info\<lparr>ci_DeltaCRLURL := v\<rparr>)
      else Inr info)"

section \<open>Kazakhstan subjects\<close>

definition kzPolicyPerson :: gostring where "kzPolicyPerson = ''1.2.398.3.3.4.1.1''"
definition kzPolicyPersonSystem :: gostring where "kzPolicyPersonSystem = ''1.2.398.3.3.4.1.1.1''"
definition kzPolicyLegalEntity :: gostring where "kzPolicyLegalEntity = ''1.2.398.3.3.4.1.2''"
definition kzPolicyFirstHead :: gostring where "kzPolicyFirstHead = ''1.2.398.3.3.4.1.2.1''"
definition kzPolicySigner :: gostring where "kzPolicySigner = ''1.2.398.3.3.4.1.2.2''"
definition kzPolicyFinancialSigner :: gostring where "kzPolicyFinancialSigner = ''1.2.398.3.3.4.1.2.3''"
definition kzPolicyHR :: gostring where "kzPolicyHR = ''1.2.398.3.3.4.1.2.4''"
definition kzPolicyEmployee :: gostring where "kzPolicyEmployee = ''1.2.398.3.3.4.1.2.5''"
definition kzPolicyLegalEntitySystem :: gostring where "kzPolicyLegalEntitySystem = ''1.2.398.3.3.4.1.2.6''"

text \<open>A role is named by its policy, a subject type by the policy of the type.\<close>

definition addCertificateRole :: "gostring \<Rightarrow> CertificateInfo \<Rightarrow> CertificateInfo" where
  "addCertificateRole r info =
     (let roles = (case ci_Roles info of None \<Rightarrow> [] | Some rs \<Rightarrow> rs)
      in if r \<in> set roles then info else info\<lparr>ci_Roles := Some (roles @ [r])\<rparr>)"

definition applyKazakhstanPolicy :: "gostring \<Rightarrow> CertificateInfo \<Rightarrow> CertificateInfo" where
  "applyKazakhstanPolicy policy info =
     (if policy = kzPolicyPerson then info\<lparr>ci_SubjectType := kzPolicyPerson\<rparr>
      else if policy = kzPolicyPersonSystem
      then addCertificateRole kzPolicyPersonSystem (info\<lparr>ci_SubjectType := kzPolicyPerson\<rparr>)
      else if policy = kzPolicyLegalEntity then info\<lparr>ci_SubjectType := kzPolicyLegalEntity\<rparr>
      else if policy \<in> {kzPolicyFirstHead, kzPolicySigner, kzPolicyFinancialSigner, kzPolicyHR, kzPolicyEmployee}
      then addCertificateRole policy (info\<lparr>ci_SubjectType := kzPolicyLegalEntity\<rparr>)
      else if policy = kzPolicyLegalEntitySystem \<or> prefix (kzPolicyLegalEntitySystem @ ''.'') policy
      then addCertificateRole kzPolicyLegalEntitySystem (info\<lparr>ci_SubjectType := kzPolicyLegalEntity\<rparr>)
      else info)"

definition inferKazakhstanSubjectType :: "CertificateInfo \<Rightarrow> gostring" where
  "inferKazakhstanSubjectType info =
     (if ci_BIN info \<noteq> [] then kzPolicyLegalEntity else if ci_IIN info \<noteq> [] then kzPolicyPerson else [])"

definition applyKazakhstanSubjectDetails :: "CertificateInfo \<Rightarrow> CertificateInfo" where
  "applyKazakhstanSubjectDetails info =
     (let info = info\<lparr>ci_IIN := prefixedNativeAttributeValue (ci_SubjectSerialNumber info) ''IIN'',
                      ci_BIN := prefixedNativeAttributeValue (ci_SubjectOrganizationalUnit info) ''BIN''\<rparr>;
          info = fold applyKazakhstanPolicy (case ci_Policies info of None \<Rightarrow> [] | Some ps \<Rightarrow> ps) info
      in if ci_SubjectType info = [] then info\<lparr>ci_SubjectType := inferKazakhstanSubjectType info\<rparr> else info)"

section \<open>The properties of a certificate\<close>

definition ErrorGetCertProp :: ErrorCode where "ErrorGetCertProp = 0x08f00038"
definition ErrorCertNotFound :: ErrorCode where "ErrorCertNotFound = 0x08f0001b"
definition ErrorIDAttrNotFound :: ErrorCode where "ErrorIDAttrNotFound = 0x08f00033"

definition isKalkanErrorCode :: "gerror \<Rightarrow> ErrorCode \<Rightarrow> bool" where
  "isKalkanErrorCode err code \<longleftrightarrow> ErrorCodeOf err = Some code"

definition cachedPEMForCertificate :: "'w session \<Rightarrow> bytes \<Rightarrow> bytes option" where
  "cachedPEMForCertificate s der = (case s_pemCache s of
     None \<Rightarrow> None
   | Some (d, p) \<Rightarrow> if d = der then Some p else None)"

text \<open>The encoder never panics (\<open>encode_exact\<close>), so its value is there.\<close>

definition encodeAndCacheCertificatePEM :: "bytes \<Rightarrow> ('w session, bytes) state" where
  "encodeAndCacheCertificatePEM der = do {
     State_Monad.update (\<lambda>s. s\<lparr>s_pemCache := Some (der, the (encodeCertificatePEM der))\<rparr>);
     ret (the (encodeCertificatePEM der)) }"

text \<open>The closure run under the gate; it keeps the encoded certificate for the next property.\<close>

definition property_call ::
  "'w loader \<Rightarrow> bytes \<Rightarrow> goint \<Rightarrow> bytes option \<Rightarrow> client option \<Rightarrow>
     ('w session, gerror + (gerror + slice) \<times> bytes) state" where
  "property_call L raw prop certPEM c = do {
     s \<leftarrow> State_Monad.get;
     pem \<leftarrow> (case certPEM of
              Some p \<Rightarrow> ret p
            | None \<Rightarrow> (case cachedPEMForCertificate s raw of
                Some p \<Rightarrow> ret p
              | None \<Rightarrow> encodeAndCacheCertificatePEM raw));
     r \<leftarrow> natively (X509CertificateGetInfo L c (Some pem) prop);
     ret (Inr (r, pem)) }"

definition locked_property ::
  "'w loader \<Rightarrow> gerror option \<Rightarrow> bytes \<Rightarrow> goint \<Rightarrow> bytes option \<Rightarrow>
     ('w session, (gerror + slice) \<times> bytes option) state" where
  "locked_property L gate raw prop certPEM = do {
     r \<leftarrow> withLockedLibrary \<lparr>at_entry = None, at_gate = gate\<rparr> (property_call L raw prop certPEM);
     ret (case r of Inl err \<Rightarrow> (Inl err, certPEM) | Inr (v, pem) \<Rightarrow> (v, Some pem)) }"

definition property_error :: "certificateInfoProperty \<Rightarrow> gerror \<Rightarrow> gerror" where
  "property_error item err = WrapError (''kalkan: get certificate property '' @ format_int (sint (ip_prop item)) @
     '': '' @ error_text err) (Some err)"

text \<open>The loop over the table; \<open>gates\<close> is what the context reports at the gate, per remaining
  property.\<close>

fun infoLoop ::
  "golib \<Rightarrow> pkilib \<Rightarrow> 'w loader \<Rightarrow> (nat \<Rightarrow> gerror option) \<Rightarrow> bytes \<Rightarrow> CertificateInfoField \<Rightarrow>
     certificateInfoProperty list \<Rightarrow> bytes option \<Rightarrow> CertificateInfo \<Rightarrow> ('w session, gerror + CertificateInfo) state" where
  "infoLoop G K L gates raw wanted [] certPEM info = ret (Inr info)"
| "infoLoop G K L gates raw wanted (item # items) certPEM info =
     (if wanted AND ip_field item = 0 then infoLoop G K L gates raw wanted items certPEM info
      else do {
        (r, certPEM) \<leftarrow> locked_property L (gates (length items)) raw (ip_prop item) certPEM;
        case r of
          Inl err \<Rightarrow>
            if ip_optional item \<and> isKalkanErrorCode err ErrorGetCertProp
            then infoLoop G K L gates raw wanted items certPEM info
            else ret (Inl (property_error item err))
        | Inr v \<Rightarrow> (case applyCertificateInfoProperty G K info (ip_field item) (str_of (BeforeNUL v)) of
            Inl err \<Rightarrow> ret (Inl err)
          | Inr info \<Rightarrow> infoLoop G K L gates raw wanted items certPEM info) })"

text \<open>A nil certificate is \<^const>\<open>None\<close>; only its DER bytes are used.\<close>

definition info_checks :: "int \<Rightarrow> slice \<Rightarrow> CertificateInfoField \<Rightarrow> gerror option" where
  "info_checks maxInputSize cert wanted =
     (if cert = None then Some (invalidInput ''certificate is nil'')
      else if str_of cert = [] then Some (invalidInput ''certificate raw DER is empty'')
      else if wanted = 0 then Some (invalidInput ''certificate info fields are required'')
      else if wanted AND NOT CertificateInfoAllFields \<noteq> 0
      then Some (invalidInput (''unknown certificate info fields 0x'' @
             FormatUint (wanted AND NOT CertificateInfoAllFields) 16))
      else validateCertificatePEMInputSize (int (length (str_of cert))) maxInputSize)"

definition X509CertificateGetInfoFields ::
  "golib \<Rightarrow> pkilib \<Rightarrow> 'w loader \<Rightarrow> int \<Rightarrow> gerror option \<Rightarrow> (nat \<Rightarrow> gerror option) \<Rightarrow> slice \<Rightarrow>
     CertificateInfoField \<Rightarrow> ('w session, gerror + CertificateInfo) state" where
  "X509CertificateGetInfoFields G K L maxInputSize entry gates cert wanted =
     guarded entry (
     guarded (info_checks maxInputSize cert wanted) (do {
       s \<leftarrow> State_Monad.get;
       mapped applyKazakhstanSubjectDetails
         (infoLoop G K L gates (str_of cert) wanted certificateInfoProperties
            (cachedPEMForCertificate s (str_of cert)) noInfo) }))"

definition Client_X509CertificateGetInfo ::
  "golib \<Rightarrow> pkilib \<Rightarrow> 'w loader \<Rightarrow> int \<Rightarrow> gerror option \<Rightarrow> (nat \<Rightarrow> gerror option) \<Rightarrow> slice \<Rightarrow>
     ('w session, gerror + CertificateInfo) state" where
  "Client_X509CertificateGetInfo G K L maxInputSize entry gates cert =
     X509CertificateGetInfoFields G K L maxInputSize entry gates cert CertificateInfoAllFields"

section \<open>Certificates returned by the library\<close>

definition native_certificate_error :: gerror where
  "native_certificate_error = invalidInput ''certificate output is not DER, PEM, or base64 DER''"

text \<open>NUL padding behind the outer ASN.1 value.\<close>

definition parse_padded :: "pkilib \<Rightarrow> bytes \<Rightarrow> certificate option" where
  "parse_padded K data = (case parseRaw data of
     None \<Rightarrow> None
   | Some (raw, rest) \<Rightarrow>
       if rest \<noteq> [] \<and> list_all (\<lambda>c. c = CHR 0x00) rest
       then (case ParseCertificate K (rv_FullBytes raw) of Inr cert \<Rightarrow> Some cert | Inl _ \<Rightarrow> None)
       else None)"

definition parseNativeCertificate :: "golib \<Rightarrow> pkilib \<Rightarrow> slice \<Rightarrow> gerror + certificate" where
  "parseNativeCertificate G K data =
     (if isEmptyNativeCertificate data then Inl (invalidInput ''certificate output is empty'')
      else case ParseCertificate K (str_of data) of Inr cert \<Rightarrow> Inr cert | Inl _ \<Rightarrow>
      (case parse_padded K (str_of data) of Some cert \<Rightarrow> Inr cert | None \<Rightarrow>
      let txt = TrimSpace (str_of (BeforeNUL data)) in
      if prefix ''-----BEGIN '' txt
      then (case parseCertificatePEM G (PemDecode K) txt of
              Inl err \<Rightarrow> Inl err
            | Inr der \<Rightarrow> (case ParseCertificate K der of
                Inl err \<Rightarrow> Inl (invalidInputCause ''certificate PEM contains invalid DER: '' err)
              | Inr cert \<Rightarrow> Inr cert))
      else (case base64_decode txt of
              None \<Rightarrow> Inl native_certificate_error
            | Some der \<Rightarrow>
                if der = [] then Inl native_certificate_error
                else (case ParseCertificate K der of
                  Inr cert \<Rightarrow> Inr cert
                | Inl _ \<Rightarrow> Inl native_certificate_error))))"

definition Client_X509ExportCertificateFromStore ::
  "golib \<Rightarrow> pkilib \<Rightarrow> 'w loader \<Rightarrow> call_context \<Rightarrow> ('w session, gerror + certificate) state" where
  "Client_X509ExportCertificateFromStore G K L x =
     guarded (at_entry x) (do {
       r \<leftarrow> withLockedLibrary x (\<lambda>c. natively (X509ExportCertificateFromStore L c [] 0x101));
       ret (case r of
              Inl err \<Rightarrow> Inl err
            | Inr out \<Rightarrow> (case parseNativeCertificate G K out of
                Inl err \<Rightarrow> Inl (WrapError (''kalkan: parse exported certificate: '' @ error_text err) (Some err))
              | Inr cert \<Rightarrow> Inr cert)) })"

section \<open>Signer certificates\<close>

definition maxExtractedSignerCertificates :: nat where
  "maxExtractedSignerCertificates = 64"

text \<open>The loop of \<^verbatim>\<open>collectSignerCertificates\<close>; \<open>live\<close> is the context as each
  iteration finds it. The loop starts at 0, so the comparison with the limit is the source's.\<close>

function collectFrom ::
  "(nat \<Rightarrow> gerror option) \<Rightarrow> ErrorCode \<Rightarrow> (slice \<Rightarrow> gerror + 'c) \<Rightarrow> (nat \<Rightarrow> ('s, gerror + slice) state) \<Rightarrow> nat \<Rightarrow>
     'c list \<Rightarrow> ('s, gerror + 'c list) state" where
  "collectFrom live endCode parse fetch signID certs = guarded (live signID) (do {
     r \<leftarrow> fetch signID;
     case r of
       Inl err \<Rightarrow> ret (if isKalkanErrorCode err endCode \<and> certs \<noteq> [] then Inr certs else Inl err)
     | Inr out \<Rightarrow>
         if isEmptyNativeCertificate out
         then ret (if certs = [] then Inl (invalidInput ''signer certificate output is empty'') else Inr certs)
         else if signID \<ge> maxExtractedSignerCertificates
         then ret (Inl (invalidInput (''signer certificate count exceeds '' @
                format_int (int maxExtractedSignerCertificates))))
         else (case parse out of
           Inl err \<Rightarrow> ret (Inl (WrapError (''kalkan: parse signer certificate '' @ format_int (int signID) @ '': '' @
                       error_text err) (Some err)))
         | Inr cert \<Rightarrow> collectFrom live endCode parse fetch (Suc signID) (certs @ [cert])) })"
  by pat_completeness auto
termination
  by (relation "measure (\<lambda>(_, _, _, _, signID, _). Suc maxExtractedSignerCertificates - signID)")
    (auto simp: maxExtractedSignerCertificates_def)

declare collectFrom.simps [simp del]

definition collectSignerCertificates ::
  "golib \<Rightarrow> pkilib \<Rightarrow> (nat \<Rightarrow> gerror option) \<Rightarrow> ErrorCode \<Rightarrow> (nat \<Rightarrow> ('s, gerror + slice) state) \<Rightarrow>
     ('s, gerror + certificate list) state" where
  "collectSignerCertificates G K live endCode fetch = collectFrom live endCode (parseNativeCertificate G K) fetch 0 []"

definition readCMSCertificateFile :: "oslib \<Rightarrow> gostring \<Rightarrow> int \<Rightarrow> gerror + bytes" where
  "readCMSCertificateFile F path maxSize =
     (if maxSize \<le> 0 \<or> maxSize = maxInt
      then (case os_ReadFile F path of
              Inl err \<Rightarrow> Inl (WrapError (''kalkan: read CMS file: '' @ error_text err) (Some err))
            | Inr data \<Rightarrow> Inr data)
      else case os_Open F path of
        Inl err \<Rightarrow> Inl (WrapError (''kalkan: open CMS file: '' @ error_text err) (Some err))
      | Inr file \<Rightarrow> (case limited (nat (maxSize + 1)) file of
          Inl err \<Rightarrow> Inl (WrapError (''kalkan: read CMS file: '' @ error_text err) (Some err))
        | Inr data \<Rightarrow> (case validateBytesSize (Some data) ''CMS input'' maxSize of
            Some err \<Rightarrow> Inl err
          | None \<Rightarrow> Inr data)))"

text \<open>The input of an extraction: the library wants the contents even of a file source.\<close>

definition cms_contents :: "oslib \<Rightarrow> int \<Rightarrow> Source \<Rightarrow> gerror + slice \<times> Flag" where
  "cms_contents F maxInputSize source = (case cmsSignatureInput source EncodingDER maxInputSize of
     Inl err \<Rightarrow> Inl err
   | Inr (v, flags) \<Rightarrow>
       if s_file source
       then (case readCMSCertificateFile F (str_of v) maxInputSize of
               Inl err \<Rightarrow> Inl err
             | Inr data \<Rightarrow> Inr (Some data, flags))
       else Inr (v, flags))"

definition Client_GetCertFromCMS ::
  "golib \<Rightarrow> pkilib \<Rightarrow> oslib \<Rightarrow> 'w loader \<Rightarrow> int \<Rightarrow> (nat \<Rightarrow> call_context) \<Rightarrow> Source \<Rightarrow> ('w session, gerror + certificate list) state" where
  "Client_GetCertFromCMS G K F L maxInputSize x cms =
     guarded (at_entry (x 0)) (
     checked (cms_contents F maxInputSize cms) (\<lambda>(v, flags).
     collectSignerCertificates G K (\<lambda>i. at_entry (x (Suc i))) ErrorCertNotFound (\<lambda>i.
       withLockedLibrary (x (Suc i)) (\<lambda>c. natively (GetCertFromCMS L c v (int i + 1) (flags OR SignCMS OR OutBase64))))))"

definition Client_GetTimeFromSig ::
  "oslib \<Rightarrow> 'w loader \<Rightarrow> int \<Rightarrow> call_context \<Rightarrow> Source \<Rightarrow> ('w session, gerror + int64) state" where
  "Client_GetTimeFromSig F L maxInputSize x source =
     guarded (at_entry x) (
     checked (cms_contents F maxInputSize source) (\<lambda>(v, flags).
     withLockedLibrary x (\<lambda>c. natively (GetTimeFromSig L c v flags 0))))"

definition Client_GetSigAlgFromXML ::
  "'w loader \<Rightarrow> int \<Rightarrow> call_context \<Rightarrow> Source \<Rightarrow> ('w session, gerror + slice) state" where
  "Client_GetSigAlgFromXML L maxInputSize x source =
     guarded (at_entry x) (
     checked (xmlInput source maxInputSize) (\<lambda>v.
     withLockedLibrary x (\<lambda>c. natively (GetSigAlgFromXML L c v))))"

section \<open>The cache is invisible\<close>

definition cache_inv :: "'w session \<Rightarrow> bool" where
  "cache_inv s \<longleftrightarrow> (\<forall>der pem. s_pemCache s = Some (der, pem) \<longrightarrow> pem = pem_text der)"

text \<open>Two sessions that differ in the cache only.\<close>

definition same_but_cache :: "'w session \<Rightarrow> 'w session \<Rightarrow> bool" where
  "same_but_cache s t \<longleftrightarrow> s\<lparr>s_pemCache := None\<rparr> = t\<lparr>s_pemCache := None\<rparr>"

text \<open>The reference: every property is asked with a freshly encoded certificate.\<close>

definition plain_property ::
  "'w loader \<Rightarrow> gerror option \<Rightarrow> bytes \<Rightarrow> goint \<Rightarrow> ('w session, gerror + slice) state" where
  "plain_property L gate raw prop = withLockedLibrary \<lparr>at_entry = None, at_gate = gate\<rparr>
     (\<lambda>c. natively (X509CertificateGetInfo L c (encodeCertificatePEM raw) prop))"

fun plain_info ::
  "golib \<Rightarrow> pkilib \<Rightarrow> 'w loader \<Rightarrow> (nat \<Rightarrow> gerror option) \<Rightarrow> bytes \<Rightarrow> CertificateInfoField \<Rightarrow>
     certificateInfoProperty list \<Rightarrow> CertificateInfo \<Rightarrow> ('w session, gerror + CertificateInfo) state" where
  "plain_info G K L gates raw wanted [] info = ret (Inr info)"
| "plain_info G K L gates raw wanted (item # items) info =
     (if wanted AND ip_field item = 0 then plain_info G K L gates raw wanted items info
      else do {
        r \<leftarrow> plain_property L (gates (length items)) raw (ip_prop item);
        case r of
          Inl err \<Rightarrow>
            if ip_optional item \<and> isKalkanErrorCode err ErrorGetCertProp
            then plain_info G K L gates raw wanted items info
            else ret (Inl (property_error item err))
        | Inr v \<Rightarrow> (case applyCertificateInfoProperty G K info (ip_field item) (str_of (BeforeNUL v)) of
            Inl err \<Rightarrow> ret (Inl err)
          | Inr info \<Rightarrow> plain_info G K L gates raw wanted items info) })"

lemma same_but_cache_fields:
  "same_but_cache s t \<Longrightarrow> s_world s = s_world t \<and> s_library s = s_library t"
  by (auto simp: same_but_cache_def dest: arg_cong [of _ _ s_world] arg_cong [of _ _ s_library])

lemma same_but_cache_world:
  "same_but_cache s t \<Longrightarrow> same_but_cache (s\<lparr>s_world := w\<rparr>) (t\<lparr>s_world := w\<rparr>)"
  unfolding same_but_cache_def by (cases s; cases t) simp

lemma same_but_cache_update: "same_but_cache s t \<Longrightarrow> same_but_cache (s\<lparr>s_pemCache := c\<rparr>) t"
  unfolding same_but_cache_def by simp

lemma cached_pem: "cache_inv s \<Longrightarrow> cachedPEMForCertificate s raw = Some p \<Longrightarrow> p = pem_text raw"
  by (auto simp: cachedPEMForCertificate_def cache_inv_def split: option.splits if_splits)

text \<open>One property: the same answer, and the sessions stay alike.\<close>

lemma locked_property_plain:
  assumes "same_but_cache s t" and "cache_inv s" and "certPEM = None \<or> certPEM = Some (pem_text raw)"
    and "run_state (locked_property L gate raw prop certPEM) s = ((r, certPEM'), s')"
  shows "\<exists>t'. run_state (plain_property L gate raw prop) t = (r, t') \<and> same_but_cache s' t' \<and> cache_inv s' \<and>
    (certPEM' = None \<or> certPEM' = Some (pem_text raw))"
proof (cases "gate = None \<and> s_library s \<noteq> None")
  case False
  with assms same_but_cache_fields [OF assms(1)] show ?thesis
    by (auto simp: locked_property_def plain_property_def withLockedLibrary_def guarded_def split: option.splits)
next
  case True
  let ?u = "if certPEM = None \<and> cachedPEMForCertificate s raw = None
    then s\<lparr>s_pemCache := Some (raw, pem_text raw)\<rparr> else s"
  let ?call = "X509CertificateGetInfo L (s_library s) (Some (pem_text raw)) prop"
  have u: "same_but_cache ?u t" "cache_inv ?u" "s_world ?u = s_world s"
    using assms(1,2) same_but_cache_update [OF assms(1)] by (auto simp: cache_inv_def)
  have pem: "run_state (property_call L raw prop certPEM (s_library s)) s =
      (Inr (fst (run_state ?call (s_world s)), pem_text raw), ?u\<lparr>s_world := exec ?call (s_world s)\<rparr>)"
    using assms(2,3) cached_pem [OF assms(2)]
    by (auto simp: property_call_def encodeAndCacheCertificatePEM_def encode_exact split: option.split)
  have lib: "s_library t = s_library s" "s_world t = s_world s" using same_but_cache_fields [OF assms(1)] by simp_all
  have s': "s' = ?u\<lparr>s_world := exec ?call (s_world s)\<rparr>" "r = fst (run_state ?call (s_world s))" "certPEM' = Some (pem_text raw)"
    using assms(4) True pem by (auto simp: locked_property_def withLockedLibrary_def guarded_def)
  have t': "run_state (plain_property L gate raw prop) t =
      (fst (run_state ?call (s_world s)), t\<lparr>s_world := exec ?call (s_world s)\<rparr>)"
  proof -
    obtain l where "s_library s = Some l" "gate = None" using True by blast
    with lib show ?thesis by (simp add: plain_property_def withLockedLibrary_def guarded_def encode_exact)
  qed
  have "s_pemCache s' = s_pemCache ?u" unfolding s'(1) by simp
  then have "cache_inv s'" using u(2) by (simp only: cache_inv_def)
  moreover have "same_but_cache s' (t\<lparr>s_world := exec ?call (s_world s)\<rparr>)"
    unfolding s'(1) by (rule same_but_cache_world [OF u(1)])
  ultimately show ?thesis using t' s'(2,3) by blast
qed

lemma infoLoop_plain:
  "same_but_cache s t \<Longrightarrow> cache_inv s \<Longrightarrow> certPEM = None \<or> certPEM = Some (pem_text raw) \<Longrightarrow>
     fst (run_state (infoLoop G K L gates raw wanted items certPEM info) s) =
       fst (run_state (plain_info G K L gates raw wanted items info) t) \<and>
     same_but_cache (exec (infoLoop G K L gates raw wanted items certPEM info) s)
       (exec (plain_info G K L gates raw wanted items info) t) \<and>
     cache_inv (exec (infoLoop G K L gates raw wanted items certPEM info) s)"
proof (induction items arbitrary: s t certPEM info)
  case (Cons item items)
  show ?case
  proof (cases "wanted AND ip_field item = 0")
    case True
    with Cons show ?thesis by simp
  next
    case False
    obtain r c' s' where run: "run_state (locked_property L (gates (length items)) raw (ip_prop item) certPEM) s = ((r, c'), s')"
      by (metis surj_pair)
    from locked_property_plain [OF Cons.prems run] obtain t' where
      t': "run_state (plain_property L (gates (length items)) raw (ip_prop item)) t = (r, t')" "same_but_cache s' t'"
        "cache_inv s'" "c' = None \<or> c' = Some (pem_text raw)" by blast
    show ?thesis using False run t' Cons.IH [OF t'(2-4)]
      by (auto split: sum.split)
  qed
qed auto

text \<open>
  C14: The PEM cache is invisible. Whatever certificate the cache holds, reading the selected
  properties gives the same information or error, and leaves the library in the same state, as
  encoding the certificate for every native call; the cache keeps holding the encoding of the
  certificate it is labelled with.
\<close>

theorem info_cache_transparent:
  assumes "cache_inv s"
  shows "let cached = X509CertificateGetInfoFields G K L limit entry gates cert wanted;
             plain = guarded entry (guarded (info_checks limit cert wanted) (mapped applyKazakhstanSubjectDetails
               (plain_info G K L gates (str_of cert) wanted certificateInfoProperties noInfo)))
         in fst (run_state cached s) = fst (run_state plain s) \<and> same_but_cache (exec cached s) (exec plain s) \<and>
            cache_inv (exec cached s)"
proof -
  have refl: "same_but_cache s s" by (simp add: same_but_cache_def)
  have "cachedPEMForCertificate s (str_of cert) = None \<or> cachedPEMForCertificate s (str_of cert) = Some (pem_text (str_of cert))"
    using cached_pem [OF assms] by (cases "cachedPEMForCertificate s (str_of cert)") auto
  from infoLoop_plain [OF refl assms this] assms refl show ?thesis
    unfolding X509CertificateGetInfoFields_def Let_def guarded_def mapped_def by (auto split: option.split)
qed

section \<open>Signer lists are complete\<close>

text \<open>The signers \<open>i\<close>, \<open>i + 1\<close>, \dots of a document, up to the first number for which
  the library reports the end or an empty output.\<close>

fun signers ::
  "ErrorCode \<Rightarrow> (slice \<Rightarrow> gerror + 'c) \<Rightarrow> (nat \<Rightarrow> ('s, gerror + slice) state) \<Rightarrow> nat \<Rightarrow> 'c list \<Rightarrow> 's \<Rightarrow> 's \<Rightarrow> bool" where
  "signers endCode parse fetch i [] s s' \<longleftrightarrow> (\<exists>r. run_state (fetch i) s = (r, s') \<and>
     (case r of Inl err \<Rightarrow> isKalkanErrorCode err endCode | Inr out \<Rightarrow> isEmptyNativeCertificate out))"
| "signers endCode parse fetch i (c # cs) s s' \<longleftrightarrow> (\<exists>out s1. run_state (fetch i) s = (Inr out, s1) \<and>
     \<not> isEmptyNativeCertificate out \<and> parse out = Inr c \<and> signers endCode parse fetch (Suc i) cs s1 s')"

definition collects ::
  "(nat \<Rightarrow> gerror option) \<Rightarrow> ErrorCode \<Rightarrow> (slice \<Rightarrow> gerror + 'c) \<Rightarrow> (nat \<Rightarrow> ('s, gerror + slice) state) \<Rightarrow> nat \<Rightarrow>
     'c list \<Rightarrow> 's \<Rightarrow> 'c list \<Rightarrow> 's \<Rightarrow> bool" where
  "collects live endCode parse fetch signID certs s res s' \<longleftrightarrow>
     (\<exists>cs. res = certs @ cs \<and> res \<noteq> [] \<and> signID + length cs \<le> maxExtractedSignerCertificates \<and>
       (\<forall>j \<le> length cs. live (signID + j) = None) \<and> signers endCode parse fetch signID cs s s')"

definition at_end :: "ErrorCode \<Rightarrow> gerror + slice \<Rightarrow> bool" where
  "at_end endCode r \<longleftrightarrow> (case r of Inl err \<Rightarrow> isKalkanErrorCode err endCode | Inr out \<Rightarrow> isEmptyNativeCertificate out)"

lemma collects_stop:
  assumes "run_state (fetch signID) s = (r, s1)" and "live signID = None" and "signID \<le> maxExtractedSignerCertificates"
    and "at_end endCode r"
  shows "collects live endCode parse fetch signID certs s res s' \<longleftrightarrow> res = certs \<and> certs \<noteq> [] \<and> s' = s1" (is "?L \<longleftrightarrow> ?R")
proof
  assume ?L
  then obtain cs where "res = certs @ cs" "res \<noteq> []" "signers endCode parse fetch signID cs s s'"
    by (auto simp: collects_def)
  with assms show ?R by (cases cs) (auto simp: at_end_def)
next
  assume ?R
  with assms show ?L unfolding collects_def by (intro exI [of _ "[]"]) (auto simp: at_end_def)
qed

lemma collects_go:
  assumes "run_state (fetch signID) s = (r, s1)" and "live signID = None" and "\<not> at_end endCode r"
  shows "collects live endCode parse fetch signID certs s res s' \<longleftrightarrow>
    (\<exists>c out. r = Inr out \<and> parse out = Inr c \<and> collects live endCode parse fetch (Suc signID) (certs @ [c]) s1 res s')"
    (is "?L \<longleftrightarrow> ?R")
proof
  assume ?L
  then obtain cs where cs: "res = certs @ cs" "signID + length cs \<le> maxExtractedSignerCertificates"
    "\<forall>j \<le> length cs. live (signID + j) = None" "signers endCode parse fetch signID cs s s'" by (auto simp: collects_def)
  from cs(3) have "\<forall>j < length cs. live (Suc signID + j) = None" by (metis Suc_le_eq add_Suc add_Suc_right)
  with cs assms show ?R by (cases cs) (auto simp: at_end_def collects_def)
next
  assume ?R
  then obtain c cs out where c: "r = Inr out" "parse out = Inr c" "res = (certs @ [c]) @ cs"
    "Suc signID + length cs \<le> maxExtractedSignerCertificates"
    "\<forall>j \<le> length cs. live (Suc signID + j) = None" "signers endCode parse fetch (Suc signID) cs s1 s'"
    by (auto simp: collects_def)
  have "live (signID + j) = None" if "j \<le> length (c # cs)" for j using c(5) assms(2) that by (cases j) auto
  with c assms show ?L unfolding collects_def by (intro exI [of _ "c # cs"]) (auto simp: at_end_def)
qed

lemma collects_limit: "collects live endCode parse fetch (Suc maxExtractedSignerCertificates) certs s res s' \<longleftrightarrow> False"
  by (simp add: collects_def)

lemma collectFrom_iff:
  "signID \<le> maxExtractedSignerCertificates \<Longrightarrow>
   run_state (collectFrom live endCode parse fetch signID certs) s = (Inr res, s') \<longleftrightarrow>
     collects live endCode parse fetch signID certs s res s'"
proof (induction live endCode parse fetch signID certs arbitrary: s rule: collectFrom.induct)
  case (1 live endCode parse fetch signID certs)
  obtain r s1 where run: "run_state (fetch signID) s = (r, s1)" by (metis surj_pair)
  show ?case
  proof (cases "live signID")
    case (Some e)
    then show ?thesis by (subst collectFrom.simps) (auto simp: collects_def guarded_def intro: exI [of _ 0])
  next
    case None
    note step = collects_stop [where live = live and fetch = fetch and signID = signID and parse = parse and certs = certs and res = res and s' = s' and endCode = endCode, OF run None 1(2)]
      collects_go [where live = live and fetch = fetch and signID = signID and parse = parse and certs = certs and res = res and s' = s' and endCode = endCode, OF run None]
    show ?thesis
    proof (cases r)
      case (Inl err)
      then show ?thesis using None run step
        by (subst collectFrom.simps) (cases "isKalkanErrorCode err endCode"; auto simp: guarded_def at_end_def)
    next
      case (Inr out)
      show ?thesis
      proof (cases "isEmptyNativeCertificate out \<or> signID = maxExtractedSignerCertificates \<or> isl (parse out)")
        case True
        then show ?thesis using None run step Inr 1(2)
          by (subst collectFrom.simps)
            (auto simp: guarded_def at_end_def collects_limit isl_def split: sum.split)
      next
        case False
        then obtain c where c: "parse out = Inr c" by (cases "parse out") auto
        have "run_state (collectFrom live endCode parse fetch signID certs) s =
            run_state (collectFrom live endCode parse fetch (Suc signID) (certs @ [c])) s1"
          using False None run Inr c 1(2) by (subst collectFrom.simps) (simp add: guarded_def)
        then show ?thesis using 1(1) [OF _ _ c] False step(2) Inr c 1(2) by (simp add: at_end_def)
      qed
    qed
  qed
qed

text \<open>
  C13: A list of signers is complete. The certificates of a document are returned exactly when there
  are between 1 and 64 of them, each was read and parsed in order, and the library reported the end
  behind the last one; a longer list is an error, never a shorter list. At most 65 extractions are
  made.
\<close>

theorem signers_complete:
  "run_state (collectSignerCertificates G K live endCode fetch) s = (Inr certs, s') \<longleftrightarrow>
     0 < length certs \<and> length certs \<le> 64 \<and> (\<forall>i \<le> length certs. live i = None) \<and>
     signers endCode (parseNativeCertificate G K) fetch 0 certs s s'"
  unfolding collectSignerCertificates_def
  by (subst collectFrom_iff) (auto simp: collects_def maxExtractedSignerCertificates_def)


section \<open>Samples\<close>

definition sample_x509 :: certificate where
  "sample_x509 = \<lparr>x_Raw = ''c'', x_RawTBSCertificate = ''t'', x_RawSubject = ''s'', x_RawIssuer = ''i'',
     x_RawSubjectPublicKeyInfo = ''k'', x_SerialNumber = 7, x_NotBefore = zero_time, x_NotAfter = zero_time,
     x_ExtKeyUsage = [], x_UnhandledCriticalExtensions = [], x_Extensions = [], x_KeyUsage = 0,
     x_Version = 3, x_SignatureAlgorithm = 0, x_Signature = [], x_BasicConstraintsValid = False, x_IsCA = False,
     x_AuthorityKeyId = [], x_SubjectKeyId = []\<rparr>"

definition sample_pkilib :: pkilib where
  "sample_pkilib = \<lparr>ParseCertificate = \<lambda>data. if data = ''c'' then Inr sample_x509 else Inl (plainError ''asn1''),
     TimeParse = \<lambda>_ _. None, PemDecode = sample_pem\<rparr>"

theorem info_cache_transparent_witness:
  "let s = (sample_session [])\<lparr>s_pemCache := Some (''c'', pem_text ''c'')\<rparr>;
       cached = X509CertificateGetInfoFields sample_golib sample_pkilib sample_loader 0 None (\<lambda>_. None) (Some ''d'')
         CertificateInfoSubject;
       plain = guarded None (guarded (info_checks 0 (Some ''d'') CertificateInfoSubject) (mapped applyKazakhstanSubjectDetails
         (plain_info sample_golib sample_pkilib sample_loader (\<lambda>_. None) (str_of (Some ''d'')) CertificateInfoSubject
            certificateInfoProperties noInfo)))
   in cache_inv s \<and> fst (run_state cached s) = fst (run_state plain s) \<and> cache_inv (exec cached s)"
proof -
  have inv: "cache_inv ((sample_session [])\<lparr>s_pemCache := Some (''c'', pem_text ''c'')\<rparr>)" by (simp add: cache_inv_def)
  from info_cache_transparent [OF inv, of sample_golib sample_pkilib sample_loader 0 None "\<lambda>_. None" "Some ''d''"
      CertificateInfoSubject] inv
  show ?thesis unfolding Let_def by blast
qed

theorem signers_complete_witness:
  "run_state (collectSignerCertificates sample_golib sample_pkilib (\<lambda>_. None) ErrorCertNotFound
     (\<lambda>i. ret (Inr (if i < 2 then Some ''c'' else None)))) () = (Inr [sample_x509, sample_x509], ())"
proof -
  have "TrimSpace ''c'' = ''c''" by code_simp
  then show ?thesis unfolding signers_complete
    by (simp add: parseNativeCertificate_def isEmptyNativeCertificate_def sample_pkilib_def BeforeNUL_def native_padding_def)
qed

end
