(* ===== verification/XML_Certificates.thy ===== *)
theory XML_Certificates
  imports Certificate_Info
begin

text \<open>
  Signer certificates of XML (\<^verbatim>\<open>certificate_xml_input.go\<close>, \<^verbatim>\<open>GetCertFromXML\<close> of
  \<^verbatim>\<open>certificate_info.go\<close>): the copy of a document without the \<open>Id\<close> attributes of its
  signatures, in UTF-8, UTF-16 or an ASCII-compatible encoding. The tokenizer is an argument. The
  theorem shows that the copy differs from the document in such attributes only, and that no index
  leaves its range.
\<close>

section \<open>Views\<close>

text \<open>\<^verbatim>\<open>utf8.AppendRune\<close> and \<^verbatim>\<open>utf8.DecodeRune\<close>.\<close>

definition utf8_encode :: "nat \<Rightarrow> bytes" where
  "utf8_encode r = map char_of
     (if r < 0x80 then [r]
      else if r < 0x800 then [0xC0 + r div 64, 0x80 + r mod 64]
      else if r < 0x10000 then [0xE0 + r div 4096, 0x80 + r div 64 mod 64, 0x80 + r mod 64]
      else [0xF0 + r div 262144, 0x80 + r div 4096 mod 64, 0x80 + r div 64 mod 64, 0x80 + r mod 64])"

definition one_rune :: "bytes \<Rightarrow> nat option" where
  "one_rune bs = (case runes (map of_char bs) of Some [r] \<Rightarrow> Some r | _ \<Rightarrow> None)"

definition decode_rune :: "bytes \<Rightarrow> nat \<times> nat" where
  "decode_rune bs =
     (if bs = [] then (0xFFFD, 0)
      else case List.find (\<lambda>k. one_rune (take k bs) \<noteq> None) [1, 2, 3, 4] of
        Some k \<Rightarrow> (the (one_rune (take k bs)), k)
      | None \<Rightarrow> (0xFFFD, 1))"

text \<open>How an offset of the view becomes an offset of the document.\<close>

datatype scanMapper = Unchanged | Legacy | Utf16 bool

definition is_ascii :: "char \<Rightarrow> bool" where
  "is_ascii c \<longleftrightarrow> of_char c < (0x80 :: nat)"

definition legacy_rune :: "char \<Rightarrow> bytes" where
  "legacy_rune b = (if is_ascii b then [b] else utf8_encode (0x4E00 + of_char b))"

definition legacy_view :: "bytes \<Rightarrow> bytes" where
  "legacy_view document = concat (map legacy_rune document)"

definition uint16 :: "bool \<Rightarrow> char \<Rightarrow> char \<Rightarrow> nat" where
  "uint16 little a b = (if little then of_char a + 256 * of_char b else 256 * of_char a + of_char b)"

fun utf16_view :: "bool \<Rightarrow> bytes \<Rightarrow> bytes option" where
  "utf16_view little [] = Some []"
| "utf16_view little [a] = None"
| "utf16_view little (a # b # rest) =
     (let v = uint16 little a b in
      if 0xD800 \<le> v \<and> v < 0xE000
      then (case rest of
              c # d # rest \<Rightarrow>
                let w = uint16 little c d in
                if v < 0xDC00 \<and> 0xDC00 \<le> w \<and> w < 0xE000
                then map_option ((@) (utf8_encode (0x10000 + (v - 0xD800) * 1024 + (w - 0xDC00)))) (utf16_view little rest)
                else None
            | _ \<Rightarrow> None)
      else map_option ((@) (utf8_encode v)) (utf16_view little rest))"

definition xmlUTF16CertificateScanView :: "bytes \<Rightarrow> bool \<Rightarrow> bytes \<times> scanMapper" where
  "xmlUTF16CertificateScanView document little =
     (if length document mod 2 \<noteq> 0 then (document, Unchanged)
      else case utf16_view little document of
        None \<Rightarrow> (document, Unchanged)
      | Some view \<Rightarrow> (view, Utf16 little))"

definition xmlCertificateScanView :: "bytes \<Rightarrow> bytes \<times> scanMapper" where
  "xmlCertificateScanView document =
     (if length document \<ge> 2 \<and> (prefix [CHR 0xFF, CHR 0xFE] document \<or> document ! 0 = CHR ''<'' \<and> document ! 1 = CHR 0x00)
      then xmlUTF16CertificateScanView document True
      else if length document \<ge> 2 \<and> (prefix [CHR 0xFE, CHR 0xFF] document \<or> document ! 0 = CHR 0x00 \<and> document ! 1 = CHR ''<'')
      then xmlUTF16CertificateScanView document False
      else if runes (map of_char document) \<noteq> None then (document, Unchanged)
      else (legacy_view document, Legacy))"

text \<open>The loops of the mappers go on from where the last call stopped: \<^const>\<open>None\<close> is an index
  out of range, or a loop that would not end.\<close>

function legacyOffset :: "bytes \<Rightarrow> nat \<Rightarrow> nat \<Rightarrow> nat \<Rightarrow> (nat \<times> nat) option" where
  "legacyOffset document scanned consumed offset =
     (if scanned < offset
      then (if consumed \<ge> length document then None
            else legacyOffset document (if is_ascii (document ! consumed) then scanned + 1 else scanned + 3) (consumed + 1) offset)
      else Some (scanned, consumed))"
  by pat_completeness auto
termination
  by (relation "measure (\<lambda>(_, scanned, _, offset). offset - scanned)") auto

declare legacyOffset.simps [simp del]

function utf16Offset :: "bytes \<Rightarrow> nat \<Rightarrow> nat \<Rightarrow> nat \<Rightarrow> (nat \<times> nat) option" where
  "utf16Offset view scanned consumed offset =
     (if scanned < offset
      then (let r = decode_rune (drop scanned view) in
            if snd r = 0 then None
            else utf16Offset view (scanned + snd r) (if fst r > 0xFFFF then consumed + 4 else consumed + 2) offset)
      else Some (scanned, consumed))"
  by pat_completeness auto
termination
  by (relation "measure (\<lambda>(_, scanned, _, offset). offset - scanned)") auto

declare utf16Offset.simps [simp del]

definition sourceOffset :: "scanMapper \<Rightarrow> bytes \<Rightarrow> bytes \<Rightarrow> nat \<times> nat \<Rightarrow> nat \<Rightarrow> (nat \<times> nat) option" where
  "sourceOffset m document view st offset = (case m of
     Unchanged \<Rightarrow> Some (offset, offset)
   | Legacy \<Rightarrow> legacyOffset document (fst st) (snd st) offset
   | Utf16 _ \<Rightarrow> utf16Offset view (fst st) (snd st) offset)"

section \<open>The attribute\<close>

definition xmlTagWhitespace :: "char \<Rightarrow> bool" where
  "xmlTagWhitespace c \<longleftrightarrow> c = CHR '' '' \<or> c = CHR 0x09 \<or> c = CHR 0x0D \<or> c = CHR 0x0A"

definition skip_while :: "(char \<Rightarrow> bool) \<Rightarrow> bytes \<Rightarrow> nat \<Rightarrow> nat" where
  "skip_while P tag i = i + length (takeWhile P (drop i tag))"

lemma skip_while_ge: "i \<le> skip_while P tag i"
  by (simp add: skip_while_def)

definition between :: "nat \<Rightarrow> nat \<Rightarrow> bytes \<Rightarrow> bytes" where
  "between i j bs = take (j - i) (drop i bs)"

function idAttributeFrom :: "bytes \<Rightarrow> nat \<Rightarrow> nat \<times> nat" where
  "idAttributeFrom tag i =
     (if i \<ge> length tag then (0, 0)
      else let start = skip_while xmlTagWhitespace tag i;
               e = skip_while (\<lambda>c. \<not> xmlTagWhitespace c \<and> c \<noteq> CHR ''='' \<and> c \<noteq> CHR ''>'' \<and> c \<noteq> CHR ''/'') tag start;
               j = skip_while xmlTagWhitespace tag e
           in if j \<ge> length tag \<or> tag ! j \<noteq> CHR ''='' then (0, 0)
              else let k = skip_while xmlTagWhitespace tag (j + 1)
              in if k \<ge> length tag \<or> tag ! k \<noteq> CHR 0x27 \<and> tag ! k \<noteq> CHR 0x22 then (0, 0)
                 else let l = skip_while (\<lambda>c. c \<noteq> tag ! k) tag (k + 1)
                 in if l \<ge> length tag then (0, 0)
                    else if between start e tag = ''Id'' then (start, l + 1)
                    else idAttributeFrom tag (l + 1))"
  by pat_completeness auto
termination
proof (relation "measure (\<lambda>(tag, i). length tag - i)")
  fix tag i start e j k l
  assume i: "\<not> length tag \<le> i" and "start = skip_while xmlTagWhitespace tag i"
    and "e = skip_while (\<lambda>c. \<not> xmlTagWhitespace c \<and> c \<noteq> CHR ''='' \<and> c \<noteq> CHR ''>'' \<and> c \<noteq> CHR ''/'') tag start"
    and "j = skip_while xmlTagWhitespace tag e" and "k = skip_while xmlTagWhitespace tag (j + 1)"
    and "l = skip_while (\<lambda>c. c \<noteq> tag ! k) tag (k + 1)"
  then have "i \<le> start" "start \<le> e" "e \<le> j" "j + 1 \<le> k" "k + 1 \<le> l" by (simp_all only: skip_while_ge)
  with i show "((tag, l + 1), tag, i) \<in> measure (\<lambda>(tag, i). length tag - i)" by simp
qed simp

declare idAttributeFrom.simps [simp del]

definition xmlSignatureIDAttribute :: "bytes \<Rightarrow> nat \<times> nat" where
  "xmlSignatureIDAttribute tag =
     idAttributeFrom tag (skip_while (\<lambda>c. \<not> xmlTagWhitespace c \<and> c \<noteq> CHR ''>'' \<and> c \<noteq> CHR ''/'') tag 1)"

section \<open>The copy\<close>

text \<open>The decoder gives tokens with the offset of the input after each, and the error that ends
  them. The state of the scan: the mapper, what is written, and where the rest begins.\<close>

type_synonym offset_decoder = "(token \<times> nat) list \<times> gerror"

record scanState =
  sc_mapper :: "nat \<times> nat"
  sc_out :: slice
  sc_kept :: nat

definition append_slice :: "slice \<Rightarrow> bytes \<Rightarrow> slice" where
  "append_slice out piece = (if out = None \<and> piece = [] then None else Some (str_of out @ piece))"

fun cut_attributes ::
  "scanMapper \<Rightarrow> bytes \<Rightarrow> bytes \<Rightarrow> nat \<Rightarrow> nat \<Rightarrow> xattr list \<Rightarrow> scanState \<Rightarrow> scanState option" where
  "cut_attributes m document view start finish [] st = Some st"
| "cut_attributes m document view start finish (a # as) st =
     (if nm_Space (at_Name a) \<noteq> [] \<or> nm_Local (at_Name a) \<noteq> ''Id'' then cut_attributes m document view start finish as st
      else if \<not> (start \<le> finish \<and> finish \<le> length view) then None
      else let (from, until) = xmlSignatureIDAttribute (between start finish view) in
      if until = 0 then cut_attributes m document view start finish as st
      else (case sourceOffset m document view (sc_mapper st) (start + from) of
        None \<Rightarrow> None
      | Some s1 \<Rightarrow> (case sourceOffset m document view s1 (start + until) of
          None \<Rightarrow> None
        | Some s2 \<Rightarrow>
            if sc_kept st \<le> snd s1 \<and> snd s1 \<le> length document
            then Some \<lparr>sc_mapper = s2, sc_out = append_slice (sc_out st) (between (sc_kept st) (snd s1) document),
                       sc_kept = snd s2\<rparr>
            else None)))"

fun scan_tokens ::
  "golib \<Rightarrow> scanMapper \<Rightarrow> bytes \<Rightarrow> bytes \<Rightarrow> gerror \<Rightarrow> nat \<Rightarrow> (token \<times> nat) list \<Rightarrow> scanState \<Rightarrow> bytes option" where
  "scan_tokens G m document view ended start [] st =
     (if \<not> errors_is ended IoEOF then Some document
      else case sc_out st of
        None \<Rightarrow> Some document
      | Some out \<Rightarrow> if sc_kept st \<le> length document then Some (out @ drop (sc_kept st) document) else None)"
| "scan_tokens G m document view ended start ((token, finish) # toks) st =
     (case token of
        StartElement element \<Rightarrow>
          if \<not> isDSigSignature (se_Name element) then scan_tokens G m document view ended finish toks st
          else if validateUniqueXMLAttributes G element \<noteq> None then Some document
          else (case cut_attributes m document view start finish (se_Attr element) st of
            None \<Rightarrow> None
          | Some st \<Rightarrow> scan_tokens G m document view ended finish toks st)
      | _ \<Rightarrow> scan_tokens G m document view ended finish toks st)"

definition xmlCertificateInput :: "golib \<Rightarrow> (bytes \<Rightarrow> offset_decoder) \<Rightarrow> bytes \<Rightarrow> bytes option" where
  "xmlCertificateInput G D document =
     (let (view, m) = xmlCertificateScanView document
      in scan_tokens G m document view (snd (D view)) 0 (fst (D view))
           \<lparr>sc_mapper = (0, 0), sc_out = None, sc_kept = 0\<rparr>)"

text \<open>\<^verbatim>\<open>GetCertFromXML\<close>; the first signature must exist, so its missing status is an error. With a
    tokenizer whose offsets grow the copy is never \<^const>\<open>None\<close>.\<close>

definition Client_GetCertFromXML ::
  "golib \<Rightarrow> pkilib \<Rightarrow> (bytes \<Rightarrow> offset_decoder) \<Rightarrow> 'w loader \<Rightarrow> int \<Rightarrow> (nat \<Rightarrow> call_context) \<Rightarrow> Source \<Rightarrow>
   ('w session, gerror + certificate list) state" where
  "Client_GetCertFromXML G K D L maxInputSize x source =
     guarded (at_entry (x 0)) (
     checked (xmlInput source maxInputSize) (\<lambda>v.
     collectSignerCertificates G K (\<lambda>i. at_entry (x (Suc i))) ErrorIDAttrNotFound (\<lambda>i.
       withLockedLibrary (x (Suc i)) (\<lambda>c. natively (GetCertFromXML L c (xmlCertificateInput G D (str_of v)) (int i + 1))))))"

section \<open>What is cut\<close>

definition id_attribute :: "bytes \<Rightarrow> bool" where
  "id_attribute bs \<longleftrightarrow> (\<exists>w1 w2 q v. bs = ''Id'' @ w1 @ ''='' @ w2 @ [q] @ v @ [q] \<and> list_all xmlTagWhitespace w1 \<and>
     list_all xmlTagWhitespace w2 \<and> q \<in> {CHR 0x27, CHR 0x22} \<and> q \<notin> set v)"

lemma between_append: "i \<le> j \<Longrightarrow> j \<le> k \<Longrightarrow> between i k bs = between i j bs @ between j k bs"
  using take_add [of "j - i" "k - j" "drop i bs"] by (simp add: between_def)

lemma between_single: "j < length bs \<Longrightarrow> between j (j + 1) bs = [bs ! j]"
  by (simp add: between_def take_Suc hd_drop_conv_nth)

lemma between_skip: "between i (skip_while P tag i) tag = takeWhile P (drop i tag)"
  by (simp add: between_def skip_while_def takeWhile_eq_take [symmetric])

lemma skip_while_le: "i \<le> length tag \<Longrightarrow> skip_while P tag i \<le> length tag"
  using length_takeWhile_le [of P "drop i tag"] by (simp add: skip_while_def)

lemma idAttributeFrom_span:
  "idAttributeFrom tag i = (a, b) \<Longrightarrow> b \<noteq> 0 \<Longrightarrow> i \<le> a \<and> a < b \<and> b \<le> length tag \<and> id_attribute (between a b tag)"
proof (induction tag i rule: idAttributeFrom.induct)
  case (1 tag i)
  define start where "start = skip_while xmlTagWhitespace tag i"
  define e where "e = skip_while (\<lambda>c. \<not> xmlTagWhitespace c \<and> c \<noteq> CHR ''='' \<and> c \<noteq> CHR ''>'' \<and> c \<noteq> CHR ''/'') tag start"
  define j where "j = skip_while xmlTagWhitespace tag e"
  define k where "k = skip_while xmlTagWhitespace tag (j + 1)"
  define l where "l = skip_while (\<lambda>c. c \<noteq> tag ! k) tag (k + 1)"
  note defs = start_def [symmetric] e_def [symmetric] j_def [symmetric] k_def [symmetric] l_def [symmetric]
  note eq = "1.prems"(1) [unfolded idAttributeFrom.simps [of tag i] Let_def defs]
  have i: "i < length tag" and j: "j < length tag" "tag ! j = CHR ''=''" and k: "k < length tag" "tag ! k \<in> {CHR 0x27, CHR 0x22}"
    and l: "l < length tag" using eq "1.prems"(2) by (auto split: if_splits)
  have le: "i \<le> start" "start \<le> e" "e \<le> j" "j + 1 \<le> k" "k + 1 \<le> l"
    by (simp_all only: start_def e_def j_def k_def l_def skip_while_ge)
  show ?case
  proof (cases "between start e tag = ''Id''")
    case True
    then have ab: "a = start" "b = l + 1" using eq i j k l by auto
    have q: "tag ! l = tag ! k"
    proof -
      have "l - (k + 1) = length (takeWhile (\<lambda>c. c \<noteq> tag ! k) (drop (k + 1) tag))" by (simp add: l_def skip_while_def)
      moreover have "l - (k + 1) < length (drop (k + 1) tag)" using l le(5) by simp
      ultimately have "\<not> drop (k + 1) tag ! (l - (k + 1)) \<noteq> tag ! k"
        using nth_length_takeWhile [of "\<lambda>c. c \<noteq> tag ! k" "drop (k + 1) tag"] by simp
      then show ?thesis using le(5) l by simp
    qed
    have "between start (l + 1) tag = between start e tag @ between e j tag @ between j (j + 1) tag @ between (j + 1) k tag @
        between k (k + 1) tag @ between (k + 1) l tag @ between l (l + 1) tag"
    proof -
      have up: "e \<le> l + 1" "j \<le> l + 1" "j + 1 \<le> l + 1" "k \<le> l + 1" "k + 1 \<le> l + 1" "l \<le> l + 1" using le by linarith+
      have one: "j \<le> j + 1" "k \<le> k + 1" by simp_all
      show ?thesis
        unfolding between_append [OF le(2) up(1)] between_append [OF le(3) up(2)] between_append [OF one(1) up(3)]
          between_append [OF le(4) up(4)] between_append [OF one(2) up(5)] between_append [OF le(5) up(6)] append_assoc ..
    qed
    also have "\<dots> = ''Id'' @ between e j tag @ ''='' @ between (j + 1) k tag @ [tag ! k] @ between (k + 1) l tag @ [tag ! k]"
      using True between_single [OF j(1)] between_single [OF k(1)] between_single [OF l] j(2) q by simp
    finally have "between a b tag = ''Id'' @ between e j tag @ ''='' @ between (j + 1) k tag @ [tag ! k] @ between (k + 1) l tag @ [tag ! k]"
      by (simp add: ab)
    moreover have "list_all xmlTagWhitespace (between e j tag)" "list_all xmlTagWhitespace (between (j + 1) k tag)"
      by (auto simp: j_def k_def between_skip list_all_iff dest: set_takeWhileD)
    moreover have "tag ! k \<notin> set (between (k + 1) l tag)" unfolding l_def between_skip by (auto dest: set_takeWhileD)
    ultimately have "id_attribute (between a b tag)" using k(2) unfolding id_attribute_def by blast
    then show ?thesis using ab le l by auto
  next
    case False
    have "idAttributeFrom tag (l + 1) = (a, b)" using eq i j k l False by (auto split: if_splits)
    then have "l + 1 \<le> a \<and> a < b \<and> b \<le> length tag \<and> id_attribute (between a b tag)"
      using "1.IH" [OF _ start_def e_def j_def _ k_def _ l_def _ False] i j k l "1.prems"(2) by auto
    then show ?thesis using le by auto
  qed
qed

lemma id_attribute_span:
  assumes "xmlSignatureIDAttribute tag = (a, b)" and "b \<noteq> 0"
  shows "1 \<le> a" "a < b" "b \<le> length tag" "id_attribute (between a b tag)"
  using idAttributeFrom_span [OF assms(1) [unfolded xmlSignatureIDAttribute_def] assms(2)] skip_while_ge [of 1] by (auto intro: le_trans)

section \<open>Encodings\<close>

definition valid_rune :: "nat \<Rightarrow> bool" where
  "valid_rune r \<longleftrightarrow> r < 0xD800 \<or> 0xE000 \<le> r \<and> r < 0x110000"

lemma ascii_char_of: "n < (256 :: nat) \<Longrightarrow> is_ascii (char_of n) \<longleftrightarrow> n < 0x80"
  by (simp add: is_ascii_def)

lemma utf8_high: "0x80 \<le> r \<Longrightarrow> r < 0x110000 \<Longrightarrow> c \<in> set (utf8_encode r) \<Longrightarrow> \<not> is_ascii c"
  by (auto simp: utf8_encode_def ascii_char_of split: if_splits)

lemma utf8_low: "r < 0x80 \<Longrightarrow> utf8_encode r = [char_of r]"
  by (simp add: utf8_encode_def)

lemma utf8_nonempty [simp]: "utf8_encode r \<noteq> []"
  by (simp add: utf8_encode_def)

lemma radix64_digits:
  fixes r :: nat
  shows "r div 4096 * 4096 + r div 64 mod 64 * 64 + r mod 64 = r"
    "r div 262144 * 262144 + r div 4096 mod 64 * 4096 + r div 64 mod 64 * 64 + r mod 64 = r"
proof -
  have d: "r div 64 div 64 = r div 4096" "r div 4096 div 64 = r div 262144" by (simp_all add: div_mult2_eq [symmetric])
  show "r div 4096 * 4096 + r div 64 mod 64 * 64 + r mod 64 = r"
    "r div 262144 * 262144 + r div 4096 mod 64 * 4096 + r div 64 mod 64 * 64 + r mod 64 = r"
    using div_mult_mod_eq [of r 64] div_mult_mod_eq [of "r div 64" 64] div_mult_mod_eq [of "r div 4096" 64] unfolding d by linarith+
qed

lemma runes2: "0x80 \<le> r \<Longrightarrow> r < 0x800 \<Longrightarrow> runes [0xC0 + r div 64, 0x80 + r mod 64] = Some [r] \<and> runes [0xC0 + r div 64] = None"
  by (auto simp: continuation_def)

lemma runes3:
  assumes "0x800 \<le> r" and "r < 0x10000" and "valid_rune r"
  shows "runes [0xE0 + r div 4096, 0x80 + r div 64 mod 64, 0x80 + r mod 64] = Some [r]"
    "runes [0xE0 + r div 4096, 0x80 + r div 64 mod 64] = None" "runes [0xE0 + r div 4096] = None"
proof -
  have b: "r div 4096 < 16" using assms(2) by simp
  have lo: "r div 4096 = 0 \<Longrightarrow> 0x20 \<le> r div 64 mod 64" using assms(1) by simp
  have hi: "r div 4096 = 13 \<Longrightarrow> r div 64 mod 64 < 0x20"
  proof -
    assume d: "r div 4096 = 13"
    then have "r < 0xE000" by linarith
    then have "r < 0xD800" using assms(3) by (auto simp: valid_rune_def)
    moreover have "r div 64 mod 64 = r div 64 - 832" using d by (simp add: minus_div_mult_eq_mod [symmetric] div_mult2_eq [symmetric])
    ultimately show ?thesis by linarith
  qed
  have sum: "r div 4096 * 4096 + r div 64 mod 64 * 64 + r mod 64 = r" using radix64_digits(1) .
  show "runes [0xE0 + r div 4096, 0x80 + r div 64 mod 64, 0x80 + r mod 64] = Some [r]"
    using b lo hi sum by (auto simp: continuation_def)
  show "runes [0xE0 + r div 4096, 0x80 + r div 64 mod 64] = None" "runes [0xE0 + r div 4096] = None" by simp_all
qed

lemma runes4:
  assumes "0x10000 \<le> r" and "r < 0x110000"
  shows "runes [0xF0 + r div 262144, 0x80 + r div 4096 mod 64, 0x80 + r div 64 mod 64, 0x80 + r mod 64] = Some [r]"
    "runes [0xF0 + r div 262144, 0x80 + r div 4096 mod 64, 0x80 + r div 64 mod 64] = None"
    "runes [0xF0 + r div 262144, 0x80 + r div 4096 mod 64] = None" "runes [0xF0 + r div 262144] = None"
proof -
  have b: "r div 262144 < 5" using assms(2) by simp
  have lo: "r div 262144 = 0 \<Longrightarrow> 0x10 \<le> r div 4096 mod 64" using assms(1) by simp
  have hi: "r div 262144 = 4 \<Longrightarrow> r div 4096 mod 64 < 0x10"
  proof -
    assume d: "r div 262144 = 4"
    then have "r div 4096 mod 64 = r div 4096 - 256" by (simp add: minus_div_mult_eq_mod [symmetric] div_mult2_eq [symmetric])
    then show ?thesis using assms(2) by linarith
  qed
  have sum: "r div 262144 * 262144 + r div 4096 mod 64 * 4096 + r div 64 mod 64 * 64 + r mod 64 = r"
    using radix64_digits(2) .
  show "runes [0xF0 + r div 262144, 0x80 + r div 4096 mod 64, 0x80 + r div 64 mod 64, 0x80 + r mod 64] = Some [r]"
    using b lo hi sum by (auto simp: continuation_def)
  show "runes [0xF0 + r div 262144, 0x80 + r div 4096 mod 64, 0x80 + r div 64 mod 64] = None"
    "runes [0xF0 + r div 262144, 0x80 + r div 4096 mod 64] = None" "runes [0xF0 + r div 262144] = None" by simp_all
qed

lemma decode_rune_encode:
  assumes "valid_rune r"
  shows "decode_rune (utf8_encode r @ rest) = (r, length (utf8_encode r))"
proof -
  consider "r < 0x80" | "0x80 \<le> r" "r < 0x800" | "0x800 \<le> r" "r < 0x10000" | "0x10000 \<le> r" "r < 0x110000"
    using assms by (auto simp: valid_rune_def) linarith+
  then show ?thesis
  proof cases
    case 1
    then show ?thesis by (simp add: utf8_encode_def decode_rune_def one_rune_def)
  next
    case 2
    have m: "(0xC0 + r div 64) mod 256 = 0xC0 + r div 64" "(0x80 + r mod 64) mod 256 = 0x80 + r mod 64" using 2 by simp_all
    show ?thesis using 2 runes2 [OF 2] by (simp add: utf8_encode_def decode_rune_def one_rune_def m del: )
  next
    case 3
    have m: "(0xE0 + r div 4096) mod 256 = 0xE0 + r div 4096" "(0x80 + r div 64 mod 64) mod 256 = 0x80 + r div 64 mod 64"
      "(0x80 + r mod 64) mod 256 = 0x80 + r mod 64" using 3 by simp_all
    show ?thesis using 3 runes3 [OF 3 assms] by (simp add: utf8_encode_def decode_rune_def one_rune_def m del: )
  next
    case 4
    have m: "(0xF0 + r div 262144) mod 256 = 0xF0 + r div 262144" "(0x80 + r div 4096 mod 64) mod 256 = 0x80 + r div 4096 mod 64"
      "(0x80 + r div 64 mod 64) mod 256 = 0x80 + r div 64 mod 64" "(0x80 + r mod 64) mod 256 = 0x80 + r mod 64" using 4 by simp_all
    show ?thesis using 4 runes4 [OF 4] by (simp add: utf8_encode_def decode_rune_def one_rune_def m del: )
  qed
qed

text \<open>A part of the document and its view.\<close>

definition encodes :: "scanMapper \<Rightarrow> bytes \<Rightarrow> bytes \<Rightarrow> bool" where
  "encodes m src view = (case m of
     Unchanged \<Rightarrow> src = view
   | Legacy \<Rightarrow> legacy_view src = view
   | Utf16 little \<Rightarrow> utf16_view little src = Some view)"

lemma legacy_rune_width: "length (legacy_rune b) = (if is_ascii b then 1 else 3)"
  by (auto simp: legacy_rune_def utf8_encode_def is_ascii_def intro: less_trans [OF nat_of_char_less_256])

text \<open>A code unit pair or a surrogate pair with its character.\<close>

definition utf16_unit :: "bool \<Rightarrow> bytes \<Rightarrow> nat \<Rightarrow> bool" where
  "utf16_unit little u r \<longleftrightarrow> valid_rune r \<and> length u = (if r > 0xFFFF then 4 else 2) \<and>
     (\<forall>rest. utf16_view little (u @ rest) = map_option ((@) (utf8_encode r)) (utf16_view little rest))"

lemma uint16_bound: "uint16 little a b < 0x10000"
  using nat_of_char_less_256 [of a] nat_of_char_less_256 [of b]
  by (cases little) (simp_all add: uint16_def del: nat_of_char_less_256)

lemma utf16_first:
  assumes "utf16_view little src = Some view" and "src \<noteq> []"
  shows "\<exists>u r rest view'. src = u @ rest \<and> view = utf8_encode r @ view' \<and> utf16_unit little u r \<and> utf16_view little rest = Some view'"
proof -
  obtain a b tl where src: "src = a # b # tl" using assms by (cases "(little, src)" rule: utf16_view.cases) auto
  let ?v = "uint16 little a b"
  show ?thesis
  proof (cases "0xD800 \<le> ?v \<and> ?v < 0xE000")
    case False
    then have "utf16_unit little [a, b] ?v" using uint16_bound [of little a b] by (auto simp: utf16_unit_def valid_rune_def Let_def)
    moreover obtain view' where "view = utf8_encode ?v @ view'" "utf16_view little tl = Some view'"
      using assms(1) False src by (auto simp: Let_def)
    ultimately show ?thesis using src by (metis append_Cons append_Nil)
  next
    case True
    then obtain c d rest where tl: "tl = c # d # rest" using assms(1) src by (auto simp: Let_def split: list.splits if_splits)
    let ?w = "uint16 little c d"
    have p: "?v < 0xDC00" "0xDC00 \<le> ?w" "?w < 0xE000" using assms(1) src tl True by (auto simp: Let_def split: if_splits)
    let ?r = "0x10000 + (?v - 0xD800) * 1024 + (?w - 0xDC00)"
    have "valid_rune ?r" "0xFFFF < ?r" using p True by (auto simp: valid_rune_def)
    then have "utf16_unit little [a, b, c, d] ?r" using p True by (auto simp: utf16_unit_def Let_def)
    moreover obtain view' where "view = utf8_encode ?r @ view'" "utf16_view little rest = Some view'"
      using assms(1) True p src tl by (auto simp: Let_def)
    ultimately show ?thesis using src tl by (metis append_Cons append_Nil)
  qed
qed

lemma encodes_nil [simp]: "encodes m [] view \<longleftrightarrow> view = []"
  by (auto simp: encodes_def legacy_view_def split: scanMapper.splits)

lemma utf16_append: "utf16_view little a = Some va \<Longrightarrow> utf16_view little b = Some vb \<Longrightarrow> utf16_view little (a @ b) = Some (va @ vb)"
proof (induction "length a" arbitrary: a va rule: less_induct)
  case less
  show ?case
  proof (cases "a = []")
    case True
    with less.prems show ?thesis by simp
  next
    case False
    from utf16_first [OF less.prems(1) False] obtain u r rest view' where
      u: "a = u @ rest" "va = utf8_encode r @ view'" "utf16_unit little u r" "utf16_view little rest = Some view'" by blast
    have "length rest < length a" using u(1,3) by (auto simp: utf16_unit_def split: if_splits)
    from less.hyps [OF this u(4) less.prems(2)] u show ?thesis by (simp add: utf16_unit_def)
  qed
qed

lemma encodes_append: "encodes m a va \<Longrightarrow> encodes m b vb \<Longrightarrow> encodes m (a @ b) (va @ vb)"
  by (auto simp: encodes_def legacy_view_def utf16_append split: scanMapper.splits)

lemma encodes_first:
  assumes "encodes m src view" and "src \<noteq> []"
  shows "\<exists>u ru rest view'. src = u @ rest \<and> view = ru @ view' \<and> u \<noteq> [] \<and> encodes m u ru \<and> encodes m rest view' \<and>
    ru \<noteq> [] \<and> (length ru = 1 \<or> (\<forall>c \<in> set ru. \<not> is_ascii c))"
proof (cases m)
  case Unchanged
  then show ?thesis using assms
    by (intro exI [of _ "[hd src]"] exI [of _ "[hd src]"] exI [of _ "tl src"]) (auto simp: encodes_def)
next
  case Legacy
  obtain b rest where src: "src = b # rest" using assms(2) by (cases src) auto
  have "length (legacy_rune b) = 1 \<or> (\<forall>c \<in> set (legacy_rune b). \<not> is_ascii c)"
    using utf8_high [of "0x4E00 + of_char b"] nat_of_char_less_256 [of b] by (auto simp: legacy_rune_def)
  moreover have "legacy_rune b \<noteq> []" by (simp add: legacy_rune_def)
  ultimately show ?thesis using assms(1) Legacy src
    by (intro exI [of _ "[b]"] exI [of _ "legacy_rune b"] exI [of _ rest] exI [of _ "legacy_view rest"])
      (auto simp: encodes_def legacy_view_def)
next
  case (Utf16 little)
  then have "utf16_view little src = Some view" using assms(1) by (simp add: encodes_def)
  from utf16_first [OF this assms(2)] obtain u r rest view' where
    u: "src = u @ rest" "view = utf8_encode r @ view'" "utf16_unit little u r" "utf16_view little rest = Some view'" by blast
  have "utf16_view little u = Some (utf8_encode r)" using u(3) [unfolded utf16_unit_def] by (metis append_Nil2 option.simps(9) utf16_view.simps(1))
  moreover have "u \<noteq> []" using u(3) by (auto simp: utf16_unit_def split: if_splits)
  moreover have "length (utf8_encode r) = 1 \<or> (\<forall>c \<in> set (utf8_encode r). \<not> is_ascii c)"
    using u(3) utf8_high [of r] utf8_low [of r] by (cases "r < 0x80") (auto simp: utf16_unit_def valid_rune_def)
  ultimately show ?thesis using u Utf16 
    by (intro exI [of _ u] exI [of _ "utf8_encode r"] exI [of _ rest] exI [of _ view']) (simp add: encodes_def)
qed

section \<open>Offsets\<close>

lemma encodes_before:
  assumes "encodes m src (va @ c # vb)" and "is_ascii c"
  shows "\<exists>da db. src = da @ db \<and> encodes m da va \<and> encodes m db (c # vb)"
  using assms(1)
proof (induction "length src" arbitrary: src va rule: less_induct)
  case less
  show ?case
  proof (cases "va = []")
    case True
    then show ?thesis using less.prems by (intro exI [of _ "[]"] exI [of _ src]) simp
  next
    case False
    have "src \<noteq> []" using less.prems by auto
    from encodes_first [OF less.prems this] obtain u ru rest view' where
      u: "src = u @ rest" "va @ c # vb = ru @ view'" "u \<noteq> []" "encodes m u ru" "encodes m rest view'"
        "length ru = 1 \<or> (\<forall>c \<in> set ru. \<not> is_ascii c)" by blast
    obtain ws where ws: "va = ru @ ws" "ws @ c # vb = view'"
    proof -
      from u(2) consider ws where "va = ru @ ws" "ws @ c # vb = view'" | ws where "va @ ws = ru" "c # vb = ws @ view'"
        by (auto simp: append_eq_append_conv2)
      then show thesis
      proof cases
        case 1
        then show thesis by (rule that)
      next
        case 2
        show thesis
        proof (cases ws)
          case Nil
          with 2 show thesis by (intro that [of "[]"]) simp_all
        next
          case (Cons x xs)
          then have "c \<in> set ru" "length ru > 1" using 2 False by (auto simp: Suc_lessI)
          then show thesis using u(6) assms(2) by auto
        qed
      qed
    qed
    have "length rest < length src" using u(1,3) by simp
    from less.hyps [OF this, of ws] u(5) ws(2) obtain da db where
      rest: "rest = da @ db" "encodes m da ws" "encodes m db (c # vb)" by auto
    show ?thesis
      using rest u(1) ws(1) encodes_append [OF u(4) rest(2)] by (intro exI [of _ "u @ da"] exI [of _ db]) simp
  qed
qed

lemma encodes_after:
  assumes "encodes m src (c # vb)" and "is_ascii c"
  shows "\<exists>u db. src = u @ db \<and> encodes m u [c] \<and> encodes m db vb"
proof -
  have "src \<noteq> []" using assms(1) by auto
  from encodes_first [OF assms(1) this] obtain u ru rest view' where
    u: "src = u @ rest" "c # vb = ru @ view'" "encodes m u ru" "encodes m rest view'" "ru \<noteq> []"
      "length ru = 1 \<or> (\<forall>c \<in> set ru. \<not> is_ascii c)" by blast
  then have "ru = [c]" using assms(2) by (cases ru) auto
  with u show ?thesis by auto
qed

lemma legacy_advance:
  "legacyOffset (da @ d1 @ db) n (length da) (n + length (legacy_view d1)) = Some (n + length (legacy_view d1), length da + length d1)"
proof (induction d1 arbitrary: da n)
  case Nil
  then show ?case by (simp add: legacyOffset.simps legacy_view_def)
next
  case (Cons b d1)
  let ?k = "length (legacy_rune b)"
  have "legacyOffset (da @ (b # d1) @ db) n (length da) (n + length (legacy_view (b # d1))) =
      legacyOffset ((da @ [b]) @ d1 @ db) (n + ?k) (length (da @ [b])) (n + ?k + length (legacy_view d1))"
    by (subst legacyOffset.simps) (simp add: legacy_view_def legacy_rune_width nth_append add.assoc)
  then show ?case using Cons.IH [of "da @ [b]" "n + ?k"] by (simp add: legacy_view_def)
qed

lemma utf16_advance:
  "utf16_view little d1 = Some v1 \<Longrightarrow>
     utf16Offset (va @ v1 @ vb) (length va) k (length va + length v1) = Some (length va + length v1, k + length d1)"
proof (induction "length d1" arbitrary: d1 v1 va k rule: less_induct)
  case less
  show ?case
  proof (cases "d1 = []")
    case True
    then show ?thesis using less.prems by (simp add: utf16Offset.simps)
  next
    case False
    from utf16_first [OF less.prems False] obtain u r rest view' where
      u: "d1 = u @ rest" "v1 = utf8_encode r @ view'" "utf16_unit little u r" "utf16_view little rest = Some view'" by blast
    have unit: "valid_rune r" "length u = (if r > 0xFFFF then 4 else 2)" using u(3) by (auto simp: utf16_unit_def)
    have d: "decode_rune (drop (length va) (va @ v1 @ vb)) = (r, length (utf8_encode r))"
      using decode_rune_encode [OF unit(1), of "view' @ vb"] by (simp add: u(2))
    have "utf16Offset (va @ v1 @ vb) (length va) k (length va + length v1) =
        utf16Offset ((va @ utf8_encode r) @ view' @ vb) (length (va @ utf8_encode r)) (k + length u)
          (length (va @ utf8_encode r) + length view')"
      using u(2) unit(2) d by (subst utf16Offset.simps) (simp add: Let_def add.assoc)
    moreover have "length rest < length d1" using u(1) unit(2) by (simp split: if_splits)
    ultimately show ?thesis
      using less.hyps [OF _ u(4), of "va @ utf8_encode r" "k + length u"] u(1,2) by (simp add: add.assoc)
  qed
qed

lemma offset_advance:
  assumes "encodes m da va" and "encodes m d1 v1"
  shows "sourceOffset m (da @ d1 @ db) (va @ v1 @ vb) (length va, length da) (length va + length v1) =
    Some (length va + length v1, length da + length d1)"
  using assms legacy_advance [of da d1 db "length va"]
  by (cases m) (auto simp: sourceOffset_def encodes_def utf16_advance)

section \<open>The copy differs in identifiers only\<close>

text \<open>The \<open>Id\<close> attributes taken from a document, as its view has them, the document, the view,
  and what is left of the document.\<close>

inductive id_removed :: "scanMapper \<Rightarrow> bytes list \<Rightarrow> bytes \<Rightarrow> bytes \<Rightarrow> bytes \<Rightarrow> bool" for m where
  kept: "encodes m document view \<Longrightarrow> id_removed m [] document view document"
| cut: "encodes m a va \<Longrightarrow> encodes m r vr \<Longrightarrow> id_attribute vr \<Longrightarrow> id_removed m ids document view out \<Longrightarrow>
    id_removed m (vr # ids) (a @ r @ document) (va @ vr @ view) (a @ out)"

lemma id_attribute_ends:
  assumes "id_attribute v"
  shows "\<exists>mid q. v = CHR ''I'' # mid @ [q] \<and> is_ascii q"
  using assms unfolding id_attribute_def is_ascii_def by auto

lemma between_in: "b \<le> length (between s f view) \<Longrightarrow> between a b (between s f view) = between (s + a) (s + b) view"
proof -
  assume "b \<le> length (between s f view)"
  then have "b - a \<le> f - s - a" by (intro diff_le_mono) (simp add: between_def)
  then show ?thesis unfolding between_def drop_take take_take drop_drop by (simp add: min_absorb1 add.commute)
qed

lemma find_span:
  assumes "encodes m dr vr" and "a < b" and "b \<le> length vr" and "id_attribute (between a b vr)"
  shows "\<exists>d1 d2 d3 v1 v2 v3. dr = d1 @ d2 @ d3 \<and> vr = v1 @ v2 @ v3 \<and> encodes m d1 v1 \<and> encodes m d2 v2 \<and> encodes m d3 v3 \<and>
    id_attribute v2 \<and> length v1 = a \<and> length v2 = b - a"
proof -
  define v1 v2 v3 where "v1 = take a vr" and "v2 = between a b vr" and "v3 = drop b vr"
  have vr: "vr = v1 @ v2 @ v3"
    using assms(2,3) append_take_drop_id [of "b - a" "drop a vr"] by (simp add: v1_def v2_def v3_def between_def)
  obtain mid q where v2: "v2 = CHR ''I'' # mid @ [q]" "is_ascii q"
    using id_attribute_ends assms(4) unfolding v2_def by blast
  have "encodes m dr (v1 @ CHR ''I'' # (mid @ q # v3))" using assms(1) vr v2(1) by simp
  from encodes_before [OF this] obtain d1 dx where d1: "dr = d1 @ dx" "encodes m d1 v1"
    "encodes m dx ((CHR ''I'' # mid) @ q # v3)" by (auto simp: is_ascii_def)
  from encodes_before [OF d1(3) v2(2)] obtain dm dy where dm: "dx = dm @ dy" "encodes m dm (CHR ''I'' # mid)" "encodes m dy (q # v3)"
    by auto
  from encodes_after [OF dm(3) v2(2)] obtain dq d3 where dq: "dy = dq @ d3" "encodes m dq [q]" "encodes m d3 v3" by auto
  have "encodes m (dm @ dq) v2" using encodes_append [OF dm(2) dq(2)] v2(1) by simp
  moreover have "length v1 = a" "length v2 = b - a" using assms(2,3) by (simp_all add: v1_def v2_def between_def)
  moreover have "dr = d1 @ (dm @ dq) @ d3" using d1(1) dm(1) dq(1) by simp
  moreover have "id_attribute v2" using assms(4) by (simp add: v2_def)
  ultimately show ?thesis using d1(2) dq(3) vr
    by (intro exI [of _ d1] exI [of _ "dm @ dq"] exI [of _ d3] exI [of _ v1] exI [of _ v2] exI [of _ v3]) simp
qed

text \<open>What the scan has done so far.\<close>

definition scanned_at ::
  "scanMapper \<Rightarrow> bytes \<Rightarrow> bytes \<Rightarrow> scanState \<Rightarrow> nat \<Rightarrow> bytes \<Rightarrow> bytes \<Rightarrow> bytes \<Rightarrow> bytes \<Rightarrow> bool" where
  "scanned_at m document view st pos da va dr vr \<longleftrightarrow> document = da @ dr \<and> view = va @ vr \<and>
     encodes m da va \<and> encodes m dr vr \<and> sc_mapper st = (length va, length da) \<and> sc_kept st = length da \<and> length va \<le> pos"

definition scanned_part :: "scanMapper \<Rightarrow> bytes \<Rightarrow> bytes \<Rightarrow> bytes list \<Rightarrow> scanState \<Rightarrow> nat \<Rightarrow> bool" where
  "scanned_part m document view ids st pos \<longleftrightarrow> (\<exists>da va dr vr. scanned_at m document view st pos da va dr vr \<and>
     (\<forall>is d v out. id_removed m is d v out \<longrightarrow> id_removed m (ids @ is) (da @ d) (va @ v) (str_of (sc_out st) @ out)) \<and>
     (sc_out st = None \<longrightarrow> ids = []))"

lemma scanned_partI:
  assumes "scanned_at m document view st pos da va dr vr"
    and "\<forall>is d v out. id_removed m is d v out \<longrightarrow> id_removed m (ids @ is) (da @ d) (va @ v) (str_of (sc_out st) @ out)"
    and "sc_out st = None \<longrightarrow> ids = []"
  shows "scanned_part m document view ids st pos"
  unfolding scanned_part_def by (intro exI conjI) (rule assms)+

lemma encodes_empty: "encodes m src [] \<Longrightarrow> src = []"
  using encodes_first [of m src "[]"] by auto

lemma cut_step:
  assumes part: "scanned_part m document view ids st start" and span: "xmlSignatureIDAttribute (between start finish view) = (a, b)" "b \<noteq> 0"
    and bounds: "start \<le> finish" "finish \<le> length view"
  shows "\<exists>s1 s2. sourceOffset m document view (sc_mapper st) (start + a) = Some s1 \<and>
    sourceOffset m document view s1 (start + b) = Some s2 \<and> sc_kept st \<le> snd s1 \<and> snd s1 \<le> length document \<and>
    scanned_part m document view (ids @ [between (start + a) (start + b) view]) \<lparr>sc_mapper = s2,
      sc_out = append_slice (sc_out st) (between (sc_kept st) (snd s1) document), sc_kept = snd s2\<rparr> finish"
proof -
  obtain da va dr vr where at: "scanned_at m document view st start da va dr vr"
    and so_far: "\<forall>is d v out. id_removed m is d v out \<longrightarrow> id_removed m (ids @ is) (da @ d) (va @ v) (str_of (sc_out st) @ out)"
    using part unfolding scanned_part_def by (elim exE conjE)
  have p: "document = da @ dr" "view = va @ vr" "encodes m da va" "encodes m dr vr"
    "sc_mapper st = (length va, length da)" "sc_kept st = length da" "length va \<le> start"
    using at unfolding scanned_at_def by simp_all
  note s = id_attribute_span [OF span]
  have len: "length (between start finish view) = finish - start" using bounds by (simp add: between_def)
  have fin: "start + b \<le> finish" using s(3) len bounds(1) by simp
  let ?a = "start + a - length va" and ?b = "start + b - length va"
  have same: "between ?a ?b vr = between (start + a) (start + b) view"
    using p(2,7) by (simp add: between_def)
  then have attr: "id_attribute (between ?a ?b vr)" using s(4) between_in [OF s(3)] by simp
  have "?a < ?b" "?b \<le> length vr" using s(2) p(2,7) fin bounds(2) by auto
  from find_span [OF p(4) this attr] obtain d1 d2 d3 v1 v2 v3 where
    d: "dr = d1 @ d2 @ d3" "vr = v1 @ v2 @ v3" "encodes m d1 v1" "encodes m d2 v2" "encodes m d3 v3" "id_attribute v2"
      "length v1 = ?a" "length v2 = ?b - ?a" by blast
  have o1: "sourceOffset m document view (sc_mapper st) (start + a) = Some (start + a, length (da @ d1))"
    using offset_advance [OF p(3) d(3), of "d2 @ d3" "v2 @ v3"] p d(1,2,7) by simp
  have o2: "sourceOffset m document view (start + a, length (da @ d1)) (start + b) = Some (start + b, length (da @ d1 @ d2))"
    using offset_advance [OF encodes_append [OF p(3) d(3)] d(4), of d3 v3] p d(1,2,7,8) s(2) by (simp add: add.assoc)
  have "d1 \<noteq> []" using d(3,7) s(1) p(7) by auto
  have v2: "v2 = between (start + a) (start + b) view" using same d(2,7,8) by (simp add: between_def)
  have piece: "between (sc_kept st) (length (da @ d1)) document = d1" using p(1,6) d(1) by (simp add: between_def)
  let ?st = "\<lparr>sc_mapper = (start + b, length (da @ d1 @ d2)), sc_out = append_slice (sc_out st) d1, sc_kept = length (da @ d1 @ d2)\<rparr>"
  have here: "scanned_at m document view ?st finish (da @ d1 @ d2) (va @ v1 @ v2) d3 v3"
    unfolding scanned_at_def using p(1,2,7) d(1,2,5,7,8) s(2) fin encodes_append [OF p(3) encodes_append [OF d(3,4)]] by simp
  have started: "sc_out ?st = None \<longrightarrow> ids @ [v2] = []" using \<open>d1 \<noteq> []\<close> by (simp add: append_slice_def)
  have now: "\<forall>is d0 v out. id_removed m is d0 v out \<longrightarrow>
      id_removed m ((ids @ [v2]) @ is) ((da @ d1 @ d2) @ d0) ((va @ v1 @ v2) @ v) (str_of (sc_out ?st) @ out)"
  proof (intro allI impI)
    fix "is" d0 v out
    assume "id_removed m is d0 v out"
    from so_far [rule_format, OF id_removed.cut [OF d(3,4,6) this]]
    show "id_removed m ((ids @ [v2]) @ is) ((da @ d1 @ d2) @ d0) ((va @ v1 @ v2) @ v) (str_of (sc_out ?st) @ out)"
      using \<open>d1 \<noteq> []\<close> by (simp add: append_slice_def)
  qed
  have "scanned_part m document view (ids @ [v2]) ?st finish" by (rule scanned_partI [OF here now started])
  then show ?thesis using o1 o2 piece p(1,6) d(1) v2 by auto
qed

lemma scanned_at_later:
  "scanned_at m document view st pos da va dr vr \<Longrightarrow> pos \<le> pos' \<Longrightarrow> scanned_at m document view st pos' da va dr vr"
  by (simp add: scanned_at_def)

lemma scanned_part_later:
  "scanned_part m document view ids st pos \<Longrightarrow> pos \<le> pos' \<Longrightarrow> scanned_part m document view ids st pos'"
  by (subst (asm) scanned_part_def) (elim exE conjE, rule scanned_partI [OF scanned_at_later])

text \<open>The \<open>Id\<close> attribute that a tag of the view loses.\<close>

definition tag_id :: "bytes \<Rightarrow> xattr list \<Rightarrow> bytes list" where
  "tag_id tag as = (let (a, b) = xmlSignatureIDAttribute tag in
     if list_ex (\<lambda>x. nm_Space (at_Name x) = [] \<and> nm_Local (at_Name x) = ''Id'') as \<and> b \<noteq> 0 then [between a b tag] else [])"

lemma cut_attributes_scanned:
  assumes "scanned_part m document view ids st start" and "start \<le> finish" and "finish \<le> length view"
  shows "\<exists>st'. cut_attributes m document view start finish as st = Some st' \<and>
    scanned_part m document view (ids @ tag_id (between start finish view) as) st' finish"
proof -
  obtain a b where span: "xmlSignatureIDAttribute (between start finish view) = (a, b)"
    by (cases "xmlSignatureIDAttribute (between start finish view)")
  have tag: "tag_id (between start finish view) as =
      (if list_ex (\<lambda>x. nm_Space (at_Name x) = [] \<and> nm_Local (at_Name x) = ''Id'') as \<and> b \<noteq> 0
       then [between (start + a) (start + b) view] else [])" for as
    using id_attribute_span(3) [OF span] between_in [of b start finish view a] by (simp add: tag_id_def span)
  note untouched = scanned_part_later [OF assms(1,2)]
  show ?thesis
  proof (induction as)
    case Nil
    then show ?case using untouched by (simp add: tag)
  next
    case (Cons x xs)
    show ?case
    proof (cases "(nm_Space (at_Name x) \<noteq> [] \<or> nm_Local (at_Name x) \<noteq> ''Id'') \<or> b = 0")
      case True
      then show ?thesis using Cons.IH assms(2,3) span by (auto simp: tag)
    next
      case False
      then show ?thesis using cut_step [OF assms(1) span _ assms(2,3)] assms(2,3) span by (auto simp: tag)
    qed
  qed
qed

text \<open>Each token ends in the input, at the end of the one before it or later.\<close>

fun offsets_ok :: "nat \<Rightarrow> nat \<Rightarrow> (token \<times> nat) list \<Rightarrow> bool" where
  "offsets_ok start n [] \<longleftrightarrow> True"
| "offsets_ok start n ((token, finish) # toks) \<longleftrightarrow> start \<le> finish \<and> finish \<le> n \<and> offsets_ok finish n toks"

lemma scanned_part_end:
  assumes "scanned_part m document view ids st pos" and "sc_out st = Some out"
  shows "sc_kept st \<le> length document \<and> id_removed m ids document view (out @ drop (sc_kept st) document)"
proof -
  from assms(1) obtain da va dr vr where at: "scanned_at m document view st pos da va dr vr"
    and so_far: "\<forall>is d v out. id_removed m is d v out \<longrightarrow> id_removed m (ids @ is) (da @ d) (va @ v) (str_of (sc_out st) @ out)"
    unfolding scanned_part_def by (elim exE conjE)
  have "id_removed m [] dr vr dr" using at by (intro id_removed.kept) (simp add: scanned_at_def)
  from so_far [rule_format, OF this] at assms(2) show ?thesis by (simp add: scanned_at_def)
qed

lemma scanned_part_none: "scanned_part m document view ids st pos \<Longrightarrow> sc_out st = None \<Longrightarrow> ids = []"
  unfolding scanned_part_def by (elim exE conjE) simp

text \<open>Whether the scan reads the whole document, and the attributes the copy then loses.\<close>

definition scan_reads :: "golib \<Rightarrow> offset_decoder \<Rightarrow> bool" where
  "scan_reads G D \<longleftrightarrow> errors_is (snd D) IoEOF \<and> list_all (\<lambda>(token, _). case token of
     StartElement e \<Rightarrow> isDSigSignature (se_Name e) \<longrightarrow> validateUniqueXMLAttributes G e = None
   | _ \<Rightarrow> True) (fst D)"

lemma scan_reads_Cons:
  "scan_reads G ((token, finish) # toks, ended) \<longleftrightarrow> scan_reads G (toks, ended) \<and> (case token of
     StartElement e \<Rightarrow> isDSigSignature (se_Name e) \<longrightarrow> validateUniqueXMLAttributes G e = None | _ \<Rightarrow> True)"
  by (auto simp: scan_reads_def)

fun signature_ids :: "bytes \<Rightarrow> nat \<Rightarrow> (token \<times> nat) list \<Rightarrow> bytes list" where
  "signature_ids view start [] = []"
| "signature_ids view start ((token, finish) # toks) = (case token of
     StartElement e \<Rightarrow> if isDSigSignature (se_Name e) then tag_id (between start finish view) (se_Attr e) else []
   | _ \<Rightarrow> []) @ signature_ids view finish toks"

lemma scan_tokens_removed:
  "scanned_part m document view ids st start \<Longrightarrow> encodes m document view \<Longrightarrow> offsets_ok start (length view) toks \<Longrightarrow>
     \<exists>out. scan_tokens G m document view ended start toks st = Some out \<and>
       id_removed m (if scan_reads G (toks, ended) then ids @ signature_ids view start toks else []) document view out"
proof (induction toks arbitrary: ids start st)
  case Nil
  have same: "id_removed m [] document view document" using Nil.prems(2) by (rule id_removed.kept)
  show ?case
  proof (cases "sc_out st")
    case None
    then show ?thesis using same scanned_part_none [OF Nil.prems(1)] by (simp add: scan_reads_def)
  next
    case (Some out)
    then show ?thesis using same scanned_part_end [OF Nil.prems(1) Some] by (simp add: scan_reads_def)
  qed
next
  case (Cons t toks)
  obtain token finish where t: "t = (token, finish)" by (cases t)
  have ok: "start \<le> finish" "finish \<le> length view" "offsets_ok finish (length view) toks" using Cons.prems(3) t by simp_all
  note go_on = Cons.IH [OF _ Cons.prems(2) ok(3)]
  note unseen = go_on [OF scanned_part_later [OF Cons.prems(1) ok(1)]]
  show ?case
  proof (cases token)
    case (StartElement e)
    obtain st' where cut: "cut_attributes m document view start finish (se_Attr e) st = Some st'"
      "scanned_part m document view (ids @ tag_id (between start finish view) (se_Attr e)) st' finish"
      using cut_attributes_scanned [OF Cons.prems(1) ok(1,2)] by blast
    consider "\<not> isDSigSignature (se_Name e)" | "isDSigSignature (se_Name e)" "validateUniqueXMLAttributes G e \<noteq> None"
      | "isDSigSignature (se_Name e)" "validateUniqueXMLAttributes G e = None" by blast
    then show ?thesis
    proof cases
      case 1
      then show ?thesis using unseen by (cases "scan_reads G (toks, ended)") (simp_all add: StartElement t scan_reads_Cons)
    next
      case 2
      then show ?thesis using id_removed.kept [OF Cons.prems(2)] by (auto simp: StartElement t scan_reads_Cons)
    next
      case 3
      then show ?thesis using go_on [OF cut(2)]
        by (cases "scan_reads G (toks, ended)") (simp_all add: StartElement t scan_reads_Cons cut(1))
    qed
  qed (cases "scan_reads G (toks, ended)"; use t unseen in \<open>simp add: scan_reads_Cons\<close>)+
qed

lemma scan_view_encodes:
  assumes "xmlCertificateScanView document = (view, m)"
  shows "encodes m document view"
  using assms by (auto simp: xmlCertificateScanView_def xmlUTF16CertificateScanView_def encodes_def split: if_splits option.splits)

lemma scan_start:
  assumes "encodes m document view"
  shows "scanned_part m document view [] \<lparr>sc_mapper = (0, 0), sc_out = None, sc_kept = 0\<rparr> 0"
proof -
  have "encodes m [] []" by (cases m) (simp_all add: encodes_def legacy_view_def)
  then have "scanned_at m document view \<lparr>sc_mapper = (0, 0), sc_out = None, sc_kept = 0\<rparr> 0 [] [] document view"
    using assms by (simp add: scanned_at_def)
  then show ?thesis unfolding scanned_part_def by fastforce
qed


section \<open>An example\<close>

definition sample_offsets :: "bytes \<Rightarrow> offset_decoder" where
  "sample_offsets view = ([(StartElement \<lparr>se_Name = \<lparr>nm_Space = xmlnsDSig, nm_Local = ''Signature''\<rparr>,
       se_Attr = [\<lparr>at_Name = \<lparr>nm_Space = [], nm_Local = ''Id''\<rparr>, at_Value = ''2''\<rparr>]\<rparr>, length view),
     (EndElement \<lparr>nm_Space = xmlnsDSig, nm_Local = ''Signature''\<rparr>, length view)], Sentinel IoEOF)"

lemma sample_view: "xmlCertificateScanView ''<S Id='2'/>'' = (''<S Id='2'/>'', Unchanged)"
  by (simp add: xmlCertificateScanView_def )

lemma sample_span: "xmlSignatureIDAttribute ''<S Id='2'/>'' = (3, 9)"
  by (simp add: xmlSignatureIDAttribute_def idAttributeFrom.simps skip_while_def between_def xmlTagWhitespace_def)

lemma sample_copy: "xmlCertificateInput sample_golib sample_offsets ''<S Id='2'/>'' = Some ''<S />''"
  using sample_span
  by (simp add: xmlCertificateInput_def sample_view sample_offsets_def isDSigSignature_def validateUniqueXMLAttributes_def
      between_def sourceOffset_def append_slice_def)


end
