(* ===== verification/Zip_Output.thy ===== *)
theory Zip_Output
  imports Kalkan_Open
begin

text \<open>
  Signing into ZIP containers (\<^verbatim>\<open>zip.go\<close>, \<^verbatim>\<open>zip_policy.go\<close>): the plan of the output
  path, the checks around the native call, and the staging directory of
  \<^verbatim>\<open>WithAtomicZIPOutput\<close>. The paths are those of Unix; the file system is an argument on the
  state of the library, which writes into it. The theorem shows that an atomic output is all or
  nothing.
\<close>

section \<open>Paths\<close>

text \<open>\<^verbatim>\<open>filepath.Clean\<close>: empty and \<open>.\<close> elements vanish, \<open>..\<close> takes the element before
  it away; an absolute path has nothing before its root.\<close>

fun split_slash :: "gostring \<Rightarrow> gostring list" where
  "split_slash [] = [[]]"
| "split_slash (c # cs) =
     (if c = CHR ''/'' then [] # split_slash cs
      else case split_slash cs of p # ps \<Rightarrow> (c # p) # ps | [] \<Rightarrow> [[c]])"

definition clean_step :: "bool \<Rightarrow> gostring list \<Rightarrow> gostring \<Rightarrow> gostring list" where
  "clean_step anchored out p =
     (if p = [] \<or> p = ''.'' then out
      else if p = ''..''
      then (if out \<noteq> [] \<and> last out \<noteq> ''..'' then butlast out else if anchored then out else out @ [''..''])
      else out @ [p])"

definition cleaned :: "bool \<Rightarrow> gostring list \<Rightarrow> gostring list" where
  "cleaned anchored ps = foldl (clean_step anchored) [] ps"

fun join_slash :: "gostring list \<Rightarrow> gostring" where
  "join_slash [] = []"
| "join_slash [p] = p"
| "join_slash (p # ps) = p @ ''/'' @ join_slash ps"

definition is_rooted :: "gostring \<Rightarrow> bool" where
  "is_rooted path = prefix ''/'' path"

definition render :: "bool \<Rightarrow> gostring list \<Rightarrow> gostring" where
  "render anchored ps = (if anchored then ''/'' @ join_slash ps else if ps = [] then ''.'' else join_slash ps)"

definition path_Clean :: "gostring \<Rightarrow> gostring" where
  "path_Clean path = render (is_rooted path) (cleaned (is_rooted path) (split_slash path))"

text \<open>What a path has up to its last slash, and after it.\<close>

definition after_slash :: "gostring \<Rightarrow> gostring" where
  "after_slash path = rev (takeWhile (\<lambda>c. c \<noteq> CHR ''/'') (rev path))"

definition up_to_slash :: "gostring \<Rightarrow> gostring" where
  "up_to_slash path = rev (dropWhile (\<lambda>c. c \<noteq> CHR ''/'') (rev path))"

definition path_Dir :: "gostring \<Rightarrow> gostring" where
  "path_Dir path = path_Clean (up_to_slash path)"

definition path_Base :: "gostring \<Rightarrow> gostring" where
  "path_Base path =
     (if path = [] then ''.''
      else let base = after_slash (rev (dropWhile (\<lambda>c. c = CHR ''/'') (rev path)))
           in if base = [] then ''/'' else base)"

text \<open>\<^verbatim>\<open>filepath.Ext\<close> of a name without slashes.\<close>

definition path_Ext :: "gostring \<Rightarrow> gostring" where
  "path_Ext name =
     (if CHR ''.'' \<in> set name then CHR ''.'' # rev (takeWhile (\<lambda>c. c \<noteq> CHR ''.'') (rev name)) else [])"

definition path_Join :: "gostring \<Rightarrow> gostring \<Rightarrow> gostring" where
  "path_Join dir name =
     (if dir = [] then (if name = [] then [] else path_Clean name) else path_Clean (dir @ ''/'' @ name))"

text \<open>\<^verbatim>\<open>strings.EqualFold\<close> with \<open>.zip\<close>: no character beyond ASCII folds to its letters.\<close>

definition is_zip_extension :: "gostring \<Rightarrow> bool" where
  "is_zip_extension ext \<longleftrightarrow> length ext = 4 \<and> ext ! 0 = CHR ''.'' \<and> ext ! 1 \<in> {CHR ''z'', CHR ''Z''} \<and>
     ext ! 2 \<in> {CHR ''i'', CHR ''I''} \<and> ext ! 3 \<in> {CHR ''p'', CHR ''P''}"

section \<open>Plans\<close>

record zipPlan =
  zp_requestedPath :: gostring
  zp_desiredPath :: gostring
  zp_nativeName :: gostring
  zp_outDir :: gostring

definition zipOutputPlan :: "gostring \<Rightarrow> gerror + zipPlan" where
  "zipOutputPlan path = (case validateNativePathString ''ZIP output path'' path of
     Inl err \<Rightarrow> Inl err
   | Inr outputPath \<Rightarrow>
       let outDir = path_Dir outputPath; base = path_Base outputPath; ext = path_Ext base
       in if base = ''.'' \<or> base = ''/'' \<or> base = [] then Inl (invalidInput ''ZIP output file name is empty'')
          else if \<not> is_zip_extension ext then Inl (invalidInput ''ZIP output extension must be .zip'')
          else let nativeName = take (length base - length ext) base
          in if nativeName = [] then Inl (invalidInput ''ZIP output file name is empty'')
             else Inr \<lparr>zp_requestedPath = outputPath, zp_desiredPath = path_Join outDir (nativeName @ ''.zip''),
                       zp_nativeName = nativeName, zp_outDir = outDir\<rparr>)"

definition zipPlan_outputPaths :: "zipPlan \<Rightarrow> gostring list" where
  "zipPlan_outputPaths p =
     (if zp_requestedPath p = [] \<or> zp_requestedPath p = zp_desiredPath p then [zp_desiredPath p]
      else [zp_requestedPath p, zp_desiredPath p])"

section \<open>The file system\<close>

text \<open>\<^verbatim>\<open>os.Lstat\<close>: found with the regular-file bit, \<^verbatim>\<open>os.ErrNotExist\<close>, or another
  error; \<^verbatim>\<open>os.Link\<close>: linked, \<^verbatim>\<open>os.ErrExist\<close>, or another error.\<close>

datatype lstatResult = Found bool | Missing | LstatFailed gerror
datatype linkResult = Linked | TargetExists gerror | LinkFailed gerror

record 'w ziplib =
  z_Lstat :: "gostring \<Rightarrow> ('w, lstatResult) state"
  z_MkdirTemp :: "gostring \<Rightarrow> gostring \<Rightarrow> ('w, gerror + gostring) state"
  z_RemoveAll :: "gostring \<Rightarrow> ('w, unit) state"
  z_Link :: "gostring \<Rightarrow> gostring \<Rightarrow> ('w, linkResult) state"

definition zip_exists :: "gostring \<Rightarrow> gerror" where
  "zip_exists path = invalidInput (''ZIP output already exists: '' @ path)"

fun absent_from :: "'w ziplib \<Rightarrow> gostring list \<Rightarrow> ('w, gerror option) state" where
  "absent_from Z [] = ret None"
| "absent_from Z (path # paths) = do {
     r \<leftarrow> z_Lstat Z path;
     case r of
       Found _ \<Rightarrow> ret (Some (zip_exists path))
     | LstatFailed err \<Rightarrow> ret (Some err)
     | Missing \<Rightarrow> absent_from Z paths }"

definition ensureZIPOutputAbsent :: "'w ziplib \<Rightarrow> zipPlan \<Rightarrow> ('w, gerror option) state" where
  "ensureZIPOutputAbsent Z plan = absent_from Z (zipPlan_outputPaths plan)"

fun stat_first :: "'w ziplib \<Rightarrow> gostring list \<Rightarrow> ('w, (gostring \<times> lstatResult) option) state" where
  "stat_first Z [] = ret None"
| "stat_first Z (path # paths) =
     (if path = [] then stat_first Z paths
      else do {
        r \<leftarrow> z_Lstat Z path;
        case r of Missing \<Rightarrow> stat_first Z paths | _ \<Rightarrow> ret (Some (path, r)) })"

definition statCreatedZIPPath :: "'w ziplib \<Rightarrow> zipPlan \<Rightarrow> ('w, gostring \<times> lstatResult) state" where
  "statCreatedZIPPath Z plan = do {
     r \<leftarrow> stat_first Z [zp_desiredPath plan, zp_requestedPath plan];
     ret (case r of Some f \<Rightarrow> f | None \<Rightarrow> (zp_desiredPath plan, Missing)) }"

definition createdZIPPath :: "'w ziplib \<Rightarrow> zipPlan \<Rightarrow> ('w, gerror + gostring) state" where
  "createdZIPPath Z plan = do {
     (path, r) \<leftarrow> statCreatedZIPPath Z plan;
     ret (case r of
            Missing \<Rightarrow> Inl (plainError (''kalkan: ZIP output was not created at '' @ zp_desiredPath plan))
          | LstatFailed err \<Rightarrow> Inl err
          | Found regular \<Rightarrow>
              if regular then Inr path else Inl (plainError (''kalkan: ZIP output is not a regular file: '' @ path))) }"

text \<open>The staged plan with the directory that the clean-up removes.\<close>

definition stagedZIPOutputPlan :: "'w ziplib \<Rightarrow> zipPlan \<Rightarrow> ('w, gerror + zipPlan \<times> gostring) state" where
  "stagedZIPOutputPlan Z plan = do {
     r \<leftarrow> z_MkdirTemp Z (zp_outDir plan) ''.kalkan-zip-*'';
     case r of
       Inl err \<Rightarrow> ret (Inl err)
     | Inr stageDir \<Rightarrow>
         (case zipOutputPlan (path_Join stageDir (path_Base (zp_desiredPath plan))) of
            Inl err \<Rightarrow> do { z_RemoveAll Z stageDir; ret (Inl err) }
          | Inr staged \<Rightarrow> ret (Inr (staged, stageDir))) }"

definition publishStagedZIP :: "'w ziplib \<Rightarrow> gostring \<Rightarrow> zipPlan \<Rightarrow> ('w, gerror + gostring) state" where
  "publishStagedZIP Z stagedPath plan = do {
     e \<leftarrow> ensureZIPOutputAbsent Z plan;
     case e of
       Some err \<Rightarrow> ret (Inl err)
     | None \<Rightarrow> do {
         r \<leftarrow> z_Link Z stagedPath (zp_desiredPath plan);
         ret (case r of
                Linked \<Rightarrow> Inr (zp_desiredPath plan)
              | TargetExists err \<Rightarrow> Inl (zip_exists (zp_desiredPath plan))
              | LinkFailed err \<Rightarrow> Inl (WrapError (''kalkan: atomically publish ZIP output: '' @ error_text err) (Some err))) } }"

section \<open>SignZIP\<close>

definition zip_sign_request :: "SignZIPRequest \<Rightarrow> gostring \<Rightarrow> zipPlan \<Rightarrow> Flag \<Rightarrow> ZipConSignCallRequest" where
  "zip_sign_request req inputPath plan flags =
     \<lparr>zs_Alias = szr_Alias req, zs_FilePath = inputPath, zs_Name = zp_nativeName plan, zs_OutDir = zp_outDir plan,
      zs_Flags = flags\<rparr>"

text \<open>The call under the gate and the path it created.\<close>

definition sign_into ::
  "'w ziplib \<Rightarrow> 'w loader \<Rightarrow> call_context \<Rightarrow> SignZIPRequest \<Rightarrow> gostring \<Rightarrow> Flag \<Rightarrow> zipPlan \<Rightarrow> ('w session, gerror + gostring) state" where
  "sign_into Z L x req inputPath flags plan = do {
     r \<leftarrow> withLockedLibrary x (\<lambda>c. do {
       e \<leftarrow> natively (ensureZIPOutputAbsent Z plan);
       case e of
         Some err \<Rightarrow> ret (Inl err)
       | None \<Rightarrow> natively (ZipConSign L c (zip_sign_request req inputPath plan flags)) });
     case r of
       Inl err \<Rightarrow> ret (Inl err)
     | Inr _ \<Rightarrow> natively (createdZIPPath Z plan) }"

text \<open>The call with a staging directory, which is removed whatever happens.\<close>

definition atomic_sign ::
  "'w ziplib \<Rightarrow> 'w loader \<Rightarrow> call_context \<Rightarrow> SignZIPRequest \<Rightarrow> gostring \<Rightarrow> Flag \<Rightarrow> zipPlan \<Rightarrow> zipPlan \<Rightarrow> gostring \<Rightarrow>
   ('w session, gerror + gostring) state" where
  "atomic_sign Z L x req inputPath flags plan activePlan stageDir = do {
     r \<leftarrow> sign_into Z L x req inputPath flags activePlan;
     r \<leftarrow> (case r of Inl err \<Rightarrow> ret (Inl err) | Inr path \<Rightarrow> natively (publishStagedZIP Z path plan));
     natively (z_RemoveAll Z stageDir);
     ret r }"

definition staged_sign ::
  "'w ziplib \<Rightarrow> 'w loader \<Rightarrow> call_context \<Rightarrow> SignZIPRequest \<Rightarrow> gostring \<Rightarrow> Flag \<Rightarrow> zipPlan \<Rightarrow>
   ('w session, gerror + gostring) state" where
  "staged_sign Z L x req inputPath flags plan = do {
     staged \<leftarrow> natively (stagedZIPOutputPlan Z plan);
     case staged of
       Inl err \<Rightarrow> ret (Inl err)
     | Inr (activePlan, stageDir) \<Rightarrow> atomic_sign Z L x req inputPath flags plan activePlan stageDir }"

definition Client_SignZIP ::
  "'w ziplib \<Rightarrow> 'w loader \<Rightarrow> bool \<Rightarrow> call_context \<Rightarrow> SignZIPRequest \<Rightarrow> ('w session, gerror + SignedZIP) state" where
  "Client_SignZIP Z L atomicOutput x req =
     guarded (at_entry x) (
     guarded (rejectEmbeddedNUL ''alias'' (szr_Alias req)) (
     checked (validateNativePathString ''ZIP input file path'' (szr_InputPath req)) (\<lambda>inputPath.
     checked (zipOutputPlan (szr_OutputPath req)) (\<lambda>plan.
     checked (certificateTimeCheckFlag (szr_CertificateTimeCheck req)) (\<lambda>checkFlags.
     mapped (\<lambda>path. \<lparr>sz_Path = path\<rparr>) (do {
       e \<leftarrow> natively (ensureZIPOutputAbsent Z plan);
       case e of
         Some err \<Rightarrow> ret (Inl err)
       | None \<Rightarrow>
           if \<not> atomicOutput then sign_into Z L x req inputPath checkFlags plan
           else staged_sign Z L x req inputPath checkFlags plan }))))))"

section \<open>Clean paths\<close>

definition plain_name :: "gostring \<Rightarrow> bool" where
  "plain_name n \<longleftrightarrow> n \<noteq> [] \<and> n \<noteq> ''.'' \<and> n \<noteq> ''..'' \<and> CHR ''/'' \<notin> set n"

lemma split_nonempty [simp]: "split_slash s \<noteq> []"
  by (induction s) (auto split: list.splits)

lemma split_append: "split_slash (a @ CHR ''/'' # b) = split_slash a @ split_slash b"
  by (induction a) (auto split: list.splits)

lemma split_slash_free: "CHR ''/'' \<notin> set n \<Longrightarrow> split_slash n = [n]"
  by (induction n) auto

lemma split_no_slash: "p \<in> set (split_slash s) \<Longrightarrow> CHR ''/'' \<notin> set p"
  by (induction s arbitrary: p) (auto split: list.splits if_splits)

lemma split_join: "ps \<noteq> [] \<Longrightarrow> \<forall>p \<in> set ps. CHR ''/'' \<notin> set p \<Longrightarrow> split_slash (join_slash ps) = ps"
  by (induction ps rule: join_slash.induct) (auto simp: split_slash_free split_append)

lemma join_snoc: "ps \<noteq> [] \<Longrightarrow> join_slash (ps @ [n]) = join_slash ps @ ''/'' @ n"
  by (induction ps rule: join_slash.induct) (auto simp: neq_Nil_conv)

lemma cleaned_snoc: "cleaned anchored (ps @ [p]) = clean_step anchored (cleaned anchored ps) p"
  by (simp add: cleaned_def)

lemma cleaned_plain: "plain_name n \<Longrightarrow> cleaned anchored (ps @ [n]) = cleaned anchored ps @ [n]"
  by (simp add: cleaned_snoc clean_step_def plain_name_def)

text \<open>A clean list of elements: parent elements come first, and none of them in an absolute path.\<close>

definition clean_list :: "bool \<Rightarrow> gostring list \<Rightarrow> bool" where
  "clean_list anchored ps \<longleftrightarrow> (\<exists>k rest. ps = replicate k ''..'' @ rest \<and> list_all plain_name rest \<and> (anchored \<longrightarrow> k = 0))"

lemma clean_step_list:
  assumes "clean_list anchored out" and "CHR ''/'' \<notin> set p"
  shows "clean_list anchored (clean_step anchored out p)"
proof -
  obtain k rest where out: "out = replicate k ''..'' @ rest" "list_all plain_name rest" "anchored \<longrightarrow> k = 0"
    using assms(1) by (auto simp: clean_list_def)
  consider "p = [] \<or> p = ''.''" | "p = ''..''" | "plain_name p" using assms(2) by (auto simp: plain_name_def)
  then show ?thesis
  proof cases
    case 1
    then show ?thesis using assms(1) by (auto simp: clean_step_def)
  next
    case 2
    show ?thesis
    proof (cases "rest = []")
      case True
      then have "clean_step anchored out p = (if anchored then out else replicate (Suc k) ''..'')"
        using 2 out by (auto simp: clean_step_def replicate_append_same)
      then show ?thesis using assms(1) by (auto simp: clean_list_def intro: exI [of _ "Suc k"])
    next
      case False
      then have "last rest \<noteq> ''..''" using out(2) by (auto simp: plain_name_def list_all_iff)
      then have "clean_step anchored out p = replicate k ''..'' @ butlast rest"
        using 2 False out(1) by (simp add: clean_step_def butlast_append)
      moreover have "list_all plain_name (butlast rest)" using out(2) by (auto simp: list_all_iff dest: in_set_butlastD)
      ultimately show ?thesis using out(3) by (auto simp: clean_list_def)
    qed
  next
    case 3
    then have "clean_step anchored out p = replicate k ''..'' @ rest @ [p]"
      using out(1) by (auto simp: clean_step_def plain_name_def)
    then show ?thesis using out 3 by (auto simp: clean_list_def intro!: exI [of _ k] exI [of _ "rest @ [p]"])
  qed
qed

lemma cleaned_list: "\<forall>p \<in> set ps. CHR ''/'' \<notin> set p \<Longrightarrow> clean_list anchored (cleaned anchored ps)"
proof (induction ps rule: rev_induct)
  case Nil
  then show ?case by (auto simp: cleaned_def clean_list_def)
next
  case (snoc p ps)
  then show ?case by (auto simp: cleaned_snoc intro: clean_step_list)
qed

lemma cleaned_parents: "cleaned False (replicate k ''..'') = replicate k ''..''"
proof (induction k)
  case (Suc k)
  have "cleaned False (replicate (Suc k) ''..'') = clean_step False (replicate k ''..'') ''..''"
    using Suc cleaned_snoc [of False "replicate k ''..''" "''..''"] by (simp add: replicate_append_same)
  then show ?case by (auto simp: clean_step_def replicate_append_same)
qed (simp add: cleaned_def)

lemma cleaned_clean: "clean_list anchored ps \<Longrightarrow> cleaned anchored ps = ps"
proof -
  assume "clean_list anchored ps"
  then obtain k rest where ps: "ps = replicate k ''..'' @ rest" "list_all plain_name rest" "anchored \<longrightarrow> k = 0"
    by (auto simp: clean_list_def)
  have parents: "cleaned anchored (replicate k ''..'') = replicate k ''..''"
    using ps(3) cleaned_parents [of k] by (cases anchored) (simp_all add: cleaned_def)
  have "cleaned anchored (replicate k ''..'' @ rest) = replicate k ''..'' @ rest"
    using ps(2)
  proof (induction rest rule: rev_induct)
    case Nil
    then show ?case using parents by simp
  next
    case (snoc n rest)
    then show ?case using cleaned_plain [of n anchored "replicate k ''..'' @ rest"] by simp
  qed
  then show ?thesis by (simp add: ps(1))
qed

lemma clean_list_parts:
  assumes "clean_list anchored ps" and "p \<in> set ps"
  shows "p \<noteq> []" "p \<noteq> ''.''" "CHR ''/'' \<notin> set p"
proof -
  obtain k rest where ps: "ps = replicate k ''..'' @ rest" "list_all plain_name rest"
    using assms(1) unfolding clean_list_def by blast
  have "p = ''..'' \<or> plain_name p"
    using assms(2) ps by (cases "p \<in> set rest") (simp_all add: list_all_iff split: if_splits)
  then show "p \<noteq> []" "p \<noteq> ''.''" "CHR ''/'' \<notin> set p" by (auto simp: plain_name_def)
qed

lemma join_first: "ps \<noteq> [] \<Longrightarrow> \<exists>rest. join_slash ps = hd ps @ rest \<and> (rest = [] \<and> ps = [hd ps] \<or> prefix ''/'' rest)"
  by (cases ps rule: join_slash.cases) auto

lemma join_clean:
  assumes "clean_list anchored ps" and "ps \<noteq> []"
  shows "join_slash ps \<noteq> []" "join_slash ps \<noteq> ''.''" "\<not> prefix ''/'' (join_slash ps)"
proof -
  obtain rest where rest: "join_slash ps = hd ps @ rest" "rest = [] \<and> ps = [hd ps] \<or> prefix ''/'' rest"
    using join_first [OF assms(2)] by blast
  have h: "hd ps \<noteq> []" "hd ps \<noteq> ''.''" "CHR ''/'' \<notin> set (hd ps)" using clean_list_parts [OF assms(1)] assms(2) by auto
  show "join_slash ps \<noteq> []" using rest(1) h(1) by simp
  show "join_slash ps \<noteq> ''.''"
  proof
    assume dot: "join_slash ps = ''.''"
    show False
    proof (cases rest)
      case Nil
      then show False using rest(1) dot h(2) by simp
    next
      case (Cons c cs)
      then have "hd ps = []" using rest(1) dot by (cases "hd ps") auto
      then show False using h(1) by simp
    qed
  qed
  show "\<not> prefix ''/'' (join_slash ps)" using rest(1) h by (cases "hd ps") (auto simp: prefix_def)
qed

lemma clean_render:
  assumes "clean_list anchored ps"
  shows "path_Clean (render anchored ps) = render anchored ps"
proof (cases "ps = []")
  case True
  then show ?thesis by (cases anchored) (simp_all add: render_def path_Clean_def is_rooted_def cleaned_def clean_step_def)
next
  case False
  have free: "\<forall>p \<in> set ps. CHR ''/'' \<notin> set p" using clean_list_parts [OF assms] by blast
  note j = join_clean [OF assms False]
  show ?thesis
  proof (cases anchored)
    case True
    have "split_slash (''/'' @ join_slash ps) = [] # ps" using split_join [OF False free] by simp
    moreover have "cleaned True ([] # ps) = ps"
      using cleaned_clean [OF assms] True by (simp add: cleaned_def clean_step_def)
    ultimately show ?thesis using True by (simp add: render_def path_Clean_def is_rooted_def)
  next
    case rel: False
    then show ?thesis using False j split_join [OF False free] cleaned_clean [OF assms]
      by (simp add: render_def path_Clean_def is_rooted_def)
  qed
qed

lemma path_clean_list: "clean_list (is_rooted p) (cleaned (is_rooted p) (split_slash p))"
  by (rule cleaned_list) (use split_no_slash in blast)

lemma path_Clean_idem [simp]: "path_Clean (path_Clean p) = path_Clean p"
  unfolding path_Clean_def [of p] by (rule clean_render [OF path_clean_list])

lemma path_Clean_slash: "d \<noteq> [] \<Longrightarrow> path_Clean (d @ ''/'') = path_Clean d"
  using split_append [of d "[]"]
  by (cases d) (simp_all add: path_Clean_def is_rooted_def cleaned_snoc clean_step_def del: split_slash.simps(2))

lemma path_Clean_nonempty [simp]: "path_Clean p \<noteq> []"
  using join_clean(1) [OF path_clean_list [of p]] by (auto simp: path_Clean_def render_def)

text \<open>A child of a directory.\<close>

definition child_prefix :: "gostring \<Rightarrow> gostring" where
  "child_prefix d = (if path_Clean d = ''.'' then [] else if path_Clean d = ''/'' then ''/'' else path_Clean d @ ''/'')"

lemma path_Join_child:
  assumes "d \<noteq> []" and "plain_name n"
  shows "path_Join d n = child_prefix d @ n"
proof -
  define r where "r = is_rooted d"
  define cs where "cs = cleaned r (split_slash d)"
  have r: "is_rooted (d @ ''/'' @ n) = r" using assms(1) by (cases d) (auto simp: is_rooted_def r_def)
  have n: "split_slash n = [n]" using assms(2) split_slash_free by (simp add: plain_name_def)
  have "path_Join d n = render r (cs @ [n])"
    using assms r n cleaned_plain [OF assms(2), of r "split_slash d"]
    by (simp add: path_Join_def path_Clean_def cs_def split_append)
  moreover have d: "path_Clean d = render r cs" by (simp add: path_Clean_def r_def cs_def)
  moreover have "clean_list r cs" unfolding cs_def r_def by (rule path_clean_list)
  note j = join_clean [OF this]
  ultimately show ?thesis
    unfolding child_prefix_def d
    using j by (cases r; cases "cs = []") (auto simp: render_def join_snoc)
qed

lemma up_to_child: "plain_name n \<Longrightarrow> up_to_slash (child_prefix d @ n) = child_prefix d"
  by (auto simp: up_to_slash_def child_prefix_def plain_name_def dropWhile_append)

lemma after_child: "plain_name n \<Longrightarrow> after_slash (child_prefix d @ n) = n"
  by (auto simp: after_slash_def child_prefix_def plain_name_def takeWhile_append)

lemma path_Clean_base: "path_Clean [] = ''.''" "path_Clean ''/'' = ''/''"
  by (simp_all add: path_Clean_def is_rooted_def cleaned_def clean_step_def render_def)

lemma path_Clean_child_prefix: "path_Clean (child_prefix d) = path_Clean d"
  by (simp add: child_prefix_def path_Clean_base path_Clean_slash [simplified])

lemma path_Dir_child: "d \<noteq> [] \<Longrightarrow> plain_name n \<Longrightarrow> path_Dir (path_Join d n) = path_Clean d"
  by (simp add: path_Join_child path_Dir_def up_to_child path_Clean_child_prefix)

lemma path_Base_child: "d \<noteq> [] \<Longrightarrow> plain_name n \<Longrightarrow> path_Base (path_Join d n) = n"
proof -
  assume d: "d \<noteq> []" and n: "plain_name n"
  then obtain m c where m: "n = m @ [c]" "c \<noteq> CHR ''/''" by (cases n rule: rev_cases) (auto simp: plain_name_def)
  have "rev (dropWhile (\<lambda>c. c = CHR ''/'') (rev (child_prefix d @ n))) = child_prefix d @ n" using m by simp
  then show ?thesis using d n after_child [OF n, of d] by (simp add: path_Base_def path_Join_child plain_name_def Let_def)
qed

section \<open>What the file system and the library promise\<close>

definition beneath :: "gostring \<Rightarrow> gostring \<Rightarrow> bool" where
  "beneath d p \<longleftrightarrow> p = d \<or> prefix (d @ ''/'') p"

text \<open>\<open>files\<close> are the entries of the file system by their clean paths. \<^verbatim>\<open>os.Lstat\<close> reads;
  \<^verbatim>\<open>os.MkdirTemp\<close> makes a new directory in the given one, named after the pattern;
  \<^verbatim>\<open>os.RemoveAll\<close> removes a path and what is beneath it; \<^verbatim>\<open>os.Link\<close> creates a new name
  of an entry and never replaces one; the library writes only beneath the output directory it is
  given.\<close>

definition lstat_law :: "('w \<Rightarrow> gostring \<Rightarrow> 'f option) \<Rightarrow> 'w ziplib \<Rightarrow> bool" where
  "lstat_law files Z \<longleftrightarrow> (\<forall>p w. files (exec (z_Lstat Z p) w) = files w \<and>
     (fst (run_state (z_Lstat Z p) w) = Missing \<longleftrightarrow> files w (path_Clean p) = None))"

definition mkdir_law :: "('w \<Rightarrow> gostring \<Rightarrow> 'f option) \<Rightarrow> 'w ziplib \<Rightarrow> bool" where
  "mkdir_law files Z \<longleftrightarrow> (\<forall>dir w.
     case fst (run_state (z_MkdirTemp Z dir ''.kalkan-zip-*'') w) of
       Inl err \<Rightarrow> files (exec (z_MkdirTemp Z dir ''.kalkan-zip-*'') w) = files w
     | Inr d \<Rightarrow> d \<noteq> [] \<and> (\<exists>n. plain_name n \<and> prefix ''.kalkan-zip-'' n \<and> \<not> suffix ''.zip'' n \<and> path_Clean d = path_Join dir n) \<and>
         (\<forall>p. if beneath (path_Clean d) p then files w p = None
              else files (exec (z_MkdirTemp Z dir ''.kalkan-zip-*'') w) p = files w p))"

definition remove_law :: "('w \<Rightarrow> gostring \<Rightarrow> 'f option) \<Rightarrow> 'w ziplib \<Rightarrow> bool" where
  "remove_law files Z \<longleftrightarrow> (\<forall>d w. files (exec (z_RemoveAll Z d) w) =
     (\<lambda>p. if beneath (path_Clean d) p then None else files w p))"

definition link_law :: "('w \<Rightarrow> gostring \<Rightarrow> 'f option) \<Rightarrow> 'w ziplib \<Rightarrow> bool" where
  "link_law files Z \<longleftrightarrow> (\<forall>old new w.
     if fst (run_state (z_Link Z old new) w) = Linked
     then files w (path_Clean new) = None \<and> files w (path_Clean old) \<noteq> None \<and>
       files (exec (z_Link Z old new) w) = (files w)(path_Clean new := files w (path_Clean old))
     else files (exec (z_Link Z old new) w) = files w)"

definition library_law :: "('w \<Rightarrow> gostring \<Rightarrow> 'f option) \<Rightarrow> 'w loader \<Rightarrow> bool" where
  "library_law files L \<longleftrightarrow> (\<forall>c req w p. \<not> beneath (zs_OutDir req) p \<longrightarrow> files (exec (ZipConSign L c req) w) p = files w p)"

section \<open>All or nothing\<close>

lemma zipOutputPlan_Inr:
  assumes "zipOutputPlan path = Inr plan"
  shows "\<exists>n. plain_name n \<and> suffix ''.zip'' n \<and> zp_desiredPath plan = path_Join (zp_outDir plan) n"
    and "path_Clean (zp_outDir plan) = zp_outDir plan" and "zp_outDir plan \<noteq> []" and "zp_outDir plan = path_Dir path"
proof -
  have plan: "plan = \<lparr>zp_requestedPath = path,
      zp_desiredPath = path_Join (path_Dir path) (take (length (path_Base path) - length (path_Ext (path_Base path))) (path_Base path) @ ''.zip''),
      zp_nativeName = take (length (path_Base path) - length (path_Ext (path_Base path))) (path_Base path),
      zp_outDir = path_Dir path\<rparr>" and base: "path_Base path \<noteq> ''/''"
    using assms by (auto simp: zipOutputPlan_def validateNativePathString_def Let_def split: if_splits option.splits)
  have "CHR ''/'' \<notin> set (path_Base path)"
    using base by (auto simp: path_Base_def after_slash_def Let_def dest: set_takeWhileD split: if_splits)
  then have "plain_name (take (length (path_Base path) - length (path_Ext (path_Base path))) (path_Base path) @ ''.zip'')"
    by (auto simp: plain_name_def append_eq_Cons_conv dest: in_set_takeD)
  then show "\<exists>n. plain_name n \<and> suffix ''.zip'' n \<and> zp_desiredPath plan = path_Join (zp_outDir plan) n"
    by (auto simp: plan suffix_def)
  show "path_Clean (zp_outDir plan) = zp_outDir plan" "zp_outDir plan \<noteq> []" "zp_outDir plan = path_Dir path"
    by (simp_all add: plan path_Dir_def)
qed

lemma desired_outside:
  assumes "zipOutputPlan path = Inr plan" and "plain_name m" and "\<not> suffix ''.zip'' m"
    and "path_Clean d = path_Join (zp_outDir plan) m"
  shows "\<not> beneath (path_Clean d) (zp_desiredPath plan)" and "path_Clean (zp_desiredPath plan) = zp_desiredPath plan"
proof -
  obtain n where n: "plain_name n" "suffix ''.zip'' n" "zp_desiredPath plan = path_Join (zp_outDir plan) n"
    using zipOutputPlan_Inr(1) [OF assms(1)] by blast
  note ne = zipOutputPlan_Inr(3) [OF assms(1)]
  have "beneath (path_Clean d) (zp_desiredPath plan) \<longleftrightarrow> n = m \<or> prefix (m @ ''/'') n"
    by (simp add: beneath_def assms(4) n(3) path_Join_child [OF ne] assms(2) n(1))
  moreover have "n \<noteq> m" using n(2) assms(3) by blast
  moreover have "\<not> prefix (m @ ''/'') n" using n(1) by (auto simp: plain_name_def prefix_def)
  ultimately show "\<not> beneath (path_Clean d) (zp_desiredPath plan)" by blast
  show "path_Clean (zp_desiredPath plan) = zp_desiredPath plan"
    using ne by (simp add: n(3) path_Join_def)
qed

lemma staged_outDir:
  assumes "zipOutputPlan (path_Join d (path_Base (zp_desiredPath plan))) = Inr staged" and "zipOutputPlan path = Inr plan"
    and "d \<noteq> []"
  shows "zp_outDir staged = path_Clean d"
proof -
  obtain n where n: "plain_name n" "zp_desiredPath plan = path_Join (zp_outDir plan) n"
    using zipOutputPlan_Inr(1) [OF assms(2)] by blast
  then have "path_Base (zp_desiredPath plan) = n" using path_Base_child zipOutputPlan_Inr(3) [OF assms(2)] by simp
  then show ?thesis using zipOutputPlan_Inr(4) [OF assms(1)] path_Dir_child [OF assms(3) n(1)] by simp
qed

lemma lstat_files:
  assumes "lstat_law files Z"
  shows "files (exec (z_Lstat Z p) w) = files w"
    and "fst (run_state (z_Lstat Z p) w) = Missing \<Longrightarrow> files w (path_Clean p) = None"
  using assms unfolding lstat_law_def by blast+

lemma absent_files: "lstat_law files Z \<Longrightarrow> files (exec (absent_from Z ps) w) = files w"
proof (induction ps arbitrary: w)
  case (Cons p ps)
  have "files (exec (absent_from Z ps) (exec (z_Lstat Z p) w)) = files w"
    using Cons.IH [OF Cons.prems, of "exec (z_Lstat Z p) w"] lstat_files(1) [OF Cons.prems, of p w] by (rule trans)
  with lstat_files(1) [OF Cons.prems, of p w] show ?case by (cases "fst (run_state (z_Lstat Z p) w)") simp_all
qed simp

lemma absent_none:
  "lstat_law files Z \<Longrightarrow> fst (run_state (absent_from Z ps) w) = None \<Longrightarrow> \<forall>p \<in> set ps. files w (path_Clean p) = None"
proof (induction ps arbitrary: w)
  case (Cons p ps)
  then have m: "fst (run_state (z_Lstat Z p) w) = Missing" by (auto split: lstatResult.splits)
  with Cons.prems have "fst (run_state (absent_from Z ps) (exec (z_Lstat Z p) w)) = None" by simp
  from Cons.IH [OF Cons.prems(1) this] lstat_files [OF Cons.prems(1), of p w] m show ?case by simp
qed simp

lemma ensure_files: "lstat_law files Z \<Longrightarrow> files (exec (ensureZIPOutputAbsent Z plan) w) = files w"
  by (simp add: ensureZIPOutputAbsent_def absent_files)

lemma ensure_none:
  assumes "lstat_law files Z" and "fst (run_state (ensureZIPOutputAbsent Z plan) w) = None"
  shows "files w (path_Clean (zp_desiredPath plan)) = None"
  using absent_none [OF assms(1) assms(2) [unfolded ensureZIPOutputAbsent_def]] by (simp add: zipPlan_outputPaths_def split: if_splits)

lemma stat_first_files: "lstat_law files Z \<Longrightarrow> files (exec (stat_first Z ps) w) = files w"
proof (induction ps arbitrary: w)
  case (Cons p ps)
  have "files (exec (stat_first Z ps) (exec (z_Lstat Z p) w)) = files w"
    using Cons.IH [OF Cons.prems, of "exec (z_Lstat Z p) w"] lstat_files(1) [OF Cons.prems, of p w] by (rule trans)
  with lstat_files(1) [OF Cons.prems, of p w] Cons show ?case by (cases "fst (run_state (z_Lstat Z p) w)") simp_all
qed simp

lemma created_files: "lstat_law files Z \<Longrightarrow> files (exec (createdZIPPath Z plan) w) = files w"
  by (simp add: createdZIPPath_def statCreatedZIPPath_def case_prod_unfold stat_first_files del: stat_first.simps)

lemma sign_into_files:
  assumes "lstat_law files Z" and "library_law files L" and "\<not> beneath (zp_outDir plan) p"
  shows "files (s_world (exec (sign_into Z L x req inputPath flags plan) s)) p = files (s_world s) p"
proof -
  have z: "files (exec (ZipConSign L c (zip_sign_request req inputPath plan flags)) w) p = files w p" for c w
    using assms(2,3) by (simp add: library_law_def zip_sign_request_def)
  have "files (s_world (exec (sign_into Z L x req inputPath flags plan) s)) p = files (s_world s) p"
    by (simp add: sign_into_def withLockedLibrary_def guarded_def State_Monad.get_def created_files [OF assms(1)]
        ensure_files [OF assms(1)] z split: option.split sum.split)
  then show ?thesis .
qed

lemma publish_files:
  assumes "lstat_law files Z" and "link_law files Z" and "path_Clean (zp_desiredPath plan) = zp_desiredPath plan"
  shows "case fst (run_state (publishStagedZIP Z path plan) w) of
      Inl err \<Rightarrow> files (exec (publishStagedZIP Z path plan) w) = files w
    | Inr out \<Rightarrow> out = zp_desiredPath plan \<and> files w out = None \<and> files w (path_Clean path) \<noteq> None \<and>
        files (exec (publishStagedZIP Z path plan) w) = (files w)(out := files w (path_Clean path))"
proof (cases "fst (run_state (ensureZIPOutputAbsent Z plan) w)")
  case (Some err)
  then show ?thesis by (simp add: publishStagedZIP_def ensure_files [OF assms(1)])
next
  case None
  let ?w = "exec (ensureZIPOutputAbsent Z plan) w"
  have w: "files ?w = files w" by (rule ensure_files [OF assms(1)])
  have l: "if fst (run_state (z_Link Z path (zp_desiredPath plan)) ?w) = Linked
     then files w (zp_desiredPath plan) = None \<and> files w (path_Clean path) \<noteq> None \<and>
       files (exec (z_Link Z path (zp_desiredPath plan)) ?w) = (files w)(zp_desiredPath plan := files w (path_Clean path))
     else files (exec (z_Link Z path (zp_desiredPath plan)) ?w) = files w"
    using assms(2) [unfolded link_law_def, rule_format, of path "zp_desiredPath plan" ?w] unfolding w assms(3) .
  show ?thesis
    using None l by (cases "fst (run_state (z_Link Z path (zp_desiredPath plan)) ?w)") (simp_all add: publishStagedZIP_def)
qed

lemma atomic_sign_files:
  assumes laws: "lstat_law files Z" "link_law files Z" "remove_law files Z" "library_law files L"
    and dir: "zp_outDir inner = path_Clean d" and outside: "\<not> beneath (path_Clean d) (zp_desiredPath plan)"
    and clean: "path_Clean (zp_desiredPath plan) = zp_desiredPath plan"
    and before: "\<And>p. if beneath (path_Clean d) p then old p = None else files (s_world s) p = old p"
  shows "case fst (run_state (atomic_sign Z L x req inputPath flags plan inner d) s) of
      Inl err \<Rightarrow> files (s_world (exec (atomic_sign Z L x req inputPath flags plan inner d) s)) = old
    | Inr out \<Rightarrow> out = zp_desiredPath plan \<and> old out = None \<and>
        (\<exists>f. files (s_world (exec (atomic_sign Z L x req inputPath flags plan inner d) s)) = old(out \<mapsto> f))"
proof -
  let ?s = "exec (sign_into Z L x req inputPath flags inner) s"
  have signed: "files (s_world ?s) p = old p" if "\<not> beneath (path_Clean d) p" for p
    using sign_into_files [OF laws(1,4), of inner p] before [of p] that dir by simp
  have remove: "files (exec (z_RemoveAll Z d) w) p = (if beneath (path_Clean d) p then None else files w p)" for w p
    using laws(3) by (simp add: remove_law_def)
  have none: "old p = None" if "beneath (path_Clean d) p" for p using before [of p] that by simp
  show ?thesis
  proof (cases "fst (run_state (sign_into Z L x req inputPath flags inner) s)")
    case (Inl err)
    then show ?thesis using signed none by (auto simp: atomic_sign_def remove)
  next
    case (Inr path)
    let ?p = "publishStagedZIP Z path plan"
    have run: "fst (run_state (atomic_sign Z L x req inputPath flags plan inner d) s) = fst (run_state ?p (s_world ?s))"
      "files (s_world (exec (atomic_sign Z L x req inputPath flags plan inner d) s)) =
        (\<lambda>p. if beneath (path_Clean d) p then None else files (exec ?p (s_world ?s)) p)"
      using Inr by (auto simp: atomic_sign_def remove)
    note published = publish_files [OF laws(1,2) clean, of path "s_world ?s"]
    show ?thesis
    proof (cases "fst (run_state ?p (s_world ?s))")
      case (Inl err)
      with published have "files (exec ?p (s_world ?s)) = files (s_world ?s)" by simp
      then show ?thesis using Inl run signed none by auto
    next
      case (Inr out)
      with published obtain f where f: "out = zp_desiredPath plan" "files (s_world ?s) out = None"
        "files (exec ?p (s_world ?s)) = (files (s_world ?s))(out \<mapsto> f)" by auto
      have "old out = None" using signed [of out] outside f(1,2) by simp
      moreover have "(\<lambda>p. if beneath (path_Clean d) p then None else files (exec ?p (s_world ?s)) p) = old(out \<mapsto> f)"
        using signed none outside f by auto
      ultimately show ?thesis using Inr run f(1) by auto
    qed
  qed
qed

lemma staged_files:
  assumes laws: "lstat_law files Z" "mkdir_law files Z" "link_law files Z" "remove_law files Z" "library_law files L"
    and plan: "zipOutputPlan path = Inr plan"
  shows "let (r, s') = run_state (staged_sign Z L x req inputPath flags plan) s
    in case r of
      Inl err \<Rightarrow> files (s_world s') = files (s_world s)
    | Inr out \<Rightarrow> files (s_world s) out = None \<and> (\<exists>f. files (s_world s') = (files (s_world s))(out \<mapsto> f))"
proof -
  let ?m = "z_MkdirTemp Z (zp_outDir plan) ''.kalkan-zip-*''"
  note mk = laws(2) [unfolded mkdir_law_def, rule_format, of "zp_outDir plan" "s_world s"]
  show ?thesis
  proof (cases "fst (run_state ?m (s_world s))")
    case (Inl err)
    with mk show ?thesis by (simp add: staged_sign_def stagedZIPOutputPlan_def)
  next
    case d: (Inr d)
    with mk obtain n where n: "d \<noteq> []" "plain_name n" "\<not> suffix ''.zip'' n" "path_Clean d = path_Join (zp_outDir plan) n"
      and made: "\<And>p. if beneath (path_Clean d) p then files (s_world s) p = None
        else files (exec ?m (s_world s)) p = files (s_world s) p" by auto
    note out = desired_outside [OF plan n(2-4)]
    show ?thesis
    proof (cases "zipOutputPlan (path_Join d (path_Base (zp_desiredPath plan)))")
      case (Inl err)
      have "files (exec (z_RemoveAll Z d) (exec ?m (s_world s))) = files (s_world s)"
        using laws(4) made by (auto simp: remove_law_def split: if_splits)
      with d Inl show ?thesis by (simp add: staged_sign_def stagedZIPOutputPlan_def)
    next
      case (Inr inner)
      note dir = staged_outDir [OF Inr plan n(1)]
      let ?s = "s\<lparr>s_world := exec ?m (s_world s)\<rparr>"
      have "\<And>p. if beneath (path_Clean d) p then files (s_world s) p = None else files (s_world ?s) p = files (s_world s) p"
        using made by simp
      note atomic_sign_files [OF laws(1,3,4,5) dir out this, of x req inputPath flags]
      then show ?thesis using d Inr
        by (auto simp: staged_sign_def stagedZIPOutputPlan_def case_prod_unfold Let_def split: sum.splits)
    qed
  qed
qed

lemma atomic_files:
  assumes laws: "lstat_law files Z" "mkdir_law files Z" "link_law files Z" "remove_law files Z" "library_law files L"
  shows "let (r, s') = run_state (Client_SignZIP Z L True x req) s
    in case r of
      Inl err \<Rightarrow> files (s_world s') = files (s_world s)
    | Inr z \<Rightarrow> files (s_world s) (sz_Path z) = None \<and>
        (\<exists>f. files (s_world s') = (files (s_world s))(sz_Path z \<mapsto> f))"
proof (cases "\<exists>inputPath plan flags. at_entry x = None \<and> rejectEmbeddedNUL ''alias'' (szr_Alias req) = None \<and>
    validateNativePathString ''ZIP input file path'' (szr_InputPath req) = Inr inputPath \<and>
    zipOutputPlan (szr_OutputPath req) = Inr plan \<and> certificateTimeCheckFlag (szr_CertificateTimeCheck req) = Inr flags")
  case False
  then show ?thesis by (auto simp: Client_SignZIP_def guarded_def checked_def split: option.split sum.split)
next
  case True
  then obtain inputPath plan flags where a: "at_entry x = None" "rejectEmbeddedNUL ''alias'' (szr_Alias req) = None"
    "validateNativePathString ''ZIP input file path'' (szr_InputPath req) = Inr inputPath"
    "zipOutputPlan (szr_OutputPath req) = Inr plan" "certificateTimeCheckFlag (szr_CertificateTimeCheck req) = Inr flags"
    by blast
  let ?e = "ensureZIPOutputAbsent Z plan"
  let ?s = "s\<lparr>s_world := exec ?e (s_world s)\<rparr>"
  have w: "files (s_world ?s) = files (s_world s)" using ensure_files [OF laws(1), of plan "s_world s"] by simp
  show ?thesis
  proof (cases "fst (run_state ?e (s_world s))")
    case (Some err)
    then show ?thesis using a w by (simp add: Client_SignZIP_def guarded_def checked_def mapped_def)
  next
    case None
    then show ?thesis
      using a staged_files [OF laws a(4), of x req inputPath flags ?s, unfolded w]
      by (cases "fst (run_state (staged_sign Z L x req inputPath flags plan) ?s)")
        (auto simp: Client_SignZIP_def guarded_def checked_def mapped_def case_prod_unfold Let_def)
  qed
qed


section \<open>An example\<close>

text \<open>A file system of two possible entries, the staged container and the published one, kept as the
  numbers 5 and 7 in the state of the sample library.\<close>

definition sample_path :: "int \<Rightarrow> gostring option" where
  "sample_path n = (if n = 5 then Some ''.kalkan-zip-1/o.zip'' else if n = 7 then Some ''o.zip'' else None)"

definition sample_files :: "int list \<Rightarrow> gostring \<Rightarrow> unit option" where
  "sample_files w p =
     (if 5 \<in> set w \<and> p = ''.kalkan-zip-1/o.zip'' \<or> 7 \<in> set w \<and> p = ''o.zip'' then Some () else None)"

definition sample_ziplib :: "int list ziplib" where
  "sample_ziplib = \<lparr>
     z_Lstat = \<lambda>p. State (\<lambda>w. (if sample_files w (path_Clean p) = None then Missing else Found True, w)),
     z_MkdirTemp = \<lambda>dir pat. State (\<lambda>w.
       (if dir = ''.'' \<and> 5 \<notin> set w then Inr ''./.kalkan-zip-1'' else Inl (plainError ''mkdir''), w)),
     z_RemoveAll = \<lambda>d. State (\<lambda>w. ((), filter (\<lambda>n. case sample_path n of None \<Rightarrow> True | Some p \<Rightarrow> \<not> beneath (path_Clean d) p) w)),
     z_Link = \<lambda>old new. State (\<lambda>w.
       if path_Clean new = ''o.zip'' \<and> path_Clean old = ''.kalkan-zip-1/o.zip'' \<and> 5 \<in> set w \<and> 7 \<notin> set w
       then (Linked, 7 # w) else (LinkFailed (plainError ''link''), w))\<rparr>"

definition sample_zip_loader :: "int list loader" where
  "sample_zip_loader = sample_loader\<lparr>native := sample_context\<lparr>n_ZipConSign :=
     \<lambda>req. State (\<lambda>w. (0, if zsc_OutDir req = ''.kalkan-zip-1'' then 5 # w else w))\<rparr>\<rparr>"

definition sample_zip_request :: SignZIPRequest where
  "sample_zip_request = \<lparr>szr_Alias = [], szr_InputPath = ''in'', szr_OutputPath = ''o.ZIP'', szr_CertificateTimeCheck = 0\<rparr>"

lemmas path_eval = path_Clean_def is_rooted_def cleaned_def clean_step_def render_def path_Dir_def path_Base_def path_Ext_def
  up_to_slash_def after_slash_def path_Join_def

lemma sample_lstat: "lstat_law sample_files sample_ziplib"
  by (simp add: lstat_law_def sample_ziplib_def)

lemma sample_link: "link_law sample_files sample_ziplib"
  unfolding link_law_def
proof (intro allI)
  fix old new and w :: "int list"
  let ?linked = "path_Clean new = ''o.zip'' \<and> path_Clean old = ''.kalkan-zip-1/o.zip'' \<and> 5 \<in> set w \<and> 7 \<notin> set w"
  have run: "run_state (z_Link sample_ziplib old new) w = (if ?linked then (Linked, 7 # w) else (LinkFailed (plainError ''link''), w))"
    by (simp add: sample_ziplib_def)
  show "if fst (run_state (z_Link sample_ziplib old new) w) = Linked
     then sample_files w (path_Clean new) = None \<and> sample_files w (path_Clean old) \<noteq> None \<and>
       sample_files (exec (z_Link sample_ziplib old new) w) = (sample_files w)(path_Clean new := sample_files w (path_Clean old))
     else sample_files (exec (z_Link sample_ziplib old new) w) = sample_files w"
  proof (cases ?linked)
    case True
    then have "path_Clean new = ''o.zip''" "path_Clean old = ''.kalkan-zip-1/o.zip''" "5 \<in> set w" "7 \<notin> set w" by blast+
    then show ?thesis unfolding run by (simp add: sample_files_def fun_eq_iff)
  next
    case False
    then have "run_state (z_Link sample_ziplib old new) w = (LinkFailed (plainError ''link''), w)" unfolding run by (rule if_not_P)
    then show ?thesis by simp
  qed
qed

lemma sample_remove: "remove_law sample_files sample_ziplib"
  by (auto simp: remove_law_def sample_ziplib_def sample_files_def sample_path_def fun_eq_iff)

lemma sample_stage: "path_Clean ''./.kalkan-zip-1'' = ''.kalkan-zip-1''" "path_Join ''.'' ''.kalkan-zip-1'' = ''.kalkan-zip-1''"
  by (simp_all add: path_eval)

lemma sample_mkdir: "mkdir_law sample_files sample_ziplib"
  by (auto simp: mkdir_law_def sample_ziplib_def sample_stage sample_files_def beneath_def plain_name_def suffix_def
      append_eq_Cons_conv intro!: exI [of _ "''.kalkan-zip-1''"])

lemma sample_zip_signed:
  "exec (ZipConSign sample_zip_loader c req) w = w \<or>
   zs_OutDir req = ''.kalkan-zip-1'' \<and> exec (ZipConSign sample_zip_loader c req) w = 5 # w"
  by (auto simp: ZipConSign_def checked_def with_context_def sample_zip_loader_def sample_loader_def sample_context_def
      status_call_def wrapCodeLocked_def ErrorOK_def split: sum.split option.split)

lemma sample_library: "library_law sample_files sample_zip_loader"
proof -
  have files: "sample_files (exec (ZipConSign sample_zip_loader c req) w) p = sample_files w p"
    if "\<not> beneath (zs_OutDir req) p" for c req w p
  proof (cases "exec (ZipConSign sample_zip_loader c req) w = w")
    case False
    with sample_zip_signed have out: "zs_OutDir req = ''.kalkan-zip-1''" "exec (ZipConSign sample_zip_loader c req) w = 5 # w"
      by blast+
    have "p \<noteq> ''.kalkan-zip-1/o.zip''" using that unfolding out(1) by (auto simp: beneath_def)
    then show ?thesis unfolding out(2) by (simp add: sample_files_def)
  qed simp
  then show ?thesis by (simp add: library_law_def)
qed

lemma sample_zip_plans:
  "zipOutputPlan ''o.ZIP'' = Inr \<lparr>zp_requestedPath = ''o.ZIP'', zp_desiredPath = ''o.zip'', zp_nativeName = ''o'', zp_outDir = ''.''\<rparr>"
  "zipOutputPlan ''.kalkan-zip-1/o.zip'' = Inr \<lparr>zp_requestedPath = ''.kalkan-zip-1/o.zip'',
     zp_desiredPath = ''.kalkan-zip-1/o.zip'', zp_nativeName = ''o'', zp_outDir = ''.kalkan-zip-1''\<rparr>"
  "path_Join ''./.kalkan-zip-1'' ''o.zip'' = ''.kalkan-zip-1/o.zip''" "path_Base ''o.zip'' = ''o.zip''"
  by (simp_all add: zipOutputPlan_def validateNativePathString_def rejectEmbeddedNUL_def path_eval is_zip_extension_def Let_def)

lemma sample_zip_steps:
  "run_state (z_Lstat sample_ziplib p) w = (if sample_files w (path_Clean p) = None then Missing else Found True, w)"
  "run_state (z_MkdirTemp sample_ziplib ''.'' pat) [] = (Inr ''./.kalkan-zip-1'', [])"
  "run_state (z_Link sample_ziplib ''.kalkan-zip-1/o.zip'' ''o.zip'') [5] = (Linked, [7, 5])"
  "run_state (z_RemoveAll sample_ziplib ''./.kalkan-zip-1'') [7, 5] = ((), [7])"
  by (simp_all add: sample_ziplib_def sample_stage sample_path_def beneath_def path_eval)

lemma sample_clean: "path_Clean ''o.ZIP'' = ''o.ZIP''" "path_Clean ''o.zip'' = ''o.zip''"
    "path_Clean ''.kalkan-zip-1/o.zip'' = ''.kalkan-zip-1/o.zip''"
  by (simp_all add: path_eval)

lemma sample_zip_context:
  "n_ClearError (native sample_zip_loader) = ret ()" "capabilities (native sample_zip_loader) T"
  "n_ZipConSign (native sample_zip_loader) call = State (\<lambda>w. (0, if zsc_OutDir call = ''.kalkan-zip-1'' then 5 # w else w))"
  by (simp_all add: sample_zip_loader_def sample_context_def)

lemma sample_zip_native:
  assumes "zs_Flags req = 0" and "zs_OutDir req = ''.kalkan-zip-1''"
  shows "run_state (ZipConSign sample_zip_loader (Some sample_client) req) w = (Inr (), 5 # w)"
proof -
  have flags: "flagsToNativeInt (zs_Flags req) = Inr 0"
    by (simp add: assms flagsToNativeInt_def validateNativeSignedRange_def validateNativeUnsignedRange_def maxNativeCInt_def)
  show ?thesis
    by (simp add: ZipConSign_def checked_def flags with_context_def contextAsLocked_def ensureOpenLocked_def sample_client_def
        sample_zip_context assms(2) status_call_def wrapCodeLocked_def ErrorOK_def)
qed

lemma sample_zip_run:
  "run_state (Client_SignZIP sample_ziplib sample_zip_loader True live_context sample_zip_request) (sample_session []) =
     (Inr \<lparr>sz_Path = ''o.zip''\<rparr>, (sample_session [])\<lparr>s_world := [7]\<rparr>)"
  by (simp add: Client_SignZIP_def guarded_def checked_def live_context_def sample_zip_request_def rejectEmbeddedNUL_def
      validateNativePathString_def sample_zip_plans certificateTimeCheckFlag_def mapped_def ensureZIPOutputAbsent_def
      zipPlan_outputPaths_def sample_session_def staged_sign_def stagedZIPOutputPlan_def sample_zip_steps sample_clean
      sample_files_def atomic_sign_def sign_into_def withLockedLibrary_def State_Monad.get_def zip_sign_request_def
      sample_zip_native createdZIPPath_def statCreatedZIPPath_def publishStagedZIP_def)


end
