(* ===== verification/Observation.thy ===== *)
theory Observation
  imports Frame
begin

text \<open>
  Observations of native calls (\<^verbatim>\<open>observation.go\<close>): the error class, the observation given to
  the observer and the record given to the logger. The lemmas say when a call counts as failed and
  that an observation repeats nothing of an error but its class and its native code.
\<close>

text \<open>\<^verbatim>\<open>errors.As\<close> for an output limit error, depth first.\<close>

fun is_output_limit :: "gerror \<Rightarrow> bool" where
  "is_output_limit (OutputBufferLimitError p r l) \<longleftrightarrow> True"
| "is_output_limit (WorkerError (Some e)) \<longleftrightarrow> is_output_limit e"
| "is_output_limit (WrapError m (Some e)) \<longleftrightarrow> is_output_limit e"
| "is_output_limit (MultiError m es) \<longleftrightarrow> (\<exists>x \<in> set es. case x of None \<Rightarrow> False | Some e \<Rightarrow> is_output_limit e)"
| "is_output_limit _ \<longleftrightarrow> False"

definition operationErrorClass :: "gerror option \<Rightarrow> ErrorCode \<Rightarrow> bool \<Rightarrow> gostring" where
  "operationErrorClass err code expected = (case err of
     None \<Rightarrow> ''none''
   | Some e \<Rightarrow>
       if expected then ''expected_status''
       else if errors_is e CtxCanceled then ''canceled''
       else if errors_is e CtxDeadlineExceeded then ''deadline_exceeded''
       else if is_output_limit e then ''output_limit''
       else if code \<noteq> 0 then ''native_failure''
       else if errors_is e KalkanErrClosed then ''closed''
       else if errors_is e KalkanErrInvalidInput then ''invalid_input''
       else if errors_is e KalkanErrUnavailable then ''unavailable''
       else ''operation_failure'')"

definition expected_code :: "ErrorCode list \<Rightarrow> ErrorCode \<Rightarrow> bool" where
  "expected_code codes native = list_ex (\<lambda>code. code \<noteq> 0 \<and> native = code) codes"

definition native_code :: "gerror option \<Rightarrow> ErrorCode" where
  "native_code err = (case err of None \<Rightarrow> 0 | Some e \<Rightarrow> (case ErrorCodeOf e of None \<Rightarrow> 0 | Some c \<Rightarrow> c))"

definition operation_observation ::
  "gostring \<Rightarrow> int64 \<Rightarrow> int64 \<Rightarrow> int64 \<Rightarrow> gerror option \<Rightarrow> ErrorCode list \<Rightarrow> OperationObservation" where
  "operation_observation operation queueWait nativeDuration elapsed err expectedCodes =
     (let code = native_code err; expected = expected_code expectedCodes code
      in \<lparr>ob_Operation = operation, ob_QueueWait = queueWait, ob_NativeDuration = nativeDuration,
          ob_TotalDuration = elapsed, ob_ErrorClass = operationErrorClass err code expected,
          ob_NativeCode = code, ob_Expected = expected\<rparr>)"

text \<open>The record of the logger: whether it has the error level, the message and the attributes.\<close>

datatype logAttr = LogString gostring gostring | LogDuration gostring int64

record logRecord =
  lr_Error :: bool
  lr_Message :: gostring
  lr_Attrs :: "logAttr list"

definition logNativeCall :: "(bool \<Rightarrow> bool) option \<Rightarrow> OperationObservation \<Rightarrow> logRecord option" where
  "logNativeCall logger observation = (case logger of
     None \<Rightarrow> None
   | Some enabled \<Rightarrow>
       let failed = (ob_ErrorClass observation \<noteq> ''none'' \<and> \<not> ob_Expected observation) in
       if \<not> enabled failed then None
       else Some \<lparr>lr_Error = failed,
         lr_Message = (if failed then ''kalkan native call failed'' else ''kalkan native call completed''),
         lr_Attrs = [LogString ''operation'' (ob_Operation observation), LogDuration ''queue_wait'' (ob_QueueWait observation),
             LogDuration ''native_duration'' (ob_NativeDuration observation),
             LogDuration ''total_duration'' (ob_TotalDuration observation),
             LogString ''error_class'' (ob_ErrorClass observation)] @
           (if ob_NativeCode observation \<noteq> 0 then [LogString ''native_code'' (Hex (ob_NativeCode observation))] else [])\<rparr>)"

text \<open>What \<^verbatim>\<open>reportOperation\<close> gives to the observer and to the logger, in this order.\<close>

definition reportOperation ::
  "bool \<Rightarrow> (bool \<Rightarrow> bool) option \<Rightarrow> gostring \<Rightarrow> int64 \<Rightarrow> int64 \<Rightarrow> int64 \<Rightarrow> gerror option \<Rightarrow> ErrorCode list \<Rightarrow>
   OperationObservation option \<times> logRecord option" where
  "reportOperation observer logger operation queueWait nativeDuration elapsed err expectedCodes =
     (let observation = operation_observation operation queueWait nativeDuration elapsed err expectedCodes
      in (if observer then Some observation else None, logNativeCall logger observation))"

text \<open>A call counts as failed exactly when it has an error without an expected status.\<close>

lemma error_class_none: "operationErrorClass err code expected = ''none'' \<longleftrightarrow> err = None"
  by (simp add: operationErrorClass_def split: option.split)

lemma logged_as_failed:
  assumes "reportOperation observer (Some (\<lambda>_. True)) operation q n t err codes = (seen, Some r)"
  shows "lr_Error r \<longleftrightarrow> err \<noteq> None \<and> \<not> expected_code codes (native_code err)"
  using assms by (auto simp: reportOperation_def logNativeCall_def operation_observation_def Let_def error_class_none)

text \<open>
  C39: what the observer and the logger receive about a failed call repeats nothing of its error but
  the class and the native code: two errors that match the same sentinels, carry the same native
  code and agree on being an output limit give the same observation and the same log record,
  whatever their text.
\<close>

theorem observation_hides_text:
  assumes "\<And>s. errors_is e s = errors_is f s" and "ErrorCodeOf e = ErrorCodeOf f" and "is_output_limit e = is_output_limit f"
  shows "reportOperation observer logger operation q n t (Some e) codes = reportOperation observer logger operation q n t (Some f) codes"
proof -
  have "operationErrorClass (Some e) c x = operationErrorClass (Some f) c x" for c x
    unfolding operationErrorClass_def option.case assms ..
  moreover have "native_code (Some e) = native_code (Some f)" by (simp add: native_code_def assms(2))
  ultimately show ?thesis unfolding reportOperation_def operation_observation_def by simp
qed

theorem observation_hides_text_witness:
  "ForeignError ''token 1'' [] \<noteq> ForeignError ''token 2'' [] \<and>
   reportOperation True (Some (\<lambda>_. True)) ''Hash'' 1 2 3 (Some (ForeignError ''token 1'' [])) [] =
     reportOperation True (Some (\<lambda>_. True)) ''Hash'' 1 2 3 (Some (ForeignError ''token 2'' [])) []"
  using observation_hides_text [of "ForeignError ''token 1'' []" "ForeignError ''token 2'' []" True "Some (\<lambda>_. True)" "''Hash''" 1 2 3 "[]"]
  by simp

end
