(* ===== verification/Native_Driver.thy ===== *)
theory Native_Driver
  imports Ckalkan_Client
begin

text \<open>
  The Linux driver (\<^verbatim>\<open>ckalkan/internal/kalkancrypt\<close>): argument checks, input memory,
  output buffers and the calls through the function table of the vendor library, and the context
  that the rest of \<^verbatim>\<open>ckalkan\<close> takes for its native library. The functions of the table, the
  dynamic loader and files are arguments. The theorems show that no call reaches the library with
  memory that does not fit its lengths, and that outputs never exceed the capacity asked for.
\<close>

section \<open>Memory\<close>

text \<open>What a call of the table is given: memory behind a pointer (\<^const>\<open>None\<close> is NULL), numbers,
  an output buffer of a size, a length that the call reads and writes, and places for results.\<close>

datatype carg =
    Ptr "bytes option"
  | CInt "32 word"
  | CUlong uint64
  | CLonglong int64
  | OutBuf nat
  | InOutLen "32 word"
  | OutCount
  | OutTime

datatype cfunction =
    Fn_KC_Init | Fn_KC_InitDebug | Fn_KC_Finalize | Fn_KC_XMLFinalize | Fn_KC_GetLastError | Fn_KC_GetLastErrorString
  | Fn_KC_GetTokens | Fn_KC_GetCertificatesList | Fn_KC_LoadKeyStore
  | Fn_X509LoadCertificateFromFile | Fn_X509LoadCertificateFromBuffer | Fn_X509ExportCertificateFromStore
  | Fn_X509CertificateGetInfo | Fn_X509ValidateCertificate
  | Fn_HashData | Fn_SignHash | Fn_SignData | Fn_SignXML | Fn_SignWSSE | Fn_VerifyData | Fn_UVerifyData
  | Fn_VerifyXML | Fn_KC_getCertFromXML | Fn_KC_getSigAlgFromXML | Fn_KC_GetTimeFromSig | Fn_KC_GetCertFromCMS
  | Fn_KC_TSASetUrl | Fn_KC_SetProxy | Fn_ZipConVerify | Fn_ZipConSign | Fn_KC_getCertFromZipFile

text \<open>What a call leaves: its status, what it wrote to each output buffer from its start, the length
  variables, and the other results.\<close>

record creturn =
  cr_Code :: uint64
  cr_Written :: "nat \<Rightarrow> bytes"
  cr_Lens :: "nat \<Rightarrow> 32 word"
  cr_Count :: uint64
  cr_Time :: int64

record 'w clibrary =
  c_available :: "cfunction \<Rightarrow> bool"
  c_call :: "cfunction \<Rightarrow> carg list \<Rightarrow> ('w, creturn) state"
  c_InternalClearError :: "('w, unit) state"
  c_GetFunctionList :: "('w, 32 word \<times> bool) state"
  dl_open :: "gostring \<Rightarrow> ('w, bool) state"
  dl_error :: "('w, gostring option) state"
  dl_sym :: "gostring \<Rightarrow> ('w, bool) state"
  dl_close :: "('w, 32 word) state"
  os_Open :: "gostring \<Rightarrow> ('w, gerror + unit) state"
  file_Size :: "gostring \<Rightarrow> ('w, gerror + int) state"
  file_ReadAll :: "gostring \<Rightarrow> nat \<Rightarrow> ('w, gerror + bytes) state"
  os_IsDir :: "gostring \<Rightarrow> ('w, bool) state"

definition errorParam :: uint64 where "errorParam = 0x08f00300"
definition errorLibraryNotInitialized :: uint64 where "errorLibraryNotInitialized = 0x08f00101"
definition inBase64Flag :: int where "inBase64Flag = 0x10"
definition inFileFlag :: int where "inFileFlag = 0x8000"

definition checkOutputBufferCapacity :: "int \<Rightarrow> gerror option" where
  "checkOutputBufferCapacity size' =
     (if size' \<le> 0 then Some (plainError (''kalkancrypt: invalid buffer size '' @ format_int size'))
      else if size' > maxNativeCInt
      then Some (plainError (''kalkancrypt: buffer size '' @ format_int size' @ '' overflows native C int''))
      else None)"

definition outputBuffer :: "int \<Rightarrow> gerror + nat" where
  "outputBuffer size' = (case checkOutputBufferCapacity size' of Some err \<Rightarrow> Inl err | None \<Rightarrow> Inr (nat size'))"

definition checkNativeInputLength :: "int \<Rightarrow> gerror option" where
  "checkNativeInputLength n =
     (if n < 0 then Some (plainError (''kalkancrypt: invalid negative input length '' @ format_int n))
      else if n > maxNativeCInt
      then Some (plainError (''kalkancrypt: input length '' @ format_int n @ '' overflows native C int''))
      else None)"

definition checkNativeBytes :: "slice \<Rightarrow> gerror option" where
  "checkNativeBytes v = checkNativeInputLength (int (slice_len v))"

definition checkNativeString :: "gostring \<Rightarrow> gerror option" where
  "checkNativeString v =
     (if CHR 0x00 \<in> set v then Some (plainError ''kalkancrypt: string contains embedded NUL'')
      else checkNativeInputLength (int (length v)))"

definition boundedBytes :: "bytes \<Rightarrow> int \<Rightarrow> slice" where
  "boundedBytes buf n = (if buf = [] \<or> n \<le> 0 then None else Some (take (nat n) buf))"

definition bufferResult :: "uint64 \<Rightarrow> bytes \<Rightarrow> int \<Rightarrow> BufferResult" where
  "bufferResult code buf n = \<lparr>br_Code = code, br_Data = boundedBytes buf n, br_OutLen = n\<rparr>"

section \<open>Inputs\<close>

definition nativeInt :: "slice \<Rightarrow> 32 word" where
  "nativeInt v = word_of_int (int (slice_len v))"

definition inputBytes :: "slice \<Rightarrow> gerror + bytes \<times> 32 word" where
  "inputBytes v = (case checkNativeBytes v of Some err \<Rightarrow> Inl err | None \<Rightarrow> Inr (str_of v, nativeInt v))"

definition terminatedInputBytes :: "slice \<Rightarrow> gerror + bytes \<times> 32 word" where
  "terminatedInputBytes v =
     (case checkNativeBytes v of Some err \<Rightarrow> Inl err | None \<Rightarrow> Inr (str_of v @ [CHR 0x00], nativeInt v))"

definition filePathBytes :: "slice \<Rightarrow> gerror + bytes \<times> 32 word" where
  "filePathBytes v = (case checkNativeBytes v of
     Some err \<Rightarrow> Inl err
   | None \<Rightarrow> if CHR 0x00 \<in> set (str_of v) then Inl (plainError ''kalkancrypt: file path contains embedded NUL'')
       else terminatedInputBytes v)"

definition inputBytesWithFlags :: "slice \<Rightarrow> int \<Rightarrow> gerror + bytes \<times> 32 word" where
  "inputBytesWithFlags v flags = (if flags AND inFileFlag \<noteq> 0 then filePathBytes v else inputBytes v)"

definition cmsInputBytes :: "slice \<Rightarrow> int \<Rightarrow> gerror + bytes \<times> 32 word" where
  "cmsInputBytes v flags =
     (if flags AND inFileFlag \<noteq> 0 then filePathBytes v
      else if flags AND inBase64Flag \<noteq> 0 then terminatedInputBytes v
      else inputBytes v)"

definition verifySignatureInput :: "slice \<Rightarrow> int \<Rightarrow> bool \<Rightarrow> gerror + bytes \<times> 32 word" where
  "verifySignatureInput signature flags universal =
     (if universal then filePathBytes signature else cmsInputBytes signature flags)"

definition cString :: "gostring \<Rightarrow> gerror + carg" where
  "cString v = (case checkNativeString v of Some err \<Rightarrow> Inl err | None \<Rightarrow> Inr (Ptr (Some (v @ [CHR 0x00]))))"

definition charPtr :: "bytes \<Rightarrow> carg" where
  "charPtr buf = Ptr (if buf = [] then None else Some buf)"

definition C_int :: "int \<Rightarrow> carg" where
  "C_int n = CInt (word_of_int n)"

section \<open>Bridges\<close>

text \<open>The driver holds its handle, the table and an optional symbol. Without the table or the entry
  of the table a bridge returns before anything is written.\<close>

record linuxDriver =
  ld_handle :: bool
  ld_funcs :: bool
  ld_clearError :: bool

fun in_out_lens :: "carg list \<Rightarrow> 32 word list" where
  "in_out_lens [] = []"
| "in_out_lens (InOutLen n # args) = n # in_out_lens args"
| "in_out_lens (_ # args) = in_out_lens args"

definition untouched :: "uint64 \<Rightarrow> carg list \<Rightarrow> creturn" where
  "untouched code args = \<lparr>cr_Code = code, cr_Written = \<lambda>_. [],
     cr_Lens = \<lambda>i. if i < length (in_out_lens args) then in_out_lens args ! i else 0, cr_Count = 0, cr_Time = 0\<rparr>"

definition bridge :: "'w clibrary \<Rightarrow> linuxDriver \<Rightarrow> cfunction \<Rightarrow> carg list \<Rightarrow> ('w, creturn) state" where
  "bridge C h f args =
     (if \<not> ld_funcs h \<or> \<not> c_available C f then ret (untouched errorLibraryNotInitialized args) else c_call C f args)"

definition status_of :: "'w clibrary \<Rightarrow> linuxDriver \<Rightarrow> cfunction \<Rightarrow> carg list \<Rightarrow> ('w, uint64) state" where
  "status_of C h f args = do { r \<leftarrow> bridge C h f args; ret (cr_Code r) }"

text \<open>A buffer after the call: what was written, within its size, then the zero bytes it was made of.\<close>

definition filled :: "nat \<Rightarrow> bytes \<Rightarrow> bytes" where
  "filled n written = take n (written @ replicate n (CHR 0x00))"

definition buffer_attempt ::
  "'w clibrary \<Rightarrow> linuxDriver \<Rightarrow> cfunction \<Rightarrow> carg list \<Rightarrow> nat \<Rightarrow> ('w, gerror + BufferResult) state" where
  "buffer_attempt C h f args n = do {
     r \<leftarrow> bridge C h f args;
     ret (Inr (bufferResult (cr_Code r) (filled n (cr_Written r 0)) (sint (cr_Lens r 0)))) }"

text \<open>An argument check of a method that returns only a status.\<close>

definition or_param :: "gerror + 'a \<Rightarrow> ('a \<Rightarrow> ('w, uint64) state) \<Rightarrow> ('w, uint64) state" where
  "or_param r k = (case r of Inl _ \<Rightarrow> ret errorParam | Inr v \<Rightarrow> k v)"

section \<open>The driver\<close>

definition linuxDriver_Init :: "'w clibrary \<Rightarrow> linuxDriver \<Rightarrow> ('w, uint64) state" where
  "linuxDriver_Init C h = status_of C h Fn_KC_Init []"

definition linuxDriver_InitDebug :: "'w clibrary \<Rightarrow> linuxDriver \<Rightarrow> ('w, unit) state" where
  "linuxDriver_InitDebug C h = do { bridge C h Fn_KC_InitDebug []; ret () }"

definition linuxDriver_Finalize :: "'w clibrary \<Rightarrow> linuxDriver \<Rightarrow> ('w, unit) state" where
  "linuxDriver_Finalize C h = do { bridge C h Fn_KC_Finalize []; ret () }"

definition linuxDriver_XMLFinalize :: "'w clibrary \<Rightarrow> linuxDriver \<Rightarrow> ('w, unit) state" where
  "linuxDriver_XMLFinalize C h = do { bridge C h Fn_KC_XMLFinalize []; ret () }"

definition linuxDriver_LastError :: "'w clibrary \<Rightarrow> linuxDriver \<Rightarrow> ('w, uint64) state" where
  "linuxDriver_LastError C h = status_of C h Fn_KC_GetLastError []"

definition linuxDriver_LastErrorString :: "'w clibrary \<Rightarrow> linuxDriver \<Rightarrow> int \<Rightarrow> ('w, gerror + BufferResult) state" where
  "linuxDriver_LastErrorString C h capacity =
     checked (outputBuffer capacity) (\<lambda>n.
     buffer_attempt C h Fn_KC_GetLastErrorString [OutBuf n, InOutLen (word_of_int capacity)] n)"

text \<open>The native lists have no capacity parameter.\<close>

definition linuxDriver_GetTokens :: "'w clibrary \<Rightarrow> linuxDriver \<Rightarrow> int \<Rightarrow> int \<Rightarrow> ('w, gerror + nativeListResult) state" where
  "linuxDriver_GetTokens C h storage listSize =
     checked (outputBuffer listSize) (\<lambda>n. do {
       r \<leftarrow> bridge C h Fn_KC_GetTokens [CUlong (word_of_int storage), OutBuf n, OutCount];
       ret (Inr \<lparr>lr_Code = cr_Code r, lr_Data = str_of (BeforeNUL (Some (filled n (cr_Written r 0)))), lr_Count = cr_Count r\<rparr>) })"

definition linuxDriver_GetCertificatesList :: "'w clibrary \<Rightarrow> linuxDriver \<Rightarrow> int \<Rightarrow> ('w, gerror + nativeListResult) state" where
  "linuxDriver_GetCertificatesList C h listSize =
     checked (outputBuffer listSize) (\<lambda>n. do {
       r \<leftarrow> bridge C h Fn_KC_GetCertificatesList [OutBuf n, OutCount];
       ret (Inr \<lparr>lr_Code = cr_Code r, lr_Data = str_of (BeforeNUL (Some (filled n (cr_Written r 0)))), lr_Count = cr_Count r\<rparr>) })"

definition linuxDriver_LoadKeyStore ::
  "'w clibrary \<Rightarrow> linuxDriver \<Rightarrow> int \<Rightarrow> gostring \<Rightarrow> gostring \<Rightarrow> gostring \<Rightarrow> ('w, uint64) state" where
  "linuxDriver_LoadKeyStore C h storage password container alias =
     or_param (cString password) (\<lambda>cPassword.
     or_param (cString container) (\<lambda>cContainer.
     or_param (cString alias) (\<lambda>cAlias.
     status_of C h Fn_KC_LoadKeyStore [C_int storage, cPassword, C_int (int (length password)), cContainer,
       C_int (int (length container)), cAlias])))"

definition linuxDriver_X509LoadCertificateFromFile :: "'w clibrary \<Rightarrow> linuxDriver \<Rightarrow> gostring \<Rightarrow> int \<Rightarrow> ('w, uint64) state" where
  "linuxDriver_X509LoadCertificateFromFile C h certPath certType =
     or_param (cString certPath) (\<lambda>path. status_of C h Fn_X509LoadCertificateFromFile [path, C_int certType])"

definition linuxDriver_X509LoadCertificateFromBuffer :: "'w clibrary \<Rightarrow> linuxDriver \<Rightarrow> slice \<Rightarrow> int \<Rightarrow> ('w, uint64) state" where
  "linuxDriver_X509LoadCertificateFromBuffer C h cert format =
     or_param (inputBytes cert) (\<lambda>(inp, inLen).
     status_of C h Fn_X509LoadCertificateFromBuffer [charPtr inp, CInt inLen, C_int format])"

definition linuxDriver_X509ExportCertificateFromStore ::
  "'w clibrary \<Rightarrow> linuxDriver \<Rightarrow> gostring \<Rightarrow> int \<Rightarrow> int \<Rightarrow> ('w, gerror + BufferResult) state" where
  "linuxDriver_X509ExportCertificateFromStore C h alias format capacity =
     checked (cString alias) (\<lambda>cAlias.
     checked (outputBuffer capacity) (\<lambda>n.
     buffer_attempt C h Fn_X509ExportCertificateFromStore
       [cAlias, C_int format, OutBuf n, InOutLen (word_of_int capacity)] n))"

definition linuxDriver_X509CertificateGetInfo ::
  "'w clibrary \<Rightarrow> linuxDriver \<Rightarrow> slice \<Rightarrow> int \<Rightarrow> int \<Rightarrow> ('w, gerror + BufferResult) state" where
  "linuxDriver_X509CertificateGetInfo C h cert prop capacity =
     checked (inputBytes cert) (\<lambda>(inp, inLen).
     checked (outputBuffer capacity) (\<lambda>n.
     buffer_attempt C h Fn_X509CertificateGetInfo
       [charPtr inp, CInt inLen, C_int prop, OutBuf n, InOutLen (word_of_int capacity)] n))"

definition linuxDriver_X509ValidateCertificate ::
  "'w clibrary \<Rightarrow> linuxDriver \<Rightarrow> ValidateCertificateCall \<Rightarrow> ('w, gerror + ValidateResult) state" where
  "linuxDriver_X509ValidateCertificate C h call =
     checked (inputBytesWithFlags (vcc_Certificate call) (vcc_Flags call)) (\<lambda>(inp, inLen).
     checked (cString (vcc_ValidationPath call)) (\<lambda>validPath.
     checked (outputBuffer (vcc_InfoCapacity call)) (\<lambda>infoN.
     checked (outputBuffer (vcc_OCSPCapacity call)) (\<lambda>ocspN. do {
       r \<leftarrow> bridge C h Fn_X509ValidateCertificate
         [charPtr inp, CInt inLen, C_int (vcc_ValidationType call), validPath, CLonglong (vcc_CheckTimeUnix call),
          OutBuf infoN, InOutLen (word_of_int (vcc_InfoCapacity call)), C_int (vcc_Flags call),
          OutBuf ocspN, InOutLen (word_of_int (vcc_OCSPCapacity call))];
       ret (Inr \<lparr>vr_Code = cr_Code r,
         vr_Info = boundedBytes (filled infoN (cr_Written r 0)) (sint (cr_Lens r 0)), vr_InfoLen = sint (cr_Lens r 0),
         vr_OCSP = boundedBytes (filled ocspN (cr_Written r 1)) (sint (cr_Lens r 1)), vr_OCSPLen = sint (cr_Lens r 1)\<rparr>) }))))"

text \<open>The file of a hash over Base64 text is read by the driver.\<close>

definition readBase64HashFile :: "'w clibrary \<Rightarrow> gostring \<Rightarrow> ('w, gerror + slice) state" where
  "readBase64HashFile C path =
     guarded (checkNativeString path) (do {
       file \<leftarrow> os_Open C path;
       checked file (\<lambda>_. do {
         info \<leftarrow> file_Size C path;
         checked info (\<lambda>size'. guarded (checkNativeInputLength size') (do {
           content \<leftarrow> file_ReadAll C path (nat (maxNativeCInt + 1));
           checked content (\<lambda>content. let limited = Some (take (nat (maxNativeCInt + 1)) content) in
             guarded (checkNativeBytes limited) (ret (Inr limited))) })) }) })"

definition hash_attempt ::
  "'w clibrary \<Rightarrow> linuxDriver \<Rightarrow> carg \<Rightarrow> int \<Rightarrow> slice \<Rightarrow> int \<Rightarrow> ('w, gerror + BufferResult) state" where
  "hash_attempt C h cAlgorithm flags input capacity =
     checked (inputBytesWithFlags input flags) (\<lambda>(inp, inLen).
     checked (outputBuffer capacity) (\<lambda>n.
     buffer_attempt C h Fn_HashData
       [cAlgorithm, C_int flags, charPtr inp, CInt inLen, OutBuf n, InOutLen (word_of_int capacity)] n))"

definition linuxDriver_HashData :: "'w clibrary \<Rightarrow> linuxDriver \<Rightarrow> HashDataCall \<Rightarrow> ('w, gerror + BufferResult) state" where
  "linuxDriver_HashData C h call =
     checked (cString (hc_Algorithm call)) (\<lambda>cAlgorithm.
     if hc_Flags call AND (inFileFlag OR inBase64Flag) = inFileFlag OR inBase64Flag
     then do {
       content \<leftarrow> readBase64HashFile C (str_of (hc_Data call));
       checked content (\<lambda>content.
         hash_attempt C h cAlgorithm (hc_Flags call AND NOT inFileFlag) content (hc_Capacity call)) }
     else hash_attempt C h cAlgorithm (hc_Flags call) (hc_Data call) (hc_Capacity call))"

definition linuxDriver_SignHash :: "'w clibrary \<Rightarrow> linuxDriver \<Rightarrow> SignHashCall \<Rightarrow> ('w, gerror + BufferResult) state" where
  "linuxDriver_SignHash C h call =
     checked (cString (shc_Alias call)) (\<lambda>cAlias.
     checked (inputBytes (shc_Hash call)) (\<lambda>(inp, inLen).
     checked (outputBuffer (shc_Capacity call)) (\<lambda>n.
     buffer_attempt C h Fn_SignHash [cAlias, C_int (shc_Flags call), charPtr inp, CInt inLen, OutBuf n,
       InOutLen (word_of_int (shc_Capacity call))] n)))"

definition linuxDriver_SignData :: "'w clibrary \<Rightarrow> linuxDriver \<Rightarrow> SignDataCall \<Rightarrow> ('w, gerror + BufferResult) state" where
  "linuxDriver_SignData C h call =
     checked (cString (sdc_Alias call)) (\<lambda>cAlias.
     checked (cmsInputBytes (sdc_Data call) (sdc_Flags call)) (\<lambda>(inData, inDataLen).
     checked (cmsInputBytes (sdc_Signature call) (sdc_Flags call AND NOT inFileFlag)) (\<lambda>(inSig, inSigLen).
     checked (outputBuffer (sdc_Capacity call)) (\<lambda>n.
     buffer_attempt C h Fn_SignData [cAlias, C_int (sdc_Flags call), charPtr inData, CInt inDataLen, charPtr inSig,
       CInt inSigLen, OutBuf n, InOutLen (word_of_int (sdc_Capacity call))] n))))"

definition linuxDriver_SignXML :: "'w clibrary \<Rightarrow> linuxDriver \<Rightarrow> SignXMLCall \<Rightarrow> ('w, gerror + BufferResult) state" where
  "linuxDriver_SignXML C h call =
     checked (cString (sxc_Alias call)) (\<lambda>alias.
     checked (inputBytes (sxc_XML call)) (\<lambda>(xml, xmlLen).
     checked (cString (sxc_SignNodeID call)) (\<lambda>signNodeID.
     checked (cString (sxc_ParentSignNode call)) (\<lambda>parentSignNode.
     checked (cString (sxc_ParentNamespace call)) (\<lambda>parentNamespace.
     checked (outputBuffer (sxc_Capacity call)) (\<lambda>n.
     buffer_attempt C h Fn_SignXML [alias, C_int (sxc_Flags call), charPtr xml, CInt xmlLen, OutBuf n,
       InOutLen (word_of_int (sxc_Capacity call)), signNodeID, parentSignNode, parentNamespace] n))))))"

definition linuxDriver_SignWSSE :: "'w clibrary \<Rightarrow> linuxDriver \<Rightarrow> SignWSSECall \<Rightarrow> ('w, gerror + BufferResult) state" where
  "linuxDriver_SignWSSE C h call =
     checked (cString (swc_Alias call)) (\<lambda>alias.
     checked (inputBytes (swc_XML call)) (\<lambda>(xml, xmlLen).
     checked (cString (swc_SignNodeID call)) (\<lambda>signNodeID.
     checked (outputBuffer (swc_Capacity call)) (\<lambda>n.
     buffer_attempt C h Fn_SignWSSE [alias, CUlong (word_of_int (swc_Flags call)), charPtr xml, CInt xmlLen, OutBuf n,
       InOutLen (word_of_int (swc_Capacity call)), signNodeID] n))))"

definition minimumInfoCapacity :: int where "minimumInfoCapacity = 4096"
definition minimumCertCapacity :: int where "minimumCertCapacity = 8192"

definition linuxDriver_verifyData :: "'w clibrary \<Rightarrow> linuxDriver \<Rightarrow> VerifyDataCall \<Rightarrow> bool \<Rightarrow> ('w, gerror + VerifyResult) state" where
  "linuxDriver_verifyData C h call universal =
     guarded (checkOutputBufferCapacity (vdc_DataCapacity call)) (
     guarded (checkOutputBufferCapacity (vdc_InfoCapacity call)) (
     guarded (checkOutputBufferCapacity (vdc_CertCapacity call)) (
     if vdc_InfoCapacity call < minimumInfoCapacity \<or> vdc_CertCapacity call < minimumCertCapacity
     then ret (Inr \<lparr>yr_Code = ErrorBufferTooSmall, yr_Data = None, yr_DataLen = 0, yr_Info = None,
       yr_InfoLen = (if vdc_InfoCapacity call < minimumInfoCapacity then minimumInfoCapacity else 0), yr_Cert = None,
       yr_CertLen = (if vdc_CertCapacity call < minimumCertCapacity then minimumCertCapacity else 0)\<rparr>)
     else
     checked (cString (vdc_Alias call)) (\<lambda>alias.
     checked (inputBytes (vdc_Data call)) (\<lambda>(inData, inDataLen).
     checked (verifySignatureInput (vdc_Signature call) (vdc_Flags call) universal) (\<lambda>(signature, signatureLen).
     checked (outputBuffer (vdc_DataCapacity call)) (\<lambda>dataN.
     checked (outputBuffer (vdc_InfoCapacity call)) (\<lambda>infoN.
     checked (outputBuffer (vdc_CertCapacity call)) (\<lambda>certN. do {
       r \<leftarrow> bridge C h (if universal then Fn_UVerifyData else Fn_VerifyData)
         [alias, C_int (vdc_Flags call), charPtr inData, CInt inDataLen, charPtr signature, CInt signatureLen,
          OutBuf dataN, InOutLen (word_of_int (vdc_DataCapacity call)),
          OutBuf infoN, InOutLen (word_of_int (vdc_InfoCapacity call)), C_int (vdc_CertID call),
          OutBuf certN, InOutLen (word_of_int (vdc_CertCapacity call))];
       ret (Inr \<lparr>yr_Code = cr_Code r,
         yr_Data = boundedBytes (filled dataN (cr_Written r 0)) (sint (cr_Lens r 0)), yr_DataLen = sint (cr_Lens r 0),
         yr_Info = boundedBytes (filled infoN (cr_Written r 1)) (sint (cr_Lens r 1)), yr_InfoLen = sint (cr_Lens r 1),
         yr_Cert = boundedBytes (filled certN (cr_Written r 2)) (sint (cr_Lens r 2)), yr_CertLen = sint (cr_Lens r 2)\<rparr>) })))))))))"

definition linuxDriver_VerifyData :: "'w clibrary \<Rightarrow> linuxDriver \<Rightarrow> VerifyDataCall \<Rightarrow> ('w, gerror + VerifyResult) state" where
  "linuxDriver_VerifyData C h call = linuxDriver_verifyData C h call False"

definition linuxDriver_UVerifyData :: "'w clibrary \<Rightarrow> linuxDriver \<Rightarrow> VerifyDataCall \<Rightarrow> ('w, gerror + VerifyResult) state" where
  "linuxDriver_UVerifyData C h call = linuxDriver_verifyData C h call True"

definition linuxDriver_VerifyXML :: "'w clibrary \<Rightarrow> linuxDriver \<Rightarrow> VerifyXMLCall \<Rightarrow> ('w, gerror + BufferResult) state" where
  "linuxDriver_VerifyXML C h call =
     checked (cString (vxc_Alias call)) (\<lambda>cAlias.
     checked (inputBytes (vxc_XML call)) (\<lambda>(inp, inLen).
     checked (outputBuffer (vxc_Capacity call)) (\<lambda>n.
     buffer_attempt C h Fn_VerifyXML [cAlias, C_int (vxc_Flags call), charPtr inp, CInt inLen, OutBuf n,
       InOutLen (word_of_int (vxc_Capacity call))] n)))"

definition linuxDriver_GetCertFromXML ::
  "'w clibrary \<Rightarrow> linuxDriver \<Rightarrow> slice \<Rightarrow> int \<Rightarrow> int \<Rightarrow> ('w, gerror + BufferResult) state" where
  "linuxDriver_GetCertFromXML C h xml signID capacity =
     checked (inputBytes xml) (\<lambda>(inp, inLen).
     checked (outputBuffer capacity) (\<lambda>n.
     buffer_attempt C h Fn_KC_getCertFromXML
       [charPtr inp, CInt inLen, C_int signID, OutBuf n, InOutLen (word_of_int capacity)] n))"

definition linuxDriver_GetSigAlgFromXML :: "'w clibrary \<Rightarrow> linuxDriver \<Rightarrow> slice \<Rightarrow> int \<Rightarrow> ('w, gerror + BufferResult) state" where
  "linuxDriver_GetSigAlgFromXML C h xml capacity =
     checked (inputBytes xml) (\<lambda>(inp, inLen).
     checked (outputBuffer capacity) (\<lambda>n.
     buffer_attempt C h Fn_KC_getSigAlgFromXML [charPtr inp, CInt inLen, OutBuf n, InOutLen (word_of_int capacity)] n))"

definition linuxDriver_GetTimeFromSig :: "'w clibrary \<Rightarrow> linuxDriver \<Rightarrow> slice \<Rightarrow> int \<Rightarrow> int \<Rightarrow> ('w, uint64 \<times> int64) state" where
  "linuxDriver_GetTimeFromSig C h input flags sigID =
     (case cmsInputBytes input (flags AND NOT inFileFlag) of
        Inl _ \<Rightarrow> ret (errorParam, 0)
      | Inr (inp, inLen) \<Rightarrow> do {
          r \<leftarrow> bridge C h Fn_KC_GetTimeFromSig [charPtr inp, CInt inLen, C_int flags, C_int sigID, OutTime];
          ret (cr_Code r, cr_Time r) })"

definition linuxDriver_GetCertFromCMS :: "'w clibrary \<Rightarrow> linuxDriver \<Rightarrow> GetCertFromCMSCall \<Rightarrow> ('w, gerror + BufferResult) state" where
  "linuxDriver_GetCertFromCMS C h call =
     checked (cmsInputBytes (gcc_CMS call) (gcc_Flags call AND NOT inFileFlag)) (\<lambda>(inp, inLen).
     checked (outputBuffer (gcc_Capacity call)) (\<lambda>n.
     buffer_attempt C h Fn_KC_GetCertFromCMS [charPtr inp, CInt inLen, C_int (gcc_SignID call), C_int (gcc_Flags call), OutBuf n,
       InOutLen (word_of_int (gcc_Capacity call))] n))"

definition linuxDriver_SetTSAURL :: "'w clibrary \<Rightarrow> linuxDriver \<Rightarrow> gostring \<Rightarrow> ('w, uint64) state" where
  "linuxDriver_SetTSAURL C h tsaURL =
     or_param (cString tsaURL) (\<lambda>url.
     if \<not> ld_funcs h \<or> \<not> c_available C Fn_KC_TSASetUrl then ret errorLibraryNotInitialized
     else do { c_call C Fn_KC_TSASetUrl [url]; ret 0 })"

definition linuxDriver_SetProxy :: "'w clibrary \<Rightarrow> linuxDriver \<Rightarrow> ProxyCall \<Rightarrow> ('w, uint64) state" where
  "linuxDriver_SetProxy C h call =
     or_param (cString (pc_Address call)) (\<lambda>addr.
     or_param (cString (pc_Port call)) (\<lambda>port.
     or_param (cString (pc_User call)) (\<lambda>user.
     or_param (cString (pc_Password call)) (\<lambda>pass.
     status_of C h Fn_KC_SetProxy [C_int (pc_Flags call), addr, port, user, pass]))))"

definition zipVerifyOutputGuardCapacity :: int where "zipVerifyOutputGuardCapacity = 65536"

definition linuxDriver_ZipConVerify ::
  "'w clibrary \<Rightarrow> linuxDriver \<Rightarrow> gostring \<Rightarrow> int \<Rightarrow> int \<Rightarrow> ('w, gerror + BufferResult) state" where
  "linuxDriver_ZipConVerify C h zipFile flags capacity =
     guarded (checkOutputBufferCapacity capacity) (
     checked (cString zipFile) (\<lambda>inZip.
     let physicalCapacity = max capacity zipVerifyOutputGuardCapacity in
     checked (outputBuffer physicalCapacity) (\<lambda>n. do {
       r \<leftarrow> bridge C h Fn_ZipConVerify [inZip, C_int flags, OutBuf n, InOutLen (word_of_int physicalCapacity)];
       ret (Inr (bufferResult (cr_Code r) (take (nat capacity) (filled n (cr_Written r 0))) (sint (cr_Lens r 0)))) })))"

text \<open>The input must be a directory: for a file the library would report success without signing it.\<close>

definition linuxDriver_ZipConSign :: "'w clibrary \<Rightarrow> linuxDriver \<Rightarrow> ZipConSignCall \<Rightarrow> ('w, uint64) state" where
  "linuxDriver_ZipConSign C h call =
     or_param (cString (zsc_Alias call)) (\<lambda>alias.
     or_param (cString (zsc_FilePath call)) (\<lambda>filePath.
     or_param (cString (zsc_Name call)) (\<lambda>name.
     or_param (cString (zsc_OutDir call)) (\<lambda>outDir. do {
       dir \<leftarrow> os_IsDir C (zsc_FilePath call);
       if \<not> dir then ret errorParam
       else status_of C h Fn_ZipConSign [alias, filePath, name, outDir, C_int (zsc_Flags call)] }))))"

definition linuxDriver_GetCertFromZipFile ::
  "'w clibrary \<Rightarrow> linuxDriver \<Rightarrow> GetCertFromZipFileCall \<Rightarrow> ('w, gerror + BufferResult) state" where
  "linuxDriver_GetCertFromZipFile C h call =
     checked (cString (gzc_ZipFile call)) (\<lambda>inZip.
     checked (outputBuffer (gzc_Capacity call)) (\<lambda>n.
     buffer_attempt C h Fn_KC_getCertFromZipFile [inZip, C_int (gzc_Flags call), C_int (gzc_SignID call), OutBuf n,
       InOutLen (word_of_int (gzc_Capacity call))] n))"

section \<open>Loading\<close>

definition dlerrorString :: "'w clibrary \<Rightarrow> gostring \<Rightarrow> ('w, gostring) state" where
  "dlerrorString C fallback = do { e \<leftarrow> dl_error C; ret (case e of Some m \<Rightarrow> m | None \<Rightarrow> fallback) }"

definition dlsym :: "'w clibrary \<Rightarrow> gostring \<Rightarrow> ('w, gerror option) state" where
  "dlsym C name = do {
     _ \<leftarrow> dl_error C;
     symbol \<leftarrow> dl_sym C name;
     e \<leftarrow> dl_error C;
     ret (case e of
            Some m \<Rightarrow> Some (plainError (''dlsym '' @ name @ '' failed: '' @ m))
          | None \<Rightarrow> if \<not> symbol then Some (plainError (''dlsym '' @ name @ '' returned nil'')) else None) }"

definition openDriver :: "'w clibrary \<Rightarrow> gostring \<Rightarrow> ('w, gerror + linuxDriver) state" where
  "openDriver C path = do {
     _ \<leftarrow> dl_error C;
     handle \<leftarrow> dl_open C path;
     if \<not> handle then do { m \<leftarrow> dlerrorString C ''dlopen failed''; ret (Inl (plainError m)) }
     else do {
       e \<leftarrow> dlsym C ''KC_GetFunctionList'';
       case e of
         Some err \<Rightarrow> do { _ \<leftarrow> dl_close C; ret (Inl err) }
       | None \<Rightarrow> do {
           (rc, funcs) \<leftarrow> c_GetFunctionList C;
           if rc \<noteq> 0 then do {
             _ \<leftarrow> dl_close C;
             ret (Inl (plainError (''KC_GetFunctionList failed with code '' @ format_int (sint rc)))) }
           else if \<not> funcs then do {
             _ \<leftarrow> dl_close C;
             ret (Inl (plainError ''KC_GetFunctionList returned a nil function table'')) }
           else do {
             e \<leftarrow> dlsym C ''KC_InternalClearError'';
             ret (Inr \<lparr>ld_handle = True, ld_funcs = True, ld_clearError = (e = None)\<rparr>) } } } }"

text \<open>\<^verbatim>\<open>Close\<close> of the driver; its result goes with the driver that is left.\<close>

definition linuxDriver_Close :: "'w clibrary \<Rightarrow> linuxDriver \<Rightarrow> ('w, gerror option \<times> linuxDriver) state" where
  "linuxDriver_Close C h =
     (if \<not> ld_handle h then ret (None, h)
      else do {
        _ \<leftarrow> dl_error C;
        rc \<leftarrow> dl_close C;
        if rc \<noteq> 0
        then do { m \<leftarrow> dlerrorString C ''unknown dlclose error'';
                  ret (Some (plainError (''dlclose failed: '' @ m)), \<lparr>ld_handle = False, ld_funcs = False, ld_clearError = False\<rparr>) }
        else ret (None, \<lparr>ld_handle = False, ld_funcs = False, ld_clearError = False\<rparr>) })"

definition linuxDriver_ClearError :: "'w clibrary \<Rightarrow> linuxDriver \<Rightarrow> ('w, unit) state" where
  "linuxDriver_ClearError C h = (if ld_handle h \<and> ld_clearError h then c_InternalClearError C else ret ())"

section \<open>The context\<close>

text \<open>A context holds a driver while it is open; the state goes with that of the library.\<close>

record 'w kcontext =
  kc_driver :: "linuxDriver option"
  kc_world :: 'w

definition on_library :: "('w, 'a) state \<Rightarrow> ('w kcontext, 'a) state" where
  "on_library m = State (\<lambda>s. let (r, w) = run_state m (kc_world s) in (r, s\<lparr>kc_world := w\<rparr>))"

definition unless_closed :: "'a \<Rightarrow> (linuxDriver \<Rightarrow> ('w, 'a) state) \<Rightarrow> ('w kcontext, 'a) state" where
  "unless_closed closed_result k = do {
     s \<leftarrow> State_Monad.get;
     case kc_driver s of None \<Rightarrow> ret closed_result | Some h \<Rightarrow> on_library (k h) }"

definition ErrClosed :: gerror where "ErrClosed = plainError ''kalkancrypt: context is closed''"
definition ErrUnavailable :: gerror where
  "ErrUnavailable = plainError ''kalkancrypt: native KalkanCrypt loader is unavailable for this build''"

definition Context_Open :: "'w clibrary \<Rightarrow> gostring \<Rightarrow> ('w kcontext, gerror option) state" where
  "Context_Open C library = (case checkNativeString library of
     Some err \<Rightarrow> ret (Some err)
   | None \<Rightarrow> do {
       d \<leftarrow> on_library (openDriver C library);
       case d of
         Inl err \<Rightarrow> ret (Some err)
       | Inr h \<Rightarrow> do { State_Monad.update (\<lambda>s. s\<lparr>kc_driver := Some h\<rparr>); ret None } })"

definition Context_Close :: "'w clibrary \<Rightarrow> ('w kcontext, gerror option) state" where
  "Context_Close C = do {
     s \<leftarrow> State_Monad.get;
     case kc_driver s of
       None \<Rightarrow> ret None
     | Some h \<Rightarrow> do {
         State_Monad.update (\<lambda>s. s\<lparr>kc_driver := None\<rparr>);
         r \<leftarrow> on_library (linuxDriver_Close C h);
         ret (fst r) } }"

definition Context_ClearError :: "'w clibrary \<Rightarrow> ('w kcontext, unit) state" where
  "Context_ClearError C = unless_closed () (\<lambda>h. linuxDriver_ClearError C h)"

definition Context_Init :: "'w clibrary \<Rightarrow> ('w kcontext, uint64) state" where
  "Context_Init C = unless_closed errorLibraryNotInitialized (\<lambda>h. linuxDriver_Init C h)"

definition Context_InitDebug :: "'w clibrary \<Rightarrow> ('w kcontext, unit) state" where
  "Context_InitDebug C = unless_closed () (\<lambda>h. linuxDriver_InitDebug C h)"

definition Context_Finalize :: "'w clibrary \<Rightarrow> ('w kcontext, unit) state" where
  "Context_Finalize C = unless_closed () (\<lambda>h. linuxDriver_Finalize C h)"

definition Context_XMLFinalize :: "'w clibrary \<Rightarrow> ('w kcontext, unit) state" where
  "Context_XMLFinalize C = unless_closed () (\<lambda>h. linuxDriver_XMLFinalize C h)"

definition Context_LastError :: "'w clibrary \<Rightarrow> ('w kcontext, uint64) state" where
  "Context_LastError C = unless_closed errorLibraryNotInitialized (\<lambda>h. linuxDriver_LastError C h)"

definition Context_LastErrorString :: "'w clibrary \<Rightarrow> int \<Rightarrow> ('w kcontext, gerror + BufferResult) state" where
  "Context_LastErrorString C capacity = unless_closed (Inl ErrClosed) (\<lambda>h. linuxDriver_LastErrorString C h capacity)"

definition Context_GetTokens :: "'w clibrary \<Rightarrow> int \<Rightarrow> int \<Rightarrow> ('w kcontext, gerror + nativeListResult) state" where
  "Context_GetTokens C storage listSize = unless_closed (Inl ErrClosed) (\<lambda>h. linuxDriver_GetTokens C h storage listSize)"

definition Context_GetCertificatesList :: "'w clibrary \<Rightarrow> int \<Rightarrow> ('w kcontext, gerror + nativeListResult) state" where
  "Context_GetCertificatesList C listSize = unless_closed (Inl ErrClosed) (\<lambda>h. linuxDriver_GetCertificatesList C h listSize)"

definition Context_LoadKeyStore :: "'w clibrary \<Rightarrow> int \<Rightarrow> gostring \<Rightarrow> gostring \<Rightarrow> gostring \<Rightarrow> ('w kcontext, uint64) state" where
  "Context_LoadKeyStore C storage password container alias = unless_closed errorLibraryNotInitialized (\<lambda>h. linuxDriver_LoadKeyStore C h storage password container alias)"

definition Context_X509LoadCertificateFromFile :: "'w clibrary \<Rightarrow> gostring \<Rightarrow> int \<Rightarrow> ('w kcontext, uint64) state" where
  "Context_X509LoadCertificateFromFile C certPath certType = unless_closed errorLibraryNotInitialized (\<lambda>h. linuxDriver_X509LoadCertificateFromFile C h certPath certType)"

definition Context_X509LoadCertificateFromBuffer :: "'w clibrary \<Rightarrow> slice \<Rightarrow> int \<Rightarrow> ('w kcontext, uint64) state" where
  "Context_X509LoadCertificateFromBuffer C cert format = unless_closed errorLibraryNotInitialized (\<lambda>h. linuxDriver_X509LoadCertificateFromBuffer C h cert format)"

definition Context_X509ExportCertificateFromStore :: "'w clibrary \<Rightarrow> gostring \<Rightarrow> int \<Rightarrow> int \<Rightarrow> ('w kcontext, gerror + BufferResult) state" where
  "Context_X509ExportCertificateFromStore C alias format capacity = unless_closed (Inl ErrClosed) (\<lambda>h. linuxDriver_X509ExportCertificateFromStore C h alias format capacity)"

definition Context_X509CertificateGetInfo :: "'w clibrary \<Rightarrow> slice \<Rightarrow> int \<Rightarrow> int \<Rightarrow> ('w kcontext, gerror + BufferResult) state" where
  "Context_X509CertificateGetInfo C cert prop capacity = unless_closed (Inl ErrClosed) (\<lambda>h. linuxDriver_X509CertificateGetInfo C h cert prop capacity)"

definition Context_X509ValidateCertificate :: "'w clibrary \<Rightarrow> ValidateCertificateCall \<Rightarrow> ('w kcontext, gerror + ValidateResult) state" where
  "Context_X509ValidateCertificate C call = unless_closed (Inl ErrClosed) (\<lambda>h. linuxDriver_X509ValidateCertificate C h call)"

definition Context_HashData :: "'w clibrary \<Rightarrow> HashDataCall \<Rightarrow> ('w kcontext, gerror + BufferResult) state" where
  "Context_HashData C call = unless_closed (Inl ErrClosed) (\<lambda>h. linuxDriver_HashData C h call)"

definition Context_SignHash :: "'w clibrary \<Rightarrow> SignHashCall \<Rightarrow> ('w kcontext, gerror + BufferResult) state" where
  "Context_SignHash C call = unless_closed (Inl ErrClosed) (\<lambda>h. linuxDriver_SignHash C h call)"

definition Context_SignData :: "'w clibrary \<Rightarrow> SignDataCall \<Rightarrow> ('w kcontext, gerror + BufferResult) state" where
  "Context_SignData C call = unless_closed (Inl ErrClosed) (\<lambda>h. linuxDriver_SignData C h call)"

definition Context_VerifyData :: "'w clibrary \<Rightarrow> VerifyDataCall \<Rightarrow> ('w kcontext, gerror + VerifyResult) state" where
  "Context_VerifyData C call = unless_closed (Inl ErrClosed) (\<lambda>h. linuxDriver_VerifyData C h call)"

definition Context_UVerifyData :: "'w clibrary \<Rightarrow> VerifyDataCall \<Rightarrow> ('w kcontext, gerror + VerifyResult) state" where
  "Context_UVerifyData C call = unless_closed (Inl ErrClosed) (\<lambda>h. linuxDriver_UVerifyData C h call)"

definition Context_GetTimeFromSig :: "'w clibrary \<Rightarrow> slice \<Rightarrow> int \<Rightarrow> int \<Rightarrow> ('w kcontext, uint64 \<times> int64) state" where
  "Context_GetTimeFromSig C input flags sigID = unless_closed (errorLibraryNotInitialized, 0) (\<lambda>h. linuxDriver_GetTimeFromSig C h input flags sigID)"

definition Context_GetCertFromCMS :: "'w clibrary \<Rightarrow> GetCertFromCMSCall \<Rightarrow> ('w kcontext, gerror + BufferResult) state" where
  "Context_GetCertFromCMS C call = unless_closed (Inl ErrClosed) (\<lambda>h. linuxDriver_GetCertFromCMS C h call)"

definition Context_SignXML :: "'w clibrary \<Rightarrow> SignXMLCall \<Rightarrow> ('w kcontext, gerror + BufferResult) state" where
  "Context_SignXML C call = unless_closed (Inl ErrClosed) (\<lambda>h. linuxDriver_SignXML C h call)"

definition Context_SignWSSE :: "'w clibrary \<Rightarrow> SignWSSECall \<Rightarrow> ('w kcontext, gerror + BufferResult) state" where
  "Context_SignWSSE C call = unless_closed (Inl ErrClosed) (\<lambda>h. linuxDriver_SignWSSE C h call)"

definition Context_VerifyXML :: "'w clibrary \<Rightarrow> VerifyXMLCall \<Rightarrow> ('w kcontext, gerror + BufferResult) state" where
  "Context_VerifyXML C call = unless_closed (Inl ErrClosed) (\<lambda>h. linuxDriver_VerifyXML C h call)"

definition Context_GetCertFromXML :: "'w clibrary \<Rightarrow> slice \<Rightarrow> int \<Rightarrow> int \<Rightarrow> ('w kcontext, gerror + BufferResult) state" where
  "Context_GetCertFromXML C xml signID capacity = unless_closed (Inl ErrClosed) (\<lambda>h. linuxDriver_GetCertFromXML C h xml signID capacity)"

definition Context_GetSigAlgFromXML :: "'w clibrary \<Rightarrow> slice \<Rightarrow> int \<Rightarrow> ('w kcontext, gerror + BufferResult) state" where
  "Context_GetSigAlgFromXML C xml capacity = unless_closed (Inl ErrClosed) (\<lambda>h. linuxDriver_GetSigAlgFromXML C h xml capacity)"

definition Context_SetTSAURL :: "'w clibrary \<Rightarrow> gostring \<Rightarrow> ('w kcontext, uint64) state" where
  "Context_SetTSAURL C tsaURL = unless_closed errorLibraryNotInitialized (\<lambda>h. linuxDriver_SetTSAURL C h tsaURL)"

definition Context_SetProxy :: "'w clibrary \<Rightarrow> ProxyCall \<Rightarrow> ('w kcontext, uint64) state" where
  "Context_SetProxy C call = unless_closed errorLibraryNotInitialized (\<lambda>h. linuxDriver_SetProxy C h call)"

definition Context_ZipConVerify :: "'w clibrary \<Rightarrow> gostring \<Rightarrow> int \<Rightarrow> int \<Rightarrow> ('w kcontext, gerror + BufferResult) state" where
  "Context_ZipConVerify C zipFile flags capacity = unless_closed (Inl ErrClosed) (\<lambda>h. linuxDriver_ZipConVerify C h zipFile flags capacity)"

definition Context_ZipConSign :: "'w clibrary \<Rightarrow> ZipConSignCall \<Rightarrow> ('w kcontext, uint64) state" where
  "Context_ZipConSign C call = unless_closed errorLibraryNotInitialized (\<lambda>h. linuxDriver_ZipConSign C h call)"

definition Context_GetCertFromZipFile :: "'w clibrary \<Rightarrow> GetCertFromZipFileCall \<Rightarrow> ('w kcontext, gerror + BufferResult) state" where
  "Context_GetCertFromZipFile C call = unless_closed (Inl ErrClosed) (\<lambda>h. linuxDriver_GetCertFromZipFile C h call)"

definition linux_context :: "'w clibrary \<Rightarrow> 'w kcontext nativeContext" where
  "linux_context C = \<lparr>capabilities = \<lambda>_. True, n_Close = Context_Close C, n_ClearError = Context_ClearError C,
     n_LastErrorString = Context_LastErrorString C,     n_Init = Context_Init C, n_InitDebug = Context_InitDebug C, n_Finalize = Context_Finalize C,
     n_XMLFinalize = Context_XMLFinalize C, n_LastError = Context_LastError C,
     n_GetTokens = Context_GetTokens C,
     n_GetCertificatesList = Context_GetCertificatesList C, n_LoadKeyStore = Context_LoadKeyStore C,
     n_X509LoadCertificateFromFile = Context_X509LoadCertificateFromFile C,
     n_X509LoadCertificateFromBuffer = Context_X509LoadCertificateFromBuffer C,
     n_X509ExportCertificateFromStore = Context_X509ExportCertificateFromStore C,
     n_X509CertificateGetInfo = Context_X509CertificateGetInfo C,
     n_X509ValidateCertificate = Context_X509ValidateCertificate C, n_HashData = Context_HashData C,
     n_SignHash = Context_SignHash C, n_SignData = Context_SignData C, n_VerifyData = Context_VerifyData C,
     n_GetTimeFromSig = Context_GetTimeFromSig C, n_GetCertFromCMS = Context_GetCertFromCMS C,
     n_SignXML = Context_SignXML C, n_SignWSSE = Context_SignWSSE C, n_VerifyXML = Context_VerifyXML C,
     n_GetCertFromXML = Context_GetCertFromXML C, n_GetSigAlgFromXML = Context_GetSigAlgFromXML C,
     n_SetTSAURL = Context_SetTSAURL C, n_SetProxy = Context_SetProxy C, n_ZipConVerify = Context_ZipConVerify C,
     n_ZipConSign = Context_ZipConSign C, n_GetCertFromZipFile = Context_GetCertFromZipFile C\<rparr>"

text \<open>What \<^verbatim>\<open>ckalkan\<close> loads on Linux.\<close>

definition linux_loader :: "'w clibrary \<Rightarrow> (gostring \<Rightarrow> int option) \<Rightarrow> 'w kcontext loader" where
  "linux_loader C sizes = \<lparr>available = True, native = linux_context C, open_library = Context_Open C,
     is_unavailable = (\<lambda>e. e = ErrUnavailable), stat = sizes, target = Linux\<rparr>"

section \<open>Well-formed calls\<close>

text \<open>What the header of the library asks of the arguments: a C string; memory of a length, which
  under \<^verbatim>\<open>KC_IN_FILE\<close> is a path and under \<^verbatim>\<open>KC_IN_BASE64\<close> ends with a NUL byte, as
  the function reads it; numbers; an output buffer of at least a size, with its length; a buffer
  without a length; and results.\<close>

datatype cparam =
    StringParam
  | MemoryParam bool bool
  | PathParam
  | NumberParam
  | BufferParam nat
  | ListParam
  | CountParam
  | TimeParam

fun signature :: "cfunction \<Rightarrow> cparam list" where
  "signature Fn_KC_Init = []"
| "signature Fn_KC_InitDebug = []"
| "signature Fn_KC_Finalize = []"
| "signature Fn_KC_XMLFinalize = []"
| "signature Fn_KC_GetLastError = []"
| "signature Fn_KC_GetLastErrorString = [BufferParam 1]"
| "signature Fn_KC_GetTokens = [NumberParam, ListParam, CountParam]"
| "signature Fn_KC_GetCertificatesList = [ListParam, CountParam]"
| "signature Fn_KC_LoadKeyStore = [NumberParam, PathParam, PathParam, StringParam]"
| "signature Fn_X509LoadCertificateFromFile = [StringParam, NumberParam]"
| "signature Fn_X509LoadCertificateFromBuffer = [MemoryParam False False, NumberParam]"
| "signature Fn_X509ExportCertificateFromStore = [StringParam, NumberParam, BufferParam 1]"
| "signature Fn_X509CertificateGetInfo = [MemoryParam False False, NumberParam, BufferParam 1]"
| "signature Fn_X509ValidateCertificate =
     [MemoryParam True False, NumberParam, StringParam, NumberParam, BufferParam 1, NumberParam, BufferParam 1]"
| "signature Fn_HashData = [StringParam, NumberParam, MemoryParam True False, BufferParam 1]"
| "signature Fn_SignHash = [StringParam, NumberParam, MemoryParam False False, BufferParam 1]"
| "signature Fn_SignData = [StringParam, NumberParam, MemoryParam True True, MemoryParam False True, BufferParam 1]"
| "signature Fn_SignXML =
     [StringParam, NumberParam, MemoryParam False False, BufferParam 1, StringParam, StringParam, StringParam]"
| "signature Fn_SignWSSE = [StringParam, NumberParam, MemoryParam False False, BufferParam 1, StringParam]"
| "signature Fn_VerifyData = [StringParam, NumberParam, MemoryParam False False, MemoryParam True True, BufferParam 1,
     BufferParam 4096, NumberParam, BufferParam 8192]"
| "signature Fn_UVerifyData = [StringParam, NumberParam, MemoryParam False False, PathParam, BufferParam 1,
     BufferParam 4096, NumberParam, BufferParam 8192]"
| "signature Fn_VerifyXML = [StringParam, NumberParam, MemoryParam False False, BufferParam 1]"
| "signature Fn_KC_getCertFromXML = [MemoryParam False False, NumberParam, BufferParam 1]"
| "signature Fn_KC_getSigAlgFromXML = [MemoryParam False False, BufferParam 1]"
| "signature Fn_KC_GetTimeFromSig = [MemoryParam False True, NumberParam, NumberParam, TimeParam]"
| "signature Fn_KC_GetCertFromCMS = [MemoryParam False True, NumberParam, NumberParam, BufferParam 1]"
| "signature Fn_KC_TSASetUrl = [StringParam]"
| "signature Fn_KC_SetProxy = [NumberParam, StringParam, StringParam, StringParam, StringParam]"
| "signature Fn_ZipConVerify = [StringParam, NumberParam, BufferParam 65536]"
| "signature Fn_ZipConSign = [StringParam, StringParam, StringParam, StringParam, NumberParam]"
| "signature Fn_KC_getCertFromZipFile = [StringParam, NumberParam, NumberParam, BufferParam 1]"

text \<open>The position of the flags among the arguments.\<close>

fun flags_at :: "cfunction \<Rightarrow> nat option" where
  "flags_at Fn_X509ValidateCertificate = Some 7"
| "flags_at Fn_HashData = Some 1"
| "flags_at Fn_SignData = Some 1"
| "flags_at Fn_VerifyData = Some 1"
| "flags_at Fn_KC_GetTimeFromSig = Some 2"
| "flags_at Fn_KC_GetCertFromCMS = Some 3"
| "flags_at _ = None"

definition flags_of :: "cfunction \<Rightarrow> carg list \<Rightarrow> 32 word" where
  "flags_of f args = (case flags_at f of
     Some i \<Rightarrow> (if i < length args then case args ! i of CInt w \<Rightarrow> w | _ \<Rightarrow> 0 else 0) | None \<Rightarrow> 0)"

definition c_string :: "bytes \<Rightarrow> bool" where
  "c_string m \<longleftrightarrow> m \<noteq> [] \<and> last m = CHR 0x00 \<and> CHR 0x00 \<notin> set (butlast m)"

definition c_path :: "bytes option \<Rightarrow> 32 word \<Rightarrow> bool" where
  "c_path p n \<longleftrightarrow> (case p of None \<Rightarrow> False | Some m \<Rightarrow> c_string m \<and> sint n + 1 = int (length m))"

definition c_memory :: "bool \<Rightarrow> bytes option \<Rightarrow> 32 word \<Rightarrow> bool" where
  "c_memory terminated p n \<longleftrightarrow> (case p of
     None \<Rightarrow> \<not> terminated \<and> sint n = 0
   | Some m \<Rightarrow> m \<noteq> [] \<and> (\<not> terminated \<and> sint n = int (length m) \<or> last m = CHR 0x00 \<and> sint n + 1 = int (length m)))"

definition argument_ok :: "32 word \<Rightarrow> cparam \<Rightarrow> carg list \<Rightarrow> carg list option" where
  "argument_ok flags param args = (case param of
     StringParam \<Rightarrow> (case args of Ptr (Some m) # as \<Rightarrow> if c_string m then Some as else None | _ \<Rightarrow> None)
   | MemoryParam files texts \<Rightarrow> (case args of
       Ptr p # CInt n # as \<Rightarrow>
         if (if files \<and> bit flags 15 then c_path p n else c_memory (texts \<and> bit flags 4) p n) then Some as else None
     | _ \<Rightarrow> None)
   | PathParam \<Rightarrow> (case args of Ptr p # CInt n # as \<Rightarrow> if c_path p n then Some as else None | _ \<Rightarrow> None)
   | NumberParam \<Rightarrow> (case args of CInt n # as \<Rightarrow> Some as | CUlong n # as \<Rightarrow> Some as | CLonglong n # as \<Rightarrow> Some as | _ \<Rightarrow> None)
   | BufferParam least \<Rightarrow> (case args of
       OutBuf size' # InOutLen n # as \<Rightarrow> if sint n = int size' \<and> least \<le> size' then Some as else None
     | _ \<Rightarrow> None)
   | ListParam \<Rightarrow> (case args of OutBuf size' # as \<Rightarrow> if 0 < size' then Some as else None | _ \<Rightarrow> None)
   | CountParam \<Rightarrow> (case args of OutCount # as \<Rightarrow> Some as | _ \<Rightarrow> None)
   | TimeParam \<Rightarrow> (case args of OutTime # as \<Rightarrow> Some as | _ \<Rightarrow> None))"

fun arguments_ok :: "32 word \<Rightarrow> cparam list \<Rightarrow> carg list \<Rightarrow> bool" where
  "arguments_ok flags [] args \<longleftrightarrow> args = []"
| "arguments_ok flags (param # params) args \<longleftrightarrow> (case argument_ok flags param args of
     None \<Rightarrow> False | Some rest \<Rightarrow> arguments_ok flags params rest)"

definition call_ok :: "cfunction \<Rightarrow> carg list \<Rightarrow> bool" where
  "call_ok f args \<longleftrightarrow> arguments_ok (flags_of f args) (signature f) args"

section \<open>Every call is well-formed\<close>

lemma sint_small: "0 \<le> n \<Longrightarrow> n \<le> maxNativeCInt \<Longrightarrow> sint (word_of_int n :: 32 word) = n"
  by (simp add: maxNativeCInt_def sint_sbintrunc' signed_take_bit_int_eq_self_iff [THEN iffD2])

lemma outputBuffer_ok:
  "outputBuffer n = Inr k \<Longrightarrow> sint (word_of_int n :: 32 word) = int k \<and> Suc 0 \<le> k \<and> n = int k"
  using sint_small [of n] by (auto simp: outputBuffer_def checkOutputBufferCapacity_def split: if_splits)

lemma cString_ok: "cString v = Inr p \<Longrightarrow> \<exists>m. p = Ptr (Some m) \<and> c_string m"
  by (auto simp: cString_def checkNativeString_def c_string_def split: if_splits option.splits)

lemma cString_path: "cString v = Inr p \<Longrightarrow> \<exists>m. p = Ptr (Some m) \<and> c_string m \<and> c_path (Some m) (word_of_nat (length v))"
  using sint_small [of "int (length v)"]
  by (auto simp: cString_def checkNativeString_def checkNativeInputLength_def c_string_def c_path_def split: if_splits)

lemma nativeInt_ok: "checkNativeBytes v = None \<Longrightarrow> sint (nativeInt v) = int (length (str_of v))"
  using sint_small [of "int (slice_len v)"]
  by (cases v) (auto simp: checkNativeBytes_def checkNativeInputLength_def nativeInt_def split: if_splits)

lemma inputBytes_ok: "inputBytes v = Inr (m, n) \<Longrightarrow> \<exists>p. charPtr m = Ptr p \<and> c_memory False p n"
  by (auto simp: inputBytes_def charPtr_def c_memory_def nativeInt_ok split: option.splits)

lemma terminated_ok: "terminatedInputBytes v = Inr (m, n) \<Longrightarrow> \<exists>p. charPtr m = Ptr p \<and> c_memory t p n"
  by (auto simp: terminatedInputBytes_def charPtr_def c_memory_def nativeInt_ok split: option.splits)

lemma filePath_ok: "filePathBytes v = Inr (m, n) \<Longrightarrow> \<exists>p. charPtr m = Ptr p \<and> c_path p n"
  by (auto simp: filePathBytes_def terminatedInputBytes_def charPtr_def c_path_def c_string_def nativeInt_ok split: option.splits if_splits)

lemma flag_bits:
  "flags AND inFileFlag \<noteq> 0 \<longleftrightarrow> bit (word_of_int flags :: 32 word) 15"
  "flags AND inBase64Flag \<noteq> 0 \<longleftrightarrow> bit (word_of_int flags :: 32 word) 4"
  "(flags AND NOT inFileFlag) AND inFileFlag = 0"
  "(flags AND NOT inFileFlag) AND inBase64Flag = 0 \<longleftrightarrow> flags AND inBase64Flag = 0"
proof -
  have infile: "flags AND inFileFlag = 0 \<longleftrightarrow> \<not> bit flags 15" for flags
    using and_exp_eq_0_iff_not_bit [of flags 15] by (simp add: inFileFlag_def)
  have base64: "flags AND inBase64Flag = 0 \<longleftrightarrow> \<not> bit flags 4" for flags
    using and_exp_eq_0_iff_not_bit [of flags 4] by (simp add: inBase64Flag_def)
  have cleared: "bit (flags AND NOT inFileFlag) n \<longleftrightarrow> bit flags n \<and> n \<noteq> 15" for n
    using bit_exp_iff [of 15 n, where 'a = int] by (auto simp: bit_simps inFileFlag_def)
  show "flags AND inFileFlag \<noteq> 0 \<longleftrightarrow> bit (word_of_int flags :: 32 word) 15" by (simp add: infile bit_word_of_int_iff)
  show "flags AND inBase64Flag \<noteq> 0 \<longleftrightarrow> bit (word_of_int flags :: 32 word) 4" by (simp add: base64 bit_word_of_int_iff)
  show "(flags AND NOT inFileFlag) AND inFileFlag = 0" by (simp add: infile cleared)
  show "(flags AND NOT inFileFlag) AND inBase64Flag = 0 \<longleftrightarrow> flags AND inBase64Flag = 0" by (simp add: base64 cleared)
qed

lemma inputBytesWithFlags_ok:
  assumes "inputBytesWithFlags v flags = Inr (m, n)" and "word_of_int flags = (w :: 32 word)"
  shows "\<exists>p. charPtr m = Ptr p \<and> (if bit w 15 then c_path p n else c_memory False p n)"
  using assms inputBytes_ok filePath_ok by (auto simp: inputBytesWithFlags_def flag_bits split: if_splits)

lemma cmsInputBytes_ok:
  assumes "cmsInputBytes v flags = Inr (m, n)" and "word_of_int flags = (w :: 32 word)"
  shows "\<exists>p. charPtr m = Ptr p \<and> (if bit w 15 then c_path p n else c_memory (bit w 4) p n)"
  using assms inputBytes_ok filePath_ok terminated_ok [of v m n True]
  by (auto simp: cmsInputBytes_def flag_bits split: if_splits)

lemma cmsMemory_ok:
  assumes "cmsInputBytes v (flags AND NOT inFileFlag) = Inr (m, n)" and "word_of_int flags = (w :: 32 word)"
  shows "\<exists>p. charPtr m = Ptr p \<and> c_memory (bit w 4) p n"
proof -
  have "flags AND inBase64Flag = 0 \<longleftrightarrow> \<not> bit w 4" using flag_bits(2) assms(2) by blast
  then show ?thesis using assms(1) inputBytes_ok terminated_ok [of v m n True]
    by (auto simp: cmsInputBytes_def flag_bits(3,4) split: if_splits)
qed

text \<open>Two libraries that answer well-formed calls alike.\<close>

definition agree :: "'w clibrary \<Rightarrow> (cfunction \<Rightarrow> carg list \<Rightarrow> ('w, creturn) state) \<Rightarrow> bool" where
  "agree C g \<longleftrightarrow> (\<forall>f args. call_ok f args \<longrightarrow> g f args = c_call C f args)"

lemma checked_same: "(\<And>v. r = Inr v \<Longrightarrow> k v = k' v) \<Longrightarrow> checked r k = checked r k'"
  by (simp add: checked_def split: sum.split)

lemma checked_pair_same:
  "(\<And>a b. r = Inr (a, b) \<Longrightarrow> k a b = k' a b) \<Longrightarrow> checked r (\<lambda>(a, b). k a b) = checked r (\<lambda>(a, b). k' a b)"
  by (simp add: checked_def split: sum.split)

lemma or_param_same: "(\<And>v. r = Inr v \<Longrightarrow> k v = k' v) \<Longrightarrow> or_param r k = or_param r k'"
  by (simp add: or_param_def split: sum.split)

lemma or_param_pair_same:
  "(\<And>a b. r = Inr (a, b) \<Longrightarrow> k a b = k' a b) \<Longrightarrow> or_param r (\<lambda>(a, b). k a b) = or_param r (\<lambda>(a, b). k' a b)"
  by (simp add: or_param_def split: sum.split)

lemma guarded_same: "(e = None \<Longrightarrow> k = k') \<Longrightarrow> guarded e k = guarded e k'"
  by (simp add: guarded_def split: option.split)

lemma bridge_same: "agree C g \<Longrightarrow> call_ok f args \<Longrightarrow> bridge (C\<lparr>c_call := g\<rparr>) h f args = bridge C h f args"
  by (simp add: bridge_def agree_def)

lemma bind_bridge_same:
  "agree C g \<Longrightarrow> call_ok f args \<Longrightarrow> State_Monad.bind (bridge (C\<lparr>c_call := g\<rparr>) h f args) k = State_Monad.bind (bridge C h f args) k"
  by (simp add: bridge_same)

lemma buffer_attempt_same:
  "agree C g \<Longrightarrow> call_ok f args \<Longrightarrow> buffer_attempt (C\<lparr>c_call := g\<rparr>) h f args n = buffer_attempt C h f args n"
  by (simp add: buffer_attempt_def bridge_same)

lemma status_of_same: "agree C g \<Longrightarrow> call_ok f args \<Longrightarrow> status_of (C\<lparr>c_call := g\<rparr>) h f args = status_of C h f args"
  by (simp add: status_of_def bridge_same)

lemmas same = checked_pair_same checked_same or_param_pair_same or_param_same guarded_same buffer_attempt_same status_of_same
  bind_bridge_same
lemmas call_ok_simps = call_ok_def argument_ok_def flags_of_def C_int_def
lemmas inputs_ok = cString_ok inputBytes_ok inputBytesWithFlags_ok [OF _ refl] cmsInputBytes_ok [OF _ refl]
  cmsMemory_ok [OF _ refl] filePath_ok outputBuffer_ok

text \<open>The operations make well-formed calls only.\<close>

lemma plain_same:
  assumes "agree C g"
  shows "linuxDriver_Init (C\<lparr>c_call := g\<rparr>) h = linuxDriver_Init C h"
    and "linuxDriver_InitDebug (C\<lparr>c_call := g\<rparr>) h = linuxDriver_InitDebug C h"
    and "linuxDriver_Finalize (C\<lparr>c_call := g\<rparr>) h = linuxDriver_Finalize C h"
    and "linuxDriver_XMLFinalize (C\<lparr>c_call := g\<rparr>) h = linuxDriver_XMLFinalize C h"
    and "linuxDriver_LastError (C\<lparr>c_call := g\<rparr>) h = linuxDriver_LastError C h"
  unfolding linuxDriver_Init_def linuxDriver_InitDebug_def linuxDriver_Finalize_def linuxDriver_XMLFinalize_def
    linuxDriver_LastError_def
  by (intro same assms; simp add: call_ok_simps)+

lemma LastErrorString_same: "agree C g \<Longrightarrow> linuxDriver_LastErrorString (C\<lparr>c_call := g\<rparr>) h capacity = linuxDriver_LastErrorString C h capacity"
  unfolding linuxDriver_LastErrorString_def by (intro same) (auto simp: call_ok_simps dest!: inputs_ok)

lemma GetTokens_same: "agree C g \<Longrightarrow> linuxDriver_GetTokens (C\<lparr>c_call := g\<rparr>) h storage listSize = linuxDriver_GetTokens C h storage listSize"
  unfolding linuxDriver_GetTokens_def by (intro same) (auto simp: call_ok_simps dest!: inputs_ok)

lemma GetCertificatesList_same: "agree C g \<Longrightarrow> linuxDriver_GetCertificatesList (C\<lparr>c_call := g\<rparr>) h listSize = linuxDriver_GetCertificatesList C h listSize"
  unfolding linuxDriver_GetCertificatesList_def by (intro same) (auto simp: call_ok_simps dest!: inputs_ok)

lemma LoadKeyStore_same: "agree C g \<Longrightarrow> linuxDriver_LoadKeyStore (C\<lparr>c_call := g\<rparr>) h storage password container alias = linuxDriver_LoadKeyStore C h storage password container alias"
  unfolding linuxDriver_LoadKeyStore_def by (intro same) (auto simp: call_ok_simps dest!: cString_path)

lemma X509LoadCertificateFromFile_same: "agree C g \<Longrightarrow> linuxDriver_X509LoadCertificateFromFile (C\<lparr>c_call := g\<rparr>) h certPath certType = linuxDriver_X509LoadCertificateFromFile C h certPath certType"
  unfolding linuxDriver_X509LoadCertificateFromFile_def by (intro same) (auto simp: call_ok_simps dest!: inputs_ok)

lemma X509LoadCertificateFromBuffer_same: "agree C g \<Longrightarrow> linuxDriver_X509LoadCertificateFromBuffer (C\<lparr>c_call := g\<rparr>) h cert format = linuxDriver_X509LoadCertificateFromBuffer C h cert format"
  unfolding linuxDriver_X509LoadCertificateFromBuffer_def by (intro same) (auto simp: call_ok_simps dest!: inputs_ok)

lemma X509ExportCertificateFromStore_same: "agree C g \<Longrightarrow> linuxDriver_X509ExportCertificateFromStore (C\<lparr>c_call := g\<rparr>) h alias format capacity = linuxDriver_X509ExportCertificateFromStore C h alias format capacity"
  unfolding linuxDriver_X509ExportCertificateFromStore_def by (intro same) (auto simp: call_ok_simps dest!: inputs_ok)

lemma X509CertificateGetInfo_same: "agree C g \<Longrightarrow> linuxDriver_X509CertificateGetInfo (C\<lparr>c_call := g\<rparr>) h cert prop capacity = linuxDriver_X509CertificateGetInfo C h cert prop capacity"
  unfolding linuxDriver_X509CertificateGetInfo_def by (intro same) (auto simp: call_ok_simps dest!: inputs_ok)

lemma X509ValidateCertificate_same: "agree C g \<Longrightarrow> linuxDriver_X509ValidateCertificate (C\<lparr>c_call := g\<rparr>) h call = linuxDriver_X509ValidateCertificate C h call"
  unfolding linuxDriver_X509ValidateCertificate_def by (intro same) (auto simp: call_ok_simps dest!: inputs_ok)

lemma SignHash_same: "agree C g \<Longrightarrow> linuxDriver_SignHash (C\<lparr>c_call := g\<rparr>) h call = linuxDriver_SignHash C h call"
  unfolding linuxDriver_SignHash_def by (intro same) (auto simp: call_ok_simps dest!: inputs_ok)

lemma SignData_same: "agree C g \<Longrightarrow> linuxDriver_SignData (C\<lparr>c_call := g\<rparr>) h call = linuxDriver_SignData C h call"
  unfolding linuxDriver_SignData_def by (intro same) (auto simp: call_ok_simps dest!: inputs_ok)

lemma GetCertFromCMS_same: "agree C g \<Longrightarrow> linuxDriver_GetCertFromCMS (C\<lparr>c_call := g\<rparr>) h call = linuxDriver_GetCertFromCMS C h call"
  unfolding linuxDriver_GetCertFromCMS_def by (intro same) (auto simp: call_ok_simps dest!: inputs_ok)

lemma SignXML_same: "agree C g \<Longrightarrow> linuxDriver_SignXML (C\<lparr>c_call := g\<rparr>) h call = linuxDriver_SignXML C h call"
  unfolding linuxDriver_SignXML_def by (intro same) (auto simp: call_ok_simps dest!: inputs_ok)

lemma SignWSSE_same: "agree C g \<Longrightarrow> linuxDriver_SignWSSE (C\<lparr>c_call := g\<rparr>) h call = linuxDriver_SignWSSE C h call"
  unfolding linuxDriver_SignWSSE_def by (intro same) (auto simp: call_ok_simps dest!: inputs_ok)

lemma VerifyXML_same: "agree C g \<Longrightarrow> linuxDriver_VerifyXML (C\<lparr>c_call := g\<rparr>) h call = linuxDriver_VerifyXML C h call"
  unfolding linuxDriver_VerifyXML_def by (intro same) (auto simp: call_ok_simps dest!: inputs_ok)

lemma GetCertFromXML_same: "agree C g \<Longrightarrow> linuxDriver_GetCertFromXML (C\<lparr>c_call := g\<rparr>) h xml signID capacity = linuxDriver_GetCertFromXML C h xml signID capacity"
  unfolding linuxDriver_GetCertFromXML_def by (intro same) (auto simp: call_ok_simps dest!: inputs_ok)

lemma GetSigAlgFromXML_same: "agree C g \<Longrightarrow> linuxDriver_GetSigAlgFromXML (C\<lparr>c_call := g\<rparr>) h xml capacity = linuxDriver_GetSigAlgFromXML C h xml capacity"
  unfolding linuxDriver_GetSigAlgFromXML_def by (intro same) (auto simp: call_ok_simps dest!: inputs_ok)

lemma SetProxy_same: "agree C g \<Longrightarrow> linuxDriver_SetProxy (C\<lparr>c_call := g\<rparr>) h call = linuxDriver_SetProxy C h call"
  unfolding linuxDriver_SetProxy_def by (intro same) (auto simp: call_ok_simps dest!: inputs_ok)

lemma GetCertFromZipFile_same: "agree C g \<Longrightarrow> linuxDriver_GetCertFromZipFile (C\<lparr>c_call := g\<rparr>) h call = linuxDriver_GetCertFromZipFile C h call"
  unfolding linuxDriver_GetCertFromZipFile_def by (intro same) (auto simp: call_ok_simps dest!: inputs_ok)

lemma ClearError_same: "linuxDriver_ClearError (C\<lparr>c_call := g\<rparr>) h = linuxDriver_ClearError C h"
  by (simp add: linuxDriver_ClearError_def)

lemma HashData_same: "agree C g \<Longrightarrow> linuxDriver_HashData (C\<lparr>c_call := g\<rparr>) h call = linuxDriver_HashData C h call"
proof -
  assume a: "agree C g"
  have attempt: "hash_attempt (C\<lparr>c_call := g\<rparr>) h cAlgorithm flags input capacity = hash_attempt C h cAlgorithm flags input capacity"
    if "cString v = Inr cAlgorithm" for v cAlgorithm flags input capacity
    unfolding hash_attempt_def using a that by (intro same) (auto simp: call_ok_simps dest!: inputs_ok)
  have content: "readBase64HashFile (C\<lparr>c_call := g\<rparr>) path = readBase64HashFile C path" for path
    by (simp add: readBase64HashFile_def)
  show ?thesis unfolding linuxDriver_HashData_def content by (intro same) (simp add: attempt)
qed

lemma verifyData_same:
  "agree C g \<Longrightarrow> linuxDriver_verifyData (C\<lparr>c_call := g\<rparr>) h call universal = linuxDriver_verifyData C h call universal"
  unfolding linuxDriver_verifyData_def
  by (intro same if_cong refl)
    (auto simp: call_ok_simps verifySignatureInput_def minimumInfoCapacity_def minimumCertCapacity_def
      split: if_splits dest!: inputs_ok)

lemma GetTimeFromSig_same:
  "agree C g \<Longrightarrow> linuxDriver_GetTimeFromSig (C\<lparr>c_call := g\<rparr>) h input flags sigID = linuxDriver_GetTimeFromSig C h input flags sigID"
  unfolding linuxDriver_GetTimeFromSig_def
  by (auto split: sum.split intro!: bind_bridge_same simp: call_ok_simps dest!: inputs_ok)

lemma SetTSAURL_same: "agree C g \<Longrightarrow> linuxDriver_SetTSAURL (C\<lparr>c_call := g\<rparr>) h tsaURL = linuxDriver_SetTSAURL C h tsaURL"
  unfolding linuxDriver_SetTSAURL_def by (intro same) (auto simp: agree_def call_ok_simps dest!: inputs_ok)

lemma ZipConVerify_same:
  "agree C g \<Longrightarrow> linuxDriver_ZipConVerify (C\<lparr>c_call := g\<rparr>) h zipFile flags capacity = linuxDriver_ZipConVerify C h zipFile flags capacity"
  unfolding linuxDriver_ZipConVerify_def Let_def
  by (intro same) (auto simp: call_ok_simps zipVerifyOutputGuardCapacity_def max_def split: if_splits dest!: inputs_ok)

lemma ZipConSign_same: "agree C g \<Longrightarrow> linuxDriver_ZipConSign (C\<lparr>c_call := g\<rparr>) h call = linuxDriver_ZipConSign C h call"
proof -
  assume a: "agree C g"
  have "status_of (C\<lparr>c_call := g\<rparr>) h Fn_ZipConSign [p1, p2, p3, p4, C_int flags] =
      status_of C h Fn_ZipConSign [p1, p2, p3, p4, C_int flags]"
    if "cString v1 = Inr p1" "cString v2 = Inr p2" "cString v3 = Inr p3" "cString v4 = Inr p4"
    for v1 v2 v3 v4 p1 p2 p3 p4 flags
    using a that by (intro same) (auto simp: call_ok_simps dest!: inputs_ok)
  then show ?thesis unfolding linuxDriver_ZipConSign_def by (intro same) (simp cong: if_cong)
qed

lemma loading_same:
  "openDriver (C\<lparr>c_call := g\<rparr>) path = openDriver C path" "linuxDriver_Close (C\<lparr>c_call := g\<rparr>) h = linuxDriver_Close C h"
  by (simp_all add: openDriver_def dlsym_def dlerrorString_def linuxDriver_Close_def cong: if_cong option.case_cong)

lemmas operations_same = plain_same verifyData_same
  LastErrorString_same GetTokens_same GetCertificatesList_same LoadKeyStore_same
  X509LoadCertificateFromFile_same X509LoadCertificateFromBuffer_same X509ExportCertificateFromStore_same
  X509CertificateGetInfo_same X509ValidateCertificate_same HashData_same SignHash_same SignData_same
  GetTimeFromSig_same GetCertFromCMS_same SignXML_same SignWSSE_same VerifyXML_same GetCertFromXML_same
  GetSigAlgFromXML_same SetTSAURL_same SetProxy_same ZipConVerify_same ZipConSign_same GetCertFromZipFile_same

lemmas Context_defs = linuxDriver_VerifyData_def linuxDriver_UVerifyData_def
  Context_ClearError_def Context_Init_def Context_InitDebug_def Context_Finalize_def Context_XMLFinalize_def
  Context_LastError_def Context_LastErrorString_def Context_GetTokens_def Context_GetCertificatesList_def
  Context_LoadKeyStore_def Context_X509LoadCertificateFromFile_def Context_X509LoadCertificateFromBuffer_def
  Context_X509ExportCertificateFromStore_def Context_X509CertificateGetInfo_def
  Context_X509ValidateCertificate_def Context_HashData_def Context_SignHash_def Context_SignData_def
  Context_VerifyData_def Context_UVerifyData_def Context_GetTimeFromSig_def Context_GetCertFromCMS_def
  Context_SignXML_def Context_SignWSSE_def Context_VerifyXML_def Context_GetCertFromXML_def
  Context_GetSigAlgFromXML_def Context_SetTSAURL_def Context_SetProxy_def Context_ZipConVerify_def
  Context_ZipConSign_def Context_GetCertFromZipFile_def Context_Open_def Context_Close_def

text \<open>
  C7: every call that the Linux driver makes through the function table has arguments as the header
  of the library asks for: C strings end with their only NUL byte; lengths are those of the memory
  behind the pointers, which ends with a NUL byte where the flags make the function read a path or
  Base64 text; every output buffer is as large as the length that goes with it, and at least as
  large as verification needs. A library that differs from another one on other calls only is
  indistinguishable from it, in every operation of the context and in opening it.
\<close>

theorem driver_calls_well_formed:
  assumes "\<And>f args. call_ok f args \<Longrightarrow> g f args = c_call C f args"
  shows "linux_loader (C\<lparr>c_call := g\<rparr>) sizes = linux_loader C sizes \<and>
    Context_UVerifyData (C\<lparr>c_call := g\<rparr>) = Context_UVerifyData C"
proof -
  have a: "agree C g" using assms by (simp add: agree_def)
  show ?thesis
    unfolding linux_loader_def linux_context_def fun_eq_iff
    by (simp add: Context_defs loading_same ClearError_same operations_same [OF a] fun_eq_iff cong: option.case_cong)
qed

section \<open>Outputs\<close>

text \<open>A result of an attempt with a capacity: the reported prefix of the output, cut at the capacity.\<close>

definition output_within :: "int \<Rightarrow> int \<Rightarrow> slice \<Rightarrow> bool" where
  "output_within capacity reported out \<longleftrightarrow> 0 < capacity \<and> capacity \<le> maxNativeCInt \<and>
     int (slice_len out) = max 0 (min reported capacity)"

definition attempt_within :: "int \<Rightarrow> gerror + BufferResult \<Rightarrow> bool" where
  "attempt_within capacity r = (case r of Inl _ \<Rightarrow> True | Inr b \<Rightarrow> output_within capacity (br_OutLen b) (br_Data b))"

lemma filled_length [simp]: "length (filled n written) = n"
  by (simp add: filled_def)

lemma bounded_length:
  "length buf = nat capacity \<Longrightarrow> 0 < capacity \<Longrightarrow> int (slice_len (boundedBytes buf reported)) = max 0 (min reported capacity)"
  by (auto simp: boundedBytes_def)

lemma bounded_within:
  assumes "outputBuffer capacity = Inr n"
  shows "output_within capacity reported (boundedBytes (filled n written) reported)"
proof -
  have n: "0 < capacity" "capacity \<le> maxNativeCInt" "n = nat capacity"
    using assms by (auto simp: outputBuffer_def checkOutputBufferCapacity_def split: if_splits)
  then show ?thesis using bounded_length [of "filled n written" capacity] by (simp add: output_within_def)
qed

lemma within_checked:
  "(\<And>v. r = Inr v \<Longrightarrow> attempt_within capacity (fst (run_state (k v) w))) \<Longrightarrow> attempt_within capacity (fst (run_state (checked r k) w))"
  by (cases r) (simp_all add: checked_def, simp add: attempt_within_def)

lemma within_checked_pair:
  "(\<And>a b. r = Inr (a, b) \<Longrightarrow> attempt_within capacity (fst (run_state (k a b) w))) \<Longrightarrow>
     attempt_within capacity (fst (run_state (checked r (\<lambda>(a, b). k a b)) w))"
  by (cases r) (auto simp: checked_def, simp add: attempt_within_def)

lemma within_guarded:
  "(e = None \<Longrightarrow> attempt_within capacity (fst (run_state k w))) \<Longrightarrow> attempt_within capacity (fst (run_state (guarded e k) w))"
  by (simp add: guarded_def attempt_within_def split: option.split)

lemma within_attempt:
  "outputBuffer capacity = Inr n \<Longrightarrow> attempt_within capacity (fst (run_state (buffer_attempt C h f args n) w))"
  by (simp add: buffer_attempt_def attempt_within_def bufferResult_def bounded_within case_prod_unfold)

lemma within_unless_closed:
  "(\<And>h w. attempt_within capacity (fst (run_state (k h) w))) \<Longrightarrow> attempt_within capacity (fst (run_state (unless_closed (Inl err) k) s))"
  by (simp add: unless_closed_def attempt_within_def on_library_def State_Monad.get_def case_prod_unfold Let_def split: option.split)

lemmas within = within_checked_pair within_checked within_guarded within_attempt within_unless_closed

lemma within_HashData: "attempt_within (hc_Capacity call) (fst (run_state (linuxDriver_HashData C h call) w))"
proof -
  have attempt: "attempt_within capacity (fst (run_state (hash_attempt C h a flags input capacity) w))" for a flags input capacity w
    unfolding hash_attempt_def by (intro within)
  have "attempt_within (hc_Capacity call) (fst (run_state (checked content (\<lambda>content.
      hash_attempt C h a flags content (hc_Capacity call))) w))" for content a flags w
    by (intro within attempt)
  then show ?thesis
    unfolding linuxDriver_HashData_def by (intro within) (simp add: attempt case_prod_unfold)
qed

lemma within_ZipConVerify: "attempt_within capacity (fst (run_state (linuxDriver_ZipConVerify C h zipFile flags capacity) w))"
proof -
  have "output_within capacity reported (boundedBytes (take (nat capacity) (filled n written)) reported)"
    if "outputBuffer (max capacity zipVerifyOutputGuardCapacity) = Inr n" "checkOutputBufferCapacity capacity = None" for n reported written
  proof -
    have "0 < capacity" "capacity \<le> maxNativeCInt" "nat capacity \<le> n"
      using that by (auto simp: outputBuffer_def checkOutputBufferCapacity_def split: if_splits)
    then show ?thesis
      using bounded_length [of "take (nat capacity) (filled n written)" capacity] by (simp add: output_within_def)
  qed
  then show ?thesis
    unfolding linuxDriver_ZipConVerify_def Let_def
    by (intro within) (simp add: attempt_within_def bufferResult_def case_prod_unfold)
qed


text \<open>A closed context leaves the library alone.\<close>

lemma closed_context_silent:
  assumes "kc_driver s = None"
  shows "run_state (unless_closed r k) s = (r, s)" and "run_state (Context_Close C) s = (None, s)"
  using assms by (simp_all add: unless_closed_def Context_Close_def State_Monad.get_def)

text \<open>Closing always leaves a closed context, whether or not the library could be unloaded.\<close>

lemma Context_Close_closes: "kc_driver (exec (Context_Close C) s) = None"
  by (cases "kc_driver s")
    (simp_all add: Context_Close_def State_Monad.get_def State_Monad.update_def State_Monad.set_def on_library_def case_prod_unfold Let_def)

text \<open>A failed load closes what it opened; a driver that is returned has its table.\<close>

lemma openDriver_table: "fst (run_state (openDriver C path) w) = Inr h \<Longrightarrow> ld_handle h \<and> ld_funcs h"
  by (auto simp: openDriver_def dlerrorString_def case_prod_unfold split: if_splits option.splits)

section \<open>An example\<close>

text \<open>A library that answers every call with the empty output, and one that fails on any call that is
  not well-formed.\<close>

definition quiet_library :: "nat clibrary" where
  "quiet_library = \<lparr>c_available = \<lambda>_. True, c_call = \<lambda>f args. ret (untouched 0 args), c_InternalClearError = ret (),
     c_GetFunctionList = ret (0, True), dl_open = \<lambda>_. ret True, dl_error = ret None, dl_sym = \<lambda>_. ret True, dl_close = ret 0,
     os_Open = \<lambda>_. ret (Inr ()), file_Size = \<lambda>_. ret (Inr 0), file_ReadAll = \<lambda>_ _. ret (Inr []), os_IsDir = \<lambda>_. ret True\<rparr>"

definition strict_call :: "cfunction \<Rightarrow> carg list \<Rightarrow> (nat, creturn) state" where
  "strict_call f args = (if call_ok f args then ret (untouched 0 args) else State (\<lambda>n. (untouched errorParam args, n + 1)))"

theorem driver_calls_well_formed_witness:
  "\<not> call_ok Fn_ZipConSign [] \<and> linux_loader (quiet_library\<lparr>c_call := strict_call\<rparr>) (\<lambda>_. None) = linux_loader quiet_library (\<lambda>_. None)"
proof -
  have "\<not> call_ok Fn_ZipConSign []" by (simp add: call_ok_simps)
  then show ?thesis
    using driver_calls_well_formed [of strict_call quiet_library "\<lambda>_. None"] by (simp add: strict_call_def quiet_library_def)
qed

end
