(* ===== verification/Spec2Isabelle.thy ===== *)
theory Spec2Isabelle
  imports Isolated_Call Client_Gate OCSP_Client XML_Certificates Zip_Output Observation Native_Driver
begin

text \<open>
  A verification library for the Go module \<^verbatim>\<open>kalkan\<close>, a wrapper of the KalkanCrypt
  library for signatures, certificates and time stamps.

  \<^bold>\<open>The program.\<close> Package \<^verbatim>\<open>ckalkan\<close> binds the vendor library: one client per
  process, native calls with output buffers that grow on demand, status codes as errors. The root
  package \<^verbatim>\<open>kalkan\<close> is the typed client on top of it: it checks its inputs, translates them
  to native flags, and serialises the calls of concurrent goroutines with a gate that also orders them
  with shutdown. Package \<^verbatim>\<open>isolated\<close> runs such a client in a worker process: the parent sends
  requests in frames over a pipe and gets results, errors and observations back.
  \<^verbatim>\<open>internal/certsig\<close> verifies certificate and OCSP signatures in Go, with its own GOST R
  34.10-2012 and 34.11-2012.

  \<^bold>\<open>Theories and sources.\<close>
  \<^item> \<^verbatim>\<open>Prelude\<close>, \<^verbatim>\<open>Transition_System\<close>, \<^verbatim>\<open>Go_Errors\<close>: bytes, words, the
    state monad; reachable states and the locale for invariants; instants and error trees with
    \<^verbatim>\<open>errors.Is\<close> and \<^verbatim>\<open>errors.As\<close>.
  \<^item> \<^verbatim>\<open>Error_Codes\<close> (\<^verbatim>\<open>ckalkan/error_codes.go\<close>, \<^verbatim>\<open>error_labels.go\<close>,
    \<^verbatim>\<open>errors.go\<close>): every code with both labels and its rendering.
  \<^item> \<^verbatim>\<open>Output_Capacity\<close>, \<^verbatim>\<open>Native_Calls\<close>, \<^verbatim>\<open>Native_Verify\<close>
    (\<^verbatim>\<open>buffer.go\<close>, \<^verbatim>\<open>output_estimate.go\<close>, \<^verbatim>\<open>verify.go\<close>, \<^verbatim>\<open>x509.go\<close> and
    the platform policies): capacities, retry loops and multi-output calls over a native library that
    is a parameter, a record of functions on a state of its own.
  \<^item> \<^verbatim>\<open>Native_Driver\<close> (\<^verbatim>\<open>ckalkan/internal/kalkancrypt\<close>): the context of the library on
    Linux, an instance of that record, over the function table of the vendor library.
  \<^item> \<^verbatim>\<open>Ckalkan_Client\<close>, \<^verbatim>\<open>Ckalkan_Process\<close> (the methods of \<^verbatim>\<open>ckalkan\<close> and
    \<^verbatim>\<open>client.go\<close>): every operation, and the process slot as a transition system.
  \<^item> \<^verbatim>\<open>Kalkan_Types\<close>, \<^verbatim>\<open>Input_Policy\<close>, \<^verbatim>\<open>Kalkan_Operations\<close>,
    \<^verbatim>\<open>Kalkan_Open\<close>, \<^verbatim>\<open>Client_Gate\<close> (root package: \<^verbatim>\<open>source.go\<close>,
    \<^verbatim>\<open>policy.go\<close>, \<^verbatim>\<open>endpoint_policy.go\<close>, \<^verbatim>\<open>hash.go\<close>, \<^verbatim>\<open>cms.go\<close>,
    \<^verbatim>\<open>certificate.go\<close>, \<^verbatim>\<open>zip.go\<close>, \<^verbatim>\<open>option.go\<close>, \<^verbatim>\<open>client.go\<close>):
    request types, input checks, operations on a session, options and open, and the interleaving of
    goroutines over the gate.
  \<^item> \<^verbatim>\<open>XML_Structure\<close>, \<^verbatim>\<open>XML_Binding\<close>, \<^verbatim>\<open>XML_Operations\<close>
    (\<^verbatim>\<open>xml.go\<close>): the scan that ties a SOAP signature to the expected Body, and the operations
    that use it. The tokenizer of \<^verbatim>\<open>encoding/xml\<close> is an argument; \<open>nested_decoder\<close> states
    that its tokens are those of nested elements.
  \<^item> \<^verbatim>\<open>Certificate_PEM\<close>, \<^verbatim>\<open>X509_Library\<close>, \<^verbatim>\<open>Certificate_Info\<close>,
    \<^verbatim>\<open>XML_Certificates\<close> (\<^verbatim>\<open>certificate_pem.go\<close>, \<^verbatim>\<open>certificate_info.go\<close>,
    \<^verbatim>\<open>certificate_xml_input.go\<close>): PEM, certificate properties with the PEM cache, signer lists,
    and the copy of an XML document from which signer certificates are read.
  \<^item> \<^verbatim>\<open>Zip_Output\<close>, \<^verbatim>\<open>Observation\<close> (\<^verbatim>\<open>zip.go\<close>,
    \<^verbatim>\<open>zip_policy.go\<close>, \<^verbatim>\<open>observation.go\<close>): signed ZIP containers with staged output over
    file operations that are arguments, and what the observer and the logger are given.
  \<^item> \<^verbatim>\<open>DER\<close>, \<^verbatim>\<open>Cert_Signature\<close> (\<^verbatim>\<open>internal/certsig\<close>): the part of
    \<^verbatim>\<open>encoding/asn1\<close> the sources rely on, and the signatures of certificates and responses.
  \<^item> \<^verbatim>\<open>OCSP_Response\<close>, \<^verbatim>\<open>OCSP_Client\<close> (\<^verbatim>\<open>ocsp.go\<close>,
    \<^verbatim>\<open>ocsp_certificate.go\<close>, \<^verbatim>\<open>ocsp_client.go\<close>, \<^verbatim>\<open>validate.go\<close>): requests,
    responses and responders, and certificate validation with them. SHA-1, the parser and the
    verifiers of \<^verbatim>\<open>crypto/x509\<close>, and the HTTP client are arguments.
  \<^item> \<^verbatim>\<open>Streebog_Tables\<close>, \<^verbatim>\<open>Streebog\<close>, \<^verbatim>\<open>Gost_Curve\<close>,
    \<^verbatim>\<open>Gost_Params\<close> (\<^verbatim>\<open>internal/certsig/internal/gogost\<close>): the hash with its tables,
    beside the definition of RFC 6986; curves, keys, verification and the parameter sets.
  \<^item> \<^verbatim>\<open>Wire_Metadata\<close>, \<^verbatim>\<open>Wire_Codec\<close>, \<^verbatim>\<open>Protocol_Fields\<close>,
    \<^verbatim>\<open>Protocol_Operations\<close>, \<^verbatim>\<open>Protocol_Results\<close>, \<^verbatim>\<open>Protocol_Config\<close>,
    \<^verbatim>\<open>Protocol_Errors\<close>, \<^verbatim>\<open>Frame\<close>, \<^verbatim>\<open>Frame_Transport\<close>, \<^verbatim>\<open>Frame_Errors\<close>
    (\<^verbatim>\<open>isolated/protocol*.go\<close>): the wire format and its frames.
  \<^item> \<^verbatim>\<open>Isolated_Worker\<close>, \<^verbatim>\<open>Isolated_Client\<close>, \<^verbatim>\<open>Isolated_Call\<close>
    (\<^verbatim>\<open>isolated/worker.go\<close>, \<^verbatim>\<open>client.go\<close>, \<^verbatim>\<open>process.go\<close>,
    \<^verbatim>\<open>operations.go\<close>, \<^verbatim>\<open>config.go\<close>): the worker's event loop, the parent's client,
    and both connected by pipes.

  \<^bold>\<open>State and operations.\<close> A struct is a record whose fields carry the struct's initials; an
  operation that changes state is a computation of the state monad, and an error is the left summand
  of its result. A nil slice differs from an empty one (\<^typ>\<open>char list option\<close>). What the
  scheduler, a context or the operating system decides is an argument of the operation that asks for
  it. Concurrent components are step relations (\<^verbatim>\<open>Client_Gate\<close>, \<^verbatim>\<open>Isolated_Worker\<close>,
  \<^verbatim>\<open>Ckalkan_Process\<close>), and their invariants hold in every reachable state.

  \<^bold>\<open>What the lemmas show.\<close> Round trips: requests, results, configurations, errors, frames,
  PEM, public keys and saved hash states arrive as they were sent. Refinement: a call on an isolated
  client is the call in the worker (\<open>isolated_call_transparent\<close>), and the interleaved gate is a
  sequence of calls followed by a shutdown (\<open>gate_refines_session\<close>). Safety: no input makes the
  frame reader panic or allocate more than it received plus a chunk; a verification that succeeds was
  made by the library on the very input and flags of the request; a SOAP signature covers the Body
  the caller expects; a failed open leaks nothing; at most one client is open in a process; an atomic ZIP output appears
  whole or not at all; the Linux driver calls the vendor library with well-formed memory only; the copy of an XML document loses signature identifiers only; an observation
  shows no error text.
  Liveness and termination: retry loops end within their capacity bounds, the gate drains, a shutdown
  reaps the worker. Equivalence: estimates, endpoint policies, the PEM cache, the hash and the
  signature equation agree with their declarative descriptions, and so do the certificates and OCSP
  statuses that are accepted.

  \<^bold>\<open>Bounds and fuel.\<close> No definition uses fuel: the retry loops end because capacities grow to
  the hard limit, the scans because their input shrinks, error trees are cut at depth 32 as in the
  code. Integers keep their width where the code relies on it (\<^typ>\<open>64 word\<close> on the wire and in
  the hash, 16-bit carries, saturation in the estimates); the hash theorem asks for messages below
  \<open>2^61\<close> octets because the counter counts bits in 64 bits.

  \<^bold>\<open>Not modelled.\<close> The vendor library and the standard input and output of the worker are outside
  the sources or operating system calls; the model's parameters stand for them. The Windows driver of
  \<^verbatim>\<open>ckalkan/internal/kalkancrypt\<close> repeats the Linux one through system calls with untyped
  arguments. \<^verbatim>\<open>openLibrary\<close> of the worker is the parameter that makes the session.
  Where an operation reports an observation, the model of the operation leaves the report out.
\<close>

end
